(* ===== verification/Prelude.thy ===== *)
theory Prelude
  imports Complex_Main "HOL-Library.Char_ord" "HOL-Library.List_Lexorder"
begin

section \<open>Shared notions of the development\<close>

text \<open>
  What every component of the development uses: results that may be an error, the collections of
  rewrite rules, in-place updates of arrays found by a predicate, and decimal rendering.
  A JavaScript exception is the left part of a sum; a returned value the right part.
\<close>

subsection \<open>Errors and results\<close>

text \<open>
  The errors the modelled code throws: a \<^verbatim>\<open>TypeError\<close>, a plain \<^verbatim>\<open>Error\<close>, and an \<^verbatim>\<open>Error\<close> that carries
  a stable \<^verbatim>\<open>code\<close> property. \<open>No_Return\<close> is not an exception: it stands for a synchronous loop that
  does not end, after which the calling operation does nothing more, so it is never caught.
\<close>

datatype js_error =
    Type_Error string
  | Plain_Error string
  | Coded_Error string string
  | No_Return

type_synonym 'a res = "js_error + 'a"

named_theorems res_simps
named_theorems ledger_simps

definition rbind :: "'e + 'a \<Rightarrow> ('a \<Rightarrow> 'e + 'b) \<Rightarrow> 'e + 'b" where
  "rbind r f = (case r of Inl e \<Rightarrow> Inl e | Inr x \<Rightarrow> f x)"

lemma rbind_Inl [simp]: "rbind (Inl e) f = Inl e"
  by (simp add: rbind_def)

lemma rbind_Inr [simp]: "rbind (Inr x) f = f x"
  by (simp add: rbind_def)

lemma rbind_eq_Inr [res_simps]:
  "rbind r f = Inr y \<longleftrightarrow> (\<exists>x. r = Inr x \<and> f x = Inr y)"
  by (cases r) simp_all

lemma rbind_eq_Inl [res_simps]:
  "rbind r f = Inl e \<longleftrightarrow> r = Inl e \<or> (\<exists>x. r = Inr x \<and> f x = Inl e)"
  by (cases r) simp_all

definition returns :: "'a option \<Rightarrow> 'a res" where
  "returns x = (case x of Some y \<Rightarrow> Inr y | None \<Rightarrow> Inl No_Return)"

lemma returns_simps [simp]: "returns (Some y) = Inr y" "returns None = Inl No_Return"
  by (simp_all add: returns_def)

lemma returns_eq_Inr [res_simps]: "returns x = Inr y \<longleftrightarrow> x = Some y"
  by (cases x) simp_all

text \<open>\<open>rmap\<close> computes every element of a list and stops at the first error.\<close>

fun rmap :: "('a \<Rightarrow> 'b res) \<Rightarrow> 'a list \<Rightarrow> 'b list res" where
  "rmap f [] = Inr []"
| "rmap f (x # xs) = rbind (f x) (\<lambda>y. rbind (rmap f xs) (\<lambda>ys. Inr (y # ys)))"

lemma rmap_Inr: "rmap f xs = Inr ys \<longleftrightarrow> list_all2 (\<lambda>x y. f x = Inr y) xs ys"
  by (induction xs arbitrary: ys) (auto simp: rbind_eq_Inr list_all2_Cons1)

lemma rmap_total: "(\<And>x. x \<in> set xs \<Longrightarrow> \<exists>y. f x = Inr y) \<Longrightarrow> \<exists>ys. rmap f xs = Inr ys"
  by (induction xs) (auto simp: rbind_eq_Inr)

subsection \<open>Arrays updated in place\<close>

text \<open>
  \<^verbatim>\<open>const x = xs.find(p); mutate(x)\<close> changes the first element that satisfies \<open>p\<close>;
  \<^verbatim>\<open>xs.splice(xs.indexOf(x), 1)\<close> after the same \<^verbatim>\<open>find\<close> removes it.
\<close>

fun update_first :: "('a \<Rightarrow> bool) \<Rightarrow> ('a \<Rightarrow> 'a) \<Rightarrow> 'a list \<Rightarrow> 'a list" where
  "update_first p f [] = []"
| "update_first p f (x # xs) = (if p x then f x # xs else x # update_first p f xs)"

fun remove_first :: "('a \<Rightarrow> bool) \<Rightarrow> 'a list \<Rightarrow> 'a list" where
  "remove_first p [] = []"
| "remove_first p (x # xs) = (if p x then xs else x # remove_first p xs)"

lemma length_update_first [simp]: "length (update_first p f xs) = length xs"
  by (induction xs) auto

lemma set_remove_first: "set (remove_first p xs) \<subseteq> set xs"
  by (induction xs) auto

lemma set_update_first: "y \<in> set (update_first p f xs) \<Longrightarrow> y \<in> set xs \<or> (\<exists>x \<in> set xs. p x \<and> y = f x)"
  by (induction xs) (auto split: if_splits)

lemma find_Some_set: "find p xs = Some x \<Longrightarrow> x \<in> set xs \<and> p x"
  by (induction xs) (auto split: if_splits)

lemma find_None_set: "find p xs = None \<longleftrightarrow> (\<forall>x \<in> set xs. \<not> p x)"
  by (induction xs) auto

lemma update_first_other: "x \<in> set xs \<Longrightarrow> \<not> p x \<Longrightarrow> x \<in> set (update_first p f xs)"
  by (induction xs) auto

lemma update_first_put: "x \<in> set xs \<Longrightarrow> p x \<Longrightarrow> y \<in> set (update_first p (\<lambda>_. y) xs)"
  by (induction xs) auto

lemma update_first_absent: "find p xs = None \<Longrightarrow> update_first p f xs = xs"
  by (induction xs) (auto split: if_splits)

lemma find_append_new: "find p (xs @ [x]) = (case find p xs of None \<Rightarrow> (if p x then Some x else None) | Some y \<Rightarrow> Some y)"
  by (induction xs) auto

lemma find_key_distinct:
  "distinct (map key xs) \<Longrightarrow> x \<in> set xs \<Longrightarrow> find (\<lambda>y. key y = key x) xs = Some x"
  by (induction xs) (auto simp: image_iff)

text \<open>Records of the program are looked up by a key that no operation changes.\<close>

locale keyed_rows =
  fixes key :: "'r \<Rightarrow> 'k" and upd :: "'r \<Rightarrow> 'r"
  assumes key_upd [simp]: "key (upd x) = key x"
begin

lemma keys_update_first [simp]: "map key (update_first p upd xs) = map key xs"
  by (induction xs) auto

lemma find_update_first:
  "find (\<lambda>x. key x = k) (update_first (\<lambda>x. key x = k') upd xs) =
    (if k = k' then map_option upd (find (\<lambda>x. key x = k) xs) else find (\<lambda>x. key x = k) xs)"
  by (induction xs) auto

lemma update_first_map:
  assumes "distinct (map key xs)"
  shows "update_first (\<lambda>x. key x = k) upd xs = map (\<lambda>x. if key x = k then upd x else x) xs"
  using assms
proof (induction xs)
  case Nil
  then show ?case by simp
next
  case (Cons x xs)
  have "map (\<lambda>y. if key y = k then upd y else y) xs = xs" if "key x = k"
    using that Cons.prems by (intro map_idI) (auto simp: image_iff)
  with Cons show ?case by auto
qed

lemma filter_update_first_other:
  assumes "\<And>x. q (upd x) \<longleftrightarrow> q x" and "\<And>x. key x = k \<Longrightarrow> \<not> q x"
  shows "filter q (update_first (\<lambda>x. key x = k) upd xs) = filter q xs"
  using assms by (induction xs) auto

end

lemma distinct_remove_first_keys:
  "distinct (map key xs) \<Longrightarrow> distinct (map key (remove_first p xs))"
proof (induction xs)
  case (Cons x xs)
  then show ?case using set_remove_first[of p xs] by auto
qed simp

subsection \<open>Decimal rendering\<close>

text \<open>\<^verbatim>\<open>String(n)\<close> for an integer \<open>n\<close>.\<close>

definition digit_char :: "nat \<Rightarrow> char" where
  "digit_char d = char_of (48 + d)"

fun nat_str :: "nat \<Rightarrow> string" where
  "nat_str n = (if n < 10 then [digit_char n] else nat_str (n div 10) @ [digit_char (n mod 10)])"

declare nat_str.simps [simp del]

definition int_str :: "int \<Rightarrow> string" where
  "int_str i = (if i < 0 then CHR ''-'' # nat_str (nat (- i)) else nat_str (nat i))"

definition is_digit :: "char \<Rightarrow> bool" where
  "is_digit c \<longleftrightarrow> 48 \<le> (of_char c :: nat) \<and> (of_char c :: nat) \<le> 57"

definition digit_value :: "char \<Rightarrow> nat" where
  "digit_value c = of_char c - 48"

fun digits_value :: "nat \<Rightarrow> string \<Rightarrow> nat" where
  "digits_value acc [] = acc"
| "digits_value acc (c # cs) = digits_value (10 * acc + digit_value c) cs"

lemma of_char_digit_char: "d < 10 \<Longrightarrow> (of_char (digit_char d) :: nat) = 48 + d"
  by (simp add: digit_char_def)

lemma is_digit_digit_char: "d < 10 \<Longrightarrow> is_digit (digit_char d)"
  by (simp add: is_digit_def of_char_digit_char)

lemma digit_value_digit_char: "d < 10 \<Longrightarrow> digit_value (digit_char d) = d"
  by (simp add: digit_value_def of_char_digit_char)

lemma nat_str_digits: "c \<in> set (nat_str n) \<Longrightarrow> is_digit c"
proof (induction n rule: nat_str.induct)
  case (1 n)
  then show ?case
    by (subst (asm) (2) nat_str.simps) (auto split: if_splits simp: is_digit_digit_char)
qed

lemma nat_str_nonempty [simp]: "nat_str n \<noteq> []"
  by (subst nat_str.simps) simp

lemma digits_value_append: "digits_value a (xs @ ys) = digits_value (digits_value a xs) ys"
  by (induction xs arbitrary: a) auto

lemma digits_value_nat_str: "digits_value 0 (nat_str n) = n"
proof (induction n rule: nat_str.induct)
  case (1 n)
  then show ?case
    by (subst nat_str.simps) (auto simp: digits_value_append digit_value_digit_char)
qed

lemma nat_str_inj: "nat_str m = nat_str n \<longleftrightarrow> m = n"
  using digits_value_nat_str by metis

lemma int_str_inj: "int_str i = int_str j \<longleftrightarrow> i = j"
proof
  assume eq: "int_str i = int_str j"
  have minus: "CHR ''-'' \<notin> set (nat_str n)" for n
    using nat_str_digits[of "CHR ''-''" n] by (auto simp: is_digit_def)
  from eq minus show "i = j"
    by (auto simp: int_str_def nat_str_inj split: if_splits)
      (metis list.set_intros(1) minus)+
qed simp

end
