(* ===== verification/JsVal.thy ===== *)
theory JsVal
  imports Prelude
begin

section \<open>JavaScript values at the untyped boundary\<close>

text \<open>
  Input that has not been validated yet (a job definition read from disk or sent by a caller) is a
  JavaScript value. Numbers are rationals with the three non-finite doubles beside them: the model
  computes exactly where the code rounds to a double, which agrees on every integer up to
  \<open>2 ^ 53\<close>. A character of a string is a code unit below 256. An object is an association list in
  insertion order.
\<close>

datatype jsnum = NaN | PosInf | NegInf | Num rat

datatype jval =
    JUndef
  | JNull
  | JBool bool
  | JNum jsnum
  | JStr string
  | JArr "jval list"
  | JObj "(string \<times> jval) list"

abbreviation JInt :: "int \<Rightarrow> jval" where
  "JInt i \<equiv> JNum (Num (of_int i))"

text \<open>
  The functions of the host and of the packages the code calls: the \<^verbatim>\<open>croner\<close> evaluator (which
  expressions its constructor accepts in which time zone, the next and the previous run around an
  instant), the time zone of the machine, \<^verbatim>\<open>Date.parse\<close> and \<^verbatim>\<open>toISOString\<close>, and the conversions between
  decimal text and doubles.
\<close>

record ext =
  cron_ok :: "string \<Rightarrow> string \<Rightarrow> bool"
  cron_next :: "string \<Rightarrow> string \<Rightarrow> int \<Rightarrow> int option"
  cron_prev :: "string \<Rightarrow> string \<Rightarrow> int \<Rightarrow> int option"
  host_tz :: string
  date_parse :: "string \<Rightarrow> int option"
  to_iso :: "int \<Rightarrow> string option"
  str_num :: "string \<Rightarrow> jsnum"
  frac_str :: "jsnum \<Rightarrow> string"

definition ensure :: "bool \<Rightarrow> js_error \<Rightarrow> unit res" where
  "ensure b e = (if b then Inr () else Inl e)"

lemma ensure_eq_Inr [res_simps]: "ensure b e = Inr u \<longleftrightarrow> b"
  by (simp add: ensure_def)

lemma ensure_eq_Inl [res_simps]: "ensure b e = Inl e' \<longleftrightarrow> \<not> b \<and> e' = e"
  by (auto simp: ensure_def)

lemma ensure_True [simp]: "b \<Longrightarrow> ensure b e = Inr ()"
  by (simp add: ensure_def)

subsection \<open>Strings\<close>

definition is_ws :: "char \<Rightarrow> bool" where
  "is_ws c \<longleftrightarrow> (let n = (of_char c :: nat) in (9 \<le> n \<and> n \<le> 13) \<or> n = 32 \<or> n = 160)"

definition js_trim :: "string \<Rightarrow> string" where
  "js_trim s = rev (dropWhile is_ws (rev (dropWhile is_ws s)))"

definition lower_char :: "char \<Rightarrow> char" where
  "lower_char c = (let n = (of_char c :: nat)
    in if (65 \<le> n \<and> n \<le> 90) \<or> (192 \<le> n \<and> n \<le> 222 \<and> n \<noteq> 215) then char_of (n + 32) else c)"

definition js_lower :: "string \<Rightarrow> string" where
  "js_lower s = map lower_char s"

text \<open>\<^verbatim>\<open>s.split(/\s+/).filter(Boolean)\<close>: the maximal runs of characters that are not white space.\<close>

fun split_words :: "string \<Rightarrow> string \<Rightarrow> string list" where
  "split_words acc [] = (if acc = [] then [] else [rev acc])"
| "split_words acc (c # cs) =
     (if is_ws c then (if acc = [] then [] else [rev acc]) @ split_words [] cs
      else split_words (c # acc) cs)"

definition words_of :: "string \<Rightarrow> string list" where
  "words_of s = split_words [] s"

text \<open>Pattern matching against a template whose \<^verbatim>\<open>d\<close> stands for a decimal digit.\<close>

fun matches_template :: "string \<Rightarrow> string \<Rightarrow> bool" where
  "matches_template [] [] = True"
| "matches_template (t # ts) (c # cs) =
     ((if t = CHR ''d'' then is_digit c else c = t) \<and> matches_template ts cs)"
| "matches_template _ _ = False"

definition all_digits :: "string \<Rightarrow> bool" where
  "all_digits s \<longleftrightarrow> s \<noteq> [] \<and> list_all is_digit s"

lemma dropWhile_idem_hd: "(xs = [] \<or> \<not> p (hd xs)) \<Longrightarrow> dropWhile p xs = xs"
  by (cases xs) auto

lemma js_trim_noop:
  assumes "s = [] \<or> (\<not> is_ws (hd s) \<and> \<not> is_ws (last s))"
  shows "js_trim s = s"
  using assms by (cases "s = []") (simp_all add: js_trim_def dropWhile_idem_hd hd_rev)

lemma js_trim_ends:
  "js_trim s = [] \<or> (\<not> is_ws (hd (js_trim s)) \<and> \<not> is_ws (last (js_trim s)))"
proof (cases "js_trim s = []")
  case False
  let ?d = "dropWhile is_ws s" and ?e = "dropWhile is_ws (rev (dropWhile is_ws s))"
  have e: "?e \<noteq> []" and d: "?d \<noteq> []"
    using False by (cases "?d = []", auto simp: js_trim_def)+
  have "last (js_trim s) = hd ?e"
    using e by (simp add: js_trim_def last_rev)
  moreover have "\<not> is_ws (hd ?e)"
    using e by (rule hd_dropWhile)
  moreover have "last ?e = last (rev ?d)"
    using e by (metis last_appendR takeWhile_dropWhile_id)
  then have "hd (js_trim s) = hd ?d"
    using d e by (simp add: js_trim_def hd_rev last_rev)
  moreover have "\<not> is_ws (hd ?d)"
    using d by (rule hd_dropWhile)
  ultimately show ?thesis by simp
qed simp

lemma js_trim_idem [simp]: "js_trim (js_trim s) = js_trim s"
  using js_trim_ends by (rule js_trim_noop)

subsection \<open>Numbers\<close>

fun num_finite :: "jval \<Rightarrow> bool" where
  "num_finite (JNum (Num _)) = True"
| "num_finite _ = False"

fun num_floor :: "jval \<Rightarrow> int" where
  "num_floor (JNum (Num q)) = \<lfloor>q\<rfloor>"
| "num_floor _ = 0"

definition max_safe :: int where
  "max_safe = 2 ^ 53 - 1"

definition is_safe_int :: "int \<Rightarrow> bool" where
  "is_safe_int i \<longleftrightarrow> \<bar>i\<bar> \<le> max_safe"

fun safe_integer :: "jval \<Rightarrow> bool" where
  "safe_integer (JNum (Num q)) = (q = of_int \<lfloor>q\<rfloor> \<and> is_safe_int \<lfloor>q\<rfloor>)"
| "safe_integer _ = False"

lemma num_finite_JInt [simp]: "num_finite (JInt i)" and num_floor_JInt [simp]: "num_floor (JInt i) = i"
  and safe_integer_JInt [simp]: "safe_integer (JInt i) = is_safe_int i"
  by simp_all

subsection \<open>Property access and conversions\<close>

fun is_object :: "jval \<Rightarrow> bool" where
  "is_object (JArr _) = True"
| "is_object (JObj _) = True"
| "is_object _ = False"

fun jget :: "jval \<Rightarrow> string \<Rightarrow> jval" where
  "jget (JObj kvs) k = (case map_of kvs k of None \<Rightarrow> JUndef | Some v \<Rightarrow> v)"
| "jget _ k = JUndef"

fun is_str :: "jval \<Rightarrow> bool" where
  "is_str (JStr _) = True"
| "is_str _ = False"

fun str_val :: "jval \<Rightarrow> string" where
  "str_val (JStr s) = s"
| "str_val _ = []"

fun nullish :: "jval \<Rightarrow> bool" where
  "nullish JUndef = True"
| "nullish JNull = True"
| "nullish _ = False"

definition coalesce :: "jval \<Rightarrow> jval \<Rightarrow> jval" where
  "coalesce v d = (if nullish v then d else v)"

fun num_str :: "ext \<Rightarrow> jsnum \<Rightarrow> string" where
  "num_str X NaN = ''NaN''"
| "num_str X PosInf = ''Infinity''"
| "num_str X NegInf = ''-Infinity''"
| "num_str X (Num q) = (if q = of_int \<lfloor>q\<rfloor> then int_str \<lfloor>q\<rfloor> else frac_str X (Num q))"

fun join_with :: "string \<Rightarrow> string list \<Rightarrow> string" where
  "join_with sep [] = []"
| "join_with sep [x] = x"
| "join_with sep (x # y # zs) = x @ sep @ join_with sep (y # zs)"

text \<open>\<^verbatim>\<open>String(v)\<close>; an array renders its elements joined by commas, with null and undefined empty.\<close>

fun js_string :: "ext \<Rightarrow> jval \<Rightarrow> string" where
  "js_string X JUndef = ''undefined''"
| "js_string X JNull = ''null''"
| "js_string X (JBool b) = (if b then ''true'' else ''false'')"
| "js_string X (JNum n) = num_str X n"
| "js_string X (JStr s) = s"
| "js_string X (JArr vs) = join_with '','' (map (\<lambda>v. if nullish v then [] else js_string X v) vs)"
| "js_string X (JObj kvs) = ''[object Object]''"

text \<open>\<^verbatim>\<open>Number(v)\<close>.\<close>

fun js_number :: "ext \<Rightarrow> jval \<Rightarrow> jsnum" where
  "js_number X JUndef = NaN"
| "js_number X JNull = Num 0"
| "js_number X (JBool b) = Num (if b then 1 else 0)"
| "js_number X (JNum n) = n"
| "js_number X (JStr s) = str_num X s"
| "js_number X (JArr vs) = str_num X (js_string X (JArr vs))"
| "js_number X (JObj kvs) = NaN"

text \<open>
  An object literal: a property whose value is \<^verbatim>\<open>undefined\<close> reads like an absent one and is dropped by
  \<^verbatim>\<open>JSON.stringify\<close>. \<^verbatim>\<open>{...a, ...b}\<close> is \<open>merge_obj\<close>: the properties of \<open>b\<close> win.
\<close>

definition obj_of :: "(string \<times> jval) list \<Rightarrow> jval" where
  "obj_of kvs = JObj (filter (\<lambda>kv. snd kv \<noteq> JUndef) kvs)"

fun obj_fields :: "jval \<Rightarrow> (string \<times> jval) list" where
  "obj_fields (JObj kvs) = kvs"
| "obj_fields _ = []"

definition merge_obj :: "jval \<Rightarrow> jval \<Rightarrow> jval" where
  "merge_obj a b = JObj (obj_fields b @ obj_fields a)"

lemma jget_obj_of_Cons [simp]:
  "jget (obj_of ((k, v) # kvs)) q = (if v \<noteq> JUndef \<and> q = k then v else jget (obj_of kvs) q)"
  by (simp add: obj_of_def)

lemma jget_obj_of_Nil [simp]: "jget (obj_of []) q = JUndef"
  by (simp add: obj_of_def)

lemma is_object_obj_of [simp]: "is_object (obj_of kvs)"
  by (simp add: obj_of_def)

lemma jget_merge_obj:
  "jget (merge_obj (JObj a) (JObj b)) k =
     (case map_of b k of Some v \<Rightarrow> v | None \<Rightarrow> jget (JObj a) k)"
  by (simp add: merge_obj_def map_add_def split: option.splits)

text \<open>A typed field as the property value it is stored as; an absent one is \<^verbatim>\<open>undefined\<close>.\<close>

definition opt_val :: "('a \<Rightarrow> jval) \<Rightarrow> 'a option \<Rightarrow> jval" where
  "opt_val f o' = (case o' of None \<Rightarrow> JUndef | Some x \<Rightarrow> f x)"

lemma opt_val_simps [simp]: "opt_val f None = JUndef" "opt_val f (Some x) = f x"
  by (simp_all add: opt_val_def)

text \<open>Strings as \<^verbatim>\<open>JSON.stringify\<close> writes them.\<close>

definition hex_digit :: "nat \<Rightarrow> char" where
  "hex_digit d = (if d < 10 then char_of (48 + d) else char_of (87 + d))"

definition json_char :: "char \<Rightarrow> string" where
  "json_char c = (let n = (of_char c :: nat) in
    if n = 34 then [char_of (92 :: nat), char_of (34 :: nat)]
    else if n = 92 then [char_of (92 :: nat), char_of (92 :: nat)]
    else if n = 8 then [char_of (92 :: nat), CHR ''b'']
    else if n = 12 then [char_of (92 :: nat), CHR ''f'']
    else if n = 10 then [char_of (92 :: nat), CHR ''n'']
    else if n = 13 then [char_of (92 :: nat), CHR ''r'']
    else if n = 9 then [char_of (92 :: nat), CHR ''t'']
    else if n < 32 then [char_of (92 :: nat), CHR ''u'', CHR ''0'', CHR ''0'', hex_digit (n div 16), hex_digit (n mod 16)]
    else [c])"

definition json_string :: "string \<Rightarrow> string" where
  "json_string s = [char_of (34 :: nat)] @ concat (map json_char s) @ [char_of (34 :: nat)]"

end
