(* ===== verification/Sha256.thy ===== *)
theory Sha256
  imports JsVal "HOL-Library.Word"
begin

unbundle bit_operations_syntax

section \<open>SHA-256\<close>

text \<open>
  \<^verbatim>\<open>createHash('sha256').update(text, 'utf8').digest('hex')\<close> of Node, as FIPS 180-4 defines it: the
  identities of occurrences and the payload hashes are digests, and the stagger of a job is the
  first word of one.
\<close>

type_synonym w32 = "32 word"

definition sha_k :: "w32 list" where
  "sha_k = [
    1116352408, 1899447441, 3049323471, 3921009573, 961987163, 1508970993, 2453635748, 2870763221,
    3624381080, 310598401, 607225278, 1426881987, 1925078388, 2162078206, 2614888103, 3248222580,
    3835390401, 4022224774, 264347078, 604807628, 770255983, 1249150122, 1555081692, 1996064986,
    2554220882, 2821834349, 2952996808, 3210313671, 3336571891, 3584528711, 113926993, 338241895,
    666307205, 773529912, 1294757372, 1396182291, 1695183700, 1986661051, 2177026350, 2456956037,
    2730485921, 2820302411, 3259730800, 3345764771, 3516065817, 3600352804, 4094571909, 275423344,
    430227734, 506948616, 659060556, 883997877, 958139571, 1322822218, 1537002063, 1747873779,
    1955562222, 2024104815, 2227730452, 2361852424, 2428436474, 2756734187, 3204031479, 3329325298]"

record sha_state =
  s_a :: w32  s_b :: w32  s_c :: w32  s_d :: w32
  s_e :: w32  s_f :: w32  s_g :: w32  s_h :: w32

definition sha_init :: sha_state where
  "sha_init = \<lparr>s_a = 1779033703, s_b = 3144134277, s_c = 1013904242, s_d = 2773480762,
    s_e = 1359893119, s_f = 2600822924, s_g = 528734635, s_h = 1541459225\<rparr>"

definition rotr :: "nat \<Rightarrow> w32 \<Rightarrow> w32" where
  "rotr n x = (drop_bit n x) OR (push_bit (32 - n) x)"

definition small_sigma0 :: "w32 \<Rightarrow> w32" where
  "small_sigma0 x = (rotr 7 x XOR rotr 18 x) XOR drop_bit 3 x"

definition small_sigma1 :: "w32 \<Rightarrow> w32" where
  "small_sigma1 x = (rotr 17 x XOR rotr 19 x) XOR drop_bit 10 x"

fun sha_expand :: "nat \<Rightarrow> w32 list \<Rightarrow> w32 list" where
  "sha_expand 0 ws = ws"
| "sha_expand (Suc n) ws = sha_expand n
     (ws @ [small_sigma1 (ws ! (length ws - 2)) + ws ! (length ws - 7)
            + small_sigma0 (ws ! (length ws - 15)) + ws ! (length ws - 16)])"

definition sha_round :: "sha_state \<Rightarrow> w32 \<times> w32 \<Rightarrow> sha_state" where
  "sha_round s kw = (let
      t1 = s_h s + ((rotr 6 (s_e s) XOR rotr 11 (s_e s)) XOR rotr 25 (s_e s))
           + ((s_e s AND s_f s) XOR (NOT (s_e s) AND s_g s)) + fst kw + snd kw;
      t2 = ((rotr 2 (s_a s) XOR rotr 13 (s_a s)) XOR rotr 22 (s_a s))
           + (((s_a s AND s_b s) XOR (s_a s AND s_c s)) XOR (s_b s AND s_c s))
    in \<lparr>s_a = t1 + t2, s_b = s_a s, s_c = s_b s, s_d = s_c s,
        s_e = s_d s + t1, s_f = s_e s, s_g = s_f s, s_h = s_g s\<rparr>)"

definition sha_add :: "sha_state \<Rightarrow> sha_state \<Rightarrow> sha_state" where
  "sha_add x y = \<lparr>s_a = s_a x + s_a y, s_b = s_b x + s_b y, s_c = s_c x + s_c y, s_d = s_d x + s_d y,
    s_e = s_e x + s_e y, s_f = s_f x + s_f y, s_g = s_g x + s_g y, s_h = s_h x + s_h y\<rparr>"

fun be_words :: "nat list \<Rightarrow> w32 list" where
  "be_words (a # b # c # d # rest) =
     (push_bit 24 (of_nat a) + push_bit 16 (of_nat b) + push_bit 8 (of_nat c) + of_nat d) # be_words rest"
| "be_words _ = []"

definition sha_block :: "sha_state \<Rightarrow> nat list \<Rightarrow> sha_state" where
  "sha_block s bytes =
     sha_add s (foldl sha_round s (zip sha_k (sha_expand 48 (be_words bytes))))"

function sha_blocks :: "sha_state \<Rightarrow> nat list \<Rightarrow> sha_state" where
  "sha_blocks s bytes =
     (if bytes = [] then s else sha_blocks (sha_block s (take 64 bytes)) (drop 64 bytes))"
  by pat_completeness auto
termination
  by (relation "measure (\<lambda>(s, bytes). length bytes)") auto

declare sha_blocks.simps [simp del]

fun be_bytes :: "nat \<Rightarrow> nat \<Rightarrow> nat list" where
  "be_bytes 0 n = []"
| "be_bytes (Suc k) n = be_bytes k (n div 256) @ [n mod 256]"

definition sha_pad :: "nat list \<Rightarrow> nat list" where
  "sha_pad bytes = bytes @ [128]
     @ replicate ((119 - length bytes mod 64) mod 64) 0
     @ be_bytes 8 (8 * length bytes)"

definition utf8 :: "string \<Rightarrow> nat list" where
  "utf8 s = concat (map (\<lambda>c. let n = (of_char c :: nat)
     in if n < 128 then [n] else [192 + n div 64, 128 + n mod 64]) s)"

definition sha_words :: "string \<Rightarrow> w32 list" where
  "sha_words s = (let t = sha_blocks sha_init (sha_pad (utf8 s))
    in [s_a t, s_b t, s_c t, s_d t, s_e t, s_f t, s_g t, s_h t])"

fun hex_word :: "nat \<Rightarrow> w32 \<Rightarrow> string" where
  "hex_word 0 w = []"
| "hex_word (Suc k) w = hex_word k (drop_bit 4 w) @ [hex_digit (unat (w AND 15))]"

definition sha256_hex :: "string \<Rightarrow> string" where
  "sha256_hex s = concat (map (\<lambda>w. hex_word 8 w) (sha_words s))"

definition is_lower_hex :: "char \<Rightarrow> bool" where
  "is_lower_hex c \<longleftrightarrow> is_digit c \<or> (97 \<le> (of_char c :: nat) \<and> (of_char c :: nat) \<le> 102)"

lemma length_hex_word [simp]: "length (hex_word k w) = k"
  by (induction k arbitrary: w) auto

lemma is_lower_hex_digit: "d < 16 \<Longrightarrow> is_lower_hex (hex_digit d)"
  by (auto simp: is_lower_hex_def is_digit_def hex_digit_def)

lemma nibble_bound: "unat (w AND 15 :: w32) < 16"
proof -
  have "unat (w AND 15) \<le> unat (15 :: w32)"
    by (rule word_and_le1 [THEN word_le_nat_alt [THEN iffD1]])
  then show ?thesis by simp
qed

lemma hex_word_lower: "c \<in> set (hex_word k w) \<Longrightarrow> is_lower_hex c"
  by (induction k arbitrary: w) (auto simp: is_lower_hex_digit nibble_bound)

lemma length_sha256_hex [simp]: "length (sha256_hex s) = 64"
  by (simp add: sha256_hex_def sha_words_def Let_def)

lemma sha256_hex_lower: "c \<in> set (sha256_hex s) \<Longrightarrow> is_lower_hex c"
  by (auto simp: sha256_hex_def dest: hex_word_lower)

text \<open>\<^verbatim>\<open>digest.readUInt32BE(0)\<close>.\<close>

definition sha_first_u32 :: "string \<Rightarrow> int" where
  "sha_first_u32 s = uint (hd (sha_words s))"

lemma sha_first_u32_nonneg [simp]: "0 \<le> sha_first_u32 s"
  by (simp add: sha_first_u32_def)

end
