(* ===== verification/Schedule.thy ===== *)
theory Schedule
  imports Sha256
begin

section \<open>Schedules: next and previous run\<close>

text \<open>
  \<^verbatim>\<open>packages/scheduler/src/schedule.js\<close>. Instants are integers (epoch milliseconds). A stored schedule
  is one of the three constructors; \<^verbatim>\<open>croner\<close>, the evaluator of cron expressions, is a parameter.
  The evaluator's cache is transparent and has no counterpart. The functions that evaluate a cron
  schedule are total here; the code throws instead when \<^verbatim>\<open>croner\<close> rejects the expression, which
  \<open>normalize_schedule\<close> excludes for every stored job.
\<close>

datatype schedule =
    Cron (cron_expr: string) (cron_tz: "string option") (cron_stagger: "int option")
  | At (at_text: string)
  | Every (every_ms: int) (every_anchor: "int option")

definition DEFAULT_TOP_OF_HOUR_STAGGER_MS :: int where
  "DEFAULT_TOP_OF_HOUR_STAGGER_MS = 300 * 1000"

definition MIN_REFIRE_GAP_MS :: int where
  "MIN_REFIRE_GAP_MS = 2000"

subsection \<open>Instants and durations as text\<close>

definition is_date_only :: "string \<Rightarrow> bool" where
  "is_date_only s \<longleftrightarrow> matches_template ''dddd-dd-dd'' s"

definition is_local_datetime :: "string \<Rightarrow> bool" where
  "is_local_datetime s \<longleftrightarrow> matches_template ''dddd-dd-ddTdd:dd:dd'' (take 19 s)
     \<and> (case drop 19 s of [] \<Rightarrow> True | c # fracs \<Rightarrow> c = CHR ''.'' \<and> all_digits fracs)"

definition parseAbsoluteTimeMs :: "ext \<Rightarrow> jval \<Rightarrow> int option" where
  "parseAbsoluteTimeMs X input = (case input of
     JStr s \<Rightarrow>
       (let raw = js_trim s in
        if raw = [] then None
        else if all_digits raw then
          (let n = digits_value 0 raw in if n > 0 then Some (int n) else None)
        else let normalized =
                (if is_date_only raw then raw @ ''T00:00:00Z''
                 else if is_local_datetime raw then raw @ ''Z'' else raw)
             in date_parse X normalized)
   | _ \<Rightarrow> None)"

text \<open>
  \<^verbatim>\<open>DURATION_RE\<close>: digits, an optional fraction, optional white space, an optional unit. The product is
  exact here; the code multiplies doubles.
\<close>

definition unit_mult :: "string \<Rightarrow> int option" where
  "unit_mult u = (if u = [] \<or> u = ''ms'' then Some 1 else if u = ''s'' then Some 1000
     else if u = ''m'' then Some 60000 else if u = ''h'' then Some 3600000
     else if u = ''d'' then Some 86400000 else if u = ''w'' then Some 604800000 else None)"

definition split_fraction :: "string \<Rightarrow> string \<times> string" where
  "split_fraction s = (case s of
     c # rest \<Rightarrow> (if c = CHR ''.'' \<and> takeWhile is_digit rest \<noteq> []
                 then (takeWhile is_digit rest, dropWhile is_digit rest) else ([], s))
   | [] \<Rightarrow> ([], s))"

definition parseDurationMs :: "jval \<Rightarrow> int option" where
  "parseDurationMs input = (case input of
     JStr s \<Rightarrow>
       (let raw = js_lower (js_trim s); whole = takeWhile is_digit raw in
        if whole = [] then None
        else let (fracs, rest) = split_fraction (dropWhile is_digit raw);
                 n = of_nat (digits_value 0 (whole @ fracs)) / (10 ^ length fracs :: rat)
             in case unit_mult (dropWhile is_ws rest) of
                  None \<Rightarrow> None
                | Some mult \<Rightarrow> Some \<lfloor>n * of_int mult\<rfloor>)
   | _ \<Rightarrow> None)"

definition parseAtToMs :: "ext \<Rightarrow> jval \<Rightarrow> int \<Rightarrow> int option" where
  "parseAtToMs X input nowMs = (case parseAbsoluteTimeMs X input of
     Some ms \<Rightarrow> Some ms
   | None \<Rightarrow> (case parseDurationMs input of Some d \<Rightarrow> Some (nowMs + d) | None \<Rightarrow> None))"

subsection \<open>Cron schedules\<close>

definition resolveCronTimezone :: "ext \<Rightarrow> string option \<Rightarrow> string" where
  "resolveCronTimezone X tz = (case tz of
     Some t \<Rightarrow> (if js_trim t \<noteq> [] then js_trim t else host_tz X) | None \<Rightarrow> host_tz X)"

definition isRecurringTopOfHourCronExpr :: "string \<Rightarrow> bool" where
  "isRecurringTopOfHourCronExpr expr = (case words_of expr of
     [minute, hour, _, _, _] \<Rightarrow> minute = ''0'' \<and> CHR ''*'' \<in> set hour
   | _ \<Rightarrow> False)"

definition resolveCronStaggerMs :: "string \<Rightarrow> int option \<Rightarrow> int" where
  "resolveCronStaggerMs expr stagger = (case stagger of
     Some s \<Rightarrow> (if s > 0 then s
               else if isRecurringTopOfHourCronExpr expr then DEFAULT_TOP_OF_HOUR_STAGGER_MS else 0)
   | None \<Rightarrow> (if isRecurringTopOfHourCronExpr expr then DEFAULT_TOP_OF_HOUR_STAGGER_MS else 0))"

definition stableStaggerOffsetMs :: "string \<Rightarrow> int \<Rightarrow> int" where
  "stableStaggerOffsetMs jobId staggerMs =
     (if staggerMs \<le> 1 then 0 else sha_first_u32 jobId mod staggerMs)"

definition computeCronBaseNext :: "ext \<Rightarrow> string \<Rightarrow> string option \<Rightarrow> int \<Rightarrow> int option" where
  "computeCronBaseNext X expr tz nowMs = (let zone = resolveCronTimezone X tz in
     case cron_next X expr zone nowMs of
       None \<Rightarrow> None
     | Some nextMs \<Rightarrow>
         if nextMs \<le> nowMs then
           (case cron_next X expr zone (nowMs div 1000 * 1000 + 1000) of
              Some retryMs \<Rightarrow> (if retryMs > nowMs then Some retryMs else None)
            | None \<Rightarrow> None)
         else Some nextMs)"

fun staggeredNextLoop :: "ext \<Rightarrow> string \<Rightarrow> string option \<Rightarrow> int \<Rightarrow> int \<Rightarrow> nat \<Rightarrow> int \<Rightarrow> int option" where
  "staggeredNextLoop X expr tz offsetMs nowMs 0 cursorMs = None"
| "staggeredNextLoop X expr tz offsetMs nowMs (Suc attempts) cursorMs =
     (case computeCronBaseNext X expr tz cursorMs of
        None \<Rightarrow> None
      | Some baseNext \<Rightarrow>
          if baseNext + offsetMs > nowMs then Some (baseNext + offsetMs)
          else staggeredNextLoop X expr tz offsetMs nowMs attempts
                 (max (cursorMs + 1) (baseNext + 1000)))"

definition computeStaggeredCronNext ::
    "ext \<Rightarrow> string \<Rightarrow> string option \<Rightarrow> int option \<Rightarrow> string \<Rightarrow> int \<Rightarrow> int option" where
  "computeStaggeredCronNext X expr tz stagger jobId nowMs =
     (let offsetMs = stableStaggerOffsetMs jobId (resolveCronStaggerMs expr stagger) in
      if offsetMs \<le> 0 then computeCronBaseNext X expr tz nowMs
      else staggeredNextLoop X expr tz offsetMs nowMs 4 (max 0 (nowMs - offsetMs)))"

subsection \<open>Fixed-rate schedules\<close>

definition computeEveryNext :: "int \<Rightarrow> int option \<Rightarrow> int \<Rightarrow> int \<Rightarrow> int option" where
  "computeEveryNext everyMsRaw anchorRaw nowMs fallbackAnchorMs =
     (if everyMsRaw < 1 then None
      else let everyMs = max 1 everyMsRaw;
               anchor = max 0 (case anchorRaw of Some a \<Rightarrow> a | None \<Rightarrow> fallbackAnchorMs)
           in if nowMs < anchor then Some anchor
              else let elapsed = nowMs - anchor
                   in Some (anchor + max 1 ((elapsed + everyMs - 1) div everyMs) * everyMs))"

subsection \<open>The entry points\<close>

fun computeNextRunAtMs :: "ext \<Rightarrow> schedule \<Rightarrow> int \<Rightarrow> string \<Rightarrow> int option \<Rightarrow> int option" where
  "computeNextRunAtMs X (At at') nowMs jobId fallback =
     (case parseAbsoluteTimeMs X (JStr at') of
        None \<Rightarrow> None
      | Some atMs \<Rightarrow> (if atMs > nowMs then Some atMs else None))"
| "computeNextRunAtMs X (Every ms anchor) nowMs jobId fallback =
     computeEveryNext ms anchor nowMs (case fallback of Some f \<Rightarrow> f | None \<Rightarrow> nowMs)"
| "computeNextRunAtMs X (Cron expr tz stagger) nowMs jobId fallback =
     computeStaggeredCronNext X expr tz stagger jobId nowMs"

fun staggeredPreviousLoop :: "ext \<Rightarrow> string \<Rightarrow> string option \<Rightarrow> int \<Rightarrow> int \<Rightarrow> nat \<Rightarrow> int \<Rightarrow> int option" where
  "staggeredPreviousLoop X expr tz offsetMs nowMs 0 cursorMs = None"
| "staggeredPreviousLoop X expr tz offsetMs nowMs (Suc attempts) cursorMs =
     (case cron_prev X expr (resolveCronTimezone X tz) cursorMs of
        None \<Rightarrow> None
      | Some basePrevious \<Rightarrow>
          if basePrevious + offsetMs \<le> nowMs then Some (basePrevious + offsetMs)
          else staggeredPreviousLoop X expr tz offsetMs nowMs attempts (max 0 (basePrevious - 1000)))"

fun computePreviousRunAtMs :: "ext \<Rightarrow> schedule \<Rightarrow> int \<Rightarrow> string \<Rightarrow> int option" where
  "computePreviousRunAtMs X (Cron expr tz stagger) nowMs jobId =
     (let offsetMs = stableStaggerOffsetMs jobId (resolveCronStaggerMs expr stagger) in
      if offsetMs \<le> 0 then
        (case cron_prev X expr (resolveCronTimezone X tz) nowMs of
           None \<Rightarrow> None
         | Some previousMs \<Rightarrow> (if previousMs < nowMs then Some previousMs else None))
      else staggeredPreviousLoop X expr tz offsetMs nowMs 4 (max 0 (nowMs - offsetMs)))"
| "computePreviousRunAtMs X _ nowMs jobId = None"

subsection \<open>Validation of a raw schedule\<close>

fun finite_at_least_one :: "jsnum \<Rightarrow> bool" where
  "finite_at_least_one (Num q) = (q \<ge> 1)"
| "finite_at_least_one _ = False"

fun jsnum_floor :: "jsnum \<Rightarrow> int option" where
  "jsnum_floor (Num q) = Some \<lfloor>q\<rfloor>"
| "jsnum_floor _ = None"

definition positive_floor :: "jsnum \<Rightarrow> int option" where
  "positive_floor n = (case n of Num q \<Rightarrow> (if q > 0 then Some \<lfloor>q\<rfloor> else None) | _ \<Rightarrow> None)"

definition nonempty_trim :: "jval \<Rightarrow> string option" where
  "nonempty_trim v = (if is_str v \<and> js_trim (str_val v) \<noteq> [] then Some (js_trim (str_val v)) else None)"

definition normalize_schedule :: "ext \<Rightarrow> jval \<Rightarrow> schedule res" where
  "normalize_schedule X raw =
     (if \<not> is_object raw then Inl (Type_Error ''schedule required'')
      else let kind = js_lower (js_trim (js_string X (coalesce (jget raw ''kind'') (JStr [])))) in
      if kind = ''at'' then
        (case nonempty_trim (jget raw ''at'') of
           None \<Rightarrow> Inl (Type_Error ''schedule.at (ISO string) required for at jobs'')
         | Some _ \<Rightarrow>
             (case parseAbsoluteTimeMs X (jget raw ''at'') of
                None \<Rightarrow> Inl (Type_Error (''schedule.at invalid: '' @ str_val (jget raw ''at'')))
              | Some atMs \<Rightarrow> (case to_iso X atMs of
                     None \<Rightarrow> Inl (Plain_Error ''Invalid time value'')
                   | Some isoText \<Rightarrow> Inr (At isoText))))
      else if kind = ''every'' then
        (let everyMsRaw = js_number X (jget raw ''everyMs'') in
         if \<not> finite_at_least_one everyMsRaw
         then Inl (Type_Error ''schedule.everyMs required for every jobs'')
         else Inr (Every (max 1 (case jsnum_floor everyMsRaw of Some i \<Rightarrow> i | None \<Rightarrow> 1))
                (map_option (max 0) (jsnum_floor (js_number X (jget raw ''anchorMs''))))))
      else if kind = ''cron'' then
        (let expr = (if is_str (jget raw ''expr'') then js_trim (str_val (jget raw ''expr'')) else []);
             tz = nonempty_trim (jget raw ''tz'')
         in if expr = [] then Inl (Type_Error ''schedule.expr required for cron jobs'')
            else if length (words_of expr) \<noteq> 5
            then Inl (Type_Error (''schedule.expr must be 5 fields: '' @ expr))
            else if \<not> cron_ok X expr (resolveCronTimezone X tz)
            then Inl (Plain_Error (''croner rejects '' @ expr))
            else Inr (Cron expr tz (positive_floor (js_number X (jget raw ''staggerMs'')))))
      else Inl (Type_Error (''schedule.kind must be cron|at|every, got: '' @ js_string X (jget raw ''kind''))))"

subsection \<open>Bounds\<close>

lemma stagger_offset_nonneg: "0 \<le> stableStaggerOffsetMs jobId s"
  by (simp add: stableStaggerOffsetMs_def)

lemma stagger_offset_bound: "0 < s \<Longrightarrow> stableStaggerOffsetMs jobId s < s"
  by (simp add: stableStaggerOffsetMs_def)

lemma computeCronBaseNext_after: "computeCronBaseNext X expr tz now = Some n \<Longrightarrow> now < n"
  by (auto simp: computeCronBaseNext_def Let_def split: option.splits if_splits)

lemma staggeredNextLoop_after: "staggeredNextLoop X expr tz off now k cur = Some n \<Longrightarrow> now < n"
  by (induction X expr tz off now k cur rule: staggeredNextLoop.induct)
    (auto split: option.splits if_splits)

lemma computeStaggeredCronNext_after:
  "computeStaggeredCronNext X expr tz st jobId now = Some n \<Longrightarrow> now < n"
  by (auto simp: computeStaggeredCronNext_def Let_def computeCronBaseNext_after
      staggeredNextLoop_after split: if_splits)

lemma staggeredPreviousLoop_before: "staggeredPreviousLoop X expr tz off now k cur = Some p \<Longrightarrow> p \<le> now"
  by (induction X expr tz off now k cur rule: staggeredPreviousLoop.induct)
    (auto split: option.splits if_splits)

lemma computePreviousRunAtMs_before: "computePreviousRunAtMs X s now jobId = Some p \<Longrightarrow> p \<le> now"
  by (cases s) (auto simp: Let_def staggeredPreviousLoop_before split: option.splits if_splits)

text \<open>The grid of a fixed-rate schedule: the anchor and its successors.\<close>

definition on_grid :: "int \<Rightarrow> int \<Rightarrow> int \<Rightarrow> bool" where
  "on_grid anchor every t \<longleftrightarrow> anchor \<le> t \<and> (t - anchor) mod every = 0"

lemma ceil_div_mult:
  fixes e p :: int
  assumes "0 < p"
  shows "e \<le> (e + p - 1) div p * p" and "(e + p - 1) div p * p < e + p"
    and "e mod p = 0 \<Longrightarrow> (e + p - 1) div p * p = e"
proof -
  have split: "(e + p - 1) div p * p = e + p - 1 - (e + p - 1) mod p"
    by (simp add: minus_mod_eq_div_mult)
  have range: "0 \<le> (e + p - 1) mod p" "(e + p - 1) mod p < p"
    using assms by simp_all
  show "e \<le> (e + p - 1) div p * p" and "(e + p - 1) div p * p < e + p"
    using split range by linarith+
  assume "e mod p = 0"
  then obtain k where k: "e = p * k" by auto
  have "(p * k + (p - 1)) div p = k"
    using assms by (simp add: div_add1_eq)
  then show "(e + p - 1) div p * p = e"
    using k by (simp add: add_diff_eq[symmetric] mult.commute)
qed

end
