(* ===== verification/JobModel.thy ===== *)
theory JobModel
  imports Schedule
begin

section \<open>The job model\<close>

text \<open>
  \<^verbatim>\<open>packages/scheduler/src/job-model.js\<close>: the stored job definition as a record, the strict validation
  \<open>normalize_job\<close> that every stored job has passed, and its public projection. A field the code leaves
  out of the object when it is absent is an option.
\<close>

subsection \<open>Data\<close>

datatype delivery_mode = Announce | No_Delivery | Silent

record payload =
  p_message :: string
  p_timeoutSeconds :: "int option"
  p_receiptTimeoutSeconds :: "int option"
  p_lightContext :: "bool option"
  p_model :: "string option"

record delivery =
  d_mode :: delivery_mode
  d_channel :: "string option"
  d_to :: "string option"
  d_bestEffort :: bool

text \<open>The derived state of a job (C-030): a projection of the occurrence ledger.\<close>

record job_state =
  st_nextRunAtMs :: "int option"
  st_lastRunAtMs :: "int option"
  st_lastDurationMs :: "int option"
  st_consecutiveErrors :: "int option"
  st_lastRunStatus :: "string option"
  st_lastStatus :: "string option"
  st_lastDeliveryStatus :: "string option"
  st_lastError :: "string option"
  st_lastDelivered :: "bool option"

definition empty_state :: job_state where
  "empty_state = \<lparr>st_nextRunAtMs = None, st_lastRunAtMs = None, st_lastDurationMs = None,
     st_consecutiveErrors = None, st_lastRunStatus = None, st_lastStatus = None,
     st_lastDeliveryStatus = None, st_lastError = None, st_lastDelivered = None\<rparr>"

record clone_provenance =
  cp_sourceJobId :: string
  cp_sourceScheduleRevision :: int
  cp_sourceUpdatedAtMs :: int

record job =
  j_id :: string
  j_name :: string
  j_agentId :: string
  j_enabled :: bool
  j_scheduleRevision :: int
  j_schedule :: schedule
  j_payload :: payload
  j_delivery :: delivery
  j_createdAtMs :: int
  j_updatedAtMs :: int
  j_revisionActivatedAtMs :: "int option"
  j_description :: "string option"
  j_logicalKey :: "string option"
  j_migrationRestoreBlocked :: bool
  j_retry :: "bool option"
  j_deleteAfterRun :: bool
  j_state :: job_state
  j_cloneProvenance :: "clone_provenance option"

subsection \<open>The stored shape of a job\<close>

definition schedule_val :: "schedule \<Rightarrow> jval" where
  "schedule_val s = (case s of
     Cron expr tz stagger \<Rightarrow> obj_of [(''kind'', JStr ''cron''), (''expr'', JStr expr),
       (''tz'', opt_val JStr tz), (''staggerMs'', opt_val JInt stagger)]
   | At t \<Rightarrow> obj_of [(''kind'', JStr ''at''), (''at'', JStr t)]
   | Every ms anchor \<Rightarrow> obj_of [(''kind'', JStr ''every''), (''everyMs'', JInt ms),
       (''anchorMs'', opt_val JInt anchor)])"

definition payload_val :: "payload \<Rightarrow> jval" where
  "payload_val p = obj_of [(''kind'', JStr ''agentTurn''), (''message'', JStr (p_message p)),
     (''timeoutSeconds'', opt_val JInt (p_timeoutSeconds p)),
     (''receiptTimeoutSeconds'', opt_val JInt (p_receiptTimeoutSeconds p)),
     (''lightContext'', opt_val JBool (p_lightContext p)), (''model'', opt_val JStr (p_model p))]"

definition mode_str :: "delivery_mode \<Rightarrow> string" where
  "mode_str m = (case m of Announce \<Rightarrow> ''announce'' | No_Delivery \<Rightarrow> ''none'' | Silent \<Rightarrow> ''silent'')"

definition delivery_val :: "delivery \<Rightarrow> jval" where
  "delivery_val d = obj_of [(''mode'', JStr (mode_str (d_mode d))),
     (''channel'', opt_val JStr (d_channel d)), (''to'', opt_val JStr (d_to d)),
     (''bestEffort'', if d_bestEffort d then JBool True else JUndef)]"

definition state_val :: "job_state \<Rightarrow> jval" where
  "state_val s = obj_of [
     (''nextRunAtMs'', opt_val JInt (st_nextRunAtMs s)), (''lastRunAtMs'', opt_val JInt (st_lastRunAtMs s)),
     (''lastDurationMs'', opt_val JInt (st_lastDurationMs s)),
     (''consecutiveErrors'', opt_val JInt (st_consecutiveErrors s)),
     (''lastRunStatus'', opt_val JStr (st_lastRunStatus s)), (''lastStatus'', opt_val JStr (st_lastStatus s)),
     (''lastDeliveryStatus'', opt_val JStr (st_lastDeliveryStatus s)),
     (''lastError'', opt_val JStr (st_lastError s)), (''lastDelivered'', opt_val JBool (st_lastDelivered s))]"

definition retry_val :: "bool option \<Rightarrow> jval" where
  "retry_val r = opt_val (\<lambda>b. obj_of [(''auto'', JBool b)]) r"

definition job_val :: "job \<Rightarrow> jval" where
  "job_val j = obj_of [(''id'', JStr (j_id j)), (''name'', JStr (j_name j)), (''agentId'', JStr (j_agentId j)),
     (''enabled'', JBool (j_enabled j)), (''scheduleRevision'', JInt (j_scheduleRevision j)),
     (''schedule'', schedule_val (j_schedule j)), (''payload'', payload_val (j_payload j)),
     (''delivery'', delivery_val (j_delivery j)), (''createdAtMs'', JInt (j_createdAtMs j)),
     (''updatedAtMs'', JInt (j_updatedAtMs j)),
     (''revisionActivatedAtMs'', opt_val JInt (j_revisionActivatedAtMs j)),
     (''description'', opt_val JStr (j_description j)), (''logicalKey'', opt_val JStr (j_logicalKey j)),
     (''migrationRestoreBlocked'', if j_migrationRestoreBlocked j then JBool True else JUndef),
     (''retry'', retry_val (j_retry j)), (''deleteAfterRun'', JBool (j_deleteAfterRun j)),
     (''state'', state_val (j_state j))]"

subsection \<open>Validation\<close>

definition normalizeOptionalText :: "jval \<Rightarrow> string \<Rightarrow> string option res" where
  "normalizeOptionalText v label =
     (if nullish v then Inr None
      else if \<not> is_str v then Inl (Type_Error (label @ '' must be a string''))
      else if js_trim (str_val v) = [] then Inr None else Inr (Some (js_trim (str_val v))))"

definition require_text :: "jval \<Rightarrow> string \<Rightarrow> js_error \<Rightarrow> string res" where
  "require_text v label missing = rbind (normalizeOptionalText v label)
     (\<lambda>t. case t of None \<Rightarrow> Inl missing | Some s \<Rightarrow> Inr s)"

definition receipt_seconds :: "jval \<Rightarrow> int res" where
  "receipt_seconds v = (case v of JUndef \<Rightarrow> Inr 3600
     | JNum (Num q) \<Rightarrow> (if \<lfloor>q\<rfloor> < 1 then Inl (Type_Error ''job.payload.timeoutSeconds must be a positive number'')
                      else Inr \<lfloor>q\<rfloor>)
     | _ \<Rightarrow> Inl (Type_Error ''job.payload.timeoutSeconds must be a positive number''))"

definition schedulerReceiptBudget :: "jval \<Rightarrow> (int \<times> int option) res" where
  "schedulerReceiptBudget p =
     rbind (receipt_seconds (jget p ''timeoutSeconds'')) (\<lambda>seconds.
     let defaultMs = max 120000 (50 * seconds); receipt = jget p ''receiptTimeoutSeconds''
     in rbind (ensure (receipt = JUndef \<or> (safe_integer receipt \<and> num_floor receipt > 0))
          (Type_Error ''job.payload.receiptTimeoutSeconds must be a positive safe integer'')) (\<lambda>_.
     let overrideMs = (if receipt = JUndef then None else Some (num_floor receipt * 1000))
     in rbind (ensure (is_safe_int defaultMs \<and> (case overrideMs of None \<Rightarrow> True | Some o' \<Rightarrow> is_safe_int o'))
          (Type_Error ''job payload receipt milliseconds exceed safe integer range'')) (\<lambda>_.
     Inr (defaultMs, overrideMs))))"

definition num_field :: "jval \<Rightarrow> string \<Rightarrow> int option" where
  "num_field v k = (if num_finite (jget v k) then Some (num_floor (jget v k)) else None)"

definition text_field :: "jval \<Rightarrow> string \<Rightarrow> string option" where
  "text_field v k = (if is_str (jget v k) \<and> str_val (jget v k) \<noteq> [] then Some (str_val (jget v k)) else None)"

definition bool_field :: "jval \<Rightarrow> string \<Rightarrow> bool option" where
  "bool_field v k = (case jget v k of JBool b \<Rightarrow> Some b | _ \<Rightarrow> None)"

definition normalizeState :: "jval \<Rightarrow> job_state" where
  "normalizeState v = \<lparr>st_nextRunAtMs = num_field v ''nextRunAtMs'', st_lastRunAtMs = num_field v ''lastRunAtMs'',
     st_lastDurationMs = num_field v ''lastDurationMs'', st_consecutiveErrors = num_field v ''consecutiveErrors'',
     st_lastRunStatus = text_field v ''lastRunStatus'', st_lastStatus = text_field v ''lastStatus'',
     st_lastDeliveryStatus = text_field v ''lastDeliveryStatus'', st_lastError = text_field v ''lastError'',
     st_lastDelivered = bool_field v ''lastDelivered''\<rparr>"

definition mode_of :: "string \<Rightarrow> delivery_mode option" where
  "mode_of m = (if m = ''announce'' then Some Announce else if m = ''none'' then Some No_Delivery
     else if m = ''silent'' then Some Silent else None)"

text \<open>
  The options of \<^verbatim>\<open>normalizeJob\<close>: the current instant, an identity pinned by the caller, a creation
  instant (the current one by default), and the identifier \<^verbatim>\<open>randomUUID\<close> would return.
\<close>

record norm_opts =
  no_nowMs :: int
  no_id :: "string option"
  no_createdAtMs :: "int option"
  no_uuid :: string

definition norm_created :: "norm_opts \<Rightarrow> int" where
  "norm_created opts = (case no_createdAtMs opts of Some c \<Rightarrow> c | None \<Rightarrow> no_nowMs opts)"

definition job_id_for :: "norm_opts \<Rightarrow> jval \<Rightarrow> string" where
  "job_id_for opts input = (case no_id opts of Some i \<Rightarrow> i
     | None \<Rightarrow> (case nonempty_trim (jget input ''id'') of Some i \<Rightarrow> i | None \<Rightarrow> no_uuid opts))"

definition normalize_mode :: "ext \<Rightarrow> jval \<Rightarrow> delivery_mode res" where
  "normalize_mode X d = (let m = js_lower (js_trim (js_string X (coalesce (jget d ''mode'') (JStr ''none''))))
     in case mode_of m of Some r \<Rightarrow> Inr r
        | None \<Rightarrow> Inl (Type_Error (''job.delivery.mode must be announce|none|silent, got: '' @ m)))"

definition normalize_logical_key :: "jval \<Rightarrow> string option res" where
  "normalize_logical_key v = (if v = JUndef then Inr None
     else rbind (require_text v ''logicalKey'' (Type_Error ''job.logicalKey must be a non-empty string''))
            (\<lambda>k. Inr (Some k)))"

definition normalize_retry :: "jval \<Rightarrow> bool option res" where
  "normalize_retry v = (if v = JUndef then Inr None
     else case (if is_object v then bool_field v ''auto'' else None) of
            Some b \<Rightarrow> Inr (Some b)
          | None \<Rightarrow> Inl (Type_Error ''job.retry must be {auto:boolean}''))"

definition normalize_timeout :: "jval \<Rightarrow> int option res" where
  "normalize_timeout v = (case v of JUndef \<Rightarrow> Inr None
     | JNum (Num q) \<Rightarrow> (if q < 1 then Inl (Type_Error ''job.payload.timeoutSeconds must be a positive number'')
                      else Inr (Some \<lfloor>q\<rfloor>))
     | _ \<Rightarrow> Inl (Type_Error ''job.payload.timeoutSeconds must be a positive number''))"

definition normalize_job :: "ext \<Rightarrow> norm_opts \<Rightarrow> jval \<Rightarrow> job res" where
  "normalize_job X opts input =
     rbind (ensure (is_object input) (Type_Error ''job required'')) (\<lambda>_.
     rbind (require_text (jget input ''name'') ''name'' (Type_Error ''job.name is required'')) (\<lambda>nm.
     rbind (require_text (jget input ''agentId'') ''agentId''
             (Type_Error ''job.agentId is required (V1: every job targets exactly one agent)'')) (\<lambda>agent.
     rbind (normalize_schedule X (jget input ''schedule'')) (\<lambda>sched.
     let pl = coalesce (jget input ''payload'') (JObj []);
         payloadKind = js_lower (js_trim (js_string X (coalesce (jget pl ''kind'') (JStr ''agentTurn''))))
     in
     rbind (ensure (payloadKind = ''agentturn'')
             (Type_Error (''job.payload.kind must be agentTurn (V1), got: '' @ payloadKind))) (\<lambda>_.
     rbind (require_text (jget pl ''message'') ''payload.message''
             (Type_Error ''job.payload.message is required'')) (\<lambda>msg.
     let dl = coalesce (jget input ''delivery'') (JObj []) in
     rbind (normalize_mode X dl) (\<lambda>mode.
     rbind (ensure (jget input ''enabled'' = JUndef \<or> bool_field input ''enabled'' \<noteq> None)
             (Type_Error ''job.enabled must be a boolean'')) (\<lambda>_.
     let rev = jget input ''scheduleRevision'' in
     rbind (ensure (rev = JUndef \<or> (safe_integer rev \<and> num_floor rev \<ge> 1))
             (Type_Error ''job.scheduleRevision must be a positive integer'')) (\<lambda>_.
     let created = (case num_field input ''createdAtMs'' of Some c \<Rightarrow> c | None \<Rightarrow> norm_created opts);
         activated = (case num_field input ''revisionActivatedAtMs'' of Some a \<Rightarrow> a | None \<Rightarrow> created)
     in
     rbind (normalize_logical_key (jget input ''logicalKey'')) (\<lambda>lkey.
     let blocked = jget input ''migrationRestoreBlocked'' in
     rbind (ensure (blocked = JUndef \<or> blocked = JBool True)
             (Type_Error ''job.migrationRestoreBlocked may only be true while the restore gate is closed'')) (\<lambda>_.
     rbind (normalize_retry (jget input ''retry'')) (\<lambda>retry.
     rbind (normalize_timeout (jget pl ''timeoutSeconds'')) (\<lambda>timeout.
     rbind (schedulerReceiptBudget pl) (\<lambda>_.
     Inr \<lparr>j_id = job_id_for opts input, j_name = nm, j_agentId = agent,
       j_enabled = (case bool_field input ''enabled'' of Some b \<Rightarrow> b | None \<Rightarrow> True),
       j_scheduleRevision = (if rev = JUndef then 1 else num_floor rev),
       j_schedule = sched,
       j_payload = \<lparr>p_message = msg, p_timeoutSeconds = timeout,
         p_receiptTimeoutSeconds = num_field pl ''receiptTimeoutSeconds'',
         p_lightContext = bool_field pl ''lightContext'', p_model = nonempty_trim (jget pl ''model'')\<rparr>,
       j_delivery = \<lparr>d_mode = mode, d_channel = nonempty_trim (jget dl ''channel''),
         d_to = nonempty_trim (jget dl ''to''), d_bestEffort = (jget dl ''bestEffort'' = JBool True)\<rparr>,
       j_createdAtMs = created,
       j_updatedAtMs = (case num_field input ''updatedAtMs'' of Some u \<Rightarrow> u | None \<Rightarrow> norm_created opts),
       j_revisionActivatedAtMs = Some activated,
       j_description = nonempty_trim (jget input ''description''),
       j_logicalKey = lkey, j_migrationRestoreBlocked = (blocked = JBool True), j_retry = retry,
       j_deleteAfterRun = (case bool_field input ''deleteAfterRun'' of Some b \<Rightarrow> b
         | None \<Rightarrow> (case sched of At _ \<Rightarrow> True | _ \<Rightarrow> False)),
       j_state = (if is_object (jget input ''state'') then normalizeState (jget input ''state'') else empty_state),
       j_cloneProvenance = None\<rparr>))))))))))))))"

subsection \<open>Well-formed jobs\<close>

text \<open>
  What validation establishes: trimmed non-empty texts, an expression \<^verbatim>\<open>croner\<close> accepts, positive
  periods and budgets inside the safe integers.
\<close>

definition wf_text :: "string \<Rightarrow> bool" where
  "wf_text s \<longleftrightarrow> s \<noteq> [] \<and> js_trim s = s"

definition wf_schedule :: "ext \<Rightarrow> schedule \<Rightarrow> bool" where
  "wf_schedule X s = (case s of
     Cron expr tz stagger \<Rightarrow> wf_text expr \<and> length (words_of expr) = 5 \<and> pred_option wf_text tz
       \<and> cron_ok X expr (resolveCronTimezone X tz) \<and> pred_option (\<lambda>g. 0 < g) stagger
   | At t \<Rightarrow> wf_text t \<and> (case parseAbsoluteTimeMs X (JStr t) of Some ms \<Rightarrow> to_iso X ms = Some t | None \<Rightarrow> False)
   | Every ms anchor \<Rightarrow> 1 \<le> ms \<and> pred_option (\<lambda>a. 0 \<le> a) anchor)"

definition wf_payload :: "payload \<Rightarrow> bool" where
  "wf_payload p \<longleftrightarrow> wf_text (p_message p) \<and> pred_option (\<lambda>t. 1 \<le> t) (p_timeoutSeconds p)
     \<and> pred_option wf_text (p_model p)
     \<and> pred_option (\<lambda>r. 0 < r \<and> is_safe_int r \<and> is_safe_int (r * 1000)) (p_receiptTimeoutSeconds p)
     \<and> is_safe_int (max 120000 (50 * (case p_timeoutSeconds p of Some t \<Rightarrow> t | None \<Rightarrow> 3600)))"

definition wf_delivery :: "delivery \<Rightarrow> bool" where
  "wf_delivery d \<longleftrightarrow> pred_option wf_text (d_channel d) \<and> pred_option wf_text (d_to d)"

definition wf_state :: "job_state \<Rightarrow> bool" where
  "wf_state s \<longleftrightarrow> st_lastRunStatus s \<noteq> Some [] \<and> st_lastStatus s \<noteq> Some []
     \<and> st_lastDeliveryStatus s \<noteq> Some [] \<and> st_lastError s \<noteq> Some []"

definition wf_job :: "ext \<Rightarrow> job \<Rightarrow> bool" where
  "wf_job X j \<longleftrightarrow> wf_text (j_id j) \<and> wf_text (j_name j) \<and> wf_text (j_agentId j)
     \<and> 1 \<le> j_scheduleRevision j \<and> is_safe_int (j_scheduleRevision j)
     \<and> wf_schedule X (j_schedule j) \<and> wf_payload (j_payload j) \<and> wf_delivery (j_delivery j)
     \<and> j_revisionActivatedAtMs j \<noteq> None
     \<and> pred_option wf_text (j_description j) \<and> pred_option wf_text (j_logicalKey j)
     \<and> wf_state (j_state j)"

text \<open>
  \<^verbatim>\<open>toISOString\<close> writes an instant in a form that \<^verbatim>\<open>Date.parse\<close> reads back to the same instant.
\<close>

definition iso_contract :: "ext \<Rightarrow> bool" where
  "iso_contract X \<longleftrightarrow> (\<forall>ms t. to_iso X ms = Some t \<longrightarrow>
     wf_text t \<and> parseAbsoluteTimeMs X (JStr t) = Some ms)"

lemma opt_val_eq_JUndef [simp]:
  "opt_val JStr t = JUndef \<longleftrightarrow> t = None" "opt_val JInt i = JUndef \<longleftrightarrow> i = None"
  "opt_val JBool b = JUndef \<longleftrightarrow> b = None"
  by (cases t; cases i; cases b; simp)+

lemma if_JUndef [simp]: "(if v = JUndef then JUndef else v) = v"
  by simp

lemma wf_text_nonempty_trim: "nonempty_trim v = Some s \<Longrightarrow> wf_text s"
  by (auto simp: nonempty_trim_def wf_text_def split: if_splits)

lemma nonempty_trim_wf [simp]: "wf_text s \<Longrightarrow> nonempty_trim (JStr s) = Some s"
  by (simp add: nonempty_trim_def wf_text_def)

lemma nonempty_trim_JUndef [simp]: "nonempty_trim JUndef = None"
  by (simp add: nonempty_trim_def)

lemma nonempty_trim_opt [simp]: "pred_option wf_text t \<Longrightarrow> nonempty_trim (opt_val JStr t) = t"
  by (cases t) simp_all

lemma require_text_wf [simp]: "wf_text s \<Longrightarrow> require_text (JStr s) l e = Inr s"
  by (simp add: require_text_def normalizeOptionalText_def wf_text_def)

lemma require_text_Inr: "require_text v l e = Inr s \<Longrightarrow> wf_text s"
  by (auto simp: require_text_def normalizeOptionalText_def wf_text_def split: option.splits if_splits)

lemma kind_texts:
  "js_lower (js_trim ''cron'') = ''cron''" "js_lower (js_trim ''at'') = ''at''"
  "js_lower (js_trim ''every'') = ''every''" "js_lower (js_trim ''agentTurn'') = ''agentturn''"
  "js_lower (js_trim ''announce'') = ''announce''" "js_lower (js_trim ''none'') = ''none''"
  "js_lower (js_trim ''silent'') = ''silent''"
  by code_simp+

lemma normalize_schedule_val:
  assumes "wf_schedule X s"
  shows "normalize_schedule X (schedule_val s) = Inr s"
proof (cases s)
  case (Cron expr tz stagger)
  with assms show ?thesis
    by (cases stagger) (auto simp: normalize_schedule_def schedule_val_def wf_schedule_def coalesce_def
        kind_texts wf_text_def positive_floor_def Let_def)
next
  case (At t)
  with assms show ?thesis
    by (auto simp: normalize_schedule_def schedule_val_def wf_schedule_def coalesce_def kind_texts Let_def
        split: option.splits)
next
  case (Every ms anchor)
  with assms show ?thesis
    by (cases anchor) (auto simp: normalize_schedule_def schedule_val_def wf_schedule_def coalesce_def
        kind_texts Let_def max_def)
qed

lemma normalize_schedule_wf:
  assumes "iso_contract X" and "normalize_schedule X v = Inr s"
    and "\<And>e tz. s \<noteq> Cron e tz (Some 0)"
  shows "wf_schedule X s"
proof -
  have floor_ge: "1 \<le> \<lfloor>q\<rfloor>" if "1 \<le> q" for q :: rat
    using that by (simp add: le_floor_iff)
  have pos: "pred_option (\<lambda>g. 0 < g) (positive_floor n) \<or> positive_floor n = Some 0" for n
  proof (cases n)
    case (Num q)
    have "0 \<le> \<lfloor>q\<rfloor>" if "0 < q" using that by simp
    then show ?thesis using Num by (auto simp: positive_floor_def simp del: zero_le_floor zero_less_floor)
  qed (simp_all add: positive_floor_def)
  have tz: "pred_option wf_text (nonempty_trim v)" for v
    by (cases "nonempty_trim v") (simp_all add: wf_text_nonempty_trim)
  have anchor: "pred_option (\<lambda>a. 0 \<le> a) (map_option (max 0) n)" for n :: "int option"
    by (cases n) simp_all
  have period: "1 \<le> max 1 (i :: int)" for i by simp
  show ?thesis
  proof (cases s)
    case (Cron expr tzn stagger)
    with assms(2) have "expr \<noteq> []" "js_trim expr = expr" "length (words_of expr) = 5"
      "cron_ok X expr (resolveCronTimezone X tzn)" "\<exists>v. tzn = nonempty_trim v" "\<exists>n. stagger = positive_floor n"
      by (auto simp: normalize_schedule_def Let_def split: if_splits option.splits)
    then show ?thesis
      using Cron assms(3) pos tz by (auto simp: wf_schedule_def wf_text_def)
  next
    case (At t)
    with assms(2) obtain ms where "to_iso X ms = Some t"
      by (auto simp: normalize_schedule_def Let_def split: if_splits option.splits)
    then show ?thesis
      using At assms(1) by (auto simp: wf_schedule_def iso_contract_def)
  next
    case (Every ms a)
    with assms(2) show ?thesis
      by (auto simp: normalize_schedule_def Let_def wf_schedule_def period anchor split: if_splits option.splits)
  qed
qed


lemma case_option_back [simp]: "(case i of None \<Rightarrow> None | Some x \<Rightarrow> Some x) = i"
  by (cases i) simp_all

text \<open>Reading back a field of a stored object: the first entry of its key decides.\<close>

lemma bool_field_cons:
  "bool_field (obj_of ((k, opt_val JBool b) # kvs)) k = (case b of None \<Rightarrow> bool_field (obj_of kvs) k | Some x \<Rightarrow> Some x)"
  "bool_field (obj_of ((k, JBool x) # kvs)) k = Some x"
  "q \<noteq> k \<Longrightarrow> bool_field (obj_of ((k, v) # kvs)) q = bool_field (obj_of kvs) q"
  "bool_field (obj_of []) q = None"
  by (cases b) (simp_all add: bool_field_def)

lemma num_field_cons:
  "num_field (obj_of ((k, opt_val JInt i) # kvs)) k = (case i of None \<Rightarrow> num_field (obj_of kvs) k | Some x \<Rightarrow> Some x)"
  "num_field (obj_of ((k, JInt x) # kvs)) k = Some x"
  "q \<noteq> k \<Longrightarrow> num_field (obj_of ((k, v) # kvs)) q = num_field (obj_of kvs) q"
  "num_field (obj_of []) q = None"
  by (cases i) (simp_all add: num_field_def)

lemma text_field_cons:
  "t \<noteq> Some [] \<Longrightarrow> text_field (obj_of ((k, opt_val JStr t) # kvs)) k = (case t of None \<Rightarrow> text_field (obj_of kvs) k | Some x \<Rightarrow> Some x)"
  "q \<noteq> k \<Longrightarrow> text_field (obj_of ((k, v) # kvs)) q = text_field (obj_of kvs) q"
  "text_field (obj_of []) q = None"
  by (cases t) (auto simp: text_field_def)

lemmas field_cons = bool_field_cons num_field_cons text_field_cons

lemma normalizeState_val: "wf_state s \<Longrightarrow> normalizeState (state_val s) = s"
  by (simp add: normalizeState_def state_val_def wf_state_def field_cons cong: option.case_cong)

lemma mode_of_str [simp]: "mode_of (mode_str m) = Some m"
  by (cases m) (simp_all add: mode_of_def mode_str_def)

lemma mode_str_lower [simp]: "js_lower (js_trim (mode_str m)) = mode_str m"
  by (cases m) (simp_all add: mode_str_def kind_texts)

lemma schedulerReceiptBudget_val:
  assumes "wf_payload p"
  shows "schedulerReceiptBudget (payload_val p) =
    Inr (max 120000 (50 * (case p_timeoutSeconds p of Some t \<Rightarrow> t | None \<Rightarrow> 3600)),
         map_option (\<lambda>r. r * 1000) (p_receiptTimeoutSeconds p))"
  using assms by (cases "p_timeoutSeconds p"; cases "p_receiptTimeoutSeconds p")
    (simp_all add: schedulerReceiptBudget_def payload_val_def receipt_seconds_def wf_payload_def Let_def)

lemma schedule_val_object [simp]: "schedule_val s \<noteq> JUndef" "is_object (state_val t)"
    "payload_val p \<noteq> JUndef" "delivery_val d \<noteq> JUndef" "state_val t \<noteq> JUndef"
    "\<not> nullish (payload_val p)" "\<not> nullish (delivery_val d)"
  by (simp_all add: schedule_val_def state_val_def payload_val_def delivery_val_def obj_of_def split: schedule.split)

lemma retry_val_eq_JUndef [simp]: "retry_val r = JUndef \<longleftrightarrow> r = None"
  by (cases r) (simp_all add: retry_val_def obj_of_def opt_val_def)

lemma retry_val_None [simp]: "retry_val None = JUndef"
  by (simp add: retry_val_def)

lemma normalize_retry_val [simp]: "normalize_retry (retry_val r) = Inr r"
  by (cases r) (simp_all add: normalize_retry_def retry_val_def field_cons opt_val_def, simp add: obj_of_def)

lemma normalize_timeout_val [simp]:
  "pred_option (\<lambda>t. 1 \<le> t) t \<Longrightarrow> normalize_timeout (opt_val JInt t) = Inr t"
  by (cases t) (simp_all add: normalize_timeout_def)

lemma normalize_logical_key_val [simp]:
  "pred_option wf_text k \<Longrightarrow> normalize_logical_key (opt_val JStr k) = Inr k"
  by (cases k) (simp_all add: normalize_logical_key_def)

lemma payload_fields:
  "jget (payload_val p) ''kind'' = JStr ''agentTurn''" "jget (payload_val p) ''message'' = JStr (p_message p)"
  "jget (payload_val p) ''timeoutSeconds'' = opt_val JInt (p_timeoutSeconds p)"
  "num_field (payload_val p) ''receiptTimeoutSeconds'' = p_receiptTimeoutSeconds p"
  "bool_field (payload_val p) ''lightContext'' = p_lightContext p"
  "jget (payload_val p) ''model'' = opt_val JStr (p_model p)"
  by (simp_all add: payload_val_def field_cons cong: option.case_cong)

lemma delivery_fields:
  "jget (delivery_val d) ''mode'' = JStr (mode_str (d_mode d))"
  "jget (delivery_val d) ''channel'' = opt_val JStr (d_channel d)"
  "jget (delivery_val d) ''to'' = opt_val JStr (d_to d)"
  "jget (delivery_val d) ''bestEffort'' = JBool True \<longleftrightarrow> d_bestEffort d"
  by (simp_all add: delivery_val_def)

lemma job_fields:
  "is_object (job_val j)"
  "jget (job_val j) ''id'' = JStr (j_id j)" "jget (job_val j) ''name'' = JStr (j_name j)"
  "jget (job_val j) ''agentId'' = JStr (j_agentId j)" "jget (job_val j) ''enabled'' = JBool (j_enabled j)"
  "bool_field (job_val j) ''enabled'' = Some (j_enabled j)"
  "jget (job_val j) ''scheduleRevision'' = JInt (j_scheduleRevision j)"
  "jget (job_val j) ''schedule'' = schedule_val (j_schedule j)"
  "jget (job_val j) ''payload'' = payload_val (j_payload j)"
  "jget (job_val j) ''delivery'' = delivery_val (j_delivery j)"
  "num_field (job_val j) ''createdAtMs'' = Some (j_createdAtMs j)"
  "num_field (job_val j) ''updatedAtMs'' = Some (j_updatedAtMs j)"
  "num_field (job_val j) ''revisionActivatedAtMs'' = j_revisionActivatedAtMs j"
  "jget (job_val j) ''description'' = opt_val JStr (j_description j)"
  "jget (job_val j) ''logicalKey'' = opt_val JStr (j_logicalKey j)"
  "jget (job_val j) ''migrationRestoreBlocked'' = (if j_migrationRestoreBlocked j then JBool True else JUndef)"
  "jget (job_val j) ''retry'' = retry_val (j_retry j)"
  "bool_field (job_val j) ''deleteAfterRun'' = Some (j_deleteAfterRun j)"
  "jget (job_val j) ''state'' = state_val (j_state j)"
  by (simp_all add: job_val_def field_cons if_JUndef cong: option.case_cong)

lemma normalize_job_val:
  assumes "wf_job X j" and "j_cloneProvenance j = None" and "no_id opts = None \<or> no_id opts = Some (j_id j)"
  shows "normalize_job X opts (job_val j) = Inr j"
proof -
  have parts: "wf_schedule X (j_schedule j)" "wf_payload (j_payload j)" "wf_delivery (j_delivery j)"
      "wf_state (j_state j)"
    using assms(1) by (simp_all add: wf_job_def)
  have "job_id_for opts (job_val j) = j_id j"
    using assms by (auto simp: job_id_for_def job_fields wf_job_def)
  moreover have "normalize_mode X (delivery_val (j_delivery j)) = Inr (d_mode (j_delivery j))"
    by (simp add: normalize_mode_def delivery_fields coalesce_def Let_def)
  moreover obtain a where "j_revisionActivatedAtMs j = Some a"
    using assms(1) by (auto simp: wf_job_def)
  ultimately show ?thesis
    using assms(1,2) parts
    by (simp add: normalize_job_def job_fields payload_fields delivery_fields Let_def coalesce_def kind_texts
        normalize_schedule_val schedulerReceiptBudget_val normalizeState_val wf_job_def wf_payload_def wf_delivery_def)
qed

lemma wf_state_normalizeState: "wf_state (normalizeState v)"
  by (auto simp: wf_state_def normalizeState_def text_field_def split: if_splits)

lemma wf_state_empty: "wf_state empty_state"
  by (simp add: wf_state_def empty_state_def)

lemma normalize_timeout_Inr:
  "normalize_timeout v = Inr t \<Longrightarrow> pred_option (\<lambda>t. 1 \<le> t) t \<and> receipt_seconds v = Inr (case t of Some i \<Rightarrow> i | None \<Rightarrow> 3600)"
  by (auto simp: normalize_timeout_def receipt_seconds_def le_floor_iff floor_less_iff
      split: jval.splits jsnum.splits if_splits)

lemma schedulerReceiptBudget_Inr:
  assumes "schedulerReceiptBudget p = Inr b" and "receipt_seconds (jget p ''timeoutSeconds'') = Inr s"
  shows "is_safe_int (max 120000 (50 * s))"
    and "pred_option (\<lambda>r. 0 < r \<and> is_safe_int r \<and> is_safe_int (r * 1000)) (num_field p ''receiptTimeoutSeconds'')"
proof -
  have safe: "safe_integer v \<Longrightarrow> is_safe_int (num_floor v)" for v
    by (cases v rule: safe_integer.cases) auto
  from assms show "is_safe_int (max 120000 (50 * s))"
    by (auto simp: schedulerReceiptBudget_def Let_def res_simps)
  from assms show "pred_option (\<lambda>r. 0 < r \<and> is_safe_int r \<and> is_safe_int (r * 1000)) (num_field p ''receiptTimeoutSeconds'')"
    by (auto simp: schedulerReceiptBudget_def Let_def res_simps num_field_def safe split: if_splits)
qed

lemma normalize_logical_key_Inr: "normalize_logical_key v = Inr k \<Longrightarrow> pred_option wf_text k"
  by (auto simp: normalize_logical_key_def res_simps dest: require_text_Inr split: if_splits)

lemma pred_nonempty_trim: "pred_option wf_text (nonempty_trim v)"
  by (cases "nonempty_trim v") (simp_all add: wf_text_nonempty_trim)

lemma normalize_job_parts:
  assumes "normalize_job X opts v = Inr j"
  shows "\<exists>pl dl. j_id j = job_id_for opts v \<and> require_text (jget v ''name'') ''name'' (Type_Error ''job.name is required'') = Inr (j_name j) \<and> require_text (jget v ''agentId'') ''agentId''
             (Type_Error ''job.agentId is required (V1: every job targets exactly one agent)'') = Inr (j_agentId j)
    \<and> (let rev = jget v ''scheduleRevision'' in (rev = JUndef \<or> safe_integer rev \<and> num_floor rev \<ge> 1)
        \<and> j_scheduleRevision j = (if rev = JUndef then 1 else num_floor rev))
    \<and> normalize_schedule X (jget v ''schedule'') = Inr (j_schedule j)
    \<and> require_text (jget pl ''message'') ''payload.message''
             (Type_Error ''job.payload.message is required'') = Inr (p_message (j_payload j)) \<and> normalize_timeout (jget pl ''timeoutSeconds'') = Inr (p_timeoutSeconds (j_payload j))
    \<and> (\<exists>b. schedulerReceiptBudget pl = Inr b) \<and> p_receiptTimeoutSeconds (j_payload j) = num_field pl ''receiptTimeoutSeconds''
    \<and> p_model (j_payload j) = nonempty_trim (jget pl ''model'')
    \<and> d_channel (j_delivery j) = nonempty_trim (jget dl ''channel'') \<and> d_to (j_delivery j) = nonempty_trim (jget dl ''to'')
    \<and> j_revisionActivatedAtMs j \<noteq> None \<and> j_description j = nonempty_trim (jget v ''description'')
    \<and> normalize_logical_key (jget v ''logicalKey'') = Inr (j_logicalKey j)
    \<and> wf_state (j_state j) \<and> j_cloneProvenance j = None"
  using assms unfolding normalize_job_def Let_def res_simps
  apply (elim exE conjE)
  apply (drule sum.inject(2) [THEN iffD1])
  apply hypsubst
  apply (rule exI [of _ "coalesce (jget v ''payload'') (JObj [])"])
  apply (rule exI [of _ "coalesce (jget v ''delivery'') (JObj [])"])
  apply (simp add: wf_state_normalizeState wf_state_empty)
  done

lemma normalize_job_wf:
  assumes "iso_contract X" and "normalize_job X opts v = Inr j"
    and "pred_option wf_text (no_id opts)" and "wf_text (no_uuid opts)"
    and "\<And>e tz. j_schedule j \<noteq> Cron e tz (Some 0)"
  shows "wf_job X j"
proof -
  obtain pl dl where p: "j_id j = job_id_for opts v" "require_text (jget v ''name'') ''name'' (Type_Error ''job.name is required'') = Inr (j_name j)" "require_text (jget v ''agentId'') ''agentId''
             (Type_Error ''job.agentId is required (V1: every job targets exactly one agent)'') = Inr (j_agentId j)"
      "(let rev = jget v ''scheduleRevision'' in (rev = JUndef \<or> safe_integer rev \<and> num_floor rev \<ge> 1)
        \<and> j_scheduleRevision j = (if rev = JUndef then 1 else num_floor rev))"
      "normalize_schedule X (jget v ''schedule'') = Inr (j_schedule j)"
      "require_text (jget pl ''message'') ''payload.message''
             (Type_Error ''job.payload.message is required'') = Inr (p_message (j_payload j))"
      "normalize_timeout (jget pl ''timeoutSeconds'') = Inr (p_timeoutSeconds (j_payload j))"
      "\<exists>b. schedulerReceiptBudget pl = Inr b" "p_receiptTimeoutSeconds (j_payload j) = num_field pl ''receiptTimeoutSeconds''"
      "p_model (j_payload j) = nonempty_trim (jget pl ''model'')"
      "d_channel (j_delivery j) = nonempty_trim (jget dl ''channel'')" "d_to (j_delivery j) = nonempty_trim (jget dl ''to'')"
      "j_revisionActivatedAtMs j \<noteq> None" "j_description j = nonempty_trim (jget v ''description'')"
      "normalize_logical_key (jget v ''logicalKey'') = Inr (j_logicalKey j)" "wf_state (j_state j)"
    using normalize_job_parts[OF assms(2)] by blast
  have id: "wf_text (j_id j)"
    using assms(3,4) p(1) pred_nonempty_trim[of "jget v ''id''"]
    by (auto simp: job_id_for_def split: option.splits)
  have safe: "safe_integer w \<Longrightarrow> is_safe_int (num_floor w)" for w
    by (cases w rule: safe_integer.cases) auto
  have rev: "1 \<le> j_scheduleRevision j \<and> is_safe_int (j_scheduleRevision j)"
    using p(4) safe by (auto simp: Let_def is_safe_int_def max_safe_def)
  from p(8) obtain b where b: "schedulerReceiptBudget pl = Inr b" by blast
  note secs = normalize_timeout_Inr[OF p(7)]
  have "wf_payload (j_payload j)"
    using require_text_Inr[OF p(6)] p(9,10) secs schedulerReceiptBudget_Inr[OF b conjunct2[OF secs]]
    by (simp add: wf_payload_def pred_nonempty_trim)
  moreover have "wf_schedule X (j_schedule j)"
    using assms(5) by (intro normalize_schedule_wf[OF assms(1) p(5)])
  ultimately show ?thesis
    using id rev p require_text_Inr[OF p(2)] require_text_Inr[OF p(3)] normalize_logical_key_Inr[OF p(15)]
    by (simp add: wf_job_def wf_delivery_def pred_nonempty_trim)
qed

end
