(* ===== verification/OccurrenceModel.thy ===== *)
theory OccurrenceModel
  imports JobModel
begin

section \<open>The occurrence model\<close>

text \<open>
  \<^verbatim>\<open>packages/scheduler/src/occurrence-model.js\<close>: the durable record of one logical occurrence of a
  job, its derived identity, the state machine, the validation of persisted records, and the fence
  projection. A string read from disk that is none of the known states or kinds is kept
  (\<open>Other_State\<close>, \<open>Other_Kind\<close>): validation has to reject it. That a required field is present and
  has its type is part of the record type, so the \<^verbatim>\<open>typeof\<close> and \<^verbatim>\<open>isFinite\<close> halves of the checks have
  no counterpart.
\<close>

subsection \<open>Data\<close>

datatype occ_kind = Natural | Retry | Catchup | Other_Kind string

datatype occ_state = Admitted | Running | Succeeded | Failed | Outcome_Unknown | Other_State string

record hist_entry =
  h_at :: int
  h_from :: "occ_state option"
  h_to :: occ_state
  h_reason :: string

record terminal_evidence =
  te_kind :: string
  te_detailRef :: string

record late_settlement =
  ls_resolvedTo :: occ_state
  ls_resolvedAt :: int
  ls_basis :: string
  ls_evidenceRef :: string

record termination_settlement =
  ts_kind :: string
  ts_businessStateAtCommit :: occ_state
  ts_requestId :: string
  ts_evidenceKind :: string
  ts_evidenceId :: string
  ts_actorKind :: string
  ts_actorId :: string
  ts_actorProvenance :: string
  ts_operationId :: string
  ts_fenceBefore :: bool
  ts_fenceAfter :: bool
  ts_scheduleDisposition :: string
  ts_settledAt :: int
  ts_committedAt :: int

record occurrence =
  o_recordSchemaVersion :: int
  o_occurrenceId :: string
  o_jobId :: string
  o_ownerAgentId :: "string option"
  o_scheduleRevision :: int
  o_kind :: occ_kind
  o_runId :: string
  o_idempotencyKey :: string
  o_requestId :: "string option"
  o_payloadHash :: string
  o_state :: occ_state
  o_admittedAt :: int
  o_executionDeadlineAtMs :: int
  o_history :: "hist_entry list"
  o_retryOf :: "string option"
  o_nominal :: "int option"
  o_catchUpOf :: "int option"
  o_startedAt :: "int option"
  o_endedAt :: "int option"
  o_executionOutcome :: "occ_state option"
  o_deliveryStatus :: "string option"
  o_nativeSessionId :: "string option"
  o_terminalEvidence :: "terminal_evidence option"
  o_lateSettlement :: "late_settlement option"
  o_terminationSettlement :: "termination_settlement option"
  o_historyVerification :: "nat list option"

subsection \<open>Vocabularies and the state machine\<close>

definition known_kind :: "occ_kind \<Rightarrow> bool" where
  "known_kind k \<longleftrightarrow> (case k of Other_Kind _ \<Rightarrow> False | _ \<Rightarrow> True)"

definition known_state :: "occ_state \<Rightarrow> bool" where
  "known_state s \<longleftrightarrow> (case s of Other_State _ \<Rightarrow> False | _ \<Rightarrow> True)"

definition isTerminalState :: "occ_state \<Rightarrow> bool" where
  "isTerminalState s \<longleftrightarrow> s = Succeeded \<or> s = Failed"

definition delivery_statuses :: "string list" where
  "delivery_statuses = [''delivered'', ''not-delivered'', ''not-requested'', ''unknown'']"

definition late_settlement_bases :: "string list" where
  "late_settlement_bases = [''trusted-late-evidence'', ''operator-reconcile'', ''policy-auto-reconcile'']"

definition terminal_evidence_kinds :: "string list" where
  "terminal_evidence_kinds = [''pre-start-rejection'', ''turn-terminal'', ''late-settlement'',
     ''operator-reconcile'', ''policy-auto-reconcile'', ''termination-only'']"

definition termination_evidence_kinds :: "string list" where
  "termination_evidence_kinds = [''exact_terminal_then_idle'', ''exact_queued_removal'', ''child_real_exit'',
     ''cancellation_ack'', ''operator-trusted-evidence'', ''restart_quiescence_proven'']"

definition termination_actor_kinds :: "string list" where
  "termination_actor_kinds = [''self-agent'', ''operator'', ''scheduler-policy'']"

definition schedule_dispositions :: "string list" where
  "schedule_dispositions = [''recurring_future_natural_only'', ''one_shot_disabled'']"

fun canTransition :: "occ_state \<Rightarrow> occ_state \<Rightarrow> bool" where
  "canTransition Admitted to \<longleftrightarrow> to = Running \<or> to = Failed \<or> to = Outcome_Unknown"
| "canTransition Running to \<longleftrightarrow> to = Succeeded \<or> to = Failed \<or> to = Outcome_Unknown"
| "canTransition Succeeded to \<longleftrightarrow> False"
| "canTransition Failed to \<longleftrightarrow> False"
| "canTransition Outcome_Unknown to \<longleftrightarrow> to = Succeeded \<or> to = Failed"
| "canTransition (Other_State s) to \<longleftrightarrow> False"

definition isUnresolvedUnknown :: "occurrence \<Rightarrow> bool" where
  "isUnresolvedUnknown r \<longleftrightarrow> o_state r = Outcome_Unknown \<and> o_lateSettlement r = None
     \<and> o_terminationSettlement r = None"

subsection \<open>Identity\<close>

definition kind_str :: "occ_kind \<Rightarrow> string" where
  "kind_str k = (case k of Natural \<Rightarrow> ''natural'' | Retry \<Rightarrow> ''retry'' | Catchup \<Rightarrow> ''catchup'' | Other_Kind s \<Rightarrow> s)"

definition encodeCoords :: "string list \<Rightarrow> string" where
  "encodeCoords parts = join_with ''|'' (map (\<lambda>p. nat_str (length p) @ CHR '':'' # p) parts)"

definition shaHex16 :: "string \<Rightarrow> string" where
  "shaHex16 text = take 16 (sha256_hex text)"

datatype eff_slot = No_Slot | Slot_At int | Slot_Of string

definition slot_str :: "eff_slot \<Rightarrow> string" where
  "slot_str s = (case s of No_Slot \<Rightarrow> ''undefined'' | Slot_At ms \<Rightarrow> int_str ms | Slot_Of i \<Rightarrow> i)"

definition slot_for :: "occ_kind \<Rightarrow> int option \<Rightarrow> string option \<Rightarrow> int option \<Rightarrow> eff_slot" where
  "slot_for kind nominal retryOf catchUp = (case kind of
     Retry \<Rightarrow> (case retryOf of Some i \<Rightarrow> Slot_Of i | None \<Rightarrow> No_Slot)
   | Catchup \<Rightarrow> (case catchUp of Some ms \<Rightarrow> Slot_At ms | None \<Rightarrow> No_Slot)
   | _ \<Rightarrow> (case nominal of Some ms \<Rightarrow> Slot_At ms | None \<Rightarrow> No_Slot))"

definition deriveOccurrenceId ::
    "string \<Rightarrow> int \<Rightarrow> occ_kind \<Rightarrow> int option \<Rightarrow> string option \<Rightarrow> int option \<Rightarrow> string res" where
  "deriveOccurrenceId jobId revision kind nominal retryOf catchUp =
     (let slot = slot_for kind nominal retryOf catchUp in
      if slot = No_Slot
      then Inl (Type_Error (''occurrence identity: kind '' @ kind_str kind @ '' requires its slot coordinate''))
      else Inr (''occ:'' @ shaHex16 (encodeCoords [jobId, int_str revision, kind_str kind, slot_str slot])))"

definition deriveRunId :: "string \<Rightarrow> string" where
  "deriveRunId occurrenceId = ''run:'' @ occurrenceId"

definition deriveNativeSessionId :: "string \<Rightarrow> string" where
  "deriveNativeSessionId occurrenceId = ''cron-run-'' @ occurrenceId"

subsection \<open>Canonical JSON and the payload hash\<close>

fun json_num :: "ext \<Rightarrow> jsnum \<Rightarrow> string" where
  "json_num X (Num q) = num_str X (Num q)"
| "json_num X _ = ''null''"

function canonicalJSON :: "ext \<Rightarrow> jval \<Rightarrow> string" where
  "canonicalJSON X JUndef = []"
| "canonicalJSON X JNull = ''null''"
| "canonicalJSON X (JBool b) = (if b then ''true'' else ''false'')"
| "canonicalJSON X (JNum n) = json_num X n"
| "canonicalJSON X (JStr s) = json_string s"
| "canonicalJSON X (JArr vs) = ''['' @ join_with '','' (map (canonicalJSON X) vs) @ '']''"
| "canonicalJSON X (JObj kvs) = ''{'' @ join_with '',''
     (map (\<lambda>(k, text). json_string k @ '':'' @ text)
       (sort_key fst (map (\<lambda>kv. (fst kv, canonicalJSON X (snd kv))) (filter (\<lambda>kv. snd kv \<noteq> JUndef) kvs)))) @ ''}''"
  by pat_completeness auto
termination
proof (relation "measure (\<lambda>(X, v). size v)")
  fix X and vs :: "jval list" and v
  assume "v \<in> set vs"
  then show "((X, v), (X, JArr vs)) \<in> measure (\<lambda>(X, v). size v)"
    by (induction vs) auto
next
  fix X and kvs :: "(string \<times> jval) list" and kv
  assume "kv \<in> set (filter (\<lambda>kv. snd kv \<noteq> JUndef) kvs)"
  then have "kv \<in> set kvs" by simp
  then have "size (snd kv) \<le> size_list (size_prod (\<lambda>x. 0) size) kvs"
    by (induction kvs) auto
  then show "((X, snd kv), (X, JObj kvs)) \<in> measure (\<lambda>(X, v). size v)"
    by simp
qed simp

definition execution_payload :: "string \<Rightarrow> payload \<Rightarrow> jval" where
  "execution_payload agentId p = obj_of [(''agentId'', JStr agentId), (''payload'', payload_val p)]"

definition computePayloadHash :: "ext \<Rightarrow> string \<Rightarrow> payload \<Rightarrow> string" where
  "computePayloadHash X agentId p = ''sha256:'' @ sha256_hex (canonicalJSON X (execution_payload agentId p))"

subsection \<open>Logical coordinates\<close>

record coords =
  c_jobId :: string
  c_scheduleRevision :: int
  c_effectiveSlot :: eff_slot

definition logicalCoordinates :: "occurrence \<Rightarrow> coords" where
  "logicalCoordinates r = \<lparr>c_jobId = o_jobId r, c_scheduleRevision = o_scheduleRevision r,
     c_effectiveSlot = slot_for (o_kind r) (o_nominal r) (o_retryOf r) (o_catchUpOf r)\<rparr>"

definition coordsKey :: "coords \<Rightarrow> string" where
  "coordsKey c = encodeCoords [c_jobId c, int_str (c_scheduleRevision c), slot_str (c_effectiveSlot c)]"

definition structuredCollisionError :: "occurrence \<Rightarrow> occurrence \<Rightarrow> js_error" where
  "structuredCollisionError existing attempted = Coded_Error ''OCCURRENCE_STRUCTURED_COLLISION''
     (''occurrence collision: id '' @ o_occurrenceId attempted @ '' already bound to different logical coordinates'')"

definition findOccurrenceByCoords :: "occurrence list \<Rightarrow> coords \<Rightarrow> occurrence option" where
  "findOccurrenceByCoords occs c = find (\<lambda>r. coordsKey (logicalCoordinates r) = coordsKey c) occs"

definition findOccurrenceById :: "occurrence list \<Rightarrow> string \<Rightarrow> occurrence option" where
  "findOccurrenceById occs i = find (\<lambda>r. o_occurrenceId r = i) occs"

subsection \<open>Validation of a persisted record\<close>

text \<open>
  The checks in the order of the code, each with its message; the first that fires is the error.
  \<open>compatible\<close> is the read-only decoding, which tolerates a history with unknown states.
\<close>

fun first_fault :: "(bool \<times> string) list \<Rightarrow> string option" where
  "first_fault [] = None"
| "first_fault ((bad, message) # rest) = (if bad then Some message else first_fault rest)"

definition corrupt :: "occurrence \<Rightarrow> string \<Rightarrow> js_error" where
  "corrupt r message = Coded_Error ''OCCURRENCE_STORE_CORRUPT'' (''occurrence '' @ o_occurrenceId r @ '': '' @ message)"

definition slot_present :: "occurrence \<Rightarrow> bool" where
  "slot_present r \<longleftrightarrow> (case o_kind r of
     Retry \<Rightarrow> (case o_retryOf r of Some i \<Rightarrow> i \<noteq> [] | None \<Rightarrow> False)
   | Catchup \<Rightarrow> o_catchUpOf r \<noteq> None
   | _ \<Rightarrow> o_nominal r \<noteq> None)"

definition is_payload_hash :: "string \<Rightarrow> bool" where
  "is_payload_hash h \<longleftrightarrow> take 7 h = ''sha256:'' \<and> length (drop 7 h) = 64 \<and> list_all is_lower_hex (drop 7 h)"

definition is_operation_id :: "string \<Rightarrow> bool" where
  "is_operation_id i \<longleftrightarrow> take 3 i = ''op:'' \<and> length (drop 3 i) = 16 \<and> list_all is_lower_hex (drop 3 i)"

definition owner_faults :: "occurrence \<Rightarrow> (bool \<times> string) list" where
  "owner_faults r =
    [(o_recordSchemaVersion r \<noteq> 2 \<and> o_recordSchemaVersion r \<noteq> 3, ''recordSchemaVersion must be 2 or 3''),
     (o_recordSchemaVersion r = 3 \<and> (o_ownerAgentId r = None \<or> o_ownerAgentId r = Some []), ''V3 ownerAgentId required''),
     (o_recordSchemaVersion r = 3 \<and> (o_requestId r = None \<or> o_requestId r = Some []), ''V3 requestId required''),
     (o_recordSchemaVersion r \<noteq> 3 \<and> (o_ownerAgentId r \<noteq> None \<or> o_requestId r \<noteq> None),
       ''migrated V2 records must not fabricate ownerAgentId/requestId'')]"

definition identity_faults :: "occurrence \<Rightarrow> (bool \<times> string) list" where
  "identity_faults r =
    [(o_jobId r = [], ''jobId must be a non-empty string''),
     (\<not> is_safe_int (o_scheduleRevision r) \<or> o_scheduleRevision r < 1, ''scheduleRevision must be a positive integer''),
     (\<not> known_kind (o_kind r), ''invalid kind''),
     (\<not> known_state (o_state r), ''invalid state''),
     (\<not> slot_present r, ''kind missing its slot coordinate''),
     (deriveOccurrenceId (o_jobId r) (o_scheduleRevision r) (o_kind r) (o_nominal r) (o_retryOf r) (o_catchUpOf r)
        \<noteq> Inr (o_occurrenceId r), ''occurrenceId does not match logical coordinates''),
     (o_runId r \<noteq> deriveRunId (o_occurrenceId r), ''runId does not derive from occurrenceId''),
     (o_idempotencyKey r \<noteq> o_occurrenceId r, ''idempotencyKey must equal occurrenceId''),
     (o_requestId r \<noteq> None \<and> o_requestId r \<noteq> Some (o_idempotencyKey r), ''requestId must equal idempotencyKey''),
     (\<not> is_payload_hash (o_payloadHash r), ''payloadHash must be sha256:<64 lowercase hex>''),
     (o_executionDeadlineAtMs r \<le> o_admittedAt r, ''executionDeadlineAtMs must be after admittedAt''),
     (case o_startedAt r of Some t \<Rightarrow> t < o_admittedAt r | None \<Rightarrow> False, ''invalid startedAt''),
     (case o_endedAt r of Some t \<Rightarrow> t < o_admittedAt r | None \<Rightarrow> False, ''invalid endedAt''),
     (o_nativeSessionId r = Some [] \<or> o_nativeSessionId r = Some ''main'', ''nativeSessionId must be a non-main string'')]"

definition outcome_faults :: "occurrence \<Rightarrow> (bool \<times> string) list" where
  "outcome_faults r =
    [(case o_deliveryStatus r of Some d \<Rightarrow> d \<notin> set delivery_statuses | None \<Rightarrow> False, ''invalid deliveryStatus''),
     (case o_executionOutcome r of Some e \<Rightarrow> \<not> isTerminalState e | None \<Rightarrow> False, ''invalid executionOutcome''),
     (case o_terminalEvidence r of
        Some e \<Rightarrow> te_kind e \<notin> set terminal_evidence_kinds \<or> te_detailRef e = [] | None \<Rightarrow> False,
       ''invalid terminalEvidence authority''),
     (o_state r = Failed \<and> o_terminalEvidence r = None, ''failed requires terminalEvidence authority''),
     (isTerminalState (o_state r) \<and> o_executionOutcome r \<noteq> Some (o_state r), ''terminal state must equal executionOutcome''),
     (o_state r = Outcome_Unknown \<and> o_executionOutcome r \<noteq> None, ''outcome_unknown cannot claim a terminal executionOutcome''),
     (o_history r = [], ''history must be a non-empty array'')]"

text \<open>The indices of history entries whose states are not known (a null start is allowed once, first).\<close>

definition bad_enum :: "nat \<Rightarrow> hist_entry \<Rightarrow> bool" where
  "bad_enum index e \<longleftrightarrow> \<not> known_state (h_to e)
     \<or> \<not> (h_from e = None \<and> index = 0) \<and> (case h_from e of None \<Rightarrow> True | Some f \<Rightarrow> \<not> known_state f)"

fun invalid_enums_from :: "nat \<Rightarrow> hist_entry list \<Rightarrow> nat list" where
  "invalid_enums_from index [] = []"
| "invalid_enums_from index (e # es) =
     (if bad_enum index e then [index] else []) @ invalid_enums_from (Suc index) es"

definition invalidEnums :: "occurrence \<Rightarrow> nat list" where
  "invalidEnums r = invalid_enums_from 0 (o_history r)"

definition is_unverifiable :: "bool \<Rightarrow> occurrence \<Rightarrow> bool" where
  "is_unverifiable compatible r \<longleftrightarrow> compatible \<and> invalidEnums r \<noteq> []"

definition unverifiableAt :: "bool \<Rightarrow> occurrence \<Rightarrow> int \<Rightarrow> bool" where
  "unverifiableAt compatible r at' \<longleftrightarrow> is_unverifiable compatible r
     \<and> list_ex (\<lambda>index. h_at (o_history r ! index) = at') (invalidEnums r)"

text \<open>
  The scan of the history: the state and the instant of the entry before, the last entry that
  resolves an unknown outcome, the number of termination annotations.
\<close>

record scan =
  sc_previous :: "occ_state option"
  sc_previousAt :: "int option"
  sc_resolution :: "hist_entry option"
  sc_annotations :: nat

definition scan_start :: scan where
  "scan_start = \<lparr>sc_previous = None, sc_previousAt = None, sc_resolution = None, sc_annotations = 0\<rparr>"

definition known_from :: "nat \<Rightarrow> occ_state option \<Rightarrow> bool" where
  "known_from index f = (case f of None \<Rightarrow> index = 0 | Some s \<Rightarrow> known_state s)"

definition is_annotation :: "int option \<Rightarrow> hist_entry \<Rightarrow> bool" where
  "is_annotation settledAt e \<longleftrightarrow> h_from e = Some Outcome_Unknown \<and> h_to e = Outcome_Unknown
     \<and> settledAt = Some (h_at e)"

definition legal_entry :: "hist_entry \<Rightarrow> bool" where
  "legal_entry e \<longleftrightarrow> (case h_from e of Some f \<Rightarrow> canTransition f (h_to e) | None \<Rightarrow> False)"

definition scan_entry ::
    "bool \<Rightarrow> int \<Rightarrow> int option \<Rightarrow> nat \<Rightarrow> hist_entry \<Rightarrow> scan \<Rightarrow> string + scan" where
  "scan_entry unver admittedAt settledAt index e sc =
    (let fromKnown = known_from index (h_from e);
         toKnown = known_state (h_to e);
         previousKnown = (index = 0 \<or> (case sc_previous sc of Some s \<Rightarrow> known_state s | None \<Rightarrow> False))
     in case first_fault
         [((\<not> unver \<or> fromKnown \<and> previousKnown) \<and> h_from e \<noteq> sc_previous sc, ''history entry has discontinuous from-state''),
          (case sc_previousAt sc of Some t \<Rightarrow> h_at e < t | None \<Rightarrow> False, ''history entry moves backward in time''),
          (index = 0 \<and> h_at e \<noteq> admittedAt, ''history must begin at admittedAt''),
          (index = 0 \<and> (\<not> unver \<or> toKnown) \<and> h_to e \<noteq> Admitted, ''history must begin with admitted''),
          (index > 0 \<and> (\<not> unver \<or> fromKnown \<and> toKnown) \<and> \<not> legal_entry e \<and> \<not> is_annotation settledAt e,
            ''history contains illegal transition'')]
        of Some message \<Rightarrow> Inl message
         | None \<Rightarrow> Inr \<lparr>sc_previous = Some (h_to e), sc_previousAt = Some (h_at e),
             sc_resolution = (if h_from e = Some Outcome_Unknown \<and> isTerminalState (h_to e) then Some e else sc_resolution sc),
             sc_annotations = (if is_annotation settledAt e then Suc (sc_annotations sc) else sc_annotations sc)\<rparr>)"

fun scan_history ::
    "bool \<Rightarrow> int \<Rightarrow> int option \<Rightarrow> nat \<Rightarrow> hist_entry list \<Rightarrow> scan \<Rightarrow> string + scan" where
  "scan_history unver admittedAt settledAt index [] sc = Inr sc"
| "scan_history unver admittedAt settledAt index (e # es) sc =
     rbind (scan_entry unver admittedAt settledAt index e sc)
       (scan_history unver admittedAt settledAt (Suc index) es)"

definition late_settlement_invalid :: "bool \<Rightarrow> occurrence \<Rightarrow> scan \<Rightarrow> late_settlement \<Rightarrow> bool" where
  "late_settlement_invalid compatible r sc s \<longleftrightarrow>
     ls_basis s \<notin> set late_settlement_bases \<or> \<not> isTerminalState (ls_resolvedTo s)
     \<or> ls_resolvedTo s \<noteq> o_state r
     \<or> \<not> ((case sc_resolution sc of Some e \<Rightarrow> ls_resolvedAt s = h_at e | None \<Rightarrow> False)
           \<or> unverifiableAt compatible r (ls_resolvedAt s))
     \<or> ls_evidenceRef s = []"

definition termination_invalid :: "bool \<Rightarrow> occurrence \<Rightarrow> scan \<Rightarrow> termination_settlement \<Rightarrow> bool" where
  "termination_invalid compatible r sc s \<longleftrightarrow>
     sc_annotations sc > 1 \<or> (sc_annotations sc \<noteq> 1 \<and> \<not> unverifiableAt compatible r (ts_settledAt s))
     \<or> \<not> (o_state r = Outcome_Unknown \<or> (isTerminalState (o_state r) \<and> o_lateSettlement r \<noteq> None))
     \<or> ts_kind s \<noteq> ''terminated_without_outcome''
     \<or> ts_businessStateAtCommit s \<noteq> Outcome_Unknown
     \<or> ts_requestId s \<noteq> (case o_requestId r of Some i \<Rightarrow> i | None \<Rightarrow> o_idempotencyKey r)
     \<or> ts_evidenceKind s \<notin> set termination_evidence_kinds
     \<or> ts_evidenceId s = []
     \<or> ts_actorKind s \<notin> set termination_actor_kinds
     \<or> ts_actorId s = []
     \<or> (ts_actorKind s = ''self-agent'' \<and> o_ownerAgentId r \<noteq> Some (ts_actorId s))
     \<or> ts_actorProvenance s = []
     \<or> \<not> is_operation_id (ts_operationId s)
     \<or> \<not> ts_fenceBefore s
     \<or> ts_scheduleDisposition s \<notin> set schedule_dispositions
     \<or> ts_settledAt s \<noteq> ts_committedAt s"

definition settled_at :: "occurrence \<Rightarrow> int option" where
  "settled_at r = map_option ts_settledAt (o_terminationSettlement r)"

definition closing_faults :: "bool \<Rightarrow> occurrence \<Rightarrow> scan \<Rightarrow> (bool \<times> string) list" where
  "closing_faults compatible r sc =
    (let unver = is_unverifiable compatible r;
         previousKnown = (case sc_previous sc of Some s \<Rightarrow> known_state s | None \<Rightarrow> False)
     in
    [((\<not> unver \<or> previousKnown) \<and> sc_previous sc \<noteq> Some (o_state r), ''history final state does not match record.state''),
     (case o_startedAt r of
        Some t \<Rightarrow> \<not> list_ex (\<lambda>e. h_to e = Running \<and> h_at e = t) (o_history r) \<and> \<not> unverifiableAt compatible r t
      | None \<Rightarrow> False, ''startedAt must match the running transition''),
     (o_endedAt r \<noteq> None \<and> sc_previousAt sc \<noteq> o_endedAt r, ''endedAt must match the final history transition''),
     (sc_resolution sc \<noteq> None \<and> o_lateSettlement r = None, ''outcome_unknown resolution requires lateSettlement authority''),
     (case o_lateSettlement r of Some s \<Rightarrow> late_settlement_invalid compatible r sc s | None \<Rightarrow> False,
       ''invalid lateSettlement authority''),
     (case o_terminationSettlement r of Some s \<Rightarrow> termination_invalid compatible r sc s | None \<Rightarrow> False,
       ''invalid terminationSettlement authority''),
     (o_terminationSettlement r = None \<and> sc_annotations sc \<noteq> 0,
       ''termination history annotation requires terminationSettlement authority'')])"

definition validateRecord :: "occurrence \<Rightarrow> bool \<Rightarrow> occurrence res" where
  "validateRecord r compatible =
    (case first_fault (owner_faults r @ identity_faults r @ outcome_faults r) of
       Some message \<Rightarrow> Inl (corrupt r message)
     | None \<Rightarrow>
    (case scan_history (is_unverifiable compatible r) (o_admittedAt r) (settled_at r) 0 (o_history r) scan_start of
       Inl message \<Rightarrow> Inl (corrupt r message)
     | Inr sc \<Rightarrow>
    (case first_fault (closing_faults compatible r sc) of
       Some message \<Rightarrow> Inl (corrupt r message)
     | None \<Rightarrow> Inr (if compatible
         then r\<lparr>o_historyVerification := if is_unverifiable compatible r then Some (invalidEnums r) else None\<rparr>
         else r))))"

definition validateOccurrenceRecord :: "occurrence \<Rightarrow> occurrence res" where
  "validateOccurrenceRecord r = validateRecord r False"

definition decodeOccurrenceRecord :: "occurrence \<Rightarrow> occurrence res" where
  "decodeOccurrenceRecord r = validateRecord r True"

subsection \<open>Building a record\<close>

definition buildOccurrenceRecord ::
    "ext \<Rightarrow> job \<Rightarrow> occ_kind \<Rightarrow> int option \<Rightarrow> string option \<Rightarrow> int option \<Rightarrow> int \<Rightarrow> int option \<Rightarrow> occurrence res" where
  "buildOccurrenceRecord X job kind nominal retryOf catchUp admittedAt timeoutMs =
    rbind (ensure (known_kind kind) (Type_Error ''occurrence kind must be natural|retry|catchup'')) (\<lambda>_.
    rbind (deriveOccurrenceId (j_id job) (j_scheduleRevision job) kind nominal retryOf catchUp) (\<lambda>occurrenceId.
    let timeoutMsResolved = (case timeoutMs of Some t \<Rightarrow> (if t > 0 then t else 3600000) | None \<Rightarrow> 3600000)
    in Inr \<lparr>o_recordSchemaVersion = 3, o_occurrenceId = occurrenceId, o_jobId = j_id job,
      o_ownerAgentId = Some (j_agentId job), o_scheduleRevision = j_scheduleRevision job, o_kind = kind,
      o_runId = deriveRunId occurrenceId, o_idempotencyKey = occurrenceId, o_requestId = Some occurrenceId,
      o_payloadHash = computePayloadHash X (j_agentId job) (j_payload job),
      o_state = Admitted, o_admittedAt = admittedAt, o_executionDeadlineAtMs = admittedAt + timeoutMsResolved,
      o_history = [\<lparr>h_at = admittedAt, h_from = None, h_to = Admitted,
        h_reason = kind_str kind @ '' occurrence reserved''\<rparr>],
      o_retryOf = (if kind = Retry then retryOf else None),
      o_nominal = (if kind = Natural then nominal else None),
      o_catchUpOf = (if kind = Catchup then catchUp else None),
      o_startedAt = None, o_endedAt = None, o_executionOutcome = None, o_deliveryStatus = None,
      o_nativeSessionId = None, o_terminalEvidence = None, o_lateSettlement = None,
      o_terminationSettlement = None, o_historyVerification = None\<rparr>))"

subsection \<open>Transitions\<close>

record transition =
  t_to :: occ_state
  t_at :: int
  t_reason :: string
  t_executionOutcome :: "occ_state option"
  t_deliveryStatus :: "string option"
  t_startedAt :: "int option"
  t_endedAt :: "int option"
  t_terminalEvidence :: "terminal_evidence option"
  t_lateSettlement :: "late_settlement option"
  t_nativeSessionId :: "string option"

definition plain_transition :: "occ_state \<Rightarrow> int \<Rightarrow> string \<Rightarrow> transition" where
  "plain_transition to at' reason = \<lparr>t_to = to, t_at = at', t_reason = reason, t_executionOutcome = None,
     t_deliveryStatus = None, t_startedAt = None, t_endedAt = None, t_terminalEvidence = None,
     t_lateSettlement = None, t_nativeSessionId = None\<rparr>"

definition override :: "'a option \<Rightarrow> 'a option \<Rightarrow> 'a option" where
  "override new old = (case new of Some x \<Rightarrow> Some x | None \<Rightarrow> old)"

lemma override_simps [simp]: "override None old = old" "override (Some x) old = Some x"
  by (simp_all add: override_def)

definition move :: "transition \<Rightarrow> occurrence \<Rightarrow> occurrence" where
  "move t r = r\<lparr>o_state := t_to t,
     o_history := o_history r @ [\<lparr>h_at = t_at t, h_from = Some (o_state r), h_to = t_to t, h_reason = t_reason t\<rparr>],
     o_startedAt := override (t_startedAt t) (o_startedAt r),
     o_endedAt := override (t_endedAt t) (o_endedAt r),
     o_executionOutcome := override (t_executionOutcome t) (o_executionOutcome r),
     o_deliveryStatus := override (t_deliveryStatus t) (o_deliveryStatus r),
     o_nativeSessionId := override (t_nativeSessionId t) (o_nativeSessionId r),
     o_terminalEvidence := override (t_terminalEvidence t) (o_terminalEvidence r),
     o_lateSettlement := override (t_lateSettlement t) (o_lateSettlement r)\<rparr>"

definition settlement_authorizes :: "transition \<Rightarrow> bool" where
  "settlement_authorizes t \<longleftrightarrow> (case t_lateSettlement t of None \<Rightarrow> False
     | Some s \<Rightarrow> ls_basis s \<in> set late_settlement_bases \<and> ls_resolvedTo s = t_to t)"

definition applyTransition :: "transition \<Rightarrow> occurrence \<Rightarrow> occurrence res" where
  "applyTransition t r =
    (if \<not> known_state (t_to t) then Inl (Type_Error ''invalid target state'')
     else if o_state r = t_to t then Inr r
     else if \<not> canTransition (o_state r) (t_to t) then
       Inl (Coded_Error ''OCCURRENCE_ILLEGAL_TRANSITION'' ''illegal transition'')
     else if o_state r = Outcome_Unknown \<and> \<not> settlement_authorizes t then
       Inl (Coded_Error ''OCCURRENCE_RECONCILE_EVIDENCE_REQUIRED''
         ''outcome_unknown resolution requires trusted late settlement or operator reconcile'')
     else Inr (move t r))"

subsection \<open>Fences\<close>

record fence =
  f_occurrenceId :: string
  f_runId :: string
  f_activatedAtMs :: int
  f_reason :: string

type_synonym fences = "(string \<times> fence) list"

definition fence_of :: "occurrence \<Rightarrow> fence" where
  "fence_of r = \<lparr>f_occurrenceId = o_occurrenceId r, f_runId = o_runId r, f_activatedAtMs = o_admittedAt r,
     f_reason = ''outcome_unknown without termination proof (occurrence '' @ o_occurrenceId r @ '')''\<rparr>"

text \<open>\<^verbatim>\<open>fences[jobId] = f\<close>: replaces the property in place or adds it at the end.\<close>

fun fence_put :: "string \<Rightarrow> fence \<Rightarrow> fences \<Rightarrow> fences" where
  "fence_put k f [] = [(k, f)]"
| "fence_put k f ((k', f') # rest) = (if k' = k then (k, f) # rest else (k', f') # fence_put k f rest)"

fun rebuild_from :: "fences \<Rightarrow> occurrence list \<Rightarrow> fences" where
  "rebuild_from fs [] = fs"
| "rebuild_from fs (r # rs) =
    (if \<not> isUnresolvedUnknown r then rebuild_from fs rs
     else case map_of fs (o_jobId r) of
       None \<Rightarrow> rebuild_from (fence_put (o_jobId r) (fence_of r) fs) rs
     | Some existing \<Rightarrow>
         if o_admittedAt r < f_activatedAtMs existing
         then rebuild_from (fence_put (o_jobId r) (fence_of r) fs) rs
         else rebuild_from fs rs)"

definition rebuildFences :: "occurrence list \<Rightarrow> fences" where
  "rebuildFences occs = rebuild_from [] occs"

definition fenced :: "fences \<Rightarrow> string \<Rightarrow> bool" where
  "fenced fs jobId \<longleftrightarrow> map_of fs jobId \<noteq> None"

end
