(* ===== verification/OccurrenceValidity.thy ===== *)
theory OccurrenceValidity
  imports OccurrenceModel
begin

section \<open>What validation establishes, and which steps keep it\<close>

text \<open>
  Lemmas about \<open>OccurrenceModel\<close>: the length-prefixed encoding is unambiguous, a built record
  validates, a transition and a termination annotation keep a record valid under the conditions
  the callers meet, and the fences are exactly the unresolved unknown outcomes.
\<close>

subsection \<open>Unambiguous coordinates\<close>

lemma nat_str_prefix:
  assumes "nat_str m @ CHR '':'' # x = nat_str n @ CHR '':'' # y"
  shows "m = n \<and> x = y"
proof -
  have stop: "takeWhile is_digit (nat_str k @ CHR '':'' # z) = nat_str k" for k z
  proof -
    have "\<not> is_digit (CHR '':'')"
      by (simp add: is_digit_def)
    then show ?thesis
      by (subst takeWhile_append2) (auto simp: nat_str_digits)
  qed
  from assms stop[of m x] stop[of n y] have "nat_str m = nat_str n"
    by simp
  with assms show ?thesis by (simp add: nat_str_inj)
qed

lemma coded_part_prefix:
  assumes "nat_str (length p) @ CHR '':'' # p @ u = nat_str (length q) @ CHR '':'' # q @ v"
  shows "p = q \<and> u = v"
  using nat_str_prefix[OF assms] by (auto simp: append_eq_append_conv)

lemma join_with_Cons:
  "join_with sep (x # xs) = x @ (if xs = [] then [] else sep @ join_with sep xs)"
  by (cases xs) simp_all

lemma encodeCoords_inj:
  "encodeCoords ps = encodeCoords qs \<longleftrightarrow> ps = qs"
proof
  show "encodeCoords ps = encodeCoords qs \<Longrightarrow> ps = qs"
  proof (induction ps arbitrary: qs)
    case Nil
    then show ?case
      by (cases qs) (auto simp: encodeCoords_def join_with_Cons)
  next
    case (Cons p ps)
    then obtain q qs' where qs: "qs = q # qs'"
      by (cases qs) (auto simp: encodeCoords_def join_with_Cons)
    let ?rest = "\<lambda>xs. if xs = [] then [] else CHR ''|'' # encodeCoords xs"
    have shape: "encodeCoords (x # xs) = nat_str (length x) @ CHR '':'' # x @ ?rest xs" for x xs
      by (simp add: encodeCoords_def join_with_Cons)
    have "p = q \<and> ?rest ps = ?rest qs'"
      using Cons.prems qs by (intro coded_part_prefix) (simp only: shape)
    with Cons.IH[of qs'] qs show ?case
      by (auto split: if_splits)
  qed
qed simp

lemma coordsKey_eq:
  "coordsKey c = coordsKey d \<longleftrightarrow> c_jobId c = c_jobId d \<and> c_scheduleRevision c = c_scheduleRevision d
     \<and> slot_str (c_effectiveSlot c) = slot_str (c_effectiveSlot d)"
  by (simp add: coordsKey_def encodeCoords_inj int_str_inj)

subsection \<open>Validation as a predicate\<close>

lemma first_fault_None: "first_fault fs = None \<longleftrightarrow> list_all (\<lambda>f. \<not> fst f) fs"
  by (induction fs rule: first_fault.induct) auto

definition valid_occ :: "occurrence \<Rightarrow> bool" where
  "valid_occ r \<longleftrightarrow> validateOccurrenceRecord r = Inr r"

definition head_ok :: "occurrence \<Rightarrow> bool" where
  "head_ok r \<longleftrightarrow> list_all (\<lambda>f. \<not> fst f) (owner_faults r @ identity_faults r @ outcome_faults r)"

definition scan_of :: "occurrence \<Rightarrow> string + scan" where
  "scan_of r = scan_history False (o_admittedAt r) (settled_at r) 0 (o_history r) scan_start"

lemma not_unverifiable [simp]: "is_unverifiable False r = False" "unverifiableAt False r t = False"
  by (simp_all add: is_unverifiable_def unverifiableAt_def)

lemma valid_occ_iff:
  "valid_occ r \<longleftrightarrow> head_ok r \<and>
     (\<exists>sc. scan_of r = Inr sc \<and> list_all (\<lambda>f. \<not> fst f) (closing_faults False r sc))"
  by (auto simp: valid_occ_def validateOccurrenceRecord_def validateRecord_def head_ok_def scan_of_def
      first_fault_None[symmetric] split: option.splits sum.splits)

lemma scan_history_append:
  "scan_history u a s i (xs @ [e]) sc =
     rbind (scan_history u a s i xs sc) (scan_entry u a s (i + length xs) e)"
proof (induction xs arbitrary: i sc)
  case Nil
  show ?case
    by (cases "scan_entry u a s i e sc") simp_all
next
  case (Cons x xs)
  show ?case
    by (cases "scan_entry u a s i x sc") (simp_all add: Cons.IH)
qed

lemma scan_entry_Inr:
  "scan_entry False a s i e sc = Inr sc' \<longleftrightarrow>
     h_from e = sc_previous sc \<and> (case sc_previousAt sc of Some t \<Rightarrow> t \<le> h_at e | None \<Rightarrow> True)
     \<and> (i = 0 \<longrightarrow> h_at e = a \<and> h_to e = Admitted) \<and> (0 < i \<longrightarrow> legal_entry e \<or> is_annotation s e)
     \<and> sc' = \<lparr>sc_previous = Some (h_to e), sc_previousAt = Some (h_at e),
         sc_resolution = (if h_from e = Some Outcome_Unknown \<and> isTerminalState (h_to e) then Some e else sc_resolution sc),
         sc_annotations = (if is_annotation s e then Suc (sc_annotations sc) else sc_annotations sc)\<rparr>"
  by (auto simp: scan_entry_def Let_def split: option.splits)

lemma scan_history_last:
  "scan_history False a s i xs sc = Inr sc' \<Longrightarrow> xs \<noteq> [] \<Longrightarrow>
     sc_previous sc' = Some (h_to (last xs)) \<and> sc_previousAt sc' = Some (h_at (last xs))"
proof (induction xs arbitrary: i sc)
  case (Cons x xs)
  then show ?case
    by (cases "xs = []") (auto simp: rbind_eq_Inr scan_entry_Inr)
qed simp

lemma scan_history_mono:
  "scan_history False a s i xs sc = Inr sc' \<Longrightarrow> sc_previousAt sc = Some t \<Longrightarrow>
     \<exists>t'. sc_previousAt sc' = Some t' \<and> t \<le> t'"
  by (induction xs arbitrary: i sc t) (fastforce simp: rbind_eq_Inr scan_entry_Inr)+

text \<open>The last instant of the history is not before the admission.\<close>

lemma scan_of_last:
  assumes "scan_of r = Inr sc" and "o_history r \<noteq> []"
  shows "sc_previous sc = Some (h_to (last (o_history r)))"
    and "sc_previousAt sc = Some (h_at (last (o_history r)))"
    and "o_admittedAt r \<le> h_at (last (o_history r))"
proof -
  note ends = scan_history_last[OF assms(1)[unfolded scan_of_def] assms(2)]
  then show "sc_previous sc = Some (h_to (last (o_history r)))"
    and at: "sc_previousAt sc = Some (h_at (last (o_history r)))" by auto
  from assms(2) obtain e es where es: "o_history r = e # es"
    by (cases "o_history r") auto
  from assms(1)[unfolded scan_of_def es] obtain sc1 where
      "scan_entry False (o_admittedAt r) (settled_at r) 0 e scan_start = Inr sc1"
      "scan_history False (o_admittedAt r) (settled_at r) (Suc 0) es sc1 = Inr sc"
    by (auto simp: rbind_eq_Inr)
  then have "\<exists>t'. sc_previousAt sc = Some t' \<and> o_admittedAt r \<le> t'"
    by (intro scan_history_mono) (auto simp: scan_entry_Inr)
  with at show "o_admittedAt r \<le> h_at (last (o_history r))" by auto
qed

lemma head_okD:
  assumes "head_ok r"
  shows "o_history r \<noteq> []" "known_state (o_state r)" "o_jobId r \<noteq> []"
  using assms by (auto simp: head_ok_def outcome_faults_def identity_faults_def)

lemma valid_occ_last:
  assumes "valid_occ r"
  shows "o_history r \<noteq> []" and "o_admittedAt r \<le> h_at (last (o_history r))"
    and "h_to (last (o_history r)) = o_state r"
    and "o_endedAt r = None \<or> o_endedAt r = Some (h_at (last (o_history r)))"
proof -
  from assms obtain sc where h: "head_ok r" "scan_of r = Inr sc"
      "list_all (\<lambda>f. \<not> fst f) (closing_faults False r sc)"
    by (auto simp: valid_occ_iff)
  then show ne: "o_history r \<noteq> []" by (auto dest: head_okD)
  show "o_admittedAt r \<le> h_at (last (o_history r))"
    by (rule scan_of_last(3)[OF h(2) ne])
  show "h_to (last (o_history r)) = o_state r"
    and "o_endedAt r = None \<or> o_endedAt r = Some (h_at (last (o_history r)))"
    using h(3) scan_of_last[OF h(2) ne] by (auto simp: closing_faults_def)
qed

subsection \<open>A built record validates\<close>

lemma payload_hash_shape: "is_payload_hash (computePayloadHash X a p)"
  by (auto simp: is_payload_hash_def computePayloadHash_def list_all_iff sha256_hex_lower)

lemma derived_id_nonempty: "deriveOccurrenceId j n k a b c = Inr i \<Longrightarrow> i \<noteq> []"
  by (auto simp: deriveOccurrenceId_def Let_def split: if_splits)

lemma build_valid:
  assumes "buildOccurrenceRecord X job kind nominal retryOf catchUp at' timeout = Inr r"
    and "j_id job \<noteq> []" "j_agentId job \<noteq> []" "1 \<le> j_scheduleRevision job"
      "is_safe_int (j_scheduleRevision job)" "kind = Retry \<Longrightarrow> retryOf \<noteq> Some []"
  shows "valid_occ r"
proof -
  from assms(1) obtain i where kind: "known_kind kind"
    and i: "deriveOccurrenceId (j_id job) (j_scheduleRevision job) kind nominal retryOf catchUp = Inr i"
    by (auto simp: buildOccurrenceRecord_def res_simps)
  note ne = derived_id_nonempty[OF i]
  have slot: "slot_for kind nominal retryOf catchUp \<noteq> No_Slot"
    using i by (auto simp: deriveOccurrenceId_def Let_def split: if_splits)
  have same: "deriveOccurrenceId (j_id job) (j_scheduleRevision job) kind
      (if kind = Natural then nominal else None) (if kind = Retry then retryOf else None)
      (if kind = Catchup then catchUp else None) = Inr i"
    using i kind by (cases kind) (auto simp: deriveOccurrenceId_def slot_for_def known_kind_def)
  from assms(1) kind i have r: "r = \<lparr>o_recordSchemaVersion = 3, o_occurrenceId = i, o_jobId = j_id job,
      o_ownerAgentId = Some (j_agentId job), o_scheduleRevision = j_scheduleRevision job, o_kind = kind,
      o_runId = deriveRunId i, o_idempotencyKey = i, o_requestId = Some i,
      o_payloadHash = computePayloadHash X (j_agentId job) (j_payload job),
      o_state = Admitted, o_admittedAt = at',
      o_executionDeadlineAtMs = at' + (case timeout of Some t \<Rightarrow> (if t > 0 then t else 3600000) | None \<Rightarrow> 3600000),
      o_history = [\<lparr>h_at = at', h_from = None, h_to = Admitted, h_reason = kind_str kind @ '' occurrence reserved''\<rparr>],
      o_retryOf = (if kind = Retry then retryOf else None),
      o_nominal = (if kind = Natural then nominal else None),
      o_catchUpOf = (if kind = Catchup then catchUp else None),
      o_startedAt = None, o_endedAt = None, o_executionOutcome = None, o_deliveryStatus = None,
      o_nativeSessionId = None, o_terminalEvidence = None, o_lateSettlement = None,
      o_terminationSettlement = None, o_historyVerification = None\<rparr>"
    by (simp add: buildOccurrenceRecord_def Let_def)
  have "slot_present r"
    using slot kind assms(6) by (cases kind) (auto simp: r slot_present_def slot_for_def known_kind_def split: option.splits)
  then have "head_ok r"
    using assms(2-5) ne kind same
    by (simp add: r head_ok_def owner_faults_def identity_faults_def outcome_faults_def payload_hash_shape
        isTerminalState_def known_state_def split: option.split)
  moreover have "scan_of r = Inr \<lparr>sc_previous = Some Admitted, sc_previousAt = Some at', sc_resolution = None, sc_annotations = 0\<rparr>"
    by (simp add: r scan_of_def scan_start_def scan_entry_Inr is_annotation_def rbind_eq_Inr)
  ultimately show ?thesis
    by (auto simp: valid_occ_iff closing_faults_def r)
qed

subsection \<open>Transitions\<close>

text \<open>What a transition must carry for the record to stay valid.\<close>

definition fit_transition :: "occurrence \<Rightarrow> transition \<Rightarrow> bool" where
  "fit_transition r t \<longleftrightarrow> canTransition (o_state r) (t_to t) \<and> h_at (last (o_history r)) \<le> t_at t
    \<and> (t_startedAt t = None \<or> (t_startedAt t = Some (t_at t) \<and> t_to t = Running))
    \<and> override (t_endedAt t) (o_endedAt r) \<in> {None, Some (t_at t)}
    \<and> (case override (t_executionOutcome t) (o_executionOutcome r) of
         None \<Rightarrow> \<not> isTerminalState (t_to t)
       | Some e \<Rightarrow> isTerminalState e \<and> t_to t \<noteq> Outcome_Unknown \<and> (isTerminalState (t_to t) \<longrightarrow> e = t_to t))
    \<and> pred_option (\<lambda>d. d \<in> set delivery_statuses) (t_deliveryStatus t)
    \<and> pred_option (\<lambda>n. n \<noteq> [] \<and> n \<noteq> ''main'') (t_nativeSessionId t)
    \<and> pred_option (\<lambda>e. te_kind e \<in> set terminal_evidence_kinds \<and> te_detailRef e \<noteq> []) (t_terminalEvidence t)
    \<and> (t_to t = Failed \<longrightarrow> override (t_terminalEvidence t) (o_terminalEvidence r) \<noteq> None)
    \<and> (if o_state r = Outcome_Unknown
       then (case t_lateSettlement t of None \<Rightarrow> False
             | Some s \<Rightarrow> ls_basis s \<in> set late_settlement_bases \<and> ls_resolvedTo s = t_to t
                 \<and> ls_resolvedAt s = t_at t \<and> ls_evidenceRef s \<noteq> [])
       else t_lateSettlement t = None)"

lemma move_identity [simp]:
  "o_recordSchemaVersion (move t r) = o_recordSchemaVersion r"
  "o_occurrenceId (move t r) = o_occurrenceId r"
  "o_jobId (move t r) = o_jobId r"
  "o_ownerAgentId (move t r) = o_ownerAgentId r"
  "o_scheduleRevision (move t r) = o_scheduleRevision r"
  "o_kind (move t r) = o_kind r"
  "o_runId (move t r) = o_runId r"
  "o_idempotencyKey (move t r) = o_idempotencyKey r"
  "o_requestId (move t r) = o_requestId r"
  "o_payloadHash (move t r) = o_payloadHash r"
  "o_admittedAt (move t r) = o_admittedAt r"
  "o_executionDeadlineAtMs (move t r) = o_executionDeadlineAtMs r"
  "o_retryOf (move t r) = o_retryOf r"
  "o_nominal (move t r) = o_nominal r"
  "o_catchUpOf (move t r) = o_catchUpOf r"
  "o_terminationSettlement (move t r) = o_terminationSettlement r"
  "o_historyVerification (move t r) = o_historyVerification r"
  by (simp_all add: move_def)

lemma move_fields [simp]:
  "o_state (move t r) = t_to t"
  "o_history (move t r) = o_history r @ [\<lparr>h_at = t_at t, h_from = Some (o_state r), h_to = t_to t, h_reason = t_reason t\<rparr>]"
  "o_startedAt (move t r) = override (t_startedAt t) (o_startedAt r)"
  "o_endedAt (move t r) = override (t_endedAt t) (o_endedAt r)"
  "o_executionOutcome (move t r) = override (t_executionOutcome t) (o_executionOutcome r)"
  "o_deliveryStatus (move t r) = override (t_deliveryStatus t) (o_deliveryStatus r)"
  "o_nativeSessionId (move t r) = override (t_nativeSessionId t) (o_nativeSessionId r)"
  "o_terminalEvidence (move t r) = override (t_terminalEvidence t) (o_terminalEvidence r)"
  "o_lateSettlement (move t r) = override (t_lateSettlement t) (o_lateSettlement r)"
  by (simp_all add: move_def)

lemma slot_present_move [simp]: "slot_present (move t r) = slot_present r"
  by (cases "o_kind r"; simp add: slot_present_def)

text \<open>The closing checks as one conjunction.\<close>

definition start_recorded :: "occurrence \<Rightarrow> bool" where
  "start_recorded r \<longleftrightarrow> (\<forall>t. o_startedAt r = Some t \<longrightarrow> list_ex (\<lambda>e. h_to e = Running \<and> h_at e = t) (o_history r))"

lemma closing_ok_iff:
  "list_all (\<lambda>f. \<not> fst f) (closing_faults False r sc) \<longleftrightarrow>
     sc_previous sc = Some (o_state r) \<and> start_recorded r
     \<and> (o_endedAt r = None \<or> sc_previousAt sc = o_endedAt r)
     \<and> (sc_resolution sc \<noteq> None \<longrightarrow> o_lateSettlement r \<noteq> None)
     \<and> (\<forall>s. o_lateSettlement r = Some s \<longrightarrow> \<not> late_settlement_invalid False r sc s)
     \<and> (\<forall>q. o_terminationSettlement r = Some q \<longrightarrow> \<not> termination_invalid False r sc q)
     \<and> (o_terminationSettlement r = None \<longrightarrow> sc_annotations sc = 0)"
  by (auto simp: closing_faults_def Let_def start_recorded_def split: option.splits)

lemma start_recorded_move:
  assumes "start_recorded r" and "t_startedAt t = None \<or> (t_startedAt t = Some (t_at t) \<and> t_to t = Running)"
  shows "start_recorded (move t r)"
  using assms by (auto simp: start_recorded_def)

lemma canTransition_known: "canTransition f t \<Longrightarrow> known_state f \<and> known_state t \<and> f \<noteq> t"
  by (cases f) (auto simp: known_state_def)

lemma canTransition_from_unknown: "canTransition Outcome_Unknown t \<longleftrightarrow> isTerminalState t"
  by (auto simp: isTerminalState_def)

lemma canTransition_nonterminal: "canTransition f t \<Longrightarrow> \<not> isTerminalState f"
  by (cases f) (auto simp: isTerminalState_def)

lemma legal_annotation_excl: "legal_entry e \<Longrightarrow> \<not> is_annotation s e"
  by (auto simp: legal_entry_def is_annotation_def)

lemma settled_requires_unknown:
  assumes "valid_occ r" and "o_terminationSettlement r \<noteq> None"
  shows "o_state r = Outcome_Unknown \<or> (isTerminalState (o_state r) \<and> o_lateSettlement r \<noteq> None)"
  using assms by (auto simp: valid_occ_iff closing_faults_def termination_invalid_def)

lemma late_requires_terminal:
  assumes "valid_occ r" and "o_lateSettlement r \<noteq> None"
  shows "isTerminalState (o_state r)"
  using assms by (auto simp: valid_occ_iff closing_faults_def late_settlement_invalid_def)

lemma move_valid:
  assumes v: "valid_occ r" and fit: "fit_transition r t"
  shows "valid_occ (move t r)"
proof -
  from v obtain sc where h: "head_ok r" "scan_of r = Inr sc"
      "list_all (\<lambda>f. \<not> fst f) (closing_faults False r sc)"
    by (auto simp: valid_occ_iff)
  note ne = head_okD(1)[OF h(1)] and ends = scan_of_last[OF h(2) head_okD(1)[OF h(1)]]
  have prev: "sc_previous sc = Some (o_state r)"
    using h(3) by (simp add: closing_faults_def)
  have can: "canTransition (o_state r) (t_to t)" and late: "h_at (last (o_history r)) \<le> t_at t"
    using fit by (simp_all add: fit_transition_def)
  note known = canTransition_known[OF can]
  let ?e = "\<lparr>h_at = t_at t, h_from = Some (o_state r), h_to = t_to t, h_reason = t_reason t\<rparr>"
  let ?sc = "\<lparr>sc_previous = Some (t_to t), sc_previousAt = Some (t_at t),
      sc_resolution = (if o_state r = Outcome_Unknown then Some ?e else sc_resolution sc),
      sc_annotations = sc_annotations sc\<rparr>"
  have legal: "legal_entry ?e"
    using can by (simp add: legal_entry_def)
  have settled: "settled_at (move t r) = settled_at r"
    by (simp add: settled_at_def)
  have "scan_entry False (o_admittedAt r) (settled_at r) (length (o_history r)) ?e sc = Inr ?sc"
    unfolding scan_entry_Inr
    using prev ends(2) late legal legal_annotation_excl[OF legal] ne can
    by (auto simp: isTerminalState_def)
  then have scan: "scan_of (move t r) = Inr ?sc"
    using h(2) settled by (simp add: scan_of_def scan_history_append)
  have after: "o_admittedAt r \<le> t_at t"
    using ends(3) late by linarith
  have ho: "list_all (\<lambda>f. \<not> fst f) (owner_faults r)" "list_all (\<lambda>f. \<not> fst f) (identity_faults r)"
      "list_all (\<lambda>f. \<not> fst f) (outcome_faults r)"
    using h(1) by (simp_all add: head_ok_def)
  have started: "\<not> (case override (t_startedAt t) (o_startedAt r) of None \<Rightarrow> False | Some x \<Rightarrow> x < o_admittedAt r)"
    using ho(2) fit after by (cases "t_startedAt t") (auto simp: identity_faults_def fit_transition_def)
  have ended: "\<not> (case override (t_endedAt t) (o_endedAt r) of None \<Rightarrow> False | Some x \<Rightarrow> x < o_admittedAt r)"
    using fit after by (cases "override (t_endedAt t) (o_endedAt r)") (auto simp: fit_transition_def)
  have native: "override (t_nativeSessionId t) (o_nativeSessionId r) \<noteq> Some []
      \<and> override (t_nativeSessionId t) (o_nativeSessionId r) \<noteq> Some ''main''"
    using ho(2) fit by (cases "t_nativeSessionId t") (auto simp: identity_faults_def fit_transition_def)
  have delivery: "\<not> (case override (t_deliveryStatus t) (o_deliveryStatus r) of None \<Rightarrow> False | Some d \<Rightarrow> d \<notin> set delivery_statuses)"
    using ho(3) fit by (cases "t_deliveryStatus t") (auto simp: outcome_faults_def fit_transition_def)
  have evidence: "\<not> (case override (t_terminalEvidence t) (o_terminalEvidence r) of None \<Rightarrow> False
      | Some e \<Rightarrow> te_kind e \<notin> set terminal_evidence_kinds \<or> te_detailRef e = [])"
    using ho(3) fit by (cases "t_terminalEvidence t") (auto simp: outcome_faults_def fit_transition_def)
  have outcome: "\<not> (case override (t_executionOutcome t) (o_executionOutcome r) of None \<Rightarrow> False | Some e \<Rightarrow> \<not> isTerminalState e)"
      "isTerminalState (t_to t) \<longrightarrow> override (t_executionOutcome t) (o_executionOutcome r) = Some (t_to t)"
      "t_to t = Outcome_Unknown \<longrightarrow> override (t_executionOutcome t) (o_executionOutcome r) = None"
    using fit by (auto simp: fit_transition_def split: option.splits)
  have "list_all (\<lambda>f. \<not> fst f) (owner_faults (move t r))"
    using ho(1) by (simp add: owner_faults_def)
  moreover have "list_all (\<lambda>f. \<not> fst f) (identity_faults (move t r))"
  proof -
    have req: "o_requestId r = None \<or> o_requestId r = Some (o_occurrenceId r)"
      using ho(2) by (auto simp: identity_faults_def)
    show ?thesis
      using ho(2) started ended native known req
      by (simp add: identity_faults_def cong: option.case_cong)
  qed
  moreover have "list_all (\<lambda>f. \<not> fst f) (outcome_faults (move t r))"
    using ho(3) delivery evidence outcome fit by (simp add: outcome_faults_def fit_transition_def)
  ultimately have "head_ok (move t r)"
    by (simp add: head_ok_def)
  moreover have "list_all (\<lambda>f. \<not> fst f) (closing_faults False (move t r) ?sc)"
  proof -
    note cl = h(3)[unfolded closing_ok_iff]
    have started': "start_recorded (move t r)"
      using cl fit by (intro start_recorded_move) (simp_all add: fit_transition_def)
    have ended': "o_endedAt (move t r) = None \<or> o_endedAt (move t r) = Some (t_at t)"
      using fit by (simp add: fit_transition_def)
    show ?thesis
    proof (cases "o_state r = Outcome_Unknown")
      case True
      then obtain s where s: "t_lateSettlement t = Some s" "ls_basis s \<in> set late_settlement_bases"
          "ls_resolvedTo s = t_to t" "ls_resolvedAt s = t_at t" "ls_evidenceRef s \<noteq> []"
        using fit by (auto simp: fit_transition_def split: option.splits)
      have tml: "isTerminalState (t_to t)"
        using can True by (simp add: isTerminalState_def)
      have "\<not> termination_invalid False (move t r) ?sc q" if q: "o_terminationSettlement r = Some q" for q
      proof -
        have "\<not> termination_invalid False r sc q"
          using cl q by simp
        then show ?thesis
          using tml s(1) by (simp add: termination_invalid_def cong: option.case_cong)
      qed
      moreover have "\<not> late_settlement_invalid False (move t r) ?sc s"
        using s tml True by (simp add: late_settlement_invalid_def)
      ultimately show ?thesis
        using cl started' ended' s(1) by (auto simp: closing_ok_iff)
    next
      case False
      have nt: "\<not> isTerminalState (o_state r)"
        using can by (rule canTransition_nonterminal)
      have none: "o_lateSettlement r = None" "o_terminationSettlement r = None"
        using late_requires_terminal[OF v] settled_requires_unknown[OF v] nt False by blast+
      moreover have "t_lateSettlement t = None"
        using fit False by (simp add: fit_transition_def)
      ultimately show ?thesis
        using cl started' ended' False by (auto simp: closing_ok_iff)
    qed
  qed
  ultimately show ?thesis
    using scan by (auto simp: valid_occ_iff)
qed

subsection \<open>Termination annotations\<close>

text \<open>
  The three writers of a termination settlement change the record the same way: the settlement, its
  evidence reference, one annotation in the history, and \<^verbatim>\<open>endedAt\<close> at the instant of the annotation.
\<close>

definition annotate :: "termination_settlement \<Rightarrow> string \<Rightarrow> occurrence \<Rightarrow> occurrence" where
  "annotate s reason r = r\<lparr>o_terminationSettlement := Some s,
     o_terminalEvidence := Some \<lparr>te_kind = ''termination-only'', te_detailRef = ts_evidenceId s\<rparr>,
     o_history := o_history r @ [\<lparr>h_at = ts_settledAt s, h_from = Some Outcome_Unknown,
       h_to = Outcome_Unknown, h_reason = reason\<rparr>],
     o_endedAt := Some (ts_settledAt s)\<rparr>"

definition fit_settlement :: "occurrence \<Rightarrow> termination_settlement \<Rightarrow> bool" where
  "fit_settlement r s \<longleftrightarrow> isUnresolvedUnknown r \<and> h_at (last (o_history r)) \<le> ts_settledAt s
     \<and> ts_kind s = ''terminated_without_outcome'' \<and> ts_businessStateAtCommit s = Outcome_Unknown
     \<and> ts_requestId s = (case o_requestId r of Some i \<Rightarrow> i | None \<Rightarrow> o_idempotencyKey r)
     \<and> ts_evidenceKind s \<in> set termination_evidence_kinds \<and> ts_evidenceId s \<noteq> []
     \<and> ts_actorKind s \<in> set termination_actor_kinds \<and> ts_actorId s \<noteq> []
     \<and> (ts_actorKind s = ''self-agent'' \<longrightarrow> o_ownerAgentId r = Some (ts_actorId s))
     \<and> ts_actorProvenance s \<noteq> [] \<and> is_operation_id (ts_operationId s) \<and> ts_fenceBefore s
     \<and> ts_scheduleDisposition s \<in> set schedule_dispositions \<and> ts_settledAt s = ts_committedAt s"

lemma scan_entry_settled:
  assumes "scan_entry False a None i e sc = Inr sc'" and "i = 0 \<Longrightarrow> sc_previous sc = None"
  shows "scan_entry False a q i e sc = Inr sc'"
proof -
  have "\<not> is_annotation q e"
  proof (cases "i = 0")
    case True
    then show ?thesis using assms by (simp add: scan_entry_Inr is_annotation_def)
  next
    case False
    then have "legal_entry e"
      using assms(1) by (auto simp: scan_entry_Inr is_annotation_def)
    then show ?thesis by (rule legal_annotation_excl)
  qed
  moreover have "\<not> is_annotation None e"
    by (simp add: is_annotation_def)
  ultimately show ?thesis
    using assms(1) by (simp add: scan_entry_Inr)
qed

lemma scan_history_settled:
  "scan_history False a None i es sc = Inr sc' \<Longrightarrow> (i = 0 \<Longrightarrow> sc_previous sc = None) \<Longrightarrow>
     scan_history False a q i es sc = Inr sc'"
  by (induction es arbitrary: i sc) (auto simp: rbind_eq_Inr dest!: scan_entry_settled[where q = q])

lemma annotate_fields [simp]:
  "o_state (annotate s x r) = o_state r" "o_occurrenceId (annotate s x r) = o_occurrenceId r"
  "o_jobId (annotate s x r) = o_jobId r" "o_terminationSettlement (annotate s x r) = Some s"
  "o_lateSettlement (annotate s x r) = o_lateSettlement r" "o_endedAt (annotate s x r) = Some (ts_settledAt s)"
  by (simp_all add: annotate_def)

lemma annotate_valid:
  assumes v: "valid_occ r" and fit: "fit_settlement r s"
  shows "valid_occ (annotate s reason r)"
proof -
  from v obtain sc where h: "head_ok r" "scan_of r = Inr sc"
      "list_all (\<lambda>f. \<not> fst f) (closing_faults False r sc)"
    by (auto simp: valid_occ_iff)
  note cl = h(3)[unfolded closing_ok_iff]
  have unk: "o_state r = Outcome_Unknown" "o_lateSettlement r = None" "o_terminationSettlement r = None"
    and late: "h_at (last (o_history r)) \<le> ts_settledAt s"
    using fit by (simp_all add: fit_settlement_def isUnresolvedUnknown_def)
  note ne = head_okD(1)[OF h(1)] and ends = scan_of_last[OF h(2) head_okD(1)[OF h(1)]]
  let ?e = "\<lparr>h_at = ts_settledAt s, h_from = Some Outcome_Unknown, h_to = Outcome_Unknown, h_reason = reason\<rparr>"
  let ?sc = "\<lparr>sc_previous = Some Outcome_Unknown, sc_previousAt = Some (ts_settledAt s),
      sc_resolution = sc_resolution sc, sc_annotations = 1\<rparr>"
  have "scan_history False (o_admittedAt r) (Some (ts_settledAt s)) 0 (o_history r) scan_start = Inr sc"
  proof (rule scan_history_settled)
    show "scan_history False (o_admittedAt r) None 0 (o_history r) scan_start = Inr sc"
      using h(2) unk(3) by (simp add: scan_of_def settled_at_def)
  qed (simp add: scan_start_def)
  moreover have "scan_entry False (o_admittedAt r) (Some (ts_settledAt s)) (length (o_history r)) ?e sc = Inr ?sc"
    using cl unk ends(2) late ne by (simp add: scan_entry_Inr is_annotation_def isTerminalState_def)
  ultimately have scan: "scan_of (annotate s reason r) = Inr ?sc"
    by (simp add: scan_of_def annotate_def settled_at_def scan_history_append)
  have ho: "list_all (\<lambda>f. \<not> fst f) (owner_faults r)" "list_all (\<lambda>f. \<not> fst f) (identity_faults r)"
      "list_all (\<lambda>f. \<not> fst f) (outcome_faults r)"
    using h(1) by (simp_all add: head_ok_def)
  have ident: "o_scheduleRevision (annotate s reason r) = o_scheduleRevision r" "o_kind (annotate s reason r) = o_kind r"
      "o_nominal (annotate s reason r) = o_nominal r" "o_retryOf (annotate s reason r) = o_retryOf r"
      "o_catchUpOf (annotate s reason r) = o_catchUpOf r" "o_runId (annotate s reason r) = o_runId r"
      "o_idempotencyKey (annotate s reason r) = o_idempotencyKey r" "o_requestId (annotate s reason r) = o_requestId r"
      "o_payloadHash (annotate s reason r) = o_payloadHash r" "o_admittedAt (annotate s reason r) = o_admittedAt r"
      "o_executionDeadlineAtMs (annotate s reason r) = o_executionDeadlineAtMs r"
      "o_startedAt (annotate s reason r) = o_startedAt r" "o_nativeSessionId (annotate s reason r) = o_nativeSessionId r"
    by (simp_all add: annotate_def)
  have slot: "slot_present (annotate s reason r) = slot_present r"
    by (cases "o_kind r"; simp add: slot_present_def annotate_def)
  have "list_all (\<lambda>f. \<not> fst f) (owner_faults (annotate s reason r))"
    using ho(1) by (simp add: owner_faults_def annotate_def)
  moreover have "list_all (\<lambda>f. \<not> fst f) (identity_faults (annotate s reason r))"
  proof -
    have "o_requestId r = None \<or> o_requestId r = Some (o_occurrenceId r)"
      using ho(2) by (auto simp: identity_faults_def)
    moreover have "o_admittedAt r \<le> ts_settledAt s"
      using ends(3) late by linarith
    ultimately show ?thesis
      using ho(2) slot ident by (simp add: identity_faults_def cong: option.case_cong)
  qed
  moreover have "list_all (\<lambda>f. \<not> fst f) (outcome_faults (annotate s reason r))"
    using ho(3) fit by (simp add: outcome_faults_def annotate_def fit_settlement_def terminal_evidence_kinds_def)
  ultimately have "head_ok (annotate s reason r)"
    by (simp add: head_ok_def)
  moreover have "start_recorded (annotate s reason r)"
    using cl by (auto simp: start_recorded_def annotate_def)
  moreover have "\<not> termination_invalid False (annotate s reason r) ?sc s"
    using fit unk by (simp add: termination_invalid_def fit_settlement_def annotate_def cong: option.case_cong)
  ultimately have "list_all (\<lambda>f. \<not> fst f) (closing_faults False (annotate s reason r) ?sc)"
    using cl unk by (simp add: closing_ok_iff)
  with \<open>head_ok (annotate s reason r)\<close> scan show ?thesis
    by (auto simp: valid_occ_iff)
qed

text \<open>\<^verbatim>\<open>fenceAfter\<close> is informational: recording it keeps the record valid.\<close>

definition record_fence_after :: "bool \<Rightarrow> occurrence \<Rightarrow> occurrence" where
  "record_fence_after b r = r\<lparr>o_terminationSettlement :=
     map_option (\<lambda>s. s\<lparr>ts_fenceAfter := b\<rparr>) (o_terminationSettlement r)\<rparr>"

lemma record_fence_after_fields [simp]:
  "o_state (record_fence_after b r) = o_state r" "o_occurrenceId (record_fence_after b r) = o_occurrenceId r"
  "o_jobId (record_fence_after b r) = o_jobId r" "o_lateSettlement (record_fence_after b r) = o_lateSettlement r"
  "o_runId (record_fence_after b r) = o_runId r" "o_admittedAt (record_fence_after b r) = o_admittedAt r"
  "o_terminationSettlement (record_fence_after b r) = None \<longleftrightarrow> o_terminationSettlement r = None"
  by (simp_all add: record_fence_after_def)

lemma record_fence_after_valid:
  assumes "valid_occ r"
  shows "valid_occ (record_fence_after b r)"
proof -
  have slot: "slot_present (record_fence_after b r) = slot_present r"
    by (cases "o_kind r"; simp add: slot_present_def record_fence_after_def)
  have settled: "settled_at (record_fence_after b r) = settled_at r"
    by (cases "o_terminationSettlement r") (simp_all add: settled_at_def record_fence_after_def)
  have faults: "owner_faults (record_fence_after b r) = owner_faults r"
      "identity_faults (record_fence_after b r) = identity_faults r"
      "outcome_faults (record_fence_after b r) = outcome_faults r"
    using slot by (simp_all add: owner_faults_def identity_faults_def outcome_faults_def record_fence_after_def cong: option.case_cong)
  have "scan_of (record_fence_after b r) = scan_of r"
    using settled by (simp add: scan_of_def record_fence_after_def)
  moreover have "list_all (\<lambda>f. \<not> fst f) (closing_faults False (record_fence_after b r) sc)
      = list_all (\<lambda>f. \<not> fst f) (closing_faults False r sc)" for sc
  proof (cases "o_terminationSettlement r")
    case None
    then have "record_fence_after b r = r"
      by (simp add: record_fence_after_def)
    then show ?thesis by simp
  next
    case (Some q)
    have "o_terminationSettlement (record_fence_after b r) = Some (q\<lparr>ts_fenceAfter := b\<rparr>)"
      by (simp add: record_fence_after_def Some)
    moreover have "termination_invalid False (record_fence_after b r) sc (q\<lparr>ts_fenceAfter := b\<rparr>)
        = termination_invalid False r sc q"
      by (simp add: termination_invalid_def record_fence_after_def cong: option.case_cong)
    moreover have "late_settlement_invalid False (record_fence_after b r) sc l = late_settlement_invalid False r sc l" for l
      by (simp add: late_settlement_invalid_def record_fence_after_def)
    moreover have "start_recorded (record_fence_after b r) = start_recorded r"
        "o_endedAt (record_fence_after b r) = o_endedAt r"
      by (simp_all add: start_recorded_def record_fence_after_def)
    ultimately show ?thesis
      using Some by (simp add: closing_ok_iff)
  qed
  ultimately show ?thesis
    using assms faults by (simp add: valid_occ_iff head_ok_def)
qed

subsection \<open>The fences are the unresolved unknown outcomes\<close>

lemma map_of_fence_put [simp]: "map_of (fence_put k f fs) k' = (if k' = k then Some f else map_of fs k')"
  by (induction fs) auto

text \<open>The earliest activation wins; on a tie the record that comes first in the ledger.\<close>

fun earliest :: "occurrence option \<Rightarrow> occurrence list \<Rightarrow> occurrence option" where
  "earliest best [] = best"
| "earliest best (r # rs) = earliest
     (case best of None \<Rightarrow> Some r | Some b \<Rightarrow> if o_admittedAt r < o_admittedAt b then Some r else best) rs"

lemma rebuild_from_lookup:
  "map_of fs k = map_option fence_of best \<Longrightarrow>
     map_of (rebuild_from fs rs) k =
       map_option fence_of (earliest best (filter (\<lambda>r. isUnresolvedUnknown r \<and> o_jobId r = k) rs))"
proof (induction rs arbitrary: fs best)
  case (Cons r rs)
  then show ?case
    by (cases best) (auto simp: fence_of_def split: option.splits)
qed simp

lemma earliest_Some_iff: "earliest best rs = None \<longleftrightarrow> best = None \<and> rs = []"
  by (induction rs arbitrary: best) (auto split: option.splits)

lemma rebuildFences_lookup:
  "map_of (rebuildFences occs) k =
     map_option fence_of (earliest None (filter (\<lambda>r. isUnresolvedUnknown r \<and> o_jobId r = k) occs))"
  unfolding rebuildFences_def by (rule rebuild_from_lookup) simp

lemma fenced_rebuild [ledger_simps]:
  "fenced (rebuildFences occs) k \<longleftrightarrow> (\<exists>r \<in> set occs. isUnresolvedUnknown r \<and> o_jobId r = k)"
  by (auto simp: fenced_def rebuildFences_lookup earliest_Some_iff filter_empty_conv)

lemma earliest_least:
  "earliest best rs = Some r \<Longrightarrow> (\<forall>s \<in> set rs. o_admittedAt r \<le> o_admittedAt s)
     \<and> (r \<in> set rs \<or> best = Some r) \<and> (\<forall>b. best = Some b \<longrightarrow> o_admittedAt r \<le> o_admittedAt b)"
  by (induction rs arbitrary: best) (fastforce split: option.splits if_splits)+

lemma fence_put_keys: "fst ` set (fence_put k f fs) = insert k (fst ` set fs)"
  by (induction k f fs rule: fence_put.induct) (simp_all add: insert_commute)

lemma fence_put_distinct: "distinct (map fst fs) \<Longrightarrow> distinct (map fst (fence_put k f fs))"
proof (induction fs)
  case (Cons kf fs)
  then show ?case
    using fence_put_keys[of k f fs] by (cases kf) auto
qed simp

lemma rebuildFences_distinct: "distinct (map fst (rebuildFences occs))"
proof -
  have "distinct (map fst fs) \<Longrightarrow> distinct (map fst (rebuild_from fs occs))" for fs
    by (induction occs arbitrary: fs) (auto simp: fence_put_distinct split: option.splits)
  then show ?thesis by (simp add: rebuildFences_def)
qed

text \<open>Only the unresolved unknown outcomes, in their order, determine the fences.\<close>

lemma rebuildFences_filter: "rebuildFences occs = rebuildFences (filter isUnresolvedUnknown occs)"
proof -
  have "rebuild_from fs occs = rebuild_from fs (filter isUnresolvedUnknown occs)" for fs
    by (induction occs arbitrary: fs) (auto split: option.splits)
  then show ?thesis by (simp add: rebuildFences_def)
qed

lemma rebuildFences_append_live:
  assumes "\<not> isUnresolvedUnknown r"
  shows "rebuildFences (occs @ [r]) = rebuildFences occs"
  using assms by (subst (1 2) rebuildFences_filter) simp

end
