(* ===== verification/Eligibility.thy ===== *)
theory Eligibility
  imports OccurrenceValidity "HOL-Library.Monad_Syntax"
begin

section \<open>Eligibility: which occurrence may be minted next\<close>

text \<open>
  \<^verbatim>\<open>packages/scheduler/src/eligibility.js\<close>. The decisions are functions of a job definition, the
  occurrence ledger and the current instant. They are candidates only: \<open>Reservation\<close> evaluates them
  again under the lock.
\<close>

definition ONE_SHOT_RETRY_BACKOFF_MS :: "int list" where
  "ONE_SHOT_RETRY_BACKOFF_MS = [30 * 1000, 60 * 1000, 300 * 1000]"

definition RECURRING_RETRY_BACKOFF_MS :: "int list" where
  "RECURRING_RETRY_BACKOFF_MS = [30 * 1000, 60 * 1000, 5 * 60 * 1000, 15 * 60 * 1000, 60 * 60 * 1000]"

definition DEFAULT_AT_CATCHUP_GRACE_MS :: int where
  "DEFAULT_AT_CATCHUP_GRACE_MS = 15 * 60 * 1000"

subsection \<open>The ledger of one job\<close>

definition jobOccurrences :: "occurrence list \<Rightarrow> string \<Rightarrow> occurrence list" where
  "jobOccurrences occs jobId = filter (\<lambda>r. o_jobId r = jobId) occs"

definition isTerminalRecord :: "occurrence \<Rightarrow> bool" where
  "isTerminalRecord r \<longleftrightarrow> o_state r = Succeeded \<or> o_state r = Failed
     \<or> o_state r = Outcome_Unknown \<and> o_terminationSettlement r \<noteq> None"

definition operationalEndedAt :: "occurrence \<Rightarrow> int" where
  "operationalEndedAt r = (case o_terminationSettlement r of
     Some s \<Rightarrow> ts_committedAt s
   | None \<Rightarrow> (case o_endedAt r of Some t \<Rightarrow> t | None \<Rightarrow> o_admittedAt r))"

text \<open>\<^verbatim>\<open>reduce\<close> with \<^verbatim>\<open>>=\<close>: among records that ended last at the same instant the later one wins.\<close>

definition later_end :: "occurrence \<Rightarrow> occurrence \<Rightarrow> occurrence" where
  "later_end a b = (if operationalEndedAt a \<le> operationalEndedAt b then b else a)"

definition latestTerminalOccurrence :: "occurrence list \<Rightarrow> string \<Rightarrow> occurrence option" where
  "latestTerminalOccurrence occs jobId =
     (case filter isTerminalRecord (jobOccurrences occs jobId) of
        [] \<Rightarrow> None | r # rs \<Rightarrow> Some (foldl later_end r rs))"

definition hasNonTerminalOccurrence :: "occurrence list \<Rightarrow> string \<Rightarrow> bool" where
  "hasNonTerminalOccurrence occs jobId = list_ex (\<lambda>r. \<not> isTerminalRecord r) (jobOccurrences occs jobId)"

subsection \<open>Retries\<close>

text \<open>
  The walk along \<^verbatim>\<open>retryOfOccurrenceId\<close> has no bound in the code: \<open>None\<close> is a walk that does not end.
\<close>

partial_function (option) retry_walk :: "occurrence list \<Rightarrow> nat \<Rightarrow> occurrence \<Rightarrow> nat option" where
  "retry_walk occs chain cursor = (case o_retryOf cursor of
     None \<Rightarrow> Some chain
   | Some i \<Rightarrow> if i = [] then Some chain
       else (case find (\<lambda>r. o_occurrenceId r = i) occs of
               None \<Rightarrow> Some chain
             | Some predecessor \<Rightarrow> retry_walk occs (chain + 1) predecessor))"

definition retryChainLength :: "occurrence list \<Rightarrow> occurrence \<Rightarrow> nat option" where
  "retryChainLength occs failedRecord = retry_walk occs 0 failedRecord"

definition is_at :: "schedule \<Rightarrow> bool" where
  "is_at s \<longleftrightarrow> (case s of At _ \<Rightarrow> True | _ \<Rightarrow> False)"

definition is_every :: "schedule \<Rightarrow> bool" where
  "is_every s \<longleftrightarrow> (case s of Every _ _ \<Rightarrow> True | _ \<Rightarrow> False)"

definition backoffForRetry :: "schedule \<Rightarrow> nat \<Rightarrow> int" where
  "backoffForRetry s chainLength =
     (let table = (if is_at s then ONE_SHOT_RETRY_BACKOFF_MS else RECURRING_RETRY_BACKOFF_MS)
      in table ! min chainLength (length table - 1))"

record retry_candidate =
  rc_exhausted :: bool
  rc_staleRevision :: bool
  rc_chain :: nat
  rc_terminal :: occurrence
  rc_retryOf :: string
  rc_eligibleAtMs :: int
  rc_due :: bool

text \<open>
  The outer option is the walk that may not end; the inner one is the \<^verbatim>\<open>null\<close> of the code. A stale
  candidate has no eligibility instant: the two last fields then hold no information and are never due.
\<close>

definition retryCandidate :: "job \<Rightarrow> occurrence list \<Rightarrow> int \<Rightarrow> retry_candidate option option" where
  "retryCandidate job occs nowMs =
     (if \<not> j_enabled job \<or> j_retry job \<noteq> Some True then Some None
      else case latestTerminalOccurrence occs (j_id job) of
        None \<Rightarrow> Some None
      | Some terminal \<Rightarrow>
          if o_state terminal \<noteq> Failed then Some None
          else do {
            chain \<leftarrow> retryChainLength occs terminal;
            if o_scheduleRevision terminal \<noteq> j_scheduleRevision job
            then Some (Some \<lparr>rc_exhausted = True, rc_staleRevision = True, rc_chain = chain, rc_terminal = terminal,
                   rc_retryOf = o_occurrenceId terminal, rc_eligibleAtMs = 0, rc_due = False\<rparr>)
            else let endedAt = (case o_endedAt terminal of Some t \<Rightarrow> t | None \<Rightarrow> o_admittedAt terminal);
                     eligible = endedAt + backoffForRetry (j_schedule job) chain
                 in Some (Some \<lparr>rc_exhausted = False, rc_staleRevision = False, rc_chain = chain,
                      rc_terminal = terminal, rc_retryOf = o_occurrenceId terminal,
                      rc_eligibleAtMs = eligible, rc_due = (nowMs \<ge> eligible)\<rparr>)
          })"

subsection \<open>Natural slots\<close>

definition previousNaturalSlotMs :: "ext \<Rightarrow> schedule \<Rightarrow> string \<Rightarrow> int \<Rightarrow> int option" where
  "previousNaturalSlotMs X s jobId nowMs = (case s of
     At t \<Rightarrow> (case parseAbsoluteTimeMs X (JStr t) of
        Some atMs \<Rightarrow> (if atMs \<le> nowMs then Some atMs else None) | None \<Rightarrow> None)
   | Cron expr tz stagger \<Rightarrow> computePreviousRunAtMs X s nowMs jobId
   | Every ms anchorRaw \<Rightarrow> (case anchorRaw of
        None \<Rightarrow> None
      | Some a \<Rightarrow> let everyMs = max 1 ms; anchor = max 0 a in
          if nowMs < anchor then None
          else Some (anchor + (nowMs - anchor) div everyMs * everyMs)))"

definition activationBoundary :: "job \<Rightarrow> int" where
  "activationBoundary job = (case j_revisionActivatedAtMs job of Some t \<Rightarrow> t | None \<Rightarrow> j_createdAtMs job)"

definition naturalLowerBoundMs :: "job \<Rightarrow> occurrence list \<Rightarrow> int \<times> occurrence option" where
  "naturalLowerBoundMs job occs = (case latestTerminalOccurrence occs (j_id job) of
     None \<Rightarrow> (activationBoundary job, None)
   | Some terminal \<Rightarrow>
       (max (operationalEndedAt terminal + MIN_REFIRE_GAP_MS) (activationBoundary job), Some terminal))"

record natural_candidate =
  nc_due :: bool
  nc_nominal :: "int option"
  nc_reason :: string

definition every_of :: "schedule \<Rightarrow> int" where
  "every_of s = (case s of Every ms _ \<Rightarrow> max 1 ms | _ \<Rightarrow> 1)"

definition naturalCandidate :: "ext \<Rightarrow> job \<Rightarrow> occurrence list \<Rightarrow> int \<Rightarrow> int \<Rightarrow> natural_candidate" where
  "naturalCandidate X job occs nowMs atCatchupGraceMs =
     (if \<not> j_enabled job then \<lparr>nc_due = False, nc_nominal = None, nc_reason = ''disabled''\<rparr>
      else case previousNaturalSlotMs X (j_schedule job) (j_id job) nowMs of
        None \<Rightarrow> \<lparr>nc_due = False, nc_nominal = None, nc_reason = ''no-past-slot''\<rparr>
      | Some slot \<Rightarrow>
          (case naturalLowerBoundMs job occs of (boundary, terminal) \<Rightarrow>
          if slot \<le> boundary then
            \<lparr>nc_due = False, nc_nominal = Some slot,
             nc_reason = (if terminal \<noteq> None then ''slot-not-after-last-terminal-run'' else ''slot-before-activation'')\<rparr>
          else if is_every (j_schedule job) \<and> (case terminal of
                 Some r \<Rightarrow> nowMs < operationalEndedAt r + every_of (j_schedule job) | None \<Rightarrow> False)
          then \<lparr>nc_due = False, nc_nominal = Some slot, nc_reason = ''every-terminal-hold (lastRun + everyMs)''\<rparr>
          else if is_at (j_schedule job) \<and> nowMs - slot > atCatchupGraceMs
          then \<lparr>nc_due = False, nc_nominal = Some slot,
             nc_reason = ''stale at slot (older than grace '' @ int_str atCatchupGraceMs @ ''ms) - native catch-up policy''\<rparr>
          else \<lparr>nc_due = True, nc_nominal = Some slot, nc_reason = ''natural slot due''\<rparr>))"

subsection \<open>Projections\<close>

definition nonzero :: "int \<Rightarrow> int option" where
  "nonzero i = (if i = 0 then None else Some i)"

definition naturalNextMs :: "ext \<Rightarrow> job \<Rightarrow> occurrence option \<Rightarrow> int \<Rightarrow> int option" where
  "naturalNextMs X job terminal nowMs =
     (let ref = max (max nowMs (case terminal of Some r \<Rightarrow> operationalEndedAt r | None \<Rightarrow> 0)) (activationBoundary job)
      in if is_every (j_schedule job) then
           (let anchorNext = computeNextRunAtMs X (j_schedule job) nowMs [] (Some (j_createdAtMs job));
                fromRef = computeNextRunAtMs X (j_schedule job) ref [] (Some (j_createdAtMs job));
                next0 = nonzero (max (case anchorNext of Some n \<Rightarrow> n | None \<Rightarrow> 0) (case fromRef of Some n \<Rightarrow> n | None \<Rightarrow> 0))
            in case terminal of
                 None \<Rightarrow> next0
               | Some r \<Rightarrow> (let compat = operationalEndedAt r + every_of (j_schedule job)
                    in if compat > nowMs then (case next0 of Some n \<Rightarrow> Some (max n compat) | None \<Rightarrow> Some compat)
                       else next0))
         else computeNextRunAtMs X (j_schedule job) ref (j_id job) None)"

definition computeNextRunAtMsV2 :: "ext \<Rightarrow> job \<Rightarrow> occurrence list \<Rightarrow> int \<Rightarrow> int option option" where
  "computeNextRunAtMsV2 X job occs nowMs =
     (if \<not> j_enabled job then Some None
      else let naturalNext = naturalNextMs X job (latestTerminalOccurrence occs (j_id job)) nowMs
      in do {
        retry \<leftarrow> retryCandidate job occs nowMs;
        Some (case retry of
          None \<Rightarrow> naturalNext
        | Some c \<Rightarrow>
            if rc_exhausted c then naturalNext
            else if is_at (j_schedule job) then Some (rc_eligibleAtMs c)
            else (case naturalNext of None \<Rightarrow> Some (rc_eligibleAtMs c)
                  | Some n \<Rightarrow> Some (max n (rc_eligibleAtMs c))))
      })"

text \<open>\<^verbatim>\<open>sort((a, b) => end(b) - end(a))\<close> is stable and puts the record that ended last first.\<close>

definition settledOccurrences :: "occurrence list \<Rightarrow> occurrence list" where
  "settledOccurrences mine = sort_key (\<lambda>r. - operationalEndedAt r)
     (filter (\<lambda>r. isTerminalRecord r \<or> o_state r = Outcome_Unknown) mine)"

definition state_str :: "occ_state \<Rightarrow> string" where
  "state_str s = (case s of Admitted \<Rightarrow> ''admitted'' | Running \<Rightarrow> ''running'' | Succeeded \<Rightarrow> ''succeeded''
     | Failed \<Rightarrow> ''failed'' | Outcome_Unknown \<Rightarrow> ''outcome_unknown'' | Other_State t \<Rightarrow> t)"

definition last_run_status :: "occurrence \<Rightarrow> string" where
  "last_run_status r = (if o_state r = Outcome_Unknown then ''outcome_unknown''
     else case o_executionOutcome r of Some e \<Rightarrow> state_str e | None \<Rightarrow> state_str (o_state r))"

definition last_error :: "occurrence \<Rightarrow> string option" where
  "last_error r = (if o_state r = Outcome_Unknown then
       Some (take 300 (case o_history r of [] \<Rightarrow> ''outcome unknown'' | _ \<Rightarrow> h_reason (last (o_history r))))
     else if o_state r = Failed then
       (case o_terminalEvidence r of
          Some e \<Rightarrow> (if te_detailRef e = [] then None else Some (take 300 (te_detailRef e))) | None \<Rightarrow> None)
     else None)"

definition summary_of :: "occurrence list \<Rightarrow> int option \<Rightarrow> job_state" where
  "summary_of settled next = (case settled of
     [] \<Rightarrow> empty_state\<lparr>st_nextRunAtMs := next\<rparr>
   | r # _ \<Rightarrow> \<lparr>st_nextRunAtMs = next,
       st_lastRunAtMs = Some (operationalEndedAt r),
       st_lastDurationMs = (case (o_startedAt r, o_endedAt r) of
          (Some s, Some e) \<Rightarrow> Some (max 0 (e - s)) | _ \<Rightarrow> None),
       st_consecutiveErrors = Some (int (length (takeWhile (\<lambda>q. o_state q = Failed) settled))),
       st_lastRunStatus = Some (last_run_status r), st_lastStatus = Some (last_run_status r),
       st_lastDeliveryStatus = o_deliveryStatus r, st_lastError = last_error r,
       st_lastDelivered = (if o_deliveryStatus r = Some ''delivered'' then Some True else None)\<rparr>)"

definition deriveJobStateSummary :: "ext \<Rightarrow> job \<Rightarrow> occurrence list \<Rightarrow> int \<Rightarrow> job_state option" where
  "deriveJobStateSummary X job occs nowMs =
     (let mine = jobOccurrences occs (j_id job) in do {
        next \<leftarrow> (if list_ex isUnresolvedUnknown mine \<or> \<not> j_enabled job then Some None
                 else computeNextRunAtMsV2 X job mine nowMs);
        Some (summary_of (settledOccurrences mine) next)
      })"

subsection \<open>The walk along retries ends\<close>

text \<open>
  No record names a record at or after it as its predecessor: the ledger is append-only and a retry is
  appended after the failure it repeats.
\<close>

fun retry_ordered :: "occurrence list \<Rightarrow> bool" where
  "retry_ordered [] = True"
| "retry_ordered (r # rs) =
     (list_all (\<lambda>q. o_retryOf r \<noteq> Some (o_occurrenceId q)) (r # rs) \<and> retry_ordered rs)"

lemma retry_ordered_filter: "retry_ordered occs \<Longrightarrow> retry_ordered (filter p occs)"
  by (induction occs) (auto simp: list_all_iff)

lemma retry_ordered_suffix: "retry_ordered (xs @ ys) \<Longrightarrow> retry_ordered ys"
  by (induction xs) auto

lemma retry_ordered_append:
  "retry_ordered (occs @ [r]) \<longleftrightarrow> retry_ordered occs
     \<and> list_all (\<lambda>q. o_retryOf q \<noteq> Some (o_occurrenceId r)) (occs @ [r])"
  by (induction occs) auto

lemma retry_ordered_map:
  assumes "\<And>r. o_retryOf (f r) = o_retryOf r" and "\<And>r. o_occurrenceId (f r) = o_occurrenceId r"
  shows "retry_ordered (map f occs) = retry_ordered occs"
  using assms by (induction occs) (auto simp: list_all_iff)

lemma retry_walk_returns:
  assumes "retry_ordered occs" and "occs = xs @ r # ys"
  shows "\<exists>n. retry_walk occs c r = Some n"
  using assms(2)
proof (induction "length xs" arbitrary: xs r ys c rule: less_induct)
  case less
  show ?case
  proof (cases "o_retryOf r")
    case None
    then show ?thesis by (subst retry_walk.simps) simp
  next
    case (Some i)
    show ?thesis
    proof (cases "i = [] \<or> find (\<lambda>r. o_occurrenceId r = i) occs = None")
      case True
      then show ?thesis using Some by (subst retry_walk.simps) auto
    next
      case False
      then obtain p where p: "find (\<lambda>r. o_occurrenceId r = i) occs = Some p" and i: "i \<noteq> []" by auto
      have found: "p \<in> set occs" "o_occurrenceId p = i"
        using find_Some_set[OF p] by simp_all
      have "retry_ordered (r # ys)"
        using assms(1) retry_ordered_suffix unfolding less.prems by blast
      then have "p \<notin> set (r # ys)"
        using Some found(2) by (auto simp: list_all_iff)
      then obtain us vs where us: "xs = us @ p # vs"
        using found(1) less.prems by (auto dest: split_list)
      then obtain n where "retry_walk occs (c + 1) p = Some n"
        using less.hyps[of us p "vs @ r # ys" "c + 1"] less.prems by auto
      then show ?thesis
        using Some p i by (subst retry_walk.simps) simp
    qed
  qed
qed

lemma retryChainLength_returns:
  "retry_ordered occs \<Longrightarrow> r \<in> set occs \<Longrightarrow> \<exists>n. retryChainLength occs r = Some n"
  unfolding retryChainLength_def by (metis retry_walk_returns split_list)

subsection \<open>The latest terminal run\<close>

lemma later_end_foldl:
  "foldl later_end r rs \<in> set (r # rs) \<and> (\<forall>q \<in> set (r # rs). operationalEndedAt q \<le> operationalEndedAt (foldl later_end r rs))"
proof (induction rs arbitrary: r)
  case (Cons a rs)
  show ?case
    using Cons.IH[of "later_end r a"] by (auto simp: later_end_def split: if_splits)
qed simp

lemma latestTerminalOccurrence_Some:
  assumes "latestTerminalOccurrence occs jobId = Some r"
  shows "r \<in> set occs" "o_jobId r = jobId" "isTerminalRecord r"
    and "\<And>q. q \<in> set occs \<Longrightarrow> o_jobId q = jobId \<Longrightarrow> isTerminalRecord q \<Longrightarrow> operationalEndedAt q \<le> operationalEndedAt r"
proof -
  obtain s ss where f: "filter isTerminalRecord (jobOccurrences occs jobId) = s # ss"
    using assms by (auto simp: latestTerminalOccurrence_def split: list.splits)
  then have r: "r = foldl later_end s ss"
    using assms by (simp add: latestTerminalOccurrence_def)
  have members: "set (s # ss) = {q \<in> set occs. o_jobId q = jobId \<and> isTerminalRecord q}"
    using arg_cong[OF f, of set] by (auto simp: jobOccurrences_def)
  note fold = later_end_foldl[of s ss, folded r, unfolded members]
  then show "r \<in> set occs" "o_jobId r = jobId" "isTerminalRecord r" by auto
  show "\<And>q. q \<in> set occs \<Longrightarrow> o_jobId q = jobId \<Longrightarrow> isTerminalRecord q \<Longrightarrow> operationalEndedAt q \<le> operationalEndedAt r"
    using fold by auto
qed

lemma latestTerminalOccurrence_None:
  "latestTerminalOccurrence occs jobId = None \<longleftrightarrow> (\<forall>q \<in> set occs. o_jobId q = jobId \<longrightarrow> \<not> isTerminalRecord q)"
proof -
  have "latestTerminalOccurrence occs jobId = None \<longleftrightarrow> filter isTerminalRecord (jobOccurrences occs jobId) = []"
    by (simp add: latestTerminalOccurrence_def split: list.splits)
  then show ?thesis
    by (auto simp: jobOccurrences_def filter_empty_conv)
qed

lemma jobOccurrences_idem [simp]: "jobOccurrences (jobOccurrences occs i) i = jobOccurrences occs i"
  by (simp add: jobOccurrences_def)

lemma hasNonTerminal_iff:
  "hasNonTerminalOccurrence occs jobId \<longleftrightarrow> (\<exists>r \<in> set occs. o_jobId r = jobId \<and> \<not> isTerminalRecord r)"
  by (auto simp: hasNonTerminalOccurrence_def jobOccurrences_def list_ex_iff)

lemma unresolved_not_terminal: "isUnresolvedUnknown r \<Longrightarrow> \<not> isTerminalRecord r"
  by (auto simp: isUnresolvedUnknown_def isTerminalRecord_def)

subsection \<open>The derived state always exists\<close>

lemma retryCandidate_returns:
  assumes "retry_ordered occs"
  shows "\<exists>c. retryCandidate job occs nowMs = Some c"
proof (cases "latestTerminalOccurrence occs (j_id job)")
  case None
  then show ?thesis by (simp add: retryCandidate_def)
next
  case (Some r)
  then obtain n where "retryChainLength occs r = Some n"
    using retryChainLength_returns[OF assms] latestTerminalOccurrence_Some(1) by metis
  with Some show ?thesis
    by (auto simp: retryCandidate_def Let_def)
qed

lemma deriveJobStateSummary_returns:
  assumes "retry_ordered occs"
  shows "\<exists>s. deriveJobStateSummary X job occs nowMs = Some s"
proof -
  have "retry_ordered (jobOccurrences occs (j_id job))"
    using assms by (simp add: jobOccurrences_def retry_ordered_filter)
  then obtain c where "retryCandidate job (jobOccurrences occs (j_id job)) nowMs = Some c"
    using retryCandidate_returns by blast
  then show ?thesis
    by (simp add: deriveJobStateSummary_def computeNextRunAtMsV2_def Let_def)
qed

subsection \<open>Candidates\<close>

lemma retryCandidate_due:
  assumes "retryCandidate job occs nowMs = Some (Some c)" and "\<not> rc_exhausted c"
  shows "j_enabled job" "j_retry job = Some True" "rc_terminal c \<in> set occs" "o_state (rc_terminal c) = Failed"
    "o_jobId (rc_terminal c) = j_id job" "o_scheduleRevision (rc_terminal c) = j_scheduleRevision job"
    "rc_retryOf c = o_occurrenceId (rc_terminal c)" "\<not> rc_staleRevision c"
    "rc_due c \<longleftrightarrow> rc_eligibleAtMs c \<le> nowMs"
    and "rc_eligibleAtMs c = (case o_endedAt (rc_terminal c) of Some t \<Rightarrow> t | None \<Rightarrow> o_admittedAt (rc_terminal c))
      + backoffForRetry (j_schedule job) (rc_chain c)"
proof -
  have on: "j_enabled job" "j_retry job = Some True"
    using assms(1) by (auto simp: retryCandidate_def split: if_splits)
  then obtain r n where r: "latestTerminalOccurrence occs (j_id job) = Some r" "o_state r = Failed"
      "retryChainLength occs r = Some n"
    using assms(1) by (auto simp: retryCandidate_def bind_eq_Some_conv split: option.splits if_splits)
  note found = latestTerminalOccurrence_Some[OF r(1)]
  have c: "o_scheduleRevision r = j_scheduleRevision job" "rc_terminal c = r" "rc_retryOf c = o_occurrenceId r"
      "\<not> rc_staleRevision c" "rc_due c \<longleftrightarrow> rc_eligibleAtMs c \<le> nowMs"
      "rc_eligibleAtMs c = (case o_endedAt r of Some t \<Rightarrow> t | None \<Rightarrow> o_admittedAt r)
        + backoffForRetry (j_schedule job) (rc_chain c)"
    using assms on r by (auto simp: retryCandidate_def Let_def split: if_splits)
  show "j_enabled job" "j_retry job = Some True" by (rule on)+
  show "rc_terminal c \<in> set occs" "o_state (rc_terminal c) = Failed"
    "o_jobId (rc_terminal c) = j_id job" "o_scheduleRevision (rc_terminal c) = j_scheduleRevision job"
    "rc_retryOf c = o_occurrenceId (rc_terminal c)" "\<not> rc_staleRevision c"
    "rc_due c \<longleftrightarrow> rc_eligibleAtMs c \<le> nowMs"
    "rc_eligibleAtMs c = (case o_endedAt (rc_terminal c) of Some t \<Rightarrow> t | None \<Rightarrow> o_admittedAt (rc_terminal c))
      + backoffForRetry (j_schedule job) (rc_chain c)"
    using c r found by (simp_all cong: option.case_cong)
qed

lemma previousNaturalSlotMs_before: "previousNaturalSlotMs X s jobId now = Some slot \<Longrightarrow> slot \<le> now"
proof (cases s)
  case (Every ms anchor)
  have "(now - a) div max 1 ms * max 1 ms \<le> now - a" for a
    by (simp add: minus_mod_eq_div_mult[symmetric])
  moreover assume "previousNaturalSlotMs X s jobId now = Some slot"
  ultimately show ?thesis
    using Every by (auto simp: previousNaturalSlotMs_def Let_def split: option.splits if_splits) (smt (verit))
qed (auto simp: previousNaturalSlotMs_def computePreviousRunAtMs_before simp del: computePreviousRunAtMs.simps
  split: option.splits if_splits)

lemma naturalCandidate_due:
  assumes "nc_due (naturalCandidate X job occs now grace)"
  obtains slot where "nc_nominal (naturalCandidate X job occs now grace) = Some slot"
    "previousNaturalSlotMs X (j_schedule job) (j_id job) now = Some slot"
    "j_enabled job" "activationBoundary job < slot" "slot \<le> now"
    "\<And>r. r \<in> set occs \<Longrightarrow> o_jobId r = j_id job \<Longrightarrow> isTerminalRecord r \<Longrightarrow>
       operationalEndedAt r + MIN_REFIRE_GAP_MS < slot
       \<and> (is_every (j_schedule job) \<longrightarrow> operationalEndedAt r + every_of (j_schedule job) \<le> now)"
    "is_at (j_schedule job) \<longrightarrow> now - slot \<le> grace"
proof -
  obtain slot where slot: "previousNaturalSlotMs X (j_schedule job) (j_id job) now = Some slot" "j_enabled job"
    using assms by (auto simp: naturalCandidate_def split: if_splits option.splits)
  obtain b t where bt: "naturalLowerBoundMs job occs = (b, t)"
    by (cases "naturalLowerBoundMs job occs")
  have due: "b < slot" "nc_nominal (naturalCandidate X job occs now grace) = Some slot"
      "\<not> (is_every (j_schedule job) \<and> (case t of Some r \<Rightarrow> now < operationalEndedAt r + every_of (j_schedule job) | None \<Rightarrow> False))"
      "\<not> (is_at (j_schedule job) \<and> now - slot > grace)"
    using assms slot bt by (auto simp: naturalCandidate_def split: if_splits)
  show thesis
  proof (rule that)
    show "nc_nominal (naturalCandidate X job occs now grace) = Some slot" by (rule due(2))
    show "previousNaturalSlotMs X (j_schedule job) (j_id job) now = Some slot" "j_enabled job" by (rule slot)+
    show "slot \<le> now" by (rule previousNaturalSlotMs_before[OF slot(1)])
    show "activationBoundary job < slot"
      using bt due(1) by (auto simp: naturalLowerBoundMs_def split: option.splits)
    show "is_at (j_schedule job) \<longrightarrow> now - slot \<le> grace" using due(4) by auto
    fix r assume r: "r \<in> set occs" "o_jobId r = j_id job" "isTerminalRecord r"
    then obtain q where q: "latestTerminalOccurrence occs (j_id job) = Some q"
      by (metis latestTerminalOccurrence_None not_None_eq)
    then have "operationalEndedAt r \<le> operationalEndedAt q"
      using latestTerminalOccurrence_Some(4) r by blast
    then show "operationalEndedAt r + MIN_REFIRE_GAP_MS < slot
       \<and> (is_every (j_schedule job) \<longrightarrow> operationalEndedAt r + every_of (j_schedule job) \<le> now)"
      using bt[symmetric] due(1,3) by (auto simp: naturalLowerBoundMs_def q)
  qed
qed

end
