(* ===== verification/Store.thy ===== *)
theory Store
  imports Eligibility
begin

section \<open>The document store\<close>

text \<open>
  \<^verbatim>\<open>packages/scheduler/src/store.js\<close>: one document holds the jobs, the occurrence ledger and the fences.
  Every change goes through \<open>mutateDoc\<close>: lock, read the latest document, compute, validate, write
  atomically. The lock serialises the mutations, so a mutation is a function of the document on disk.
  The file system is a parameter: the atomic write succeeds, fails before the rename, or fails after it
  (the new document is durable and its acknowledgement is lost).
\<close>

record sdoc =
  s_jobs :: "job list"
  s_occurrences :: "occurrence list"
  s_fences :: fences

definition emptyDoc :: sdoc where
  "emptyDoc = \<lparr>s_jobs = [], s_occurrences = [], s_fences = []\<rparr>"

subsection \<open>Validation of a document\<close>

fun error_text :: "js_error \<Rightarrow> string" where
  "error_text (Type_Error m) = m"
| "error_text (Plain_Error m) = m"
| "error_text (Coded_Error c m) = m"
| "error_text No_Return = []"

definition failLoud :: "string \<Rightarrow> string \<Rightarrow> js_error" where
  "failLoud context message = Plain_Error (''scheduler store: '' @ context @ '': '' @ message)"

text \<open>
  The loop over the ledger: each record validates, its id and its logical coordinates are new. With
  \<open>compatible\<close> the records are replaced by their decoded form.
\<close>

fun check_ledger :: "bool \<Rightarrow> string list \<Rightarrow> coords list \<Rightarrow> occurrence list \<Rightarrow> occurrence list res" where
  "check_ledger compatible ids keys [] = Inr []"
| "check_ledger compatible ids keys (r # rs) =
    (case validateRecord r compatible of
       Inl e \<Rightarrow> Inl (failLoud ''occurrence authority corrupted (fail loud, not an empty store)'' (error_text e))
     | Inr r' \<Rightarrow>
         if o_occurrenceId r \<in> set ids
         then Inl (failLoud ''occurrence authority corrupted'' (''duplicate occurrenceId '' @ o_occurrenceId r))
         else if logicalCoordinates r \<in> set keys
         then Inl (failLoud ''occurrence authority corrupted'' ''duplicate logical occurrence coordinates'')
         else rbind (check_ledger compatible (o_occurrenceId r # ids) (logicalCoordinates r # keys) rs)
                (\<lambda>rs'. Inr (r' # rs')))"

definition retry_predecessor_ok :: "occurrence list \<Rightarrow> occurrence \<Rightarrow> bool" where
  "retry_predecessor_ok occs r \<longleftrightarrow> (case o_retryOf r of
     None \<Rightarrow> False
   | Some i \<Rightarrow> (case findOccurrenceById occs i of
        None \<Rightarrow> False
      | Some p \<Rightarrow> o_state p = Failed \<and> o_jobId p = o_jobId r \<and> o_scheduleRevision p = o_scheduleRevision r))"

definition fences_exact :: "fences \<Rightarrow> fences \<Rightarrow> bool" where
  "fences_exact actual expected \<longleftrightarrow> sort (map fst actual) = sort (map fst expected)
     \<and> list_all (\<lambda>(jobId, f). map_of actual jobId = map_of expected jobId) actual"

definition validate_doc :: "bool \<Rightarrow> sdoc \<Rightarrow> sdoc res" where
  "validate_doc compatible d =
    rbind (check_ledger compatible [] [] (s_occurrences d)) (\<lambda>occs.
    rbind (case find (\<lambda>r. o_kind r = Retry \<and> \<not> retry_predecessor_ok occs r) occs of
        Some r \<Rightarrow> Inl (failLoud ''occurrence authority corrupted'' (''invalid retry predecessor for '' @ o_occurrenceId r))
      | None \<Rightarrow> Inr ()) (\<lambda>_.
    if fences_exact (s_fences d) (rebuildFences occs) then Inr (d\<lparr>s_occurrences := occs\<rparr>)
    else Inl (failLoud ''fence projection corrupted'' ''fences do not exactly match unresolved outcome_unknown authority'')))"

definition validateDocument :: "sdoc \<Rightarrow> sdoc res" where
  "validateDocument d = validate_doc False d"

subsection \<open>Reading and writing\<close>

text \<open>\<^verbatim>\<open>loadDoc\<close> reads with the compatible decoding; \<^verbatim>\<open>None\<close> is a missing file.\<close>

definition loadDoc :: "sdoc option \<Rightarrow> sdoc res" where
  "loadDoc disk = (case disk of None \<Rightarrow> Inr emptyDoc | Some d \<Rightarrow> validate_doc True d)"

definition loadDocForMutation :: "sdoc option \<Rightarrow> sdoc res" where
  "loadDocForMutation disk = (case disk of None \<Rightarrow> Inr emptyDoc | Some d \<Rightarrow> validateDocument d)"

datatype write_outcome = Written | Lost_Before string | Lost_After string

text \<open>
  What the caller of \<^verbatim>\<open>mutateDoc\<close> sees: the committed document and the value of the mutation, an error
  tagged \<^verbatim>\<open>not_committed\<close>, or an error tagged \<^verbatim>\<open>committed\<close> that carries both.
\<close>

datatype 'v mutation = Committed sdoc 'v | Not_Committed js_error | Ack_Lost sdoc 'v js_error

definition mutateDoc ::
    "write_outcome \<Rightarrow> sdoc option \<Rightarrow> (sdoc \<Rightarrow> (sdoc \<times> 'v) res) \<Rightarrow> sdoc option \<times> 'v mutation" where
  "mutateDoc w disk f =
    (case rbind (loadDocForMutation disk) (\<lambda>d. rbind (f d) (\<lambda>(d', v). rbind (validateDocument d') (\<lambda>d'. Inr (d', v)))) of
       Inl e \<Rightarrow> (disk, Not_Committed e)
     | Inr (d', v) \<Rightarrow>
         (case w of
            Written \<Rightarrow> (Some d', Committed d' v)
          | Lost_Before m \<Rightarrow> (disk, Not_Committed (Plain_Error m))
          | Lost_After m \<Rightarrow> (Some d', Ack_Lost d' v (Plain_Error m))))"

text \<open>
  \<^verbatim>\<open>for (const job of jobs) job.state = deriveJobStateSummary(job, occurrences, now)\<close>; the restriction to
  one job of some callers is the predicate.
\<close>

definition refreshJob :: "ext \<Rightarrow> occurrence list \<Rightarrow> int \<Rightarrow> job \<Rightarrow> job res" where
  "refreshJob X occs nowMs job = rbind (returns (deriveJobStateSummary X job occs nowMs))
     (\<lambda>s. Inr (job\<lparr>j_state := s\<rparr>))"

definition refreshStates :: "ext \<Rightarrow> (job \<Rightarrow> bool) \<Rightarrow> occurrence list \<Rightarrow> int \<Rightarrow> job list \<Rightarrow> job list res" where
  "refreshStates X which occs nowMs jobs =
     rmap (\<lambda>job. if which job then refreshJob X occs nowMs job else Inr job) jobs"

text \<open>
  \<^verbatim>\<open>rebuildProjections\<close>: reads with the fences recomputed, so a document whose only fault is its
  fences is repaired. The summary function is optional.
\<close>

definition rebuildProjections :: "(job \<Rightarrow> occurrence list \<Rightarrow> job_state res) option \<Rightarrow> sdoc \<Rightarrow> sdoc res" where
  "rebuildProjections buildJobSummary d =
    rbind (validateDocument (d\<lparr>s_fences := rebuildFences (s_occurrences d)\<rparr>)) (\<lambda>d1.
    rbind (case buildJobSummary of
        None \<Rightarrow> Inr (s_jobs d1)
      | Some build \<Rightarrow> rmap (\<lambda>job. rbind (build job (s_occurrences d1)) (\<lambda>s. Inr (job\<lparr>j_state := s\<rparr>))) (s_jobs d1)) (\<lambda>jobs.
    validateDocument (d1\<lparr>s_jobs := jobs, s_fences := rebuildFences (s_occurrences d1)\<rparr>)))"

subsection \<open>What a valid document is\<close>

definition ledger_ok :: "occurrence list \<Rightarrow> bool" where
  "ledger_ok occs \<longleftrightarrow> list_all valid_occ occs \<and> distinct (map o_occurrenceId occs)
     \<and> distinct (map logicalCoordinates occs)
     \<and> list_all (\<lambda>r. o_kind r = Retry \<longrightarrow> retry_predecessor_ok occs r) occs"

definition valid_doc :: "sdoc \<Rightarrow> bool" where
  "valid_doc d \<longleftrightarrow> ledger_ok (s_occurrences d) \<and> fences_exact (s_fences d) (rebuildFences (s_occurrences d))"

lemma validateRecord_strict: "validateRecord r False = Inr r' \<Longrightarrow> r' = r \<and> valid_occ r"
  by (auto simp: valid_occ_def validateOccurrenceRecord_def validateRecord_def split: option.splits sum.splits)

lemma valid_occ_strict: "valid_occ r \<longleftrightarrow> validateRecord r False = Inr r"
  by (simp add: valid_occ_def validateOccurrenceRecord_def)

lemma check_ledger_strict:
  "check_ledger False ids keys occs = Inr occs' \<longleftrightarrow> occs' = occs \<and> list_all valid_occ occs
     \<and> distinct (map o_occurrenceId occs) \<and> distinct (map logicalCoordinates occs)
     \<and> set (map o_occurrenceId occs) \<inter> set ids = {} \<and> set (map logicalCoordinates occs) \<inter> set keys = {}"
proof (induction occs arbitrary: ids keys occs')
  case (Cons r rs)
  show ?case
  proof (cases "validateRecord r False")
    case (Inl e)
    then show ?thesis by (auto simp: valid_occ_strict)
  next
    case (Inr r')
    then have "r' = r" "valid_occ r"
      using validateRecord_strict by blast+
    with Inr show ?thesis
      by (auto simp: Cons.IH rbind_eq_Inr)
  qed
qed auto

lemma fences_exact_refl [simp]: "fences_exact fs fs"
  by (auto simp: fences_exact_def list_all_iff)

lemma validateDocument_iff: "validateDocument d = Inr d' \<longleftrightarrow> d' = d \<and> valid_doc d"
proof -
  have retries: "list_all (\<lambda>r. o_kind r = Retry \<longrightarrow> retry_predecessor_ok occs r) occs
      \<longleftrightarrow> find (\<lambda>r. o_kind r = Retry \<and> \<not> retry_predecessor_ok occs r) occs = None" for occs
    by (auto simp: find_None_set list_all_iff)
  then show ?thesis
    by (auto simp: validateDocument_def validate_doc_def valid_doc_def ledger_ok_def rbind_eq_Inr
        check_ledger_strict retries split: option.splits if_splits)
qed

lemma valid_emptyDoc [simp]: "valid_doc emptyDoc"
  by (simp add: valid_doc_def emptyDoc_def ledger_ok_def rebuildFences_def)

lemma valid_doc_jobs [simp]: "valid_doc (d\<lparr>s_jobs := js\<rparr>) = valid_doc d"
  by (simp add: valid_doc_def)

lemma valid_doc_rebuilt: "ledger_ok occs \<Longrightarrow> valid_doc \<lparr>s_jobs = js, s_occurrences = occs, s_fences = rebuildFences occs\<rparr>"
  by (simp add: valid_doc_def)

lemma fences_exact_lookup: "fences_exact actual expected \<Longrightarrow> map_of actual k = map_of expected k"
proof -
  assume exact: "fences_exact actual expected"
  then have keys: "set (map fst actual) = set (map fst expected)"
    unfolding fences_exact_def by (metis set_sort)
  show ?thesis
  proof (cases "k \<in> set (map fst actual)")
    case True
    then show ?thesis
      using exact by (auto simp: fences_exact_def list_all_iff)
  next
    case False
    then have "map_of actual k = None" "map_of expected k = None"
      using keys by (simp_all add: map_of_eq_None_iff)
    then show ?thesis by simp
  qed
qed

lemma valid_doc_fenced [ledger_simps]:
  "valid_doc d \<Longrightarrow> fenced (s_fences d) k \<longleftrightarrow> (\<exists>r \<in> set (s_occurrences d). isUnresolvedUnknown r \<and> o_jobId r = k)"
  using fences_exact_lookup[of "s_fences d" "rebuildFences (s_occurrences d)" k]
    fenced_rebuild[of "s_occurrences d" k]
  by (simp add: valid_doc_def fenced_def)

subsection \<open>Mutations\<close>

definition valid_disk :: "sdoc option \<Rightarrow> bool" where
  "valid_disk disk \<longleftrightarrow> (case disk of None \<Rightarrow> True | Some d \<Rightarrow> valid_doc d)"

definition disk_doc :: "sdoc option \<Rightarrow> sdoc" where
  "disk_doc disk = (case disk of None \<Rightarrow> emptyDoc | Some d \<Rightarrow> d)"

lemma loadDocForMutation_iff:
  "loadDocForMutation disk = Inr d \<longleftrightarrow> d = disk_doc disk \<and> valid_disk disk"
  by (auto simp: loadDocForMutation_def disk_doc_def valid_disk_def validateDocument_iff split: option.splits)

lemma valid_disk_doc: "valid_disk disk \<Longrightarrow> valid_doc (disk_doc disk)"
  by (auto simp: valid_disk_def disk_doc_def split: option.splits)

lemma mutateDoc_cases:
  assumes "mutateDoc w disk f = (disk', m)"
  shows "(disk' = disk \<and> (\<exists>e. m = Not_Committed e))
    \<or> (valid_disk disk \<and> (\<exists>d v. f (disk_doc disk) = Inr (d, v) \<and> valid_doc d \<and> disk' = Some d
         \<and> (m = Committed d v \<or> (\<exists>e. m = Ack_Lost d v e))))"
  using assms
  by (auto simp: mutateDoc_def rbind_eq_Inr loadDocForMutation_iff validateDocument_iff
      split: sum.splits write_outcome.splits prod.splits)

lemma mutateDoc_written:
  assumes "valid_disk disk" and "f (disk_doc disk) = Inr (d, v)" and "valid_doc d"
  shows "mutateDoc Written disk f = (Some d, Committed d v)"
proof -
  have "loadDocForMutation disk = Inr (disk_doc disk)" "validateDocument d = Inr d"
    using assms by (simp_all add: loadDocForMutation_iff validateDocument_iff)
  then show ?thesis
    using assms(2) by (simp add: mutateDoc_def)
qed

lemma mutateDoc_refused:
  assumes "f (disk_doc disk) = Inl e"
  shows "fst (mutateDoc w disk f) = disk"
proof -
  obtain disk' m where "mutateDoc w disk f = (disk', m)"
    by (cases "mutateDoc w disk f")
  with mutateDoc_cases[OF this] assms show ?thesis by auto
qed

subsection \<open>Updates of one record of the ledger\<close>

text \<open>
  An update of a record that keeps its identity and its logical coordinates keeps the ledger valid as
  soon as the updated record is valid and a failed record stays failed.
\<close>

locale ledger_update = keyed_rows o_occurrenceId upd for upd :: "occurrence \<Rightarrow> occurrence" +
  assumes coords_upd [simp]: "logicalCoordinates (upd r) = logicalCoordinates r"
    and kind_upd [simp]: "o_kind (upd r) = o_kind r"
    and retryOf_upd [simp]: "o_retryOf (upd r) = o_retryOf r"
    and job_upd [simp]: "o_jobId (upd r) = o_jobId r"
    and revision_upd [simp]: "o_scheduleRevision (upd r) = o_scheduleRevision r"
begin

lemma update_as_map:
  assumes "ledger_ok occs"
  shows "update_first (\<lambda>r. o_occurrenceId r = i) upd occs = map (\<lambda>r. if o_occurrenceId r = i then upd r else r) occs"
  using assms by (simp add: ledger_ok_def update_first_map)

lemma predecessor_kept:
  assumes "retry_predecessor_ok occs q" and "ledger_ok occs"
    and "\<And>r. r \<in> set occs \<Longrightarrow> o_occurrenceId r = i \<Longrightarrow> o_state r = Failed \<Longrightarrow> o_state (upd r) = Failed"
  shows "retry_predecessor_ok (update_first (\<lambda>r. o_occurrenceId r = i) upd occs) q"
proof -
  from assms(1) obtain k p where p: "o_retryOf q = Some k" "findOccurrenceById occs k = Some p"
      "o_state p = Failed" "o_jobId p = o_jobId q" "o_scheduleRevision p = o_scheduleRevision q"
    by (auto simp: retry_predecessor_ok_def split: option.splits)
  have "p \<in> set occs" "o_occurrenceId p = k"
    using find_Some_set[OF p(2)[unfolded findOccurrenceById_def]] by simp_all
  then show ?thesis
    using p assms(3)[of p] by (auto simp: retry_predecessor_ok_def findOccurrenceById_def find_update_first)
qed

lemma ledger_ok_update:
  assumes ok: "ledger_ok occs"
    and valid: "\<And>r. r \<in> set occs \<Longrightarrow> o_occurrenceId r = i \<Longrightarrow> valid_occ (upd r)"
    and failed: "\<And>r. r \<in> set occs \<Longrightarrow> o_occurrenceId r = i \<Longrightarrow> o_state r = Failed \<Longrightarrow> o_state (upd r) = Failed"
  shows "ledger_ok (update_first (\<lambda>r. o_occurrenceId r = i) upd occs)"
proof -
  let ?occs' = "update_first (\<lambda>r. o_occurrenceId r = i) upd occs"
  have coords: "map logicalCoordinates ?occs' = map logicalCoordinates occs"
    by (simp add: update_as_map[OF ok])
  have "retry_predecessor_ok ?occs' (upd q) = retry_predecessor_ok ?occs' q" for q
    by (simp add: retry_predecessor_ok_def cong: option.case_cong)
  moreover have "retry_predecessor_ok ?occs' q" if "q \<in> set occs" "o_kind q = Retry" for q
    using ok that failed by (intro predecessor_kept) (auto simp: ledger_ok_def list_all_iff)
  ultimately have "list_all (\<lambda>r. o_kind r = Retry \<longrightarrow> retry_predecessor_ok ?occs' r) ?occs'"
    by (auto simp: list_all_iff dest!: set_update_first)
  moreover have "list_all valid_occ ?occs'"
    using ok valid by (auto simp: list_all_iff ledger_ok_def dest!: set_update_first)
  ultimately show ?thesis
    using ok coords by (simp add: ledger_ok_def)
qed

lemma retry_ordered_update:
  assumes "retry_ordered occs" and "ledger_ok occs"
  shows "retry_ordered (update_first (\<lambda>r. o_occurrenceId r = i) upd occs)"
  using assms by (simp add: update_as_map retry_ordered_map)

end

text \<open>The three updates the program makes.\<close>

interpretation moved: ledger_update "move t" for t
  by unfold_locales (simp_all add: logicalCoordinates_def)

interpretation annotated: ledger_update "annotate s reason" for s reason
  by unfold_locales (simp_all add: logicalCoordinates_def annotate_def)

interpretation fence_noted: ledger_update "record_fence_after b" for b
  by unfold_locales (simp_all add: logicalCoordinates_def record_fence_after_def)

subsection \<open>Appending a record\<close>

lemma ledger_ok_append:
  assumes ok: "ledger_ok occs" and "valid_occ r"
    and "findOccurrenceById occs (o_occurrenceId r) = None"
    and "findOccurrenceByCoords occs (logicalCoordinates r) = None"
    and "o_kind r = Retry \<Longrightarrow> retry_predecessor_ok occs r"
  shows "ledger_ok (occs @ [r])"
proof -
  have grow: "retry_predecessor_ok (occs @ [r]) q" if "retry_predecessor_ok occs q" for q
    using that by (auto simp: retry_predecessor_ok_def findOccurrenceById_def find_append_new split: option.splits)
  have "o_occurrenceId r \<notin> o_occurrenceId ` set occs"
    using assms(3) by (auto simp: findOccurrenceById_def find_None_set)
  moreover have "logicalCoordinates r \<notin> logicalCoordinates ` set occs"
    using assms(4) by (fastforce simp: findOccurrenceByCoords_def find_None_set)
  ultimately show ?thesis
    using assms grow by (auto simp: ledger_ok_def list_all_iff)
qed

lemma refreshStates_returns:
  "retry_ordered occs \<Longrightarrow> \<exists>js. refreshStates X which occs nowMs jobs = Inr js"
  unfolding refreshStates_def
proof (rule rmap_total)
  fix job assume "retry_ordered occs"
  then obtain s where "deriveJobStateSummary X job occs nowMs = Some s"
    using deriveJobStateSummary_returns by blast
  then show "\<exists>y. (if which job then refreshJob X occs nowMs job else Inr job) = Inr y"
    by (simp add: refreshJob_def)
qed

text \<open>A refresh changes nothing of a job but its derived state.\<close>

lemma refreshStates_ids:
  "refreshStates X which occs nowMs jobs = Inr js \<Longrightarrow>
     map (\<lambda>j. j\<lparr>j_state := empty_state\<rparr>) js = map (\<lambda>j. j\<lparr>j_state := empty_state\<rparr>) jobs"
  unfolding refreshStates_def
  by (induction jobs arbitrary: js) (auto simp: rbind_eq_Inr refreshJob_def split: if_splits)

end
