(* ===== verification/Reservation.thy ===== *)
theory Reservation
  imports Store
begin

section \<open>Reserving an occurrence\<close>

text \<open>
  \<^verbatim>\<open>packages/scheduler/src/occurrence-reservation.js\<close>: the eligibility of a candidate is decided again
  on the latest document inside the lock, and the admitted record is appended by the same mutation.
  \<^verbatim>\<open>invoker.assertRunnable\<close> is a parameter: \<open>None\<close> accepts the agent, \<open>Some message\<close> throws.
\<close>

definition AGENT_TURN_SAFETY_TIMEOUT_MS :: int where
  "AGENT_TURN_SAFETY_TIMEOUT_MS = 3600 * 1000"

record candidate =
  cd_kind :: occ_kind
  cd_job :: job
  cd_nominal :: "int option"
  cd_retryOf :: "string option"
  cd_catchUp :: "int option"

datatype reserved = Reserved occurrence | Deduped occurrence | Refused string

definition turn_timeout :: "job \<Rightarrow> int" where
  "turn_timeout job = (case p_timeoutSeconds (j_payload job) of
     Some t \<Rightarrow> (if t = 0 then AGENT_TURN_SAFETY_TIMEOUT_MS else t * 1000)
   | None \<Rightarrow> AGENT_TURN_SAFETY_TIMEOUT_MS)"

definition buildFor :: "ext \<Rightarrow> job \<Rightarrow> candidate \<Rightarrow> int \<Rightarrow> occurrence res" where
  "buildFor X job c admittedAt = buildOccurrenceRecord X job (cd_kind c) (cd_nominal c) (cd_retryOf c) (cd_catchUp c)
     admittedAt (Some (turn_timeout job))"

definition findJob :: "job list \<Rightarrow> string \<Rightarrow> job option" where
  "findJob jobs i = find (\<lambda>j. j_id j = i) jobs"

text \<open>The refusals of the locked evaluation, in the order of the code.\<close>

definition reserve_refusal :: "ext \<Rightarrow> int \<Rightarrow> int \<Rightarrow> candidate \<Rightarrow> sdoc \<Rightarrow> job \<Rightarrow> string option res" where
  "reserve_refusal X grace admittedAt c latest job =
    (if \<not> j_enabled job then Inr (Some ''job_missing_or_disabled'')
     else if j_scheduleRevision job \<noteq> j_scheduleRevision (cd_job c) then Inr (Some ''schedule_revision_changed'')
     else if fenced (s_fences latest) (j_id job) then Inr (Some ''fenced_outcome_unknown_in_flight'')
     else if hasNonTerminalOccurrence (s_occurrences latest) (j_id job)
     then Inr (Some ''non_terminal_occurrence_in_flight'')
     else if cd_kind c = Retry then
       rbind (returns (retryCandidate job (s_occurrences latest) admittedAt)) (\<lambda>retry. case retry of
           None \<Rightarrow> Inr (Some ''retry_not_eligible'')
         | Some rc \<Rightarrow>
             if rc_staleRevision rc then Inr (Some ''retry_stale_schedule_revision'')
             else if rc_exhausted rc \<or> \<not> rc_due rc \<or> Some (rc_retryOf rc) \<noteq> cd_retryOf c
             then Inr (Some ''retry_not_eligible'') else Inr None)
     else
       let natural = naturalCandidate X job (s_occurrences latest) admittedAt grace;
           expected = (if cd_kind c = Catchup then cd_catchUp c else cd_nominal c)
       in if \<not> nc_due natural \<or> nc_nominal natural \<noteq> expected
          then Inr (Some (''natural_not_due: '' @ nc_reason natural)) else Inr None)"

definition reserveOccurrence ::
    "ext \<Rightarrow> (string \<Rightarrow> string option) \<Rightarrow> int \<Rightarrow> int \<Rightarrow> candidate \<Rightarrow> sdoc \<Rightarrow> (sdoc \<times> reserved) res" where
  "reserveOccurrence X notRunnable grace admittedAt c latest =
    rbind (buildFor X (cd_job c) c admittedAt) (\<lambda>attempted.
    case findOccurrenceByCoords (s_occurrences latest) (logicalCoordinates attempted) of
      Some byCoords \<Rightarrow>
        if o_occurrenceId byCoords \<noteq> o_occurrenceId attempted then Inl (structuredCollisionError byCoords attempted)
        else if o_payloadHash byCoords \<noteq> o_payloadHash attempted
        then Inl (Coded_Error ''OCCURRENCE_PAYLOAD_CONFLICT''
               (''idempotency key '' @ o_idempotencyKey attempted @ '' is already bound to a different payloadHash''))
        else Inr (latest, Deduped byCoords)
    | None \<Rightarrow>
    (case findOccurrenceById (s_occurrences latest) (o_occurrenceId attempted) of
      Some byId \<Rightarrow> Inl (structuredCollisionError byId attempted)
    | None \<Rightarrow>
    (case findJob (s_jobs latest) (j_id (cd_job c)) of
      None \<Rightarrow> Inr (latest, Refused ''job_missing_or_disabled'')
    | Some job \<Rightarrow>
        rbind (reserve_refusal X grace admittedAt c latest job) (\<lambda>refusal. case refusal of
          Some reason \<Rightarrow> Inr (latest, Refused reason)
        | None \<Rightarrow>
            rbind (buildFor X job c admittedAt) (\<lambda>record.
            case notRunnable (j_agentId job) of
              Some message \<Rightarrow> Inr (latest, Refused (''agent_not_runnable: '' @ take 200 message))
            | None \<Rightarrow> Inr (latest\<lparr>s_occurrences := s_occurrences latest @ [record]\<rparr>, Reserved record))))))"

subsection \<open>What a reservation guarantees\<close>

lemma findJob_Some: "findJob jobs i = Some j \<Longrightarrow> j \<in> set jobs \<and> j_id j = i"
  unfolding findJob_def by (rule find_Some_set)

lemma build_fields:
  assumes "buildOccurrenceRecord X job kind nominal retryOf catchUp at' timeout = Inr r"
  shows "o_jobId r = j_id job" "o_scheduleRevision r = j_scheduleRevision job" "o_kind r = kind"
    "o_state r = Admitted" "o_admittedAt r = at'" "o_terminationSettlement r = None" "o_lateSettlement r = None"
    "o_endedAt r = None" "o_executionOutcome r = None" "o_startedAt r = None"
    "o_retryOf r = (if kind = Retry then retryOf else None)"
    "logicalCoordinates r = \<lparr>c_jobId = j_id job, c_scheduleRevision = j_scheduleRevision job,
       c_effectiveSlot = slot_for kind nominal retryOf catchUp\<rparr>"
    "deriveOccurrenceId (j_id job) (j_scheduleRevision job) kind nominal retryOf catchUp = Inr (o_occurrenceId r)"
    "o_payloadHash r = computePayloadHash X (j_agentId job) (j_payload job)"
    "o_executionDeadlineAtMs r = at' + (case timeout of Some t \<Rightarrow> (if t > 0 then t else 3600000) | None \<Rightarrow> 3600000)"
    "o_history r = [\<lparr>h_at = at', h_from = None, h_to = Admitted, h_reason = kind_str kind @ '' occurrence reserved''\<rparr>]"
    "o_ownerAgentId r = Some (j_agentId job)" "o_runId r = deriveRunId (o_occurrenceId r)"
    "o_deliveryStatus r = None"
  using assms by (auto simp: buildOccurrenceRecord_def Let_def res_simps logicalCoordinates_def slot_for_def
      known_kind_def split: occ_kind.splits)

lemma reserve_refusal_None:
  assumes "reserve_refusal X grace now c d job = Inr None"
  shows "j_enabled job" "j_scheduleRevision job = j_scheduleRevision (cd_job c)"
    "\<not> fenced (s_fences d) (j_id job)" "\<not> hasNonTerminalOccurrence (s_occurrences d) (j_id job)"
    and "cd_kind c = Retry \<Longrightarrow> \<exists>rc. retryCandidate job (s_occurrences d) now = Some (Some rc) \<and> \<not> rc_exhausted rc
      \<and> rc_due rc \<and> cd_retryOf c = Some (rc_retryOf rc)"
    and "cd_kind c \<noteq> Retry \<Longrightarrow> nc_due (naturalCandidate X job (s_occurrences d) now grace)
      \<and> nc_nominal (naturalCandidate X job (s_occurrences d) now grace)
          = (if cd_kind c = Catchup then cd_catchUp c else cd_nominal c)"
  using assms
  by (auto simp: reserve_refusal_def Let_def rbind_eq_Inr returns_eq_Inr split: if_splits option.splits)

lemma reserve_Reserved:
  assumes "reserveOccurrence X notRunnable grace now c d = Inr (d', Reserved r)"
  obtains job where "findJob (s_jobs d) (j_id (cd_job c)) = Some job"
    "reserve_refusal X grace now c d job = Inr None" "buildFor X job c now = Inr r"
    "notRunnable (j_agentId job) = None" "d' = d\<lparr>s_occurrences := s_occurrences d @ [r]\<rparr>"
    "findOccurrenceById (s_occurrences d) (o_occurrenceId r) = None"
    "findOccurrenceByCoords (s_occurrences d) (logicalCoordinates r) = None"
proof -
  obtain attempted where a: "buildFor X (cd_job c) c now = Inr attempted"
    using assms by (cases "buildFor X (cd_job c) c now") (simp_all add: reserveOccurrence_def)
  have k: "findOccurrenceByCoords (s_occurrences d) (logicalCoordinates attempted) = None"
    using assms a by (cases "findOccurrenceByCoords (s_occurrences d) (logicalCoordinates attempted)")
      (simp_all add: reserveOccurrence_def split: if_splits)
  have i: "findOccurrenceById (s_occurrences d) (o_occurrenceId attempted) = None"
    using assms a k by (cases "findOccurrenceById (s_occurrences d) (o_occurrenceId attempted)")
      (simp_all add: reserveOccurrence_def)
  obtain job where j: "findJob (s_jobs d) (j_id (cd_job c)) = Some job"
    using assms a k i by (cases "findJob (s_jobs d) (j_id (cd_job c))") (simp_all add: reserveOccurrence_def)
  have f: "reserve_refusal X grace now c d job = Inr None"
    using assms a k i j by (auto simp: reserveOccurrence_def rbind_eq_Inr split: option.splits)
  have step: "findJob (s_jobs d) (j_id (cd_job c)) = Some job"
    "reserve_refusal X grace now c d job = Inr None" "buildFor X job c now = Inr r"
    "notRunnable (j_agentId job) = None" "d' = d\<lparr>s_occurrences := s_occurrences d @ [r]\<rparr>"
    "buildFor X (cd_job c) c now = Inr attempted"
    using assms a k i j f by (auto simp: reserveOccurrence_def rbind_eq_Inr split: option.splits)
  have "j_id job = j_id (cd_job c)"
    using step(1) by (auto dest: findJob_Some)
  moreover have "j_scheduleRevision job = j_scheduleRevision (cd_job c)"
    using reserve_refusal_None(2)[OF step(2)] .
  ultimately have "logicalCoordinates r = logicalCoordinates attempted" "o_occurrenceId r = o_occurrenceId attempted"
    using build_fields(12,13)[OF step(3)[unfolded buildFor_def]] build_fields(12,13)[OF step(6)[unfolded buildFor_def]]
    by simp_all
  with step that i k show thesis by simp
qed

definition wf_ids :: "job \<Rightarrow> bool" where
  "wf_ids job \<longleftrightarrow> j_id job \<noteq> [] \<and> j_agentId job \<noteq> [] \<and> 1 \<le> j_scheduleRevision job \<and> is_safe_int (j_scheduleRevision job)"

lemma wf_job_ids: "wf_job X job \<Longrightarrow> wf_ids job"
  by (simp add: wf_job_def wf_ids_def wf_text_def)

lemma valid_occ_id: "valid_occ r \<Longrightarrow> o_occurrenceId r \<noteq> []"
  by (auto simp: valid_occ_iff head_ok_def identity_faults_def dest: derived_id_nonempty)

lemma reserved_predecessor:
  assumes "ledger_ok (s_occurrences d)" and "reserve_refusal X grace now c d job = Inr None"
    and "buildFor X job c now = Inr r" and "cd_kind c = Retry"
  shows "cd_retryOf c \<noteq> Some []" and "retry_predecessor_ok (s_occurrences d) r"
proof -
  obtain rc where rc: "retryCandidate job (s_occurrences d) now = Some (Some rc)" "\<not> rc_exhausted rc"
      "cd_retryOf c = Some (rc_retryOf rc)"
    using reserve_refusal_None(5)[OF assms(2,4)] by blast
  note due = retryCandidate_due[OF rc(1,2)]
  have "valid_occ (rc_terminal rc)"
    using assms(1) due(3) by (simp add: ledger_ok_def list_all_iff)
  from valid_occ_id[OF this] show "cd_retryOf c \<noteq> Some []"
    by (simp add: due(7) rc(3))
  have "findOccurrenceById (s_occurrences d) (o_occurrenceId (rc_terminal rc)) = Some (rc_terminal rc)"
    using assms(1) due(3) unfolding findOccurrenceById_def by (intro find_key_distinct) (simp_all add: ledger_ok_def)
  then show "retry_predecessor_ok (s_occurrences d) r"
    using due rc(3) assms(4) build_fields[OF assms(3)[unfolded buildFor_def]]
    by (simp add: retry_predecessor_ok_def)
qed

lemma reserve_valid:
  assumes "valid_doc d" and "reserveOccurrence X notRunnable grace now c d = Inr (d', Reserved r)"
    and "\<And>job. job \<in> set (s_jobs d) \<Longrightarrow> wf_ids job"
  shows "valid_doc d'" and "valid_occ r"
proof -
  from assms(2) obtain job where job: "findJob (s_jobs d) (j_id (cd_job c)) = Some job"
    "reserve_refusal X grace now c d job = Inr None" "buildFor X job c now = Inr r"
    "d' = d\<lparr>s_occurrences := s_occurrences d @ [r]\<rparr>"
    "findOccurrenceById (s_occurrences d) (o_occurrenceId r) = None"
    "findOccurrenceByCoords (s_occurrences d) (logicalCoordinates r) = None"
    by (rule reserve_Reserved) blast
  have ok: "ledger_ok (s_occurrences d)" and exact: "fences_exact (s_fences d) (rebuildFences (s_occurrences d))"
    using assms(1) by (simp_all add: valid_doc_def)
  note built = job(3)[unfolded buildFor_def]
  have wf: "wf_ids job"
    using assms(3) job(1) findJob_Some by metis
  show valid: "valid_occ r"
    using build_valid[OF built] wf reserved_predecessor(1)[OF ok job(2,3)] by (simp add: wf_ids_def)
  have "ledger_ok (s_occurrences d @ [r])"
    using job(5,6) valid reserved_predecessor(2)[OF ok job(2,3)] build_fields(3)[OF built]
    by (intro ledger_ok_append[OF ok]) auto
  moreover have "\<not> isUnresolvedUnknown r"
    using build_fields(4)[OF built] by (simp add: isUnresolvedUnknown_def)
  ultimately show "valid_doc d'"
    using exact by (simp add: job(4) valid_doc_def rebuildFences_append_live)
qed

end
