(* ===== verification/Outcome.thy ===== *)
theory Outcome
  imports Reservation
begin

section \<open>Outcomes, proofs of termination and trusted readbacks\<close>

text \<open>
  \<^verbatim>\<open>self-ops/invoker-outcome.js\<close>, \<^verbatim>\<open>watchdog/reconciliation.js\<close> and the helpers of
  \<^verbatim>\<open>self-ops/index.js\<close> and \<^verbatim>\<open>self-ops/diagnosis.js\<close> that the engine uses: how the result of an
  invocation becomes the durable classification of an occurrence, and which evidence may settle an
  unknown outcome. The invoker and the router are not part of this repository's scheduler: their
  results are values of the record types below, any value of which may arrive.
\<close>

subsection \<open>Results of an invocation\<close>

definition TRUSTED_TERMINATION_EVIDENCE :: "string list" where
  "TRUSTED_TERMINATION_EVIDENCE = [''exact_terminal_then_idle'', ''exact_queued_removal'', ''child_real_exit'',
     ''cancellation_ack'', ''restart_quiescence_proven'']"

definition TIMEOUT_ERROR_TEXT :: string where
  "TIMEOUT_ERROR_TEXT = ''cron: job execution timed out''"

record outcome =
  oc_status :: string
  oc_error :: "string option"
  oc_timedOut :: bool
  oc_started :: "bool option"
  oc_routerEnvelope :: "string option"
  oc_terminationEvidence :: "string option"
  oc_evidenceTermination :: "string option"
  oc_evidenceSource :: "string option"
  oc_evidenceReceipt :: "string option"
  oc_handle :: "string option"
  oc_summary :: "string option"

definition hasTerminationProof :: "outcome \<Rightarrow> bool" where
  "hasTerminationProof oc \<longleftrightarrow> (case override (oc_terminationEvidence oc) (oc_evidenceTermination oc) of
     Some k \<Rightarrow> k \<in> set TRUSTED_TERMINATION_EVIDENCE | None \<Rightarrow> False)"

record termination_proof =
  tp_evidenceKind :: string
  tp_handle :: "string option"

definition trustedTerminationProof :: "outcome \<Rightarrow> termination_proof option" where
  "trustedTerminationProof oc =
     (if oc_evidenceSource oc \<noteq> Some ''router_disposition_readback'' then None
      else case oc_evidenceTermination oc of
        None \<Rightarrow> None
      | Some k \<Rightarrow> if k \<notin> set TRUSTED_TERMINATION_EVIDENCE then None
          else Some \<lparr>tp_evidenceKind = k,
            tp_handle = (if oc_handle oc = Some [] then None else oc_handle oc)\<rparr>)"

record classification =
  cl_state :: occ_state
  cl_executionOutcome :: "occ_state option"
  cl_reason :: string
  cl_summary :: "string option"
  cl_terminalEvidence :: "terminal_evidence option"

definition text_or :: "string option \<Rightarrow> string \<Rightarrow> string" where
  "text_or t d = (case t of Some s \<Rightarrow> s | None \<Rightarrow> d)"

definition unknown_class :: "string \<Rightarrow> classification" where
  "unknown_class reason = \<lparr>cl_state = Outcome_Unknown, cl_executionOutcome = None, cl_reason = reason,
     cl_summary = None, cl_terminalEvidence = None\<rparr>"

definition failed_class :: "string \<Rightarrow> string \<Rightarrow> classification" where
  "failed_class reason kind = \<lparr>cl_state = Failed, cl_executionOutcome = Some Failed, cl_reason = reason,
     cl_summary = None, cl_terminalEvidence = Some \<lparr>te_kind = kind, te_detailRef = reason\<rparr>\<rparr>"

text \<open>\<open>recStarted\<close> is the mark \<^verbatim>\<open>record.__started\<close> of the run in progress.\<close>

definition classifyOccurrenceOutcome :: "bool \<Rightarrow> outcome \<Rightarrow> classification" where
  "classifyOccurrenceOutcome recStarted oc =
    (if oc_status oc = ''ok'' then
       \<lparr>cl_state = Succeeded, cl_executionOutcome = Some Succeeded,
        cl_reason = ''invoker returned terminal success'', cl_summary = oc_summary oc, cl_terminalEvidence = None\<rparr>
     else if oc_timedOut oc then
       unknown_class (''execution deadline exceeded without termination proof: '' @ text_or (oc_error oc) TIMEOUT_ERROR_TEXT)
     else if oc_status oc = ''outcome_unknown'' then
       unknown_class (''invoker reported outcome_unknown: '' @ text_or (oc_error oc) [])
     else
       let started = (recStarted \<or> oc_started oc = Some True) in
       if oc_routerEnvelope oc = Some ''not_admitted'' \<or> oc_routerEnvelope oc = Some ''failed'' then
         failed_class (text_or (oc_error oc) (''router '' @ text_or (oc_routerEnvelope oc) [] @ '' settlement''))
           (if oc_routerEnvelope oc = Some ''not_admitted'' \<or> oc_started oc = Some False
            then ''pre-start-rejection'' else ''turn-terminal'')
       else if \<not> ((\<not> started \<and> oc_started oc = Some False) \<or> hasTerminationProof oc) then
         unknown_class (''invoker failure lacks exact-turn termination proof: '' @ text_or (oc_error oc) ''invoke failed'')
       else failed_class (text_or (oc_error oc) ''invoke failed'')
              (if started then ''turn-terminal'' else ''pre-start-rejection''))"

subsection \<open>Identifiers of evidence and operations\<close>

definition evidenceIdFor :: "string \<Rightarrow> string \<Rightarrow> string" where
  "evidenceIdFor handle kind = ''ev:'' @ shaHex16 (encodeCoords [handle, kind])"

definition deriveSelfReconcileOperationId :: "string \<Rightarrow> string \<Rightarrow> string \<Rightarrow> string" where
  "deriveSelfReconcileOperationId agent occurrenceId runId =
     ''op:'' @ shaHex16 (encodeCoords [''self-terminate-reconcile'', agent, occurrenceId, runId])"

definition requestIdFor :: "occurrence \<Rightarrow> string" where
  "requestIdFor r = text_or (o_requestId r) (o_idempotencyKey r)"

lemma is_operation_id_hash [simp]: "is_operation_id (CHR ''o'' # CHR ''p'' # CHR '':'' # shaHex16 t)"
  by (auto simp: is_operation_id_def shaHex16_def list_all_iff sha256_hex_lower dest: in_set_takeD)

subsection \<open>Readbacks of the router\<close>

record router_snapshot =
  rs_agentId :: "string option"
  rs_correlation :: "(string option \<times> string option \<times> string option) option"
  rs_outcome :: "string option"
  rs_lateOutcome :: "string option"
  rs_terminationEvidence :: "string option"
  rs_outcomeEvidence :: "string option"
  rs_settlementResult :: "string option"
  rs_handle :: "string option"
  rs_turnExecutionId :: "string option"
  rs_runtimeEpoch :: "string option"
  rs_processGeneration :: "int option"
  rs_state :: "string option"

record router_result =
  rr_state :: string
  rr_snapshot :: "router_snapshot option"
  rr_handle :: "string option"

record classified =
  rd_disposition :: string
  rd_snapshot :: "router_snapshot option"
  rd_handle :: "string option"

definition ROUTER_DISPOSITIONS :: "string list" where
  "ROUTER_DISPOSITIONS = [''terminated_without_outcome'', ''pending'', ''restart_lost'', ''evicted'', ''never_existed'',
     ''late_completed'', ''late_failed'', ''mismatch'', ''conflict'', ''unsupported'']"

definition bare :: "string \<Rightarrow> classified" where
  "bare d = \<lparr>rd_disposition = d, rd_snapshot = None, rd_handle = None\<rparr>"

definition exact_correlation :: "occurrence \<Rightarrow> router_snapshot \<Rightarrow> bool" where
  "exact_correlation r snap \<longleftrightarrow>
     rs_correlation snap = Some (Some (o_occurrenceId r), Some (o_runId r), Some (requestIdFor r))"

definition classifyRouter :: "router_result option \<Rightarrow> occurrence \<Rightarrow> string option \<Rightarrow> classified" where
  "classifyRouter result r callerAgentId = (case result of None \<Rightarrow> bare ''unsupported''
   | Some res \<Rightarrow>
      if rr_state res \<in> set [''restart_lost'', ''evicted'', ''never_existed''] then bare (rr_state res)
      else if rr_state res = ''pending'' then bare ''pending''
      else if rr_state res \<in> set [''mismatch'', ''conflict''] then bare (rr_state res)
      else if rr_state res \<noteq> ''settled'' then bare ''unsupported''
      else (case rr_snapshot res of None \<Rightarrow> bare ''unsupported''
      | Some snap \<Rightarrow>
          if rs_agentId snap \<noteq> callerAgentId then bare ''mismatch''
          else if \<not> exact_correlation r snap then bare ''mismatch''
          else
            let out = text_or (override (rs_lateOutcome snap) (rs_outcome snap)) ''unsupported'';
                disposition = (if out = ''completed'' then ''late_completed''
                  else if out \<in> set [''failed'', ''not_admitted''] then ''late_failed'' else out)
            in if disposition = ''terminated_without_outcome''
                 \<and> (rr_handle res = None \<or> rr_handle res = Some []
                    \<or> (case rs_terminationEvidence snap of Some k \<Rightarrow> k \<notin> set TRUSTED_TERMINATION_EVIDENCE | None \<Rightarrow> True))
               then bare ''unsupported''
               else \<lparr>rd_disposition = (if disposition \<in> set ROUTER_DISPOSITIONS then disposition else ''unsupported''),
                     rd_snapshot = Some snap, rd_handle = rr_handle res\<rparr>))"

subsection \<open>Classification of reconciliation evidence\<close>

record rec_identity =
  ri_jobId :: string
  ri_occurrenceId :: string
  ri_runId :: string
  ri_epoch :: string

record rec_evidence =
  re_identity :: rec_identity
  re_trusted :: bool
  re_fresh :: bool
  re_source :: string
  re_observedAt :: "int option"
  re_status :: "string option"
  re_terminated :: "bool option"
  re_live :: "bool option"

record rec_bundle =
  rb_identity :: rec_identity
  rb_business :: "rec_evidence option"
  rb_termination :: "rec_evidence option"
  rb_live :: "rec_evidence option"

datatype rec_path = Business_Outcome | Termination_Only | Live_Path | Quarantine

record rec_result =
  rn_classification :: "string option"
  rn_path :: rec_path
  rn_releaseFence :: bool
  rn_zeroWrite :: bool
  rn_reason :: "string option"

definition TRUSTED_EVIDENCE_SOURCES :: "string list" where
  "TRUSTED_EVIDENCE_SOURCES = [''router'', ''router-current-readback'', ''business-ledger'', ''scheduler-runtime'']"

definition DEFAULT_RECONCILIATION_EVIDENCE_MAX_AGE_MS :: int where
  "DEFAULT_RECONCILIATION_EVIDENCE_MAX_AGE_MS = 5 * 60 * 1000"

definition exactTrusted :: "rec_identity \<Rightarrow> int \<Rightarrow> int \<Rightarrow> rec_evidence \<Rightarrow> bool" where
  "exactTrusted i nowMs maxAge e \<longleftrightarrow> re_trusted e \<and> re_fresh e \<and> re_source e \<in> set TRUSTED_EVIDENCE_SOURCES
     \<and> re_identity e = i \<and> (case re_observedAt e of Some t \<Rightarrow> t \<le> nowMs \<and> nowMs - t \<le> maxAge | None \<Rightarrow> False)"

definition quarantine :: "string \<Rightarrow> rec_result" where
  "quarantine reason = \<lparr>rn_classification = Some ''QUARANTINED_UNKNOWN'', rn_path = Quarantine,
     rn_releaseFence = False, rn_zeroWrite = True, rn_reason = Some reason\<rparr>"

definition opt_list :: "'a option \<Rightarrow> 'a list" where
  "opt_list x = (case x of Some y \<Rightarrow> [y] | None \<Rightarrow> [])"

definition classifyReconciliationEvidence :: "rec_bundle \<Rightarrow> int \<Rightarrow> int \<Rightarrow> rec_result" where
  "classifyReconciliationEvidence b nowMs maxAge =
    (let i = rb_identity b;
         isLive = (case rb_live b of Some e \<Rightarrow> re_live e = Some True | None \<Rightarrow> False);
         terminated = (case rb_termination b of Some e \<Rightarrow> re_terminated e | None \<Rightarrow> None)
     in
     if ri_jobId i = [] \<or> ri_occurrenceId i = [] \<or> ri_runId i = [] \<or> ri_epoch i = []
     then quarantine ''identity incomplete''
     else if maxAge < 0 \<or> list_ex (\<lambda>e. \<not> exactTrusted i nowMs maxAge e)
          (opt_list (rb_business b) @ opt_list (rb_termination b) @ opt_list (rb_live b))
     then quarantine ''evidence identity, trust, or freshness provenance invalid''
     else if (rb_business b \<noteq> None \<and> isLive) \<or> (terminated = Some True \<and> isLive)
          \<or> (rb_business b \<noteq> None \<and> terminated = Some False)
     then quarantine ''trusted evidence conflicts across sources''
     else case rb_business b of
       Some e \<Rightarrow>
         if re_status e = Some ''succeeded'' then
           \<lparr>rn_classification = Some ''RECONCILED_SUCCESS'', rn_path = Business_Outcome,
            rn_releaseFence = True, rn_zeroWrite = False, rn_reason = None\<rparr>
         else if re_status e = Some ''failed'' then
           \<lparr>rn_classification = Some ''RECONCILED_FAILURE'', rn_path = Business_Outcome,
            rn_releaseFence = True, rn_zeroWrite = False, rn_reason = None\<rparr>
         else quarantine ''unsupported business outcome''
     | None \<Rightarrow>
         if terminated = Some True then
           \<lparr>rn_classification = None, rn_path = Termination_Only, rn_releaseFence = True,
            rn_zeroWrite = False, rn_reason = None\<rparr>
         else if isLive then
           \<lparr>rn_classification = Some ''STILL_IN_FLIGHT'', rn_path = Live_Path, rn_releaseFence = False,
            rn_zeroWrite = True, rn_reason = None\<rparr>
         else quarantine ''bounded evidence exhausted'')"

text \<open>
  \<^verbatim>\<open>dispatchReconciliation\<close>: which settlement the dispatch calls, if any.
\<close>

datatype settle_call = Settle_Business string | Settle_Termination | Settle_Nothing

definition dispatchReconciliation :: "rec_bundle \<Rightarrow> int \<Rightarrow> int \<Rightarrow> settle_call \<times> rec_result" where
  "dispatchReconciliation b nowMs maxAge =
    (let result = classifyReconciliationEvidence b nowMs maxAge in
     (case rn_path result of
        Business_Outcome \<Rightarrow> Settle_Business (text_or (rn_classification result) [])
      | Termination_Only \<Rightarrow> Settle_Termination
      | _ \<Rightarrow> Settle_Nothing, result))"

definition unresolvedFenceContributions :: "occurrence list \<Rightarrow> string \<Rightarrow> string list" where
  "unresolvedFenceContributions occs jobId = sort (map o_occurrenceId
     (filter (\<lambda>r. o_jobId r = jobId \<and> o_state r = Outcome_Unknown \<and> o_terminationSettlement r = None) occs))"

subsection \<open>Settling one record of a document\<close>

text \<open>
  The transition of a late business outcome, and the termination-only settlement with the fence it
  leaves behind, as every writer performs them.
\<close>

definition late_transition :: "occ_state \<Rightarrow> int \<Rightarrow> string \<Rightarrow> string \<Rightarrow> string \<Rightarrow> string \<Rightarrow> string \<Rightarrow> transition" where
  "late_transition to at' reason basis ref kind detail = (plain_transition to at' reason)\<lparr>
     t_endedAt := Some at', t_executionOutcome := Some to,
     t_lateSettlement := Some \<lparr>ls_resolvedTo = to, ls_resolvedAt = at', ls_basis = basis, ls_evidenceRef = ref\<rparr>,
     t_terminalEvidence := Some \<lparr>te_kind = kind, te_detailRef = detail\<rparr>\<rparr>"

text \<open>The mutated object \<^verbatim>\<open>current\<close> is the one found in the ledger: it is replaced where it stands.\<close>

definition putOccurrence :: "string \<Rightarrow> occurrence \<Rightarrow> occurrence list \<Rightarrow> occurrence list" where
  "putOccurrence i r occs = update_first (\<lambda>x. o_occurrenceId x = i) (\<lambda>_. r) occs"

definition settleTermination :: "string \<Rightarrow> string \<Rightarrow> termination_settlement \<Rightarrow> string \<Rightarrow> sdoc \<Rightarrow> sdoc" where
  "settleTermination i jobId s reason d =
    (let occs = update_first (\<lambda>x. o_occurrenceId x = i) (annotate s reason) (s_occurrences d);
         fs = rebuildFences occs
     in d\<lparr>s_occurrences := update_first (\<lambda>x. o_occurrenceId x = i) (record_fence_after (fenced fs jobId)) occs,
          s_fences := fs\<rparr>)"

lemma update_first_cong_found: "find p xs = Some r \<Longrightarrow> update_first p f xs = update_first p (\<lambda>_. f r) xs"
  by (induction xs) (auto split: if_splits)

lemma update_first_same: "find p xs = Some r \<Longrightarrow> update_first p (\<lambda>_. r) xs = xs"
  by (induction xs) (auto split: if_splits)

lemma applyTransition_Inr:
  "applyTransition t r = Inr r' \<longleftrightarrow> known_state (t_to t) \<and>
     (if o_state r = t_to t then r' = r
      else canTransition (o_state r) (t_to t) \<and> (o_state r = Outcome_Unknown \<longrightarrow> settlement_authorizes t) \<and> r' = move t r)"
  by (auto simp: applyTransition_def)

lemma findOccurrenceById_Some: "findOccurrenceById occs i = Some r \<Longrightarrow> r \<in> set occs \<and> o_occurrenceId r = i"
  unfolding findOccurrenceById_def by (rule find_Some_set)

lemma found_unique:
  assumes "ledger_ok occs" and "findOccurrenceById occs i = Some r" and "x \<in> set occs" and "o_occurrenceId x = i"
  shows "x = r"
proof -
  have "findOccurrenceById occs i = Some x"
    using assms unfolding findOccurrenceById_def ledger_ok_def
    using find_key_distinct[of o_occurrenceId occs x] by simp
  with assms(2) show ?thesis by simp
qed

lemma settled_valid:
  assumes "valid_doc d" and "findOccurrenceById (s_occurrences d) i = Some r" and "fit_settlement r s"
  shows "valid_doc (settleTermination i j s reason d)"
proof -
  have ok: "ledger_ok (s_occurrences d)" using assms(1) by (simp add: valid_doc_def)
  note unique = found_unique[OF ok assms(2)]
  let ?occs = "update_first (\<lambda>x. o_occurrenceId x = i) (annotate s reason) (s_occurrences d)"
  have r: "r \<in> set (s_occurrences d)" "valid_occ r" "o_state r = Outcome_Unknown"
    using findOccurrenceById_Some[OF assms(2)] assms(3) ok
    by (simp_all add: ledger_ok_def list_all_iff fit_settlement_def isUnresolvedUnknown_def)
  have ok1: "ledger_ok ?occs"
    using ok annotate_valid[OF r(2) assms(3)] r(3) unique by (intro annotated.ledger_ok_update) auto
  have ok2: "ledger_ok (update_first (\<lambda>x. o_occurrenceId x = i) (record_fence_after b) ?occs)" for b
    using ok1 by (intro fence_noted.ledger_ok_update) (auto simp: ledger_ok_def list_all_iff record_fence_after_valid)
  have same: "rebuild_from fs (update_first p (record_fence_after b) occs) = rebuild_from fs occs" for fs p b occs
    by (induction occs arbitrary: fs) (simp_all add: fence_of_def isUnresolvedUnknown_def split: option.split)
  show ?thesis
    using ok2 by (simp add: settleTermination_def valid_doc_def rebuildFences_def same Let_def)
qed

lemma late_transition_fit:
  assumes "o_state r = Outcome_Unknown" and "isTerminalState to" and "h_at (last (o_history r)) \<le> at'"
    and "basis \<in> set late_settlement_bases" and "ref \<noteq> []" and "kind \<in> set terminal_evidence_kinds" and "detail \<noteq> []"
  shows "fit_transition r (late_transition to at' reason basis ref kind detail)"
    and "settlement_authorizes (late_transition to at' reason basis ref kind detail)"
  using assms by (auto simp: fit_transition_def late_transition_def plain_transition_def settlement_authorizes_def isTerminalState_def)

lemma late_transition_fields [simp]:
  "t_to (late_transition to at' reason basis ref kind detail) = to"
  "t_at (late_transition to at' reason basis ref kind detail) = at'"
  "t_lateSettlement (late_transition to at' reason basis ref kind detail) =
     Some \<lparr>ls_resolvedTo = to, ls_resolvedAt = at', ls_basis = basis, ls_evidenceRef = ref\<rparr>"
  by (simp_all add: late_transition_def plain_transition_def)

text \<open>
  Replacing a record by a valid one of the same identity keeps the ledger valid. \<open>rebadge\<close> gives any
  record the identity of the one it replaces, which makes the replacement an update in the sense of
  \<open>ledger_update\<close>.
\<close>

definition rebadge :: "occurrence \<Rightarrow> occurrence \<Rightarrow> occurrence" where
  "rebadge r' r = r'\<lparr>o_occurrenceId := o_occurrenceId r, o_jobId := o_jobId r,
     o_scheduleRevision := o_scheduleRevision r, o_kind := o_kind r, o_nominal := o_nominal r,
     o_retryOf := o_retryOf r, o_catchUpOf := o_catchUpOf r\<rparr>"

interpretation rebadged: ledger_update "rebadge r'" for r'
  by unfold_locales (simp_all add: logicalCoordinates_def rebadge_def)

definition same_identity :: "occurrence \<Rightarrow> occurrence \<Rightarrow> bool" where
  "same_identity r r' \<longleftrightarrow> o_occurrenceId r' = o_occurrenceId r \<and> o_jobId r' = o_jobId r
     \<and> o_scheduleRevision r' = o_scheduleRevision r \<and> o_kind r' = o_kind r \<and> o_nominal r' = o_nominal r
     \<and> o_retryOf r' = o_retryOf r \<and> o_catchUpOf r' = o_catchUpOf r"

lemma same_identity_refl [simp]: "same_identity r r"
  by (simp add: same_identity_def)

lemma same_identity_move [simp]: "same_identity r (move t r') = same_identity r r'"
  by (simp add: same_identity_def)

lemma rebadge_same: "same_identity r r' \<Longrightarrow> rebadge r' r = r'"
  by (cases r') (simp add: same_identity_def rebadge_def)

lemma put_as_update:
  assumes "findOccurrenceById occs i = Some r" and "same_identity r r'"
  shows "putOccurrence i r' occs = update_first (\<lambda>x. o_occurrenceId x = i) (rebadge r') occs"
  using assms update_first_cong_found[of _ occs r "rebadge r'"]
  by (simp add: putOccurrence_def findOccurrenceById_def rebadge_same)

lemma put_ok:
  assumes ok: "ledger_ok occs" and found: "findOccurrenceById occs i = Some r" and same: "same_identity r r'"
    and "valid_occ r'" and "o_state r = Failed \<Longrightarrow> o_state r' = Failed"
  shows "ledger_ok (putOccurrence i r' occs)"
proof -
  have eq: "x = r" if "x \<in> set occs" "o_occurrenceId x = i" for x
    using found_unique[OF ok found that] .
  have "rebadge r' r = r'"
    by (rule rebadge_same[OF same])
  then show ?thesis
    unfolding put_as_update[OF found same] using assms(4,5) eq
    by (intro rebadged.ledger_ok_update[OF ok]) auto
qed

lemma put_ordered:
  assumes "ledger_ok occs" and "findOccurrenceById occs i = Some r" and "same_identity r r'" and "retry_ordered occs"
  shows "retry_ordered (putOccurrence i r' occs)"
  unfolding put_as_update[OF assms(2,3)] using assms(1,4) by (simp add: rebadged.retry_ordered_update)

lemma find_put:
  assumes "findOccurrenceById occs i = Some r" and "same_identity r r'"
  shows "findOccurrenceById (putOccurrence i r' occs) k = (if k = i then Some r' else findOccurrenceById occs k)"
  unfolding put_as_update[OF assms] using assms
  by (simp add: findOccurrenceById_def rebadged.find_update_first rebadge_same)

lemma applyTransition_fit:
  assumes "valid_occ r" and fit: "fit_transition r t" and "o_state r = Outcome_Unknown \<longrightarrow> settlement_authorizes t"
  shows "applyTransition t r = Inr (move t r)" and "valid_occ (move t r)" and "o_state r \<noteq> Failed"
proof -
  have can: "canTransition (o_state r) (t_to t)" using fit by (simp add: fit_transition_def)
  show "applyTransition t r = Inr (move t r)"
    using canTransition_known[OF can] can assms(3) by (simp add: applyTransition_def)
  show "valid_occ (move t r)" by (rule move_valid[OF assms(1) fit])
  show "o_state r \<noteq> Failed" using can by auto
qed

end
