(* ===== verification/Engine.thy ===== *)
theory Engine
  imports Outcome
begin

section \<open>The engine: running and settling occurrences\<close>

text \<open>
  \<^verbatim>\<open>packages/scheduler/src/occurrence.js\<close> and the recovery of \<^verbatim>\<open>scheduler.js\<close>. Each operation is the
  function it passes to \<^verbatim>\<open>mutateDoc\<close>: from the latest document to the next one, or to an exception
  that leaves the document as it was. The instants an operation reads are arguments. The evidence log
  and the run history are append-only outputs that no decision reads, and have no counterpart here.
\<close>

subsection \<open>A run in progress\<close>

text \<open>
  The working copy of the record \<^verbatim>\<open>runOccurrence\<close> keeps, with its start mark; its native session is
  derived from the occurrence.
\<close>

record run =
  w_record :: occurrence
  w_started :: bool

definition w_nativeSessionId :: "run \<Rightarrow> string" where
  "w_nativeSessionId w = deriveNativeSessionId (o_occurrenceId (w_record w))"

definition replaceFirst :: "string \<Rightarrow> (job \<Rightarrow> job) \<Rightarrow> job list \<Rightarrow> job list" where
  "replaceFirst i f jobs = update_first (\<lambda>j. j_id j = i) f jobs"

definition removeJob :: "string \<Rightarrow> job list \<Rightarrow> job list" where
  "removeJob i jobs = remove_first (\<lambda>j. j_id j = i) jobs"

definition disableJob :: "job \<Rightarrow> job" where
  "disableJob j = j\<lparr>j_enabled := False\<rparr>"

definition running_transition :: "int \<Rightarrow> run \<Rightarrow> transition" where
  "running_transition at' w = (plain_transition Running at' ''turn start evidence from invoker seam'')\<lparr>
     t_startedAt := Some at', t_nativeSessionId := Some (w_nativeSessionId w)\<rparr>"

text \<open>\<^verbatim>\<open>markOccurrenceRunning\<close>: start evidence of the exact run; anything else is ignored.\<close>

definition markRunning :: "int \<Rightarrow> run \<Rightarrow> sdoc \<Rightarrow> (sdoc \<times> unit) res" where
  "markRunning at' w latest =
    (case findOccurrenceById (s_occurrences latest) (o_occurrenceId (w_record w)) of
       None \<Rightarrow> Inr (latest, ())
     | Some current \<Rightarrow>
         if o_runId current \<noteq> o_runId (w_record w) \<or> o_state current \<noteq> Admitted then Inr (latest, ())
         else rbind (applyTransition (running_transition at' w) current) (\<lambda>started.
              Inr (latest\<lparr>s_occurrences := putOccurrence (o_occurrenceId (w_record w)) started (s_occurrences latest)\<rparr>, ())))"

text \<open>\<^verbatim>\<open>deliverOccurrence\<close>: \<open>deliverOk\<close> tells whether the delivery seam returned or threw.\<close>

definition deliverOccurrence :: "bool \<Rightarrow> delivery_mode \<Rightarrow> occ_state \<Rightarrow> string" where
  "deliverOccurrence deliverOk mode state =
    (if mode = No_Delivery then ''not-requested''
     else if state \<noteq> Succeeded then (if state = Outcome_Unknown then ''unknown'' else ''not-delivered'')
     else if deliverOk then ''delivered'' else ''not-delivered'')"

subsection \<open>Completion of a job\<close>

definition one_shot_completion :: "occurrence list \<Rightarrow> occurrence \<Rightarrow> job \<Rightarrow> bool option" where
  "one_shot_completion occs r job =
    (if o_state r = Succeeded then Some True
     else do {
       chain \<leftarrow> retryChainLength occs r;
       Some (\<not> (j_retry job = Some True \<and> chain < length ONE_SHOT_RETRY_BACKOFF_MS))
     })"

text \<open>The value is the \<^verbatim>\<open>deleted\<close> flag of the receipt.\<close>

definition applyJobCompletion :: "ext \<Rightarrow> occurrence \<Rightarrow> int \<Rightarrow> sdoc \<Rightarrow> (sdoc \<times> bool) res" where
  "applyJobCompletion X r nowMs d =
    (let occs = s_occurrences d; refresh = (\<lambda>jobs. rbind (refreshStates X (\<lambda>_. True) occs nowMs jobs)
           (\<lambda>jobs'. Inr (d\<lparr>s_jobs := jobs', s_fences := rebuildFences occs\<rparr>, False)))
     in case findJob (s_jobs d) (o_jobId r) of
       None \<Rightarrow> refresh (s_jobs d)
     | Some job \<Rightarrow>
         if isTerminalState (o_state r) \<and> is_at (j_schedule job) then
           (if o_state r = Succeeded \<and> j_deleteAfterRun job
            then Inr (d\<lparr>s_jobs := removeJob (j_id job) (s_jobs d), s_fences := rebuildFences occs\<rparr>, True)
            else rbind (returns (one_shot_completion occs r job)) (\<lambda>stop.
                 refresh (if stop then replaceFirst (j_id job) disableJob (s_jobs d) else s_jobs d)))
         else refresh (s_jobs d))"

definition applyLateCompletion :: "ext \<Rightarrow> occurrence \<Rightarrow> int \<Rightarrow> sdoc \<Rightarrow> sdoc res" where
  "applyLateCompletion X r nowMs d =
    (let jobs = (case findJob (s_jobs d) (o_jobId r) of
         None \<Rightarrow> s_jobs d
       | Some job \<Rightarrow>
           if is_at (j_schedule job) \<and> o_state r = Succeeded then
             (if j_deleteAfterRun job then removeJob (j_id job) (s_jobs d)
              else replaceFirst (j_id job) disableJob (s_jobs d))
           else s_jobs d)
     in rbind (refreshStates X (\<lambda>_. True) (s_occurrences d) nowMs jobs) (\<lambda>jobs'. Inr (d\<lparr>s_jobs := jobs'\<rparr>)))"

subsection \<open>The outcome of a run\<close>

definition needs_start :: "run \<Rightarrow> occurrence \<Rightarrow> occ_state \<Rightarrow> bool" where
  "needs_start w current to \<longleftrightarrow> o_state current = Admitted
     \<and> (to = Succeeded \<or> (to = Failed \<and> (w_started w \<or> o_state current = Running)))"

definition start_transition :: "occurrence \<Rightarrow> occ_state \<Rightarrow> int \<Rightarrow> transition" where
  "start_transition current to endedAt =
     (plain_transition Running endedAt (''terminal '' @ state_str to @ '' of a started run''))\<lparr>
       t_startedAt := Some (case o_startedAt current of Some t \<Rightarrow> t | None \<Rightarrow> endedAt)\<rparr>"

definition outcome_transition :: "run \<Rightarrow> occurrence \<Rightarrow> classification \<Rightarrow> string \<Rightarrow> int \<Rightarrow> transition" where
  "outcome_transition w current cl deliveryStatus endedAt =
     (plain_transition (cl_state cl) endedAt (cl_reason cl))\<lparr>
       t_endedAt := Some endedAt, t_executionOutcome := cl_executionOutcome cl,
       t_deliveryStatus := Some deliveryStatus, t_nativeSessionId := Some (w_nativeSessionId w),
       t_terminalEvidence := override (cl_terminalEvidence cl) (o_terminalEvidence current)\<rparr>"

definition writeOccurrenceOutcome ::
    "ext \<Rightarrow> int \<Rightarrow> run \<Rightarrow> classification \<Rightarrow> string \<Rightarrow> sdoc \<Rightarrow> (sdoc \<times> bool) res" where
  "writeOccurrenceOutcome X endedAt w cl deliveryStatus latest =
    (let i = o_occurrenceId (w_record w) in
     case findOccurrenceById (s_occurrences latest) i of
       None \<Rightarrow> Inl (Coded_Error ''OCCURRENCE_WRITEBACK_MISSING'' (''occurrence '' @ i @ '' missing at writeback''))
     | Some current \<Rightarrow>
         if o_runId current \<noteq> o_runId (w_record w)
         then Inl (Coded_Error ''OCCURRENCE_WRITEBACK_MISSING'' (''occurrence '' @ i @ '' missing at writeback''))
         else if o_payloadHash current \<noteq> o_payloadHash (w_record w)
              \<or> o_scheduleRevision current \<noteq> o_scheduleRevision (w_record w)
         then Inl (Coded_Error ''OCCURRENCE_PAYLOAD_CONFLICT''
                (''occurrence '' @ i @ '' identity mismatch at writeback (payloadHash/scheduleRevision)''))
         else
           rbind (if needs_start w current (cl_state cl)
                  then applyTransition (start_transition current (cl_state cl) endedAt) current
                  else Inr current) (\<lambda>begun.
           rbind (applyTransition (outcome_transition w begun cl deliveryStatus endedAt) begun) (\<lambda>settled.
           applyJobCompletion X settled endedAt
             (latest\<lparr>s_occurrences := putOccurrence i settled (s_occurrences latest)\<rparr>))))"

subsection \<open>Late settlements\<close>

text \<open>
  \<^verbatim>\<open>JSON.stringify\<close> of an object of strings whose absent fields are left out, in the order of writing.
\<close>

definition json_fields :: "(string \<times> string option) list \<Rightarrow> string" where
  "json_fields kvs = ''{'' @ join_with '','' (concat (map (\<lambda>(k, v). case v of
       None \<Rightarrow> [] | Some s \<Rightarrow> [json_string k @ '':'' @ json_string s]) kvs)) @ ''}''"

definition late_evidence_ref :: "run \<Rightarrow> outcome \<Rightarrow> string" where
  "late_evidence_ref w oc = ''invoker late settlement '' @ json_fields
     [(''requestId'', Some (o_idempotencyKey (w_record w))), (''reconciliationHandle'', oc_handle oc),
      (''externalEffectReceipt'', oc_evidenceReceipt oc), (''terminationEvidence'', oc_evidenceTermination oc),
      (''source'', oc_evidenceSource oc)]"

definition disposition_of :: "job option \<Rightarrow> string" where
  "disposition_of job = (case job of
     Some j \<Rightarrow> (if is_at (j_schedule j) then ''one_shot_disabled'' else ''recurring_future_natural_only'')
   | None \<Rightarrow> ''recurring_future_natural_only'')"

definition applyLateSettlement ::
    "ext \<Rightarrow> int \<Rightarrow> run \<Rightarrow> occ_state \<Rightarrow> string \<Rightarrow> outcome \<Rightarrow> string \<Rightarrow> sdoc \<Rightarrow> (sdoc \<times> string option) res" where
  "applyLateSettlement X resolvedAt w resolvedTo note' oc kind latest =
    (let i = o_occurrenceId (w_record w) in
     case findOccurrenceById (s_occurrences latest) i of
       None \<Rightarrow> Inr (latest, None)
     | Some current \<Rightarrow>
         if o_runId current \<noteq> o_runId (w_record w) \<or> o_state current \<noteq> Outcome_Unknown
            \<or> o_lateSettlement current \<noteq> None
         then Inr (latest, None)
         else
           rbind (applyTransition (late_transition resolvedTo resolvedAt note' ''trusted-late-evidence''
                    (late_evidence_ref w oc) kind note') current) (\<lambda>settled.
           let occs = putOccurrence i settled (s_occurrences latest) in
           rbind (applyLateCompletion X settled resolvedAt
                    (latest\<lparr>s_occurrences := occs, s_fences := rebuildFences occs\<rparr>)) (\<lambda>d.
           Inr (d, Some (disposition_of (findJob (s_jobs latest) (o_jobId current)))))))"

text \<open>\<^verbatim>\<open>applyTerminationSettlement\<close>: the proof of termination releases the fence and never decides the business outcome.\<close>

definition termination_settlement_of ::
    "int \<Rightarrow> occurrence \<Rightarrow> job \<Rightarrow> termination_proof \<Rightarrow> termination_settlement" where
  "termination_settlement_of nowMs current job proof' =
    (let owner = text_or (o_ownerAgentId current) [] in
     \<lparr>ts_kind = ''terminated_without_outcome'', ts_businessStateAtCommit = Outcome_Unknown,
      ts_requestId = requestIdFor current, ts_evidenceKind = tp_evidenceKind proof',
      ts_evidenceId = evidenceIdFor (text_or (tp_handle proof') (o_occurrenceId current)) (tp_evidenceKind proof'),
      ts_actorKind = ''self-agent'', ts_actorId = owner, ts_actorProvenance = ''engine-trusted-readback'',
      ts_operationId = deriveSelfReconcileOperationId owner (o_occurrenceId current) (o_runId current),
      ts_fenceBefore = True, ts_fenceAfter = False, ts_scheduleDisposition = disposition_of (Some job),
      ts_settledAt = nowMs, ts_committedAt = nowMs\<rparr>)"

definition applyTerminationSettlement ::
    "ext \<Rightarrow> int \<Rightarrow> occurrence \<Rightarrow> termination_proof \<Rightarrow> sdoc \<Rightarrow> (sdoc \<times> bool) res" where
  "applyTerminationSettlement X nowMs r proof' latest =
    (let i = o_occurrenceId r in
     case findOccurrenceById (s_occurrences latest) i of
       None \<Rightarrow> Inr (latest, False)
     | Some current \<Rightarrow>
         if o_runId current \<noteq> o_runId r \<or> o_state current \<noteq> Outcome_Unknown
            \<or> o_terminationSettlement current \<noteq> None \<or> o_lateSettlement current \<noteq> None
         then Inr (latest, False)
         else (case findJob (s_jobs latest) (o_jobId current) of
           None \<Rightarrow> Inr (latest, False)
         | Some job \<Rightarrow>
             if Some (j_agentId job) \<noteq> o_ownerAgentId current then Inr (latest, False)
             else if \<not> fenced (s_fences latest) (o_jobId current) then Inr (latest, False)
             else
               let d = settleTermination i (o_jobId current) (termination_settlement_of nowMs current job proof')
                     ''trusted exact termination without business outcome'' latest;
                   jobs = (if is_at (j_schedule job)
                     then replaceFirst (j_id job) (\<lambda>j. j\<lparr>j_enabled := False, j_updatedAtMs := nowMs\<rparr>) (s_jobs d)
                     else s_jobs d)
               in rbind (refreshStates X (\<lambda>j. j_id j = j_id job)
                          (jobOccurrences (s_occurrences d) (j_id job)) nowMs jobs) (\<lambda>jobs'.
                  Inr (d\<lparr>s_jobs := jobs'\<rparr>, True))))"

text \<open>\<^verbatim>\<open>watchLateSettlement\<close>: what a result that arrives after the deadline may still do.\<close>

datatype late_action = Late_Nothing | Late_Termination termination_proof | Late_Success | Late_Failure string

definition watchLateSettlement :: "outcome \<Rightarrow> late_action" where
  "watchLateSettlement oc =
    (if oc_status oc = ''outcome_unknown'' then
       (case trustedTerminationProof oc of Some p \<Rightarrow> Late_Termination p | None \<Rightarrow> Late_Nothing)
     else if oc_status oc = ''ok'' \<and> (oc_error oc = None \<or> oc_error oc = Some []) then Late_Success
     else if oc_status oc = ''error'' \<and> (oc_started oc = Some False \<or> oc_routerEnvelope oc = Some ''failed''
            \<or> oc_routerEnvelope oc = Some ''not_admitted'' \<or> hasTerminationProof oc)
     then Late_Failure (if oc_routerEnvelope oc = Some ''not_admitted'' \<or> oc_started oc = Some False
                        then ''pre-start-rejection'' else ''late-settlement'')
     else Late_Nothing)"

definition settleLate :: "ext \<Rightarrow> int \<Rightarrow> run \<Rightarrow> outcome \<Rightarrow> sdoc \<Rightarrow> (sdoc \<times> bool) res" where
  "settleLate X nowMs w oc latest = (case watchLateSettlement oc of
     Late_Nothing \<Rightarrow> Inr (latest, False)
   | Late_Termination p \<Rightarrow> applyTerminationSettlement X nowMs (w_record w) p latest
   | Late_Success \<Rightarrow> rbind (applyLateSettlement X nowMs w Succeeded ''invoker late terminal success after timeout''
        oc ''late-settlement'' latest) (\<lambda>(d, v). Inr (d, v \<noteq> None))
   | Late_Failure kind \<Rightarrow> rbind (applyLateSettlement X nowMs w Failed
        (''invoker late proven terminal failure after timeout: '' @ text_or (oc_error oc) []) oc kind latest)
        (\<lambda>(d, v). Inr (d, v \<noteq> None)))"

subsection \<open>Recovery after a restart\<close>

text \<open>\<^verbatim>\<open>_sweepUnresolved\<close>: no admitted or running record is admitted again; its outcome becomes unknown.\<close>

definition sweep_transition :: "int \<Rightarrow> occurrence \<Rightarrow> transition" where
  "sweep_transition nowMs r =
     (plain_transition Outcome_Unknown nowMs ''restart_unresolved: no termination proof at recovery'')\<lparr>
       t_deliveryStatus := Some (text_or (o_deliveryStatus r) ''unknown'')\<rparr>"

definition sweep_record :: "int \<Rightarrow> occurrence \<Rightarrow> occurrence res" where
  "sweep_record nowMs r =
     (if o_state r \<noteq> Admitted \<and> o_state r \<noteq> Running then Inr r
      else applyTransition (sweep_transition nowMs r) r)"

definition sweepUnresolved :: "ext \<Rightarrow> int \<Rightarrow> sdoc \<Rightarrow> (sdoc \<times> string list) res" where
  "sweepUnresolved X nowMs d =
     rbind (rmap (sweep_record nowMs) (s_occurrences d)) (\<lambda>occs.
     rbind (refreshStates X (\<lambda>_. True) occs nowMs (s_jobs d)) (\<lambda>jobs.
     Inr (d\<lparr>s_jobs := jobs, s_occurrences := occs, s_fences := rebuildFences occs\<rparr>,
          map o_occurrenceId (filter (\<lambda>r. o_state r = Admitted \<or> o_state r = Running) (s_occurrences d)))))"

end
