(* ===== verification/EngineInvariant.thy ===== *)
theory EngineInvariant
  imports Engine
begin

section \<open>The invariant of the engine\<close>

text \<open>
  The invariant every operation of the engine keeps: the document validates, the retries of the ledger
  point backwards, every job has at most one occurrence in flight, and a record that is still in flight
  carries no terminal fact. The clock is the largest instant any record has seen. From it follows that
  each operation, applied at an instant not before the clock, really commits.
\<close>

definition in_flight :: "occurrence \<Rightarrow> bool" where
  "in_flight r \<longleftrightarrow> o_state r = Admitted \<or> o_state r = Running"

definition record_inv :: "int \<Rightarrow> occurrence \<Rightarrow> bool" where
  "record_inv clock r \<longleftrightarrow> h_at (last (o_history r)) \<le> clock
     \<and> (in_flight r \<longrightarrow> o_endedAt r = None \<and> o_executionOutcome r = None)
     \<and> (o_state r = Admitted \<longrightarrow> o_startedAt r = None)
     \<and> (o_kind r \<noteq> Retry \<longrightarrow> o_retryOf r = None)"

definition single_flight :: "occurrence list \<Rightarrow> bool" where
  "single_flight occs \<longleftrightarrow> distinct (map o_jobId (filter (\<lambda>r. \<not> isTerminalRecord r) occs))"

definition ledger_inv :: "int \<Rightarrow> occurrence list \<Rightarrow> bool" where
  "ledger_inv clock occs \<longleftrightarrow> ledger_ok occs \<and> retry_ordered occs \<and> single_flight occs \<and> list_all (record_inv clock) occs"

definition engine_inv :: "int \<Rightarrow> sdoc \<Rightarrow> bool" where
  "engine_inv clock d \<longleftrightarrow> valid_doc d \<and> ledger_inv clock (s_occurrences d)"

lemma engine_inv_rebuilt:
  "ledger_inv clock occs \<Longrightarrow> engine_inv clock (d\<lparr>s_jobs := js, s_occurrences := occs, s_fences := rebuildFences occs\<rparr>)"
  by (simp add: engine_inv_def ledger_inv_def valid_doc_def)

lemma ledger_inv_later: "ledger_inv clock occs \<Longrightarrow> clock \<le> clock' \<Longrightarrow> ledger_inv clock' occs"
  by (auto simp: ledger_inv_def list_all_iff record_inv_def)

lemma engine_inv_later: "engine_inv clock d \<Longrightarrow> clock \<le> clock' \<Longrightarrow> engine_inv clock' d"
  by (auto simp: engine_inv_def ledger_inv_later)

lemma engine_inv_empty: "engine_inv clock emptyDoc"
  by (simp add: engine_inv_def ledger_inv_def ledger_ok_def single_flight_def emptyDoc_def valid_doc_def rebuildFences_def)

lemma engine_inv_jobs: "engine_inv clock d \<Longrightarrow> engine_inv clock (d\<lparr>s_jobs := js\<rparr>)"
  by (simp add: engine_inv_def)

subsection \<open>Steps of the records\<close>

definition step_ok :: "int \<Rightarrow> occurrence \<Rightarrow> occurrence \<Rightarrow> bool" where
  "step_ok clock r r' \<longleftrightarrow> same_identity r r' \<and> valid_occ r' \<and> record_inv clock r'
     \<and> (o_state r = Failed \<longrightarrow> o_state r' = Failed) \<and> (isTerminalRecord r \<longrightarrow> isTerminalRecord r')"

lemma step_ok_refl: "valid_occ r \<Longrightarrow> record_inv clock r \<Longrightarrow> step_ok clock r r"
  by (simp add: step_ok_def)

lemma single_flight_map:
  assumes "single_flight occs"
    and "\<And>r. r \<in> set occs \<Longrightarrow> o_jobId (f r) = o_jobId r \<and> (isTerminalRecord r \<longrightarrow> isTerminalRecord (f r))"
  shows "single_flight (map f occs)"
  using assms unfolding single_flight_def
proof (induction occs)
  case (Cons r rs)
  have sub: "o_jobId ` {x \<in> f ` set rs. \<not> isTerminalRecord x} \<subseteq> o_jobId ` {x \<in> set rs. \<not> isTerminalRecord x}"
    using Cons.prems(2) by auto
  show ?case
    using Cons sub by (auto split: if_splits)
qed simp

lemma ledger_inv_map:
  assumes inv: "ledger_inv clock occs" and step: "\<And>r. r \<in> set occs \<Longrightarrow> step_ok clock' r (f r)"
  shows "ledger_inv clock' (map f occs)"
proof -
  have ok: "ledger_ok occs" using inv by (simp add: ledger_inv_def)
  have same: "o_occurrenceId (f r) = o_occurrenceId r" "logicalCoordinates (f r) = logicalCoordinates r"
      "o_kind (f r) = o_kind r" "o_retryOf (f r) = o_retryOf r" "o_jobId (f r) = o_jobId r"
      "o_scheduleRevision (f r) = o_scheduleRevision r" if "r \<in> set occs" for r
    using step[OF that] by (simp_all add: step_ok_def same_identity_def logicalCoordinates_def)
  have ids: "map (g \<circ> f) occs = map g occs" if "\<And>r. r \<in> set occs \<Longrightarrow> g (f r) = g r" for g :: "occurrence \<Rightarrow> 'k"
    using that by simp
  have preds: "retry_predecessor_ok (map f occs) (f q)" if q: "q \<in> set occs" "o_kind q = Retry" for q
  proof -
    have "retry_predecessor_ok occs q"
      using ok q by (auto simp: ledger_ok_def list_all_iff)
    then obtain k p where p: "o_retryOf q = Some k" "findOccurrenceById occs k = Some p"
        "o_state p = Failed" "o_jobId p = o_jobId q" "o_scheduleRevision p = o_scheduleRevision q"
      by (auto simp: retry_predecessor_ok_def split: option.splits)
    have mem: "p \<in> set occs" "o_occurrenceId p = k"
      using findOccurrenceById_Some[OF p(2)] by simp_all
    have "findOccurrenceById (map f occs) k = Some (f p)"
    proof -
      have "distinct (map o_occurrenceId (map f occs))"
        using ok same(1) by (simp add: ledger_ok_def comp_def cong: map_cong)
      then have "findOccurrenceById (map f occs) (o_occurrenceId (f p)) = Some (f p)"
        unfolding findOccurrenceById_def using mem(1) by (intro find_key_distinct) auto
      then show ?thesis using same(1)[OF mem(1)] mem(2) by simp
    qed
    moreover have "o_state (f p) = Failed"
      using step[OF mem(1)] p(3) by (simp add: step_ok_def)
    ultimately show ?thesis
      using p same[OF mem(1)] same[OF q(1)] by (simp add: retry_predecessor_ok_def)
  qed
  have "ledger_ok (map f occs)"
    using ok step same preds by (auto simp: ledger_ok_def list_all_iff step_ok_def comp_def cong: map_cong)
  moreover have "single_flight (map f occs)"
    using inv step same by (intro single_flight_map) (auto simp: ledger_inv_def step_ok_def)
  moreover have "retry_ordered (map f occs)"
  proof -
    have "retry_ordered occs \<Longrightarrow> (\<And>r. r \<in> set occs \<Longrightarrow> o_occurrenceId (f r) = o_occurrenceId r \<and> o_retryOf (f r) = o_retryOf r)
        \<Longrightarrow> retry_ordered (map f occs)"
      by (induction occs) (auto simp: list_all_iff)
    with inv same show ?thesis by (simp add: ledger_inv_def)
  qed
  moreover have "list_all (record_inv clock') (map f occs)"
    using step by (auto simp: list_all_iff step_ok_def)
  ultimately show ?thesis by (simp add: ledger_inv_def)
qed

lemma ledger_inv_mem:
  assumes "ledger_inv clock occs" and "r \<in> set occs"
  shows "valid_occ r" "record_inv clock r"
  using assms by (simp_all add: ledger_inv_def ledger_ok_def list_all_iff)

lemma step_ok_idle:
  assumes "ledger_inv clock occs" and "r \<in> set occs" and "clock \<le> clock'"
  shows "step_ok clock' r r"
  using ledger_inv_mem[OF assms(1,2)] assms(3) by (auto simp: step_ok_def record_inv_def)

lemma put_as_map:
  assumes "ledger_ok occs" and "findOccurrenceById occs i = Some r" and "same_identity r r'"
  shows "putOccurrence i r' occs = map (\<lambda>x. if o_occurrenceId x = i then r' else x) occs"
proof -
  have "putOccurrence i r' occs = map (\<lambda>x. if o_occurrenceId x = i then rebadge r' x else x) occs"
    unfolding put_as_update[OF assms(2,3)] by (rule rebadged.update_as_map[OF assms(1)])
  also have "\<dots> = map (\<lambda>x. if o_occurrenceId x = i then r' else x) occs"
    using found_unique[OF assms(1,2)] rebadge_same[OF assms(3)] by auto
  finally show ?thesis .
qed

lemma ledger_inv_put:
  assumes inv: "ledger_inv clock occs" and found: "findOccurrenceById occs i = Some r"
    and step: "step_ok clock' r r'" and "clock \<le> clock'"
  shows "ledger_inv clock' (putOccurrence i r' occs)"
proof -
  have ok: "ledger_ok occs" using inv by (simp add: ledger_inv_def)
  have "same_identity r r'" using step by (simp add: step_ok_def)
  note eq = put_as_map[OF ok found this]
  have "step_ok clock' x (if o_occurrenceId x = i then r' else x)" if "x \<in> set occs" for x
    using step found_unique[OF ok found that] step_ok_idle[OF inv that assms(4)] by auto
  then show ?thesis
    unfolding eq by (rule ledger_inv_map[OF inv])
qed

text \<open>A transition that fits is a step.\<close>

lemma move_step:
  assumes "valid_occ r" and inv: "record_inv past r" and fit: "fit_transition r t" and "t_at t \<le> clock"
    and "t_to t = Running \<longrightarrow> t_endedAt t = None \<and> t_executionOutcome t = None"
  shows "step_ok clock r (move t r)"
proof -
  have can: "canTransition (o_state r) (t_to t)" using fit by (simp add: fit_transition_def)
  have "\<not> in_flight (move t r) \<or> t_to t = Running \<and> o_state r = Admitted"
    using can by (cases "o_state r") (auto simp: in_flight_def)
  moreover have "o_state (move t r) \<noteq> Admitted"
    using can by (cases "o_state r") auto
  ultimately have "record_inv clock (move t r)"
    using assms(4,5) inv by (auto simp: record_inv_def in_flight_def)
  moreover have "isTerminalRecord r \<longrightarrow> isTerminalRecord (move t r)"
    using can by (cases "o_state r") (auto simp: isTerminalRecord_def)
  moreover have "o_state r \<noteq> Failed" using can by auto
  ultimately show ?thesis
    using move_valid[OF assms(1) fit] by (simp add: step_ok_def)
qed

lemma step_ok_trans: "step_ok clock r r1 \<Longrightarrow> step_ok clock r1 r2 \<Longrightarrow> step_ok clock r r2"
  by (auto simp: step_ok_def same_identity_def)

subsection \<open>Recovery\<close>

lemma sweep_fit:
  assumes v: "valid_occ r" and inv: "record_inv now r" and "in_flight r"
  shows "fit_transition r (sweep_transition now r)"
proof -
  have "pred_option (\<lambda>d. d \<in> set delivery_statuses) (o_deliveryStatus r)"
    using v by (cases "o_deliveryStatus r") (auto simp: valid_occ_iff head_ok_def outcome_faults_def)
  then have "text_or (o_deliveryStatus r) ''unknown'' \<in> set delivery_statuses"
    by (cases "o_deliveryStatus r") (simp_all add: text_or_def delivery_statuses_def)
  with assms show ?thesis
    by (auto simp: fit_transition_def sweep_transition_def plain_transition_def record_inv_def in_flight_def isTerminalState_def)
qed

lemma sweep_record_step:
  assumes "valid_occ r" and "record_inv now r"
  shows "\<exists>r'. sweep_record now r = Inr r' \<and> step_ok now r r' \<and> \<not> in_flight r'
    \<and> (in_flight r \<longrightarrow> o_state r' = Outcome_Unknown) \<and> (\<not> in_flight r \<longrightarrow> r' = r)"
proof (cases "in_flight r")
  case False
  then show ?thesis
    using assms by (auto simp: sweep_record_def in_flight_def step_ok_refl)
next
  case True
  note fit = sweep_fit[OF assms True]
  have to: "t_to (sweep_transition now r) = Outcome_Unknown" "t_at (sweep_transition now r) = now"
    by (simp_all add: sweep_transition_def plain_transition_def)
  have "applyTransition (sweep_transition now r) r = Inr (move (sweep_transition now r) r)"
    using applyTransition_fit[OF assms(1) fit] True by (auto simp: in_flight_def)
  moreover have "step_ok now r (move (sweep_transition now r) r)"
    using to by (intro move_step[OF assms fit]) simp_all
  ultimately show ?thesis
    using True to by (auto simp: sweep_record_def in_flight_def)
qed

lemma sweep_ledger:
  assumes inv: "ledger_inv clock occs" and "clock \<le> now"
  shows "\<exists>occs'. rmap (sweep_record now) occs = Inr occs' \<and> ledger_inv now occs' \<and> list_all (\<lambda>r. \<not> in_flight r) occs'
    \<and> list_all2 (\<lambda>r r'. sweep_record now r = Inr r') occs occs'"
proof -
  have step: "\<exists>r'. sweep_record now r = Inr r' \<and> step_ok now r r' \<and> \<not> in_flight r'" if "r \<in> set occs" for r
    using sweep_record_step[of r now] ledger_inv_mem[OF ledger_inv_later[OF inv assms(2)] that] by blast
  then have "\<exists>occs'. rmap (sweep_record now) occs = Inr occs'"
    by (intro rmap_total) blast
  then obtain occs' where occs': "rmap (sweep_record now) occs = Inr occs'" by blast
  then have all2: "list_all2 (\<lambda>r r'. sweep_record now r = Inr r') occs occs'"
    by (simp add: rmap_Inr)
  define f where "f r = (case sweep_record now r of Inr r' \<Rightarrow> r' | Inl _ \<Rightarrow> r)" for r
  have "occs' = map f occs"
    using all2 by (induction rule: list_all2_induct) (simp_all add: f_def)
  moreover have "step_ok now r (f r)" "\<not> in_flight (f r)" if "r \<in> set occs" for r
    using step[OF that] by (auto simp: f_def)
  ultimately show ?thesis
    using occs' all2 ledger_inv_map[OF inv, of now f] by (auto simp: list_all_iff)
qed

lemma sweep_commits:
  assumes "engine_inv clock d" and "clock \<le> now"
  obtains d' swept where "sweepUnresolved X now d = Inr (d', swept)" "engine_inv now d'"
    "list_all (\<lambda>r. \<not> in_flight r) (s_occurrences d')"
    "map o_occurrenceId (s_occurrences d') = map o_occurrenceId (s_occurrences d)"
proof -
  have inv: "ledger_inv clock (s_occurrences d)" using assms(1) by (simp add: engine_inv_def)
  obtain occs where occs: "rmap (sweep_record now) (s_occurrences d) = Inr occs" "ledger_inv now occs"
      "list_all (\<lambda>r. \<not> in_flight r) occs" "list_all2 (\<lambda>r r'. sweep_record now r = Inr r') (s_occurrences d) occs"
    using sweep_ledger[OF inv assms(2)] by blast
  obtain js where js: "refreshStates X (\<lambda>_. True) occs now (s_jobs d) = Inr js"
    using refreshStates_returns occs(2) by (force simp: ledger_inv_def)
  have ids: "map o_occurrenceId occs = map o_occurrenceId (s_occurrences d)"
    using occs(4) by (induction rule: list_all2_induct)
      (auto simp: sweep_record_def applyTransition_Inr split: if_splits)
  let ?d = "d\<lparr>s_jobs := js, s_occurrences := occs, s_fences := rebuildFences occs\<rparr>"
  have "sweepUnresolved X now d
      = Inr (?d, map o_occurrenceId (filter (\<lambda>r. o_state r = Admitted \<or> o_state r = Running) (s_occurrences d)))"
    using occs(1) js by (simp add: sweepUnresolved_def)
  then show thesis
    using that engine_inv_rebuilt[OF occs(2)] occs(3) ids by simp
qed

subsection \<open>Reservation\<close>

lemma reserve_keeps:
  assumes inv: "engine_inv clock d" and "clock \<le> now"
    and step: "reserveOccurrence X notRunnable grace now c d = Inr (d', v)"
    and wf: "list_all wf_ids (s_jobs d)"
  shows "engine_inv now d'"
proof (cases v)
  case (Reserved r)
  have old: "ledger_inv now (s_occurrences d)" "valid_doc d"
    using inv ledger_inv_later[OF _ assms(2)] by (simp_all add: engine_inv_def)
  have valid: "valid_doc d'" "valid_occ r"
    using reserve_valid[OF old(2), of X notRunnable grace now c d' r] step Reserved wf by (simp_all add: list_all_iff)
  from step[unfolded Reserved] obtain job where job: "findJob (s_jobs d) (j_id (cd_job c)) = Some job"
    "reserve_refusal X grace now c d job = Inr None" "buildFor X job c now = Inr r"
    "d' = d\<lparr>s_occurrences := s_occurrences d @ [r]\<rparr>"
    "findOccurrenceById (s_occurrences d) (o_occurrenceId r) = None"
    by (rule reserve_Reserved) blast
  note built = build_fields[OF job(3)[unfolded buildFor_def]]
  have fresh: "o_occurrenceId r \<notin> o_occurrenceId ` set (s_occurrences d)"
    using job(5) by (auto simp: findOccurrenceById_def find_None_set)
  have prior: "\<exists>p \<in> set (s_occurrences d). o_retryOf q = Some (o_occurrenceId p)"
    if "o_kind q = Retry" "q \<in> set (s_occurrences d @ [r])" for q
  proof -
    have "retry_predecessor_ok (s_occurrences d) q"
      using that old(1) reserved_predecessor(2)[OF _ job(2,3)] built(3)
      by (auto simp: ledger_inv_def ledger_ok_def list_all_iff)
    then show ?thesis
      by (auto simp: retry_predecessor_ok_def dest: findOccurrenceById_Some split: option.splits)
  qed
  have rec: "record_inv now r"
    using built by (simp add: record_inv_def in_flight_def)
  have "o_retryOf q \<noteq> Some (o_occurrenceId r)" if q: "q \<in> set (s_occurrences d @ [r])" for q
  proof (cases "o_kind q = Retry")
    case True
    then show ?thesis using prior[OF True q] fresh by auto
  next
    case False
    then show ?thesis using q rec old(1) by (auto simp: ledger_inv_def list_all_iff record_inv_def)
  qed
  then have "retry_ordered (s_occurrences d @ [r])"
    using old(1) by (simp add: ledger_inv_def retry_ordered_append list_all_iff)
  moreover have "single_flight (s_occurrences d @ [r])"
    using old(1) reserve_refusal_None(4)[OF job(2)] built(1)
    by (auto simp: ledger_inv_def single_flight_def hasNonTerminal_iff)
  ultimately show ?thesis
    using valid old(1) rec by (auto simp: engine_inv_def ledger_inv_def valid_doc_def job(4))
next
  case (Deduped r)
  then have "d' = d"
    using step by (auto simp: reserveOccurrence_def rbind_eq_Inr split: option.splits if_splits)
  then show ?thesis using engine_inv_later[OF inv assms(2)] by simp
next
  case (Refused s)
  then have "d' = d"
    using step by (auto simp: reserveOccurrence_def rbind_eq_Inr split: option.splits if_splits)
  then show ?thesis using engine_inv_later[OF inv assms(2)] by simp
qed

subsection \<open>Start evidence\<close>

lemma filter_put_other:
  assumes "find p occs = Some r" and "\<not> q r" and "\<not> q r'"
  shows "filter q (update_first p (\<lambda>_. r') occs) = filter q occs"
  using assms by (induction occs) (auto split: if_splits)

lemma engine_inv_put_settled:
  assumes inv: "engine_inv clock d" and found: "findOccurrenceById (s_occurrences d) i = Some r"
    and step: "step_ok now r r'" and "clock \<le> now" and "\<not> isUnresolvedUnknown r" and "\<not> isUnresolvedUnknown r'"
  shows "engine_inv now (d\<lparr>s_occurrences := putOccurrence i r' (s_occurrences d)\<rparr>)"
proof -
  have "filter isUnresolvedUnknown (putOccurrence i r' (s_occurrences d)) = filter isUnresolvedUnknown (s_occurrences d)"
    using filter_put_other[OF found[unfolded findOccurrenceById_def]] assms(5,6) by (simp add: putOccurrence_def)
  then have "rebuildFences (putOccurrence i r' (s_occurrences d)) = rebuildFences (s_occurrences d)"
    by (metis rebuildFences_filter)
  moreover have "ledger_inv now (putOccurrence i r' (s_occurrences d))"
    using inv by (intro ledger_inv_put[OF _ found step assms(4)]) (simp add: engine_inv_def)
  ultimately show ?thesis
    using inv by (simp add: engine_inv_def ledger_inv_def valid_doc_def)
qed

lemma found_valid:
  assumes "engine_inv clock d" and "findOccurrenceById (s_occurrences d) i = Some r" and "clock \<le> now"
  shows "valid_occ r" "record_inv now r" "r \<in> set (s_occurrences d)" "o_occurrenceId r = i"
proof -
  show mem: "r \<in> set (s_occurrences d)" "o_occurrenceId r = i"
    using findOccurrenceById_Some[OF assms(2)] by simp_all
  have "ledger_inv now (s_occurrences d)"
    using assms(1,3) by (auto simp: engine_inv_def intro: ledger_inv_later)
  then show "valid_occ r" "record_inv now r"
    using mem by (simp_all add: ledger_inv_mem)
qed

lemma native_session_ok [simp]: "w_nativeSessionId w \<noteq> []" "w_nativeSessionId w \<noteq> ''main''"
  by (simp_all add: w_nativeSessionId_def deriveNativeSessionId_def)

lemma markRunning_keeps:
  assumes inv: "engine_inv clock d" and "clock \<le> now"
  obtains d' where "markRunning now w d = Inr (d', ())" "engine_inv now d'" "s_jobs d' = s_jobs d" "s_fences d' = s_fences d"
proof (cases "\<exists>r. findOccurrenceById (s_occurrences d) (o_occurrenceId (w_record w)) = Some r
    \<and> o_runId r = o_runId (w_record w) \<and> o_state r = Admitted")
  case False
  then have "markRunning now w d = Inr (d, ())"
    by (auto simp: markRunning_def split: option.splits)
  then show thesis using that engine_inv_later[OF inv assms(2)] by simp
next
  case True
  then obtain r where r: "findOccurrenceById (s_occurrences d) (o_occurrenceId (w_record w)) = Some r"
      "o_runId r = o_runId (w_record w)" "o_state r = Admitted" by blast
  note v = found_valid[OF inv r(1) assms(2)]
  let ?t = "running_transition now w"
  have to: "t_to ?t = Running" "t_at ?t = now" "t_endedAt ?t = None" "t_executionOutcome ?t = None"
    by (simp_all add: running_transition_def plain_transition_def)
  have fit: "fit_transition r ?t"
    using v(2) r(3) by (simp add: fit_transition_def running_transition_def plain_transition_def record_inv_def
        in_flight_def isTerminalState_def)
  have applied: "applyTransition ?t r = Inr (move ?t r)"
    using applyTransition_fit[OF v(1) fit] r(3) by simp
  have step: "step_ok now r (move ?t r)"
    using to by (intro move_step[OF v(1,2) fit]) simp_all
  let ?d = "d\<lparr>s_occurrences := putOccurrence (o_occurrenceId (w_record w)) (move ?t r) (s_occurrences d)\<rparr>"
  have "markRunning now w d = Inr (?d, ())"
    using r applied by (simp add: markRunning_def)
  moreover have "engine_inv now ?d"
    using r(3) to by (intro engine_inv_put_settled[OF inv r(1) step assms(2)]) (simp_all add: isUnresolvedUnknown_def)
  ultimately show thesis using that by simp
qed

subsection \<open>The outcome of a run\<close>

definition proper :: "classification \<Rightarrow> bool" where
  "proper cl \<longleftrightarrow> (cl_state cl = Outcome_Unknown \<and> cl_executionOutcome cl = None \<and> cl_terminalEvidence cl = None)
     \<or> (isTerminalState (cl_state cl) \<and> cl_executionOutcome cl = Some (cl_state cl)
        \<and> pred_option (\<lambda>e. te_kind e \<in> set terminal_evidence_kinds \<and> te_detailRef e \<noteq> []) (cl_terminalEvidence cl)
        \<and> (cl_state cl = Failed \<longrightarrow> cl_terminalEvidence cl \<noteq> None))"

lemma text_or_nonempty: "t \<noteq> Some [] \<Longrightarrow> d \<noteq> [] \<Longrightarrow> text_or t d \<noteq> []"
  by (cases t) (auto simp: text_or_def)

lemma classify_proper:
  assumes "oc_error oc \<noteq> Some []"
  shows "proper (classifyOccurrenceOutcome st oc)"
proof -
  have u: "proper (unknown_class t)" for t
    by (simp add: proper_def unknown_class_def)
  have f: "proper (failed_class t k)" if "t \<noteq> []" "k = ''pre-start-rejection'' \<or> k = ''turn-terminal''" for t k
    using that by (auto simp: proper_def failed_class_def isTerminalState_def terminal_evidence_kinds_def)
  have t: "text_or (oc_error oc) (c # cs) \<noteq> []" for c cs
    by (rule text_or_nonempty[OF assms]) simp
  have kinds: "(if b then ''pre-start-rejection'' else ''turn-terminal'') = ''pre-start-rejection''
      \<or> (if b then ''pre-start-rejection'' else ''turn-terminal'') = ''turn-terminal''" for b
    by (cases b) simp_all
  have i: "proper (if b then x else y)" if "proper x" "proper y" for b x y
    using that by simp
  show ?thesis
  proof (cases "oc_status oc = ''ok''")
    case True
    then show ?thesis
      by (simp add: classifyOccurrenceOutcome_def proper_def isTerminalState_def)
  next
    case False
    show ?thesis
      unfolding classifyOccurrenceOutcome_def Let_def if_not_P[OF False]
      by (intro i u f t kinds) (simp_all add: t)
  qed
qed

lemma deliver_status: "deliverOccurrence ok m s \<in> set delivery_statuses"
  by (simp add: deliverOccurrence_def delivery_statuses_def)

lemma one_shot_returns:
  "retry_ordered occs \<Longrightarrow> r \<in> set occs \<Longrightarrow> \<exists>b. one_shot_completion occs r job = Some b"
  by (drule (1) retryChainLength_returns) (auto simp: one_shot_completion_def)

lemma applyJobCompletion_returns:
  assumes "retry_ordered (s_occurrences d)" and "r \<in> set (s_occurrences d)"
  shows "\<exists>js deleted. applyJobCompletion X r now d
    = Inr (d\<lparr>s_jobs := js, s_fences := rebuildFences (s_occurrences d)\<rparr>, deleted)"
proof -
  have refresh: "\<exists>js'. refreshStates X (\<lambda>_. True) (s_occurrences d) now js = Inr js'" for js
    by (rule refreshStates_returns[OF assms(1)])
  show ?thesis
  proof (cases "findJob (s_jobs d) (o_jobId r)")
    case None
    then show ?thesis
      using refresh[of "s_jobs d"] by (auto simp: applyJobCompletion_def)
  next
    case (Some job)
    obtain b where b: "one_shot_completion (s_occurrences d) r job = Some b"
      using one_shot_returns[OF assms] by blast
    show ?thesis
      using Some b refresh[of "s_jobs d"] refresh[of "replaceFirst (j_id job) disableJob (s_jobs d)"]
      by (auto simp: applyJobCompletion_def Let_def)
  qed
qed

lemma engine_inv_put_rebuilt:
  assumes inv: "engine_inv clock d" and found: "findOccurrenceById (s_occurrences d) i = Some r"
    and step: "step_ok now r r'" and "clock \<le> now"
  shows "engine_inv now (d\<lparr>s_occurrences := putOccurrence i r' (s_occurrences d),
      s_fences := rebuildFences (putOccurrence i r' (s_occurrences d))\<rparr>)"
proof -
  have "ledger_inv now (putOccurrence i r' (s_occurrences d))"
    using inv by (intro ledger_inv_put[OF _ found step assms(4)]) (simp add: engine_inv_def)
  then show ?thesis by (simp add: engine_inv_def ledger_inv_def valid_doc_def)
qed

lemma put_member:
  "findOccurrenceById occs i = Some r \<Longrightarrow> same_identity r r' \<Longrightarrow> r' \<in> set (putOccurrence i r' occs)"
  using find_put[of occs i r r' i] findOccurrenceById_Some by fastforce

lemma outcome_steps:
  assumes v: "valid_occ r" "record_inv now r" and live: "in_flight r" and cl: "proper cl" and del: "ds \<in> set delivery_statuses"
  obtains r1 r2 where
    "(if needs_start w r (cl_state cl) then applyTransition (start_transition r (cl_state cl) now) r else Inr r) = Inr r1"
    "applyTransition (outcome_transition w r1 cl ds now) r1 = Inr r2"
    "step_ok now r r2" "o_state r2 = cl_state cl" "same_identity r r2"
proof -
  let ?t1 = "start_transition r (cl_state cl) now"
  have t1: "t_to ?t1 = Running" "t_at ?t1 = now" "t_endedAt ?t1 = None" "t_executionOutcome ?t1 = None"
    by (simp_all add: start_transition_def plain_transition_def)
  have ev: "o_terminalEvidence q = None \<or> te_kind (the (o_terminalEvidence q)) \<in> set terminal_evidence_kinds
      \<and> te_detailRef (the (o_terminalEvidence q)) \<noteq> []" if "valid_occ q" for q
    using that by (cases "o_terminalEvidence q") (auto simp: valid_occ_iff head_ok_def outcome_faults_def)
  have "\<exists>r1. (if needs_start w r (cl_state cl) then applyTransition ?t1 r else Inr r) = Inr r1 \<and> step_ok now r r1
      \<and> in_flight r1 \<and> canTransition (o_state r1) (cl_state cl)"
  proof (cases "needs_start w r (cl_state cl)")
    case True
    have adm: "o_state r = Admitted" using True by (simp add: needs_start_def)
    have fit: "fit_transition r ?t1"
      using v(2) adm by (simp add: fit_transition_def start_transition_def plain_transition_def record_inv_def
          in_flight_def isTerminalState_def)
    have "applyTransition ?t1 r = Inr (move ?t1 r)"
      using applyTransition_fit[OF v(1) fit] adm by simp
    moreover have "step_ok now r (move ?t1 r)"
      using t1 by (intro move_step[OF v fit]) simp_all
    moreover have "in_flight (move ?t1 r)" "canTransition (o_state (move ?t1 r)) (cl_state cl)"
      using cl t1 by (auto simp: in_flight_def proper_def isTerminalState_def)
    ultimately show ?thesis using True by simp
  next
    case False
    have "canTransition (o_state r) (cl_state cl)"
      using False live cl by (auto simp: needs_start_def in_flight_def proper_def isTerminalState_def)
    then show ?thesis using False live step_ok_refl[OF v] by simp
  qed
  then obtain r1 where r1: "(if needs_start w r (cl_state cl) then applyTransition ?t1 r else Inr r) = Inr r1"
      "step_ok now r r1" "in_flight r1" "canTransition (o_state r1) (cl_state cl)" by blast
  have v1: "valid_occ r1" "record_inv now r1"
    using r1(2) by (simp_all add: step_ok_def)
  let ?t2 = "outcome_transition w r1 cl ds now"
  have t2: "t_to ?t2 = cl_state cl" "t_at ?t2 = now" "t_startedAt ?t2 = None" "t_endedAt ?t2 = Some now"
      "t_executionOutcome ?t2 = cl_executionOutcome cl" "t_deliveryStatus ?t2 = Some ds"
      "t_nativeSessionId ?t2 = Some (w_nativeSessionId w)" "t_lateSettlement ?t2 = None"
      "t_terminalEvidence ?t2 = override (cl_terminalEvidence cl) (o_terminalEvidence r1)"
    by (simp_all add: outcome_transition_def plain_transition_def)
  have nu: "o_state r1 \<noteq> Outcome_Unknown" using r1(3) by (auto simp: in_flight_def)
  have fit: "fit_transition r1 ?t2"
    using r1(4) v1(2) t2 cl del nu ev[OF v1(1)] r1(3)
    by (cases "cl_terminalEvidence cl"; cases "o_terminalEvidence r1")
      (auto simp: fit_transition_def proper_def record_inv_def isTerminalState_def)
  have "applyTransition ?t2 r1 = Inr (move ?t2 r1)"
    using applyTransition_fit[OF v1(1) fit] nu by simp
  moreover have "step_ok now r1 (move ?t2 r1)"
    using t2 cl by (intro move_step[OF v1 fit]) (auto simp: proper_def isTerminalState_def)
  moreover have "same_identity r (move ?t2 r1)"
    using r1(2) by (simp add: step_ok_def)
  ultimately show thesis
    using that[OF r1(1)] step_ok_trans[OF r1(2)] t2 by simp
qed

lemma writeOutcome_commits:
  assumes inv: "engine_inv clock d" and "clock \<le> now"
    and found: "findOccurrenceById (s_occurrences d) (o_occurrenceId (w_record w)) = Some r"
    and exact: "o_runId r = o_runId (w_record w)" "o_payloadHash r = o_payloadHash (w_record w)"
      "o_scheduleRevision r = o_scheduleRevision (w_record w)"
    and live: "in_flight r" and cl: "proper cl" and del: "ds \<in> set delivery_statuses"
  obtains d' deleted r' where "writeOccurrenceOutcome X now w cl ds d = Inr (d', deleted)" "engine_inv now d'"
    "findOccurrenceById (s_occurrences d') (o_occurrenceId r) = Some r'" "o_state r' = cl_state cl"
    "s_occurrences d' = putOccurrence (o_occurrenceId r) r' (s_occurrences d)"
proof -
  note v = found_valid[OF inv found assms(2)]
  obtain r1 r2 where s: "(if needs_start w r (cl_state cl) then applyTransition (start_transition r (cl_state cl) now) r else Inr r) = Inr r1"
    "applyTransition (outcome_transition w r1 cl ds now) r1 = Inr r2"
    "step_ok now r r2" "o_state r2 = cl_state cl" "same_identity r r2"
    using outcome_steps[OF v(1,2) live cl del] by blast
  let ?occs = "putOccurrence (o_occurrenceId (w_record w)) r2 (s_occurrences d)"
  have inv': "engine_inv now (d\<lparr>s_occurrences := ?occs, s_fences := rebuildFences ?occs\<rparr>)"
    by (rule engine_inv_put_rebuilt[OF inv found s(3) assms(2)])
  have "retry_ordered ?occs"
    using inv' by (simp add: engine_inv_def ledger_inv_def)
  then obtain js deleted where c: "applyJobCompletion X r2 now (d\<lparr>s_occurrences := ?occs\<rparr>)
      = Inr (d\<lparr>s_occurrences := ?occs, s_jobs := js, s_fences := rebuildFences ?occs\<rparr>, deleted)"
    using applyJobCompletion_returns[of "d\<lparr>s_occurrences := ?occs\<rparr>" r2 X now] put_member[OF found s(5)] by force
  have "writeOccurrenceOutcome X now w cl ds d
      = Inr (d\<lparr>s_occurrences := ?occs, s_jobs := js, s_fences := rebuildFences ?occs\<rparr>, deleted)"
    using found exact s(1,2) c by (simp add: writeOccurrenceOutcome_def Let_def)
  moreover have "engine_inv now (d\<lparr>s_occurrences := ?occs, s_jobs := js, s_fences := rebuildFences ?occs\<rparr>)"
    using inv' by (simp add: engine_inv_def valid_doc_def)
  ultimately show thesis
    using that[of _ deleted r2] find_put[OF found s(5)] v(4) s(4) by simp
qed

subsection \<open>Late settlements\<close>

lemma refresh_all: "ledger_inv clock occs \<Longrightarrow> \<exists>js. refreshStates X which occs now jobs = Inr js"
  by (rule refreshStates_returns) (simp add: ledger_inv_def)

lemma late_evidence_nonempty: "late_evidence_ref w oc \<noteq> []"
  by (simp add: late_evidence_ref_def)

lemma late_step:
  assumes v: "valid_occ r" "record_inv now r" and "o_state r = Outcome_Unknown" and "isTerminalState to"
    and "basis \<in> set late_settlement_bases" and "ref \<noteq> []" and "kind \<in> set terminal_evidence_kinds" and "detail \<noteq> []"
  shows "applyTransition (late_transition to now reason basis ref kind detail) r
      = Inr (move (late_transition to now reason basis ref kind detail) r)"
    and "step_ok now r (move (late_transition to now reason basis ref kind detail) r)"
proof -
  have "h_at (last (o_history r)) \<le> now" using v(2) by (simp add: record_inv_def)
  note fit = late_transition_fit[OF assms(3,4) this assms(5-8)]
  show "applyTransition (late_transition to now reason basis ref kind detail) r
      = Inr (move (late_transition to now reason basis ref kind detail) r)"
    using applyTransition_fit[OF v(1) fit(1)] fit(2) by simp
  show "step_ok now r (move (late_transition to now reason basis ref kind detail) r)"
    using assms(4) by (intro move_step[OF v fit(1)]) (auto simp: isTerminalState_def)
qed

lemma applyLateCompletion_returns:
  assumes "retry_ordered (s_occurrences d)"
  shows "\<exists>js. applyLateCompletion X r now d = Inr (d\<lparr>s_jobs := js\<rparr>)"
proof -
  have "\<exists>js'. refreshStates X (\<lambda>_. True) (s_occurrences d) now js = Inr js'" for js
    by (rule refreshStates_returns[OF assms])
  then show ?thesis
    unfolding applyLateCompletion_def Let_def by (auto simp: rbind_eq_Inr split: option.splits) metis+
qed

lemma applyLateSettlement_commits:
  assumes inv: "engine_inv clock d" and "clock \<le> now"
    and found: "findOccurrenceById (s_occurrences d) (o_occurrenceId (w_record w)) = Some r"
    and exact: "o_runId r = o_runId (w_record w)" and unk: "o_state r = Outcome_Unknown" "o_lateSettlement r = None"
    and to: "isTerminalState to" "kind \<in> set terminal_evidence_kinds" "note' \<noteq> []"
  obtains d' v r' where "applyLateSettlement X now w to note' oc kind d = Inr (d', Some v)" "engine_inv now d'"
    "s_occurrences d' = putOccurrence (o_occurrenceId r) r' (s_occurrences d)"
    "findOccurrenceById (s_occurrences d') (o_occurrenceId r) = Some r'"
    "o_state r' = to" "o_lateSettlement r' \<noteq> None" "s_fences d' = rebuildFences (s_occurrences d')"
proof -
  note v = found_valid[OF inv found assms(2)]
  let ?t = "late_transition to now note' ''trusted-late-evidence'' (late_evidence_ref w oc) kind note'"
  have base: "''trusted-late-evidence'' \<in> set late_settlement_bases"
    by (simp add: late_settlement_bases_def)
  note s = late_step[OF v(1,2) unk(1) to(1) base late_evidence_nonempty[of w oc] to(2,3)]
  let ?occs = "putOccurrence (o_occurrenceId (w_record w)) (move ?t r) (s_occurrences d)"
  let ?d = "d\<lparr>s_occurrences := ?occs, s_fences := rebuildFences ?occs\<rparr>"
  have inv': "engine_inv now ?d"
    by (rule engine_inv_put_rebuilt[OF inv found s(2) assms(2)])
  then have "retry_ordered (s_occurrences ?d)"
    by (simp add: engine_inv_def ledger_inv_def)
  then obtain js where c: "applyLateCompletion X (move ?t r) now ?d = Inr (?d\<lparr>s_jobs := js\<rparr>)"
    using applyLateCompletion_returns by blast
  have "applyLateSettlement X now w to note' oc kind d
      = Inr (?d\<lparr>s_jobs := js\<rparr>, Some (disposition_of (findJob (s_jobs d) (o_jobId r))))"
    using found exact unk s(1) c by (simp add: applyLateSettlement_def Let_def)
  moreover have "engine_inv now (?d\<lparr>s_jobs := js\<rparr>)"
    by (rule engine_inv_jobs[OF inv'])
  ultimately show thesis
    using that[of "?d\<lparr>s_jobs := js\<rparr>" _ "move ?t r"] find_put[OF found, of "move ?t r"] v(4) by simp
qed

text \<open>Settle-once: a record that is settled, or a run that is not the exact one, is left alone.\<close>

lemma applyLateSettlement_ignored:
  assumes "findOccurrenceById (s_occurrences d) (o_occurrenceId (w_record w)) = Some r"
    and "o_runId r \<noteq> o_runId (w_record w) \<or> o_state r \<noteq> Outcome_Unknown \<or> o_lateSettlement r \<noteq> None"
  shows "applyLateSettlement X now w to note' oc kind d = Inr (d, None)"
  using assms by (simp add: applyLateSettlement_def Let_def)

subsection \<open>Termination-only settlements\<close>

lemma disposition_known: "disposition_of j \<in> set schedule_dispositions"
  by (auto simp: disposition_of_def schedule_dispositions_def split: option.split)

lemma annotate_step:
  assumes v: "valid_occ r" "record_inv now r" and fit: "fit_settlement r s" and "ts_settledAt s \<le> now"
  shows "step_ok now r (record_fence_after b (annotate s reason r))"
proof -
  have unk: "isUnresolvedUnknown r" using fit by (simp add: fit_settlement_def)
  have "same_identity r (record_fence_after b (annotate s reason r))"
    by (simp add: same_identity_def record_fence_after_def annotate_def)
  moreover have "valid_occ (record_fence_after b (annotate s reason r))"
    by (intro record_fence_after_valid annotate_valid[OF v(1) fit])
  moreover have "record_inv now (record_fence_after b (annotate s reason r))"
    using v(2) assms(4) unk by (auto simp: record_inv_def record_fence_after_def annotate_def in_flight_def isUnresolvedUnknown_def)
  ultimately show ?thesis
    using unk by (auto simp: step_ok_def isTerminalRecord_def isUnresolvedUnknown_def)
qed

lemma settleTermination_ledger:
  assumes "ledger_ok (s_occurrences d)" and "findOccurrenceById (s_occurrences d) i = Some r"
    and "valid_occ r" and "fit_settlement r s"
  defines "fs reason \<equiv> rebuildFences (putOccurrence i (annotate s reason r) (s_occurrences d))"
  shows "settleTermination i j s reason d = d\<lparr>s_occurrences :=
      putOccurrence i (record_fence_after (fenced (fs reason) j) (annotate s reason r)) (s_occurrences d), s_fences := fs reason\<rparr>"
proof -
  have ann: "update_first (\<lambda>x. o_occurrenceId x = i) (annotate s reason) (s_occurrences d)
      = putOccurrence i (annotate s reason r) (s_occurrences d)"
    using update_first_cong_found[OF assms(2)[unfolded findOccurrenceById_def], of "annotate s reason"]
    by (simp add: putOccurrence_def)
  have twice: "find p xs = Some y \<Longrightarrow> p (f y) \<Longrightarrow> update_first p g (update_first p (\<lambda>_. f y) xs) = update_first p (\<lambda>_. g (f y)) xs"
    for p xs f g and y :: occurrence
    by (induction xs) (auto split: if_splits)
  have "o_occurrenceId (annotate s reason r) = i"
    using findOccurrenceById_Some[OF assms(2)] by simp
  then show ?thesis
    using twice[OF assms(2)[unfolded findOccurrenceById_def], of "annotate s reason"]
    by (simp add: settleTermination_def Let_def ann fs_def) (simp add: putOccurrence_def)
qed

lemma fence_after_irrelevant:
  "rebuildFences (putOccurrence i (record_fence_after b r) occs) = rebuildFences (putOccurrence i r occs)"
proof -
  have "rebuild_from fs (putOccurrence i (record_fence_after b r) occs) = rebuild_from fs (putOccurrence i r occs)" for fs
    unfolding putOccurrence_def
    by (induction occs arbitrary: fs) (simp_all add: fence_of_def isUnresolvedUnknown_def split: option.split)
  then show ?thesis by (simp add: rebuildFences_def)
qed

lemma settleTermination_inv:
  assumes inv: "engine_inv clock d" and "clock \<le> now"
    and found: "findOccurrenceById (s_occurrences d) i = Some r" and fit: "fit_settlement r s" and "ts_settledAt s \<le> now"
  shows "engine_inv now (settleTermination i j s reason d)"
    and "s_fences (settleTermination i j s reason d) = rebuildFences (s_occurrences (settleTermination i j s reason d))"
proof -
  note v = found_valid[OF inv found assms(2)]
  have ok: "ledger_ok (s_occurrences d)" using inv by (simp add: engine_inv_def ledger_inv_def)
  note eq = settleTermination_ledger[OF ok found v(1) fit, of j reason]
  let ?b = "fenced (rebuildFences (putOccurrence i (annotate s reason r) (s_occurrences d))) j"
  have "engine_inv now (d\<lparr>s_occurrences := putOccurrence i (record_fence_after ?b (annotate s reason r)) (s_occurrences d),
      s_fences := rebuildFences (putOccurrence i (record_fence_after ?b (annotate s reason r)) (s_occurrences d))\<rparr>)"
    by (rule engine_inv_put_rebuilt[OF inv found annotate_step[OF v(1,2) fit assms(5)] assms(2)])
  then show "engine_inv now (settleTermination i j s reason d)"
    unfolding eq fence_after_irrelevant .
  show "s_fences (settleTermination i j s reason d) = rebuildFences (s_occurrences (settleTermination i j s reason d))"
    unfolding eq by (simp add: fence_after_irrelevant)
qed

lemma trusted_kinds: "k \<in> set TRUSTED_TERMINATION_EVIDENCE \<Longrightarrow> k \<in> set termination_evidence_kinds"
  by (auto simp: TRUSTED_TERMINATION_EVIDENCE_def termination_evidence_kinds_def)

lemma engine_settlement_fit:
  assumes v: "valid_occ r" "record_inv now r" and unk: "isUnresolvedUnknown r"
    and owner: "o_ownerAgentId r = Some (j_agentId job)" and kind: "tp_evidenceKind p \<in> set TRUSTED_TERMINATION_EVIDENCE"
  shows "fit_settlement r (termination_settlement_of now r job p)"
proof -
  have owners: "list_all (\<lambda>f. \<not> fst f) (owner_faults r)"
    using v(1) by (simp add: valid_occ_iff head_ok_def)
  have "j_agentId job \<noteq> []"
    using owners owner by (simp add: owner_faults_def)
  moreover have "h_at (last (o_history r)) \<le> now"
    using v(2) by (simp add: record_inv_def)
  ultimately show ?thesis
    using unk owner trusted_kinds[OF kind] disposition_known[of "Some job"]
    by (simp add: fit_settlement_def termination_settlement_of_def Let_def requestIdFor_def text_or_def
        evidenceIdFor_def deriveSelfReconcileOperationId_def termination_actor_kinds_def)
qed

lemma applyTerminationSettlement_commits:
  assumes inv: "engine_inv clock d" and "clock \<le> now"
    and found: "findOccurrenceById (s_occurrences d) (o_occurrenceId r0) = Some r"
    and exact: "o_runId r = o_runId r0" and unk: "isUnresolvedUnknown r"
    and job: "findJob (s_jobs d) (o_jobId r) = Some job" "o_ownerAgentId r = Some (j_agentId job)"
    and kind: "tp_evidenceKind p \<in> set TRUSTED_TERMINATION_EVIDENCE"
  obtains d' where "applyTerminationSettlement X now r0 p d = Inr (d', True)" "engine_inv now d'"
    "s_occurrences d' = s_occurrences (settleTermination (o_occurrenceId r) (o_jobId r)
        (termination_settlement_of now r job p) ''trusted exact termination without business outcome'' d)"
    "s_fences d' = rebuildFences (s_occurrences d')"
proof -
  note v = found_valid[OF inv found assms(2)]
  note fit = engine_settlement_fit[OF v(1,2) unk job(2) kind]
  let ?d = "settleTermination (o_occurrenceId r0) (o_jobId r) (termination_settlement_of now r job p)
      ''trusted exact termination without business outcome'' d"
  note inv' = settleTermination_inv[OF inv assms(2) found fit, of "o_jobId r" "''trusted exact termination without business outcome''"]
  have at': "ts_settledAt (termination_settlement_of now r job p) \<le> now"
    by (simp add: termination_settlement_of_def Let_def)
  have ord: "retry_ordered (s_occurrences ?d)"
    using inv'(1)[OF at'] by (simp add: engine_inv_def ledger_inv_def)
  have "retry_ordered (jobOccurrences (s_occurrences ?d) (j_id job))"
    using ord by (simp add: jobOccurrences_def retry_ordered_filter)
  then obtain js where js: "refreshStates X (\<lambda>j. j_id j = j_id job) (jobOccurrences (s_occurrences ?d) (j_id job)) now
      (if is_at (j_schedule job) then replaceFirst (j_id job) (\<lambda>j. j\<lparr>j_enabled := False, j_updatedAtMs := now\<rparr>) (s_jobs ?d)
       else s_jobs ?d) = Inr js"
    using refreshStates_returns by blast
  have "fenced (s_fences d) (o_jobId r)"
    using inv unk v(3) by (auto simp: engine_inv_def valid_doc_fenced)
  moreover have "o_state r = Outcome_Unknown" "o_terminationSettlement r = None" "o_lateSettlement r = None"
    using unk by (simp_all add: isUnresolvedUnknown_def)
  ultimately have "applyTerminationSettlement X now r0 p d = Inr (?d\<lparr>s_jobs := js\<rparr>, True)"
    using found exact job js by (simp add: applyTerminationSettlement_def Let_def)
  moreover have "engine_inv now (?d\<lparr>s_jobs := js\<rparr>)"
    by (rule engine_inv_jobs[OF inv'(1)[OF at']])
  ultimately show thesis
    using that[of "?d\<lparr>s_jobs := js\<rparr>"] inv'(2)[OF at'] v(4) by simp
qed

end
