(* ===== verification/Control.thy ===== *)
theory Control
  imports EngineInvariant
begin

section \<open>Control operations\<close>

text \<open>
  \<^verbatim>\<open>packages/scheduler/src/control.js\<close>: the operations on job definitions and the operator's
  reconciliation, each the function it passes to \<^verbatim>\<open>mutateDoc\<close>. None of them runs a job. Callers may
  inject an ownership check (\<open>assertJob\<close>: \<open>Some e\<close> throws \<open>e\<close>) and a patch builder.
\<close>

definition requireJob :: "job list \<Rightarrow> string \<Rightarrow> job res" where
  "requireJob jobs i = (case findJob jobs i of Some j \<Rightarrow> Inr j | None \<Rightarrow> Inl (Plain_Error (''unknown job id: '' @ i)))"

definition checked :: "(job \<Rightarrow> js_error option) \<Rightarrow> job \<Rightarrow> unit res" where
  "checked assertJob j = (case assertJob j of Some e \<Rightarrow> Inl e | None \<Rightarrow> Inr ())"

text \<open>The expected revision is the pair of \<^verbatim>\<open>scheduleRevision\<close> and \<^verbatim>\<open>updatedAtMs\<close> the caller read.\<close>

definition assertExpectedRevision :: "job \<Rightarrow> (int \<times> int) option \<Rightarrow> unit res" where
  "assertExpectedRevision current expected = (case expected of
     None \<Rightarrow> Inr ()
   | Some (revision, updated) \<Rightarrow>
       if j_scheduleRevision current = revision \<and> j_updatedAtMs current = updated then Inr ()
       else Inl (Coded_Error ''STALE_TARGET_CONFLICT'' (''stale target state for job '' @ j_id current)))"

definition guarded_job ::
    "(job \<Rightarrow> js_error option) \<Rightarrow> (int \<times> int) option \<Rightarrow> string \<Rightarrow> sdoc \<Rightarrow> job res" where
  "guarded_job assertJob expected i latest =
     rbind (requireJob (s_jobs latest) i) (\<lambda>job.
     rbind (checked assertJob job) (\<lambda>_.
     rbind (assertExpectedRevision job expected) (\<lambda>_. Inr job)))"

subsection \<open>Creation\<close>

definition differingProjectionFields :: "job \<Rightarrow> job \<Rightarrow> string list" where
  "differingProjectionFields a b =
     (if j_agentId a \<noteq> j_agentId b then [''agentId''] else [])
     @ (if j_schedule a \<noteq> j_schedule b then [''schedule''] else [])
     @ (if j_payload a \<noteq> j_payload b then [''payload''] else [])
     @ (if j_delivery a \<noteq> j_delivery b then [''delivery''] else [])
     @ (if j_retry a \<noteq> j_retry b then [''retry''] else [])
     @ (if j_deleteAfterRun a \<noteq> j_deleteAfterRun b then [''deleteAfterRun''] else [])"

definition logicalKeyConflictError :: "job \<Rightarrow> js_error" where
  "logicalKeyConflictError existing = Coded_Error ''LOGICAL_KEY_CONFLICT''
     (''logical key already bound to job '' @ j_id existing @ '' with a different desired definition'')"

definition findByKey :: "job list \<Rightarrow> string option \<Rightarrow> job option" where
  "findByKey jobs key = (case key of None \<Rightarrow> None | Some k \<Rightarrow> find (\<lambda>j. j_logicalKey j = Some k) jobs)"

definition insertJob :: "ext \<Rightarrow> job \<Rightarrow> int \<Rightarrow> sdoc \<Rightarrow> (sdoc \<times> job \<times> bool) res" where
  "insertJob X job nowMs latest =
     (if list_ex (\<lambda>j. j_id j = j_id job) (s_jobs latest)
      then Inl (Plain_Error (''job id already exists: '' @ j_id job))
      else rbind (refreshJob X (s_occurrences latest) nowMs job) (\<lambda>stored.
           Inr (latest\<lparr>s_jobs := s_jobs latest @ [stored]\<rparr>, stored, False)))"

text \<open>The value is the job and the flag \<^verbatim>\<open>alreadyApplied\<close>.\<close>

definition createOrReconcileJob :: "ext \<Rightarrow> norm_opts \<Rightarrow> jval \<Rightarrow> sdoc \<Rightarrow> (sdoc \<times> job \<times> bool) res" where
  "createOrReconcileJob X opts input latest =
     rbind (normalize_job X opts input) (\<lambda>job.
     case findByKey (s_jobs latest) (j_logicalKey job) of
       Some existing \<Rightarrow>
         if differingProjectionFields existing job = [] then Inr (latest, existing, True)
         else Inl (logicalKeyConflictError existing)
     | None \<Rightarrow> insertJob X job (no_nowMs opts) latest)"

definition cloneDisabledJob ::
    "ext \<Rightarrow> norm_opts \<Rightarrow> (job \<Rightarrow> js_error option) \<Rightarrow> string \<Rightarrow> int \<times> int \<Rightarrow> jval \<Rightarrow> sdoc \<Rightarrow> (sdoc \<times> job \<times> bool) res" where
  "cloneDisabledJob X opts assertSource sourceJobId expected cloneInput latest =
     rbind (normalize_job X opts (merge_obj cloneInput (JObj [(''enabled'', JBool False)]))) (\<lambda>cloned.
     let provenance = \<lparr>cp_sourceJobId = sourceJobId, cp_sourceScheduleRevision = fst expected,
           cp_sourceUpdatedAtMs = snd expected\<rparr> in
     rbind (guarded_job assertSource (Some expected) sourceJobId latest) (\<lambda>_.
     case findByKey (s_jobs latest) (j_logicalKey cloned) of
       Some existing \<Rightarrow>
         if j_cloneProvenance existing \<noteq> Some provenance then Inl (logicalKeyConflictError existing)
         else if differingProjectionFields existing cloned = [] then Inr (latest, existing, True)
         else Inl (logicalKeyConflictError existing)
     | None \<Rightarrow> insertJob X (cloned\<lparr>j_cloneProvenance := Some provenance\<rparr>) (no_nowMs opts) latest))"

subsection \<open>Update, enable, disable, delete\<close>

definition has_own :: "jval \<Rightarrow> string \<Rightarrow> bool" where
  "has_own v k \<longleftrightarrow> k \<in> set (map fst (obj_fields v))"

definition drop_field :: "string \<Rightarrow> jval \<Rightarrow> jval" where
  "drop_field k v = JObj (filter (\<lambda>kv. fst kv \<noteq> k) (obj_fields v))"

definition opens_restore_gate :: "jval \<Rightarrow> bool" where
  "opens_restore_gate patch \<longleftrightarrow>
     (has_own patch ''migrationRestoreBlocked'' \<and> jget patch ''migrationRestoreBlocked'' \<noteq> JBool True)
     \<or> jget patch ''enabled'' = JBool True"

definition semanticChange :: "job \<Rightarrow> job \<Rightarrow> bool" where
  "semanticChange normalized current \<longleftrightarrow> j_schedule normalized \<noteq> j_schedule current
     \<or> j_payload normalized \<noteq> j_payload current \<or> j_agentId normalized \<noteq> j_agentId current
     \<or> j_retry normalized \<noteq> j_retry current"

definition revised :: "int \<Rightarrow> job \<Rightarrow> job \<Rightarrow> job" where
  "revised nowMs current normalized =
     (if semanticChange normalized current then
        normalized\<lparr>j_updatedAtMs := nowMs, j_scheduleRevision := j_scheduleRevision current + 1,
          j_revisionActivatedAtMs := Some nowMs\<rparr>
      else normalized\<lparr>j_updatedAtMs := nowMs, j_scheduleRevision := j_scheduleRevision current,
          j_revisionActivatedAtMs :=
            (if \<not> j_enabled current \<and> j_enabled normalized then Some nowMs
             else Some (activationBoundary current))\<rparr>)"

definition updateJob ::
    "ext \<Rightarrow> norm_opts \<Rightarrow> (job \<Rightarrow> js_error option) \<Rightarrow> (job \<Rightarrow> jval \<Rightarrow> jval) \<Rightarrow> (int \<times> int) option \<Rightarrow>
     string \<Rightarrow> jval \<Rightarrow> sdoc \<Rightarrow> (sdoc \<times> job) res" where
  "updateJob X opts assertJob buildPatch expected i patch latest =
     rbind (guarded_job assertJob expected i latest) (\<lambda>current.
     let effective = buildPatch current patch in
     rbind (ensure (\<not> (j_migrationRestoreBlocked current \<and> opens_restore_gate effective))
            (Coded_Error ''RESTORE_GATE_CLOSED'' (''job '' @ i @ '' restore gate is closed''))) (\<lambda>_.
     rbind (normalize_job X (opts\<lparr>no_id := Some (j_id current), no_createdAtMs := Some (j_createdAtMs current)\<rparr>)
            (drop_field ''scheduleRevision'' (merge_obj (job_val current) effective))) (\<lambda>normalized.
     rbind (refreshJob X (s_occurrences latest) (no_nowMs opts) (revised (no_nowMs opts) current normalized)) (\<lambda>stored.
     Inr (latest\<lparr>s_jobs := replaceFirst (j_id current) (\<lambda>_. stored) (s_jobs latest)\<rparr>, stored)))))"

definition enableJob ::
    "ext \<Rightarrow> int \<Rightarrow> (job \<Rightarrow> js_error option) \<Rightarrow> (int \<times> int) option \<Rightarrow> string \<Rightarrow> sdoc \<Rightarrow> (sdoc \<times> unit) res" where
  "enableJob X nowMs assertJob expected i latest =
     rbind (guarded_job assertJob expected i latest) (\<lambda>job.
     rbind (ensure (\<not> j_migrationRestoreBlocked job)
            (Coded_Error ''RESTORE_GATE_CLOSED'' (''job '' @ i @ '' restore gate is closed''))) (\<lambda>_.
     let enabled = (if j_enabled job then job
           else job\<lparr>j_enabled := True, j_revisionActivatedAtMs := Some nowMs\<rparr>) in
     rbind (refreshStates X (\<lambda>j. j_id j = i) (s_occurrences latest) nowMs
            (replaceFirst i (\<lambda>_. enabled\<lparr>j_updatedAtMs := nowMs\<rparr>) (s_jobs latest))) (\<lambda>jobs.
     Inr (latest\<lparr>s_jobs := jobs\<rparr>, ()))))"

definition disableJobOp ::
    "ext \<Rightarrow> int \<Rightarrow> (job \<Rightarrow> js_error option) \<Rightarrow> (int \<times> int) option \<Rightarrow> string \<Rightarrow> sdoc \<Rightarrow> (sdoc \<times> job) res" where
  "disableJobOp X nowMs assertJob expected i latest =
     rbind (guarded_job assertJob expected i latest) (\<lambda>job.
     rbind (refreshJob X (s_occurrences latest) nowMs (job\<lparr>j_enabled := False, j_updatedAtMs := nowMs\<rparr>)) (\<lambda>stored.
     Inr (latest\<lparr>s_jobs := replaceFirst i (\<lambda>_. stored) (s_jobs latest)\<rparr>, stored)))"

definition deleteJob ::
    "(job \<Rightarrow> js_error option) \<Rightarrow> (int \<times> int) option \<Rightarrow> string \<Rightarrow> sdoc \<Rightarrow> (sdoc \<times> unit) res" where
  "deleteJob assertJob expected i latest =
     rbind (guarded_job assertJob expected i latest) (\<lambda>_.
     Inr (latest\<lparr>s_jobs := removeJob i (s_jobs latest)\<rparr>, ()))"

subsection \<open>One-shot submission\<close>

definition truthy :: "jval \<Rightarrow> bool" where
  "truthy v = (case v of JUndef \<Rightarrow> False | JNull \<Rightarrow> False | JBool b \<Rightarrow> b | JStr s \<Rightarrow> s \<noteq> []
     | JNum n \<Rightarrow> n \<noteq> Num 0 \<and> n \<noteq> NaN | _ \<Rightarrow> True)"

definition one_shot_input :: "jval \<Rightarrow> string \<Rightarrow> jval" where
  "one_shot_input input at' = JObj ([(''name'', jget input ''name''), (''agentId'', jget input ''agentId''),
     (''enabled'', JBool True), (''schedule'', JObj [(''kind'', JStr ''at''), (''at'', JStr at')]),
     (''payload'', JObj [(''kind'', JStr ''agentTurn''), (''message'', jget input ''message''),
        (''timeoutSeconds'', jget input ''timeoutSeconds''), (''lightContext'', jget input ''lightContext''),
        (''model'', jget input ''model'')])]
     @ (if truthy (jget input ''retry'') then [(''retry'', jget input ''retry'')] else [])
     @ [(''delivery'', if jget input ''deliver'' = JBool True then JObj [(''mode'', JStr ''announce'')]
          else JObj [(''mode'', JStr ''none''), (''channel'', JStr ''last'')]),
        (''deleteAfterRun'', coalesce (jget input ''deleteAfterRun'') (JBool True))])"

definition submitOneShot :: "ext \<Rightarrow> norm_opts \<Rightarrow> jval \<Rightarrow> sdoc \<Rightarrow> (sdoc \<times> job) res" where
  "submitOneShot X opts input latest =
     (case parseAtToMs X (jget input ''at'') (no_nowMs opts) of
        None \<Rightarrow> Inl (Type_Error (''submitOneShot: invalid at: '' @ js_string X (jget input ''at'')))
      | Some atMs \<Rightarrow> (case to_iso X atMs of
          None \<Rightarrow> Inl (Plain_Error ''Invalid time value'')
        | Some isoText \<Rightarrow>
            rbind (normalize_job X opts (one_shot_input input isoText)) (\<lambda>job.
            rbind (refreshJob X (s_occurrences latest) (no_nowMs opts) job) (\<lambda>stored.
            Inr (latest\<lparr>s_jobs := s_jobs latest @ [stored]\<rparr>, stored)))))"

subsection \<open>The operator's reconciliation\<close>

text \<open>
  The identity of the operator is the effective user of the process, never part of the request:
  \<open>operator\<close> is \<^verbatim>\<open>username:uid\<close>. The value is the settled record, whether its job is still fenced, and
  the flag \<^verbatim>\<open>alreadySettled\<close>.
\<close>

datatype resolution = To_Succeeded | To_Failed | To_Terminated

definition operator_provenance :: string where
  "operator_provenance = ''local-trusted-control-context:effective-os-user''"

definition operator_operation_id :: "string \<Rightarrow> string \<Rightarrow> string \<Rightarrow> string" where
  "operator_operation_id operator occurrenceId runId =
     ''op:'' @ shaHex16 (''operator-terminate|'' @ operator @ ''|'' @ occurrenceId @ ''|'' @ runId)"

definition operator_settlement ::
    "int \<Rightarrow> string \<Rightarrow> string \<Rightarrow> bool \<Rightarrow> occurrence \<Rightarrow> job \<Rightarrow> termination_settlement" where
  "operator_settlement nowMs operator evidence fenceBefore r job =
     \<lparr>ts_kind = ''terminated_without_outcome'', ts_businessStateAtCommit = Outcome_Unknown,
      ts_requestId = requestIdFor r, ts_evidenceKind = ''operator-trusted-evidence'',
      ts_evidenceId = ''ev:'' @ shaHex16 (js_trim evidence), ts_actorKind = ''operator'', ts_actorId = operator,
      ts_actorProvenance = operator_provenance,
      ts_operationId = operator_operation_id operator (o_occurrenceId r) (o_runId r),
      ts_fenceBefore = fenceBefore, ts_fenceAfter = False, ts_scheduleDisposition = disposition_of (Some job),
      ts_settledAt = nowMs, ts_committedAt = nowMs\<rparr>"

definition late_state :: "resolution \<Rightarrow> occ_state" where
  "late_state to = (if to = To_Succeeded then Succeeded else Failed)"

text \<open>After the states are refreshed: a one-shot job whose occurrence succeeded is removed or disabled.\<close>

definition late_one_shot :: "resolution \<Rightarrow> string \<Rightarrow> job list \<Rightarrow> job list" where
  "late_one_shot to jobId jobs = (case findJob jobs jobId of
     None \<Rightarrow> jobs
   | Some job \<Rightarrow>
       if to = To_Succeeded \<and> is_at (j_schedule job) then
         (if j_deleteAfterRun job then removeJob jobId jobs else replaceFirst jobId disableJob jobs)
       else jobs)"

definition reconcile_settle :: "int \<Rightarrow> string \<Rightarrow> resolution \<Rightarrow> string \<Rightarrow> occurrence \<Rightarrow> sdoc \<Rightarrow> sdoc res" where
  "reconcile_settle nowMs operator to evidence r latest =
    (let i = o_occurrenceId r in
     if to = To_Terminated then
       (case findJob (s_jobs latest) (o_jobId r) of
          None \<Rightarrow> Inl (Plain_Error (''unknown job id: '' @ o_jobId r))
        | Some job \<Rightarrow>
            let d = settleTermination i (o_jobId r)
                  (operator_settlement nowMs operator evidence (fenced (s_fences latest) (o_jobId r)) r job)
                  ''operator trusted termination without business outcome'' latest
            in Inr (if is_at (j_schedule job) then d\<lparr>s_jobs := replaceFirst (j_id job) disableJob (s_jobs d)\<rparr> else d))
     else
       rbind (applyTransition (late_transition (late_state to) nowMs (''operator reconcile: '' @ js_trim evidence)
                ''operator-reconcile'' (js_trim evidence) ''operator-reconcile'' (js_trim evidence)) r) (\<lambda>settled.
       let occs = putOccurrence i settled (s_occurrences latest); fs = rebuildFences occs in
       Inr (latest\<lparr>s_occurrences := putOccurrence i (record_fence_after (fenced fs (o_jobId r)) settled) occs,
                   s_fences := fs\<rparr>)))"

definition reconcileOccurrence ::
    "ext \<Rightarrow> int \<Rightarrow> string \<Rightarrow> string \<Rightarrow> string \<Rightarrow> resolution \<Rightarrow> string \<Rightarrow> sdoc \<Rightarrow> (sdoc \<times> occurrence \<times> bool \<times> bool) res" where
  "reconcileOccurrence X nowMs operator occurrenceId runId to evidence latest =
    (if runId = [] then Inl (Type_Error ''reconcileOccurrence: runId is required'')
     else if js_trim evidence = [] then Inl (Type_Error ''reconcileOccurrence: evidenceNote is required'')
     else case findOccurrenceById (s_occurrences latest) occurrenceId of
       None \<Rightarrow> Inl (Plain_Error (''unknown occurrence: '' @ occurrenceId))
     | Some r \<Rightarrow>
         if o_runId r \<noteq> runId
         then Inl (Plain_Error (''runId mismatch: occurrence '' @ occurrenceId @ '' belongs to '' @ o_runId r))
         else if to = To_Terminated \<and> o_terminationSettlement r \<noteq> None
         then Inr (latest, r, fenced (s_fences latest) (o_jobId r), True)
         else if (if to = To_Terminated then \<not> isUnresolvedUnknown r
                  else \<not> (o_state r = Outcome_Unknown \<and> o_lateSettlement r = None))
         then Inl (Coded_Error ''RECONCILE_NOT_UNKNOWN''
                (''occurrence '' @ occurrenceId @ '' is '' @ state_str (o_state r)
                 @ '' - only unresolved outcome_unknown may be reconciled''))
         else rbind (reconcile_settle nowMs operator to evidence r latest) (\<lambda>d.
              rbind (refreshStates X (\<lambda>_. True) (s_occurrences d) nowMs (s_jobs d)) (\<lambda>jobs.
              let settled = (case findOccurrenceById (s_occurrences d) occurrenceId of Some x \<Rightarrow> x | None \<Rightarrow> r) in
              Inr (d\<lparr>s_jobs := late_one_shot to (o_jobId r) jobs\<rparr>, settled,
                   fenced (s_fences d) (o_jobId r), False))))"

subsection \<open>What the control operations touch\<close>

text \<open>The ledger and the fences are the authority of the engine: control of definitions leaves them as they are.\<close>

definition definitions_only :: "sdoc \<Rightarrow> sdoc \<Rightarrow> bool" where
  "definitions_only d d' \<longleftrightarrow> s_occurrences d' = s_occurrences d \<and> s_fences d' = s_fences d"

lemma definitions_only_jobs [simp]: "definitions_only d d" "definitions_only d (d\<lparr>s_jobs := js\<rparr>)"
  by (simp_all add: definitions_only_def)

lemma definitions_only_inv: "definitions_only d d' \<Longrightarrow> engine_inv clock d' = engine_inv clock d"
  by (simp add: definitions_only_def engine_inv_def valid_doc_def)

lemma insertJob_only: "insertJob X job now d = Inr (d', v) \<Longrightarrow> definitions_only d d'"
  by (auto simp: insertJob_def rbind_eq_Inr split: if_splits)

lemma createOrReconcileJob_only: "createOrReconcileJob X opts input d = Inr (d', v) \<Longrightarrow> definitions_only d d'"
  by (auto simp: createOrReconcileJob_def rbind_eq_Inr insertJob_only split: option.splits if_splits)

lemma cloneDisabledJob_only: "cloneDisabledJob X opts a i e input d = Inr (d', v) \<Longrightarrow> definitions_only d d'"
proof -
  assume step: "cloneDisabledJob X opts a i e input d = Inr (d', v)"
  obtain cloned where n: "normalize_job X opts (merge_obj input (JObj [(''enabled'', JBool False)])) = Inr cloned"
    using step by (cases "normalize_job X opts (merge_obj input (JObj [(''enabled'', JBool False)]))")
      (simp_all add: cloneDisabledJob_def)
  obtain job where g: "guarded_job a (Some e) i d = Inr job"
    using step n by (cases "guarded_job a (Some e) i d") (simp_all add: cloneDisabledJob_def Let_def)
  show ?thesis
    using step n g by (auto simp: cloneDisabledJob_def Let_def insertJob_only split: option.splits if_splits)
qed

lemma updateJob_only: "updateJob X opts a b e i patch d = Inr (d', v) \<Longrightarrow> definitions_only d d'"
  by (auto simp: updateJob_def rbind_eq_Inr Let_def)

lemma enableJob_only: "enableJob X now a e i d = Inr (d', v) \<Longrightarrow> definitions_only d d'"
  unfolding enableJob_def Let_def by (simp only: rbind_eq_Inr) auto

lemma disableJobOp_only: "disableJobOp X now a e i d = Inr (d', v) \<Longrightarrow> definitions_only d d'"
  by (auto simp: disableJobOp_def rbind_eq_Inr)

lemma deleteJob_only: "deleteJob a e i d = Inr (d', v) \<Longrightarrow> definitions_only d d'"
  by (auto simp: deleteJob_def rbind_eq_Inr)

lemma submitOneShot_only: "submitOneShot X opts input d = Inr (d', v) \<Longrightarrow> definitions_only d d'"
  by (auto simp: submitOneShot_def rbind_eq_Inr split: option.splits)

lemma guarded_job_Inr:
  "guarded_job a e i d = Inr job \<longleftrightarrow> findJob (s_jobs d) i = Some job \<and> a job = None
     \<and> (\<forall>rv upd. e = Some (rv, upd) \<longrightarrow> j_scheduleRevision job = rv \<and> j_updatedAtMs job = upd)"
  by (auto simp: guarded_job_def requireJob_def checked_def assertExpectedRevision_def rbind_eq_Inr
      split: option.splits if_splits)

lemma guarded_job_stale:
  assumes "findJob (s_jobs d) i = Some job" and "a job = None"
    and "j_scheduleRevision job \<noteq> rv \<or> j_updatedAtMs job \<noteq> upd"
  shows "\<exists>m. guarded_job a (Some (rv, upd)) i d = Inl (Coded_Error ''STALE_TARGET_CONFLICT'' m)"
  using assms by (auto simp: guarded_job_def requireJob_def checked_def assertExpectedRevision_def)

subsection \<open>Idempotent creation\<close>

lemma refreshJob_fields:
  "refreshJob X occs now job = Inr j \<Longrightarrow> j = job\<lparr>j_state := j_state j\<rparr>"
  by (auto simp: refreshJob_def rbind_eq_Inr)

text \<open>The fields compared by a retry do not depend on the instant or on the fresh identifier.\<close>

lemma normalize_job_opts:
  assumes "normalize_job X opts input = Inr j"
  shows "\<exists>j'. normalize_job X opts' input = Inr j' \<and> differingProjectionFields j j' = []
    \<and> j_logicalKey j' = j_logicalKey j"
  using assms[unfolded normalize_job_def Let_def rbind_eq_Inr]
  apply (elim exE conjE)
  apply (drule sum.inject(2) [THEN iffD1])
  apply hypsubst
  apply (simp add: normalize_job_def Let_def differingProjectionFields_def)
  done

lemma create_retry:
  assumes "createOrReconcileJob X opts input d = Inr (d1, j, applied)" and "j_logicalKey j \<noteq> None"
  shows "\<exists>j'. createOrReconcileJob X opts' input d1 = Inr (d1, j', True) \<and> j_id j' = j_id j"
proof -
  obtain job where job: "normalize_job X opts input = Inr job"
    using assms(1) by (auto simp: createOrReconcileJob_def rbind_eq_Inr)
  obtain job' where job': "normalize_job X opts' input = Inr job'" "differingProjectionFields job job' = []"
      "j_logicalKey job' = j_logicalKey job"
    using normalize_job_opts[OF job] by blast
  show ?thesis
  proof (cases "findByKey (s_jobs d) (j_logicalKey job)")
    case (Some existing)
    then have "differingProjectionFields existing job = []" "d1 = d" "j = existing"
      using assms(1) job by (auto simp: createOrReconcileJob_def split: if_splits)
    moreover from this job'(2) have "differingProjectionFields existing job' = []"
      by (auto simp: differingProjectionFields_def split: if_splits)
    ultimately show ?thesis
      using Some job' by (simp add: createOrReconcileJob_def)
  next
    case None
    then have ins: "insertJob X job (no_nowMs opts) d = Inr (d1, j, applied)"
      using assms(1) job by (simp add: createOrReconcileJob_def)
    then have d1: "d1 = d\<lparr>s_jobs := s_jobs d @ [j]\<rparr>" and j: "refreshJob X (s_occurrences d) (no_nowMs opts) job = Inr j"
      by (auto simp: insertJob_def rbind_eq_Inr split: if_splits)
    have same: "j_logicalKey j = j_logicalKey job" "j_agentId j = j_agentId job" "j_schedule j = j_schedule job"
        "j_payload j = j_payload job" "j_delivery j = j_delivery job" "j_retry j = j_retry job"
        "j_deleteAfterRun j = j_deleteAfterRun job"
      using j by (auto simp: refreshJob_def rbind_eq_Inr)
    then have f: "j_logicalKey j = j_logicalKey job" "differingProjectionFields j job' = []"
      using job'(2) by (simp_all add: differingProjectionFields_def)
    obtain k where k: "j_logicalKey job = Some k"
      using assms(2) f(1) by auto
    have "findByKey (s_jobs d1) (j_logicalKey job') = Some j"
      using None k f(1) job'(3) by (simp add: d1 findByKey_def find_append_new)
    then show ?thesis
      using job'(1) f(2) by (simp add: createOrReconcileJob_def)
  qed
qed

subsection \<open>Reconciliation keeps the invariant of the engine\<close>

lemma fence_after_step: "step_ok clock r r' \<Longrightarrow> step_ok clock r (record_fence_after b r')"
proof -
  assume s: "step_ok clock r r'"
  have "same_identity r (record_fence_after b r') = same_identity r r'"
      "record_inv clock (record_fence_after b r') = record_inv clock r'"
    by (simp_all add: same_identity_def record_inv_def in_flight_def record_fence_after_def)
  moreover have "isTerminalRecord r' \<Longrightarrow> isTerminalRecord (record_fence_after b r')"
    by (auto simp: isTerminalRecord_def record_fence_after_def)
  ultimately show ?thesis
    using s by (auto simp: step_ok_def record_fence_after_valid)
qed

lemma put_put:
  assumes "findOccurrenceById occs i = Some r" and "o_occurrenceId r1 = i"
  shows "putOccurrence i r2 (putOccurrence i r1 occs) = putOccurrence i r2 occs"
  using assms unfolding putOccurrence_def findOccurrenceById_def by (induction occs) (auto split: if_splits)

lemma reconcile_settle_late:
  assumes inv: "engine_inv clock d" and "clock \<le> now"
    and found: "findOccurrenceById (s_occurrences d) (o_occurrenceId r) = Some r"
    and unk: "o_state r = Outcome_Unknown" and note': "js_trim evidence \<noteq> []" and to: "to \<noteq> To_Terminated"
  obtains d' r' where "reconcile_settle now operator to evidence r d = Inr d'" "engine_inv now d'"
    "s_occurrences d' = putOccurrence (o_occurrenceId r) r' (s_occurrences d)" "same_identity r r'"
    "o_state r' = late_state to" "o_lateSettlement r' \<noteq> None" "s_fences d' = rebuildFences (s_occurrences d')"
    "s_jobs d' = s_jobs d"
proof -
  note v = found_valid[OF inv found assms(2)]
  let ?t = "late_transition (late_state to) now (''operator reconcile: '' @ js_trim evidence) ''operator-reconcile''
      (js_trim evidence) ''operator-reconcile'' (js_trim evidence)"
  have ok: "isTerminalState (late_state to)" "''operator-reconcile'' \<in> set late_settlement_bases"
      "''operator-reconcile'' \<in> set terminal_evidence_kinds"
    using to by (auto simp: late_state_def isTerminalState_def late_settlement_bases_def terminal_evidence_kinds_def)
  note s = late_step[OF v(1,2) unk ok(1,2) note' ok(3) note']
  let ?i = "o_occurrenceId r"
  define fs where "fs = rebuildFences (putOccurrence ?i (move ?t r) (s_occurrences d))"
  define r' where "r' = record_fence_after (fenced fs (o_jobId r)) (move ?t r)"
  have step: "step_ok now r r'"
    unfolding r'_def by (rule fence_after_step[OF s(2)])
  have "fs = rebuildFences (putOccurrence ?i r' (s_occurrences d))"
    by (simp add: fs_def r'_def fence_after_irrelevant)
  moreover have "reconcile_settle now operator to evidence r d
      = Inr (d\<lparr>s_occurrences := putOccurrence ?i r' (s_occurrences d), s_fences := fs\<rparr>)"
    using to s(1) put_put[OF found, of "move ?t r"] by (simp add: reconcile_settle_def Let_def r'_def fs_def)
  moreover have "o_state r' = late_state to" "o_lateSettlement r' \<noteq> None" "same_identity r r'"
    using step by (simp_all add: r'_def step_ok_def)
  ultimately show thesis
    using that engine_inv_put_rebuilt[OF inv found step assms(2)] by simp
qed

lemma operator_settlement_fit:
  assumes "record_inv now r" and unk: "isUnresolvedUnknown r" and "operator \<noteq> []"
  shows "fit_settlement r (operator_settlement now operator evidence True r job)"
  using assms disposition_known[of "Some job"]
  by (simp add: fit_settlement_def operator_settlement_def record_inv_def requestIdFor_def text_or_def
      termination_evidence_kinds_def termination_actor_kinds_def operator_provenance_def operator_operation_id_def)

lemma reconcile_settle_terminated:
  assumes inv: "engine_inv clock d" and "clock \<le> now"
    and found: "findOccurrenceById (s_occurrences d) (o_occurrenceId r) = Some r"
    and unk: "isUnresolvedUnknown r" and "operator \<noteq> []" and job: "findJob (s_jobs d) (o_jobId r) = Some job"
  obtains d' r' where "reconcile_settle now operator To_Terminated evidence r d = Inr d'" "engine_inv now d'"
    "s_occurrences d' = putOccurrence (o_occurrenceId r) r' (s_occurrences d)" "same_identity r r'"
    "o_state r' = Outcome_Unknown" "o_terminationSettlement r' \<noteq> None" "s_fences d' = rebuildFences (s_occurrences d')"
proof -
  note v = found_valid[OF inv found assms(2)]
  have fenced: "fenced (s_fences d) (o_jobId r)"
    using inv unk v(3) by (auto simp: engine_inv_def valid_doc_fenced)
  let ?s = "operator_settlement now operator evidence True r job"
  let ?why = "''operator trusted termination without business outcome''"
  note fit = operator_settlement_fit[OF v(2) unk assms(5), of evidence job]
  have at': "ts_settledAt ?s \<le> now" by (simp add: operator_settlement_def)
  note t = settleTermination_inv[OF inv assms(2) found fit at', of "o_jobId r" ?why]
  have ok: "ledger_ok (s_occurrences d)" using inv by (simp add: engine_inv_def ledger_inv_def)
  note eq = settleTermination_ledger[OF ok found v(1) fit, of "o_jobId r" ?why]
  let ?d = "settleTermination (o_occurrenceId r) (o_jobId r) ?s ?why d"
  have "\<exists>js. reconcile_settle now operator To_Terminated evidence r d = Inr (?d\<lparr>s_jobs := js\<rparr>)"
    using job fenced by (auto simp: reconcile_settle_def Let_def intro: exI[of _ "s_jobs ?d"])
  then obtain js where js: "reconcile_settle now operator To_Terminated evidence r d = Inr (?d\<lparr>s_jobs := js\<rparr>)" ..
  define r' where "r' = record_fence_after (fenced (rebuildFences (putOccurrence (o_occurrenceId r) (annotate ?s ?why r)
      (s_occurrences d))) (o_jobId r)) (annotate ?s ?why r)"
  have "same_identity r r'" "o_state r' = Outcome_Unknown" "o_terminationSettlement r' \<noteq> None"
    using unk by (simp_all add: r'_def same_identity_def record_fence_after_def annotate_def isUnresolvedUnknown_def)
  moreover have "s_occurrences ?d = putOccurrence (o_occurrenceId r) r' (s_occurrences d)"
    unfolding eq by (simp add: r'_def)
  ultimately show thesis
    using that[OF js engine_inv_jobs[OF t(1)], of r'] t(2) by simp
qed

lemma reconcile_commits:
  assumes inv: "engine_inv clock d" and "clock \<le> now"
    and found: "findOccurrenceById (s_occurrences d) i = Some r"
    and args: "runId = o_runId r" "runId \<noteq> []" "js_trim evidence \<noteq> []" "operator \<noteq> []"
    and unk: "isUnresolvedUnknown r" and job: "to = To_Terminated \<Longrightarrow> findJob (s_jobs d) (o_jobId r) \<noteq> None"
  obtains d' r' where
    "reconcileOccurrence X now operator i runId to evidence d = Inr (d', r', fenced (s_fences d') (o_jobId r), False)"
    "engine_inv now d'" "s_occurrences d' = putOccurrence i r' (s_occurrences d)" "same_identity r r'"
    "o_state r' = (if to = To_Terminated then Outcome_Unknown else late_state to)" "\<not> isUnresolvedUnknown r'"
    "s_fences d' = rebuildFences (s_occurrences d')"
proof -
  have i: "i = o_occurrenceId r" using findOccurrenceById_Some[OF found] by simp
  note found' = found[unfolded i]
  obtain d1 r' where s: "reconcile_settle now operator to evidence r d = Inr d1" "engine_inv now d1"
      "s_occurrences d1 = putOccurrence i r' (s_occurrences d)" "same_identity r r'"
      "o_state r' = (if to = To_Terminated then Outcome_Unknown else late_state to)" "\<not> isUnresolvedUnknown r'"
      "s_fences d1 = rebuildFences (s_occurrences d1)"
  proof (cases "to = To_Terminated")
    case True
    obtain j where j: "findJob (s_jobs d) (o_jobId r) = Some j" using job[OF True] by auto
    obtain d1 r' where d1: "reconcile_settle now operator To_Terminated evidence r d = Inr d1" "engine_inv now d1"
      "s_occurrences d1 = putOccurrence (o_occurrenceId r) r' (s_occurrences d)" "same_identity r r'"
      "o_state r' = Outcome_Unknown" "o_terminationSettlement r' \<noteq> None" "s_fences d1 = rebuildFences (s_occurrences d1)"
      by (rule reconcile_settle_terminated[OF inv assms(2) found' unk args(4) j, of evidence])
    show thesis
      using d1 True by (intro that[of d1 r']) (simp_all add: i isUnresolvedUnknown_def)
  next
    case False
    have st: "o_state r = Outcome_Unknown" using unk by (simp add: isUnresolvedUnknown_def)
    obtain d1 r' where d1: "reconcile_settle now operator to evidence r d = Inr d1" "engine_inv now d1"
      "s_occurrences d1 = putOccurrence (o_occurrenceId r) r' (s_occurrences d)" "same_identity r r'"
      "o_state r' = late_state to" "o_lateSettlement r' \<noteq> None" "s_fences d1 = rebuildFences (s_occurrences d1)"
      by (rule reconcile_settle_late[OF inv assms(2) found' st args(3) False, of operator])
    show thesis
      using d1 False by (intro that[of d1 r']) (simp_all add: i isUnresolvedUnknown_def)
  qed
  obtain js where js: "refreshStates X (\<lambda>_. True) (s_occurrences d1) now (s_jobs d1) = Inr js"
    using s(2) refresh_all by (fastforce simp: engine_inv_def)
  have "findOccurrenceById (s_occurrences d1) i = Some r'"
    using find_put[OF found s(4)] s(3) by simp
  then have "reconcileOccurrence X now operator i runId to evidence d
      = Inr (d1\<lparr>s_jobs := late_one_shot to (o_jobId r) js\<rparr>, r', fenced (s_fences d1) (o_jobId r), False)"
    using found args unk s(1) js by (auto simp: reconcileOccurrence_def isUnresolvedUnknown_def)
  then show thesis
    using that[of "d1\<lparr>s_jobs := late_one_shot to (o_jobId r) js\<rparr>" r'] s engine_inv_jobs[OF s(2)] by simp
qed

end
