(* ===== verification/AutoReconcile.thy ===== *)
theory AutoReconcile
  imports Control
begin

section \<open>Policy reconciliation from current readbacks\<close>

text \<open>
  \<^verbatim>\<open>packages/scheduler/src/auto-reconcile.js\<close>: the only automatic writer of settlements. A decision
  needs a fresh, exact and coherent readback of the router; the readback is asked for again, for each
  target, inside the mutation. One-shot jobs are left to a human.
\<close>

definition AUTO_RECONCILE_DEFAULT_ACTOR_ID :: string where
  "AUTO_RECONCILE_DEFAULT_ACTOR_ID = ''system:fence-auto-reconcile''"

definition AUTO_RECONCILE_MAX_SETTLEMENTS :: nat where
  "AUTO_RECONCILE_MAX_SETTLEMENTS = 50"

definition MAX_EVIDENCE_AGE_MS :: int where
  "MAX_EVIDENCE_AGE_MS = 5 * 60 * 1000"

record auto_evidence =
  ae_source :: string
  ae_trusted :: bool
  ae_state :: string
  ae_snapshot :: "router_snapshot option"
  ae_handle :: "string option"
  ae_currentEpoch :: "string option"
  ae_observedAt :: "int option"

text \<open>\<^verbatim>\<open>createRouterRecoveryEvidenceLookup\<close>: the readback of the router, stamped with its current epoch.\<close>

definition routerRecoveryEvidence :: "router_result \<Rightarrow> string option \<Rightarrow> int \<Rightarrow> auto_evidence" where
  "routerRecoveryEvidence res epoch observedAt = \<lparr>ae_source = ''router-current-readback'', ae_trusted = True,
     ae_state = rr_state res, ae_snapshot = rr_snapshot res, ae_handle = rr_handle res,
     ae_currentEpoch = epoch, ae_observedAt = Some observedAt\<rparr>"

subsection \<open>Turn handles\<close>

fun split_colon :: "string \<Rightarrow> string list" where
  "split_colon [] = [[]]"
| "split_colon (c # cs) = (if c = CHR '':'' then [] # split_colon cs
     else (case split_colon cs of [] \<Rightarrow> [[c]] | w # ws \<Rightarrow> (c # w) # ws))"

definition positive_numeral :: "string \<Rightarrow> bool" where
  "positive_numeral s \<longleftrightarrow> all_digits s \<and> hd s \<noteq> CHR ''0''"

definition tagged_numeral :: "char \<Rightarrow> string \<Rightarrow> string option" where
  "tagged_numeral tag s = (case s of [] \<Rightarrow> None
     | c # cs \<Rightarrow> if c = tag \<and> positive_numeral cs then Some cs else None)"

text \<open>\<^verbatim>\<open>turn:<epoch>:a<n>:g<n>:s<n>\<close>: the epoch and the process generation.\<close>

definition parse_handle :: "string \<Rightarrow> (string \<times> int) option" where
  "parse_handle h = (case split_colon h of
     [t, epoch, a, g, s] \<Rightarrow>
       if t = ''turn'' \<and> epoch \<noteq> [] \<and> tagged_numeral (CHR ''a'') a \<noteq> None \<and> tagged_numeral (CHR ''s'') s \<noteq> None
       then (case tagged_numeral (CHR ''g'') g of Some n \<Rightarrow> Some (epoch, int (digits_value 0 n)) | None \<Rightarrow> None)
       else None
   | _ \<Rightarrow> None)"

subsection \<open>The decision\<close>

datatype auto_decision = Auto_Late occ_state | Auto_Terminated string

record auto_eval =
  au_decision :: "auto_decision option"
  au_reason :: string
  au_handle :: string

definition noAction :: "string \<Rightarrow> auto_eval" where
  "noAction reason = \<lparr>au_decision = None, au_reason = reason, au_handle = []\<rparr>"

definition businessUnknown :: "occurrence \<Rightarrow> bool" where
  "businessUnknown r \<longleftrightarrow> o_state r = Outcome_Unknown \<and> o_lateSettlement r = None"

definition fresh_evidence :: "auto_evidence \<Rightarrow> int \<Rightarrow> bool" where
  "fresh_evidence e nowMs \<longleftrightarrow> ae_source e = ''router-current-readback'' \<and> ae_trusted e \<and> ae_state e = ''settled''
     \<and> ae_snapshot e \<noteq> None
     \<and> (case ae_observedAt e of Some t \<Rightarrow> t \<le> nowMs \<and> nowMs - t \<le> MAX_EVIDENCE_AGE_MS | None \<Rightarrow> False)"

definition exact_turn :: "auto_evidence \<Rightarrow> router_snapshot \<Rightarrow> job \<Rightarrow> occurrence \<Rightarrow> bool" where
  "exact_turn e snap job r \<longleftrightarrow> (case ae_handle e of None \<Rightarrow> False
     | Some h \<Rightarrow> (case parse_handle h of None \<Rightarrow> False
     | Some (epoch, generation) \<Rightarrow>
         rs_handle snap = Some h \<and> rs_turnExecutionId snap = Some h
         \<and> rs_runtimeEpoch snap = ae_currentEpoch e \<and> ae_currentEpoch e = Some epoch
         \<and> rs_processGeneration snap = Some generation \<and> rs_state snap = Some ''settled''
         \<and> rs_agentId snap = Some (j_agentId job) \<and> requestIdFor r \<noteq> []
         \<and> exact_correlation r snap))"

definition business_of :: "router_snapshot \<Rightarrow> occ_state option" where
  "business_of snap = (if rs_outcomeEvidence snap = Some ''exact_turn_end_success'' then Some Succeeded
     else if rs_outcomeEvidence snap = Some ''exact_turn_end_failure'' then Some Failed else None)"

definition expected_outcome :: "occ_state \<Rightarrow> string list" where
  "expected_outcome s = (if s = Succeeded then [''completed'', ''late_completed''] else [''failed'', ''late_failed''])"

definition coherent_decision :: "router_snapshot \<Rightarrow> string \<Rightarrow> auto_eval" where
  "coherent_decision snap h =
    (let out = override (rs_lateOutcome snap) (rs_outcome snap) in
     if rs_outcome snap \<noteq> None \<and> rs_lateOutcome snap \<noteq> None \<and> rs_outcome snap \<noteq> rs_lateOutcome snap
     then noAction ''conflicting_evidence''
     else if rs_settlementResult snap \<noteq> None \<and> rs_settlementResult snap \<noteq> out then noAction ''conflicting_evidence''
     else case business_of snap of
       Some s \<Rightarrow>
         if (case out of Some k \<Rightarrow> k \<notin> set (expected_outcome s) | None \<Rightarrow> True) then noAction ''conflicting_evidence''
         else if (case rs_terminationEvidence snap of Some k \<Rightarrow> k \<notin> set TRUSTED_TERMINATION_EVIDENCE | None \<Rightarrow> False)
         then noAction ''conflicting_evidence''
         else \<lparr>au_decision = Some (Auto_Late s), au_reason = ''trusted_exact_business_outcome'', au_handle = h\<rparr>
     | None \<Rightarrow>
         if rs_outcomeEvidence snap \<noteq> None then noAction ''unsupported_business_evidence''
         else (case rs_terminationEvidence snap of
            Some k \<Rightarrow> if out = Some ''terminated_without_outcome'' \<and> k \<in> set TRUSTED_TERMINATION_EVIDENCE
              then \<lparr>au_decision = Some (Auto_Terminated k), au_reason = ''trusted_exact_termination_only'', au_handle = h\<rparr>
              else noAction ''ambiguous_evidence_human_required''
          | None \<Rightarrow> noAction ''ambiguous_evidence_human_required''))"

definition evaluateAutoReconcileDecision ::
    "job option \<Rightarrow> occurrence option \<Rightarrow> auto_evidence option \<Rightarrow> int \<Rightarrow> auto_eval" where
  "evaluateAutoReconcileDecision job r evidence nowMs = (case (job, r) of
     (Some job, Some r) \<Rightarrow>
       if is_at (j_schedule job) then noAction ''one_shot_at_human_required''
       else if \<not> businessUnknown r then noAction ''business_already_settled''
       else if o_recordSchemaVersion r \<noteq> 3 \<or> o_jobId r \<noteq> j_id job \<or> o_ownerAgentId r \<noteq> Some (j_agentId job)
       then noAction ''owner_or_job_mismatch''
       else (case evidence of
           None \<Rightarrow> noAction ''missing_or_untrusted_evidence''
         | Some e \<Rightarrow>
             if \<not> fresh_evidence e nowMs then noAction ''missing_or_untrusted_evidence''
             else (case (ae_snapshot e, ae_handle e) of
                 (Some snap, Some h) \<Rightarrow>
                   if \<not> exact_turn e snap job r then noAction ''exact_identity_or_epoch_mismatch''
                   else coherent_decision snap h
               | _ \<Rightarrow> noAction ''exact_identity_or_epoch_mismatch''))
   | _ \<Rightarrow> noAction ''missing_input'')"

subsection \<open>Planning\<close>

record auto_target =
  at_occurrenceId :: string
  at_runId :: string
  at_resolvedTo :: auto_decision

definition same_resolution :: "auto_decision \<Rightarrow> auto_decision \<Rightarrow> bool" where
  "same_resolution a b \<longleftrightarrow> (case (a, b) of
     (Auto_Late s, Auto_Late t) \<Rightarrow> s = t | (Auto_Terminated _, Auto_Terminated _) \<Rightarrow> True | _ \<Rightarrow> False)"

definition inapplicable :: "auto_decision option \<Rightarrow> occurrence \<Rightarrow> bool" where
  "inapplicable decision r \<longleftrightarrow> (case decision of None \<Rightarrow> True
     | Some (Auto_Terminated _) \<Rightarrow> \<not> isUnresolvedUnknown r | Some (Auto_Late _) \<Rightarrow> False)"

fun planLoop ::
    "(occurrence \<Rightarrow> auto_evidence option) \<Rightarrow> nat \<Rightarrow> int \<Rightarrow> job list \<Rightarrow> nat \<Rightarrow> occurrence list
     \<Rightarrow> auto_target list \<times> (string \<times> string) list" where
  "planLoop lookup maxSettlements nowMs jobs planned [] = ([], [])"
| "planLoop lookup maxSettlements nowMs jobs planned (r # rs) =
    (if \<not> businessUnknown r then planLoop lookup maxSettlements nowMs jobs planned rs
     else if maxSettlements \<le> planned then
       (let (ts, sk) = planLoop lookup maxSettlements nowMs jobs planned rs
        in (ts, (o_occurrenceId r, ''max_settlements_reached'') # sk))
     else
       let ev = evaluateAutoReconcileDecision (findJob jobs (o_jobId r)) (Some r) (lookup r) nowMs in
       (case au_decision ev of
          Some decision \<Rightarrow>
            if inapplicable (Some decision) r then
              (let (ts, sk) = planLoop lookup maxSettlements nowMs jobs planned rs
               in (ts, (o_occurrenceId r, au_reason ev) # sk))
            else
              (let (ts, sk) = planLoop lookup maxSettlements nowMs jobs (Suc planned) rs
               in (\<lparr>at_occurrenceId = o_occurrenceId r, at_runId = o_runId r, at_resolvedTo = decision\<rparr> # ts, sk))
        | None \<Rightarrow>
            (let (ts, sk) = planLoop lookup maxSettlements nowMs jobs planned rs
             in (ts, (o_occurrenceId r, au_reason ev) # sk))))"

definition planAutoReconcilePass ::
    "(occurrence \<Rightarrow> auto_evidence option) option \<Rightarrow> nat \<Rightarrow> int \<Rightarrow> sdoc \<Rightarrow> auto_target list \<times> (string \<times> string) list" where
  "planAutoReconcilePass lookup maxSettlements nowMs d = (case lookup of
     None \<Rightarrow> ([], [([], ''evidence_lookup_unavailable_default_off'')])
   | Some lk \<Rightarrow> planLoop lk maxSettlements nowMs (s_jobs d) 0 (s_occurrences d))"

subsection \<open>Applying the settlements\<close>

definition policy_evidence_id :: "ext \<Rightarrow> string \<Rightarrow> auto_decision \<Rightarrow> string" where
  "policy_evidence_id X h decision = ''ev:'' @ shaHex16 (canonicalJSON X (JArr [JStr h, JStr (case decision of
     Auto_Terminated k \<Rightarrow> k | Auto_Late s \<Rightarrow> state_str s)]))"

definition policy_settlement :: "ext \<Rightarrow> int \<Rightarrow> string \<Rightarrow> string \<Rightarrow> string \<Rightarrow> bool \<Rightarrow> occurrence \<Rightarrow> termination_settlement" where
  "policy_settlement X nowMs actor h kind fenceBefore r =
     \<lparr>ts_kind = ''terminated_without_outcome'', ts_businessStateAtCommit = Outcome_Unknown,
      ts_requestId = requestIdFor r, ts_evidenceKind = kind,
      ts_evidenceId = policy_evidence_id X h (Auto_Terminated kind), ts_actorKind = ''scheduler-policy'',
      ts_actorId = actor, ts_actorProvenance = ''scheduler-policy'',
      ts_operationId = ''op:'' @ shaHex16 (canonicalJSON X (JArr (map JStr
         [''policy-auto-reconcile'', actor, o_occurrenceId r, o_runId r]))),
      ts_fenceBefore = fenceBefore, ts_fenceAfter = False,
      ts_scheduleDisposition = ''recurring_future_natural_only'', ts_settledAt = nowMs, ts_committedAt = nowMs\<rparr>"

definition applyPolicySettlement ::
    "ext \<Rightarrow> int \<Rightarrow> string \<Rightarrow> auto_decision \<Rightarrow> string \<Rightarrow> string \<Rightarrow> occurrence \<Rightarrow> sdoc \<Rightarrow> sdoc res" where
  "applyPolicySettlement X nowMs actor decision reason h r d = (case decision of
     Auto_Terminated kind \<Rightarrow> Inr (settleTermination (o_occurrenceId r) (o_jobId r)
        (policy_settlement X nowMs actor h kind (fenced (s_fences d) (o_jobId r)) r)
        ''policy trusted exact termination without business outcome'' d)
   | Auto_Late s \<Rightarrow>
       rbind (applyTransition (late_transition s nowMs (''policy auto-reconcile: '' @ reason) ''policy-auto-reconcile'' h
                ''policy-auto-reconcile'' h) r) (\<lambda>settled.
       let occs = putOccurrence (o_occurrenceId r) settled (s_occurrences d)
       in Inr (d\<lparr>s_occurrences := occs, s_fences := rebuildFences occs\<rparr>)))"

datatype auto_result = Auto_Skipped string string | Auto_Settled string auto_decision

fun autoLoop ::
    "ext \<Rightarrow> int \<Rightarrow> string \<Rightarrow> (occurrence \<Rightarrow> auto_evidence option) \<Rightarrow> auto_target list \<Rightarrow> sdoc
     \<Rightarrow> (sdoc \<times> string list \<times> auto_result list) res" where
  "autoLoop X nowMs actor lookup [] d = Inr (d, [], [])"
| "autoLoop X nowMs actor lookup (t # ts) d =
    (case findOccurrenceById (s_occurrences d) (at_occurrenceId t) of
       None \<Rightarrow> rbind (autoLoop X nowMs actor lookup ts d) (\<lambda>(d', touched, results).
         Inr (d', touched, Auto_Skipped (at_occurrenceId t) ''identity_drift'' # results))
     | Some r \<Rightarrow>
         if o_runId r \<noteq> at_runId t then
           rbind (autoLoop X nowMs actor lookup ts d) (\<lambda>(d', touched, results).
             Inr (d', touched, Auto_Skipped (at_occurrenceId t) ''identity_drift'' # results))
         else
           let ev = evaluateAutoReconcileDecision (findJob (s_jobs d) (o_jobId r)) (Some r) (lookup r) nowMs in
           (case au_decision ev of
              Some decision \<Rightarrow>
                if \<not> same_resolution decision (at_resolvedTo t) \<or> inapplicable (Some decision) r then
                  rbind (autoLoop X nowMs actor lookup ts d) (\<lambda>(d', touched, results).
                    Inr (d', touched, Auto_Skipped (o_occurrenceId r) (au_reason ev) # results))
                else
                  rbind (applyPolicySettlement X nowMs actor decision (au_reason ev) (au_handle ev) r d) (\<lambda>d1.
                  rbind (autoLoop X nowMs actor lookup ts d1) (\<lambda>(d', touched, results).
                    Inr (d', o_jobId r # touched, Auto_Settled (o_occurrenceId r) decision # results)))
            | None \<Rightarrow>
                rbind (autoLoop X nowMs actor lookup ts d) (\<lambda>(d', touched, results).
                  Inr (d', touched, Auto_Skipped (o_occurrenceId r) (au_reason ev) # results))))"

definition kebab_char :: "char \<Rightarrow> bool" where
  "kebab_char c \<longleftrightarrow> (let n = (of_char c :: nat) in (97 \<le> n \<and> n \<le> 122) \<or> (48 \<le> n \<and> n \<le> 57) \<or> n = 45)"

definition machine_actor :: "string \<Rightarrow> bool" where
  "machine_actor a \<longleftrightarrow> take 7 a = ''system:'' \<and> drop 7 a \<noteq> [] \<and> list_all kebab_char (drop 7 a)"

text \<open>
  Without a settlement the code throws \<^verbatim>\<open>NoWrite\<close> out of the mutation, so that the file is not even
  rewritten; the document is then the same.
\<close>

definition autoReconcileOccurrences ::
    "ext \<Rightarrow> int \<Rightarrow> string \<Rightarrow> (occurrence \<Rightarrow> auto_evidence option) option \<Rightarrow> auto_target list \<Rightarrow> sdoc
     \<Rightarrow> (sdoc \<times> auto_result list) res" where
  "autoReconcileOccurrences X nowMs actor lookup settlements latest =
    (if settlements = [] then Inr (latest, [])
     else if \<not> machine_actor actor then Inl (Type_Error
       ''autoReconcileOccurrences: actorId must be a machine identity of the form system:<kebab-id>'')
     else case lookup of None \<Rightarrow> Inr (latest, [])
     | Some lk \<Rightarrow>
         rbind (autoLoop X nowMs actor lk settlements latest) (\<lambda>(d, touched, results).
         if touched = [] then Inr (latest, results)
         else rbind (refreshStates X (\<lambda>j. j_id j \<in> set touched) (s_occurrences d) nowMs (s_jobs d)) (\<lambda>jobs.
              Inr (d\<lparr>s_jobs := jobs\<rparr>, results))))"

subsection \<open>What a decision needs\<close>

lemma noAction_decision [simp]: "au_decision (noAction r) = None"
  by (simp add: noAction_def)

lemma coherent_sound:
  assumes "au_decision (coherent_decision snap h) = Some dec"
  shows "au_handle (coherent_decision snap h) = h"
    and "case dec of Auto_Late s \<Rightarrow> business_of snap = Some s
     | Auto_Terminated k \<Rightarrow> k \<in> set TRUSTED_TERMINATION_EVIDENCE \<and> business_of snap = None"
proof -
  define out where "out = override (rs_lateOutcome snap) (rs_outcome snap)"
  have agree: "\<not> (rs_outcome snap \<noteq> None \<and> rs_lateOutcome snap \<noteq> None \<and> rs_outcome snap \<noteq> rs_lateOutcome snap)"
      "\<not> (rs_settlementResult snap \<noteq> None \<and> rs_settlementResult snap \<noteq> out)"
    using assms by (simp_all only: coherent_decision_def Let_def out_def[symmetric] split: if_splits) simp_all
  have "au_handle (coherent_decision snap h) = h \<and> (case dec of Auto_Late s \<Rightarrow> business_of snap = Some s
     | Auto_Terminated k \<Rightarrow> k \<in> set TRUSTED_TERMINATION_EVIDENCE \<and> business_of snap = None)"
  proof (cases "business_of snap")
    case (Some s)
    then show ?thesis
      using assms unfolding coherent_decision_def Let_def out_def[symmetric] if_not_P[OF agree(1)] if_not_P[OF agree(2)]
      by (simp split: if_splits) auto
  next
    case None
    then show ?thesis
      using assms unfolding coherent_decision_def Let_def out_def[symmetric] if_not_P[OF agree(1)] if_not_P[OF agree(2)]
      by (cases "rs_terminationEvidence snap") (simp_all split: if_splits, auto)
  qed
  then show "au_handle (coherent_decision snap h) = h"
    and "case dec of Auto_Late s \<Rightarrow> business_of snap = Some s
     | Auto_Terminated k \<Rightarrow> k \<in> set TRUSTED_TERMINATION_EVIDENCE \<and> business_of snap = None" by auto
qed

lemma decision_sound:
  assumes "au_decision (evaluateAutoReconcileDecision job r evidence now) = Some dec"
  obtains j q e snap h where "job = Some j" "r = Some q" "evidence = Some e" "ae_snapshot e = Some snap"
    "ae_handle e = Some h" "\<not> is_at (j_schedule j)" "businessUnknown q" "o_recordSchemaVersion q = 3"
    "o_jobId q = j_id j" "o_ownerAgentId q = Some (j_agentId j)" "fresh_evidence e now" "exact_turn e snap j q"
    "au_handle (evaluateAutoReconcileDecision job r evidence now) = h" "h \<noteq> []"
    "case dec of Auto_Late s \<Rightarrow> business_of snap = Some s
     | Auto_Terminated k \<Rightarrow> k \<in> set TRUSTED_TERMINATION_EVIDENCE \<and> business_of snap = None"
proof -
  obtain j q where jq: "job = Some j" "r = Some q"
    using assms by (cases job; cases r) (simp_all add: evaluateAutoReconcileDecision_def noAction_def)
  have g: "\<not> is_at (j_schedule j)" "businessUnknown q" "o_recordSchemaVersion q = 3"
      "o_jobId q = j_id j" "o_ownerAgentId q = Some (j_agentId j)"
    using assms by (auto simp: evaluateAutoReconcileDecision_def jq noAction_def split: if_splits)
  obtain e where e: "evidence = Some e" "fresh_evidence e now"
    using assms g by (cases evidence) (auto simp: evaluateAutoReconcileDecision_def jq noAction_def split: if_splits)
  obtain snap where snap: "ae_snapshot e = Some snap"
    using e(2) by (auto simp: fresh_evidence_def)
  obtain h where h: "ae_handle e = Some h" "exact_turn e snap j q"
      "evaluateAutoReconcileDecision job r evidence now = coherent_decision snap h"
    using assms g e snap by (cases "ae_handle e")
      (auto simp: evaluateAutoReconcileDecision_def jq noAction_def split: if_splits)
  have "h \<noteq> []"
    using h(1,2) by (auto simp: exact_turn_def parse_handle_def)
  then show thesis
    using coherent_sound[OF assms[unfolded h(3)]] h(3) by (intro that[OF jq e(1) snap h(1) g e(2) h(2)]) simp_all
qed

lemma policy_settlement_fit:
  assumes "record_inv now r" and "isUnresolvedUnknown r" and "kind \<in> set TRUSTED_TERMINATION_EVIDENCE" and "actor \<noteq> []"
  shows "fit_settlement r (policy_settlement X now actor h kind True r)"
  using assms trusted_kinds[OF assms(3)]
  by (simp add: fit_settlement_def policy_settlement_def record_inv_def requestIdFor_def text_or_def policy_evidence_id_def
      termination_actor_kinds_def schedule_dispositions_def)

lemma policy_keeps:
  assumes inv: "engine_inv clock d" and "clock \<le> now" and actor: "actor \<noteq> []"
    and found: "findOccurrenceById (s_occurrences d) (o_occurrenceId r) = Some r"
    and unk: "businessUnknown r" and app: "\<not> inapplicable (Some decision) r" and "h \<noteq> []"
    and dec: "case decision of Auto_Late s \<Rightarrow> isTerminalState s | Auto_Terminated k \<Rightarrow> k \<in> set TRUSTED_TERMINATION_EVIDENCE"
  obtains d' where "applyPolicySettlement X now actor decision reason h r d = Inr d'" "engine_inv now d'"
proof (cases decision)
  case (Auto_Terminated k)
  note v = found_valid[OF inv found assms(2)]
  have unresolved: "isUnresolvedUnknown r"
    using app Auto_Terminated by (simp add: inapplicable_def)
  then have "fenced (s_fences d) (o_jobId r)"
    using inv v(3) by (auto simp: engine_inv_def valid_doc_fenced)
  moreover have "fit_settlement r (policy_settlement X now actor h k True r)"
    using dec Auto_Terminated actor by (intro policy_settlement_fit[OF v(2) unresolved]) simp_all
  ultimately show thesis
    using settleTermination_inv(1)[OF inv assms(2) found] that
    by (simp add: applyPolicySettlement_def Auto_Terminated policy_settlement_def)
next
  case (Auto_Late s)
  note v = found_valid[OF inv found assms(2)]
  have st: "o_state r = Outcome_Unknown" "isTerminalState s"
      "''policy-auto-reconcile'' \<in> set late_settlement_bases" "''policy-auto-reconcile'' \<in> set terminal_evidence_kinds"
    using unk dec Auto_Late by (simp_all add: businessUnknown_def late_settlement_bases_def terminal_evidence_kinds_def)
  note ls = late_step[OF v(1,2) st(1,2,3) assms(7) st(4) assms(7)]
  show thesis
    using ls(1) engine_inv_put_rebuilt[OF inv found ls(2) assms(2)] that
    by (simp add: applyPolicySettlement_def Auto_Late Let_def)
qed

lemma autoLoop_keeps:
  assumes "engine_inv clock d" and "clock \<le> now" and "actor \<noteq> []"
  shows "\<exists>d' touched results. autoLoop X now actor lookup ts d = Inr (d', touched, results) \<and> engine_inv now d'
    \<and> (touched = [] \<longrightarrow> d' = d)"
  using assms(1,2)
proof (induction ts arbitrary: d clock)
  case Nil
  then show ?case using engine_inv_later by auto
next
  case (Cons t ts)
  have skip: "\<exists>d' touched results. autoLoop X now actor lookup ts d = Inr (d', touched, results) \<and> engine_inv now d'
      \<and> (touched = [] \<longrightarrow> d' = d)"
    using Cons by blast
  show ?case
  proof (cases "findOccurrenceById (s_occurrences d) (at_occurrenceId t)")
    case None
    then show ?thesis using skip by auto
  next
    case (Some r)
    have found: "findOccurrenceById (s_occurrences d) (o_occurrenceId r) = Some r"
      using Some findOccurrenceById_Some[OF Some] by simp
    let ?ev = "evaluateAutoReconcileDecision (findJob (s_jobs d) (o_jobId r)) (Some r) (lookup r) now"
    show ?thesis
    proof (cases "o_runId r = at_runId t \<and> (\<exists>dec. au_decision ?ev = Some dec
        \<and> same_resolution dec (at_resolvedTo t) \<and> \<not> inapplicable (Some dec) r)")
      case False
      then show ?thesis
        using skip Some by (auto simp: Let_def split: option.splits)
    next
      case True
      then obtain dec where dec: "au_decision ?ev = Some dec" "same_resolution dec (at_resolvedTo t)"
          "\<not> inapplicable (Some dec) r" by blast
      obtain snap where snd: "businessUnknown r" "au_handle ?ev \<noteq> []"
          "case dec of Auto_Late s \<Rightarrow> business_of snap = Some s
           | Auto_Terminated k \<Rightarrow> k \<in> set TRUSTED_TERMINATION_EVIDENCE \<and> business_of snap = None"
        by (rule decision_sound[OF dec(1)]) auto
      have "case dec of Auto_Late s \<Rightarrow> isTerminalState s | Auto_Terminated k \<Rightarrow> k \<in> set TRUSTED_TERMINATION_EVIDENCE"
        using snd(3) by (auto simp: business_of_def isTerminalState_def split: auto_decision.splits if_splits)
      then obtain d1 where d1: "applyPolicySettlement X now actor dec (au_reason ?ev) (au_handle ?ev) r d = Inr d1" "engine_inv now d1"
        using policy_keeps[OF Cons.prems assms(3) found snd(1) dec(3) snd(2)] by blast
      then obtain d' touched results where rest: "autoLoop X now actor lookup ts d1 = Inr (d', touched, results)" "engine_inv now d'"
        using Cons.IH[OF d1(2)] by blast
      have "autoLoop X now actor lookup (t # ts) d
          = Inr (d', o_jobId r # touched, Auto_Settled (o_occurrenceId r) dec # results)"
        using Some True dec d1(1) rest(1) by (simp add: Let_def)
      then show ?thesis using rest(2) by simp
    qed
  qed
qed

lemma autoReconcile_keeps:
  assumes inv: "engine_inv clock d" and "clock \<le> now" and "autoReconcileOccurrences X now actor lookup ts d = Inr (d', results)"
  shows "engine_inv now d'"
proof -
  have stay: "engine_inv now d" using engine_inv_later[OF inv assms(2)] .
  show ?thesis
  proof (cases "ts = [] \<or> lookup = None")
    case True
    then show ?thesis using assms(3) stay by (auto simp: autoReconcileOccurrences_def split: if_splits)
  next
    case False
    then obtain lk where lk: "lookup = Some lk" and m: "machine_actor actor"
      using assms(3) by (auto simp: autoReconcileOccurrences_def split: if_splits)
    have "actor \<noteq> []" using m by (auto simp: machine_actor_def)
    then obtain d1 touched rs where l: "autoLoop X now actor lk ts d = Inr (d1, touched, rs)" "engine_inv now d1"
      using autoLoop_keeps[OF inv assms(2)] by blast
    show ?thesis
      using assms(3) False lk m l stay
      by (auto simp: autoReconcileOccurrences_def rbind_eq_Inr engine_inv_jobs split: if_splits)
  qed
qed

end
