(* ===== verification/SlotAccounting.thy ===== *)
theory SlotAccounting
  imports Control
begin

section \<open>Accounting of elapsed slots and isolation of admission failures\<close>

text \<open>
  \<^verbatim>\<open>watchdog/slot-accounting.js\<close>, \<^verbatim>\<open>watchdog/admission-isolation.js\<close> and the accounting helpers of
  \<^verbatim>\<open>scheduler.js\<close>. The receipts are the output; whether an append to the evidence log succeeds is
  decided by the environment (\<open>appendOk\<close>).
\<close>

definition MAX_BACKFILL_SLOTS :: nat where
  "MAX_BACKFILL_SLOTS = 64"

subsection \<open>Elapsed slots, newest first\<close>

fun grid_loop :: "nat \<Rightarrow> int \<Rightarrow> int \<Rightarrow> int \<Rightarrow> int list" where
  "grid_loop 0 every fromMs slot = []"
| "grid_loop (Suc room) every fromMs slot =
     (if slot > fromMs then slot # grid_loop room every fromMs (slot - every) else [])"

definition gridSlots :: "int \<Rightarrow> int option \<Rightarrow> int \<Rightarrow> int \<Rightarrow> int list" where
  "gridSlots everyRaw anchorRaw fromMs toMs = (case anchorRaw of None \<Rightarrow> []
   | Some a \<Rightarrow> let everyMs = max 1 everyRaw; anchor = max 0 a in
       if toMs < anchor then []
       else grid_loop (Suc MAX_BACKFILL_SLOTS) everyMs fromMs (anchor + (toMs - anchor) div everyMs * everyMs))"

fun cron_loop :: "nat \<Rightarrow> ext \<Rightarrow> schedule \<Rightarrow> string \<Rightarrow> int \<Rightarrow> int \<Rightarrow> int list" where
  "cron_loop 0 X s jobId fromMs cursor = []"
| "cron_loop (Suc room) X s jobId fromMs cursor = (case computePreviousRunAtMs X s cursor jobId of
     None \<Rightarrow> []
   | Some slot \<Rightarrow> if slot \<le> fromMs then [] else slot # cron_loop room X s jobId fromMs slot)"

definition enumerateElapsedSlots :: "ext \<Rightarrow> schedule \<Rightarrow> string \<Rightarrow> int \<Rightarrow> int \<Rightarrow> int list" where
  "enumerateElapsedSlots X s jobId fromMs toMs =
    (if toMs \<le> fromMs then []
     else case s of
       Every ms anchor \<Rightarrow> gridSlots ms anchor fromMs toMs
     | Cron _ _ _ \<Rightarrow> cron_loop (Suc MAX_BACKFILL_SLOTS) X s jobId fromMs toMs
     | At t \<Rightarrow> (case parseAbsoluteTimeMs X (JStr t) of
         Some slot \<Rightarrow> (if slot > fromMs \<and> slot \<le> toMs then [slot] else []) | None \<Rightarrow> []))"

definition latestPastSlot :: "ext \<Rightarrow> schedule \<Rightarrow> string \<Rightarrow> int \<Rightarrow> int option" where
  "latestPastSlot X s jobId nowMs = previousNaturalSlotMs X s jobId nowMs"

subsection \<open>Receipts\<close>

type_synonym cursor = "string \<Rightarrow> int option"

definition shouldRecord :: "cursor \<Rightarrow> string \<Rightarrow> int \<Rightarrow> bool" where
  "shouldRecord cur jobId slot \<longleftrightarrow> (case cur jobId of Some seen \<Rightarrow> \<not> slot \<le> seen | None \<Rightarrow> True)"

definition mark :: "cursor \<Rightarrow> string \<Rightarrow> int \<Rightarrow> cursor" where
  "mark cur jobId slot = (if cur jobId = None \<or> slot > (case cur jobId of Some s \<Rightarrow> s | None \<Rightarrow> slot)
     then cur(jobId \<mapsto> slot) else cur)"

record receipt =
  sr_jobId :: string
  sr_agentId :: string
  sr_slot :: int
  sr_classification :: string
  sr_reason :: string
  sr_recovery :: "string option"
  sr_truncated :: bool

text \<open>The floor of \<^verbatim>\<open>scheduler.js\<close>: slots at or before it were never due.\<close>

definition jobSlotAccountingFloorMs :: "job \<Rightarrow> occurrence list \<Rightarrow> int" where
  "jobSlotAccountingFloorMs job occs = foldl (\<lambda>floor r.
     if o_jobId r \<noteq> j_id job \<or> \<not> isTerminalRecord r then floor
     else if operationalEndedAt r + MIN_REFIRE_GAP_MS > floor then operationalEndedAt r + MIN_REFIRE_GAP_MS else floor)
     (activationBoundary job) occs"

definition recordSlot ::
    "(string \<Rightarrow> int \<Rightarrow> bool) \<Rightarrow> occurrence list \<Rightarrow> job \<Rightarrow> int option \<Rightarrow> string \<Rightarrow> string \<Rightarrow> cursor \<Rightarrow> cursor \<times> receipt list" where
  "recordSlot appendOk occs job slot classification' reason cur = (case slot of None \<Rightarrow> (cur, [])
   | Some t \<Rightarrow>
       if \<not> shouldRecord cur (j_id job) t then (cur, [])
       else if t \<le> jobSlotAccountingFloorMs job occs then (cur, [])
       else if appendOk (j_id job) t
       then (mark cur (j_id job) t, [\<lparr>sr_jobId = j_id job, sr_agentId = j_agentId job, sr_slot = t,
               sr_classification = classification', sr_reason = take 300 reason, sr_recovery = None, sr_truncated = False\<rparr>])
       else (cur, []))"

definition lastAccountedFloorMs :: "job \<Rightarrow> occurrence list \<Rightarrow> int" where
  "lastAccountedFloorMs job occs = foldl (\<lambda>floor r.
     let end' = (if isTerminalRecord r then operationalEndedAt r else o_admittedAt r)
     in if end' > floor then end' else floor) (activationBoundary job) (jobOccurrences occs (j_id job))"

definition missed_receipt :: "job \<Rightarrow> string \<Rightarrow> bool \<Rightarrow> int \<Rightarrow> receipt" where
  "missed_receipt job session truncated slot = \<lparr>sr_jobId = j_id job, sr_agentId = j_agentId job, sr_slot = slot,
     sr_classification = ''MISSED_BEFORE_OCCURRENCE'',
     sr_reason = take 300 (''slot elapsed without engine observation (downtime/restart; engineSession '' @ session @ '')''),
     sr_recovery = Some ''OWNER_POLICY_REQUIRED'', sr_truncated = truncated\<rparr>"

fun missed_loop ::
    "(string \<Rightarrow> int \<Rightarrow> bool) \<Rightarrow> job \<Rightarrow> string \<Rightarrow> bool \<Rightarrow> int \<Rightarrow> int list \<Rightarrow> cursor \<Rightarrow> cursor \<times> receipt list" where
  "missed_loop appendOk job session truncated oldest [] cur = (cur, [])"
| "missed_loop appendOk job session truncated oldest (slot # slots) cur =
    (if \<not> shouldRecord cur (j_id job) slot \<or> \<not> appendOk (j_id job) slot
     then missed_loop appendOk job session truncated oldest slots cur
     else case missed_loop appendOk job session truncated oldest slots (mark cur (j_id job) slot) of
       (cur', receipts) \<Rightarrow> (cur', missed_receipt job session (truncated \<and> slot = oldest) slot # receipts))"

definition downtime_job ::
    "ext \<Rightarrow> (string \<Rightarrow> int \<Rightarrow> bool) \<Rightarrow> occurrence list \<Rightarrow> int \<Rightarrow> string \<Rightarrow> job \<Rightarrow> cursor \<Rightarrow> cursor \<times> receipt list" where
  "downtime_job X appendOk occs nowMs session job cur =
    (if \<not> j_enabled job \<or> hasNonTerminalOccurrence occs (j_id job) then (cur, [])
     else case latestPastSlot X (j_schedule job) (j_id job) nowMs of
       None \<Rightarrow> (cur, [])
     | Some toMs \<Rightarrow>
         let gapFloor = (case latestTerminalOccurrence occs (j_id job) of
               Some r \<Rightarrow> operationalEndedAt r + MIN_REFIRE_GAP_MS | None \<Rightarrow> 0);
             slots = enumerateElapsedSlots X (j_schedule job) (j_id job)
               (max (lastAccountedFloorMs job occs) gapFloor) toMs;
             missed = tl slots
         in if missed = [] then (cur, [])
            else missed_loop appendOk job session (length slots > MAX_BACKFILL_SLOTS) (last missed) missed cur)"

fun accountDowntimeSlots ::
    "ext \<Rightarrow> (string \<Rightarrow> int \<Rightarrow> bool) \<Rightarrow> occurrence list \<Rightarrow> int \<Rightarrow> string \<Rightarrow> job list \<Rightarrow> cursor \<Rightarrow> cursor \<times> receipt list" where
  "accountDowntimeSlots X appendOk occs nowMs session [] cur = (cur, [])"
| "accountDowntimeSlots X appendOk occs nowMs session (job # jobs) cur =
    (case downtime_job X appendOk occs nowMs session job cur of (cur1, first) \<Rightarrow>
     (case accountDowntimeSlots X appendOk occs nowMs session jobs cur1 of (cur2, rest) \<Rightarrow> (cur2, first @ rest)))"

subsection \<open>What the accounting of a restart leaves out\<close>

text \<open>Both enumerations go backwards in time.\<close>

lemma grid_loop_bounds: "1 \<le> every \<Longrightarrow> list_all (\<lambda>s. fromMs < s \<and> s \<le> slot) (grid_loop n every fromMs slot)"
proof (induction n every fromMs slot rule: grid_loop.induct)
  case (2 room every fromMs slot)
  then have "list_all (\<lambda>s. fromMs < s \<and> s \<le> slot - every) (grid_loop room every fromMs (slot - every))"
    if "fromMs < slot"
    using that by simp
  with 2(2) show ?case
    by (force simp: list_all_iff)
qed simp

lemma grid_loop_down: "1 \<le> every \<Longrightarrow> sorted_wrt (\<lambda>a b. b \<le> a) (grid_loop n every fromMs slot)"
proof (induction n every fromMs slot rule: grid_loop.induct)
  case (2 room every fromMs slot)
  then show ?case
    using grid_loop_bounds[where every = every and fromMs = fromMs and n = room and slot = "slot - every"] by (fastforce simp: list_all_iff)
qed simp

lemma cron_loop_bounds: "list_all (\<lambda>s. fromMs < s \<and> s \<le> cursor) (cron_loop n X sc jobId fromMs cursor)"
proof (induction n arbitrary: cursor)
  case (Suc n)
  show ?case
  proof (cases "computePreviousRunAtMs X sc cursor jobId")
    case None
    then show ?thesis by (simp del: computePreviousRunAtMs.simps)
  next
    case (Some slot)
    have "list_all (\<lambda>s. fromMs < s \<and> s \<le> cursor) (cron_loop n X sc jobId fromMs slot)"
      using Suc[of slot] computePreviousRunAtMs_before[OF Some] by (force simp: list_all_iff)
    then show ?thesis
      using Some computePreviousRunAtMs_before[OF Some] by (simp del: computePreviousRunAtMs.simps)
  qed
qed simp

lemma cron_loop_down: "sorted_wrt (\<lambda>a b. b \<le> a) (cron_loop n X sc jobId fromMs cursor)"
proof (induction n arbitrary: cursor)
  case (Suc n)
  show ?case
  proof (cases "computePreviousRunAtMs X sc cursor jobId")
    case None
    then show ?thesis by (simp del: computePreviousRunAtMs.simps)
  next
    case (Some slot)
    then show ?thesis
      using Suc[of slot] cron_loop_bounds[where n = n and X = X and sc = sc and jobId = jobId and fromMs = fromMs and cursor = slot]
      by (simp add: list_all_iff del: computePreviousRunAtMs.simps)
  qed
qed simp

lemma enumerate_down: "sorted_wrt (\<lambda>a b. b \<le> a) (enumerateElapsedSlots X s jobId fromMs toMs)"
  by (auto simp: enumerateElapsedSlots_def gridSlots_def Let_def grid_loop_down cron_loop_down
      simp del: grid_loop.simps cron_loop.simps split: schedule.split option.split)

lemma shouldRecord_mark: "t \<le> slot \<Longrightarrow> \<not> shouldRecord (mark cur i slot) i t"
  by (auto simp: shouldRecord_def mark_def split: option.splits if_splits)

lemma missed_loop_none:
  assumes "list_all (\<lambda>t. \<not> shouldRecord cur (j_id job) t) slots"
  shows "missed_loop appendOk job session truncated oldest slots cur = (cur, [])"
  using assms by (induction slots) auto

lemma missed_loop_one:
  "sorted_wrt (\<lambda>a b. b \<le> a) slots \<Longrightarrow> length (snd (missed_loop appendOk job session truncated oldest slots cur)) \<le> 1"
proof (induction slots arbitrary: cur)
  case (Cons slot slots)
  have "missed_loop appendOk job session truncated oldest slots (mark cur (j_id job) slot) = (mark cur (j_id job) slot, [])"
    using Cons.prems by (intro missed_loop_none) (auto simp: list_all_iff shouldRecord_mark)
  then show ?case
    using Cons by simp
qed simp

lemma missed_loop_jobs:
  "r \<in> set (snd (missed_loop appendOk job session truncated oldest slots cur)) \<Longrightarrow> sr_jobId r = j_id job"
proof (induction slots arbitrary: cur)
  case (Cons slot slots)
  show ?case
    using Cons.prems Cons.IH[of cur] Cons.IH[of "mark cur (j_id job) slot"]
    by (auto simp: missed_receipt_def split: if_splits prod.splits)
qed simp

lemma downtime_job_one: "length (snd (downtime_job X appendOk occs now session job cur)) \<le> 1"
proof -
  have "sorted_wrt (\<lambda>a b. b \<le> a) (tl (enumerateElapsedSlots X s i f t))" for s i f t
    using enumerate_down[of X s i f t] by (cases "enumerateElapsedSlots X s i f t") auto
  then show ?thesis
    by (auto simp: downtime_job_def Let_def missed_loop_one[unfolded One_nat_def] split: option.split)
qed

lemma downtime_job_receipts: "r \<in> set (snd (downtime_job X appendOk occs now session job cur)) \<Longrightarrow> sr_jobId r = j_id job"
  by (auto simp: downtime_job_def Let_def missed_loop_jobs split: option.splits if_splits)

lemma accountDowntime_one:
  assumes "distinct (map j_id jobs)"
  shows "length (filter (\<lambda>r. sr_jobId r = i) (snd (accountDowntimeSlots X appendOk occs now session jobs cur))) \<le> 1
    \<and> (\<forall>r \<in> set (snd (accountDowntimeSlots X appendOk occs now session jobs cur)). sr_jobId r \<in> j_id ` set jobs)"
  using assms
proof (induction jobs arbitrary: cur)
  case (Cons job jobs)
  obtain cur1 first where f: "downtime_job X appendOk occs now session job cur = (cur1, first)"
    by (cases "downtime_job X appendOk occs now session job cur")
  obtain cur2 rest where r: "accountDowntimeSlots X appendOk occs now session jobs cur1 = (cur2, rest)"
    by (cases "accountDowntimeSlots X appendOk occs now session jobs cur1")
  have first: "length first \<le> 1" "\<And>x. x \<in> set first \<Longrightarrow> sr_jobId x = j_id job"
    using downtime_job_one[of X appendOk occs now session job cur]
      downtime_job_receipts[of _ X appendOk occs now session job cur] f by auto
  have rest: "length (filter (\<lambda>r. sr_jobId r = i) rest) \<le> 1" "\<forall>x \<in> set rest. sr_jobId x \<in> j_id ` set jobs"
    using Cons.IH[of cur1] Cons.prems r by auto
  have "length (filter (\<lambda>r. sr_jobId r = i) (first @ rest)) \<le> 1"
  proof (cases "i = j_id job")
    case True
    have "i \<notin> j_id ` set jobs" using True Cons.prems by simp
    have "sr_jobId x \<noteq> i" if "x \<in> set rest" for x
      using \<open>i \<notin> j_id ` set jobs\<close> bspec[OF rest(2) that] by blast
    then have "filter (\<lambda>r. sr_jobId r = i) rest = []"
      by (simp add: filter_empty_conv)
    then show ?thesis
      using le_trans[OF length_filter_le first(1), of "\<lambda>r. sr_jobId r = i"] by simp
  next
    case False
    then have "filter (\<lambda>r. sr_jobId r = i) first = []"
      using first(2) by (auto simp: filter_empty_conv)
    then show ?thesis using rest(1) by simp
  qed
  then show ?case
    using f r first(2) rest(2) by auto
qed simp

text \<open>
  Without a stagger the newest elapsed slot of a cron schedule is not enumerated: the enumeration
  starts strictly before it, so that dropping its first element drops an older slot.
\<close>

lemma cron_enumeration_strict:
  assumes "stableStaggerOffsetMs jobId (resolveCronStaggerMs expr stagger) = 0"
  shows "list_all (\<lambda>s. s < toMs) (enumerateElapsedSlots X (Cron expr tz stagger) jobId fromMs toMs)"
proof -
  have before: "computePreviousRunAtMs X (Cron expr tz stagger) c jobId = Some s \<Longrightarrow> s < c" for c s
    using assms by (auto split: option.splits if_splits)
  have "list_all (\<lambda>s. s < c) (cron_loop n X (Cron expr tz stagger) jobId fromMs c)" for n c
  proof (induction n arbitrary: c)
    case (Suc n)
    show ?case
    proof (cases "computePreviousRunAtMs X (Cron expr tz stagger) c jobId")
      case None
      then show ?thesis by (simp del: computePreviousRunAtMs.simps)
    next
      case (Some s)
      have "list_all (\<lambda>x. x < c) (cron_loop n X (Cron expr tz stagger) jobId fromMs s)"
        using Suc[of s] before[OF Some] by (auto simp: list_all_iff)
      then show ?thesis
        using Some before[OF Some] by (simp del: computePreviousRunAtMs.simps)
    qed
  qed simp
  then show ?thesis
    by (simp add: enumerateElapsedSlots_def del: cron_loop.simps)
qed

subsection \<open>Admission failures\<close>

definition is_hex_char :: "char \<Rightarrow> bool" where
  "is_hex_char c \<longleftrightarrow> is_lower_hex c"

text \<open>The identifier \<^verbatim>\<open>/invalid retry predecessor for (occ:[0-9a-f]+)/\<close> captures.\<close>

fun predecessor_match :: "string \<Rightarrow> string option" where
  "predecessor_match [] = None"
| "predecessor_match (c # cs) =
    (let marker = ''invalid retry predecessor for occ:''; text = c # cs;
         digits = takeWhile is_hex_char (drop (length marker) text)
     in if take (length marker) text = marker \<and> digits \<noteq> [] then Some (''occ:'' @ digits)
        else predecessor_match cs)"

datatype failure_scope = Job_Local | Global

record admission_failure =
  af_code :: "string option"
  af_jobId :: "string option"
  af_causeMessage :: string

definition classifyAdmissionFailure :: "admission_failure \<Rightarrow> candidate \<Rightarrow> failure_scope" where
  "classifyAdmissionFailure e c =
    (if af_code e = Some ''OCCURRENCE_STRUCTURED_COLLISION'' \<or> af_code e = Some ''OCCURRENCE_PAYLOAD_CONFLICT''
     then (if af_jobId e = None \<or> af_jobId e = Some (j_id (cd_job c)) then Job_Local else Global)
     else case predecessor_match (af_causeMessage e) of
       None \<Rightarrow> Global
     | Some named \<Rightarrow>
         if cd_kind c = Retry \<and> (deriveOccurrenceId (j_id (cd_job c)) (j_scheduleRevision (cd_job c)) Retry None
                (cd_retryOf c) None = Inr named \<or> Some named = cd_retryOf c)
         then Job_Local else Global)"

text \<open>The failure a thrown error of the reservation presents to the classification.\<close>

definition failure_of :: "candidate \<Rightarrow> js_error \<Rightarrow> admission_failure" where
  "failure_of c e = (case e of
     Coded_Error code m \<Rightarrow> \<lparr>af_code = Some code, af_jobId = (if code = ''OCCURRENCE_STRUCTURED_COLLISION''
        then Some (j_id (cd_job c)) else None), af_causeMessage = m\<rparr>
   | _ \<Rightarrow> \<lparr>af_code = None, af_jobId = None, af_causeMessage = error_text e\<rparr>)"

text \<open>The receipt of a retry candidate has no slot; its identity is the derived occurrence.\<close>

record retry_receipt =
  rt_jobId :: string
  rt_occurrenceId :: "string res"
  rt_retryOf :: "string option"
  rt_classification :: string
  rt_reason :: string

definition recordRetryAdmissionFailure ::
    "bool \<Rightarrow> candidate \<Rightarrow> string \<Rightarrow> string \<Rightarrow> string list \<Rightarrow> string list \<times> retry_receipt list" where
  "recordRetryAdmissionFailure ok c classification' reason noted =
    (let key = j_id (cd_job c) @ '':'' @ text_or (cd_retryOf c) ''undefined'' @ '':'' @ classification' in
     if key \<in> set noted then (noted, [])
     else if ok then (key # noted, [\<lparr>rt_jobId = j_id (cd_job c),
        rt_occurrenceId = deriveOccurrenceId (j_id (cd_job c)) (j_scheduleRevision (cd_job c)) Retry None (cd_retryOf c) None,
        rt_retryOf = cd_retryOf c, rt_classification = classification', rt_reason = take 300 reason\<rparr>])
     else (noted, []))"

definition recordStaleSupersession :: "bool \<Rightarrow> job \<Rightarrow> retry_candidate \<Rightarrow> string list \<Rightarrow> string list \<times> bool" where
  "recordStaleSupersession ok job retry noted =
    (let key = j_id job @ '':'' @ int_str (o_scheduleRevision (rc_terminal retry)) @ ''->'' @ int_str (j_scheduleRevision job)
     in if key \<in> set noted then (noted, False) else if ok then (key # noted, True) else (noted, False))"

end
