(* ===== verification/Tick.thy ===== *)
theory Tick
  imports AutoReconcile SlotAccounting "HOL-Library.Sublist"
begin

section \<open>The tick of the scheduler\<close>

text \<open>
  \<^verbatim>\<open>packages/scheduler/src/scheduler.js\<close> and the readback consultation of \<^verbatim>\<open>occurrence.js\<close>: loading the
  document, consulting the router for unknown outcomes, choosing one candidate per job, and reserving
  the candidates one after the other. The engine holds its lease throughout; the clock, the number of
  runs in progress and the readbacks are the environment.
\<close>

subsection \<open>Loading\<close>

text \<open>A job that no longer validates is dropped from the engine's copy; the file keeps it.\<close>

definition loadJobs :: "ext \<Rightarrow> norm_opts \<Rightarrow> job list \<Rightarrow> job list" where
  "loadJobs X opts jobs = concat (map (\<lambda>j. case normalize_job X opts (job_val j) of Inr j' \<Rightarrow> [j'] | Inl _ \<Rightarrow> []) jobs)"

definition loadEngine :: "ext \<Rightarrow> norm_opts \<Rightarrow> sdoc option \<Rightarrow> sdoc res" where
  "loadEngine X opts disk = rbind (loadDoc disk) (\<lambda>d. Inr (d\<lparr>s_jobs := loadJobs X opts (s_jobs d)\<rparr>))"

subsection \<open>Choosing candidates\<close>

datatype tick_action = Wait | Skip string "int option" | Mint candidate

definition retry_mint :: "job \<Rightarrow> retry_candidate \<Rightarrow> candidate" where
  "retry_mint job rc = \<lparr>cd_kind = Retry, cd_job = job, cd_nominal = None, cd_retryOf = Some (rc_retryOf rc), cd_catchUp = None\<rparr>"

definition natural_mint :: "job \<Rightarrow> int option \<Rightarrow> candidate" where
  "natural_mint job nominal = \<lparr>cd_kind = Natural, cd_job = job, cd_nominal = nominal, cd_retryOf = None, cd_catchUp = None\<rparr>"

definition catchup_mint :: "job \<Rightarrow> int option \<Rightarrow> candidate" where
  "catchup_mint job nominal = \<lparr>cd_kind = Catchup, cd_job = job, cd_nominal = None, cd_retryOf = None, cd_catchUp = nominal\<rparr>"

text \<open>The flag is the receipt of a retry that expired with a change of the schedule revision.\<close>

definition tickDecision :: "ext \<Rightarrow> int \<Rightarrow> int \<Rightarrow> sdoc \<Rightarrow> job \<Rightarrow> (bool \<times> tick_action) option" where
  "tickDecision X grace nowMs d job =
    (if \<not> j_enabled job then Some (False, Wait)
     else if fenced (s_fences d) (j_id job) then Some (False, Skip ''fenced (outcome_unknown in flight)'' None)
     else if hasNonTerminalOccurrence (s_occurrences d) (j_id job)
     then Some (False, Skip ''non-terminal occurrence in flight'' None)
     else do {
       retry \<leftarrow> retryCandidate job (s_occurrences d) nowMs;
       let natural = naturalCandidate X job (s_occurrences d) nowMs grace;
           otherwise = (if nc_due natural then Mint (natural_mint job (nc_nominal natural))
             else Skip (nc_reason natural) (nc_nominal natural))
       in Some (case retry of
         None \<Rightarrow> (False, otherwise)
       | Some rc \<Rightarrow>
           if \<not> rc_exhausted rc then (False, if rc_due rc then Mint (retry_mint job rc) else Wait)
           else (rc_staleRevision rc, otherwise))
     })"

fun tickCandidates :: "ext \<Rightarrow> int \<Rightarrow> int \<Rightarrow> sdoc \<Rightarrow> job list \<Rightarrow> candidate list option" where
  "tickCandidates X grace nowMs d [] = Some []"
| "tickCandidates X grace nowMs d (job # jobs) = do {
     decision \<leftarrow> tickDecision X grace nowMs d job;
     rest \<leftarrow> tickCandidates X grace nowMs d jobs;
     Some (case snd decision of Mint c \<Rightarrow> c # rest | _ \<Rightarrow> rest)
   }"

text \<open>\<^verbatim>\<open>_startupCatchup\<close>: at most the newest missed slot of each job.\<close>

definition catchupDecision :: "ext \<Rightarrow> int \<Rightarrow> int \<Rightarrow> sdoc \<Rightarrow> job \<Rightarrow> candidate option" where
  "catchupDecision X grace nowMs d job =
    (if \<not> j_enabled job \<or> fenced (s_fences d) (j_id job) \<or> hasNonTerminalOccurrence (s_occurrences d) (j_id job) then None
     else let natural = naturalCandidate X job (s_occurrences d) nowMs grace
          in if nc_due natural then Some (catchup_mint job (nc_nominal natural)) else None)"

subsection \<open>Reserving the candidates\<close>

text \<open>
  One mutation: the validated document and the value, or the document as it was and the error.
\<close>

definition commit :: "sdoc \<Rightarrow> (sdoc \<times> 'v) res \<Rightarrow> sdoc \<times> 'v res" where
  "commit d step = (case rbind step (\<lambda>(d', v). rbind (validateDocument d') (\<lambda>d''. Inr (d'', v))) of
     Inl e \<Rightarrow> (d, Inl e) | Inr (d', v) \<Rightarrow> (d', Inr v))"

text \<open>
  The result of the pass: the records to run, the refusals, and the error that stopped the tick, if any.
\<close>

record pass =
  ps_doc :: sdoc
  ps_fired :: "occurrence list"
  ps_refused :: "(candidate \<times> string) list"
  ps_isolated :: "(candidate \<times> js_error) list"
  ps_error :: "js_error option"

definition pass_start :: "sdoc \<Rightarrow> pass" where
  "pass_start d = \<lparr>ps_doc = d, ps_fired = [], ps_refused = [], ps_isolated = [], ps_error = None\<rparr>"

definition admitOne :: "ext \<Rightarrow> (string \<Rightarrow> string option) \<Rightarrow> int \<Rightarrow> int \<Rightarrow> candidate \<Rightarrow> pass \<Rightarrow> pass" where
  "admitOne X notRunnable grace now c p =
    (case commit (ps_doc p) (reserveOccurrence X notRunnable grace now c (ps_doc p)) of
       (d, Inr (Reserved r)) \<Rightarrow> p\<lparr>ps_doc := d, ps_fired := ps_fired p @ [r]\<rparr>
     | (d, Inr (Deduped r)) \<Rightarrow> p\<lparr>ps_doc := d\<rparr>
     | (d, Inr (Refused reason)) \<Rightarrow> p\<lparr>ps_doc := d, ps_refused := ps_refused p @ [(c, reason)]\<rparr>
     | (d, Inl e) \<Rightarrow>
         if e \<noteq> No_Return \<and> classifyAdmissionFailure (failure_of c e) c = Job_Local
         then p\<lparr>ps_isolated := ps_isolated p @ [(c, e)]\<rparr> else p\<lparr>ps_error := Some e\<rparr>)"

text \<open>
  \<open>busy k\<close> is the number of runs in progress when the \<open>k\<close>-th candidate is considered, \<open>clock k\<close> the
  instant its reservation reads under the lock.
\<close>

fun admitLoop ::
    "ext \<Rightarrow> (string \<Rightarrow> string option) \<Rightarrow> int \<Rightarrow> (nat \<Rightarrow> int) \<Rightarrow> (nat \<Rightarrow> nat) \<Rightarrow> nat \<Rightarrow> nat \<Rightarrow> candidate list \<Rightarrow> pass \<Rightarrow> pass" where
  "admitLoop X notRunnable grace clock busy concurrency k [] p = p"
| "admitLoop X notRunnable grace clock busy concurrency k (c # cs) p =
    (if ps_error p \<noteq> None \<or> concurrency \<le> busy k then p
     else admitLoop X notRunnable grace clock busy concurrency (Suc k) cs
            (admitOne X notRunnable grace (clock k) c p))"

subsection \<open>Consulting the router\<close>

definition exact_evidence :: "rec_identity \<Rightarrow> int \<Rightarrow> rec_evidence" where
  "exact_evidence i nowMs = \<lparr>re_identity = i, re_trusted = True, re_fresh = True, re_source = ''router-current-readback'',
     re_observedAt = Some nowMs, re_status = None, re_terminated = None, re_live = None\<rparr>"

definition readback_bundle :: "occurrence \<Rightarrow> string \<Rightarrow> int \<Rightarrow> rec_bundle" where
  "readback_bundle r disposition nowMs =
    (let i = \<lparr>ri_jobId = o_jobId r, ri_occurrenceId = o_occurrenceId r, ri_runId = o_runId r, ri_epoch = requestIdFor r\<rparr>;
         e = exact_evidence i nowMs
     in \<lparr>rb_identity = i,
         rb_business = (if disposition = ''late_completed'' then Some (e\<lparr>re_status := Some ''succeeded''\<rparr>)
           else if disposition = ''late_failed'' then Some (e\<lparr>re_status := Some ''failed''\<rparr>) else None),
         rb_termination = (if disposition = ''terminated_without_outcome''
           then Some (e\<lparr>re_terminated := Some True\<rparr>) else None),
         rb_live = (if disposition = ''pending'' then Some (e\<lparr>re_live := Some True\<rparr>) else None)\<rparr>)"

definition readback_outcome :: "string option \<Rightarrow> string \<Rightarrow> string option \<Rightarrow> outcome" where
  "readback_outcome handle source evidence = \<lparr>oc_status = [], oc_error = None, oc_timedOut = False, oc_started = None,
     oc_routerEnvelope = None, oc_terminationEvidence = None, oc_evidenceTermination = evidence,
     oc_evidenceSource = Some source, oc_evidenceReceipt = None, oc_handle = handle, oc_summary = None\<rparr>"

text \<open>
  \<^verbatim>\<open>settleFromReadback\<close>: the value tells what the dispatch chose. A settlement that fails is logged and
  the document stays.
\<close>

definition settleFromReadback :: "ext \<Rightarrow> int \<Rightarrow> router_result option \<Rightarrow> occurrence \<Rightarrow> sdoc \<Rightarrow> sdoc \<times> string option" where
  "settleFromReadback X nowMs result r d =
    (let classified = classifyRouter result r (o_ownerAgentId r);
         (call, rec) = dispatchReconciliation (readback_bundle r (rd_disposition classified) nowMs) nowMs
           DEFAULT_RECONCILIATION_EVIDENCE_MAX_AGE_MS
     in case call of
          Settle_Nothing \<Rightarrow> (d, None)
        | Settle_Business cls \<Rightarrow>
            (fst (commit d (applyLateSettlement X nowMs \<lparr>w_record = r, w_started = False\<rparr>
               (if cls = ''RECONCILED_SUCCESS'' then Succeeded else Failed)
               (''trusted router readback: exact late business outcome ('' @ rd_disposition classified @ '')'')
               (readback_outcome (rd_handle classified) ''router-current-readback'' None) ''late-settlement'' d)), Some cls)
        | Settle_Termination \<Rightarrow>
            (case trustedTerminationProof (readback_outcome (rd_handle classified) ''router_disposition_readback''
                   (case rd_snapshot classified of Some s \<Rightarrow> rs_terminationEvidence s | None \<Rightarrow> None)) of
               None \<Rightarrow> (d, Some ''TERMINATION_ONLY_SETTLED'')
             | Some p \<Rightarrow> (fst (commit d (applyTerminationSettlement X nowMs r p d)), Some ''TERMINATION_ONLY_SETTLED'')))"

type_synonym consults = "(string \<times> int) list"

fun readback_loop ::
    "ext \<Rightarrow> int \<Rightarrow> int \<Rightarrow> (occurrence \<Rightarrow> router_result option) \<Rightarrow> nat \<Rightarrow> occurrence list \<Rightarrow> consults \<Rightarrow> sdoc \<Rightarrow>
     consults \<times> sdoc" where
  "readback_loop X nowMs interval readback settled [] consulted d = (consulted, d)"
| "readback_loop X nowMs interval readback settled (r # rs) consulted d =
    (if 20 \<le> settled then (consulted, d)
     else if (case map_of consulted (o_occurrenceId r) of Some at' \<Rightarrow> nowMs - at' < interval | None \<Rightarrow> False)
     then readback_loop X nowMs interval readback settled rs consulted d
     else case settleFromReadback X nowMs (readback r) r d of
       (d', chosen) \<Rightarrow> readback_loop X nowMs interval readback (if chosen = None then settled else Suc settled) rs
          ((o_occurrenceId r, nowMs) # consulted) d')"

definition reconcileTrustedReadbacks ::
    "ext \<Rightarrow> int \<Rightarrow> int \<Rightarrow> (occurrence \<Rightarrow> router_result option) option \<Rightarrow> sdoc \<Rightarrow> consults \<Rightarrow> sdoc \<Rightarrow> consults \<times> sdoc" where
  "reconcileTrustedReadbacks X nowMs interval readback engineDoc consulted d = (case readback of
     None \<Rightarrow> (consulted, d)
   | Some ask \<Rightarrow> readback_loop X nowMs interval ask 0
        (sort_key o_admittedAt (filter (\<lambda>r. isUnresolvedUnknown r \<and> findJob (s_jobs engineDoc) (o_jobId r) \<noteq> None)
           (s_occurrences engineDoc)))
        (filter (\<lambda>(i, at'). nowMs - at' < interval) consulted) d)"

subsection \<open>One candidate per job\<close>

lemma tickDecision_mint:
  assumes "tickDecision X grace now d job = Some (b, Mint c)"
  shows "cd_job c = job" "j_enabled job" "\<not> fenced (s_fences d) (j_id job)"
    "\<not> hasNonTerminalOccurrence (s_occurrences d) (j_id job)"
    and "cd_kind c = Retry \<and> (\<exists>rc. retryCandidate job (s_occurrences d) now = Some (Some rc) \<and> \<not> rc_exhausted rc
          \<and> rc_due rc \<and> cd_retryOf c = Some (rc_retryOf rc))
      \<or> cd_kind c = Natural \<and> nc_due (naturalCandidate X job (s_occurrences d) now grace)
          \<and> cd_nominal c = nc_nominal (naturalCandidate X job (s_occurrences d) now grace)"
proof -
  have g: "j_enabled job" "\<not> fenced (s_fences d) (j_id job)" "\<not> hasNonTerminalOccurrence (s_occurrences d) (j_id job)"
    using assms by (auto simp: tickDecision_def split: if_splits)
  obtain retry where r: "retryCandidate job (s_occurrences d) now = Some retry"
    using assms g by (cases "retryCandidate job (s_occurrences d) now") (simp_all add: tickDecision_def)
  let ?n = "naturalCandidate X job (s_occurrences d) now grace"
  have "cd_job c = job \<and> (cd_kind c = Retry \<and> (\<exists>rc. retry = Some rc \<and> \<not> rc_exhausted rc
          \<and> rc_due rc \<and> cd_retryOf c = Some (rc_retryOf rc))
      \<or> cd_kind c = Natural \<and> nc_due ?n \<and> cd_nominal c = nc_nominal ?n)"
  proof (cases retry)
    case None
    then show ?thesis
      using assms g r by (cases "nc_due ?n") (auto simp: tickDecision_def Let_def natural_mint_def)
  next
    case (Some rc)
    then show ?thesis
      using assms g r
      by (cases "rc_exhausted rc"; cases "nc_due ?n"; cases "rc_due rc")
        (auto simp: tickDecision_def Let_def natural_mint_def retry_mint_def)
  qed
  then show "cd_job c = job"
    and "cd_kind c = Retry \<and> (\<exists>rc. retryCandidate job (s_occurrences d) now = Some (Some rc) \<and> \<not> rc_exhausted rc
          \<and> rc_due rc \<and> cd_retryOf c = Some (rc_retryOf rc))
      \<or> cd_kind c = Natural \<and> nc_due ?n \<and> cd_nominal c = nc_nominal ?n"
    using r by auto
  show "j_enabled job" "\<not> fenced (s_fences d) (j_id job)" "\<not> hasNonTerminalOccurrence (s_occurrences d) (j_id job)"
    by (rule g)+
qed

lemma tickCandidates_members:
  assumes "tickCandidates X grace now d jobs = Some cs" and "c \<in> set cs"
  shows "cd_job c \<in> set jobs \<and> (\<exists>b. tickDecision X grace now d (cd_job c) = Some (b, Mint c))"
  using assms
proof (induction jobs arbitrary: cs)
  case (Cons job jobs)
  then obtain b a rest where r: "tickDecision X grace now d job = Some (b, a)" "tickCandidates X grace now d jobs = Some rest"
      "cs = (case a of Mint c \<Rightarrow> c # rest | _ \<Rightarrow> rest)"
    by (auto simp: bind_eq_Some_conv)
  show ?case
  proof (cases "c \<in> set rest")
    case True
    then show ?thesis using Cons.IH[OF r(2)] by auto
  next
    case False
    then have "a = Mint c" using r(3) Cons.prems(2) by (auto split: tick_action.splits)
    then show ?thesis using r(1) tickDecision_mint(1) by fastforce
  qed
qed simp

lemma tickCandidates_jobs:
  assumes "tickCandidates X grace now d jobs = Some cs" and "distinct (map j_id jobs)"
  shows "distinct (map (\<lambda>c. j_id (cd_job c)) cs)"
  using assms
proof (induction jobs arbitrary: cs)
  case (Cons job jobs)
  then obtain b a rest where r: "tickDecision X grace now d job = Some (b, a)" "tickCandidates X grace now d jobs = Some rest"
      "cs = (case a of Mint c \<Rightarrow> c # rest | _ \<Rightarrow> rest)"
    by (auto simp: bind_eq_Some_conv)
  have "distinct (map (\<lambda>c. j_id (cd_job c)) rest)"
    using Cons.IH[OF r(2)] Cons.prems(2) by simp
  moreover have "j_id (cd_job c) \<in> j_id ` set jobs" if "c \<in> set rest" for c
    using tickCandidates_members[OF r(2) that] by blast
  moreover have "a = Mint c \<Longrightarrow> cd_job c = job" for c
    using r(1) tickDecision_mint(1) by fastforce
  ultimately show ?case
    using r(3) Cons.prems(2) by (fastforce split: tick_action.splits)
qed simp

subsection \<open>The invariant through a tick\<close>

lemma commit_cases:
  "commit d step = (d', v) \<Longrightarrow> (\<exists>e. v = Inl e) \<and> d' = d \<or> (\<exists>x. v = Inr x \<and> step = Inr (d', x) \<and> valid_doc d')"
  by (auto simp: commit_def rbind_eq_Inr validateDocument_iff split: sum.splits prod.splits)

lemma commit_keeps:
  assumes "engine_inv now d" and "\<And>d' v. step = Inr (d', v) \<Longrightarrow> engine_inv now d'"
  shows "engine_inv now (fst (commit d step))"
  using commit_cases[of d step] assms by (cases "commit d step") auto

lemma reserve_jobs:
  assumes "reserveOccurrence X nr grace now c d = Inr (d', v)"
  shows "s_jobs d' = s_jobs d"
proof (cases v)
  case (Reserved r)
  from assms[unfolded Reserved] show ?thesis by (rule reserve_Reserved) simp
qed (use assms in \<open>auto simp: reserveOccurrence_def rbind_eq_Inr split: option.splits if_splits\<close>)

lemma reserved_job:
  assumes "reserveOccurrence X nr grace now c d = Inr (d', Reserved r)"
  shows "o_jobId r = j_id (cd_job c)"
proof -
  from assms obtain job where "findJob (s_jobs d) (j_id (cd_job c)) = Some job" "buildFor X job c now = Inr r"
    by (rule reserve_Reserved) blast
  then show ?thesis
    using build_fields(1) findJob_Some by (fastforce simp: buildFor_def)
qed

lemma admitOne_keeps:
  assumes "engine_inv clock (ps_doc p)" and "clock \<le> now" and "list_all wf_ids (s_jobs (ps_doc p))"
  shows "engine_inv now (ps_doc (admitOne X nr grace now c p))"
    and "s_jobs (ps_doc (admitOne X nr grace now c p)) = s_jobs (ps_doc p)"
    and "\<exists>fired. ps_fired (admitOne X nr grace now c p) = ps_fired p @ fired
      \<and> (fired = [] \<or> (\<exists>r. fired = [r] \<and> o_jobId r = j_id (cd_job c) \<and> r \<in> set (s_occurrences (ps_doc (admitOne X nr grace now c p)))))"
proof -
  let ?d = "ps_doc p"
  let ?step = "reserveOccurrence X nr grace now c ?d"
  obtain d' v where c: "commit ?d ?step = (d', v)"
    by (cases "commit ?d ?step")
  have keep: "engine_inv now d'"
    using commit_keeps[of now ?d ?step] engine_inv_later[OF assms(1,2)] reserve_keeps[OF assms(1,2) _ assms(3)] c
    by fastforce
  have jobs: "s_jobs d' = s_jobs ?d"
    using commit_cases[OF c] reserve_jobs by blast
  have fired: "r \<in> set (s_occurrences d') \<and> o_jobId r = j_id (cd_job c)" if "v = Inr (Reserved r)" for r
  proof -
    have "?step = Inr (d', Reserved r)"
      using commit_cases[OF c] that by blast
    then show ?thesis
      using reserved_job by (auto elim: reserve_Reserved)
  qed
  have err: "v = Inl e \<Longrightarrow> d' = ?d" for e
    using commit_cases[OF c] by blast
  show "engine_inv now (ps_doc (admitOne X nr grace now c p))"
    and "s_jobs (ps_doc (admitOne X nr grace now c p)) = s_jobs (ps_doc p)"
    and "\<exists>fired. ps_fired (admitOne X nr grace now c p) = ps_fired p @ fired
      \<and> (fired = [] \<or> (\<exists>r. fired = [r] \<and> o_jobId r = j_id (cd_job c) \<and> r \<in> set (s_occurrences (ps_doc (admitOne X nr grace now c p)))))"
    using keep jobs fired err by (auto simp: admitOne_def c split: sum.split reserved.split)
qed

lemma admitLoop_keeps:
  assumes "mono clock" and "engine_inv (clock k) (ps_doc p)" and "list_all wf_ids (s_jobs (ps_doc p))"
  shows "engine_inv (clock (k + length cs)) (ps_doc (admitLoop X nr grace clock busy conc k cs p))
    \<and> s_jobs (ps_doc (admitLoop X nr grace clock busy conc k cs p)) = s_jobs (ps_doc p)
    \<and> (\<exists>fired. ps_fired (admitLoop X nr grace clock busy conc k cs p) = ps_fired p @ fired
        \<and> length fired \<le> length cs \<and> subseq (map o_jobId fired) (map (\<lambda>c. j_id (cd_job c)) cs))"
  using assms(2,3)
proof (induction cs arbitrary: k p)
  case (Cons c cs)
  show ?case
  proof (cases "ps_error p \<noteq> None \<or> conc \<le> busy k")
    case True
    have "clock k \<le> clock (k + length (c # cs))"
      using assms(1) by (rule monoD) simp
    then show ?thesis
      using True Cons.prems engine_inv_later by auto
  next
    case False
    let ?p = "admitOne X nr grace (clock k) c p"
    note one = admitOne_keeps[OF Cons.prems(1) order_refl Cons.prems(2), of X nr grace c]
    have "clock k \<le> clock (Suc k)"
      using assms(1) by (rule monoD) simp
    then have inv: "engine_inv (clock (Suc k)) (ps_doc ?p)"
      using one(1) engine_inv_later by blast
    have wf: "list_all wf_ids (s_jobs (ps_doc ?p))"
      using one(2) Cons.prems(2) by simp
    obtain f1 where f1: "ps_fired ?p = ps_fired p @ f1"
        "f1 = [] \<or> (\<exists>r. f1 = [r] \<and> o_jobId r = j_id (cd_job c) \<and> r \<in> set (s_occurrences (ps_doc ?p)))"
      using one(3) by blast
    note rest = Cons.IH[OF inv wf]
    obtain f2 where f2: "ps_fired (admitLoop X nr grace clock busy conc (Suc k) cs ?p) = ps_fired ?p @ f2"
        "length f2 \<le> length cs" "subseq (map o_jobId f2) (map (\<lambda>c. j_id (cd_job c)) cs)"
      using rest by blast
    have "subseq (map o_jobId (f1 @ f2)) (map (\<lambda>c. j_id (cd_job c)) (c # cs))" "length (f1 @ f2) \<le> length (c # cs)"
      using f1(2) f2(2,3) by auto
    then show ?thesis
      using False rest one(2) f1(1) f2(1) by (auto intro!: exI[of _ "f1 @ f2"])
  qed
qed auto

text \<open>A failure that concerns one candidate only does not stop the pass.\<close>

lemma admitLoop_isolates:
  assumes "reserveOccurrence X nr grace (clock k) c (ps_doc p) = Inl e" and "e \<noteq> No_Return"
    and "classifyAdmissionFailure (failure_of c e) c = Job_Local" and "ps_error p = None" and "busy k < conc"
  shows "admitLoop X nr grace clock busy conc k (c # cs) p
    = admitLoop X nr grace clock busy conc (Suc k) cs (p\<lparr>ps_isolated := ps_isolated p @ [(c, e)]\<rparr>)"
  using assms by (simp add: admitOne_def commit_def)

text \<open>The collisions a reservation throws always concern its own candidate.\<close>

lemma reserve_errors_local:
  assumes "reserveOccurrence X nr grace now c d = Inl e" and "retry_ordered (s_occurrences d)" and "known_kind (cd_kind c)"
    and "slot_for (cd_kind c) (cd_nominal c) (cd_retryOf c) (cd_catchUp c) \<noteq> No_Slot"
  shows "classifyAdmissionFailure (failure_of c e) c = Job_Local"
proof -
  have built: "\<exists>r. buildFor X job c now = Inr r" for job
    using assms(3,4) by (auto simp: buildFor_def buildOccurrenceRecord_def deriveOccurrenceId_def res_simps ensure_def)
  obtain r where r: "buildFor X (cd_job c) c now = Inr r" using built by blast
  show ?thesis
  proof (cases "findOccurrenceByCoords (s_occurrences d) (logicalCoordinates r)")
    case (Some q)
    then show ?thesis
      using assms(1) r by (auto simp: reserveOccurrence_def structuredCollisionError_def failure_of_def
          classifyAdmissionFailure_def split: if_splits)
  next
    case coords: None
    show ?thesis
    proof (cases "findOccurrenceById (s_occurrences d) (o_occurrenceId r)")
      case (Some q)
      then show ?thesis
        using assms(1) r coords by (auto simp: reserveOccurrence_def structuredCollisionError_def failure_of_def
          classifyAdmissionFailure_def)
    next
      case None
      have "reserve_refusal X grace now c d job \<noteq> Inl e'" for job e'
      proof -
        obtain v where "retryCandidate job (s_occurrences d) now = Some v"
          using retryCandidate_returns[OF assms(2), of job now] by blast
        then show ?thesis
          by (cases v) (simp_all add: reserve_refusal_def Let_def returns_def)
      qed
      then show ?thesis
        using assms(1) r coords None built
        by (auto simp: reserveOccurrence_def rbind_eq_Inl split: option.splits) (metis sum.distinct(1))
    qed
  qed
qed

subsection \<open>Consultations keep the invariant\<close>

lemma applyLateSettlement_keeps:
  assumes inv: "engine_inv clock d" and "clock \<le> now" and to: "isTerminalState to" "kind \<in> set terminal_evidence_kinds" "note' \<noteq> []"
    and step: "applyLateSettlement X now w to note' oc kind d = Inr (d', v)"
  shows "engine_inv now d'"
proof (cases "\<exists>r. findOccurrenceById (s_occurrences d) (o_occurrenceId (w_record w)) = Some r \<and> o_runId r = o_runId (w_record w)
    \<and> o_state r = Outcome_Unknown \<and> o_lateSettlement r = None")
  case True
  then obtain r where r: "findOccurrenceById (s_occurrences d) (o_occurrenceId (w_record w)) = Some r"
      "o_runId r = o_runId (w_record w)" "o_state r = Outcome_Unknown" "o_lateSettlement r = None" by blast
  show ?thesis
    by (rule applyLateSettlement_commits[OF inv assms(2) r to, of X oc]) (use step in simp)
next
  case False
  then have "applyLateSettlement X now w to note' oc kind d = Inr (d, None)"
    by (auto simp: applyLateSettlement_def Let_def split: option.split)
  then show ?thesis
    using step engine_inv_later[OF inv assms(2)] by simp
qed

lemma applyTerminationSettlement_keeps:
  assumes inv: "engine_inv clock d" and "clock \<le> now" and kind: "tp_evidenceKind p \<in> set TRUSTED_TERMINATION_EVIDENCE"
    and step: "applyTerminationSettlement X now r0 p d = Inr (d', v)"
  shows "engine_inv now d'"
proof (cases "v")
  case False
  have "d' = d"
    using step False by (auto simp: applyTerminationSettlement_def Let_def rbind_eq_Inr split: option.splits if_splits)
  then show ?thesis using engine_inv_later[OF inv assms(2)] by simp
next
  case True
  then obtain r where r: "findOccurrenceById (s_occurrences d) (o_occurrenceId r0) = Some r"
    using step by (cases "findOccurrenceById (s_occurrences d) (o_occurrenceId r0)") (simp_all add: applyTerminationSettlement_def)
  have g: "o_runId r = o_runId r0" "isUnresolvedUnknown r"
    using step True r by (auto simp: applyTerminationSettlement_def isUnresolvedUnknown_def split: if_splits)
  obtain job where job: "findJob (s_jobs d) (o_jobId r) = Some job"
    using step True r g by (cases "findJob (s_jobs d) (o_jobId r)")
      (simp_all add: applyTerminationSettlement_def isUnresolvedUnknown_def)
  have owner: "o_ownerAgentId r = Some (j_agentId job)"
    using step True r g job by (auto simp: applyTerminationSettlement_def isUnresolvedUnknown_def split: if_splits)
  show ?thesis
    by (rule applyTerminationSettlement_commits[OF inv assms(2) r g job owner kind, of X]) (use step in simp)
qed

lemma trustedTerminationProof_kind:
  "trustedTerminationProof oc = Some p \<Longrightarrow> tp_evidenceKind p \<in> set TRUSTED_TERMINATION_EVIDENCE"
  by (auto simp: trustedTerminationProof_def split: if_splits option.splits)

lemma late_evidence_facts:
  "isTerminalState Succeeded" "isTerminalState Failed" "''late-settlement'' \<in> set terminal_evidence_kinds"
  "''pre-start-rejection'' \<in> set terminal_evidence_kinds"
  by (simp_all add: isTerminalState_def terminal_evidence_kinds_def)

lemma settleLate_keeps:
  assumes inv: "engine_inv clock d" and "clock \<le> now" and step: "settleLate X now w oc d = Inr (d', v)"
  shows "engine_inv now d'"
proof (cases "watchLateSettlement oc")
  case Late_Nothing
  then show ?thesis
    using step engine_inv_later[OF inv assms(2)] by (simp add: settleLate_def)
next
  case (Late_Termination p)
  then have "tp_evidenceKind p \<in> set TRUSTED_TERMINATION_EVIDENCE"
    by (auto simp: watchLateSettlement_def trustedTerminationProof_kind split: if_splits option.splits)
  then show ?thesis
    using step Late_Termination applyTerminationSettlement_keeps[OF inv assms(2)] by (simp add: settleLate_def)
next
  case Late_Success
  then obtain x where "applyLateSettlement X now w Succeeded ''invoker late terminal success after timeout'' oc
      ''late-settlement'' d = Inr (d', x)"
    using step by (auto simp only: settleLate_def rbind_eq_Inr late_action.simps split_paired_all prod.case sum.inject prod.inject)
  then show ?thesis
    by (rule applyLateSettlement_keeps[OF inv assms(2) late_evidence_facts(1,3), rotated]) simp
next
  case (Late_Failure kind)
  then have kind: "kind \<in> set terminal_evidence_kinds"
    using late_evidence_facts(3,4) by (auto simp: watchLateSettlement_def split: if_splits option.splits)
  obtain x where "applyLateSettlement X now w Failed
      (''invoker late proven terminal failure after timeout: '' @ text_or (oc_error oc) []) oc kind d = Inr (d', x)"
    using step Late_Failure by (auto simp only: settleLate_def rbind_eq_Inr late_action.simps split_paired_all prod.case sum.inject prod.inject)
  then show ?thesis
    by (rule applyLateSettlement_keeps[OF inv assms(2) late_evidence_facts(2) kind, rotated]) simp
qed

lemma settleFromReadback_keeps:
  assumes inv: "engine_inv now d"
  shows "engine_inv now (fst (settleFromReadback X now result r d))"
proof -
  let ?cl = "classifyRouter result r (o_ownerAgentId r)"
  let ?call = "fst (dispatchReconciliation (readback_bundle r (rd_disposition ?cl) now) now
     DEFAULT_RECONCILIATION_EVIDENCE_MAX_AGE_MS)"
  let ?proof = "trustedTerminationProof (readback_outcome (rd_handle ?cl) ''router_disposition_readback''
     (case rd_snapshot ?cl of Some s \<Rightarrow> rs_terminationEvidence s | None \<Rightarrow> None))"
  note late = applyLateSettlement_keeps[OF inv order_refl _ late_evidence_facts(3)]
  show ?thesis
  proof (cases ?call)
    case Settle_Nothing
    then show ?thesis
      using inv by (simp add: settleFromReadback_def Let_def case_prod_beta)
  next
    case (Settle_Business cls)
    have step: "engine_inv now (fst (commit d (applyLateSettlement X now w st (''t'' @ n) q ''late-settlement'' d)))"
      if "isTerminalState st" for w :: run and st :: occ_state and n :: string and q :: outcome
      by (rule commit_keeps[OF inv], rule late[OF that]) simp_all
    show ?thesis
      using Settle_Business by (simp add: settleFromReadback_def Let_def case_prod_beta
        step[OF late_evidence_facts(1), simplified] step[OF late_evidence_facts(2), simplified])
  next
    case Settle_Termination
    show ?thesis
    proof (cases ?proof)
      case None
      then show ?thesis
        using inv Settle_Termination by (simp add: settleFromReadback_def Let_def case_prod_beta)
    next
      case (Some p)
      note settled = applyTerminationSettlement_keeps[OF inv order_refl trustedTerminationProof_kind[OF Some]]
      show ?thesis
        using Settle_Termination Some
        by (simp add: settleFromReadback_def Let_def case_prod_beta commit_keeps[OF inv settled])
    qed
  qed
qed

lemma readback_loop_keeps:
  "engine_inv now d \<Longrightarrow> engine_inv now (snd (readback_loop X now interval ask n rs consulted d))"
proof (induction rs arbitrary: n consulted d)
  case (Cons r rs)
  obtain d' chosen where s: "settleFromReadback X now (ask r) r d = (d', chosen)"
    by (cases "settleFromReadback X now (ask r) r d")
  have "engine_inv now d'"
    using settleFromReadback_keeps[OF Cons.prems, of X "ask r" r] s by simp
  then show ?case
    using Cons s by simp
qed simp

lemma reconcileTrustedReadbacks_keeps:
  "engine_inv now d \<Longrightarrow> engine_inv now (snd (reconcileTrustedReadbacks X now interval readback e consulted d))"
  by (auto simp: reconcileTrustedReadbacks_def readback_loop_keeps split: option.split)

end
