(* ===== verification/Growth.thy ===== *)
theory Growth
  imports Tick
begin

section \<open>The ledger only grows\<close>

text \<open>
  Across every operation the occurrences stay where they are: none is removed or reordered, new ones are
  appended, a record keeps its identity and its history as a prefix, moves only along the transitions of
  the state machine, and is frozen once its state is terminal. None of this needs the invariant of the
  engine; it is read off the operations.
\<close>

definition advances :: "occurrence \<Rightarrow> occurrence \<Rightarrow> bool" where
  "advances r r' \<longleftrightarrow> same_identity r r' \<and> prefix (o_history r) (o_history r')
     \<and> canTransition\<^sup>*\<^sup>* (o_state r) (o_state r') \<and> (isTerminalState (o_state r) \<longrightarrow> r' = r)"

definition grows :: "occurrence list \<Rightarrow> occurrence list \<Rightarrow> bool" where
  "grows occs occs' \<longleftrightarrow> (\<exists>old fresh. occs' = old @ fresh \<and> list_all2 advances occs old
     \<and> list_all (\<lambda>r. o_state r = Admitted) fresh)"

lemma same_identity_trans: "same_identity r r1 \<Longrightarrow> same_identity r1 r2 \<Longrightarrow> same_identity r r2"
  by (simp add: same_identity_def)

lemma advances_refl [simp]: "advances r r"
  by (simp add: advances_def)

lemma advances_trans: "advances r r1 \<Longrightarrow> advances r1 r2 \<Longrightarrow> advances r r2"
  unfolding advances_def by (metis same_identity_trans prefix_order.trans rtranclp_trans)

lemma advances_list_refl [simp]: "list_all2 advances occs occs"
  by (simp add: list.rel_refl)

lemma grows_refl [simp, intro]: "grows occs occs"
  unfolding grows_def by (rule exI[of _ occs], rule exI[of _ "[]"]) simp

lemma advances_all2: "list_all2 advances occs occs' \<Longrightarrow> grows occs occs'"
  unfolding grows_def by (rule exI[of _ occs'], rule exI[of _ "[]"]) simp

lemma grows_append: "o_state r = Admitted \<Longrightarrow> grows occs (occs @ [r])"
  unfolding grows_def by (rule exI[of _ occs], rule exI[of _ "[r]"]) simp

lemma advances_all2_trans:
  "list_all2 advances xs ys \<Longrightarrow> list_all2 advances ys zs \<Longrightarrow> list_all2 advances xs zs"
  by (rule list_all2_trans[OF advances_trans])

text \<open>
  Records admitted in between may have moved on, so the composition only knows that they came after.
\<close>

definition extends :: "occurrence list \<Rightarrow> occurrence list \<Rightarrow> bool" where
  "extends occs occs' \<longleftrightarrow> (\<exists>old fresh. occs' = old @ fresh \<and> list_all2 advances occs old)"

lemma grows_extends: "grows occs occs' \<Longrightarrow> extends occs occs'"
  by (auto simp: grows_def extends_def)

lemma extends_refl [simp, intro]: "extends occs occs"
  by (rule grows_extends) simp

lemma extends_trans:
  assumes "extends xs ys" and "extends ys zs"
  shows "extends xs zs"
proof -
  obtain o1 f1 where 1: "ys = o1 @ f1" "list_all2 advances xs o1"
    using assms(1) by (auto simp: extends_def)
  obtain o2 f2 where 2: "zs = o2 @ f2" "list_all2 advances (o1 @ f1) o2"
    using assms(2) 1(1) by (auto simp: extends_def)
  then obtain a b where 3: "o2 = a @ b" "list_all2 advances o1 a"
    by (auto simp: list_all2_append1)
  then show ?thesis
    using 1(2) 2(1) advances_all2_trans unfolding extends_def by (intro exI[of _ a] exI[of _ "b @ f2"]) auto
qed

lemma extends_member:
  assumes "extends occs occs'" and "r \<in> set occs"
  obtains r' where "r' \<in> set occs'" "advances r r'"
proof -
  obtain old fresh where g: "occs' = old @ fresh" "list_all2 advances occs old"
    using assms(1) by (auto simp: extends_def)
  obtain i where i: "i < length occs" "occs ! i = r"
    using assms(2) by (auto simp: in_set_conv_nth)
  then have "old ! i \<in> set occs'" "advances r (old ! i)"
    using g list_all2_lengthD[OF g(2)] list_all2_nthD[OF g(2)] by auto
  then show thesis by (rule that)
qed

lemma extends_ids: "extends occs occs' \<Longrightarrow> prefix (map o_occurrenceId occs) (map o_occurrenceId occs')"
proof -
  assume "extends occs occs'"
  then obtain old fresh where g: "occs' = old @ fresh" "list_all2 advances occs old"
    by (auto simp: extends_def)
  from g(2) have "map o_occurrenceId old = map o_occurrenceId occs"
    by (induction rule: list_all2_induct) (auto simp: advances_def same_identity_def)
  then show ?thesis by (simp add: g(1))
qed

subsection \<open>Moves\<close>

lemma advances_move:
  assumes "canTransition (o_state r) (t_to t)"
  shows "advances r (move t r)"
proof -
  have "\<not> isTerminalState (o_state r)"
    using assms by (auto simp: isTerminalState_def)
  then show ?thesis
    using assms by (auto simp: advances_def move_def same_identity_def)
qed

lemma advances_applied: "applyTransition t r = Inr r' \<Longrightarrow> advances r r'"
  by (auto simp: applyTransition_Inr advances_move split: if_splits)

lemma advances_annotate:
  assumes "isUnresolvedUnknown r"
  shows "advances r (record_fence_after b (annotate s reason r))"
  using assms by (simp add: advances_def same_identity_def record_fence_after_def annotate_def isUnresolvedUnknown_def
      isTerminalState_def)

lemma advances_fence_after:
  assumes "advances r r'" and "\<not> isTerminalState (o_state r)"
  shows "advances r (record_fence_after b r')"
  using assms by (simp add: advances_def same_identity_def record_fence_after_def)

lemma advances_put:
  assumes "findOccurrenceById occs i = Some r" and "advances r r'"
  shows "list_all2 advances occs (putOccurrence i r' occs)"
  using assms unfolding findOccurrenceById_def putOccurrence_def
  by (induction occs) (auto split: if_splits)

lemma grows_put:
  "findOccurrenceById occs i = Some r \<Longrightarrow> advances r r' \<Longrightarrow> grows occs (putOccurrence i r' occs)"
  by (rule advances_all2) (rule advances_put)

lemma grows_put_applied:
  "findOccurrenceById occs i = Some r \<Longrightarrow> applyTransition t r = Inr r' \<Longrightarrow> grows occs (putOccurrence i r' occs)"
  by (rule grows_put[OF _ advances_applied])

subsection \<open>Every operation grows the ledger\<close>

lemma reserve_grows:
  assumes "reserveOccurrence X nr grace now c d = Inr (d', v)"
  shows "grows (s_occurrences d) (s_occurrences d')"
proof (cases v)
  case (Reserved r)
  from assms[unfolded Reserved] show ?thesis
    by (rule reserve_Reserved) (auto simp: buildFor_def intro!: grows_append build_fields(4))
qed (use assms in \<open>auto simp: reserveOccurrence_def rbind_eq_Inr split: option.splits if_splits\<close>)

lemma markRunning_grows: "markRunning at' w d = Inr (d', v) \<Longrightarrow> grows (s_occurrences d) (s_occurrences d')"
  by (auto simp: markRunning_def rbind_eq_Inr intro: grows_put_applied split: option.splits if_splits)

lemma applyJobCompletion_occurrences: "applyJobCompletion X r now d = Inr (d', v) \<Longrightarrow> s_occurrences d' = s_occurrences d"
  by (auto simp: applyJobCompletion_def Let_def rbind_eq_Inr split: option.splits if_splits)

lemma applyLateCompletion_occurrences: "applyLateCompletion X r now d = Inr d' \<Longrightarrow> s_occurrences d' = s_occurrences d"
  by (auto simp: applyLateCompletion_def Let_def rbind_eq_Inr split: option.splits if_splits)

lemma writeOutcome_cases:
  assumes "writeOccurrenceOutcome X now w cl ds d = Inr (d', v)"
  obtains r r1 r2 where "findOccurrenceById (s_occurrences d) (o_occurrenceId (w_record w)) = Some r"
    "(if needs_start w r (cl_state cl) then applyTransition (start_transition r (cl_state cl) now) r else Inr r) = Inr r1"
    "applyTransition (outcome_transition w r1 cl ds now) r1 = Inr r2"
    "applyJobCompletion X r2 now (d\<lparr>s_occurrences := putOccurrence (o_occurrenceId (w_record w)) r2 (s_occurrences d)\<rparr>) = Inr (d', v)"
proof -
  obtain r where r: "findOccurrenceById (s_occurrences d) (o_occurrenceId (w_record w)) = Some r"
    using assms by (cases "findOccurrenceById (s_occurrences d) (o_occurrenceId (w_record w))")
      (simp_all add: writeOccurrenceOutcome_def)
  then show thesis
    using assms that[OF r] unfolding writeOccurrenceOutcome_def Let_def
    by (auto simp only: option.case rbind_eq_Inr if_True if_False sum.inject split: if_split_asm)
qed

lemma writeOutcome_grows:
  assumes "writeOccurrenceOutcome X now w cl ds d = Inr (d', v)"
  shows "grows (s_occurrences d) (s_occurrences d')"
  using assms
proof (rule writeOutcome_cases)
  fix r r1 r2
  assume r: "findOccurrenceById (s_occurrences d) (o_occurrenceId (w_record w)) = Some r"
    and r1: "(if needs_start w r (cl_state cl) then applyTransition (start_transition r (cl_state cl) now) r else Inr r) = Inr r1"
    and r2: "applyTransition (outcome_transition w r1 cl ds now) r1 = Inr r2"
    and done': "applyJobCompletion X r2 now (d\<lparr>s_occurrences := putOccurrence (o_occurrenceId (w_record w)) r2 (s_occurrences d)\<rparr>) = Inr (d', v)"
  have "advances r r1"
    using r1 by (auto intro: advances_applied split: if_splits)
  then have "advances r r2"
    using advances_applied[OF r2] advances_trans by blast
  then show ?thesis
    using grows_put[OF r] applyJobCompletion_occurrences[OF done'] by simp
qed

lemma applyLateSettlement_grows:
  assumes "applyLateSettlement X now w to note' oc kind d = Inr (d', v)"
  shows "grows (s_occurrences d) (s_occurrences d')"
proof (cases "findOccurrenceById (s_occurrences d) (o_occurrenceId (w_record w))")
  case None
  then show ?thesis using assms by (simp add: applyLateSettlement_def)
next
  case (Some r)
  then show ?thesis
    using assms unfolding applyLateSettlement_def Let_def
    by (auto simp: rbind_eq_Inr intro: grows_put_applied dest!: applyLateCompletion_occurrences split: if_splits)
qed

lemma settleTermination_grows:
  assumes "findOccurrenceById (s_occurrences d) i = Some r" and "isUnresolvedUnknown r"
  shows "grows (s_occurrences d) (s_occurrences (settleTermination i j s reason d))"
proof -
  have "list_all2 advances occs (update_first (\<lambda>x. o_occurrenceId x = i) (record_fence_after b)
      (update_first (\<lambda>x. o_occurrenceId x = i) (annotate s reason) occs))"
    if "findOccurrenceById occs i = Some r" for occs b
    using that assms(2) unfolding findOccurrenceById_def
    by (induction occs) (auto simp: annotate_def intro: advances_annotate[unfolded annotate_def] split: if_splits)
  then show ?thesis
    using assms(1) by (simp add: settleTermination_def Let_def advances_all2)
qed

lemma applyTerminationSettlement_grows:
  assumes "applyTerminationSettlement X now r0 p d = Inr (d', v)"
  shows "grows (s_occurrences d) (s_occurrences d')"
proof (cases "findOccurrenceById (s_occurrences d) (o_occurrenceId r0)")
  case None
  then show ?thesis using assms by (simp add: applyTerminationSettlement_def)
next
  case (Some r)
  then show ?thesis
    using assms unfolding applyTerminationSettlement_def Let_def
    by (auto simp: rbind_eq_Inr isUnresolvedUnknown_def intro!: settleTermination_grows split: if_splits option.splits)
qed

lemma settleLate_grows:
  assumes "settleLate X now w oc d = Inr (d', v)"
  shows "grows (s_occurrences d) (s_occurrences d')"
proof (cases "watchLateSettlement oc")
  case Late_Nothing
  then show ?thesis using assms by (simp add: settleLate_def)
next
  case (Late_Termination p)
  then show ?thesis using assms applyTerminationSettlement_grows by (simp add: settleLate_def)
next
  case Late_Success
  then show ?thesis
    using assms by (auto simp only: settleLate_def rbind_eq_Inr late_action.simps split_paired_all prod.case sum.inject
        prod.inject dest!: applyLateSettlement_grows)
next
  case (Late_Failure kind)
  then show ?thesis
    using assms by (auto simp only: settleLate_def rbind_eq_Inr late_action.simps split_paired_all prod.case sum.inject
        prod.inject dest!: applyLateSettlement_grows)
qed

lemma sweep_grows:
  assumes "sweepUnresolved X now d = Inr (d', v)"
  shows "grows (s_occurrences d) (s_occurrences d')"
proof -
  have "list_all2 (\<lambda>r r'. sweep_record now r = Inr r') (s_occurrences d) (s_occurrences d')"
    using assms by (auto simp: sweepUnresolved_def rbind_eq_Inr rmap_Inr)
  moreover have "sweep_record now r = Inr r' \<Longrightarrow> advances r r'" for r r'
    by (auto simp: sweep_record_def intro: advances_applied split: if_splits)
  ultimately show ?thesis
    by (intro advances_all2) (rule list.rel_mono_strong)
qed

lemma reconcile_settle_grows:
  assumes "reconcile_settle now operator to evidence r d = Inr d'"
    and found: "findOccurrenceById (s_occurrences d) (o_occurrenceId r) = Some r"
    and open': "if to = To_Terminated then isUnresolvedUnknown r else o_state r = Outcome_Unknown"
  shows "grows (s_occurrences d) (s_occurrences d')"
proof (cases "to = To_Terminated")
  case True
  then show ?thesis
    using assms by (auto simp: reconcile_settle_def Let_def intro!: settleTermination_grows split: option.splits if_splits)
next
  case False
  then obtain q b where q: "applyTransition (late_transition (late_state to) now (''operator reconcile: '' @ js_trim evidence)
      ''operator-reconcile'' (js_trim evidence) ''operator-reconcile'' (js_trim evidence)) r = Inr q"
    "s_occurrences d' = putOccurrence (o_occurrenceId r) (record_fence_after b q) (putOccurrence (o_occurrenceId r) q (s_occurrences d))"
    using assms(1) by (auto simp: reconcile_settle_def Let_def rbind_eq_Inr)
  have adv: "advances r q" by (rule advances_applied[OF q(1)])
  then have "o_occurrenceId q = o_occurrenceId r"
    by (simp add: advances_def same_identity_def)
  moreover have "advances r (record_fence_after b q)"
    using False open' by (intro advances_fence_after[OF adv]) (simp add: isTerminalState_def)
  ultimately show ?thesis
    using q(2) put_put[OF found] grows_put[OF found] by simp
qed

lemma reconcile_grows:
  assumes "reconcileOccurrence X now operator i runId to evidence d = Inr (d', v)"
  shows "grows (s_occurrences d) (s_occurrences d')"
proof (cases "findOccurrenceById (s_occurrences d) i")
  case None
  then show ?thesis using assms by (simp add: reconcileOccurrence_def split: if_splits)
next
  case (Some r)
  have i: "o_occurrenceId r = i" using findOccurrenceById_Some[OF Some] by simp
  consider "d' = d" | d1 js where "reconcile_settle now operator to evidence r d = Inr d1" "d' = d1\<lparr>s_jobs := js\<rparr>"
      "if to = To_Terminated then isUnresolvedUnknown r else o_state r = Outcome_Unknown"
    using assms Some unfolding reconcileOccurrence_def
    by (auto simp: rbind_eq_Inr Let_def split: if_splits)
  then show ?thesis
    by cases (use Some i reconcile_settle_grows in auto)
qed

lemma policy_grows:
  assumes "applyPolicySettlement X now actor dec reason h r d = Inr d'"
    and "findOccurrenceById (s_occurrences d) (o_occurrenceId r) = Some r" and "\<not> inapplicable (Some dec) r"
  shows "grows (s_occurrences d) (s_occurrences d')"
  using assms
  by (auto simp: applyPolicySettlement_def Let_def rbind_eq_Inr inapplicable_def
      intro: settleTermination_grows grows_put_applied split: auto_decision.splits)


lemma autoLoop_extends:
  assumes "autoLoop X now actor lookup ts d = Inr (d', v)"
  shows "extends (s_occurrences d) (s_occurrences d')"
  using assms
proof (induction ts arbitrary: d d' v)
  case (Cons t ts)
  show ?case
  proof (cases "findOccurrenceById (s_occurrences d) (at_occurrenceId t)")
    case None
    then show ?thesis using Cons by (auto simp: rbind_eq_Inr)
  next
    case (Some r)
    have found: "findOccurrenceById (s_occurrences d) (o_occurrenceId r) = Some r"
      using Some findOccurrenceById_Some[OF Some] by simp
    let ?ev = "evaluateAutoReconcileDecision (findJob (s_jobs d) (o_jobId r)) (Some r) (lookup r) now"
    show ?thesis
    proof (cases "o_runId r = at_runId t \<and> (\<exists>dec. au_decision ?ev = Some dec
        \<and> same_resolution dec (at_resolvedTo t) \<and> \<not> inapplicable (Some dec) r)")
      case False
      then show ?thesis
        using Cons Some by (auto simp: Let_def rbind_eq_Inr split: option.splits if_splits)
    next
      case True
      then obtain dec where dec: "au_decision ?ev = Some dec" "same_resolution dec (at_resolvedTo t)"
          "\<not> inapplicable (Some dec) r" by blast
      obtain d1 v' where d1: "applyPolicySettlement X now actor dec (au_reason ?ev) (au_handle ?ev) r d = Inr d1"
          "autoLoop X now actor lookup ts d1 = Inr (d', v')"
        using Cons.prems Some True dec by (auto simp: Let_def rbind_eq_Inr)
      show ?thesis
        using policy_grows[OF d1(1) found dec(3)] Cons.IH[OF d1(2)] grows_extends extends_trans by blast
    qed
  qed
qed simp

lemma autoReconcile_extends:
  assumes "autoReconcileOccurrences X now actor lookup ts d = Inr (d', v)"
  shows "extends (s_occurrences d) (s_occurrences d')"
  using assms by (auto simp: autoReconcileOccurrences_def rbind_eq_Inr dest!: autoLoop_extends split: if_splits option.splits)

lemma commit_extends:
  assumes "\<And>d' v. step = Inr (d', v) \<Longrightarrow> extends (s_occurrences d) (s_occurrences d')"
  shows "extends (s_occurrences d) (s_occurrences (fst (commit d step)))"
  using commit_cases[of d step] assms by (cases "commit d step") auto

lemma settleFromReadback_extends: "extends (s_occurrences d) (s_occurrences (fst (settleFromReadback X now result r d)))"
proof -
  have late: "extends (s_occurrences d) (s_occurrences (fst (commit d (applyLateSettlement X now w st n q k d))))" for w st n q k
    by (rule commit_extends) (rule grows_extends[OF applyLateSettlement_grows])
  have settled: "extends (s_occurrences d) (s_occurrences (fst (commit d (applyTerminationSettlement X now r p d))))" for p
    by (rule commit_extends) (rule grows_extends[OF applyTerminationSettlement_grows])
  show ?thesis
    unfolding settleFromReadback_def Let_def case_prod_beta
    by (auto simp: late settled split: settle_call.split option.split)
qed

lemma readback_loop_extends:
  "extends (s_occurrences d) (s_occurrences (snd (readback_loop X now interval ask n rs consulted d)))"
proof (induction rs arbitrary: n consulted d)
  case (Cons r rs)
  obtain d' chosen where s: "settleFromReadback X now (ask r) r d = (d', chosen)"
    by (cases "settleFromReadback X now (ask r) r d")
  have "extends (s_occurrences d) (s_occurrences d')"
    using settleFromReadback_extends[of d X now "ask r" r] s by simp
  from extends_trans[OF this Cons.IH] show ?case
    using Cons.IH s by simp
qed simp

lemma reconcileTrustedReadbacks_extends:
  "extends (s_occurrences d) (s_occurrences (snd (reconcileTrustedReadbacks X now interval readback e consulted d)))"
  by (auto simp: reconcileTrustedReadbacks_def readback_loop_extends split: option.split)

end
