(* ===== verification/System.thy ===== *)
theory System
  imports Growth
begin

section \<open>The scheduler as a transition system\<close>

text \<open>
  The engine, the control surfaces and the reconcilers share nothing but the store. A state is the
  latest instant any of them has used and the document on disk; a step is one mutation of the store,
  with whatever outcome the write had, or one consultation of the router. The reachable states are
  those of every interleaving of the components, with crashes between and during the writes.
\<close>

subsection \<open>Running one occurrence\<close>

text \<open>
  \<^verbatim>\<open>runOccurrence\<close> from the outcome of the invocation on: classify, deliver, write back, and settle on a
  trusted proof of termination. \<^verbatim>\<open>None\<close> is an invocation that threw. An exception before the end of the
  write-back, also one that follows a write that reached the disk, makes the crash guard write an unknown
  outcome; what goes wrong while the guard writes, or while the termination is settled, is only logged.
  The three writes meet the disk with an outcome each (an I/O error, a lock that is not obtained, an
  acknowledgement that is lost); the others that use the store in between are the steps of the system below.
\<close>

definition crash_class :: "string \<Rightarrow> classification" where
  "crash_class message = unknown_class (''engine crash guard: '' @ message)"

definition applyTrustedTermination :: "ext \<Rightarrow> int \<Rightarrow> occurrence \<Rightarrow> outcome \<Rightarrow> sdoc \<Rightarrow> (sdoc \<times> bool) res" where
  "applyTrustedTermination X nowMs r oc d = (case trustedTerminationProof oc of
     None \<Rightarrow> Inr (d, False)
   | Some p \<Rightarrow> rbind (applyTerminationSettlement X nowMs r p d) (\<lambda>(d', _). Inr (d', True)))"

definition finishRun :: "ext \<Rightarrow> int \<Rightarrow> run \<Rightarrow> outcome \<Rightarrow> bool \<Rightarrow> delivery_mode \<Rightarrow> sdoc \<Rightarrow> (sdoc \<times> bool) res" where
  "finishRun X nowMs w oc deliverOk mode d =
    (let cl = classifyOccurrenceOutcome (w_started w) oc
     in writeOccurrenceOutcome X nowMs w cl (deliverOccurrence deliverOk mode (cl_state cl)) d)"

definition crashGuard :: "ext \<Rightarrow> int \<Rightarrow> run \<Rightarrow> string \<Rightarrow> sdoc \<Rightarrow> (sdoc \<times> bool) res" where
  "crashGuard X nowMs w message d = writeOccurrenceOutcome X nowMs w (crash_class message) ''unknown'' d"

definition runOccurrence ::
    "ext \<Rightarrow> int \<Rightarrow> run \<Rightarrow> outcome option \<Rightarrow> bool \<Rightarrow> delivery_mode \<Rightarrow> write_outcome \<times> write_outcome \<times> write_outcome
     \<Rightarrow> sdoc option \<Rightarrow> sdoc option \<times> occ_state" where
  "runOccurrence X nowMs w invocation deliverOk mode writes disk =
    (let (w_back, w_settle, w_crash) = writes;
         crashed = (\<lambda>disk1. (fst (mutateDoc w_crash disk1 (crashGuard X nowMs w ''run crashed'')), Outcome_Unknown))
     in case invocation of
          None \<Rightarrow> crashed disk
        | Some oc \<Rightarrow>
            (case mutateDoc w_back disk (finishRun X nowMs w oc deliverOk mode) of
               (disk1, Not_Committed e) \<Rightarrow> crashed disk1
             | (disk1, Ack_Lost d v e) \<Rightarrow> crashed disk1
             | (disk1, Committed d v) \<Rightarrow>
                 if cl_state (classifyOccurrenceOutcome (w_started w) oc) \<noteq> Outcome_Unknown
                 then (disk1, cl_state (classifyOccurrenceOutcome (w_started w) oc))
                 else (fst (mutateDoc w_settle disk1 (applyTrustedTermination X nowMs (w_record w) oc)), Outcome_Unknown)))"

subsection \<open>Commands\<close>

text \<open>
  Every mutation of the store by the engine, the control operations, the operator and the policy. A
  fresh identifier (\<^verbatim>\<open>randomUUID\<close>) is part of the command that needs one.
\<close>

datatype command =
  Reserve candidate
| Start run
| Finish run outcome bool delivery_mode
| Crash run string
| Terminate occurrence outcome
| Late run outcome
| Recover
| Create string jval
| Clone string "job \<Rightarrow> js_error option" string "int \<times> int" jval
| Update string "job \<Rightarrow> js_error option" "job \<Rightarrow> jval \<Rightarrow> jval" "(int \<times> int) option" string jval
| Enable "job \<Rightarrow> js_error option" "(int \<times> int) option" string
| Disable "job \<Rightarrow> js_error option" "(int \<times> int) option" string
| Delete "job \<Rightarrow> js_error option" "(int \<times> int) option" string
| Submit string jval
| Operator_Reconcile string string string resolution string
| Auto_Reconcile string "(occurrence \<Rightarrow> auto_evidence option) option" "auto_target list"

definition opts_at :: "int \<Rightarrow> string \<Rightarrow> norm_opts" where
  "opts_at now uuid = \<lparr>no_nowMs = now, no_id = None, no_createdAtMs = None, no_uuid = uuid\<rparr>"

definition doc_of :: "(sdoc \<times> 'v) res \<Rightarrow> (sdoc \<times> unit) res" where
  "doc_of r = rbind r (\<lambda>(d, _). Inr (d, ()))"

text \<open>The seams of the engine: the check that an agent is runnable, and the grace of a one-shot job.\<close>

record seams =
  sm_ext :: ext
  sm_notRunnable :: "string \<Rightarrow> string option"
  sm_grace :: int

fun perform :: "seams \<Rightarrow> int \<Rightarrow> command \<Rightarrow> sdoc \<Rightarrow> (sdoc \<times> unit) res" where
  "perform S now (Reserve c) d = doc_of (reserveOccurrence (sm_ext S) (sm_notRunnable S) (sm_grace S) now c d)"
| "perform S now (Start w) d = markRunning now w d"
| "perform S now (Finish w oc ok mode) d = doc_of (finishRun (sm_ext S) now w oc ok mode d)"
| "perform S now (Crash w message) d = doc_of (crashGuard (sm_ext S) now w message d)"
| "perform S now (Terminate r oc) d = doc_of (applyTrustedTermination (sm_ext S) now r oc d)"
| "perform S now (Late w oc) d = doc_of (settleLate (sm_ext S) now w oc d)"
| "perform S now Recover d = doc_of (sweepUnresolved (sm_ext S) now d)"
| "perform S now (Create uuid input) d = doc_of (createOrReconcileJob (sm_ext S) (opts_at now uuid) input d)"
| "perform S now (Clone uuid a src e input) d = doc_of (cloneDisabledJob (sm_ext S) (opts_at now uuid) a src e input d)"
| "perform S now (Update uuid a b e i patch) d = doc_of (updateJob (sm_ext S) (opts_at now uuid) a b e i patch d)"
| "perform S now (Enable a e i) d = enableJob (sm_ext S) now a e i d"
| "perform S now (Disable a e i) d = doc_of (disableJobOp (sm_ext S) now a e i d)"
| "perform S now (Delete a e i) d = deleteJob a e i d"
| "perform S now (Submit uuid input) d = doc_of (submitOneShot (sm_ext S) (opts_at now uuid) input d)"
| "perform S now (Operator_Reconcile operator i runId to evidence) d =
     doc_of (reconcileOccurrence (sm_ext S) now operator i runId to evidence d)"
| "perform S now (Auto_Reconcile actor lookup targets) d =
     doc_of (autoReconcileOccurrences (sm_ext S) now actor lookup targets d)"

text \<open>
  Fresh identifiers are not empty, the operator has a name, and a revision stays a safe integer.
\<close>

fun genuine :: "command \<Rightarrow> sdoc \<Rightarrow> bool" where
  "genuine (Create uuid _) d \<longleftrightarrow> uuid \<noteq> []"
| "genuine (Clone uuid _ _ _ _) d \<longleftrightarrow> uuid \<noteq> []"
| "genuine (Submit uuid _) d \<longleftrightarrow> uuid \<noteq> []"
| "genuine (Update _ _ _ _ _ _) d \<longleftrightarrow> list_all (\<lambda>j. is_safe_int (j_scheduleRevision j + 1)) (s_jobs d)"
| "genuine (Operator_Reconcile operator _ _ _ _) d \<longleftrightarrow> operator \<noteq> []"
| "genuine _ d \<longleftrightarrow> True"

lemma doc_of_Inr [simp]: "doc_of r = Inr (d, u) \<longleftrightarrow> (\<exists>v. r = Inr (d, v))"
  by (cases r) (auto simp: doc_of_def)

record sys =
  y_clock :: int
  y_disk :: "sdoc option"

inductive sys_step :: "seams \<Rightarrow> sys \<Rightarrow> sys \<Rightarrow> bool" for S where
  mutation: "y_clock s \<le> now \<Longrightarrow> genuine cmd (disk_doc (y_disk s)) \<Longrightarrow>
    mutateDoc w (y_disk s) (perform S now cmd) = (disk', m) \<Longrightarrow>
    sys_step S s \<lparr>y_clock = now, y_disk = disk'\<rparr>"
| consultation: "y_clock s \<le> now \<Longrightarrow> y_disk s = Some d \<Longrightarrow>
    reconcileTrustedReadbacks (sm_ext S) now interval readback view consulted d = (consulted', d') \<Longrightarrow>
    sys_step S s \<lparr>y_clock = now, y_disk = Some d'\<rparr>"

inductive_cases sys_stepE: "sys_step S s s'"

text \<open>Every history starts from a missing file.\<close>

inductive reachable :: "seams \<Rightarrow> sys \<Rightarrow> bool" for S where
  start: "reachable S \<lparr>y_clock = t, y_disk = None\<rparr>"
| step: "reachable S s \<Longrightarrow> sys_step S s s' \<Longrightarrow> reachable S s'"

subsection \<open>The jobs of the document\<close>

definition kept_jobs :: "job list \<Rightarrow> job list \<Rightarrow> bool" where
  "kept_jobs js js' \<longleftrightarrow> (\<forall>j' \<in> set js'. \<exists>j \<in> set js.
     j_id j' = j_id j \<and> j_agentId j' = j_agentId j \<and> j_scheduleRevision j' = j_scheduleRevision j)"

lemma kept_refl [simp]: "kept_jobs js js"
  by (auto simp: kept_jobs_def)

lemma kept_trans: "kept_jobs a b \<Longrightarrow> kept_jobs b c \<Longrightarrow> kept_jobs a c"
  unfolding kept_jobs_def by metis

lemma kept_wf: "kept_jobs js js' \<Longrightarrow> list_all wf_ids js \<Longrightarrow> list_all wf_ids js'"
  unfolding kept_jobs_def list_all_iff wf_ids_def by metis

lemma kept_remove [simp]: "kept_jobs js (removeJob i js)"
  using set_remove_first by (fastforce simp: kept_jobs_def removeJob_def)

lemma kept_replace:
  assumes "\<And>j. j_id (f j) = j_id j \<and> j_agentId (f j) = j_agentId j \<and> j_scheduleRevision (f j) = j_scheduleRevision j"
  shows "kept_jobs js (replaceFirst i f js)"
  using assms set_update_first[of _ "\<lambda>j. j_id j = i" f js] unfolding kept_jobs_def replaceFirst_def by metis

lemma kept_disable [simp]: "kept_jobs js (replaceFirst i disableJob js)"
  by (rule kept_replace) (simp add: disableJob_def)

lemma kept_stamp [simp]: "kept_jobs js (replaceFirst i (\<lambda>j. j\<lparr>j_enabled := b, j_updatedAtMs := t\<rparr>) js)"
  by (rule kept_replace) simp

lemma kept_refresh:
  assumes "refreshStates X which occs now js = Inr js'"
  shows "kept_jobs js js'"
proof -
  have "list_all2 (\<lambda>j j'. (if which j then refreshJob X occs now j else Inr j) = Inr j') js js'"
    using assms by (simp add: refreshStates_def rmap_Inr)
  then show ?thesis
    by (induction rule: list_all2_induct)
      (fastforce simp: kept_jobs_def refreshJob_def rbind_eq_Inr split: if_splits)+
qed

text \<open>The engine and the reconcilers never change the identity, the owner or the revision of a job.\<close>

definition keeps_jobs :: "sdoc \<Rightarrow> sdoc \<Rightarrow> bool" where
  "keeps_jobs d d' \<longleftrightarrow> kept_jobs (s_jobs d) (s_jobs d')"

lemma keeps_refl [simp]: "keeps_jobs d d"
  by (simp add: keeps_jobs_def)

lemma keeps_trans: "keeps_jobs a b \<Longrightarrow> keeps_jobs b c \<Longrightarrow> keeps_jobs a c"
  unfolding keeps_jobs_def by (rule kept_trans)

lemma markRunning_jobs: "markRunning at' w d = Inr (d', v) \<Longrightarrow> keeps_jobs d d'"
  by (auto simp: markRunning_def keeps_jobs_def rbind_eq_Inr split: option.splits if_splits)

lemma applyJobCompletion_jobs: "applyJobCompletion X r now d = Inr (d', v) \<Longrightarrow> keeps_jobs d d'"
  by (auto simp: applyJobCompletion_def Let_def rbind_eq_Inr keeps_jobs_def dest!: kept_refresh
      intro: kept_trans[OF kept_disable] split: option.splits if_splits)

lemma applyLateCompletion_jobs: "applyLateCompletion X r now d = Inr d' \<Longrightarrow> keeps_jobs d d'"
  by (auto simp: applyLateCompletion_def Let_def rbind_eq_Inr keeps_jobs_def dest!: kept_refresh
      intro: kept_trans[OF kept_disable] kept_trans[OF kept_remove] split: option.splits if_splits)

lemma writeOutcome_jobs:
  assumes "writeOccurrenceOutcome X now w cl ds d = Inr (d', v)"
  shows "keeps_jobs d d'"
  using assms by (rule writeOutcome_cases) (auto simp: keeps_jobs_def dest!: applyJobCompletion_jobs)

lemma applyLateSettlement_jobs: "applyLateSettlement X now w to note' oc kind d = Inr (d', v) \<Longrightarrow> keeps_jobs d d'"
  unfolding applyLateSettlement_def Let_def
  by (auto simp: rbind_eq_Inr keeps_jobs_def dest!: applyLateCompletion_jobs split: option.splits if_splits)

lemma settleTermination_jobs [simp]: "s_jobs (settleTermination i j s reason d) = s_jobs d"
  by (simp add: settleTermination_def Let_def)

lemma applyTerminationSettlement_jobs: "applyTerminationSettlement X now r0 p d = Inr (d', v) \<Longrightarrow> keeps_jobs d d'"
  unfolding applyTerminationSettlement_def Let_def
  by (auto simp: rbind_eq_Inr keeps_jobs_def dest!: kept_refresh intro: kept_trans[OF kept_stamp]
      split: option.splits if_splits)

lemma settleLate_jobs: "settleLate X now w oc d = Inr (d', v) \<Longrightarrow> keeps_jobs d d'"
  by (auto simp only: settleLate_def rbind_eq_Inr split_paired_all prod.case sum.inject prod.inject
      dest!: applyLateSettlement_jobs applyTerminationSettlement_jobs split: late_action.splits)
    (simp_all add: keeps_jobs_def)

lemma sweep_jobs: "sweepUnresolved X now d = Inr (d', v) \<Longrightarrow> keeps_jobs d d'"
  by (auto simp: sweepUnresolved_def rbind_eq_Inr keeps_jobs_def dest!: kept_refresh)

lemma late_one_shot_jobs: "kept_jobs js (late_one_shot to i js)"
  by (auto simp: late_one_shot_def split: option.split)

lemma reconcile_settle_jobs: "reconcile_settle now operator to evidence r d = Inr d' \<Longrightarrow> keeps_jobs d d'"
  by (auto simp: reconcile_settle_def Let_def rbind_eq_Inr keeps_jobs_def split: if_splits option.splits)

lemma reconcile_jobs:
  assumes "reconcileOccurrence X now operator i runId to evidence d = Inr (d', v)"
  shows "keeps_jobs d d'"
proof -
  consider "d' = d" | r d1 js where "reconcile_settle now operator to evidence r d = Inr d1"
      "refreshStates X (\<lambda>_. True) (s_occurrences d1) now (s_jobs d1) = Inr js"
      "d' = d1\<lparr>s_jobs := late_one_shot to (o_jobId r) js\<rparr>"
    using assms unfolding reconcileOccurrence_def
    by (auto simp: rbind_eq_Inr Let_def split: if_splits option.splits)
  then show ?thesis
  proof cases
    case 2
    have "kept_jobs (s_jobs d) (s_jobs d1)"
      using reconcile_settle_jobs[OF 2(1)] by (simp add: keeps_jobs_def)
    from kept_trans[OF kept_trans[OF this kept_refresh[OF 2(2)]] late_one_shot_jobs] show ?thesis
      using 2(3) by (simp add: keeps_jobs_def)
  qed simp
qed

lemma policy_jobs: "applyPolicySettlement X now actor dec reason h r d = Inr d' \<Longrightarrow> s_jobs d' = s_jobs d"
  by (auto simp: applyPolicySettlement_def Let_def rbind_eq_Inr split: auto_decision.splits)

lemma autoLoop_jobs: "autoLoop X now actor lookup ts d = Inr (d', v) \<Longrightarrow> s_jobs d' = s_jobs d"
proof (induction ts arbitrary: d d' v)
  case (Cons t ts)
  then show ?case
    by (auto simp: rbind_eq_Inr Let_def dest!: policy_jobs split: option.splits if_splits)
qed simp

lemma autoReconcile_jobs: "autoReconcileOccurrences X now actor lookup ts d = Inr (d', v) \<Longrightarrow> keeps_jobs d d'"
  by (auto simp: autoReconcileOccurrences_def rbind_eq_Inr keeps_jobs_def dest!: autoLoop_jobs kept_refresh
      split: if_splits option.splits)

lemma commit_jobs:
  assumes "\<And>d' v. step = Inr (d', v) \<Longrightarrow> keeps_jobs d d'"
  shows "keeps_jobs d (fst (commit d step))"
  using commit_cases[of d step] assms by (cases "commit d step") auto

lemma settleFromReadback_jobs: "keeps_jobs d (fst (settleFromReadback X now result r d))"
proof -
  have late: "keeps_jobs d (fst (commit d (applyLateSettlement X now w st n q k d)))" for w st n q k
    by (rule commit_jobs) (rule applyLateSettlement_jobs)
  have settled: "keeps_jobs d (fst (commit d (applyTerminationSettlement X now r p d)))" for p
    by (rule commit_jobs) (rule applyTerminationSettlement_jobs)
  show ?thesis
    unfolding settleFromReadback_def Let_def case_prod_beta
    by (auto simp: late settled split: settle_call.split option.split)
qed

lemma readback_loop_jobs: "keeps_jobs d (snd (readback_loop X now interval ask n rs consulted d))"
proof (induction rs arbitrary: n consulted d)
  case (Cons r rs)
  obtain d' chosen where s: "settleFromReadback X now (ask r) r d = (d', chosen)"
    by (cases "settleFromReadback X now (ask r) r d")
  have "keeps_jobs d d'"
    using settleFromReadback_jobs[of d X now "ask r" r] s by simp
  from keeps_trans[OF this Cons.IH] show ?case
    using Cons.IH s by simp
qed simp

lemma reconcileTrustedReadbacks_jobs: "keeps_jobs d (snd (reconcileTrustedReadbacks X now interval readback e consulted d))"
  by (auto simp: reconcileTrustedReadbacks_def readback_loop_jobs split: option.split)

subsection \<open>The jobs the control operations write are well-formed\<close>

lemma normalize_job_ids:
  assumes "normalize_job X opts v = Inr j" and "no_id opts \<noteq> Some []" and "no_uuid opts \<noteq> []"
  shows "wf_ids j"
proof -
  have safe: "safe_integer w \<Longrightarrow> is_safe_int (num_floor w)" for w
    by (cases w rule: safe_integer.cases) auto
  from normalize_job_parts[OF assms(1)] have p: "j_id j = job_id_for opts v"
      "wf_text (j_agentId j)"
      "(let rev = jget v ''scheduleRevision'' in (rev = JUndef \<or> safe_integer rev \<and> num_floor rev \<ge> 1)
          \<and> j_scheduleRevision j = (if rev = JUndef then 1 else num_floor rev))"
    by (auto dest: require_text_Inr)
  have "j_id j \<noteq> []"
    using assms(2,3) p(1) pred_nonempty_trim[of "jget v ''id''"]
    by (auto simp: job_id_for_def wf_text_def split: option.splits)
  moreover have "1 \<le> j_scheduleRevision j \<and> is_safe_int (j_scheduleRevision j)"
    using p(3) safe by (auto simp: Let_def is_safe_int_def max_safe_def)
  ultimately show ?thesis
    using p(2) by (simp add: wf_ids_def wf_text_def)
qed

lemma wf_ids_cong: "j_id a = j_id b \<Longrightarrow> j_agentId a = j_agentId b \<Longrightarrow> j_scheduleRevision a = j_scheduleRevision b
    \<Longrightarrow> wf_ids a = wf_ids b"
  by (simp add: wf_ids_def)

lemma refreshJob_wf: "refreshJob X occs now job = Inr j \<Longrightarrow> wf_ids j = wf_ids job"
  by (auto simp: refreshJob_def rbind_eq_Inr wf_ids_def)

lemma replace_wf:
  "list_all wf_ids js \<Longrightarrow> wf_ids job \<Longrightarrow> list_all wf_ids (replaceFirst i (\<lambda>_. job) js)"
  using set_update_first[of _ "\<lambda>j. j_id j = i" "\<lambda>_. job" js] by (auto simp: list_all_iff replaceFirst_def)

lemma insertJob_wf:
  "insertJob X job now d = Inr (d', v) \<Longrightarrow> wf_ids job \<Longrightarrow> list_all wf_ids (s_jobs d) \<Longrightarrow> list_all wf_ids (s_jobs d')"
  by (auto simp: insertJob_def rbind_eq_Inr refreshJob_wf split: if_splits)

lemma opts_at_fields [simp]: "no_id (opts_at now uuid) = None" "no_uuid (opts_at now uuid) = uuid" "no_nowMs (opts_at now uuid) = now"
  by (simp_all add: opts_at_def)

lemma create_wf:
  assumes "createOrReconcileJob X (opts_at now uuid) input d = Inr (d', v)" and "uuid \<noteq> []" and "list_all wf_ids (s_jobs d)"
  shows "list_all wf_ids (s_jobs d')"
proof -
  obtain job where job: "normalize_job X (opts_at now uuid) input = Inr job"
    using assms(1) by (auto simp: createOrReconcileJob_def rbind_eq_Inr)
  have "wf_ids job"
    using assms(2) by (intro normalize_job_ids[OF job]) simp_all
  then show ?thesis
    using assms(1,3) job by (auto simp: createOrReconcileJob_def insertJob_wf split: option.splits if_splits)
qed

lemma clone_wf:
  assumes "cloneDisabledJob X (opts_at now uuid) a src e input d = Inr (d', v)" and "uuid \<noteq> []" and "list_all wf_ids (s_jobs d)"
  shows "list_all wf_ids (s_jobs d')"
proof -
  obtain cloned where n: "normalize_job X (opts_at now uuid) (merge_obj input (JObj [(''enabled'', JBool False)])) = Inr cloned"
    using assms(1) by (cases "normalize_job X (opts_at now uuid) (merge_obj input (JObj [(''enabled'', JBool False)]))")
      (simp_all add: cloneDisabledJob_def)
  then have wf: "wf_ids cloned"
    using assms(2) by (intro normalize_job_ids[OF n]) simp_all
  have "wf_ids (cloned\<lparr>j_cloneProvenance := p\<rparr>)" for p
    using wf by (simp add: wf_ids_def)
  moreover obtain job where g: "guarded_job a (Some e) src d = Inr job"
    using assms(1) n by (cases "guarded_job a (Some e) src d") (simp_all add: cloneDisabledJob_def Let_def)
  ultimately show ?thesis
    using assms(1,3) n by (auto simp: cloneDisabledJob_def Let_def insertJob_wf split: option.splits if_splits)
qed

lemma guarded_member: "guarded_job a e i d = Inr job \<Longrightarrow> job \<in> set (s_jobs d) \<and> j_id job = i"
  by (auto simp: guarded_job_Inr dest: findJob_Some)

lemma update_wf:
  assumes step: "updateJob X (opts_at now uuid) a b e i patch d = Inr (d', v)"
    and safe: "list_all (\<lambda>j. is_safe_int (j_scheduleRevision j + 1)) (s_jobs d)" and wf: "list_all wf_ids (s_jobs d)"
  shows "list_all wf_ids (s_jobs d')"
proof -
  obtain current where g: "guarded_job a e i d = Inr current"
    using step by (auto simp: updateJob_def rbind_eq_Inr)
  obtain normalized stored where n:
      "normalize_job X ((opts_at now uuid)\<lparr>no_id := Some (j_id current), no_createdAtMs := Some (j_createdAtMs current)\<rparr>)
         (drop_field ''scheduleRevision'' (merge_obj (job_val current) (b current patch))) = Inr normalized"
      "refreshJob X (s_occurrences d) now (revised now current normalized) = Inr stored"
      "s_jobs d' = replaceFirst (j_id current) (\<lambda>_. stored) (s_jobs d)"
    using step g by (auto simp: updateJob_def rbind_eq_Inr Let_def)
  have c: "wf_ids current" "is_safe_int (j_scheduleRevision current + 1)"
    using guarded_member[OF g] wf safe by (auto simp: list_all_iff)
  from normalize_job_parts[OF n(1)] have "j_id normalized = j_id current" "wf_text (j_agentId normalized)"
    by (auto simp: job_id_for_def dest: require_text_Inr)
  then have "wf_ids (revised now current normalized)"
    using c by (auto simp: revised_def wf_ids_def wf_text_def)
  then show ?thesis
    using n(2,3) wf refreshJob_wf replace_wf by simp
qed

lemma enable_wf:
  assumes step: "enableJob X now a e i d = Inr (d', v)" and wf: "list_all wf_ids (s_jobs d)"
  shows "list_all wf_ids (s_jobs d')"
proof -
  obtain job where g: "guarded_job a e i d = Inr job"
    using step by (auto simp: enableJob_def rbind_eq_Inr)
  define job' where "job' = (if j_enabled job then job
    else job\<lparr>j_enabled := True, j_revisionActivatedAtMs := Some now\<rparr>)\<lparr>j_updatedAtMs := now\<rparr>"
  have "wf_ids job'"
    using guarded_member[OF g] wf by (auto simp: list_all_iff wf_ids_def job'_def)
  then have "list_all wf_ids (replaceFirst i (\<lambda>_. job') (s_jobs d))"
    by (rule replace_wf[OF wf])
  moreover obtain js where "refreshStates X (\<lambda>j. j_id j = i) (s_occurrences d) now (replaceFirst i (\<lambda>_. job') (s_jobs d)) = Inr js"
      "s_jobs d' = js"
    using step g unfolding enableJob_def Let_def rbind_eq_Inr job'_def by auto
  ultimately show ?thesis
    using kept_wf[OF kept_refresh] by simp
qed

lemma disable_wf:
  assumes step: "disableJobOp X now a e i d = Inr (d', v)" and wf: "list_all wf_ids (s_jobs d)"
  shows "list_all wf_ids (s_jobs d')"
proof -
  obtain job stored where g: "guarded_job a e i d = Inr job"
      "refreshJob X (s_occurrences d) now (job\<lparr>j_enabled := False, j_updatedAtMs := now\<rparr>) = Inr stored"
      "s_jobs d' = replaceFirst i (\<lambda>_. stored) (s_jobs d)"
    using step by (auto simp: disableJobOp_def rbind_eq_Inr)
  have "wf_ids stored"
    using guarded_member[OF g(1)] wf refreshJob_wf[OF g(2)] by (auto simp: list_all_iff wf_ids_def)
  then show ?thesis
    using g(3) replace_wf[OF wf] by simp
qed

lemma delete_wf: "deleteJob a e i d = Inr (d', v) \<Longrightarrow> list_all wf_ids (s_jobs d) \<Longrightarrow> list_all wf_ids (s_jobs d')"
  by (auto simp: deleteJob_def rbind_eq_Inr intro: kept_wf[OF kept_remove])

lemma submit_wf:
  assumes "submitOneShot X (opts_at now uuid) input d = Inr (d', v)" and "uuid \<noteq> []" and "list_all wf_ids (s_jobs d)"
  shows "list_all wf_ids (s_jobs d')"
proof -
  obtain at' job stored where s: "normalize_job X (opts_at now uuid) (one_shot_input input at') = Inr job"
      "refreshJob X (s_occurrences d) now job = Inr stored" "s_jobs d' = s_jobs d @ [stored]"
    using assms(1) by (auto simp: submitOneShot_def rbind_eq_Inr split: option.splits)
  have "wf_ids job"
    using assms(2) by (intro normalize_job_ids[OF s(1)]) simp_all
  then show ?thesis
    using s(2,3) assms(3) refreshJob_wf by simp
qed

subsection \<open>Every command keeps the invariant\<close>

definition doc_inv :: "int \<Rightarrow> sdoc \<Rightarrow> bool" where
  "doc_inv clock d \<longleftrightarrow> engine_inv clock d \<and> list_all wf_ids (s_jobs d)"

text \<open>
  A write-back whose failure has an empty text leaves a record that does not validate, and so never
  commits; every other one keeps the invariant.
\<close>

lemma classify_cases:
  "proper (classifyOccurrenceOutcome st oc) \<or> (\<exists>k. classifyOccurrenceOutcome st oc = failed_class [] k)"
proof -
  define P where "P c \<longleftrightarrow> proper c \<or> (\<exists>k. c = failed_class [] k)" for c
  have u: "P (unknown_class t)" for t
    by (simp add: P_def proper_def unknown_class_def)
  have f: "P (failed_class t k)" if "k \<in> {''pre-start-rejection'', ''turn-terminal''}" for t k
  proof (cases t)
    case Nil
    then show ?thesis unfolding P_def by blast
  next
    case (Cons a list)
    then show ?thesis
      using that by (auto simp: P_def proper_def failed_class_def isTerminalState_def terminal_evidence_kinds_def)
  qed
  have kinds: "(if b then ''pre-start-rejection'' else ''turn-terminal'') \<in> {''pre-start-rejection'', ''turn-terminal''}"
      "(if b then ''turn-terminal'' else ''pre-start-rejection'') \<in> {''pre-start-rejection'', ''turn-terminal''}" for b
    by simp_all
  have i: "P (if b then x else y)" if "P x" "P y" for b x y
    using that by simp
  have "P (classifyOccurrenceOutcome st oc)"
  proof (cases "oc_status oc = ''ok''")
    case True
    then show ?thesis
      by (simp add: classifyOccurrenceOutcome_def P_def proper_def isTerminalState_def)
  next
    case False
    show ?thesis
      unfolding classifyOccurrenceOutcome_def Let_def if_not_P[OF False]
      by (intro i u f kinds)
  qed
  then show ?thesis by (simp add: P_def)
qed

lemma empty_failure_invalid:
  assumes "cl = failed_class [] k" and "applyTransition (outcome_transition w r cl ds now) r = Inr r'" and "o_state r \<noteq> Failed"
  shows "\<not> valid_occ r'"
proof
  assume v: "valid_occ r'"
  have "r' = move (outcome_transition w r cl ds now) r"
    using assms by (auto simp: applyTransition_Inr outcome_transition_def plain_transition_def failed_class_def)
  then have "o_terminalEvidence r' = Some \<lparr>te_kind = k, te_detailRef = []\<rparr>"
    by (simp add: move_def outcome_transition_def plain_transition_def assms(1) failed_class_def override_def)
  with v show False
    by (auto simp: valid_occ_iff head_ok_def outcome_faults_def)
qed

lemma empty_failure_refused:
  assumes "findOccurrenceById (s_occurrences d) (o_occurrenceId (w_record w)) = Some r" and live: "in_flight r"
    and k: "cl = failed_class [] k" and step: "writeOccurrenceOutcome X now w cl ds d = Inr (d', v)"
  shows "\<not> valid_doc d'"
  using step
proof (rule writeOutcome_cases)
  fix q r1 r2
  assume q: "findOccurrenceById (s_occurrences d) (o_occurrenceId (w_record w)) = Some q"
    and r1: "(if needs_start w q (cl_state cl) then applyTransition (start_transition q (cl_state cl) now) q else Inr q) = Inr r1"
    and r2: "applyTransition (outcome_transition w r1 cl ds now) r1 = Inr r2"
    and compl: "applyJobCompletion X r2 now (d\<lparr>s_occurrences := putOccurrence (o_occurrenceId (w_record w)) r2 (s_occurrences d)\<rparr>) = Inr (d', v)"
  have "in_flight q" using q assms(1) live by simp
  then have "o_state r1 \<noteq> Failed"
    using r1 by (auto simp: applyTransition_Inr start_transition_def plain_transition_def in_flight_def split: if_splits)
  then have "\<not> valid_occ r2"
    using empty_failure_invalid[OF k r2] by simp
  moreover have "same_identity q r2"
    using r1 r2 by (auto simp: applyTransition_Inr split: if_splits)
  then have "r2 \<in> set (s_occurrences d')"
    using put_member[OF q] applyJobCompletion_occurrences[OF compl] by simp
  ultimately show ?thesis
    by (auto simp: valid_doc_def ledger_ok_def list_all_iff)
qed

lemma settled_noop:
  assumes "\<not> in_flight r" and "valid_occ r" and "applyTransition (outcome_transition w r cl ds now) r = Inr r'"
  shows "r' = r"
  using assms by (cases "o_state r") (auto simp: applyTransition_Inr outcome_transition_def plain_transition_def in_flight_def
      settlement_authorizes_def split: if_splits)

lemma writeOutcome_keeps:
  assumes inv: "engine_inv clock d" and "clock \<le> now" and ds: "ds \<in> set delivery_statuses"
    and cl: "proper cl \<or> (\<exists>k. cl = failed_class [] k)"
    and step: "writeOccurrenceOutcome X now w cl ds d = Inr (d', v)" and valid: "valid_doc d'"
  shows "engine_inv now d'"
  using step
proof (rule writeOutcome_cases)
  fix r r1 r2
  assume r: "findOccurrenceById (s_occurrences d) (o_occurrenceId (w_record w)) = Some r"
    and r1: "(if needs_start w r (cl_state cl) then applyTransition (start_transition r (cl_state cl) now) r else Inr r) = Inr r1"
    and r2: "applyTransition (outcome_transition w r1 cl ds now) r1 = Inr r2"
    and compl: "applyJobCompletion X r2 now (d\<lparr>s_occurrences := putOccurrence (o_occurrenceId (w_record w)) r2 (s_occurrences d)\<rparr>) = Inr (d', v)"
  note rv = found_valid[OF inv r assms(2)]
  show ?thesis
  proof (cases "in_flight r")
    case False
    then have "\<not> needs_start w r (cl_state cl)" by (simp add: needs_start_def in_flight_def)
    then have "r2 = r"
      using r1 r2 settled_noop[OF False rv(1)] by auto
    then have "putOccurrence (o_occurrenceId (w_record w)) r2 (s_occurrences d) = s_occurrences d"
      using r update_first_same unfolding putOccurrence_def findOccurrenceById_def by metis
    then have c: "applyJobCompletion X r now d = Inr (d', v)"
      using compl \<open>r2 = r\<close> by simp
    have "retry_ordered (s_occurrences d)" "r \<in> set (s_occurrences d)"
      using inv findOccurrenceById_Some[OF r] by (simp_all add: engine_inv_def ledger_inv_def)
    from applyJobCompletion_returns[OF this, of X now] c
    obtain js where "d' = d\<lparr>s_jobs := js, s_fences := rebuildFences (s_occurrences d)\<rparr>" by auto
    then show ?thesis
      using valid ledger_inv_later[OF _ assms(2)] inv by (simp add: engine_inv_def)
  next
    case True
    have exact: "o_runId r = o_runId (w_record w)" "o_payloadHash r = o_payloadHash (w_record w)"
        "o_scheduleRevision r = o_scheduleRevision (w_record w)"
      using step r by (auto simp: writeOccurrenceOutcome_def Let_def split: if_splits)
    have "proper cl"
      using cl empty_failure_refused[OF r True _ step] valid by blast
    then show ?thesis
      using writeOutcome_commits[OF inv assms(2) r exact True _ ds, of cl X] step
      by (metis old.prod.inject sum.inject(2))
  qed
qed

lemma reconcileOccurrence_keeps:
  assumes inv: "engine_inv clock d" and "clock \<le> now" and "operator \<noteq> []"
    and step: "reconcileOccurrence X now operator i runId to evidence d = Inr (d', v)"
  shows "engine_inv now d'"
proof (cases "d' = d")
  case True
  then show ?thesis using engine_inv_later[OF inv assms(2)] by simp
next
  case False
  then obtain r where r: "findOccurrenceById (s_occurrences d) i = Some r" "runId = o_runId r" "runId \<noteq> []" "js_trim evidence \<noteq> []"
      "if to = To_Terminated then isUnresolvedUnknown r else o_state r = Outcome_Unknown \<and> o_lateSettlement r = None"
    using step by (auto simp: reconcileOccurrence_def split: if_splits option.splits)
  obtain d1 js where s: "reconcile_settle now operator to evidence r d = Inr d1" "d' = d1\<lparr>s_jobs := js\<rparr>"
    using step r False by (auto simp: reconcileOccurrence_def rbind_eq_Inr Let_def split: if_splits)
  have found: "findOccurrenceById (s_occurrences d) (o_occurrenceId r) = Some r"
    using r(1) findOccurrenceById_Some[OF r(1)] by simp
  have "engine_inv now d1"
  proof (cases "to = To_Terminated")
    case True
    then have unk: "isUnresolvedUnknown r" using r(5) by simp
    obtain job where "findJob (s_jobs d) (o_jobId r) = Some job"
      using s(1) True by (auto simp: reconcile_settle_def split: option.splits)
    from reconcile_settle_terminated[OF inv assms(2) found unk assms(3) this, of evidence] s(1) True show ?thesis
      by (metis sum.inject(2))
  next
    case to: False
    then have "o_state r = Outcome_Unknown" using r(5) by simp
    from reconcile_settle_late[OF inv assms(2) found this r(4) to, of operator] s(1) show ?thesis
      by (metis sum.inject(2))
  qed
  then show ?thesis
    using s(2) engine_inv_jobs by simp
qed

lemma crash_proper: "proper (crash_class m)"
  by (simp add: crash_class_def proper_def unknown_class_def)

lemma unknown_status: "''unknown'' \<in> set delivery_statuses"
  by (simp add: delivery_statuses_def)

lemma applyTrustedTermination_keeps:
  assumes inv: "engine_inv clock d" and "clock \<le> now" and step: "applyTrustedTermination X now r oc d = Inr (d', v)"
  shows "engine_inv now d'"
proof (cases "trustedTerminationProof oc")
  case None
  then show ?thesis
    using step engine_inv_later[OF inv assms(2)] by (simp add: applyTrustedTermination_def)
next
  case (Some p)
  then obtain x where "applyTerminationSettlement X now r p d = Inr (d', x)"
    using step by (auto simp: applyTrustedTermination_def rbind_eq_Inr)
  then show ?thesis
    by (rule applyTerminationSettlement_keeps[OF inv assms(2) trustedTerminationProof_kind[OF Some]])
qed

lemma applyTrustedTermination_jobs: "applyTrustedTermination X now r oc d = Inr (d', v) \<Longrightarrow> keeps_jobs d d'"
  by (auto simp: applyTrustedTermination_def rbind_eq_Inr dest!: applyTerminationSettlement_jobs split: option.splits)

lemma applyTrustedTermination_grows:
  "applyTrustedTermination X now r oc d = Inr (d', v) \<Longrightarrow> grows (s_occurrences d) (s_occurrences d')"
  by (auto simp: applyTrustedTermination_def rbind_eq_Inr dest!: applyTerminationSettlement_grows split: option.splits)

lemmas commands_only = createOrReconcileJob_only cloneDisabledJob_only updateJob_only enableJob_only disableJobOp_only
  deleteJob_only submitOneShot_only

lemma perform_engine:
  assumes inv: "engine_inv clock d" and le: "clock \<le> now" and wf: "list_all wf_ids (s_jobs d)" and "genuine cmd d"
    and step: "perform S now cmd d = Inr (d', u)" and valid: "valid_doc d'"
  shows "engine_inv now d'"
proof -
  have only: "definitions_only d d' \<Longrightarrow> engine_inv now d'"
    using definitions_only_inv engine_inv_later[OF inv le] by blast
  show ?thesis
proof (cases cmd)
    case (Reserve c)
    then show ?thesis
      using step reserve_keeps[OF inv le _ wf] by auto
  next
    case (Start w)
    then show ?thesis
      using step markRunning_keeps[OF inv le, of w] by (metis perform.simps(2) old.prod.inject sum.inject(2))
  next
    case (Finish w oc ok mode)
    then obtain v where "writeOccurrenceOutcome (sm_ext S) now w (classifyOccurrenceOutcome (w_started w) oc)
        (deliverOccurrence ok mode (cl_state (classifyOccurrenceOutcome (w_started w) oc))) d = Inr (d', v)"
      using step by (auto simp: finishRun_def Let_def)
    then show ?thesis
      using writeOutcome_keeps[OF inv le deliver_status classify_cases _ valid] by blast
  next
    case (Crash w m)
    then obtain v where "writeOccurrenceOutcome (sm_ext S) now w (crash_class m) ''unknown'' d = Inr (d', v)"
      using step by (auto simp: crashGuard_def)
    then show ?thesis
      using writeOutcome_keeps[OF inv le unknown_status disjI1[OF crash_proper] _ valid] by blast
  next
    case (Terminate r oc)
    then show ?thesis using step applyTrustedTermination_keeps[OF inv le] by auto
  next
    case (Late w oc)
    then show ?thesis using step settleLate_keeps[OF inv le] by auto
  next
    case Recover
    then show ?thesis
      using step sweep_commits[OF inv le, of "sm_ext S"] by (metis perform.simps(7) doc_of_Inr old.prod.inject sum.inject(2))
  next
    case (Operator_Reconcile operator i runId to evidence)
    then show ?thesis using step assms(4) reconcileOccurrence_keeps[OF inv le] by auto
  next
    case (Auto_Reconcile actor lookup targets)
    then show ?thesis using step autoReconcile_keeps[OF inv le] by auto
  qed (use step in \<open>auto intro: only dest: commands_only\<close>)
qed

lemma perform_wf:
  assumes wf: "list_all wf_ids (s_jobs d)" and "genuine cmd d" and step: "perform S now cmd d = Inr (d', u)"
  shows "list_all wf_ids (s_jobs d')"
proof -
  have keep: "keeps_jobs d d' \<Longrightarrow> ?thesis"
    using kept_wf[OF _ wf] by (simp add: keeps_jobs_def)
  show ?thesis
  proof (cases cmd)
    case (Reserve c)
    then show ?thesis using step wf by (auto dest: reserve_jobs)
  qed (use step assms keep in \<open>auto simp: finishRun_def crashGuard_def Let_def dest: markRunning_jobs writeOutcome_jobs
        applyTrustedTermination_jobs settleLate_jobs sweep_jobs reconcile_jobs autoReconcile_jobs create_wf clone_wf
        update_wf enable_wf disable_wf delete_wf submit_wf\<close>)
qed

lemma perform_extends:
  assumes "perform S now cmd d = Inr (d', u)"
  shows "extends (s_occurrences d) (s_occurrences d')"
proof -
  have only: "definitions_only d d' \<Longrightarrow> ?thesis"
    by (simp add: definitions_only_def)
  show ?thesis
    using assms by (cases cmd) (auto simp: finishRun_def crashGuard_def Let_def intro: only commands_only
        autoReconcile_extends dest: grows_extends[OF reserve_grows] grows_extends[OF markRunning_grows]
        grows_extends[OF writeOutcome_grows] grows_extends[OF applyTrustedTermination_grows]
        grows_extends[OF settleLate_grows] grows_extends[OF sweep_grows] grows_extends[OF reconcile_grows])
qed

subsection \<open>Reachable states\<close>

definition sys_inv :: "sys \<Rightarrow> bool" where
  "sys_inv s \<longleftrightarrow> pred_option (doc_inv (y_clock s)) (y_disk s)"

lemma doc_inv_later: "doc_inv clock d \<Longrightarrow> clock \<le> clock' \<Longrightarrow> doc_inv clock' d"
  by (auto simp: doc_inv_def engine_inv_later)

lemma disk_doc_inv: "sys_inv s \<Longrightarrow> doc_inv (y_clock s) (disk_doc (y_disk s))"
  by (cases "y_disk s") (simp_all add: sys_inv_def disk_doc_def doc_inv_def engine_inv_empty, simp add: emptyDoc_def)

lemma sys_step_inv:
  assumes "sys_step S s s'" and "sys_inv s"
  shows "sys_inv s'"
  using assms(1)
proof (cases rule: sys_step.cases)
  case (mutation now cmd w disk' m)
  have inv: "doc_inv (y_clock s) (disk_doc (y_disk s))"
    by (rule disk_doc_inv[OF assms(2)])
  consider (same) "disk' = y_disk s"
    | (new) d v where "perform S now cmd (disk_doc (y_disk s)) = Inr (d, v)" "valid_doc d" "disk' = Some d"
    using mutateDoc_cases[OF mutation(4)] by blast
  then show ?thesis
  proof cases
    case same
    then show ?thesis
      using assms(2) mutation(1,2) by (cases "y_disk s") (auto simp: sys_inv_def doc_inv_later)
  next
    case d: (new d v)
    have "doc_inv now d"
      using inv perform_engine[OF _ mutation(2) _ mutation(3) d(1,2)] perform_wf[OF _ mutation(3) d(1)]
      by (auto simp: doc_inv_def)
    then show ?thesis
      using mutation(1) d(3) by (simp add: sys_inv_def)
  qed
next
  case (consultation now d interval readback view consulted consulted' d')
  have "doc_inv now d"
    using assms(2) consultation(2,3) by (auto simp: sys_inv_def intro: doc_inv_later)
  then have "doc_inv now d'"
    using reconcileTrustedReadbacks_keeps[of now d "sm_ext S" interval readback view consulted]
      reconcileTrustedReadbacks_jobs[of d "sm_ext S" now interval readback view consulted] consultation(4)
    by (auto simp: doc_inv_def keeps_jobs_def intro: kept_wf)
  then show ?thesis
    using consultation(1) by (simp add: sys_inv_def)
qed

lemma reachable_inv: "reachable S s \<Longrightarrow> sys_inv s"
proof (induction rule: reachable.induct)
  case (start t)
  then show ?case by (simp add: sys_inv_def)
next
  case (step s s')
  then show ?case using sys_step_inv by blast
qed

lemma sys_step_extends:
  assumes "sys_step S s s'"
  shows "extends (s_occurrences (disk_doc (y_disk s))) (s_occurrences (disk_doc (y_disk s')))"
  using assms
proof (cases rule: sys_step.cases)
  case (mutation now cmd w disk' m)
  from mutateDoc_cases[OF mutation(4)] show ?thesis
    using mutation(1) perform_extends by (auto simp: disk_doc_def)
next
  case (consultation now d interval readback view consulted consulted' d')
  then show ?thesis
    using reconcileTrustedReadbacks_extends[of d "sm_ext S" now interval readback view consulted] by (simp add: disk_doc_def)
qed

lemma steps_extend: "(sys_step S)\<^sup>*\<^sup>* s s' \<Longrightarrow> extends (s_occurrences (disk_doc (y_disk s))) (s_occurrences (disk_doc (y_disk s')))"
proof (induction rule: rtranclp_induct)
  case (step b c)
  then show ?case using sys_step_extends extends_trans by blast
qed simp

lemma sys_step_clock: "sys_step S s s' \<Longrightarrow> y_clock s \<le> y_clock s'"
  by (auto elim: sys_step.cases)

end
