(* ===== verification/Settlement.thy ===== *)
theory Settlement
  imports System
begin

section \<open>Every run settles\<close>

text \<open>
  Progress of the engine: whatever the invocation returns, throws or leaves unwritten, \<^verbatim>\<open>runOccurrence\<close>
  brings its occurrence out of flight, unless the write of the crash guard itself is lost, which leaves the
  document as it was; recovery brings every occurrence of the document out of flight.
\<close>

lemma unknown_stays_settled: "canTransition\<^sup>*\<^sup>* s t \<Longrightarrow> s \<noteq> Admitted \<Longrightarrow> s \<noteq> Running \<Longrightarrow> t \<noteq> Admitted \<and> t \<noteq> Running"
proof (induction rule: rtranclp_induct)
  case (step t u)
  then show ?case by (cases t) auto
qed simp

lemma advances_settled: "advances r r' \<Longrightarrow> \<not> in_flight r \<Longrightarrow> \<not> in_flight r'"
  using unknown_stays_settled[of "o_state r" "o_state r'"] by (auto simp: advances_def in_flight_def)

text \<open>A record of the ledger stays findable as the ledger grows, and settled if it is settled.\<close>

lemma found_again:
  assumes "extends (s_occurrences d) (s_occurrences d')" and "engine_inv now d'"
    and "findOccurrenceById (s_occurrences d) i = Some r"
  obtains r' where "findOccurrenceById (s_occurrences d') i = Some r'" "advances r r'"
proof -
  have r: "r \<in> set (s_occurrences d)" "o_occurrenceId r = i"
    using findOccurrenceById_Some[OF assms(3)] by simp_all
  obtain r' where r': "r' \<in> set (s_occurrences d')" "advances r r'"
    by (rule extends_member[OF assms(1) r(1)])
  have "distinct (map o_occurrenceId (s_occurrences d'))"
    using assms(2) by (simp add: engine_inv_def ledger_inv_def ledger_ok_def)
  then have "findOccurrenceById (s_occurrences d') (o_occurrenceId r') = Some r'"
    unfolding findOccurrenceById_def using r'(1) by (intro find_key_distinct)
  then show thesis
    using that r' r(2) by (simp add: advances_def same_identity_def)
qed

lemma engine_inv_commits: "engine_inv now d' \<Longrightarrow> commit d (Inr (d', v)) = (d', Inr v)"
proof -
  assume "engine_inv now d'"
  then have "validateDocument d' = Inr d'"
    by (simp add: validateDocument_iff engine_inv_def)
  then show ?thesis by (simp add: commit_def)
qed

text \<open>A record in flight that the run in hand really owns.\<close>

definition exact_run :: "int \<Rightarrow> int \<Rightarrow> sdoc \<Rightarrow> run \<Rightarrow> occurrence \<Rightarrow> bool" where
  "exact_run clock now d w r \<longleftrightarrow> engine_inv clock d \<and> clock \<le> now
     \<and> findOccurrenceById (s_occurrences d) (o_occurrenceId (w_record w)) = Some r
     \<and> o_runId r = o_runId (w_record w) \<and> o_payloadHash r = o_payloadHash (w_record w)
     \<and> o_scheduleRevision r = o_scheduleRevision (w_record w) \<and> in_flight r"

lemma exact_runD:
  assumes "exact_run clock now d w r"
  shows "engine_inv clock d" "clock \<le> now" "findOccurrenceById (s_occurrences d) (o_occurrenceId (w_record w)) = Some r"
    "o_runId r = o_runId (w_record w)" "o_payloadHash r = o_payloadHash (w_record w)"
    "o_scheduleRevision r = o_scheduleRevision (w_record w)" "in_flight r"
    "findOccurrenceById (s_occurrences d) (o_occurrenceId r) = Some r"
  using assms findOccurrenceById_Some[of "s_occurrences d" "o_occurrenceId (w_record w)" r] by (auto simp: exact_run_def)

lemma write_commits:
  assumes x: "exact_run clock now d w r" and c: "proper cl" and ds: "ds \<in> set delivery_statuses"
  obtains d' v r' where "commit d (writeOccurrenceOutcome X now w cl ds d) = (d', Inr v)" "engine_inv now d'"
    "findOccurrenceById (s_occurrences d') (o_occurrenceId r) = Some r'" "o_state r' = cl_state cl" "same_identity r r'"
proof -
  obtain d' v r' where c: "writeOccurrenceOutcome X now w cl ds d = Inr (d', v)" "engine_inv now d'"
      "findOccurrenceById (s_occurrences d') (o_occurrenceId r) = Some r'" "o_state r' = cl_state cl"
      "s_occurrences d' = putOccurrence (o_occurrenceId r) r' (s_occurrences d)"
    by (rule writeOutcome_commits[OF exact_runD(1-7)[OF x] c ds])
  obtain q where "findOccurrenceById (s_occurrences d') (o_occurrenceId r) = Some q" "advances r q"
    by (rule found_again[OF grows_extends[OF writeOutcome_grows[OF c(1)]] c(2) exact_runD(8)[OF x]])
  then have "same_identity r r'"
    using c(3) by (simp add: advances_def)
  moreover have "commit d (writeOccurrenceOutcome X now w cl ds d) = (d', Inr v)"
    unfolding c(1) by (rule engine_inv_commits[OF c(2)])
  ultimately show thesis
    using that c(2,3,4) by blast
qed

text \<open>The write-back of any classification: it commits, or the document is as it was.\<close>

lemma finish_cases:
  assumes x: "exact_run clock now d w r"
  obtains (committed) d1 v r1 where "commit d (finishRun X now w oc ok mode d) = (d1, Inr v)" "engine_inv now d1"
    "findOccurrenceById (s_occurrences d1) (o_occurrenceId r) = Some r1" "same_identity r r1" "\<not> in_flight r1"
    "o_state r1 = cl_state (classifyOccurrenceOutcome (w_started w) oc)"
  | (refused) e where "commit d (finishRun X now w oc ok mode d) = (d, Inl e)"
proof (cases "proper (classifyOccurrenceOutcome (w_started w) oc)")
  case True
  let ?cl = "classifyOccurrenceOutcome (w_started w) oc"
  obtain d1 v r1 where c: "commit d (writeOccurrenceOutcome X now w ?cl (deliverOccurrence ok mode (cl_state ?cl)) d) = (d1, Inr v)"
    "engine_inv now d1" "findOccurrenceById (s_occurrences d1) (o_occurrenceId r) = Some r1" "o_state r1 = cl_state ?cl" "same_identity r r1"
    by (rule write_commits[OF x True deliver_status])
  have "\<not> in_flight r1"
    using True c(4) by (auto simp: proper_def in_flight_def isTerminalState_def)
  then show thesis
    using committed[OF _ c(2,3,5)] c(1,4) by (simp add: finishRun_def Let_def)
next
  case False
  let ?cl = "classifyOccurrenceOutcome (w_started w) oc"
  obtain k where k: "?cl = failed_class [] k"
    using classify_cases[of "w_started w" oc] False by blast
  obtain d1 v where c: "commit d (finishRun X now w oc ok mode d) = (d1, v)"
    by (cases "commit d (finishRun X now w oc ok mode d)")
  have "\<exists>e. v = Inl e \<and> d1 = d"
    using commit_cases[OF c] empty_failure_refused[OF exact_runD(3,7)[OF x] k] by (fastforce simp: finishRun_def Let_def)
  then show thesis
    using refused c by auto
qed

lemma settled_survives:
  assumes "extends (s_occurrences d1) (s_occurrences d2)" and "engine_inv now d2"
    and "findOccurrenceById (s_occurrences d1) (o_occurrenceId r) = Some r1" and "same_identity r r1" and "\<not> in_flight r1"
  shows "\<exists>r'. findOccurrenceById (s_occurrences d2) (o_occurrenceId r) = Some r' \<and> same_identity r r' \<and> \<not> in_flight r'"
proof -
  obtain r' where "findOccurrenceById (s_occurrences d2) (o_occurrenceId r) = Some r'" "advances r1 r'"
    by (rule found_again[OF assms(1,2,3)])
  then show ?thesis
    using advances_settled assms(4,5) by (auto simp: advances_def intro: same_identity_trans)
qed

text \<open>The three writes of a run, each with its outcome at the disk.\<close>

lemma run_write:
  assumes inv: "engine_inv now d" and m: "mutateDoc x (Some d) f = (disk', m)"
    and keep: "\<And>d' v. f d = Inr (d', v) \<Longrightarrow> valid_doc d' \<Longrightarrow> engine_inv now d'"
    and grow: "\<And>d' v. f d = Inr (d', v) \<Longrightarrow> extends (s_occurrences d) (s_occurrences d')"
  obtains d' where "disk' = Some d'" "engine_inv now d'" "extends (s_occurrences d) (s_occurrences d')"
  using mutateDoc_cases[OF m] inv keep grow that by (fastforce simp: disk_doc_def)

lemma attempt_commit:
  assumes inv: "engine_inv clock d" and c: "commit d step = (d1, Inr v)" and step: "f d = step"
  shows "mutateDoc x (Some d) f = (case x of Written \<Rightarrow> (Some d1, Committed d1 v)
    | Lost_Before m \<Rightarrow> (Some d, Not_Committed (Plain_Error m)) | Lost_After m \<Rightarrow> (Some d1, Ack_Lost d1 v (Plain_Error m)))"
proof -
  have "f d = Inr (d1, v)" "valid_doc d1" "valid_doc d"
    using commit_cases[OF c] inv step by (auto simp: engine_inv_def)
  moreover from this have "validateDocument d1 = Inr d1" "validateDocument d = Inr d"
    by (simp_all add: validateDocument_iff)
  ultimately show ?thesis
    by (simp add: mutateDoc_def loadDocForMutation_def split: write_outcome.split)
qed

lemma attempt_refused:
  assumes inv: "engine_inv clock d" and c: "commit d step = (d, Inl e)" and step: "f d = step"
  shows "\<exists>e'. mutateDoc x (Some d) f = (Some d, Not_Committed e')"
proof -
  have "validateDocument d = Inr d"
    using inv by (simp add: engine_inv_def validateDocument_iff)
  then show ?thesis
    using c step by (auto simp: mutateDoc_def commit_def loadDocForMutation_def rbind_def split: sum.splits)
qed

lemma crash_write:
  assumes inv: "engine_inv now d" and m: "mutateDoc x (Some d) (crashGuard X now w message) = (disk', m)"
  obtains d' where "disk' = Some d'" "engine_inv now d'" "extends (s_occurrences d) (s_occurrences d')"
  by (rule run_write[OF inv m]) (auto simp: crashGuard_def
      intro: writeOutcome_keeps[OF inv order_refl unknown_status disjI1[OF crash_proper]] grows_extends writeOutcome_grows)

lemma termination_write:
  assumes inv: "engine_inv now d" and m: "mutateDoc x (Some d) (applyTrustedTermination X now q oc) = (disk', m)"
  obtains d' where "disk' = Some d'" "engine_inv now d'" "extends (s_occurrences d) (s_occurrences d')"
  by (rule run_write[OF inv m]) (auto intro: applyTrustedTermination_keeps[OF inv order_refl] grows_extends
      applyTrustedTermination_grows)

text \<open>What a run leaves on the disk: the occurrence settled, or, when no write got through, everything as it was.\<close>

definition run_left :: "int \<Rightarrow> write_outcome \<Rightarrow> sdoc \<Rightarrow> occurrence \<Rightarrow> sdoc option \<times> occ_state \<Rightarrow> bool" where
  "run_left now w_crash d r res \<longleftrightarrow> (\<exists>d' r'. fst res = Some d' \<and> engine_inv now d'
     \<and> findOccurrenceById (s_occurrences d') (o_occurrenceId r) = Some r' \<and> same_identity r r'
     \<and> (\<not> in_flight r' \<or> d' = d \<and> snd res = Outcome_Unknown \<and> (\<exists>m. w_crash = Lost_Before m))
     \<and> (snd res = Outcome_Unknown \<or> o_state r' = snd res))"

lemma crash_left:
  assumes x: "exact_run clock now d w r"
  shows "run_left now w_crash d r (fst (mutateDoc w_crash (Some d) (crashGuard X now w message)), Outcome_Unknown)"
proof -
  obtain d1 v r1 where c: "commit d (crashGuard X now w message d) = (d1, Inr v)" "engine_inv now d1"
    "findOccurrenceById (s_occurrences d1) (o_occurrenceId r) = Some r1" "same_identity r r1" "\<not> in_flight r1"
    by (rule write_commits[OF x crash_proper unknown_status, of X message])
      (auto simp: crashGuard_def in_flight_def crash_class_def unknown_class_def)
  note d = exact_runD[OF x]
  have "same_identity r r" by (simp add: same_identity_def)
  then show ?thesis
    using attempt_commit[where f = "crashGuard X now w message" and x = w_crash, OF d(1) c(1)] c(2-5) d(8) engine_inv_later[OF d(1,2)]
    by (cases w_crash) (auto simp: run_left_def)
qed

lemma settled_left:
  assumes "engine_inv now d2" and "extends (s_occurrences d1) (s_occurrences d2)"
    and "findOccurrenceById (s_occurrences d1) (o_occurrenceId r) = Some r1" "same_identity r r1" "\<not> in_flight r1"
  shows "run_left now w_crash d r (Some d2, Outcome_Unknown)"
  using settled_survives[OF assms(2,1,3,4,5)] assms(1) by (auto simp: run_left_def)

lemma run_settled:
  assumes x: "exact_run clock now d w r"
  shows "run_left now w_crash d r (runOccurrence X now w invocation ok mode (w_back, w_settle, w_crash) (Some d))"
proof (cases invocation)
  case None
  then show ?thesis
    using crash_left[OF x] by (simp add: runOccurrence_def)
next
  case (Some oc)
  show ?thesis
  proof (rule finish_cases[OF x, of X oc ok mode])
    fix e
    assume "commit d (finishRun X now w oc ok mode d) = (d, Inl e)"
    from attempt_refused[where f = "finishRun X now w oc ok mode" and x = w_back, OF exact_runD(1)[OF x] this] show ?thesis
      using Some crash_left[OF x] by (auto simp: runOccurrence_def)
  next
    fix d1 v r1
    assume c: "commit d (finishRun X now w oc ok mode d) = (d1, Inr v)" "engine_inv now d1"
      "findOccurrenceById (s_occurrences d1) (o_occurrenceId r) = Some r1" "same_identity r r1" "\<not> in_flight r1"
      "o_state r1 = cl_state (classifyOccurrenceOutcome (w_started w) oc)"
    note m = attempt_commit[where f = "finishRun X now w oc ok mode" and x = w_back, OF exact_runD(1)[OF x] c(1)]
    obtain d2 where crash: "fst (mutateDoc w_crash (Some d1) (crashGuard X now w ''run crashed'')) = Some d2"
        "engine_inv now d2" "extends (s_occurrences d1) (s_occurrences d2)"
      using crash_write[OF c(2)] by (metis prod.collapse)
    obtain d3 where settled: "fst (mutateDoc w_settle (Some d1) (applyTrustedTermination X now (w_record w) oc)) = Some d3"
        "engine_inv now d3" "extends (s_occurrences d1) (s_occurrences d3)"
      using termination_write[OF c(2)] by (metis prod.collapse)
    show ?thesis
    proof (cases w_back)
      case Written
      then show ?thesis
        using Some m settled settled_left[OF settled(2,3) c(3-5), of w_crash d] c by (auto simp: runOccurrence_def run_left_def)
    next
      case (Lost_Before e)
      then show ?thesis
        using Some m crash_left[OF x] by (simp add: runOccurrence_def)
    next
      case (Lost_After e)
      then show ?thesis
        using Some m crash settled_left[OF crash(2,3) c(3-5), of w_crash d] by (simp add: runOccurrence_def)
    qed
  qed
qed

lemma run_reports:
  "snd (runOccurrence X now w invocation ok mode writes disk) = Outcome_Unknown
   \<or> (\<exists>oc. invocation = Some oc
       \<and> snd (runOccurrence X now w invocation ok mode writes disk) = cl_state (classifyOccurrenceOutcome (w_started w) oc))"
  by (auto simp: runOccurrence_def split: option.split prod.split mutation.split)

lemma live_unsettled:
  assumes "valid_occ r" and "in_flight r"
  shows "o_lateSettlement r = None \<and> o_terminationSettlement r = None"
proof -
  obtain sc where "list_all (\<lambda>f. \<not> fst f) (closing_faults False r sc)"
    using assms(1) by (auto simp: valid_occ_iff)
  then have "case o_lateSettlement r of Some s \<Rightarrow> \<not> late_settlement_invalid False r sc s | None \<Rightarrow> True"
      "case o_terminationSettlement r of Some s \<Rightarrow> \<not> termination_invalid False r sc s | None \<Rightarrow> True"
    by (simp_all add: closing_faults_def Let_def split: option.splits)
  then show ?thesis
    using assms(2) by (auto simp: late_settlement_invalid_def termination_invalid_def in_flight_def isTerminalState_def
        split: option.splits)
qed

lemma recovery_result:
  assumes "engine_inv clock d" and "clock \<le> now"
  shows "\<exists>d' swept. sweepUnresolved X now d = Inr (d', swept) \<and> engine_inv now d'
    \<and> list_all2 (\<lambda>r r'. if in_flight r then o_state r' = Outcome_Unknown \<and> fenced (s_fences d') (o_jobId r) else r' = r)
        (s_occurrences d) (s_occurrences d')"
proof -
  obtain d' swept where c: "sweepUnresolved X now d = Inr (d', swept)" "engine_inv now d'"
    by (rule sweep_commits[OF assms])
  then have step: "list_all2 (\<lambda>r r'. sweep_record now r = Inr r') (s_occurrences d) (s_occurrences d')"
    by (auto simp: sweepUnresolved_def rbind_eq_Inr rmap_Inr)
  have "list_all2 (\<lambda>r r'. if in_flight r then o_state r' = Outcome_Unknown \<and> fenced (s_fences d') (o_jobId r) else r' = r)
      (s_occurrences d) (s_occurrences d')"
  proof (rule list_all2_all_nthI)
    show "length (s_occurrences d) = length (s_occurrences d')"
      using step by (rule list_all2_lengthD)
    fix n
    assume n: "n < length (s_occurrences d)"
    let ?r = "s_occurrences d ! n" and ?r' = "s_occurrences d' ! n"
    have s: "sweep_record now ?r = Inr ?r'"
      using list_all2_nthD[OF step n] .
    have mem: "?r \<in> set (s_occurrences d)" "?r' \<in> set (s_occurrences d')"
      using n list_all2_lengthD[OF step] by simp_all
    have "valid_occ ?r" "record_inv now ?r"
      using ledger_inv_mem[OF _ mem(1), of now] ledger_inv_later[OF _ assms(2)] assms(1) by (auto simp: engine_inv_def)
    from sweep_record_step[OF this] s show "if in_flight ?r then o_state ?r' = Outcome_Unknown \<and> fenced (s_fences d') (o_jobId ?r)
        else ?r' = ?r"
    proof (cases "in_flight ?r")
      case True
      have m: "?r' = move (sweep_transition now ?r) ?r"
        using s True by (auto simp: sweep_record_def in_flight_def applyTransition_Inr sweep_transition_def plain_transition_def)
      have "record_inv now ?r'"
        using ledger_inv_mem(2)[OF _ mem(2), of now] c(2) by (simp add: engine_inv_def)
      have unk: "o_state ?r' = Outcome_Unknown" "o_jobId ?r' = o_jobId ?r"
        by (simp_all add: m sweep_transition_def plain_transition_def)
      have "isUnresolvedUnknown ?r'"
        using unk m live_unsettled[OF \<open>valid_occ ?r\<close> True] by (simp add: isUnresolvedUnknown_def sweep_transition_def plain_transition_def)
      then have "fenced (s_fences d') (o_jobId ?r)"
        using c(2) mem(2) unk(2) by (auto simp: engine_inv_def valid_doc_fenced)
      then show ?thesis using True unk by simp
    qed auto
  qed
  then show ?thesis using c by blast
qed

text \<open>Only a failed occurrence has a retry.\<close>

lemma retry_of_failed:
  assumes "retryCandidate job occs now = Some (Some c)"
  shows "\<exists>q \<in> set occs. o_occurrenceId q = rc_retryOf c \<and> o_state q = Failed"
  using assms latestTerminalOccurrence_Some(1)
  by (fastforce simp: retryCandidate_def Let_def split: if_splits option.splits Option.bind_splits)

lemma unknown_has_no_retry:
  assumes "ledger_ok occs" and "findOccurrenceById occs i = Some r" and "o_state r = Outcome_Unknown"
    and "retryCandidate job occs now = Some (Some c)"
  shows "rc_retryOf c \<noteq> i"
  using retry_of_failed[OF assms(4)] found_unique[OF assms(1,2)] assms(3) by auto

text \<open>A proof of termination releases the contribution of its occurrence to the fence, and nothing else.\<close>

lemma termination_result:
  assumes inv: "engine_inv clock d" and "clock \<le> now"
    and found: "findOccurrenceById (s_occurrences d) (o_occurrenceId r) = Some r" and unk: "isUnresolvedUnknown r"
    and job: "findJob (s_jobs d) (o_jobId r) = Some job" "o_ownerAgentId r = Some (j_agentId job)"
    and kind: "tp_evidenceKind p \<in> set TRUSTED_TERMINATION_EVIDENCE"
  shows "\<exists>d' r'. applyTerminationSettlement X now r p d = Inr (d', True) \<and> engine_inv now d'
    \<and> findOccurrenceById (s_occurrences d') (o_occurrenceId r) = Some r' \<and> o_state r' = Outcome_Unknown
    \<and> o_lateSettlement r' = None \<and> isTerminalRecord r' \<and> \<not> isUnresolvedUnknown r'
    \<and> fenced (s_fences d') (o_jobId r)
      = list_ex (\<lambda>q. isUnresolvedUnknown q \<and> o_jobId q = o_jobId r \<and> o_occurrenceId q \<noteq> o_occurrenceId r) (s_occurrences d')
    \<and> (\<forall>any later c. retryCandidate any (s_occurrences d') later = Some (Some c) \<longrightarrow> rc_retryOf c \<noteq> o_occurrenceId r)"
proof -
  obtain d' where c: "applyTerminationSettlement X now r p d = Inr (d', True)" "engine_inv now d'"
    "s_occurrences d' = s_occurrences (settleTermination (o_occurrenceId r) (o_jobId r)
        (termination_settlement_of now r job p) ''trusted exact termination without business outcome'' d)"
    "s_fences d' = rebuildFences (s_occurrences d')"
    by (rule applyTerminationSettlement_commits[OF inv assms(2) found refl unk job kind])
  note v = found_valid[OF inv found assms(2)]
  have fit: "fit_settlement r (termination_settlement_of now r job p)"
    by (rule engine_settlement_fit[OF v(1,2) unk job(2) kind])
  have ok: "ledger_ok (s_occurrences d)" using inv by (simp add: engine_inv_def ledger_inv_def)
  obtain b where occs: "s_occurrences d' = putOccurrence (o_occurrenceId r) (record_fence_after b (annotate
      (termination_settlement_of now r job p) ''trusted exact termination without business outcome'' r)) (s_occurrences d)"
    using c(3) settleTermination_ledger[OF ok found v(1) fit] by simp
  define r' where "r' = record_fence_after b (annotate (termination_settlement_of now r job p)
      ''trusted exact termination without business outcome'' r)"
  have same: "same_identity r r'"
    by (simp add: r'_def same_identity_def record_fence_after_def annotate_def)
  have find': "findOccurrenceById (s_occurrences d') (o_occurrenceId r) = Some r'"
    using find_put[OF found same] occs by (simp add: r'_def)
  have st: "o_state r' = Outcome_Unknown" "o_lateSettlement r' = None" "o_terminationSettlement r' \<noteq> None"
    using unk by (simp_all add: r'_def record_fence_after_def annotate_def isUnresolvedUnknown_def)
  have ok': "ledger_ok (s_occurrences d')" using c(2) by (simp add: engine_inv_def ledger_inv_def)
  have "q = r'" if "q \<in> set (s_occurrences d')" "o_occurrenceId q = o_occurrenceId r" for q
    using found_unique[OF ok' find' that] .
  then have "fenced (s_fences d') (o_jobId r)
      = list_ex (\<lambda>q. isUnresolvedUnknown q \<and> o_jobId q = o_jobId r \<and> o_occurrenceId q \<noteq> o_occurrenceId r) (s_occurrences d')"
    using st(3) by (auto simp: c(4) fenced_rebuild list_ex_iff isUnresolvedUnknown_def)
  then show ?thesis
    using c(1,2) find' st unknown_has_no_retry[OF ok' find' st(1)] by (auto simp: isTerminalRecord_def isUnresolvedUnknown_def)
qed

end
