(* ===== verification/Examples.thy ===== *)
theory Examples
  imports Settlement
begin

section \<open>A small instance\<close>

text \<open>
  Concrete values on which the properties are exercised: a host whose cron evaluator fires on the full
  hour, one job that runs every minute, its first occurrence, and the documents of its life: admitted,
  started, unknown. The digests in the identifiers stay unevaluated.
\<close>

definition demo_ext :: ext where
  "demo_ext = \<lparr>cron_ok = (\<lambda>_ _. True), cron_next = (\<lambda>_ _ t. Some ((t div 3600000 + 1) * 3600000)),
     cron_prev = (\<lambda>_ _ t. Some ((t div 3600000) * 3600000)), host_tz = ''UTC'',
     date_parse = (\<lambda>_. None), to_iso = (\<lambda>_. None), str_num = (\<lambda>_. NaN), frac_str = (\<lambda>_. ''0'')\<rparr>"

definition demo_job :: job where
  "demo_job = \<lparr>j_id = ''j1'', j_name = ''minute'', j_agentId = ''a1'', j_enabled = True, j_scheduleRevision = 1,
     j_schedule = Every 60000 (Some 0),
     j_payload = \<lparr>p_message = ''ping'', p_timeoutSeconds = None, p_receiptTimeoutSeconds = None,
       p_lightContext = None, p_model = None\<rparr>,
     j_delivery = \<lparr>d_mode = No_Delivery, d_channel = None, d_to = None, d_bestEffort = False\<rparr>,
     j_createdAtMs = 0, j_updatedAtMs = 0, j_revisionActivatedAtMs = Some 0, j_description = None,
     j_logicalKey = Some ''k1'', j_migrationRestoreBlocked = False, j_retry = Some True, j_deleteAfterRun = False,
     j_state = empty_state, j_cloneProvenance = None\<rparr>"

definition demo_candidate :: candidate where
  "demo_candidate = \<lparr>cd_kind = Natural, cd_job = demo_job, cd_nominal = Some 120000, cd_retryOf = None, cd_catchUp = None\<rparr>"

definition demo_record :: occurrence where
  "demo_record = (case buildFor demo_ext demo_job demo_candidate 130000 of Inr r \<Rightarrow> r | Inl _ \<Rightarrow> undefined)"

definition demo_doc :: sdoc where
  "demo_doc = \<lparr>s_jobs = [demo_job], s_occurrences = [], s_fences = []\<rparr>"

definition admitted_doc :: sdoc where
  "admitted_doc = demo_doc\<lparr>s_occurrences := [demo_record]\<rparr>"

definition demo_run :: run where
  "demo_run = \<lparr>w_record = demo_record, w_started = False\<rparr>"

definition all_runnable :: "string \<Rightarrow> string option" where
  "all_runnable _ = None"

definition demo_seams :: seams where
  "demo_seams = \<lparr>sm_ext = demo_ext, sm_notRunnable = all_runnable, sm_grace = 900000\<rparr>"

definition ok_outcome :: outcome where
  "ok_outcome = \<lparr>oc_status = ''ok'', oc_error = None, oc_timedOut = False, oc_started = Some True,
     oc_routerEnvelope = None, oc_terminationEvidence = None, oc_evidenceTermination = None,
     oc_evidenceSource = None, oc_evidenceReceipt = None, oc_handle = None, oc_summary = None\<rparr>"

definition failed_outcome :: "string \<Rightarrow> outcome" where
  "failed_outcome message = ok_outcome\<lparr>oc_status := ''error'', oc_error := Some message, oc_started := Some False\<rparr>"

lemma demo_job_wf: "wf_job demo_ext demo_job"
  by (simp add: wf_job_def demo_job_def wf_text_def wf_schedule_def wf_payload_def wf_delivery_def wf_state_empty
      is_safe_int_def max_safe_def js_trim_def is_ws_def)

lemma demo_job_ids: "wf_ids demo_job"
  by (rule wf_job_ids[OF demo_job_wf])

lemma demo_build: "buildFor demo_ext demo_job demo_candidate 130000 = Inr demo_record"
  by (auto simp: demo_record_def buildFor_def buildOccurrenceRecord_def demo_candidate_def deriveOccurrenceId_def Let_def
      known_kind_def res_simps slot_for_def demo_job_def rbind_def ensure_def split: sum.split)

lemmas demo_fields = build_fields[OF demo_build[unfolded buildFor_def]]

lemma demo_doc_inv: "engine_inv 0 demo_doc"
  by (simp add: engine_inv_def ledger_inv_def ledger_ok_def single_flight_def demo_doc_def valid_doc_def rebuildFences_def)

lemma demo_reserve:
  "reserveOccurrence demo_ext all_runnable 900000 130000 demo_candidate demo_doc = Inr (admitted_doc, Reserved demo_record)"
proof -
  have find: "findJob (s_jobs demo_doc) (j_id (cd_job demo_candidate)) = Some demo_job"
    by (simp add: findJob_def demo_doc_def demo_candidate_def)
  have ref: "reserve_refusal demo_ext 900000 130000 demo_candidate demo_doc demo_job = Inr None"
    by (simp add: reserve_refusal_def demo_candidate_def demo_job_def demo_doc_def fenced_def hasNonTerminalOccurrence_def
        naturalCandidate_def previousNaturalSlotMs_def naturalLowerBoundMs_def latestTerminalOccurrence_def
        activationBoundary_def jobOccurrences_def is_every_def is_at_def Let_def)
  have "cd_job demo_candidate = demo_job" by (simp add: demo_candidate_def)
  then show ?thesis
    using demo_build find ref
    by (simp add: reserveOccurrence_def all_runnable_def admitted_doc_def demo_doc_def findOccurrenceByCoords_def
        findOccurrenceById_def)
qed

lemma admitted_inv: "engine_inv 130000 admitted_doc"
  using reserve_keeps[OF demo_doc_inv _ demo_reserve] demo_job_ids by (simp add: demo_doc_def)

lemma demo_found: "findOccurrenceById (s_occurrences admitted_doc) (o_occurrenceId (w_record demo_run)) = Some demo_record"
  by (simp add: admitted_doc_def demo_run_def findOccurrenceById_def)

lemma demo_in_flight: "in_flight demo_record"
  by (simp add: in_flight_def demo_fields)

text \<open>The document after the crash guard has written the unknown outcome at 200000.\<close>

definition unknown_doc :: sdoc where
  "unknown_doc = fst (commit admitted_doc (crashGuard demo_ext 200000 demo_run ''boom'' admitted_doc))"

definition unknown_record :: occurrence where
  "unknown_record = hd (s_occurrences unknown_doc)"

lemma unknown_written: "\<exists>del. crashGuard demo_ext 200000 demo_run ''boom'' admitted_doc = Inr (unknown_doc, del)"
  "engine_inv 200000 unknown_doc"
proof -
  have exact: "o_runId demo_record = o_runId (w_record demo_run)" "o_payloadHash demo_record = o_payloadHash (w_record demo_run)"
      "o_scheduleRevision demo_record = o_scheduleRevision (w_record demo_run)"
    by (simp_all add: demo_run_def)
  obtain d' del r' where c: "writeOccurrenceOutcome demo_ext 200000 demo_run (crash_class ''boom'') ''unknown'' admitted_doc = Inr (d', del)"
    "engine_inv 200000 d'"
    by (rule writeOutcome_commits[where X = demo_ext and now = 200000 and cl = "crash_class ''boom''",
          OF admitted_inv _ demo_found exact demo_in_flight crash_proper unknown_status]) simp_all
  then have d: "unknown_doc = d'"
    unfolding unknown_doc_def crashGuard_def c(1) engine_inv_commits[OF c(2)] by simp
  with c show "\<exists>del. crashGuard demo_ext 200000 demo_run ''boom'' admitted_doc = Inr (unknown_doc, del)"
    "engine_inv 200000 unknown_doc"
    by (auto simp: crashGuard_def)
qed

lemma unknown_shape:
  "s_occurrences unknown_doc = [move (outcome_transition demo_run demo_record (crash_class ''boom'') ''unknown'' 200000) demo_record]"
  "\<exists>st. s_jobs unknown_doc = [demo_job\<lparr>j_state := st\<rparr>]"
proof -
  have adm: "o_state demo_record = Admitted" by (simp add: demo_fields)
  have cl: "cl_state (crash_class ''boom'') = Outcome_Unknown" by (simp add: crash_class_def unknown_class_def)
  obtain del where w: "writeOccurrenceOutcome demo_ext 200000 demo_run (crash_class ''boom'') ''unknown'' admitted_doc = Inr (unknown_doc, del)"
    using unknown_written(1) by (auto simp: crashGuard_def)
  obtain r r1 r2 where s: "findOccurrenceById (s_occurrences admitted_doc) (o_occurrenceId (w_record demo_run)) = Some r"
    "(if needs_start demo_run r (cl_state (crash_class ''boom'')) then applyTransition (start_transition r (cl_state (crash_class ''boom'')) 200000) r else Inr r) = Inr r1"
    "applyTransition (outcome_transition demo_run r1 (crash_class ''boom'') ''unknown'' 200000) r1 = Inr r2"
    "applyJobCompletion demo_ext r2 200000 (admitted_doc\<lparr>s_occurrences := putOccurrence (o_occurrenceId (w_record demo_run)) r2 (s_occurrences admitted_doc)\<rparr>) = Inr (unknown_doc, del)"
    by (rule writeOutcome_cases[OF w])
  have r: "r = demo_record" using s(1) demo_found by simp
  then have "r1 = demo_record" using s(2) cl by (simp add: needs_start_def)
  then have r2: "r2 = move (outcome_transition demo_run demo_record (crash_class ''boom'') ''unknown'' 200000) demo_record"
    using s(3) adm cl by (auto simp: applyTransition_Inr outcome_transition_def plain_transition_def)
  have put: "putOccurrence (o_occurrenceId (w_record demo_run)) r2 (s_occurrences admitted_doc) = [r2]"
    by (simp add: putOccurrence_def admitted_doc_def demo_run_def)
  show "s_occurrences unknown_doc = [move (outcome_transition demo_run demo_record (crash_class ''boom'') ''unknown'' 200000) demo_record]"
    using applyJobCompletion_occurrences[OF s(4)] put r2 by simp
  have "\<not> isTerminalState (o_state r2)" "o_jobId r2 = ''j1''"
    using cl by (simp_all add: r2 outcome_transition_def plain_transition_def isTerminalState_def demo_fields demo_job_def)
  then have "\<exists>js. refreshStates demo_ext (\<lambda>_. True) [r2] 200000 [demo_job] = Inr js \<and> s_jobs unknown_doc = js"
    using s(4) put by (auto simp: applyJobCompletion_def Let_def rbind_eq_Inr admitted_doc_def demo_doc_def findJob_def
        demo_job_def[THEN arg_cong[where f = j_id]] dest!: arg_cong[where f = s_jobs] split: if_splits)
  then show "\<exists>st. s_jobs unknown_doc = [demo_job\<lparr>j_state := st\<rparr>]"
    by (auto simp: refreshStates_def refreshJob_def rbind_eq_Inr intro: sym)
qed

lemma unknown_facts:
  "engine_inv 200000 unknown_doc" "s_occurrences unknown_doc = [unknown_record]" "o_state unknown_record = Outcome_Unknown"
  "o_lateSettlement unknown_record = None" "o_terminationSettlement unknown_record = None"
  "o_ownerAgentId unknown_record = Some ''a1''" "o_jobId unknown_record = ''j1''" "o_runId unknown_record = o_runId demo_record"
  "o_occurrenceId unknown_record = o_occurrenceId demo_record"
  using unknown_written(2) unknown_shape(1)
  by (simp_all add: unknown_record_def outcome_transition_def plain_transition_def crash_class_def unknown_class_def
      demo_fields demo_job_def move_def)

lemma unknown_found: "findOccurrenceById (s_occurrences unknown_doc) (o_occurrenceId unknown_record) = Some unknown_record"
  by (simp add: unknown_facts(2) findOccurrenceById_def)

lemma unknown_unresolved: "isUnresolvedUnknown unknown_record"
  by (simp add: isUnresolvedUnknown_def unknown_facts)

lemma unknown_job: "\<exists>job. findJob (s_jobs unknown_doc) (o_jobId unknown_record) = Some job \<and> j_agentId job = ''a1''
    \<and> is_at (j_schedule job) = False"
  using unknown_shape(2) by (auto simp: findJob_def unknown_facts demo_job_def is_at_def)

subsection \<open>Steps of the instance\<close>

lemma flight_distinct: "single_flight occs \<Longrightarrow> distinct (map o_jobId (filter in_flight occs))"
proof -
  have "in_flight r \<Longrightarrow> \<not> isTerminalRecord r" for r
    by (auto simp: in_flight_def isTerminalRecord_def)
  then have "filter in_flight occs = filter in_flight (filter (\<lambda>r. \<not> isTerminalRecord r) occs)"
    by (induction occs) auto
  moreover assume "single_flight occs"
  then have "distinct (map o_jobId (filter in_flight (filter (\<lambda>r. \<not> isTerminalRecord r) occs)))"
    unfolding single_flight_def by (rule distinct_map_filter)
  ultimately show ?thesis by simp
qed

lemma step_written:
  assumes "t \<le> now" and "genuine cmd (disk_doc disk)" and "mutateDoc Written disk (perform S now cmd) = (disk', m)"
  shows "sys_step S \<lparr>y_clock = t, y_disk = disk\<rparr> \<lparr>y_clock = now, y_disk = disk'\<rparr>"
  using assms sys_step.mutation[of "\<lparr>y_clock = t, y_disk = disk\<rparr>" now cmd Written S disk' m] by simp

lemma demo_crash_step:
  "sys_step demo_seams \<lparr>y_clock = 130000, y_disk = Some admitted_doc\<rparr> \<lparr>y_clock = 200000, y_disk = Some unknown_doc\<rparr>"
proof -
  have "perform demo_seams 200000 (Crash demo_run ''boom'') (disk_doc (Some admitted_doc)) = Inr (unknown_doc, ())"
    using unknown_written(1) by (simp add: demo_seams_def disk_doc_def)
  then have "mutateDoc Written (Some admitted_doc) (perform demo_seams 200000 (Crash demo_run ''boom''))
      = (Some unknown_doc, Committed unknown_doc ())"
    using admitted_inv unknown_written(2) by (intro mutateDoc_written) (auto simp: valid_disk_def engine_inv_def)
  then show ?thesis
    by (rule step_written[rotated 2]) simp_all
qed

lemma demo_normalizes: "normalize_job demo_ext (opts_at 0 ''u1'') (job_val demo_job) = Inr demo_job"
  by (rule normalize_job_val[OF demo_job_wf]) (simp_all add: demo_job_def)

lemma demo_reachable: "\<exists>d. reachable demo_seams \<lparr>y_clock = 0, y_disk = Some d\<rparr> \<and> map j_id (s_jobs d) = [''j1'']"
proof -
  obtain st where st: "refreshJob demo_ext [] 0 demo_job = Inr (demo_job\<lparr>j_state := st\<rparr>)"
    using deriveJobStateSummary_returns[of "[]" demo_ext demo_job 0] by (auto simp: refreshJob_def)
  define d where "d = \<lparr>s_jobs = [demo_job\<lparr>j_state := st\<rparr>], s_occurrences = [], s_fences = []\<rparr>"
  have "perform demo_seams 0 (Create ''u1'' (job_val demo_job)) emptyDoc = Inr (d, ())"
    using demo_normalizes st
    by (simp add: demo_seams_def createOrReconcileJob_def findByKey_def insertJob_def emptyDoc_def d_def doc_of_def split: option.split)
  then have "mutateDoc Written None (perform demo_seams 0 (Create ''u1'' (job_val demo_job))) = (Some d, Committed d ())"
    by (intro mutateDoc_written) (simp_all add: valid_disk_def disk_doc_def valid_doc_def ledger_ok_def d_def rebuildFences_def)
  then have "sys_step demo_seams \<lparr>y_clock = 0, y_disk = None\<rparr> \<lparr>y_clock = 0, y_disk = Some d\<rparr>"
    by (rule step_written[rotated 2]) simp_all
  then have "reachable demo_seams \<lparr>y_clock = 0, y_disk = Some d\<rparr>"
    using reachable.intros by blast
  then show ?thesis
    by (auto simp: d_def demo_job_def)
qed

end
