(* ===== verification/Guarantees.thy ===== *)
theory Guarantees
  imports Examples
begin

section \<open>Properties of the data and of the single operations\<close>

text \<open>
  The properties of the schedules, jobs, records, fences and of the operations on one document, each
  with an instance at the concrete values of the theory Examples. The properties of whole histories are
  in the root theory.
\<close>

subsection \<open>Runs and reservations\<close>

text \<open>C5. A reservation that is admitted appends exactly one record to the ledger, changes nothing else,
  and the record is the one derived from the job of the document: admitted now, due to end after the
  timeout of its payload, or an hour later if it names none, bound to the hash of its payload and to its
  owner; the document validates again, and the job had no fence and nothing in flight.\<close>

theorem reserve_admits_one:
  assumes "engine_inv clock d" and "clock \<le> now" and "list_all wf_ids (s_jobs d)"
    and "reserveOccurrence X notRunnable grace now c d = Inr (d', Reserved r)"
  shows "\<exists>job. findJob (s_jobs d) (j_id (cd_job c)) = Some job \<and> j_enabled job
    \<and> j_scheduleRevision job = j_scheduleRevision (cd_job c)
    \<and> \<not> fenced (s_fences d) (j_id job) \<and> \<not> hasNonTerminalOccurrence (s_occurrences d) (j_id job)
    \<and> d' = d\<lparr>s_occurrences := s_occurrences d @ [r]\<rparr> \<and> validateDocument d' = Inr d'
    \<and> o_state r = Admitted \<and> o_admittedAt r = now
    \<and> o_executionDeadlineAtMs r = now + 1000 * (case p_timeoutSeconds (j_payload job) of
        Some s \<Rightarrow> if s > 0 then s else 3600 | None \<Rightarrow> 3600)
    \<and> o_jobId r = j_id job \<and> o_ownerAgentId r = Some (j_agentId job)
    \<and> o_payloadHash r = computePayloadHash X (j_agentId job) (j_payload job)
    \<and> findOccurrenceById (s_occurrences d) (o_occurrenceId r) = None"
proof -
  from assms(4) obtain job where job: "findJob (s_jobs d) (j_id (cd_job c)) = Some job"
    "reserve_refusal X grace now c d job = Inr None" "buildFor X job c now = Inr r"
    "d' = d\<lparr>s_occurrences := s_occurrences d @ [r]\<rparr>"
    "findOccurrenceById (s_occurrences d) (o_occurrenceId r) = None"
    by (rule reserve_Reserved) blast
  have "engine_inv now d'"
    by (rule reserve_keeps[OF assms(1,2,4,3)])
  then show ?thesis
    using job build_fields[OF job(3)[unfolded buildFor_def]] reserve_refusal_None[OF job(2)]
    by (auto simp: validateDocument_iff engine_inv_def turn_timeout_def AGENT_TURN_SAFETY_TIMEOUT_MS_def split: option.split)
qed

theorem reserve_admits_one_witness:
  "\<exists>job. findJob (s_jobs demo_doc) ''j1'' = Some job \<and> validateDocument admitted_doc = Inr admitted_doc
    \<and> o_admittedAt demo_record = 130000 \<and> o_executionDeadlineAtMs demo_record > 130000
    \<and> o_ownerAgentId demo_record = Some ''a1''"
proof -
  have "list_all wf_ids (s_jobs demo_doc)"
    by (simp add: demo_doc_def demo_job_ids)
  from reserve_admits_one[OF demo_doc_inv _ this demo_reserve] show ?thesis
    by (auto simp: demo_candidate_def demo_job_def demo_doc_def findJob_def)
qed

text \<open>Reserving is idempotent: the same candidate against the document that already holds its
  occurrence is recognised as a duplicate, whatever has happened to the record since, and the document
  does not change.\<close>

theorem reserve_idempotent:
  assumes "buildFor X (cd_job c) c now = Inr a" and "findOccurrenceByCoords (s_occurrences d) (logicalCoordinates a) = Some r"
    and "o_occurrenceId r = o_occurrenceId a" and "o_payloadHash r = o_payloadHash a"
  shows "reserveOccurrence X notRunnable grace now c d = Inr (d, Deduped r)"
  using assms by (simp add: reserveOccurrence_def)

theorem reserve_idempotent_witness:
  "reserveOccurrence demo_ext all_runnable 900000 130000 demo_candidate admitted_doc = Inr (admitted_doc, Deduped demo_record)"
proof (rule reserve_idempotent)
  show "buildFor demo_ext (cd_job demo_candidate) demo_candidate 130000 = Inr demo_record"
    using demo_build by (simp add: demo_candidate_def)
qed (simp_all add: findOccurrenceByCoords_def admitted_doc_def)

text \<open>C3. However the invocation ends, and whatever happens to the writes of the run, the document keeps
  the invariant of the engine and the occurrence with its identity. The occurrence is settled, no longer in
  flight, unless the write of the crash guard was lost as well: then the document is exactly as it was, and
  the run reports an unknown outcome. A success or failure is reported only if the invocation was classified
  so and the record says so.\<close>

theorem run_settles:
  assumes "engine_inv clock d" and "clock \<le> now"
    and "findOccurrenceById (s_occurrences d) (o_occurrenceId (w_record w)) = Some r" and "in_flight r"
    and "o_runId r = o_runId (w_record w)" "o_payloadHash r = o_payloadHash (w_record w)"
      "o_scheduleRevision r = o_scheduleRevision (w_record w)"
    and run: "runOccurrence X now w invocation deliverOk mode (w_back, w_settle, w_crash) (Some d) = (disk', st)"
  shows "\<exists>d' r'. disk' = Some d' \<and> engine_inv now d'
    \<and> findOccurrenceById (s_occurrences d') (o_occurrenceId r) = Some r' \<and> same_identity r r'
    \<and> (\<not> in_flight r' \<or> d' = d \<and> st = Outcome_Unknown \<and> (\<exists>m. w_crash = Lost_Before m))
    \<and> (st = Outcome_Unknown \<or> o_state r' = st
         \<and> (\<exists>oc. invocation = Some oc \<and> st = cl_state (classifyOccurrenceOutcome (w_started w) oc)))"
proof -
  have "exact_run clock now d w r"
    using assms(1-7) by (simp add: exact_run_def)
  from run_settled[OF this, of w_crash X invocation deliverOk mode w_back w_settle]
    run_reports[of X now w invocation deliverOk mode "(w_back, w_settle, w_crash)" "Some d"] show ?thesis
    unfolding run by (auto simp: run_left_def)
qed

theorem run_settles_witness:
  "\<exists>d' st r'. runOccurrence demo_ext 200000 demo_run None True No_Delivery (Written, Written, Lost_After ''unlock'')
      (Some admitted_doc) = (Some d', st)
    \<and> findOccurrenceById (s_occurrences d') (o_occurrenceId demo_record) = Some r' \<and> \<not> in_flight r'"
proof -
  obtain disk' st where r: "runOccurrence demo_ext 200000 demo_run None True No_Delivery
      (Written, Written, Lost_After ''unlock'') (Some admitted_doc) = (disk', st)"
    by (metis prod.collapse)
  have "w_record demo_run = demo_record" by (simp add: demo_run_def)
  with run_settles[OF admitted_inv _ demo_found demo_in_flight _ _ _ r] show ?thesis
    unfolding r by auto
qed

text \<open>C4. Recovery after a restart always commits and leaves no occurrence in flight; every record that
  was in flight has an unknown outcome, every other record is untouched, and no job may fire while its
  unknown outcome is unresolved: its fence is up.\<close>

theorem recovery_settles:
  assumes "engine_inv clock d" and "clock \<le> now"
  shows "\<exists>d' swept. sweepUnresolved X now d = Inr (d', swept) \<and> engine_inv now d'
    \<and> list_all2 (\<lambda>r r'. if in_flight r then o_state r' = Outcome_Unknown \<and> fenced (s_fences d') (o_jobId r) else r' = r)
        (s_occurrences d) (s_occurrences d')"
  by (rule recovery_result[OF assms])

theorem recovery_settles_witness:
  "\<exists>d' swept. sweepUnresolved demo_ext 200000 admitted_doc = Inr (d', swept) \<and> engine_inv 200000 d'
    \<and> fenced (s_fences d') ''j1''"
  using recovery_settles[OF admitted_inv, of 200000 demo_ext] demo_in_flight
  by (auto simp: admitted_doc_def list_all2_Cons1 demo_fields demo_job_def)

subsection \<open>Fences\<close>

text \<open>C6. The fences are exactly the jobs with an unresolved unknown outcome, and the fence of a job is the
  one of the unresolved occurrence that was admitted first.\<close>

theorem fences_are_exact:
  "fenced (rebuildFences occs) k = list_ex (\<lambda>r. isUnresolvedUnknown r \<and> o_jobId r = k) occs
   \<and> pred_option (\<lambda>f. list_all (\<lambda>r. (isUnresolvedUnknown r \<and> o_jobId r = k) = False \<or> f_activatedAtMs f \<le> o_admittedAt r) occs
        \<and> list_ex (\<lambda>r. isUnresolvedUnknown r \<and> o_jobId r = k \<and> f = fence_of r) occs)
      (map_of (rebuildFences occs) k)"
proof -
  let ?q = "filter (\<lambda>r. isUnresolvedUnknown r \<and> o_jobId r = k) occs"
  have "pred_option (\<lambda>f. list_all (\<lambda>r. (isUnresolvedUnknown r \<and> o_jobId r = k) = False \<or> f_activatedAtMs f \<le> o_admittedAt r) occs
        \<and> list_ex (\<lambda>r. isUnresolvedUnknown r \<and> o_jobId r = k \<and> f = fence_of r) occs)
      (map_option fence_of (earliest None ?q))"
  proof (cases "earliest None ?q")
    case (Some r)
    have "(\<forall>s \<in> set ?q. o_admittedAt r \<le> o_admittedAt s) \<and> r \<in> set ?q"
      using earliest_least[OF Some] by simp
    then show ?thesis
      using Some by (auto simp: list_all_iff list_ex_iff fence_of_def)
  qed simp
  then show ?thesis
    by (auto simp: rebuildFences_lookup fenced_rebuild list_ex_iff)
qed

subsection \<open>Outcomes\<close>

text \<open>C7. A run is recorded as failed only on a proof: the router said so, the turn never started, or the
  turn is proven to have terminated. Success is only the invoker's own terminal success; everything else
  is an unknown outcome, which carries no execution outcome.\<close>

theorem failure_needs_proof:
  "(let cl = classifyOccurrenceOutcome started oc in
    if cl_state cl = Succeeded then oc_status oc = ''ok''
    else if cl_state cl = Failed then oc_status oc \<noteq> ''ok'' \<and> \<not> oc_timedOut oc \<and> oc_status oc \<noteq> ''outcome_unknown''
      \<and> (oc_routerEnvelope oc = Some ''not_admitted'' \<or> oc_routerEnvelope oc = Some ''failed''
         \<or> \<not> started \<and> oc_started oc = Some False \<or> hasTerminationProof oc)
    else cl_state cl = Outcome_Unknown \<and> cl_executionOutcome cl = None \<and> cl_terminalEvidence cl = None)"
  by (simp add: classifyOccurrenceOutcome_def Let_def unknown_class_def failed_class_def)

text \<open>C11. A late business outcome settles an unknown occurrence once: the first trusted settlement of the
  exact run commits and fixes the state, and a second one, whatever it says, changes nothing.\<close>

theorem late_settlement_once:
  assumes "engine_inv clock d" and "clock \<le> now"
    and "findOccurrenceById (s_occurrences d) (o_occurrenceId (w_record w)) = Some r"
    and "o_runId r = o_runId (w_record w)" and "o_state r = Outcome_Unknown" and "o_lateSettlement r = None"
    and "isTerminalState to" and "kind \<in> set terminal_evidence_kinds" and "note' \<noteq> []"
  shows "\<exists>d' disposition r'. applyLateSettlement X now w to note' oc kind d = Inr (d', Some disposition)
    \<and> engine_inv now d' \<and> findOccurrenceById (s_occurrences d') (o_occurrenceId r) = Some r' \<and> o_state r' = to
    \<and> applyLateSettlement X later w to2 note2 oc2 kind2 d' = Inr (d', None)"
proof -
  obtain d' v r' where c: "applyLateSettlement X now w to note' oc kind d = Inr (d', Some v)" "engine_inv now d'"
      "findOccurrenceById (s_occurrences d') (o_occurrenceId r) = Some r'" "o_state r' = to" "o_lateSettlement r' \<noteq> None"
    by (rule applyLateSettlement_commits[OF assms])
  have "o_occurrenceId (w_record w) = o_occurrenceId r"
    using findOccurrenceById_Some[OF assms(3)] by simp
  then have "applyLateSettlement X later w to2 note2 oc2 kind2 d' = Inr (d', None)"
    using c(3,5) by (intro applyLateSettlement_ignored) auto
  then show ?thesis using c by blast
qed

theorem late_settlement_once_witness:
  "\<exists>d' v r'. applyLateSettlement demo_ext 300000 (demo_run\<lparr>w_record := unknown_record\<rparr>) Succeeded ''late'' ok_outcome
      ''late-settlement'' unknown_doc = Inr (d', Some v)
    \<and> findOccurrenceById (s_occurrences d') (o_occurrenceId unknown_record) = Some r' \<and> o_state r' = Succeeded
    \<and> applyLateSettlement demo_ext 400000 (demo_run\<lparr>w_record := unknown_record\<rparr>) Failed ''again'' ok_outcome
      ''late-settlement'' d' = Inr (d', None)"
proof -
  have found: "findOccurrenceById (s_occurrences unknown_doc) (o_occurrenceId (w_record (demo_run\<lparr>w_record := unknown_record\<rparr>)))
      = Some unknown_record"
    using unknown_found by simp
  show ?thesis
    using late_settlement_once[OF unknown_facts(1) _ found _ unknown_facts(3,4), of 300000 Succeeded
        "''late-settlement''" "''late''" demo_ext ok_outcome 400000 Failed "''again''" ok_outcome "''late-settlement''"]
    by (auto simp: isTerminalState_def terminal_evidence_kinds_def)
qed

text \<open>C13. A trusted proof of termination releases the fence contribution of its occurrence without
  deciding its business outcome: the state stays unknown, the record counts as terminated, a job whose
  other occurrences are resolved is no longer fenced, and no job of the resulting ledger, at any time, has a
  retry of this occurrence to start.\<close>

theorem termination_keeps_business:
  assumes "engine_inv clock d" and "clock \<le> now"
    and "findOccurrenceById (s_occurrences d) (o_occurrenceId r) = Some r" and "isUnresolvedUnknown r"
    and "findJob (s_jobs d) (o_jobId r) = Some job" and "o_ownerAgentId r = Some (j_agentId job)"
    and "tp_evidenceKind p \<in> set TRUSTED_TERMINATION_EVIDENCE"
  shows "\<exists>d' r'. applyTerminationSettlement X now r p d = Inr (d', True) \<and> engine_inv now d'
    \<and> findOccurrenceById (s_occurrences d') (o_occurrenceId r) = Some r' \<and> o_state r' = Outcome_Unknown
    \<and> o_lateSettlement r' = None \<and> isTerminalRecord r' \<and> \<not> isUnresolvedUnknown r'
    \<and> fenced (s_fences d') (o_jobId r)
      = list_ex (\<lambda>q. isUnresolvedUnknown q \<and> o_jobId q = o_jobId r \<and> o_occurrenceId q \<noteq> o_occurrenceId r) (s_occurrences d')
    \<and> (\<forall>any later c. retryCandidate any (s_occurrences d') later = Some (Some c) \<longrightarrow> rc_retryOf c \<noteq> o_occurrenceId r)"
  by (rule termination_result[OF assms])

theorem termination_keeps_business_witness:
  "\<exists>d' r'. applyTerminationSettlement demo_ext 300000 unknown_record \<lparr>tp_evidenceKind = ''child_real_exit'', tp_handle = None\<rparr>
      unknown_doc = Inr (d', True) \<and> findOccurrenceById (s_occurrences d') (o_occurrenceId unknown_record) = Some r'
    \<and> o_state r' = Outcome_Unknown \<and> \<not> isUnresolvedUnknown r'"
proof -
  obtain job where job: "findJob (s_jobs unknown_doc) (o_jobId unknown_record) = Some job" "o_ownerAgentId unknown_record = Some (j_agentId job)"
    using unknown_job unknown_facts(6) by auto
  show ?thesis
    using termination_keeps_business[OF unknown_facts(1) _ unknown_found unknown_unresolved job, of 300000
        "\<lparr>tp_evidenceKind = ''child_real_exit'', tp_handle = None\<rparr>" demo_ext]
    by (auto simp: TRUSTED_TERMINATION_EVIDENCE_def)
qed

end
