(* ===== verification/SelfOps.thy ===== *)
theory SelfOps
  imports Growth
begin

section \<open>Self-operations of an agent: status, exact reconcile and diagnosis\<close>

text \<open>
  \<^verbatim>\<open>self-ops/index.js\<close> and \<^verbatim>\<open>self-ops/diagnosis.js\<close>: what an agent may ask about its own jobs, and the one
  settlement it may perform itself, from a termination proved by the router. The readback of the router
  (\<^verbatim>\<open>resolveCallerCorrelation\<close>) is a parameter; the health projection of \<^verbatim>\<open>watchdog/health.js\<close> is left out.
  The fixed sentences the diagnosis returns as reasons and advice are constructors.
\<close>

subsection \<open>Replies\<close>

record self_receipt =
  sf_operationId :: string
  sf_callerAgentId :: string
  sf_jobId :: string
  sf_occurrenceId :: string
  sf_runId :: string
  sf_businessState :: occ_state
  sf_terminationKind :: string
  sf_fenceBefore :: bool
  sf_fenceAfter :: bool
  sf_scheduleDisposition :: string
  sf_committedAt :: int
  sf_evidenceRef :: string

datatype self_reply = Self_Failure string string | Self_Settled self_receipt

definition opaqueDenied :: self_reply where
  "opaqueDenied = Self_Failure ''not_found_or_not_owned'' ''owned exact run not found''"

definition receipt_of :: "occurrence \<Rightarrow> termination_settlement \<Rightarrow> self_reply" where
  "receipt_of r s = Self_Settled \<lparr>sf_operationId = ts_operationId s, sf_callerAgentId = ts_actorId s,
     sf_jobId = o_jobId r, sf_occurrenceId = o_occurrenceId r, sf_runId = o_runId r,
     sf_businessState = ts_businessStateAtCommit s, sf_terminationKind = ts_kind s,
     sf_fenceBefore = ts_fenceBefore s, sf_fenceAfter = ts_fenceAfter s,
     sf_scheduleDisposition = ts_scheduleDisposition s, sf_committedAt = ts_committedAt s,
     sf_evidenceRef = ts_evidenceId s\<rparr>"

definition routerFailure :: "string \<Rightarrow> self_reply" where
  "routerFailure disposition =
    (if disposition \<in> set [''late_completed'', ''late_failed''] then
       Self_Failure ''business_outcome_available'' ''trusted business outcome requires the authorized late-outcome path''
     else if disposition \<in> set [''mismatch'', ''conflict''] then
       Self_Failure ''correlation_mismatch'' ''exact Router correlation does not match''
     else Self_Failure ''termination_not_proven'' (''Router disposition: '' @ disposition))"

subsection \<open>The exact reconcile of an agent's own run\<close>

text \<open>
  The checks are the same before the lock and under it: the run is the exact one and owned, it has no
  settlement yet (its own settlement is answered with its receipt again), it is an unresolved unknown,
  and the router proves that it terminated. \<open>Inl\<close> is the reply that ends the operation.
\<close>

definition self_checked ::
    "(occurrence \<Rightarrow> router_result option) \<Rightarrow> string \<Rightarrow> string \<Rightarrow> string \<Rightarrow> string \<Rightarrow> sdoc \<Rightarrow> self_reply + (job \<times> occurrence \<times> classified)" where
  "self_checked resolve caller jobId occurrenceId runId d =
    (case (findJob (s_jobs d) jobId, findOccurrenceById (s_occurrences d) occurrenceId) of
       (Some job, Some r) \<Rightarrow>
         if o_jobId r \<noteq> jobId \<or> o_runId r \<noteq> runId \<or> j_agentId job \<noteq> caller
            \<or> o_recordSchemaVersion r \<noteq> 3 \<or> o_ownerAgentId r \<noteq> Some caller then Inl opaqueDenied
         else (case o_terminationSettlement r of
           Some s \<Rightarrow> Inl (if ts_actorKind s = ''self-agent'' \<and> ts_actorId s = caller then receipt_of r s
              else Self_Failure ''not_reconcilable'' ''run already has a trusted settlement'')
         | None \<Rightarrow>
             if \<not> isUnresolvedUnknown r
             then Inl (Self_Failure ''not_reconcilable'' ''run is not an unresolved unknown'')
             else let classified = classifyRouter (resolve r) r (Some caller) in
               if rd_disposition classified \<noteq> ''terminated_without_outcome''
               then Inl (routerFailure (rd_disposition classified))
               else Inr (job, r, classified))
     | _ \<Rightarrow> Inl opaqueDenied)"

definition self_settlement :: "int \<Rightarrow> string \<Rightarrow> string \<Rightarrow> string \<Rightarrow> bool \<Rightarrow> occurrence \<Rightarrow> job \<Rightarrow> termination_settlement" where
  "self_settlement nowMs caller h kind fenceBefore r job =
     \<lparr>ts_kind = ''terminated_without_outcome'', ts_businessStateAtCommit = Outcome_Unknown,
      ts_requestId = requestIdFor r, ts_evidenceKind = kind, ts_evidenceId = evidenceIdFor h kind,
      ts_actorKind = ''self-agent'', ts_actorId = caller, ts_actorProvenance = ''trusted-parent-context'',
      ts_operationId = deriveSelfReconcileOperationId caller (o_occurrenceId r) (o_runId r),
      ts_fenceBefore = fenceBefore, ts_fenceAfter = False, ts_scheduleDisposition = disposition_of (Some job),
      ts_settledAt = nowMs, ts_committedAt = nowMs\<rparr>"

text \<open>
  The mutation: \<open>Inl\<close> is a thrown \<^verbatim>\<open>NoWrite\<close>, which carries its reply out of the lock.
\<close>

definition selfSettle ::
    "ext \<Rightarrow> int \<Rightarrow> (occurrence \<Rightarrow> router_result option) \<Rightarrow> string \<Rightarrow> string \<Rightarrow> string \<Rightarrow> string \<Rightarrow> sdoc
     \<Rightarrow> self_reply + (sdoc \<times> self_reply) res" where
  "selfSettle X nowMs resolve caller jobId occurrenceId runId latest =
    (case self_checked resolve caller jobId occurrenceId runId latest of
       Inl reply \<Rightarrow> Inl reply
     | Inr (job, r, classified) \<Rightarrow>
         let kind = (case rd_snapshot classified of Some s \<Rightarrow> text_or (rs_terminationEvidence s) [] | None \<Rightarrow> []);
             d = settleTermination occurrenceId jobId
               (self_settlement nowMs caller (text_or (rd_handle classified) []) kind (fenced (s_fences latest) jobId) r job)
               ''trusted exact termination without business outcome'' latest;
             jobs = (if is_at (j_schedule job)
               then replaceFirst jobId (\<lambda>j. j\<lparr>j_enabled := False, j_updatedAtMs := nowMs\<rparr>) (s_jobs d)
               else s_jobs d)
         in Inr (rbind (refreshStates X (\<lambda>j. j_id j = jobId) (jobOccurrences (s_occurrences d) jobId) nowMs jobs) (\<lambda>jobs'.
              Inr (d\<lparr>s_jobs := jobs'\<rparr>,
                case findOccurrenceById (s_occurrences d) occurrenceId of
                  Some r' \<Rightarrow> (case o_terminationSettlement r' of Some s \<Rightarrow> receipt_of r' s | None \<Rightarrow> opaqueDenied)
                | None \<Rightarrow> opaqueDenied))))"

text \<open>
  \<open>resolve\<close> is asked before the lock, \<open>resolve'\<close> again under it; \<open>before\<close> is the file the first read
  saw, \<open>disk\<close> the file under the lock. A commit whose acknowledgement is lost is still reported as
  settled; a writer that cannot get the lock is reported as a conflict.
\<close>

definition reconcileTurn ::
    "ext \<Rightarrow> int \<Rightarrow> (occurrence \<Rightarrow> router_result option) \<Rightarrow> (occurrence \<Rightarrow> router_result option) \<Rightarrow> write_outcome
     \<Rightarrow> string \<Rightarrow> string \<Rightarrow> string \<Rightarrow> string \<Rightarrow> sdoc option \<Rightarrow> sdoc option \<Rightarrow> sdoc option \<times> self_reply res" where
  "reconcileTurn X nowMs resolve resolve' w caller jobId occurrenceId runId before disk =
    (case rbind (loadDoc before) (\<lambda>d. Inr (self_checked resolve caller jobId occurrenceId runId d)) of
       Inl e \<Rightarrow> (disk, Inl e)
     | Inr (Inl reply) \<Rightarrow> (disk, Inr reply)
     | Inr (Inr _) \<Rightarrow>
         (case loadDocForMutation disk of
            Inl e \<Rightarrow> (disk, Inl e)
          | Inr latest \<Rightarrow>
              (case selfSettle X nowMs resolve' caller jobId occurrenceId runId latest of
                 Inl reply \<Rightarrow> (disk, Inr reply)
               | Inr step \<Rightarrow>
                   (case mutateDoc w disk (\<lambda>_. step) of
                      (disk', Committed _ v) \<Rightarrow> (disk', Inr v)
                    | (disk', Ack_Lost _ v _) \<Rightarrow> (disk', Inr v)
                    | (disk', Not_Committed e) \<Rightarrow>
                        if sublist ''lock timeout'' (error_text e)
                           \<or> sublist ''held by a live or unverifiable owner'' (error_text e)
                        then (disk', Inr (Self_Failure ''store_conflict'' ''Scheduler authority is busy; no write was committed''))
                        else (disk', Inl e)))))"

subsection \<open>Status\<close>

record status_row =
  sw_jobId :: string
  sw_occurrenceId :: string
  sw_runId :: string
  sw_fenceActive :: bool
  sw_routerDisposition :: string
  sw_eligible :: bool
  sw_blocker :: string
  sw_reconciliation :: string
  sw_observedAt :: "int option"

record self_status =
  sx_ownedJobCount :: nat
  sx_activeFenceCount :: nat
  sx_unresolvedCount :: nat
  sx_candidateCount :: nat
  sx_blockers :: "status_row list"
  sx_truncated :: bool

definition ownedJobs :: "sdoc \<Rightarrow> string \<Rightarrow> job list" where
  "ownedJobs d caller = filter (\<lambda>j. j_agentId j = caller) (s_jobs d)"

definition visibleOwned :: "sdoc \<Rightarrow> string \<Rightarrow> occurrence list" where
  "visibleOwned d caller = filter (\<lambda>r. o_recordSchemaVersion r = 3 \<and> o_ownerAgentId r = Some caller
     \<and> o_jobId r \<in> set (map j_id (ownedJobs d caller))) (s_occurrences d)"

text \<open>\<open>clock r\<close> is the instant at which the row of \<open>r\<close> is observed.\<close>

definition status_row_of ::
    "(occurrence \<Rightarrow> router_result option) \<Rightarrow> (occurrence \<Rightarrow> int) \<Rightarrow> string \<Rightarrow> sdoc \<Rightarrow> occurrence \<Rightarrow> status_row" where
  "status_row_of resolve clock caller d r =
    (let disposition = rd_disposition (classifyRouter (resolve r) r (Some caller));
         bundle = readback_bundle r disposition (clock r);
         result = classifyReconciliationEvidence bundle (clock r) DEFAULT_RECONCILIATION_EVIDENCE_MAX_AGE_MS
     in \<lparr>sw_jobId = o_jobId r, sw_occurrenceId = o_occurrenceId r, sw_runId = o_runId r,
         sw_fenceActive = fenced (s_fences d) (o_jobId r), sw_routerDisposition = disposition,
         sw_eligible = (isUnresolvedUnknown r \<and> disposition = ''terminated_without_outcome''),
         sw_blocker = (if disposition = ''terminated_without_outcome'' then ''safe_reconcile_available'' else disposition),
         sw_reconciliation = text_or (rn_classification result) ''TERMINATION_ONLY_SETTLEMENT_AVAILABLE'',
         sw_observedAt = (case opt_list (rb_business bundle) @ opt_list (rb_termination bundle) @ opt_list (rb_live bundle) of
            e # _ \<Rightarrow> re_observedAt e | [] \<Rightarrow> None)\<rparr>)"

definition selfStatus ::
    "(occurrence \<Rightarrow> router_result option) \<Rightarrow> (occurrence \<Rightarrow> int) \<Rightarrow> string \<Rightarrow> sdoc \<Rightarrow> self_status" where
  "selfStatus resolve clock caller d =
    (let unknowns = filter isUnresolvedUnknown (visibleOwned d caller);
         rows = map (status_row_of resolve clock caller d) (sort_key (\<lambda>r. - o_admittedAt r) unknowns)
     in \<lparr>sx_ownedJobCount = length (remdups (map j_id (ownedJobs d caller))),
         sx_activeFenceCount = length (remdups (map o_jobId unknowns)), sx_unresolvedCount = length unknowns,
         sx_candidateCount = length (filter sw_eligible rows), sx_blockers = take 20 rows,
         sx_truncated = (length rows > 20)\<rparr>)"

subsection \<open>The reconcile commits, tells the truth and is idempotent\<close>

lemma terminated_readback:
  assumes "rd_disposition (classifyRouter result r caller) = ''terminated_without_outcome''"
  obtains res snap k h where "result = Some res" "rr_snapshot res = Some snap" "rr_handle res = Some h" "h \<noteq> []"
    "rs_terminationEvidence snap = Some k" "k \<in> set TRUSTED_TERMINATION_EVIDENCE"
    "rs_agentId snap = caller" "exact_correlation r snap"
    "classifyRouter result r caller = \<lparr>rd_disposition = ''terminated_without_outcome'', rd_snapshot = Some snap, rd_handle = Some h\<rparr>"
proof -
  obtain res where res: "result = Some res"
    using assms by (cases result) (simp_all add: classifyRouter_def bare_def)
  obtain snap where snap: "rr_snapshot res = Some snap" "rr_state res = ''settled''"
    using assms res by (cases "rr_snapshot res") (auto simp: classifyRouter_def bare_def split: if_splits)
  have exact: "rs_agentId snap = caller" "exact_correlation r snap"
    using assms res snap by (auto simp: classifyRouter_def bare_def split: if_splits)
  let ?out = "text_or (override (rs_lateOutcome snap) (rs_outcome snap)) ''unsupported''"
  let ?disp = "if ?out = ''completed'' then ''late_completed'' else if ?out \<in> set [''failed'', ''not_admitted''] then ''late_failed'' else ?out"
  let ?bad = "rr_handle res = None \<or> rr_handle res = Some []
      \<or> (case rs_terminationEvidence snap of Some k \<Rightarrow> k \<notin> set TRUSTED_TERMINATION_EVIDENCE | None \<Rightarrow> True)"
  have eq: "classifyRouter result r caller = (if ?disp = ''terminated_without_outcome'' \<and> ?bad then bare ''unsupported''
      else \<lparr>rd_disposition = (if ?disp \<in> set ROUTER_DISPOSITIONS then ?disp else ''unsupported''),
            rd_snapshot = Some snap, rd_handle = rr_handle res\<rparr>)"
    using res snap exact by (simp add: classifyRouter_def Let_def)
  have d: "?disp = ''terminated_without_outcome''" "\<not> ?bad"
    using assms unfolding eq by (auto simp: bare_def split: if_splits)
  then obtain h where h: "rr_handle res = Some h" "h \<noteq> []"
    by (cases "rr_handle res") auto
  obtain k where k: "rs_terminationEvidence snap = Some k" "k \<in> set TRUSTED_TERMINATION_EVIDENCE"
    using d(2) by (cases "rs_terminationEvidence snap") auto
  have "classifyRouter result r caller = \<lparr>rd_disposition = ''terminated_without_outcome'', rd_snapshot = Some snap, rd_handle = Some h\<rparr>"
    unfolding eq using d h by (simp add: ROUTER_DISPOSITIONS_def)
  with res snap(1) h k exact show thesis using that by blast
qed

lemma self_checked_Inr:
  assumes "self_checked resolve caller jobId i rn d = Inr (job, r, cl)"
  shows "findJob (s_jobs d) jobId = Some job" "findOccurrenceById (s_occurrences d) i = Some r"
    "o_jobId r = jobId" "o_runId r = rn" "j_agentId job = caller" "o_recordSchemaVersion r = 3"
    "o_ownerAgentId r = Some caller" "isUnresolvedUnknown r" "cl = classifyRouter (resolve r) r (Some caller)"
    "rd_disposition cl = ''terminated_without_outcome''"
  using assms by (auto simp: self_checked_def Let_def split: option.splits if_splits)

lemma self_settlement_fit:
  assumes v: "valid_occ r" "record_inv now r" and unk: "isUnresolvedUnknown r"
    and owner: "o_ownerAgentId r = Some caller" and kind: "kind \<in> set TRUSTED_TERMINATION_EVIDENCE"
  shows "fit_settlement r (self_settlement now caller h kind True r job)"
proof -
  have "caller \<noteq> []"
    using v(1) owner by (simp add: valid_occ_iff head_ok_def owner_faults_def)
  moreover have "h_at (last (o_history r)) \<le> now"
    using v(2) by (simp add: record_inv_def)
  ultimately show ?thesis
    using unk owner trusted_kinds[OF kind] disposition_known[of "Some job"]
    by (simp add: fit_settlement_def self_settlement_def requestIdFor_def text_or_def evidenceIdFor_def
        deriveSelfReconcileOperationId_def termination_actor_kinds_def)
qed

lemma selfSettle_commits:
  assumes inv: "engine_inv clock d" and "clock \<le> now" and "self_checked resolve caller jobId i rn d = Inr (job, r, cl)"
  obtains d' rc r' s where "selfSettle X now resolve caller jobId i rn d = Inr (Inr (d', Self_Settled rc))"
    "engine_inv now d'" "grows (s_occurrences d) (s_occurrences d')" "findOccurrenceById (s_occurrences d') i = Some r'"
    "o_state r' = Outcome_Unknown" "o_terminationSettlement r' = Some s" "receipt_of r' s = Self_Settled rc"
    "ts_actorKind s = ''self-agent''" "ts_actorId s = caller" "ts_fenceAfter s = fenced (s_fences d') jobId"
    "o_jobId r' = jobId" "o_runId r' = rn" "o_ownerAgentId r' = Some caller" "o_recordSchemaVersion r' = 3"
    "map (\<lambda>j. (j_id j, j_agentId j)) (s_jobs d') = map (\<lambda>j. (j_id j, j_agentId j)) (s_jobs d)"
proof -
  note c = self_checked_Inr[OF assms(3)]
  obtain res snap k h where rb: "rs_terminationEvidence snap = Some k" "k \<in> set TRUSTED_TERMINATION_EVIDENCE"
      "cl = \<lparr>rd_disposition = ''terminated_without_outcome'', rd_snapshot = Some snap, rd_handle = Some h\<rparr>"
    using terminated_readback[OF c(10)[unfolded c(9)]] c(9) by metis
  note v = found_valid[OF inv c(2) assms(2)]
  let ?s = "self_settlement now caller h k True r job" and ?why = "''trusted exact termination without business outcome''"
  let ?d = "settleTermination i jobId ?s ?why d"
  note fit = self_settlement_fit[OF v(1,2) c(8,7) rb(2), of h job]
  have ok: "ledger_ok (s_occurrences d)" using inv by (simp add: engine_inv_def ledger_inv_def)
  note eq = settleTermination_ledger[OF ok c(2) v(1) fit, of jobId ?why]
  let ?b = "fenced (rebuildFences (putOccurrence i (annotate ?s ?why r) (s_occurrences d))) jobId"
  let ?r = "record_fence_after ?b (annotate ?s ?why r)"
  have at': "ts_settledAt ?s \<le> now" by (simp add: self_settlement_def)
  note inv' = settleTermination_inv[OF inv assms(2) c(2) fit at', of jobId ?why]
  have fen: "fenced (s_fences d) jobId"
    using inv c(3,8) v(3) by (auto simp: engine_inv_def valid_doc_fenced)
  have found: "findOccurrenceById (s_occurrences ?d) i = Some ?r"
  proof -
    have "find p (update_first p (\<lambda>_. y) xs) = Some y" if "find p xs = Some x" "p y" for p xs and x y :: occurrence
      using that by (induction xs) (auto split: if_splits)
    from this[OF c(2)[unfolded findOccurrenceById_def], of ?r] show ?thesis
      using v(4) unfolding eq by (simp add: findOccurrenceById_def putOccurrence_def annotate_def record_fence_after_def)
  qed
  let ?set = "?s\<lparr>ts_fenceAfter := ?b\<rparr>"
  have rec: "o_terminationSettlement ?r = Some ?set" "o_state ?r = Outcome_Unknown" "o_jobId ?r = jobId" "o_runId ?r = rn"
      "o_ownerAgentId ?r = Some caller" "o_recordSchemaVersion ?r = 3"
    using c(3,4,6,7,8) by (simp_all add: record_fence_after_def annotate_def isUnresolvedUnknown_def)
  have "retry_ordered (jobOccurrences (s_occurrences ?d) jobId)"
    using inv'(1) by (simp add: engine_inv_def ledger_inv_def jobOccurrences_def retry_ordered_filter)
  then obtain js where js: "refreshStates X (\<lambda>j. j_id j = jobId) (jobOccurrences (s_occurrences ?d) jobId) now
      (if is_at (j_schedule job) then replaceFirst jobId (\<lambda>j. j\<lparr>j_enabled := False, j_updatedAtMs := now\<rparr>) (s_jobs ?d)
       else s_jobs ?d) = Inr js"
    using refreshStates_returns by blast
  obtain rc where rc: "receipt_of ?r ?set = Self_Settled rc" by (simp add: receipt_of_def)
  show thesis
  proof (rule that[of "?d\<lparr>s_jobs := js\<rparr>" rc ?r ?set])
    show "selfSettle X now resolve caller jobId i rn d = Inr (Inr (?d\<lparr>s_jobs := js\<rparr>, Self_Settled rc))"
      using js found rec(1) rc rb fen
      by (cases "is_at (j_schedule job)") (simp_all add: selfSettle_def assms(3) Let_def text_or_def)
    show "engine_inv now (?d\<lparr>s_jobs := js\<rparr>)" by (rule engine_inv_jobs[OF inv'(1)])
    show "grows (s_occurrences d) (s_occurrences (?d\<lparr>s_jobs := js\<rparr>))"
      using settleTermination_grows[OF c(2,8)] by simp
    show "ts_fenceAfter ?set = fenced (s_fences (?d\<lparr>s_jobs := js\<rparr>)) jobId"
      unfolding eq by simp
    let ?key = "\<lambda>j :: job. (j_id j, j_agentId j)"
    have blank: "?key \<circ> (\<lambda>j. j\<lparr>j_state := empty_state\<rparr>) = ?key" by (simp add: comp_def)
    have "map ?key (update_first p f xs) = map ?key xs" if "\<And>j. ?key (f j) = ?key j" for p f and xs :: "job list"
      using that by (induction xs) auto
    then have "map ?key js = map ?key (s_jobs ?d)"
      using refreshStates_ids[OF js, THEN arg_cong[where f = "map ?key"]] unfolding map_map blank
      by (simp add: replaceFirst_def split: if_splits)
    then show "map ?key (s_jobs (?d\<lparr>s_jobs := js\<rparr>)) = map ?key (s_jobs d)"
      by (simp add: settleTermination_def Let_def)
  qed (use found rec rc in \<open>simp_all add: self_settlement_def\<close>)
qed

text \<open>Asked again, the operation answers with the same receipt and writes nothing.\<close>

lemma findJob_owner:
  assumes "map (\<lambda>j. (j_id j, j_agentId j)) js = map (\<lambda>j. (j_id j, j_agentId j)) jobs" and "findJob jobs i = Some job"
  shows "\<exists>job'. findJob js i = Some job' \<and> j_agentId job' = j_agentId job"
  using assms
proof (induction jobs arbitrary: js)
  case (Cons k ks)
  then obtain k' ks' where "js = k' # ks'" "j_id k' = j_id k" "j_agentId k' = j_agentId k"
      "map (\<lambda>j. (j_id j, j_agentId j)) ks' = map (\<lambda>j. (j_id j, j_agentId j)) ks"
    by (cases js) auto
  with Cons show ?case by (auto simp: findJob_def)
qed (simp add: findJob_def)

lemma selfSettle_again:
  assumes "engine_inv clock d" and "clock \<le> now" and "self_checked resolve caller jobId i rn d = Inr (job, r, cl)"
    and "selfSettle X now resolve caller jobId i rn d = Inr (Inr (d', reply))"
  shows "self_checked resolve' caller jobId i rn d' = Inl reply"
proof -
  obtain rc r' s where n: "reply = Self_Settled rc"
    "findOccurrenceById (s_occurrences d') i = Some r'" "o_terminationSettlement r' = Some s" "receipt_of r' s = Self_Settled rc"
    "ts_actorKind s = ''self-agent''" "ts_actorId s = caller" "o_jobId r' = jobId" "o_runId r' = rn"
    "o_ownerAgentId r' = Some caller" "o_recordSchemaVersion r' = 3"
    and keys: "map (\<lambda>j. (j_id j, j_agentId j)) (s_jobs d') = map (\<lambda>j. (j_id j, j_agentId j)) (s_jobs d)"
    by (rule selfSettle_commits[OF assms(1-3), of X]) (use assms(4) in auto)
  obtain job' where "findJob (s_jobs d') jobId = Some job'" "j_agentId job' = caller"
    using findJob_owner[OF keys self_checked_Inr(1)[OF assms(3)]] self_checked_Inr(5)[OF assms(3)] by auto
  with n show ?thesis by (simp add: self_checked_def)
qed

end
