(* ===== verification/Diagnosis.thy ===== *)
theory Diagnosis
  imports SelfOps
begin

section \<open>Why did this job not run: the diagnosis of one slot\<close>

text \<open>
  \<^verbatim>\<open>createJobDisposition\<close> of \<^verbatim>\<open>self-ops/diagnosis.js\<close>. The events are the retained evidence log. The
  sentences of \<^verbatim>\<open>durableReason\<close> and \<^verbatim>\<open>recommendedSafeAction\<close> are the constructors of \<open>durable_reason\<close> and
  \<open>safe_action\<close>; the identifiers a sentence contains are their arguments.
\<close>

record run_event =
  ev_action :: string
  ev_ts :: "int option"
  ev_jobId :: "string option"
  ev_slot :: "int option"
  ev_classification :: string
  ev_reason :: "string option"
  ev_occurrenceId :: "string option"
  ev_recovery :: "string option"
  ev_retryOf :: "string option"
  ev_predecessorRevision :: "int option"

datatype durable_reason =
    No_Elapsed_Slot
  | Accounted_By string string
  | Recorded_Reason "string option"
  | Stale_Without_Record string int
  | No_Durable_Record

datatype safe_action =
    First_Slot_In_Future
  | Use_Exact_Reconcile
  | Slot_Accounted
  | Stale_Expired "string option" "int option"
  | Stale_Proceeds
  | Policy_Skip_No_Action
  | No_Forced_Catchup
  | Resolve_Recorded_Reason
  | Check_Watchdog_History

record disposition =
  dp_slotClassification :: string
  dp_admissionStatus :: string
  dp_occurrenceId :: string
  dp_invocationStatus :: string
  dp_durableReason :: durable_reason
  dp_safeAction :: safe_action
  dp_lastProvenStage :: string
  dp_firstMissingStage :: string
  dp_recovery :: "string option"
  dp_rootCause :: "string option"
  dp_family :: bool

text \<open>The predecessor of an expired retry: still the latest terminal run, or only remembered by an event.\<close>

record stale_source =
  sl_occurrenceId :: "string option"
  sl_revision :: "int option"
  sl_live :: bool

definition last_event :: "(run_event \<Rightarrow> bool) \<Rightarrow> run_event list \<Rightarrow> run_event option" where
  "last_event p events = (case filter p events of [] \<Rightarrow> None | es \<Rightarrow> Some (last es))"

definition staleLive :: "sdoc \<Rightarrow> job \<Rightarrow> occurrence option" where
  "staleLive d job = (case latestTerminalOccurrence (s_occurrences d) (j_id job) of
     None \<Rightarrow> None
   | Some r \<Rightarrow> if o_state r = Failed \<and> o_scheduleRevision r \<noteq> j_scheduleRevision job then Some r else None)"

definition staleSource :: "sdoc \<Rightarrow> job \<Rightarrow> run_event list \<Rightarrow> stale_source option" where
  "staleSource d job events = (case staleLive d job of
     Some r \<Rightarrow> Some \<lparr>sl_occurrenceId = Some (o_occurrenceId r), sl_revision = Some (o_scheduleRevision r), sl_live = True\<rparr>
   | None \<Rightarrow>
      (case last_event (\<lambda>e. ev_action e = ''retry_superseded_by_revision'' \<and> ev_jobId e = Some (j_id job)) events of
         Some e \<Rightarrow> Some \<lparr>sl_occurrenceId = ev_retryOf e, sl_revision = ev_predecessorRevision e, sl_live = False\<rparr>
       | None \<Rightarrow> None))"

definition staleSafeAction :: "stale_source option \<Rightarrow> safe_action option" where
  "staleSafeAction = map_option (\<lambda>s. Stale_Expired (sl_occurrenceId s) (sl_revision s))"

definition expectedSlotOf :: "ext \<Rightarrow> job \<Rightarrow> int option \<Rightarrow> int \<Rightarrow> int option" where
  "expectedSlotOf X job requested nowMs =
    (let latestSlot = previousNaturalSlotMs X (j_schedule job) (j_id job) nowMs in
     case requested of
       Some t \<Rightarrow> if (case latestSlot of None \<Rightarrow> True | Some l \<Rightarrow> t \<le> l) then Some t else latestSlot
     | None \<Rightarrow> latestSlot)"

definition slotOccurrence :: "occurrence list \<Rightarrow> int \<Rightarrow> occurrence option" where
  "slotOccurrence mine slot = find (\<lambda>r. (o_kind r = Natural \<and> o_nominal r = Some slot)
     \<or> (o_kind r = Catchup \<and> o_catchUpOf r = Some slot)) mine"

definition no_past_slot :: disposition where
  "no_past_slot = \<lparr>dp_slotClassification = ''NO_PAST_SLOT_YET'', dp_admissionStatus = ''not_attempted'',
     dp_occurrenceId = ''NONE'', dp_invocationStatus = ''none'', dp_durableReason = No_Elapsed_Slot,
     dp_safeAction = First_Slot_In_Future, dp_lastProvenStage = ''SCHEDULE_CALCULATION'',
     dp_firstMissingStage = ''NONE'', dp_recovery = None, dp_rootCause = None, dp_family = False\<rparr>"

definition occurrence_created :: "safe_action option \<Rightarrow> occurrence \<Rightarrow> disposition" where
  "occurrence_created stale r = \<lparr>dp_slotClassification = ''OCCURRENCE_CREATED'',
     dp_admissionStatus = state_str (o_state r), dp_occurrenceId = o_occurrenceId r,
     dp_invocationStatus = state_str (o_state r),
     dp_durableReason = Accounted_By (o_occurrenceId r) (state_str (o_state r)),
     dp_safeAction = (if isUnresolvedUnknown r then Use_Exact_Reconcile
       else case stale of Some a \<Rightarrow> a | None \<Rightarrow> Slot_Accounted),
     dp_lastProvenStage = (if isTerminalRecord r then ''EXECUTION_OUTCOME_RECORDED'' else ''ADMISSION_RESERVATION''),
     dp_firstMissingStage = (if isTerminalRecord r then ''NONE'' else ''EXECUTION_OUTCOME''),
     dp_recovery = None, dp_rootCause = None, dp_family = False\<rparr>"

definition is_poison :: "run_event \<Rightarrow> bool" where
  "is_poison e \<longleftrightarrow> ev_classification e = ''ADMISSION_INTERRUPTED''
     \<and> sublist ''invalid retry predecessor'' (text_or (ev_reason e) [])"

text \<open>An empty identifier or recovery class is falsy: it counts as absent, except for \<^verbatim>\<open>??\<close>.\<close>

definition slot_recorded :: "safe_action option \<Rightarrow> run_event \<Rightarrow> disposition" where
  "slot_recorded stale e = \<lparr>dp_slotClassification = ev_classification e,
     dp_admissionStatus = (if ev_classification e = ''ADMISSION_REJECTED'' \<or> ev_classification e = ''ADMISSION_INTERRUPTED''
       then ''rejected'' else ''not_attempted''),
     dp_occurrenceId = text_or (ev_occurrenceId e) ''NONE'',
     dp_invocationStatus = (if text_or (ev_occurrenceId e) [] = [] then ''not_invoked'' else ''see occurrence''),
     dp_durableReason = Recorded_Reason (ev_reason e),
     dp_safeAction = (if is_poison e then (case stale of Some a \<Rightarrow> a | None \<Rightarrow> Stale_Proceeds)
       else if ev_classification e = ''SKIPPED_POLICY'' then Policy_Skip_No_Action
       else if ev_classification e = ''MISSED_BEFORE_OCCURRENCE'' then No_Forced_Catchup
       else Resolve_Recorded_Reason),
     dp_lastProvenStage = ''DUE_SLOT_DETECTION'',
     dp_firstMissingStage = (if ev_classification e = ''SKIPPED_POLICY'' then ''NONE'' else ''ADMISSION''),
     dp_recovery = (if text_or (ev_recovery e) [] = [] then None else ev_recovery e),
     dp_rootCause = None, dp_family = is_poison e\<rparr>"

definition engine_alive :: "run_event list \<Rightarrow> int \<Rightarrow> int \<Rightarrow> bool" where
  "engine_alive events slot nowMs \<longleftrightarrow> list_ex (\<lambda>e. (case ev_ts e of Some t \<Rightarrow> slot \<le> t \<and> t \<le> nowMs | None \<Rightarrow> False)
     \<and> ev_action e \<in> set [''occurrence_reserved'', ''outcome'', ''slot_accounting'', ''engine_lease_lost'', ''router_admission'']) events"

definition evidence_gap :: "safe_action option \<Rightarrow> occurrence option \<Rightarrow> bool \<Rightarrow> disposition" where
  "evidence_gap stale live alive = \<lparr>dp_slotClassification = ''MISSED_BEFORE_OCCURRENCE'', dp_admissionStatus = ''unknown'',
     dp_occurrenceId = ''NONE'', dp_invocationStatus = ''unknown'',
     dp_durableReason = (case live of Some r \<Rightarrow> Stale_Without_Record (o_occurrenceId r) (o_scheduleRevision r)
       | None \<Rightarrow> No_Durable_Record),
     dp_safeAction = (case stale of Some a \<Rightarrow> a | None \<Rightarrow> Check_Watchdog_History),
     dp_lastProvenStage = (if live \<noteq> None then ''PREDECESSOR_TERMINAL_OUTCOME'' else ''SCHEDULE_CALCULATION''),
     dp_firstMissingStage = (if alive then ''DUE_SLOT_DETECTION'' else ''TICK_OBSERVED''),
     dp_recovery = None,
     dp_rootCause = Some (if live \<noteq> None then ''STALE_RETRY_AFTER_SCHEDULE_REVISION'' else ''NOT_PROVEN''),
     dp_family = False\<rparr>"

definition slot_disposition :: "sdoc \<Rightarrow> job \<Rightarrow> run_event list \<Rightarrow> int \<Rightarrow> int option \<Rightarrow> disposition" where
  "slot_disposition d job events nowMs expected = (case expected of
     None \<Rightarrow> no_past_slot
   | Some slot \<Rightarrow>
      let stale = staleSafeAction (staleSource d job events) in
      (case slotOccurrence (jobOccurrences (s_occurrences d) (j_id job)) slot of
         Some r \<Rightarrow> occurrence_created stale r
       | None \<Rightarrow>
          (case last_event (\<lambda>e. ev_action e = ''slot_accounting'' \<and> ev_jobId e = Some (j_id job) \<and> ev_slot e = Some slot) events of
             Some e \<Rightarrow> slot_recorded stale e
           | None \<Rightarrow> evidence_gap stale (staleLive d job) (engine_alive events slot nowMs))))"

definition recovery_verdict ::
    "(occurrence \<Rightarrow> router_result option) \<Rightarrow> string \<Rightarrow> sdoc \<Rightarrow> job \<Rightarrow> string \<times> string" where
  "recovery_verdict resolve caller d job =
    (if fenced (s_fences d) (j_id job) then
       (''quarantined_unknown'',
        if list_ex (\<lambda>r. rd_disposition (classifyRouter (resolve r) r (Some caller)) = ''terminated_without_outcome'')
             (filter isUnresolvedUnknown (jobOccurrences (s_occurrences d) (j_id job)))
        then ''SELF_RECONCILE_AVAILABLE'' else ''HUMAN_REQUIRED'')
     else if staleLive d job \<noteq> None then (''stale_retry_isolated'', ''SELF_HEALED_NO_MUTATION_REQUIRED'')
     else (''healthy'', ''NONE_REQUIRED''))"

definition recent_action :: "string \<Rightarrow> run_event list \<Rightarrow> int \<Rightarrow> bool" where
  "recent_action action events nowMs \<longleftrightarrow> list_ex (\<lambda>e. ev_action e = action
     \<and> (case ev_ts e of Some t \<Rightarrow> nowMs - 10 * 60000 \<le> t \<and> t \<le> nowMs | None \<Rightarrow> False)) events"

definition globalSchedulerHealth :: "run_event list \<Rightarrow> int \<Rightarrow> string" where
  "globalSchedulerHealth events nowMs =
    (if recent_action ''engine_lease_lost'' events nowMs then ''unavailable''
     else if recent_action ''global_tick_blocked'' events nowMs then ''degraded'' else ''healthy'')"

record diagnosis =
  dg_jobId :: string
  dg_expectedSlot :: "int option"
  dg_disposition :: disposition
  dg_fenceStatus :: bool
  dg_nextRun :: "int option"
  dg_scheduleRevision :: int
  dg_autoRetry :: bool
  dg_stale :: "stale_source option"
  dg_staleClass :: bool
  dg_globalHealth :: string
  dg_localHealth :: string
  dg_eligibility :: string

text \<open>
  The outer option is the walk along retries that may not end (a corrupt ledger), the inner one the
  refusal: the job does not exist or belongs to someone else, and the caller cannot tell which.
\<close>

definition jobDisposition ::
    "ext \<Rightarrow> (occurrence \<Rightarrow> router_result option) \<Rightarrow> int \<Rightarrow> run_event list \<Rightarrow> string \<Rightarrow> string \<Rightarrow> int option \<Rightarrow> sdoc
     \<Rightarrow> diagnosis option option" where
  "jobDisposition X resolve nowMs events caller jobId requested d =
    (case findJob (s_jobs d) jobId of
       None \<Rightarrow> Some None
     | Some job \<Rightarrow>
         if j_agentId job \<noteq> caller then Some None
         else do {
           next \<leftarrow> (if \<not> j_enabled job then Some None
             else case st_nextRunAtMs (j_state job) of Some n \<Rightarrow> Some (Some n)
               | None \<Rightarrow> computeNextRunAtMsV2 X job (jobOccurrences (s_occurrences d) jobId) nowMs);
           let expected = expectedSlotOf X job requested nowMs;
               disp = slot_disposition d job events nowMs expected;
               stale = staleSource d job events;
               verdict = recovery_verdict resolve caller d job
           in Some (Some \<lparr>dg_jobId = jobId, dg_expectedSlot = expected, dg_disposition = disp,
                dg_fenceStatus = fenced (s_fences d) jobId, dg_nextRun = next,
                dg_scheduleRevision = j_scheduleRevision job, dg_autoRetry = (j_retry job = Some True),
                dg_stale = stale, dg_staleClass = (dp_family disp \<or> stale \<noteq> None),
                dg_globalHealth = globalSchedulerHealth events nowMs,
                dg_localHealth = fst verdict, dg_eligibility = snd verdict\<rparr>)
         })"

subsection \<open>What a diagnosis says is so\<close>

lemma jobDisposition_Some:
  assumes "jobDisposition X resolve now events caller jobId requested d = Some (Some dg)"
  obtains job nxt where "findJob (s_jobs d) jobId = Some job" "j_agentId job = caller" "j_id job = jobId"
    "dg = \<lparr>dg_jobId = jobId, dg_expectedSlot = expectedSlotOf X job requested now,
       dg_disposition = slot_disposition d job events now (expectedSlotOf X job requested now),
       dg_fenceStatus = fenced (s_fences d) jobId, dg_nextRun = nxt,
       dg_scheduleRevision = j_scheduleRevision job, dg_autoRetry = (j_retry job = Some True),
       dg_stale = staleSource d job events,
       dg_staleClass = (dp_family (slot_disposition d job events now (expectedSlotOf X job requested now))
         \<or> staleSource d job events \<noteq> None),
       dg_globalHealth = globalSchedulerHealth events now,
       dg_localHealth = fst (recovery_verdict resolve caller d job),
       dg_eligibility = snd (recovery_verdict resolve caller d job)\<rparr>"
proof (cases "findJob (s_jobs d) jobId")
  case None
  then show thesis using assms by (simp add: jobDisposition_def)
next
  case (Some job)
  moreover have "j_id job = jobId"
    using findJob_Some[OF Some] by simp
  moreover have "j_agentId job = caller"
    using assms Some by (auto simp: jobDisposition_def split: if_splits)
  ultimately show thesis
    using that[of job] assms unfolding jobDisposition_def by (auto simp: bind_eq_Some_conv Let_def)
qed

lemma jobDisposition_returns:
  assumes "retry_ordered (s_occurrences d)"
  shows "\<exists>out. jobDisposition X resolve now events caller jobId requested d = Some out"
proof (cases "findJob (s_jobs d) jobId")
  case None
  then show ?thesis by (simp add: jobDisposition_def)
next
  case (Some job)
  have "retry_ordered (jobOccurrences (s_occurrences d) jobId)"
    using retry_ordered_filter[OF assms] by (simp add: jobOccurrences_def)
  then obtain c where "retryCandidate job (jobOccurrences (s_occurrences d) jobId) now = Some c"
    using retryCandidate_returns by blast
  then have "\<exists>nxt. computeNextRunAtMsV2 X job (jobOccurrences (s_occurrences d) jobId) now = Some nxt"
    by (simp add: computeNextRunAtMsV2_def Let_def)
  then obtain nxt where "computeNextRunAtMsV2 X job (jobOccurrences (s_occurrences d) jobId) now = Some nxt"
    by blast
  with Some show ?thesis
    by (cases "st_nextRunAtMs (j_state job)") (simp_all add: jobDisposition_def Let_def)
qed

lemma available_reconcile:
  assumes "valid_doc d" and "recovery_verdict resolve caller d job = (h, ''SELF_RECONCILE_AVAILABLE'')"
    and "findJob (s_jobs d) jobId = Some job" and "j_agentId job = caller"
    and owned: "list_all (\<lambda>r. o_jobId r = jobId \<longrightarrow> o_recordSchemaVersion r = 3 \<and> o_ownerAgentId r = Some caller) (s_occurrences d)"
  obtains r cl where "self_checked resolve caller jobId (o_occurrenceId r) (o_runId r) d = Inr (job, r, cl)"
proof -
  have "j_id job = jobId" using findJob_Some[OF assms(3)] by simp
  then obtain r where r: "r \<in> set (s_occurrences d)" "o_jobId r = jobId" "isUnresolvedUnknown r"
      "rd_disposition (classifyRouter (resolve r) r (Some caller)) = ''terminated_without_outcome''"
    using assms(2) by (auto simp: recovery_verdict_def list_ex_iff jobOccurrences_def split: if_splits)
  have "findOccurrenceById (s_occurrences d) (o_occurrenceId r) = Some r"
    unfolding findOccurrenceById_def using assms(1) r(1)
    by (intro find_key_distinct) (simp_all add: valid_doc_def ledger_ok_def)
  then show thesis
    using that[of r] r owned assms(3,4) by (auto simp: self_checked_def Let_def list_all_iff isUnresolvedUnknown_def)
qed

end
