(* ===== verification/Isolation.thy ===== *)
theory Isolation
  imports Tick
begin

section \<open>The handler of admission failures\<close>

text \<open>
  \<^verbatim>\<open>createAdmissionIsolation\<close> of \<^verbatim>\<open>watchdog/admission-isolation.js\<close>: every failed or refused candidate is
  receipted; a failure that belongs to one job lets the tick go on, any other stops it, and the
  candidates it did not reach are receipted too. Whether an append to the evidence log succeeds is the
  environment's choice (\<open>logs\<close>); \<open>occs\<close> is the ledger of the engine's copy.
\<close>

record isolation =
  is_blockade :: bool
  is_staleRetryNoted :: "string list"
  is_retryFailures :: "string list"
  is_cursor :: cursor

record logs =
  lg_slot :: "string \<Rightarrow> int \<Rightarrow> bool"
  lg_retry :: "candidate \<Rightarrow> bool"
  lg_blocked :: bool

datatype tick_receipt = Slot_Receipt receipt | Retry_Receipt retry_receipt | Tick_Blocked string

definition isolation_start :: isolation where
  "isolation_start = \<lparr>is_blockade = False, is_staleRetryNoted = [], is_retryFailures = [], is_cursor = (\<lambda>_. None)\<rparr>"

definition noteStaleSupersession :: "bool \<Rightarrow> job \<Rightarrow> retry_candidate \<Rightarrow> isolation \<Rightarrow> isolation \<times> bool" where
  "noteStaleSupersession ok job retry st =
    (case recordStaleSupersession ok job retry (is_staleRetryNoted st) of
       (noted, appended) \<Rightarrow> (st\<lparr>is_staleRetryNoted := noted\<rparr>, appended))"

definition receiptCandidate ::
    "logs \<Rightarrow> occurrence list \<Rightarrow> candidate \<Rightarrow> int option \<Rightarrow> string \<Rightarrow> string \<Rightarrow> isolation \<Rightarrow> isolation \<times> tick_receipt list" where
  "receiptCandidate L occs c slot cls reason st =
    (if cd_kind c = Retry then
       (case recordRetryAdmissionFailure (lg_retry L c) c cls reason (is_retryFailures st) of
          (noted, receipts) \<Rightarrow> (st\<lparr>is_retryFailures := noted\<rparr>, map Retry_Receipt receipts))
     else
       (case recordSlot (lg_slot L) occs (cd_job c) slot cls reason (is_cursor st) of
          (cur, receipts) \<Rightarrow> (st\<lparr>is_cursor := cur\<rparr>, map Slot_Receipt receipts)))"

definition candidate_slot :: "candidate \<Rightarrow> int option" where
  "candidate_slot c = (case cd_nominal c of Some t \<Rightarrow> Some t | None \<Rightarrow> cd_catchUp c)"

definition recordRefusal ::
    "logs \<Rightarrow> occurrence list \<Rightarrow> candidate \<Rightarrow> int option \<Rightarrow> string \<Rightarrow> isolation \<Rightarrow> isolation \<times> tick_receipt list" where
  "recordRefusal L occs c slot reason st = receiptCandidate L occs c slot ''ADMISSION_REJECTED'' reason st"

fun receiptPending ::
    "logs \<Rightarrow> occurrence list \<Rightarrow> candidate list \<Rightarrow> isolation \<Rightarrow> isolation \<times> tick_receipt list" where
  "receiptPending L occs [] st = (st, [])"
| "receiptPending L occs (c # cs) st =
    (case receiptCandidate L occs c (candidate_slot c) ''SKIPPED_POLICY''
            ''tick aborted by an admission failure (fail-closed propagation)'' st of
       (st1, first) \<Rightarrow> (case receiptPending L occs cs st1 of (st2, rest) \<Rightarrow> (st2, first @ rest)))"

definition noteBlockade :: "logs \<Rightarrow> string \<Rightarrow> isolation \<Rightarrow> isolation \<times> tick_receipt list" where
  "noteBlockade L reason st =
    (if \<not> is_blockade st \<and> lg_blocked L then (st\<lparr>is_blockade := True\<rparr>, [Tick_Blocked reason]) else (st, []))"

definition handleFailure ::
    "logs \<Rightarrow> occurrence list \<Rightarrow> js_error \<Rightarrow> candidate \<Rightarrow> int option \<Rightarrow> candidate list \<Rightarrow> isolation
     \<Rightarrow> failure_scope \<times> isolation \<times> tick_receipt list" where
  "handleFailure L occs e c slot pending st =
    (let reason = take 300 (error_text e) in
     case receiptCandidate L occs c slot ''ADMISSION_INTERRUPTED'' reason st of
       (st1, first) \<Rightarrow>
         if classifyAdmissionFailure (failure_of c e) c = Job_Local then (Job_Local, st1, first)
         else (case noteBlockade L reason st1 of
           (st2, blocked) \<Rightarrow> (case receiptPending L occs pending st2 of
             (st3, rest) \<Rightarrow> (Global, st3, first @ blocked @ rest))))"

fun receipt_job :: "tick_receipt \<Rightarrow> string option" where
  "receipt_job (Slot_Receipt r) = Some (sr_jobId r)"
| "receipt_job (Retry_Receipt r) = Some (rt_jobId r)"
| "receipt_job (Tick_Blocked _) = None"

subsection \<open>What a failure touches\<close>

lemma receiptCandidate_own:
  assumes "receiptCandidate L occs c slot cls reason st = (st', rs)"
  shows "length rs \<le> 1" and "list_all (\<lambda>x. receipt_job x = Some (j_id (cd_job c))) rs" and "is_blockade st' = is_blockade st"
    and "i \<noteq> j_id (cd_job c) \<Longrightarrow> is_cursor st' i = is_cursor st i"
  using assms
  by (auto simp: receiptCandidate_def recordRetryAdmissionFailure_def recordSlot_def mark_def Let_def
      split: if_splits prod.splits option.splits)

lemma receiptPending_own:
  "receiptPending L occs cs st = (st', rs) \<Longrightarrow>
     list_all (\<lambda>x. \<exists>c \<in> set cs. receipt_job x = Some (j_id (cd_job c))) rs \<and> length rs \<le> length cs
     \<and> is_blockade st' = is_blockade st"
proof (induction cs arbitrary: st st' rs)
  case (Cons c cs)
  obtain st1 first where f: "receiptCandidate L occs c (candidate_slot c) ''SKIPPED_POLICY''
      ''tick aborted by an admission failure (fail-closed propagation)'' st = (st1, first)"
    by (cases "receiptCandidate L occs c (candidate_slot c) ''SKIPPED_POLICY''
      ''tick aborted by an admission failure (fail-closed propagation)'' st")
  obtain st2 rest where r: "receiptPending L occs cs st1 = (st2, rest)"
    by (cases "receiptPending L occs cs st1")
  have "rs = first @ rest" "st' = st2"
    using Cons.prems f r by simp_all
  then show ?case
    using receiptCandidate_own(1-3)[OF f] Cons.IH[OF r] by (auto simp: list_all_iff)
qed simp

lemma handleFailure_local:
  assumes "handleFailure L occs e c slot pending st = (Job_Local, st', rs)"
  shows "length rs \<le> 1" and "list_all (\<lambda>x. receipt_job x = Some (j_id (cd_job c))) rs" and "is_blockade st' = is_blockade st"
    and "i \<noteq> j_id (cd_job c) \<Longrightarrow> is_cursor st' i = is_cursor st i"
proof -
  have "receiptCandidate L occs c slot ''ADMISSION_INTERRUPTED'' (take 300 (error_text e)) st = (st', rs)"
    using assms by (auto simp: handleFailure_def Let_def split: prod.splits if_splits)
  note own = receiptCandidate_own[OF this]
  show "length rs \<le> 1" "list_all (\<lambda>x. receipt_job x = Some (j_id (cd_job c))) rs" "is_blockade st' = is_blockade st"
    "i \<noteq> j_id (cd_job c) \<Longrightarrow> is_cursor st' i = is_cursor st i"
    using own by blast+
qed

lemma handleFailure_verdict:
  "fst (handleFailure L occs e c slot pending st) = classifyAdmissionFailure (failure_of c e) c"
  by (cases "classifyAdmissionFailure (failure_of c e) c")
    (auto simp: handleFailure_def Let_def split: prod.split)

text \<open>The blockade is receipted at most once in an engine session.\<close>

lemma handleFailure_blockade:
  assumes "handleFailure L occs e c slot pending st = (v, st', rs)"
  shows "length (filter (\<lambda>x. receipt_job x = None) rs) = (if is_blockade st' \<and> \<not> is_blockade st then 1 else 0)"
    and "is_blockade st \<Longrightarrow> is_blockade st'"
proof -
  have "length (filter (\<lambda>x. receipt_job x = None) rs) = (if is_blockade st' \<and> \<not> is_blockade st then 1 else 0)
      \<and> (is_blockade st \<longrightarrow> is_blockade st')"
  proof (cases v)
    case Job_Local
    note l = handleFailure_local(2,3)[OF assms[unfolded Job_Local]]
    have "filter (\<lambda>x. receipt_job x = None) rs = []"
      using l(1) by (auto simp: filter_empty_conv list_all_iff)
    then show ?thesis using l(2) by simp
  next
    case Global
    obtain st1 first where f: "receiptCandidate L occs c slot ''ADMISSION_INTERRUPTED'' (take 300 (error_text e)) st = (st1, first)"
      by (cases "receiptCandidate L occs c slot ''ADMISSION_INTERRUPTED'' (take 300 (error_text e)) st")
    obtain st2 b where b: "noteBlockade L (take 300 (error_text e)) st1 = (st2, b)"
      by (cases "noteBlockade L (take 300 (error_text e)) st1")
    obtain st3 rest where r: "receiptPending L occs pending st2 = (st3, rest)"
      by (cases "receiptPending L occs pending st2")
    have eq: "st' = st3" "rs = first @ b @ rest"
      using assms f b r Global by (auto simp: handleFailure_def Let_def split: if_splits)
    have none: "filter (\<lambda>x. receipt_job x = None) first = []" "filter (\<lambda>x. receipt_job x = None) rest = []"
      using receiptCandidate_own(2)[OF f] receiptPending_own[OF r] by (auto simp: filter_empty_conv list_all_iff)
    have "is_blockade st1 = is_blockade st" "is_blockade st3 = is_blockade st2"
      using receiptCandidate_own(3)[OF f] receiptPending_own[OF r] by simp_all
    then show ?thesis
      using b none by (auto simp: eq noteBlockade_def split: if_splits)
  qed
  then show "length (filter (\<lambda>x. receipt_job x = None) rs) = (if is_blockade st' \<and> \<not> is_blockade st then 1 else 0)"
    "is_blockade st \<Longrightarrow> is_blockade st'" by blast+
qed

end
