(* ===== verification/SelfService.thy ===== *)
theory SelfService
  imports Tick
begin

section \<open>The agent-facing surface of the scheduler\<close>

text \<open>
  \<^verbatim>\<open>self-service/\<close> of the scheduler: an agent creates, reads, changes and removes its own jobs. The
  arguments and the context are untyped values. The authorization service is a parameter (\<open>sv_grant\<close>,
  with every failure counted as a denial), as are the clock, the fresh identifier, the outcome of the
  write and of the audit append, and the inventory of critical jobs. A reply carries the stable error
  code; the sentence beside it is left out. \<open>sv_before\<close> is the file the first, unlocked read sees.
\<close>

subsection \<open>Codes, replies and arguments\<close>

datatype 'a reply = Ok 'a | Err string

definition nonEmpty :: "jval \<Rightarrow> string option" where
  "nonEmpty v = (case v of JStr s \<Rightarrow> if js_trim s \<noteq> [] then Some (js_trim s) else None | _ \<Rightarrow> None)"

definition trustedCaller :: "jval \<Rightarrow> string option" where
  "trustedCaller context = (case nonEmpty (jget context ''callerAgentId'') of
     None \<Rightarrow> None
   | Some caller \<Rightarrow>
       if \<not> safe_integer (jget context ''processGeneration'') \<or> num_floor (jget context ''processGeneration'') < 1
          \<or> nonEmpty (jget context ''turnExecutionId'') = None then None
       else if jget context ''agentId'' \<noteq> JUndef \<and> jget context ''agentId'' \<noteq> JStr caller then None
       else Some caller)"

text \<open>The pair of revision and update instant the caller read; \<open>None\<close> asks for no comparison.\<close>

definition expectedRevisionFromArgs :: "jval \<Rightarrow> (int \<times> int) option res" where
  "expectedRevisionFromArgs args =
    (let raw = jget args ''expected_revision'';
         rv = jget raw ''schedule_revision''; up = jget raw ''updated_at_ms''
     in if raw = JUndef then Inr None
        else if safe_integer rv \<and> 1 \<le> num_floor rv \<and> safe_integer up \<and> 1 \<le> num_floor up
        then Inr (Some (num_floor rv, num_floor up))
        else Inl (Type_Error ''expected_revision must be {schedule_revision: integer >= 1, updated_at_ms: integer >= 1}''))"

definition currentConversationDestination :: "jval \<Rightarrow> jval option" where
  "currentConversationDestination context =
    (if jget context ''channelNamespace'' \<noteq> JStr ''feishu'' then None
     else case jget context ''feishuChatId'' of
       JStr chatId \<Rightarrow> if chatId = [] \<or> list_ex is_ws chatId then None
         else Some (JObj [(''channel'', JStr ''feishu''), (''to'', JStr (''chat:'' @ chatId))])
     | _ \<Rightarrow> None)"

definition scheduleFromArgs :: "ext \<Rightarrow> jval \<Rightarrow> int \<Rightarrow> jval res" where
  "scheduleFromArgs X args nowMs =
    (let kind = jget args ''schedule_kind'' in
     if kind = JStr ''cron'' then Inr (JObj [(''kind'', JStr ''cron''), (''expr'', jget args ''cron_expr''), (''tz'', jget args ''timezone'')])
     else if kind = JStr ''at'' then
       (case parseAtToMs X (jget args ''at'') nowMs of
          None \<Rightarrow> Inl (Type_Error ''at must resolve to an instant later than the mutation timestamp'')
        | Some atMs \<Rightarrow>
            if atMs \<le> nowMs then Inl (Type_Error ''at must resolve to an instant later than the mutation timestamp'')
            else (case to_iso X atMs of None \<Rightarrow> Inl (Plain_Error ''Invalid time value'')
              | Some text' \<Rightarrow> Inr (JObj [(''kind'', JStr ''at''), (''at'', JStr text')])))
     else if kind = JStr ''every'' then
       Inr (JObj [(''kind'', JStr ''every''), (''everyMs'', jget args ''every_ms''), (''anchorMs'', JInt nowMs)])
     else Inl (Type_Error (''unsupported schedule_kind: '' @ js_string X kind)))"

definition given :: "jval \<Rightarrow> string \<Rightarrow> string \<Rightarrow> (string \<times> jval) list" where
  "given args k name = (if jget args k \<noteq> JUndef then [(name, jget args k)] else [])"

definition payloadForCreate :: "jval \<Rightarrow> jval" where
  "payloadForCreate args = JObj ([(''kind'', JStr ''agentTurn''), (''message'', jget args ''message'')]
     @ given args ''timeout'' ''timeoutSeconds'' @ given args ''light_context'' ''lightContext''
     @ given args ''model'' ''model'')"

definition payloadPatch :: "jval \<Rightarrow> jval \<Rightarrow> jval option" where
  "payloadPatch current args =
    (let fields = given args ''message'' ''message'' @ given args ''timeout'' ''timeoutSeconds''
           @ given args ''light_context'' ''lightContext'' @ given args ''model'' ''model''
     in if fields = [] then None else Some (merge_obj current (JObj fields)))"

text \<open>The thrown error marked \<^verbatim>\<open>accessDenied\<close> is the coded error of that name.\<close>

definition deliveryFromArgs :: "jval \<Rightarrow> jval \<Rightarrow> jval res" where
  "deliveryFromArgs args context =
    (let mode = coalesce (jget args ''delivery_mode'') (JStr ''none'');
         effort = (if jget args ''best_effort'' = JBool True then [(''bestEffort'', JBool True)] else [])
     in if mode \<noteq> JStr ''announce'' then Inr (JObj [(''mode'', mode)])
        else if jget args ''delivery_target'' = JStr ''current_conversation'' then
          (case currentConversationDestination context of
             None \<Rightarrow> Inl (Coded_Error ''accessDenied''
               ''current_conversation requires the exact active trusted Feishu chat context'')
           | Some d \<Rightarrow> Inr (merge_obj (merge_obj (JObj [(''mode'', mode)]) d) (JObj effort)))
        else Inr (merge_obj (merge_obj (JObj [(''mode'', mode)]) (JObj (obj_fields (jget args ''destination'')))) (JObj effort)))"

definition validationFailure :: "js_error \<Rightarrow> 'a reply" where
  "validationFailure e = Err (if (case e of Coded_Error c _ \<Rightarrow> c = ''accessDenied'' | _ \<Rightarrow> False)
     then ''access_denied'' else ''validation_error'')"

text \<open>\<open>notCommitted\<close>: the error left \<^verbatim>\<open>mutateDoc\<close>, which marks every error of a mutation it did not commit.\<close>

definition mutationFailure :: "bool \<Rightarrow> js_error \<Rightarrow> 'a reply" where
  "mutationFailure notCommitted e =
    (let code = (case e of Coded_Error c _ \<Rightarrow> c | _ \<Rightarrow> []) in
     if code = ''SELF_SERVICE_ACCESS_DENIED'' then Err ''access_denied''
     else if code = ''LOGICAL_KEY_CONFLICT'' then Err ''logical_key_conflict''
     else if code = ''STALE_TARGET_CONFLICT'' then Err ''stale_target_conflict''
     else if (case e of Type_Error _ \<Rightarrow> True | _ \<Rightarrow> False) \<or> code = ''RESTORE_GATE_CLOSED'' then validationFailure e
     else if notCommitted then Err ''internal_error''
     else if take 15 (error_text e) = ''unknown job id:'' then Err ''job_not_found''
     else Err ''mutation_outcome_unknown'')"

subsection \<open>Projections\<close>

definition provenance_val :: "clone_provenance \<Rightarrow> jval" where
  "provenance_val p = JObj [(''sourceJobId'', JStr (cp_sourceJobId p)),
     (''sourceScheduleRevision'', JInt (cp_sourceScheduleRevision p)), (''sourceUpdatedAtMs'', JInt (cp_sourceUpdatedAtMs p))]"

text \<open>The stored object without its derived state.\<close>

definition definition_val :: "job \<Rightarrow> jval" where
  "definition_val j = merge_obj (drop_field ''state'' (job_val j))
     (obj_of [(''cloneProvenance'', opt_val provenance_val (j_cloneProvenance j))])"

definition definitionDigest :: "ext \<Rightarrow> job \<Rightarrow> string" where
  "definitionDigest X j = ''sha256:'' @ sha256_hex (canonicalJSON X (definition_val j))"

definition toPublicJob :: "job \<Rightarrow> jval" where
  "toPublicJob j = (let s = j_state j in merge_obj (definition_val j) (obj_of
     [(''nextRunAtMs'', opt_val JInt (st_nextRunAtMs s)), (''lastRunAtMs'', opt_val JInt (st_lastRunAtMs s)),
      (''lastStatus'', opt_val JStr (st_lastStatus s)), (''lastRunStatus'', opt_val JStr (st_lastRunStatus s)),
      (''lastDurationMs'', opt_val JInt (st_lastDurationMs s)),
      (''lastDeliveryStatus'', opt_val JStr (st_lastDeliveryStatus s)), (''lastError'', opt_val JStr (st_lastError s)),
      (''consecutiveErrors'', JInt (case st_consecutiveErrors s of Some n \<Rightarrow> n | None \<Rightarrow> 0))]))"

definition publicJobWithoutMessage :: "job \<Rightarrow> jval" where
  "publicJobWithoutMessage j = merge_obj (toPublicJob j)
     (JObj [(''payload'', drop_field ''message'' (jget (toPublicJob j) ''payload''))])"

definition sessionDispositionOf :: "occurrence \<Rightarrow> string \<times> string option" where
  "sessionDispositionOf r =
    (let kind = map_option te_kind (o_terminalEvidence r) in
     if o_state r = Failed \<and> kind = Some ''pre-start-rejection'' then (''not_created'', Some ''pre-start-rejection'')
     else if o_state r = Succeeded \<or> o_state r = Running then (''created'', None)
     else if o_state r = Failed \<and> kind = Some ''turn-terminal'' then (''created'', None)
     else if o_state r = Admitted then (''pending'', None)
     else (''unknown'', None))"

record occurrence_view =
  ov_occurrenceId :: string
  ov_runId :: string
  ov_jobId :: string
  ov_kind :: occ_kind
  ov_state :: occ_state
  ov_executionOutcome :: "occ_state option"
  ov_deliveryStatus :: "string option"
  ov_nominal :: "int option"
  ov_admittedAt :: int
  ov_startedAt :: "int option"
  ov_endedAt :: "int option"
  ov_lateSettlement :: "late_settlement option"
  ov_fenceActive :: bool
  ov_sessionId :: "string option"
  ov_sessionCreated :: string
  ov_notCreatedReason :: "string option"
  ov_terminationSettled :: bool

definition occurrenceProjection :: "fences \<Rightarrow> occurrence \<Rightarrow> occurrence_view" where
  "occurrenceProjection fs r = (let d = sessionDispositionOf r in
     \<lparr>ov_occurrenceId = o_occurrenceId r, ov_runId = o_runId r, ov_jobId = o_jobId r, ov_kind = o_kind r,
      ov_state = o_state r, ov_executionOutcome = o_executionOutcome r, ov_deliveryStatus = o_deliveryStatus r,
      ov_nominal = o_nominal r, ov_admittedAt = o_admittedAt r, ov_startedAt = o_startedAt r,
      ov_endedAt = o_endedAt r, ov_lateSettlement = o_lateSettlement r, ov_fenceActive = fenced fs (o_jobId r),
      ov_sessionId = (if fst d = ''not_created'' then None else o_nativeSessionId r),
      ov_sessionCreated = fst d, ov_notCreatedReason = snd d,
      ov_terminationSettled = (o_terminationSettlement r \<noteq> None)\<rparr>)"

definition normalizedSchedule :: "schedule \<Rightarrow> jval" where
  "normalizedSchedule s = (case s of
     Cron expr tz _ \<Rightarrow> JObj [(''kind'', JStr ''cron''), (''expr'', JStr expr), (''timezone'', opt_val JStr tz)]
   | At t \<Rightarrow> JObj [(''kind'', JStr ''at''), (''at'', JStr t)]
   | Every ms _ \<Rightarrow> JObj [(''kind'', JStr ''every''), (''everyMs'', JInt ms)])"

record committed_result =
  cr_jobId :: string
  cr_name :: string
  cr_enabled :: bool
  cr_schedule :: jval
  cr_timezone :: "string option"
  cr_nextRunAt :: "string option"
  cr_agentId :: string
  cr_destination :: "(string option \<times> string option) option"
  cr_autoRetry :: bool
  cr_deleteAfterRun :: bool
  cr_audit :: string

definition committedResult :: "ext \<Rightarrow> job \<Rightarrow> string \<Rightarrow> committed_result" where
  "committedResult X j auditStatus = \<lparr>cr_jobId = j_id j, cr_name = j_name j, cr_enabled = j_enabled j,
     cr_schedule = normalizedSchedule (j_schedule j),
     cr_timezone = (case j_schedule j of Cron _ tz _ \<Rightarrow> tz | _ \<Rightarrow> None),
     cr_nextRunAt = (case st_nextRunAtMs (j_state j) of Some n \<Rightarrow> to_iso X n | None \<Rightarrow> None),
     cr_agentId = j_agentId j,
     cr_destination = (if d_mode (j_delivery j) = Announce then Some (d_channel (j_delivery j), d_to (j_delivery j)) else None),
     cr_autoRetry = (j_retry j = Some True), cr_deleteAfterRun = j_deleteAfterRun j, cr_audit = auditStatus\<rparr>"

subsection \<open>The guard of critical jobs\<close>

text \<open>The inventory after \<^verbatim>\<open>JSON.parse\<close>; the result is the set of critical logical keys.\<close>

definition inventory_key :: "jval \<Rightarrow> string res" where
  "inventory_key entry = (case jget entry ''logicalKey'' of
     JStr k \<Rightarrow> if js_trim k \<noteq> [] then Inr k
       else Inl (Type_Error ''critical inventory job entry requires a non-empty logicalKey'')
   | _ \<Rightarrow> Inl (Type_Error ''critical inventory job entry requires a non-empty logicalKey''))"

definition parseCriticalInventory :: "ext \<Rightarrow> jval \<Rightarrow> string list res" where
  "parseCriticalInventory X parsed =
    (case parsed of
       JObj _ \<Rightarrow>
         if jget parsed ''version'' \<noteq> JInt 1
         then Inl (Type_Error (''unsupported critical inventory version: '' @ js_string X (jget parsed ''version'')))
         else (case jget parsed ''jobs'' of
             JArr entries \<Rightarrow> rmap inventory_key entries
           | _ \<Rightarrow> Inl (Type_Error ''critical inventory jobs must be an array''))
     | _ \<Rightarrow> Inl (Type_Error ''critical inventory must be an object''))"

text \<open>Every failure of reading, parsing or checking makes the inventory unavailable: \<open>None\<close>.\<close>

definition loadCriticalInventory :: "ext \<Rightarrow> jval option \<Rightarrow> string list option" where
  "loadCriticalInventory X raw = (case raw of None \<Rightarrow> None
   | Some parsed \<Rightarrow> (case parseCriticalInventory X parsed of Inr keys \<Rightarrow> Some keys | Inl _ \<Rightarrow> None))"

definition evaluateCriticalJobGuard :: "string \<Rightarrow> string option \<Rightarrow> string list option \<Rightarrow> string option" where
  "evaluateCriticalJobGuard operation logicalKey inventory =
    (if operation \<noteq> ''disable'' \<and> operation \<noteq> ''remove'' then None
     else case inventory of
       None \<Rightarrow> Some ''critical_inventory_unavailable''
     | Some keys \<Rightarrow> (case logicalKey of
          Some k \<Rightarrow> if k \<in> set keys then Some ''critical_job_self_disable'' else None | None \<Rightarrow> None))"

definition ownershipGuard :: "string \<Rightarrow> bool \<Rightarrow> job \<Rightarrow> js_error option" where
  "ownershipGuard caller allowAny current =
    (if \<not> allowAny \<and> j_agentId current \<noteq> caller
     then Some (Coded_Error ''SELF_SERVICE_ACCESS_DENIED'' ''job ownership changed before mutation'') else None)"

definition guardFor :: "string \<Rightarrow> bool \<Rightarrow> string list option \<Rightarrow> job \<Rightarrow> js_error option" where
  "guardFor operation allowAny inventory current =
    (if allowAny then None
     else map_option (\<lambda>reason. Coded_Error ''CRITICAL_SELF_MUTATION_DENIED'' reason)
       (evaluateCriticalJobGuard operation (j_logicalKey current) inventory))"

text \<open>Ownership first, then the critical assert.\<close>

definition ownership_then_critical :: "string \<Rightarrow> bool \<Rightarrow> string \<Rightarrow> string list option \<Rightarrow> job \<Rightarrow> js_error option" where
  "ownership_then_critical caller allowAny operation inventory current =
    (case ownershipGuard caller allowAny current of Some e \<Rightarrow> Some e
     | None \<Rightarrow> guardFor operation allowAny inventory current)"

subsection \<open>The handlers\<close>

record service =
  sv_ext :: ext
  sv_grant :: "string \<Rightarrow> string \<Rightarrow> bool"
  sv_now :: int
  sv_uuid :: string
  sv_write :: write_outcome
  sv_auditOk :: bool
  sv_inventory :: "jval option"
  sv_before :: "sdoc option"

record audit =
  ad_operation :: string
  ad_jobId :: string
  ad_operator :: string
  ad_target :: string
  ad_already :: bool
  ad_before :: "string option"
  ad_after :: "string option"
  ad_denied :: "string option"

definition ADMIN_SCOPE :: string where "ADMIN_SCOPE = ''scheduler.admin''"
definition AUDIT_SCOPE :: string where "AUDIT_SCOPE = ''scheduler.audit''"

definition audit_status :: "service \<Rightarrow> string" where
  "audit_status V = (if sv_auditOk V then ''appended'' else ''append_failed'')"

definition logged :: "service \<Rightarrow> audit \<Rightarrow> audit list" where
  "logged V a = (if sv_auditOk V then [a] else [])"

definition service_opts :: "service \<Rightarrow> norm_opts" where
  "service_opts V = \<lparr>no_nowMs = sv_now V, no_id = None, no_createdAtMs = None, no_uuid = sv_uuid V\<rparr>"

text \<open>A reply, the file it leaves and the events it appends to the evidence log.\<close>

type_synonym 'a handled = "sdoc option \<times> 'a reply \<times> audit list"

text \<open>
  One locked mutation: a commit whose acknowledgement is lost is answered like a commit, any other
  error by its class.
\<close>

definition settle_mutation ::
    "service \<Rightarrow> sdoc option \<Rightarrow> (sdoc \<Rightarrow> (sdoc \<times> 'v) res) \<Rightarrow> (sdoc \<Rightarrow> 'v \<Rightarrow> 'a reply \<times> audit list)
     \<Rightarrow> (js_error \<Rightarrow> 'a reply \<times> audit list) \<Rightarrow> 'a handled" where
  "settle_mutation V disk f committed failed = (case mutateDoc (sv_write V) disk f of
     (disk', Committed d v) \<Rightarrow> (disk', committed d v)
   | (disk', Ack_Lost d v _) \<Rightarrow> (disk', committed d v)
   | (disk', Not_Committed e) \<Rightarrow> (disk', failed e))"

definition loadScopedJob :: "service \<Rightarrow> string \<Rightarrow> jval \<Rightarrow> string + (job \<times> bool)" where
  "loadScopedJob V caller jobId = (case loadDoc (sv_before V) of
     Inl _ \<Rightarrow> Inl ''internal_error''
   | Inr d \<Rightarrow> (case find (\<lambda>j. JStr (j_id j) = jobId) (s_jobs d) of
       None \<Rightarrow> Inl ''job_not_found''
     | Some job \<Rightarrow>
         if j_agentId job = caller then Inr (job, False)
         else if sv_grant V caller ADMIN_SCOPE then Inr (job, True)
         else Inl ''access_denied''))"

definition create_input :: "jval \<Rightarrow> jval \<Rightarrow> string \<Rightarrow> jval \<Rightarrow> jval \<Rightarrow> jval" where
  "create_input args target key schedule' delivery' = JObj ([(''name'', jget args ''name''), (''agentId'', target),
     (''enabled'', JBool True), (''logicalKey'', JStr key), (''schedule'', schedule'),
     (''payload'', payloadForCreate args), (''delivery'', delivery')]
     @ given args ''delete_after_run'' ''deleteAfterRun''
     @ (if jget args ''auto_retry'' = JBool True then [(''retry'', JObj [(''auto'', JBool True)])] else []))"

definition names_target :: "jval \<Rightarrow> bool" where
  "names_target args \<longleftrightarrow> jget args ''target_agent_id'' \<noteq> JUndef \<or> jget args ''destination'' \<noteq> JUndef"

definition create_audit :: "service \<Rightarrow> string \<Rightarrow> string \<Rightarrow> job \<Rightarrow> bool \<Rightarrow> audit" where
  "create_audit V operation caller j already = \<lparr>ad_operation = operation, ad_jobId = j_id j, ad_operator = caller,
     ad_target = j_agentId j, ad_already = already, ad_before = None,
     ad_after = Some (definitionDigest (sv_ext V) j), ad_denied = None\<rparr>"

definition change_audit :: "service \<Rightarrow> string \<Rightarrow> string \<Rightarrow> job option \<Rightarrow> job \<Rightarrow> audit" where
  "change_audit V operation caller before j = \<lparr>ad_operation = operation, ad_jobId = j_id j, ad_operator = caller,
     ad_target = j_agentId j, ad_already = False, ad_before = map_option (definitionDigest (sv_ext V)) before,
     ad_after = Some (definitionDigest (sv_ext V) j), ad_denied = None\<rparr>"

text \<open>\<^verbatim>\<open>normalizeJob\<close> runs before the lock: its errors are not marked as uncommitted.\<close>

definition normalized_then :: "service \<Rightarrow> sdoc option \<Rightarrow> jval \<Rightarrow> 'a handled \<Rightarrow> 'a handled" where
  "normalized_then V disk input rest = (case normalize_job (sv_ext V) (service_opts V) input of
     Inl e \<Rightarrow> (disk, mutationFailure False e, []) | Inr _ \<Rightarrow> rest)"

definition ss_create :: "service \<Rightarrow> jval \<Rightarrow> jval \<Rightarrow> sdoc option \<Rightarrow> committed_result handled" where
  "ss_create V args context disk = (case trustedCaller context of
     None \<Rightarrow> (disk, Err ''access_denied'', [])
   | Some caller \<Rightarrow> (case nonEmpty (jget args ''logical_key'') of
       None \<Rightarrow> (disk, Err ''invalid_arguments'', [])
     | Some key \<Rightarrow>
         if names_target args \<and> \<not> sv_grant V caller ADMIN_SCOPE then (disk, Err ''access_denied'', [])
         else (case rbind (scheduleFromArgs (sv_ext V) args (sv_now V)) (\<lambda>s. rbind (deliveryFromArgs args context) (\<lambda>dl. Inr (s, dl))) of
           Inl e \<Rightarrow> (disk, validationFailure e, [])
         | Inr (s, dl) \<Rightarrow>
             let input = create_input args (coalesce (jget args ''target_agent_id'') (JStr caller)) key s dl in
             normalized_then V disk input (settle_mutation V disk
               (createOrReconcileJob (sv_ext V) (service_opts V) input)
               (\<lambda>d (j, already). (Ok (committedResult (sv_ext V) j (audit_status V)),
                  logged V (create_audit V ''create'' caller j already)))
               (\<lambda>e. (mutationFailure True e, []))))))"

definition update_patch :: "jval \<Rightarrow> jval option \<Rightarrow> jval option \<Rightarrow> jval" where
  "update_patch args schedule' delivery' = JObj (given args ''name'' ''name'' @ given args ''target_agent_id'' ''agentId''
     @ (case schedule' of Some s \<Rightarrow> [(''schedule'', s)] | None \<Rightarrow> [])
     @ (case delivery' of Some d \<Rightarrow> [(''delivery'', d)] | None \<Rightarrow> [])
     @ given args ''delete_after_run'' ''deleteAfterRun''
     @ (if jget args ''auto_retry'' \<noteq> JUndef then [(''retry'', JObj [(''auto'', jget args ''auto_retry'')])] else []))"

definition with_payload :: "jval \<Rightarrow> job \<Rightarrow> jval \<Rightarrow> jval" where
  "with_payload args current patch = (case payloadPatch (payload_val (j_payload current)) args of
     Some p \<Rightarrow> merge_obj patch (JObj [(''payload'', p)]) | None \<Rightarrow> patch)"

definition optional :: "bool \<Rightarrow> 'a res \<Rightarrow> 'a option res" where
  "optional asked r = (if asked then rbind r (\<lambda>x. Inr (Some x)) else Inr None)"

definition ss_update :: "service \<Rightarrow> jval \<Rightarrow> jval \<Rightarrow> sdoc option \<Rightarrow> committed_result handled" where
  "ss_update V args context disk = (case trustedCaller context of
     None \<Rightarrow> (disk, Err ''access_denied'', [])
   | Some caller \<Rightarrow> (case loadScopedJob V caller (jget args ''job_id'') of
       Inl code \<Rightarrow> (disk, Err code, [])
     | Inr (job, allowAny) \<Rightarrow>
         if names_target args \<and> \<not> sv_grant V caller ADMIN_SCOPE then (disk, Err ''access_denied'', [])
         else (case rbind (expectedRevisionFromArgs args) (\<lambda>expected.
                rbind (optional (jget args ''schedule_kind'' \<noteq> JUndef) (scheduleFromArgs (sv_ext V) args (sv_now V))) (\<lambda>s.
                rbind (optional (jget args ''delivery_mode'' \<noteq> JUndef) (deliveryFromArgs args context)) (\<lambda>dl.
                Inr (expected, update_patch args s dl)))) of
           Inl e \<Rightarrow> (disk, validationFailure e, [])
         | Inr (expected, patch) \<Rightarrow>
             settle_mutation V disk
               (updateJob (sv_ext V) (service_opts V) (ownershipGuard caller allowAny) (with_payload args) expected (j_id job) patch)
               (\<lambda>d j. (Ok (committedResult (sv_ext V) j (audit_status V)),
                  logged V (change_audit V ''update'' caller (findJob (s_jobs (disk_doc disk)) (j_id job)) j)))
               (\<lambda>e. (mutationFailure True e, [])))))"

record toggle_result =
  tg_jobId :: string
  tg_enabled :: bool
  tg_nextRunAt :: "string option"
  tg_audit :: string

definition denial_audit :: "string \<Rightarrow> string \<Rightarrow> string \<Rightarrow> string \<Rightarrow> audit" where
  "denial_audit operation caller jobId reason = \<lparr>ad_operation = operation, ad_jobId = jobId, ad_operator = caller,
     ad_target = [], ad_already = False, ad_before = None, ad_after = None, ad_denied = Some reason\<rparr>"

text \<open>A denial by the critical guard is appended to the log; every other failure is only answered.\<close>

definition guarded_failure :: "service \<Rightarrow> string \<Rightarrow> string \<Rightarrow> string \<Rightarrow> js_error \<Rightarrow> 'a reply \<times> audit list" where
  "guarded_failure V operation caller jobId e = (case e of
     Coded_Error c reason \<Rightarrow>
       if c = ''CRITICAL_SELF_MUTATION_DENIED''
       then (Err ''access_denied'', logged V (denial_audit operation caller jobId reason))
       else (mutationFailure True e, [])
   | _ \<Rightarrow> (mutationFailure True e, []))"

definition toggle_done :: "service \<Rightarrow> string \<Rightarrow> string \<Rightarrow> string \<Rightarrow> sdoc option \<Rightarrow> sdoc \<Rightarrow> toggle_result reply \<times> audit list" where
  "toggle_done V operation caller i disk d = (case findJob (s_jobs d) i of
     None \<Rightarrow> (Err ''internal_error'', [])
   | Some j \<Rightarrow> (Ok \<lparr>tg_jobId = j_id j, tg_enabled = j_enabled j,
         tg_nextRunAt = (case st_nextRunAtMs (j_state j) of Some n \<Rightarrow> to_iso (sv_ext V) n | None \<Rightarrow> None),
         tg_audit = audit_status V\<rparr>,
       logged V (change_audit V operation caller (findJob (s_jobs (disk_doc disk)) i) j)))"

definition mutateToggle :: "service \<Rightarrow> bool \<Rightarrow> jval \<Rightarrow> jval \<Rightarrow> sdoc option \<Rightarrow> toggle_result handled" where
  "mutateToggle V enabling args context disk = (case trustedCaller context of
     None \<Rightarrow> (disk, Err ''access_denied'', [])
   | Some caller \<Rightarrow> (case loadScopedJob V caller (jget args ''job_id'') of
       Inl code \<Rightarrow> (disk, Err code, [])
     | Inr (job, allowAny) \<Rightarrow> (case expectedRevisionFromArgs args of
         Inl e \<Rightarrow> (disk, validationFailure e, [])
       | Inr expected \<Rightarrow>
           if enabling then
             settle_mutation V disk
               (enableJob (sv_ext V) (sv_now V) (ownershipGuard caller allowAny) expected (j_id job))
               (\<lambda>d _. toggle_done V ''enable'' caller (j_id job) disk d)
               (guarded_failure V ''enable'' caller (j_id job))
           else
             settle_mutation V disk
               (disableJobOp (sv_ext V) (sv_now V)
                  (ownership_then_critical caller allowAny ''disable'' (loadCriticalInventory (sv_ext V) (sv_inventory V)))
                  expected (j_id job))
               (\<lambda>d _. toggle_done V ''disable'' caller (j_id job) disk d)
               (guarded_failure V ''disable'' caller (j_id job)))))"

definition ss_remove :: "service \<Rightarrow> jval \<Rightarrow> jval \<Rightarrow> sdoc option \<Rightarrow> string handled" where
  "ss_remove V args context disk = (case trustedCaller context of
     None \<Rightarrow> (disk, Err ''access_denied'', [])
   | Some caller \<Rightarrow> (case loadScopedJob V caller (jget args ''job_id'') of
       Inl code \<Rightarrow> (disk, Err code, [])
     | Inr (job, allowAny) \<Rightarrow> (case expectedRevisionFromArgs args of
         Inl e \<Rightarrow> (disk, validationFailure e, [])
       | Inr expected \<Rightarrow>
           settle_mutation V disk
             (deleteJob (ownership_then_critical caller allowAny ''remove''
                (loadCriticalInventory (sv_ext V) (sv_inventory V))) expected (j_id job))
             (\<lambda>d _. (Ok (j_id job), (case findJob (s_jobs (disk_doc disk)) (j_id job) of
                None \<Rightarrow> []
              | Some current \<Rightarrow> logged V \<lparr>ad_operation = ''remove'', ad_jobId = j_id job, ad_operator = caller,
                  ad_target = j_agentId current, ad_already = False,
                  ad_before = Some (definitionDigest (sv_ext V) current), ad_after = None, ad_denied = None\<rparr>)))
             (guarded_failure V ''remove'' caller (j_id job)))))"

definition clone_input :: "jval \<Rightarrow> string \<Rightarrow> string \<Rightarrow> job \<Rightarrow> jval" where
  "clone_input args caller key source = JObj ([(''name'', coalesce (jget args ''new_name'') (JStr (j_name source))),
     (''agentId'', JStr caller), (''logicalKey'', JStr key), (''schedule'', schedule_val (j_schedule source)),
     (''payload'', payload_val (j_payload source)), (''delivery'', delivery_val (j_delivery source))]
     @ (if j_retry source = None then [] else [(''retry'', retry_val (j_retry source))])
     @ [(''deleteAfterRun'', JBool (j_deleteAfterRun source))]
     @ (case j_description source of Some t \<Rightarrow> [(''description'', JStr t)] | None \<Rightarrow> []))"

definition elapsed_one_shot :: "ext \<Rightarrow> job \<Rightarrow> int \<Rightarrow> bool" where
  "elapsed_one_shot X source nowMs \<longleftrightarrow> (case j_schedule source of
     At t \<Rightarrow> (case parseAbsoluteTimeMs X (JStr t) of Some atMs \<Rightarrow> atMs \<le> nowMs | None \<Rightarrow> False) | _ \<Rightarrow> False)"

text \<open>A clone is copied only within one owner: no grant helps here.\<close>

definition clone_disabled :: "service \<Rightarrow> jval \<Rightarrow> jval \<Rightarrow> sdoc option \<Rightarrow> committed_result handled" where
  "clone_disabled V args context disk = (case trustedCaller context of
     None \<Rightarrow> (disk, Err ''access_denied'', [])
   | Some caller \<Rightarrow> (case nonEmpty (jget args ''new_logical_key'') of
       None \<Rightarrow> (disk, Err ''invalid_arguments'', [])
     | Some key \<Rightarrow>
         if jget args ''expected_revision'' = JUndef then (disk, Err ''invalid_arguments'', [])
         else (case loadDoc (sv_before V) of
           Inl _ \<Rightarrow> (disk, Err ''internal_error'', [])
         | Inr d0 \<Rightarrow> (case find (\<lambda>j. JStr (j_id j) = jget args ''job_id'') (s_jobs d0) of
             None \<Rightarrow> (disk, Err ''job_not_found'', [])
           | Some source \<Rightarrow>
               if j_agentId source \<noteq> caller then (disk, Err ''access_denied'', [])
               else (case expectedRevisionFromArgs args of
                 Inl e \<Rightarrow> (disk, validationFailure e, [])
               | Inr None \<Rightarrow> (disk, Err ''invalid_arguments'', [])
               | Inr (Some expected) \<Rightarrow> (case assertExpectedRevision source (Some expected) of
                   Inl e \<Rightarrow> (disk, mutationFailure False e, [])
                 | Inr _ \<Rightarrow>
                     if elapsed_one_shot (sv_ext V) source (sv_now V) then (disk, Err ''validation_error'', [])
                     else let input = clone_input args caller key source in
                       normalized_then V disk (merge_obj input (JObj [(''enabled'', JBool False)])) (settle_mutation V disk
                       (cloneDisabledJob (sv_ext V) (service_opts V) (ownershipGuard caller False) (j_id source) expected input)
                       (\<lambda>d (j, already). (Ok (committedResult (sv_ext V) j (audit_status V)),
                          logged V (create_audit V ''clone_disabled'' caller j already)))
                       (\<lambda>e. (mutationFailure True e, [])))))))))"

subsection \<open>Reading\<close>

text \<open>Listing every agent's definitions is refused whatever the caller was granted.\<close>

definition ss_list :: "jval \<Rightarrow> jval \<Rightarrow> sdoc option \<Rightarrow> (jval \<times> bool) list reply res" where
  "ss_list args context before = (case trustedCaller context of
     None \<Rightarrow> Inr (Err ''access_denied'')
   | Some caller \<Rightarrow>
       if jget args ''all_agents'' = JBool True then Inr (Err ''access_denied'')
       else rbind (loadDoc before) (\<lambda>d. Inr (Ok (map (\<lambda>j. (publicJobWithoutMessage j, fenced (s_fences d) (j_id j)))
         (filter (\<lambda>j. j_agentId j = caller
            \<and> (jget args ''logical_key'' \<noteq> JUndef \<longrightarrow> opt_val JStr (j_logicalKey j) = jget args ''logical_key'')
            \<and> (jget args ''job_id'' \<noteq> JUndef \<longrightarrow> JStr (j_id j) = jget args ''job_id'')) (s_jobs d))))))"

text \<open>
  \<^verbatim>\<open>slice(-n)\<close>: the last \<open>n\<close> elements, all of them for zero, and without the first \<open>- n\<close> for a negative
  \<open>n\<close>. The schema of the capability admits only the integers from 1 to 100.
\<close>

definition slice_last :: "int \<Rightarrow> 'a list \<Rightarrow> 'a list" where
  "slice_last n xs = (if 0 < n then drop (length xs - nat n) xs else drop (nat (- n)) xs)"

definition runs_limit :: "jval \<Rightarrow> int" where
  "runs_limit args = (if nullish (jget args ''limit'') then 10 else num_floor (jget args ''limit''))"

definition ss_runs :: "service \<Rightarrow> jval \<Rightarrow> jval \<Rightarrow> occurrence_view list reply res" where
  "ss_runs V args context = (case trustedCaller context of
     None \<Rightarrow> Inr (Err ''access_denied'')
   | Some caller \<Rightarrow>
       let all = (jget args ''all_agents'' = JBool True); audit = sv_grant V caller AUDIT_SCOPE in
       if all \<and> \<not> audit then Inr (Err ''access_denied'')
       else rbind (loadDoc (sv_before V)) (\<lambda>d.
         let view = (\<lambda>jobs. Inr (Ok (map (occurrenceProjection (s_fences d))
               (rev (slice_last (runs_limit args) (filter (\<lambda>r. o_jobId r \<in> set (map j_id jobs)) (s_occurrences d)))))))
         in if jget args ''job_id'' = JUndef then view (filter (\<lambda>j. all \<or> j_agentId j = caller) (s_jobs d))
            else (case find (\<lambda>j. JStr (j_id j) = jget args ''job_id'') (s_jobs d) of
              None \<Rightarrow> Inr (Err ''job_not_found'')
            | Some job \<Rightarrow> if j_agentId job \<noteq> caller \<and> \<not> audit then Inr (Err ''job_not_found'') else view [job])))"

subsection \<open>What the handlers may touch\<close>

lemma settle_mutation_disk:
  "fst (settle_mutation V disk f ok failed) = disk
   \<or> (\<exists>d v. f (disk_doc disk) = Inr (d, v) \<and> valid_doc d \<and> fst (settle_mutation V disk f ok failed) = Some d)"
proof -
  obtain disk' m where m: "mutateDoc (sv_write V) disk f = (disk', m)"
    by (cases "mutateDoc (sv_write V) disk f")
  show ?thesis
    using mutateDoc_cases[OF m] by (cases m) (auto simp: settle_mutation_def m)
qed

definition others_kept :: "(job \<Rightarrow> bool) \<Rightarrow> sdoc \<Rightarrow> sdoc \<Rightarrow> bool" where
  "others_kept p d d' \<longleftrightarrow> s_occurrences d' = s_occurrences d \<and> s_fences d' = s_fences d
     \<and> (\<forall>j \<in> set (s_jobs d). p j \<longrightarrow> j \<in> set (s_jobs d'))"

lemma others_kept_refl [simp]: "others_kept p d d"
  by (simp add: others_kept_def)

lemma remove_first_other: "x \<in> set xs \<Longrightarrow> \<not> p x \<Longrightarrow> x \<in> set (remove_first p xs)"
  by (induction xs) auto

lemma rmap_mem: "rmap f xs = Inr ys \<Longrightarrow> x \<in> set xs \<Longrightarrow> f x = Inr x \<Longrightarrow> x \<in> set ys"
  by (induction xs arbitrary: ys) (auto simp: rbind_eq_Inr)

lemma refreshStates_other:
  "refreshStates X which occs now jobs = Inr js \<Longrightarrow> x \<in> set jobs \<Longrightarrow> \<not> which x \<Longrightarrow> x \<in> set js"
  unfolding refreshStates_def by (erule rmap_mem) simp_all

lemma create_others: "createOrReconcileJob X opts input d = Inr (d', v) \<Longrightarrow> others_kept (\<lambda>_. True) d d'"
  using createOrReconcileJob_only[of X opts input d d' v]
  by (auto simp: others_kept_def definitions_only_def createOrReconcileJob_def insertJob_def rbind_eq_Inr
      split: option.splits if_splits)

lemma update_others:
  assumes "updateJob X opts a b e i patch d = Inr (d', v)"
  shows "\<exists>cur. findJob (s_jobs d) i = Some cur \<and> a cur = None \<and> others_kept (\<lambda>j. j_id j \<noteq> i) d d'"
proof -
  obtain cur where c: "guarded_job a e i d = Inr cur"
    using assms by (cases "guarded_job a e i d") (simp_all add: updateJob_def)
  then have g: "findJob (s_jobs d) i = Some cur" "a cur = None" by (simp_all add: guarded_job_Inr)
  have "j_id cur = i" using findJob_Some[OF g(1)] by simp
  then obtain stored where "s_jobs d' = replaceFirst i (\<lambda>_. stored) (s_jobs d)"
    using assms c by (auto simp: updateJob_def Let_def rbind_eq_Inr)
  then show ?thesis
    using g updateJob_only[OF assms] by (auto simp: others_kept_def definitions_only_def replaceFirst_def intro: update_first_other)
qed

lemma enable_others:
  assumes "enableJob X now a e i d = Inr (d', v)"
  shows "\<exists>cur. findJob (s_jobs d) i = Some cur \<and> a cur = None \<and> others_kept (\<lambda>j. j_id j \<noteq> i) d d'"
proof -
  obtain cur where c: "guarded_job a e i d = Inr cur"
    using assms by (cases "guarded_job a e i d") (simp_all add: enableJob_def)
  then have g: "findJob (s_jobs d) i = Some cur" "a cur = None" by (simp_all add: guarded_job_Inr)
  let ?y = "(if j_enabled cur then cur else cur\<lparr>j_enabled := True, j_revisionActivatedAtMs := Some now\<rparr>)\<lparr>j_updatedAtMs := now\<rparr>"
  obtain js where js: "refreshStates X (\<lambda>j. j_id j = i) (s_occurrences d) now (replaceFirst i (\<lambda>_. ?y) (s_jobs d)) = Inr js"
      "d' = d\<lparr>s_jobs := js\<rparr>"
    using assms c unfolding enableJob_def Let_def by (auto simp only: rbind_eq_Inr sum.inject prod.inject)
  have r: "refreshStates X (\<lambda>j. j_id j = i) (s_occurrences d) now (replaceFirst i (\<lambda>_. ?y) (s_jobs d)) = Inr (s_jobs d')"
    using js by simp
  have "j \<in> set (s_jobs d')" if "j \<in> set (s_jobs d)" "j_id j \<noteq> i" for j
    using refreshStates_other[OF r] that by (simp add: replaceFirst_def update_first_other)
  then show ?thesis
    using g enableJob_only[OF assms] by (auto simp: others_kept_def definitions_only_def)
qed

lemma disable_others:
  assumes "disableJobOp X now a e i d = Inr (d', v)"
  shows "\<exists>cur. findJob (s_jobs d) i = Some cur \<and> a cur = None \<and> others_kept (\<lambda>j. j_id j \<noteq> i) d d'"
  using assms disableJobOp_only[OF assms]
  by (auto simp: disableJobOp_def rbind_eq_Inr guarded_job_Inr others_kept_def definitions_only_def replaceFirst_def
      intro: update_first_other)

lemma delete_others:
  assumes "deleteJob a e i d = Inr (d', v)"
  shows "\<exists>cur. findJob (s_jobs d) i = Some cur \<and> a cur = None \<and> others_kept (\<lambda>j. j_id j \<noteq> i) d d'"
  using assms deleteJob_only[OF assms]
  by (auto simp: deleteJob_def rbind_eq_Inr guarded_job_Inr others_kept_def definitions_only_def removeJob_def
      intro: remove_first_other)

lemma clone_others:
  assumes "cloneDisabledJob X opts a i e input d = Inr (d', v)"
  shows "others_kept (\<lambda>_. True) d d'"
proof -
  obtain cloned where n: "normalize_job X opts (merge_obj input (JObj [(''enabled'', JBool False)])) = Inr cloned"
    using assms by (cases "normalize_job X opts (merge_obj input (JObj [(''enabled'', JBool False)]))")
      (simp_all add: cloneDisabledJob_def)
  obtain job where g: "guarded_job a (Some e) i d = Inr job"
    using assms n by (cases "guarded_job a (Some e) i d") (simp_all add: cloneDisabledJob_def Let_def)
  show ?thesis
    using assms n g cloneDisabledJob_only[OF assms]
    by (auto simp: cloneDisabledJob_def Let_def others_kept_def definitions_only_def insertJob_def rbind_eq_Inr
        split: option.splits if_splits)
qed

text \<open>The job is still there, as it was, and the ledger and the fences are untouched.\<close>

definition survives :: "job \<Rightarrow> sdoc option \<Rightarrow> sdoc option \<Rightarrow> bool" where
  "survives j disk disk' \<longleftrightarrow> s_occurrences (disk_doc disk') = s_occurrences (disk_doc disk)
     \<and> s_fences (disk_doc disk') = s_fences (disk_doc disk)
     \<and> (j \<in> set (s_jobs (disk_doc disk)) \<longrightarrow> j \<in> set (s_jobs (disk_doc disk')))"

lemma survives_refl [simp]: "survives j disk disk"
  by (simp add: survives_def)

lemma settle_survives:
  assumes "\<And>d v. f (disk_doc disk) = Inr (d, v) \<Longrightarrow> others_kept p (disk_doc disk) d"
    and "\<And>d v. f (disk_doc disk) = Inr (d, v) \<Longrightarrow> j \<in> set (s_jobs (disk_doc disk)) \<Longrightarrow> p j"
  shows "survives j disk (fst (settle_mutation V disk f ok failed))"
  using settle_mutation_disk[of V disk f ok failed] assms
  by (auto simp: survives_def others_kept_def disk_doc_def split: option.splits)

lemma other_than_found:
  assumes "distinct (map j_id jobs)" and "findJob jobs i = Some cur" and "j \<in> set jobs" and "j \<noteq> cur"
  shows "j_id j \<noteq> i"
  using assms findJob_Some[OF assms(2)] by (metis distinct_map inj_onD)

lemma guarded_survives:
  assumes "distinct (map j_id (s_jobs (disk_doc disk)))" and "a j \<noteq> None"
    and "\<And>d v. f (disk_doc disk) = Inr (d, v) \<Longrightarrow> \<exists>cur. findJob (s_jobs (disk_doc disk)) i = Some cur \<and> a cur = None
      \<and> others_kept (\<lambda>j. j_id j \<noteq> i) (disk_doc disk) d"
  shows "survives j disk (fst (settle_mutation V disk f ok failed))"
proof (rule settle_survives[where p = "\<lambda>j. j_id j \<noteq> i"])
  fix d v assume "f (disk_doc disk) = Inr (d, v)"
  then obtain cur where c: "findJob (s_jobs (disk_doc disk)) i = Some cur" "a cur = None"
      "others_kept (\<lambda>j. j_id j \<noteq> i) (disk_doc disk) d"
    using assms(3) by blast
  show "others_kept (\<lambda>j. j_id j \<noteq> i) (disk_doc disk) d" by (rule c(3))
  have "j \<noteq> cur" using c(2) assms(2) by auto
  moreover assume "j \<in> set (s_jobs (disk_doc disk))"
  ultimately show "j_id j \<noteq> i"
    using other_than_found[OF assms(1) c(1)] by blast
qed

lemma loadScopedJob_any:
  "loadScopedJob V caller jobId = Inr (job, allowAny) \<Longrightarrow> \<not> sv_grant V caller ADMIN_SCOPE \<Longrightarrow> allowAny = False"
  by (auto simp: loadScopedJob_def split: sum.splits option.splits if_splits)

lemma foreign_refused: "j_agentId j \<noteq> caller \<Longrightarrow> ownershipGuard caller False j \<noteq> None"
  by (simp add: ownershipGuard_def)

lemma critical_refused:
  assumes "j_agentId j \<noteq> caller
    \<or> (operation = ''disable'' \<or> operation = ''remove'') \<and> evaluateCriticalJobGuard operation (j_logicalKey j) inventory \<noteq> None"
  shows "ownership_then_critical caller False operation inventory j \<noteq> None"
  using assms by (auto simp: ownership_then_critical_def ownershipGuard_def guardFor_def split: option.split)

lemma create_survives: "survives j disk (fst (ss_create V args context disk))"
proof -
  have "survives j disk (fst (settle_mutation V disk (createOrReconcileJob (sv_ext V) (service_opts V) input) ok failed))"
    for input and ok :: "sdoc \<Rightarrow> job \<times> bool \<Rightarrow> committed_result reply \<times> audit list" and failed
    by (rule settle_survives[where p = "\<lambda>_. True"]) (auto intro: create_others)
  then show ?thesis
    by (auto simp: ss_create_def normalized_then_def Let_def split: option.split sum.split)
qed

lemma clone_survives: "survives j disk (fst (clone_disabled V args context disk))"
proof -
  have "survives j disk (fst (settle_mutation V disk (cloneDisabledJob (sv_ext V) (service_opts V) a i e input) ok failed))"
    for a i e input and ok :: "sdoc \<Rightarrow> job \<times> bool \<Rightarrow> committed_result reply \<times> audit list" and failed
    by (rule settle_survives[where p = "\<lambda>_. True"]) (auto intro: clone_others)
  then show ?thesis
    by (auto simp: clone_disabled_def normalized_then_def Let_def split: option.split sum.split)
qed

lemma update_survives:
  assumes "distinct (map j_id (s_jobs (disk_doc disk)))" and "trustedCaller context \<noteq> Some (j_agentId j)"
    and "\<And>caller. trustedCaller context = Some caller \<Longrightarrow> \<not> sv_grant V caller ADMIN_SCOPE"
  shows "survives j disk (fst (ss_update V args context disk))"
proof (cases "trustedCaller context")
  case (Some caller)
  have no: "\<not> sv_grant V caller ADMIN_SCOPE" by (rule assms(3)[OF Some])
  have "survives j disk (fst (settle_mutation V disk
      (updateJob (sv_ext V) (service_opts V) (ownershipGuard caller False) b e i patch) ok failed))"
    for b e i patch and ok :: "sdoc \<Rightarrow> job \<Rightarrow> committed_result reply \<times> audit list" and failed
  proof (rule guarded_survives[OF assms(1)])
    show "ownershipGuard caller False j \<noteq> None"
      using assms(2) Some by (simp add: ownershipGuard_def)
  qed (rule update_others)
  then show ?thesis
    using Some by (auto simp: ss_update_def Let_def dest!: loadScopedJob_any[OF _ no] split: sum.split)
qed (simp add: ss_update_def)

lemma toggle_survives:
  assumes "distinct (map j_id (s_jobs (disk_doc disk)))"
    and no: "\<And>caller. trustedCaller context = Some caller \<Longrightarrow> \<not> sv_grant V caller ADMIN_SCOPE"
    and who: "trustedCaller context \<noteq> Some (j_agentId j)
      \<or> \<not> enabling \<and> evaluateCriticalJobGuard ''disable'' (j_logicalKey j) (loadCriticalInventory (sv_ext V) (sv_inventory V)) \<noteq> None"
  shows "survives j disk (fst (mutateToggle V enabling args context disk))"
proof (cases "trustedCaller context")
  case (Some caller)
  let ?inv = "loadCriticalInventory (sv_ext V) (sv_inventory V)"
  have on: "survives j disk (fst (settle_mutation V disk
      (enableJob (sv_ext V) (sv_now V) (ownershipGuard caller False) e i) ok failed))" if enabling
    for e i and ok :: "sdoc \<Rightarrow> unit \<Rightarrow> toggle_result reply \<times> audit list" and failed
  proof (rule guarded_survives[OF assms(1)])
    show "ownershipGuard caller False j \<noteq> None"
      using that who Some by (simp add: ownershipGuard_def)
  qed (rule enable_others)
  have off: "survives j disk (fst (settle_mutation V disk
      (disableJobOp (sv_ext V) (sv_now V) (ownership_then_critical caller False ''disable'' ?inv) e i) ok failed))" if "\<not> enabling"
    for e i and ok :: "sdoc \<Rightarrow> job \<Rightarrow> toggle_result reply \<times> audit list" and failed
  proof (rule guarded_survives[OF assms(1)])
    show "ownership_then_critical caller False ''disable'' ?inv j \<noteq> None"
      using that who Some by (intro critical_refused) auto
  qed (rule disable_others)
  show ?thesis
    using on off Some by (auto simp: mutateToggle_def dest!: loadScopedJob_any[OF _ no[OF Some]] split: sum.split)
qed (simp add: mutateToggle_def)

lemma remove_survives:
  assumes "distinct (map j_id (s_jobs (disk_doc disk)))"
    and no: "\<And>caller. trustedCaller context = Some caller \<Longrightarrow> \<not> sv_grant V caller ADMIN_SCOPE"
    and who: "trustedCaller context \<noteq> Some (j_agentId j)
      \<or> evaluateCriticalJobGuard ''remove'' (j_logicalKey j) (loadCriticalInventory (sv_ext V) (sv_inventory V)) \<noteq> None"
  shows "survives j disk (fst (ss_remove V args context disk))"
proof (cases "trustedCaller context")
  case (Some caller)
  let ?inv = "loadCriticalInventory (sv_ext V) (sv_inventory V)"
  have off: "survives j disk (fst (settle_mutation V disk
      (deleteJob (ownership_then_critical caller False ''remove'' ?inv) e i) ok failed))"
    for e i and ok :: "sdoc \<Rightarrow> unit \<Rightarrow> string reply \<times> audit list" and failed
  proof (rule guarded_survives[OF assms(1)])
    show "ownership_then_critical caller False ''remove'' ?inv j \<noteq> None"
      using who Some by (intro critical_refused) auto
  qed (rule delete_others)
  show ?thesis
    using off Some by (auto simp: ss_remove_def dest!: loadScopedJob_any[OF _ no[OF Some]] split: sum.split)
qed (simp add: ss_remove_def)

subsection \<open>A job that vanished, and a creation that cannot be repeated\<close>

text \<open>
  A job that is removed between the unlocked read and the lock: the error of \<^verbatim>\<open>findJob\<close> is marked
  uncommitted before it is classified, so that the reply is never \<^verbatim>\<open>job_not_found\<close>.
\<close>

lemma vanished_job:
  assumes "trustedCaller context = Some caller" and "loadScopedJob V caller (jget args ''job_id'') = Inr (job, allowAny)"
    and "expectedRevisionFromArgs args = Inr e" and "valid_disk disk" and "findJob (s_jobs (disk_doc disk)) (j_id job) = None"
  shows "mutateToggle V enabling args context disk = (disk, Err ''internal_error'', [])"
proof -
  let ?e = "Plain_Error (''unknown job id: '' @ j_id job)"
  have load: "loadDocForMutation disk = Inr (disk_doc disk)"
    using assms(4) by (simp add: loadDocForMutation_iff)
  have g: "guarded_job a x (j_id job) (disk_doc disk) = Inl ?e" for a x
    using assms(5) by (simp add: guarded_job_def requireJob_def)
  have m: "mutationFailure True ?e = (Err ''internal_error'' :: toggle_result reply)"
    by (simp add: mutationFailure_def)
  have s: "settle_mutation V disk f ok (guarded_failure V op caller (j_id job)) = (disk, Err ''internal_error'', [])"
    if "f (disk_doc disk) = Inl ?e" for f op and ok :: "sdoc \<Rightarrow> 'v \<Rightarrow> toggle_result reply \<times> audit list"
    using load that m by (simp add: settle_mutation_def mutateDoc_def guarded_failure_def)
  show ?thesis
    using assms(1-3) by (simp add: mutateToggle_def s enableJob_def disableJobOp_def g Let_def)
qed

lemma normalize_job_schedule: "normalize_job X opts v = Inr j \<Longrightarrow> normalize_schedule X (jget v ''schedule'') = Inr (j_schedule j)"
  using normalize_job_parts by metis

lemma every_from_args:
  assumes "jget args ''schedule_kind'' = JStr ''every''" and "0 \<le> now"
    and "scheduleFromArgs X args now = Inr s" and "normalize_schedule X s = Inr sched"
  shows "\<exists>ms. sched = Every ms (Some now)"
proof -
  have "s = JObj [(''kind'', JStr ''every''), (''everyMs'', jget args ''every_ms''), (''anchorMs'', JInt now)]"
    using assms(1,3) by (simp add: scheduleFromArgs_def)
  then show ?thesis
    using assms(2,4) by (auto simp: normalize_schedule_def coalesce_def Let_def js_trim_def is_ws_def js_lower_def lower_char_def
        split: if_splits)
qed

lemma normalize_job_reschedule:
  assumes "normalize_job X opts input = Inr j" and "is_object input'"
    and "\<And>k. k \<noteq> ''schedule'' \<Longrightarrow> jget input' k = jget input k"
    and "normalize_schedule X (jget input' ''schedule'') = Inr s"
  shows "\<exists>j'. normalize_job X opts' input' = Inr j' \<and> j_logicalKey j' = j_logicalKey j \<and> j_schedule j' = s"
proof -
  have b: "k \<noteq> ''schedule'' \<Longrightarrow> bool_field input' k = bool_field input k" for k
    by (simp add: bool_field_def assms(3))
  show ?thesis
  using assms(1)[unfolded normalize_job_def Let_def rbind_eq_Inr]
  apply (elim exE conjE)
  apply (drule sum.inject(2) [THEN iffD1])
  apply hypsubst
  apply (simp add: normalize_job_def Let_def assms(2-4) b ensure_def[of True])
  done
qed

lemma committed_key:
  assumes "createOrReconcileJob X opts input d = Inr (d', v)" and "normalize_job X opts input = Inr j" and "j_logicalKey j = Some key"
  shows "\<exists>existing. findByKey (s_jobs d') (Some key) = Some existing \<and> j_schedule existing = j_schedule j"
proof (cases "findByKey (s_jobs d) (Some key)")
  case None
  then have "insertJob X j (no_nowMs opts) d = Inr (d', v)"
    using assms by (simp add: createOrReconcileJob_def)
  then obtain stored where st: "refreshJob X (s_occurrences d) (no_nowMs opts) j = Inr stored" "s_jobs d' = s_jobs d @ [stored]"
    by (auto simp: insertJob_def rbind_eq_Inr split: if_splits)
  have "j_logicalKey stored = Some key" "j_schedule stored = j_schedule j"
    using st(1) assms(3) by (auto simp: refreshJob_def rbind_eq_Inr)
  then show ?thesis
    using None st(2) by (simp add: findByKey_def find_append_new)
next
  case (Some existing)
  then have "d' = d" "differingProjectionFields existing j = []"
    using assms by (auto simp: createOrReconcileJob_def split: if_splits)
  with Some show ?thesis
    by (auto simp: differingProjectionFields_def split: if_splits)
qed

lemma create_input_fields:
  "jget (create_input args t key s dl) ''schedule'' = s" "is_object (create_input args t key s dl)"
  "jget (create_input args t key s dl) ''logicalKey'' = JStr key"
  "k \<noteq> ''schedule'' \<Longrightarrow> jget (create_input args t key s dl) k = jget (create_input args t key s' dl) k"
  by (simp_all add: create_input_def)

lemma normalize_job_logicalKey: "normalize_job X opts v = Inr j \<Longrightarrow> normalize_logical_key (jget v ''logicalKey'') = Inr (j_logicalKey j)"
  using normalize_job_parts by metis

lemma failure_not_Ok [simp]: "mutationFailure b e \<noteq> Ok x" "validationFailure e \<noteq> Ok x"
  by (simp_all add: mutationFailure_def validationFailure_def Let_def)

lemma settle_mutation_Ok:
  assumes "settle_mutation V disk f (\<lambda>d v. (Ok (g d v), h d v)) (\<lambda>e. (mutationFailure True e, [])) = (disk1, Ok r, lg)"
  shows "\<exists>d v. f (disk_doc disk) = Inr (d, v) \<and> valid_doc d \<and> disk1 = Some d"
proof -
  obtain disk' m where m: "mutateDoc (sv_write V) disk f = (disk', m)"
    by (cases "mutateDoc (sv_write V) disk f")
  show ?thesis
    using mutateDoc_cases[OF m] assms by (cases m) (auto simp: settle_mutation_def m)
qed

lemma conflict_reply:
  assumes "valid_doc d1" and "f d1 = Inl (logicalKeyConflictError existing)"
  shows "settle_mutation V (Some d1) f ok (\<lambda>e. (mutationFailure True e, [])) = (Some d1, Err ''logical_key_conflict'', [])"
proof -
  have "loadDocForMutation (Some d1) = Inr d1"
    using assms(1) by (simp add: loadDocForMutation_iff disk_doc_def valid_disk_def)
  then show ?thesis
    using assms(2) by (simp add: settle_mutation_def mutateDoc_def mutationFailure_def logicalKeyConflictError_def)
qed

text \<open>
  An interval schedule is anchored at the instant of the call, and the anchor is part of what a retry
  is compared with: the same request, sent again later, is refused.
\<close>

lemma every_retry_conflicts:
  assumes kind: "jget args ''schedule_kind'' = JStr ''every''" and ext: "sv_ext V' = sv_ext V"
    and grant: "sv_grant V' = sv_grant V" and nows: "0 \<le> sv_now V" "0 \<le> sv_now V'" "sv_now V' \<noteq> sv_now V"
    and first: "ss_create V args context disk = (disk1, Ok r, lg)"
  shows "ss_create V' args context disk1 = (disk1, Err ''logical_key_conflict'', [])"
proof -
  let ?X = "sv_ext V"
  have sched: "scheduleFromArgs ?X args t = Inr (JObj [(''kind'', JStr ''every''), (''everyMs'', jget args ''every_ms''), (''anchorMs'', JInt t)])" for t
    using kind by (simp add: scheduleFromArgs_def)
  obtain caller key where ck: "trustedCaller context = Some caller" "nonEmpty (jget args ''logical_key'') = Some key"
      "\<not> (names_target args \<and> \<not> sv_grant V caller ADMIN_SCOPE)"
    using first by (auto simp: ss_create_def split: option.splits if_splits)
  obtain dl where dl: "deliveryFromArgs args context = Inr dl"
    using first ck by (cases "deliveryFromArgs args context") (auto simp: ss_create_def sched)
  let ?t = "coalesce (jget args ''target_agent_id'') (JStr caller)"
  let ?s = "\<lambda>t. JObj [(''kind'', JStr ''every''), (''everyMs'', jget args ''every_ms''), (''anchorMs'', JInt t)]"
  let ?in = "\<lambda>t. create_input args ?t key (?s t) dl"
  obtain j where j: "normalize_job ?X (service_opts V) (?in (sv_now V)) = Inr j"
    using first ck dl by (cases "normalize_job ?X (service_opts V) (?in (sv_now V))")
      (auto simp: ss_create_def sched normalized_then_def Let_def)
  have eq: "ss_create V args context disk = settle_mutation V disk
      (createOrReconcileJob ?X (service_opts V) (?in (sv_now V)))
      (\<lambda>d v. (Ok (committedResult ?X (fst v) (audit_status V)), logged V (create_audit V ''create'' caller (fst v) (snd v))))
      (\<lambda>e. (mutationFailure True e, []))"
    using ck dl j by (cases "names_target args") (simp_all add: ss_create_def sched normalized_then_def Let_def case_prod_unfold)
  obtain d1 v where d1: "createOrReconcileJob ?X (service_opts V) (?in (sv_now V)) (disk_doc disk) = Inr (d1, v)"
      "valid_doc d1" "disk1 = Some d1"
    using settle_mutation_Ok[OF trans[OF eq[symmetric] first]] by blast
  have "normalize_logical_key (JStr key) = Inr (j_logicalKey j)"
    using normalize_job_logicalKey[OF j] by (simp add: create_input_fields)
  then have "j_logicalKey j \<noteq> None"
    by (auto simp: normalize_logical_key_def rbind_eq_Inr dest: sym[of "Some _"])
  then obtain k where k: "j_logicalKey j = Some k"
    by blast
  obtain ms where ms: "j_schedule j = Every ms (Some (sv_now V))"
    using every_from_args[OF kind nows(1) sched] normalize_job_schedule[OF j] by (auto simp: create_input_fields)
  obtain existing where ex: "findByKey (s_jobs d1) (Some k) = Some existing" "j_schedule existing = j_schedule j"
    using committed_key[OF d1(1) j k] by blast
  obtain ms' where ms': "normalize_schedule ?X (?s (sv_now V')) = Inr (Every ms' (Some (sv_now V')))"
  proof -
    have "normalize_schedule ?X (?s (sv_now V)) = Inr (j_schedule j)"
      using normalize_job_schedule[OF j] by (simp add: create_input_fields)
    then show thesis
      using that nows by (auto simp: normalize_schedule_def coalesce_def Let_def js_trim_def is_ws_def js_lower_def lower_char_def
        split: if_splits)
  qed
  obtain j' where j': "normalize_job ?X (service_opts V') (?in (sv_now V')) = Inr j'" "j_logicalKey j' = Some k"
      "j_schedule j' = Every ms' (Some (sv_now V'))"
    using normalize_job_reschedule[OF j, of "?in (sv_now V')" "Every ms' (Some (sv_now V'))" "service_opts V'"]
      create_input_fields(4)[of _ args ?t key "?s (sv_now V')" dl "?s (sv_now V)"] ms' k
    by (auto simp: create_input_fields)
  have "differingProjectionFields existing j' \<noteq> []"
    using ex(2) ms j'(3) nows(3) by (simp add: differingProjectionFields_def)
  then have "createOrReconcileJob ?X (service_opts V') (?in (sv_now V')) d1 = Inl (logicalKeyConflictError existing)"
    using j' ex by (simp add: createOrReconcileJob_def)
  then show ?thesis
    using ck dl j'(1) ext grant conflict_reply[OF d1(2)]
    by (cases "names_target args") (simp_all add: ss_create_def sched normalized_then_def Let_def d1(3))
qed

end
