(* ===== verification/Services.thy ===== *)
theory Services
  imports Guarantees Diagnosis Isolation SelfService
begin

section \<open>Properties of the surfaces around the engine\<close>

text \<open>
  What an agent may do to its own runs and jobs, and what the handler of admission failures touches.
\<close>

subsection \<open>Values for the instances\<close>

definition demo_snapshot :: "occurrence \<Rightarrow> router_snapshot" where
  "demo_snapshot r = \<lparr>rs_agentId = Some ''a1'',
     rs_correlation = Some (Some (o_occurrenceId r), Some (o_runId r), Some (requestIdFor r)),
     rs_outcome = Some ''terminated_without_outcome'', rs_lateOutcome = None,
     rs_terminationEvidence = Some ''child_real_exit'', rs_outcomeEvidence = None, rs_settlementResult = None,
     rs_handle = None, rs_turnExecutionId = None, rs_runtimeEpoch = None, rs_processGeneration = None, rs_state = None\<rparr>"

definition demo_readback :: "occurrence \<Rightarrow> router_result option" where
  "demo_readback r = Some \<lparr>rr_state = ''settled'', rr_snapshot = Some (demo_snapshot r), rr_handle = Some ''h1''\<rparr>"

definition context_of :: "string \<Rightarrow> jval" where
  "context_of agent = JObj [(''callerAgentId'', JStr agent), (''processGeneration'', JInt 1), (''turnExecutionId'', JStr ''t1'')]"

definition demo_service :: "int \<Rightarrow> service" where
  "demo_service now = \<lparr>sv_ext = demo_ext, sv_grant = (\<lambda>_ _. False), sv_now = now, sv_uuid = ''u1'', sv_write = Written,
     sv_auditOk = True, sv_inventory = Some (JObj [(''version'', JInt 1),
       (''jobs'', JArr [JObj [(''logicalKey'', JStr ''k1'')]])]), sv_before = Some demo_doc\<rparr>"

lemma demo_proved: "rd_disposition (classifyRouter (demo_readback r) r (Some ''a1'')) = ''terminated_without_outcome''"
  by (simp add: classifyRouter_def demo_readback_def demo_snapshot_def exact_correlation_def text_or_def override_def Let_def
      TRUSTED_TERMINATION_EVIDENCE_def ROUTER_DISPOSITIONS_def)

lemma unknown_version: "o_recordSchemaVersion unknown_record = 3"
proof -
  have "o_recordSchemaVersion demo_record = 3"
    using demo_build by (auto simp: buildFor_def buildOccurrenceRecord_def res_simps Let_def
        dest!: arg_cong[where f = o_recordSchemaVersion])
  then show ?thesis
    using unknown_shape(1) by (simp add: unknown_record_def move_def)
qed

lemma caller_of [simp]: "trustedCaller (context_of ''a1'') = Some ''a1''" "trustedCaller (context_of ''a2'') = Some ''a2''"
  by (simp_all add: trustedCaller_def context_of_def nonEmpty_def js_trim_def is_ws_def is_safe_int_def max_safe_def)

lemma demo_checked: "\<exists>job cl. self_checked demo_readback ''a1'' ''j1'' (o_occurrenceId unknown_record) (o_runId unknown_record) unknown_doc
    = Inr (job, unknown_record, cl)"
proof -
  obtain job where job: "findJob (s_jobs unknown_doc) ''j1'' = Some job" "j_agentId job = ''a1''"
    using unknown_job by (auto simp: unknown_facts)
  have "o_terminationSettlement unknown_record = None" by (simp add: unknown_facts)
  then show ?thesis
    using job unknown_found unknown_version unknown_unresolved demo_proved
    by (simp add: self_checked_def unknown_facts Let_def)
qed

subsection \<open>An agent and its own runs\<close>

text \<open>C14. When an agent reconciles its own run and every check passes, the settlement commits, the
  invariant of the engine holds, the run keeps its unknown business outcome, the receipt tells whether
  the job is still fenced, and asking again, whatever the router says by then, is answered with the same
  receipt and writes nothing.\<close>

theorem self_reconcile_settles:
  assumes "engine_inv clock d" and "clock \<le> now" and "self_checked resolve caller jobId i rn d = Inr (job, r, cl)"
  shows "\<exists>d' rc r'. selfSettle X now resolve caller jobId i rn d = Inr (Inr (d', Self_Settled rc)) \<and> engine_inv now d'
    \<and> findOccurrenceById (s_occurrences d') i = Some r' \<and> o_state r' = Outcome_Unknown \<and> \<not> isUnresolvedUnknown r'
    \<and> sf_fenceAfter rc = fenced (s_fences d') jobId
    \<and> selfSettle X later resolve' caller jobId i rn d' = Inl (Self_Settled rc)"
proof -
  obtain d' rc r' s where c: "selfSettle X now resolve caller jobId i rn d = Inr (Inr (d', Self_Settled rc))"
    "engine_inv now d'" "findOccurrenceById (s_occurrences d') i = Some r'"
    "o_state r' = Outcome_Unknown" "o_terminationSettlement r' = Some s" "receipt_of r' s = Self_Settled rc"
    "ts_fenceAfter s = fenced (s_fences d') jobId"
    by (rule selfSettle_commits[OF assms, of X])
  have "selfSettle X later resolve' caller jobId i rn d' = Inl (Self_Settled rc)"
    using selfSettle_again[OF assms c(1)] by (simp add: selfSettle_def)
  moreover have "sf_fenceAfter rc = fenced (s_fences d') jobId"
    using c(6,7) by (auto simp: receipt_of_def)
  ultimately show ?thesis
    using c by (auto simp: isUnresolvedUnknown_def)
qed

theorem self_reconcile_settles_witness:
  "\<exists>d' rc. selfSettle demo_ext 300000 demo_readback ''a1'' ''j1'' (o_occurrenceId unknown_record) (o_runId unknown_record) unknown_doc
    = Inr (Inr (d', Self_Settled rc))"
proof -
  obtain job cl where "self_checked demo_readback ''a1'' ''j1'' (o_occurrenceId unknown_record) (o_runId unknown_record) unknown_doc
      = Inr (job, unknown_record, cl)"
    using demo_checked by (elim exE)
  from self_reconcile_settles[where now = 300000 and X = demo_ext and later = 0 and resolve' = demo_readback,
      OF unknown_facts(1) _ this]
  show ?thesis by simp blast
qed

text \<open>A diagnosis that offers an agent the reconciliation of its fenced job is right: some run of the
  job passes every check of the reconciliation at that moment, provided its records are the agent's own.\<close>

theorem offered_reconcile_works:
  assumes "valid_doc d" and "jobDisposition X resolve now events caller jobId requested d = Some (Some dg)"
    and "dg_eligibility dg = ''SELF_RECONCILE_AVAILABLE''"
    and "list_all (\<lambda>r. o_jobId r = jobId \<longrightarrow> o_recordSchemaVersion r = 3 \<and> o_ownerAgentId r = Some caller) (s_occurrences d)"
  shows "\<exists>job r cl. self_checked resolve caller jobId (o_occurrenceId r) (o_runId r) d = Inr (job, r, cl)"
proof -
  obtain job where job: "findJob (s_jobs d) jobId = Some job" "j_agentId job = caller"
    and "snd (recovery_verdict resolve caller d job) = ''SELF_RECONCILE_AVAILABLE''"
    by (rule jobDisposition_Some[OF assms(2)]) (use assms(3) in auto)
  then obtain h where "recovery_verdict resolve caller d job = (h, ''SELF_RECONCILE_AVAILABLE'')"
    by (metis prod.collapse)
  from available_reconcile[OF assms(1) this job assms(4)] show ?thesis
    by blast
qed

theorem offered_reconcile_works_witness:
  "\<exists>job r cl. self_checked demo_readback ''a1'' ''j1'' (o_occurrenceId r) (o_runId r) unknown_doc = Inr (job, r, cl)"
proof -
  obtain job where job: "findJob (s_jobs unknown_doc) ''j1'' = Some job" "j_agentId job = ''a1''"
    using unknown_job by (auto simp: unknown_facts)
  have v: "valid_doc unknown_doc" "retry_ordered (s_occurrences unknown_doc)"
    using unknown_facts(1) by (simp_all add: engine_inv_def ledger_inv_def)
  have "j_id job = ''j1''" using findJob_Some[OF job(1)] by simp
  then have verdict: "recovery_verdict demo_readback ''a1'' unknown_doc job = (''quarantined_unknown'', ''SELF_RECONCILE_AVAILABLE'')"
    using v(1) unknown_unresolved demo_proved
    by (simp add: recovery_verdict_def valid_doc_fenced jobOccurrences_def unknown_facts)
  obtain out where out: "jobDisposition demo_ext demo_readback 300000 [] ''a1'' ''j1'' None unknown_doc = Some out"
    using jobDisposition_returns[OF v(2)] by blast
  then obtain dg where dg: "out = Some dg"
    using job by (auto simp: jobDisposition_def bind_eq_Some_conv Let_def split: if_splits)
  have "dg_eligibility dg = ''SELF_RECONCILE_AVAILABLE''"
    by (rule jobDisposition_Some[OF out[unfolded dg]]) (use job verdict in auto)
  from offered_reconcile_works[OF v(1) out[unfolded dg] this] show ?thesis
    using unknown_version by (simp add: unknown_facts)
qed

subsection \<open>The agent-facing surface\<close>

text \<open>C15. Without the administrator's grant no operation of the agent-facing surface changes a job of
  another agent, the ledger or the fences, whatever the arguments are, whatever the first read saw and
  whatever happens to the write.\<close>

theorem foreign_jobs_untouched:
  assumes "distinct (map j_id (s_jobs (disk_doc disk)))" and "j \<in> set (s_jobs (disk_doc disk))"
    and "trustedCaller ctx \<noteq> Some (j_agentId j)"
    and "\<And>caller. trustedCaller ctx = Some caller \<Longrightarrow> \<not> sv_grant V caller ADMIN_SCOPE"
    and "disk' \<in> {fst (ss_create V args ctx disk), fst (clone_disabled V args ctx disk),
      fst (ss_update V args ctx disk), fst (mutateToggle V enabling args ctx disk), fst (ss_remove V args ctx disk)}"
  shows "j \<in> set (s_jobs (disk_doc disk')) \<and> s_occurrences (disk_doc disk') = s_occurrences (disk_doc disk)
    \<and> s_fences (disk_doc disk') = s_fences (disk_doc disk)"
proof -
  have "survives j disk disk'"
    using assms(5) create_survives clone_survives update_survives[OF assms(1,3,4)]
      toggle_survives[OF assms(1,4) disjI1[OF assms(3)]] remove_survives[OF assms(1,4) disjI1[OF assms(3)]]
    by (elim insertE emptyE) simp_all
  then show ?thesis
    using assms(2) by (simp add: survives_def)
qed

theorem foreign_jobs_untouched_witness:
  "demo_job \<in> set (s_jobs (disk_doc (fst (ss_remove (demo_service 5) (JObj [(''job_id'', JStr ''j1'')]) (context_of ''a2'') (Some demo_doc)))))"
  by (rule conjunct1[OF foreign_jobs_untouched[where V = "demo_service 5" and ctx = "context_of ''a2''" and disk = "Some demo_doc"
      and args = "JObj [(''job_id'', JStr ''j1'')]" and enabling = True]])
    (simp_all add: disk_doc_def demo_doc_def demo_job_def demo_service_def)

lemma failure_is_refusal: "\<exists>code evs. guarded_failure V op caller i e = (Err code, evs)"
  by (cases e) (auto simp: guarded_failure_def mutationFailure_def validationFailure_def Let_def)

lemma denied_mutation:
  assumes "f (disk_doc disk) = Inl e0"
  shows "\<exists>code evs. settle_mutation V disk f done' (guarded_failure V op caller i) = (disk, Err code, evs)"
proof -
  obtain disk' m where m: "mutateDoc (sv_write V) disk f = (disk', m)"
    by (cases "mutateDoc (sv_write V) disk f")
  with mutateDoc_cases[OF m] assms obtain e where "disk' = disk" "m = Not_Committed e" by auto
  then show ?thesis
    using m failure_is_refusal by (simp add: settle_mutation_def)
qed

lemma denied_in_lock:
  assumes "findJob (s_jobs d) i = Some j" and "a j \<noteq> None"
  shows "\<exists>e. disableJobOp X now a ex i d = Inl e" and "\<exists>e. deleteJob a ex i d = Inl e"
  using assms by (auto simp: disableJobOp_def deleteJob_def guarded_job_def requireJob_def checked_def rbind_def split: option.splits)

lemma scoped_id: "loadScopedJob V caller (JStr i) = Inr (job, anyone) \<Longrightarrow> j_id job = i"
  by (auto simp: loadScopedJob_def split: sum.splits option.splits if_splits dest!: find_Some_set)

lemma denied_calls:
  assumes "distinct (map j_id (s_jobs (disk_doc disk)))" and "j \<in> set (s_jobs (disk_doc disk))"
    and no: "\<And>caller. trustedCaller ctx = Some caller \<Longrightarrow> \<not> sv_grant V caller ADMIN_SCOPE"
    and guard: "\<And>op. op = ''disable'' \<or> op = ''remove''
      \<Longrightarrow> evaluateCriticalJobGuard op (j_logicalKey j) (loadCriticalInventory (sv_ext V) (sv_inventory V)) \<noteq> None"
    and "jget args ''job_id'' = JStr (j_id j)"
  shows "(\<exists>code evs. mutateToggle V False args ctx disk = (disk, Err code, evs))
    \<and> (\<exists>code evs. ss_remove V args ctx disk = (disk, Err code, evs))"
proof (cases "trustedCaller ctx")
  case None
  then show ?thesis by (simp add: mutateToggle_def ss_remove_def)
next
  case (Some caller)
  have found: "findJob (s_jobs (disk_doc disk)) (j_id j) = Some j"
    unfolding findJob_def using assms(1,2) by (rule find_key_distinct)
  let ?inv = "loadCriticalInventory (sv_ext V) (sv_inventory V)"
  have off: "ownership_then_critical caller False op ?inv j \<noteq> None" if "op = ''disable'' \<or> op = ''remove''" for op
    using guard[OF that] that by (intro critical_refused) blast
  show ?thesis
  proof (cases "loadScopedJob V caller (JStr (j_id j))")
    case (Inl code)
    then show ?thesis
      using Some assms(5) by (simp add: mutateToggle_def ss_remove_def)
  next
    case (Inr p)
    obtain job where load: "loadScopedJob V caller (JStr (j_id j)) = Inr (job, False)" and job: "j_id job = j_id j"
    proof (cases p)
      case (Pair job anyone)
      then have "anyone = False" "j_id job = j_id j"
        using loadScopedJob_any[OF _ no[OF Some]] scoped_id Inr by blast+
      then show ?thesis
        using that Inr Pair by simp
    qed
    show ?thesis
    proof (cases "expectedRevisionFromArgs args")
      case (Inl e)
      then show ?thesis
        using Some load assms(5) by (simp add: mutateToggle_def ss_remove_def validationFailure_def)
    next
      case (Inr ex)
      let ?off = "\<lambda>op. ownership_then_critical caller False op ?inv"
      have e: "\<exists>e. disableJobOp (sv_ext V) (sv_now V) (?off ''disable'') ex (j_id j) (disk_doc disk) = Inl e"
          "\<exists>e. deleteJob (?off ''remove'') ex (j_id j) (disk_doc disk) = Inl e"
        using denied_in_lock[where a = "?off ''disable''", OF found] denied_in_lock[where a = "?off ''remove''", OF found] off
        by simp_all
      have "\<exists>code evs. mutateToggle V False args ctx disk = (disk, Err code, evs)"
        unfolding mutateToggle_def Some assms(5) load Inr option.case sum.case prod.case if_False job
        using e(1) by (elim exE) (rule denied_mutation)
      moreover have "\<exists>code evs. ss_remove V args ctx disk = (disk, Err code, evs)"
        unfolding ss_remove_def Some assms(5) load Inr option.case sum.case prod.case job
        using e(2) by (elim exE) (rule denied_mutation)
      ultimately show ?thesis ..
    qed
  qed
qed

text \<open>C16. A critical job, and every job while the inventory of critical jobs cannot be read, is neither
  disabled nor removed without the administrator's grant, whatever is called: and a call that names it is
  answered with a refusal and leaves the file as it is, jobs, ledger and fences.\<close>

theorem critical_jobs_stay:
  assumes "distinct (map j_id (s_jobs (disk_doc disk)))" and "j \<in> set (s_jobs (disk_doc disk))"
    and "\<And>caller. trustedCaller ctx = Some caller \<Longrightarrow> \<not> sv_grant V caller ADMIN_SCOPE"
    and "case loadCriticalInventory (sv_ext V) (sv_inventory V) of None \<Rightarrow> True
      | Some keys \<Rightarrow> (case j_logicalKey j of Some k \<Rightarrow> k \<in> set keys | None \<Rightarrow> False)"
  shows "j \<in> set (s_jobs (disk_doc (fst (mutateToggle V False args ctx disk))))
    \<and> j \<in> set (s_jobs (disk_doc (fst (ss_remove V args ctx disk))))
    \<and> (jget args ''job_id'' = JStr (j_id j) \<longrightarrow>
         (\<exists>code evs. mutateToggle V False args ctx disk = (disk, Err code, evs))
         \<and> (\<exists>code evs. ss_remove V args ctx disk = (disk, Err code, evs)))"
proof -
  have guard: "evaluateCriticalJobGuard op (j_logicalKey j) (loadCriticalInventory (sv_ext V) (sv_inventory V)) \<noteq> None"
    if "op = ''disable'' \<or> op = ''remove''" for op
    using assms(4) that by (auto simp: evaluateCriticalJobGuard_def split: option.splits)
  then have "survives j disk (fst (mutateToggle V False args ctx disk))"
      "survives j disk (fst (ss_remove V args ctx disk))"
    by (auto intro!: toggle_survives[OF assms(1,3)] remove_survives[OF assms(1,3)])
  then show ?thesis
    using assms(2) denied_calls[OF assms(1-3) guard] by (simp add: survives_def)
qed

theorem critical_jobs_stay_witness:
  "\<exists>code evs. ss_remove (demo_service 5) (JObj [(''job_id'', JStr ''j1'')]) (context_of ''a1'') (Some demo_doc)
    = (Some demo_doc, Err code, evs)"
proof -
  have "jget (JObj [(''job_id'', JStr ''j1'')]) ''job_id'' = JStr (j_id demo_job)"
    by (simp add: demo_job_def)
  moreover have "(case loadCriticalInventory (sv_ext (demo_service 5)) (sv_inventory (demo_service 5)) of None \<Rightarrow> True
      | Some keys \<Rightarrow> (case j_logicalKey demo_job of Some k \<Rightarrow> k \<in> set keys | None \<Rightarrow> False))"
    by (simp add: demo_job_def demo_service_def loadCriticalInventory_def parseCriticalInventory_def
      inventory_key_def js_trim_def is_ws_def)
  ultimately show ?thesis
    using critical_jobs_stay[where V = "demo_service 5" and j = demo_job and disk = "Some demo_doc" and ctx = "context_of ''a1''"
        and args = "JObj [(''job_id'', JStr ''j1'')]"]
    by (simp add: disk_doc_def demo_doc_def demo_service_def)
qed

text \<open>A creation with an interval schedule cannot be repeated: the schedule is anchored at the instant
  of the call, so that the same request with the same logical key, sent again at another instant, is
  refused as a conflict, although the first one was committed.\<close>

theorem every_creation_not_repeatable:
  assumes "jget args ''schedule_kind'' = JStr ''every''" and "sv_ext V' = sv_ext V"
    and "sv_grant V' = sv_grant V" and "0 \<le> sv_now V" "0 \<le> sv_now V'" "sv_now V' \<noteq> sv_now V"
    and "ss_create V args ctx disk = (disk1, Ok r, evs)"
  shows "ss_create V' args ctx disk1 = (disk1, Err ''logical_key_conflict'', [])"
  using assms by (rule every_retry_conflicts)

definition every_args :: jval where
  "every_args = JObj [(''name'', JStr ''n''), (''logical_key'', JStr ''k2''), (''schedule_kind'', JStr ''every''),
     (''every_ms'', JInt 60000), (''message'', JStr ''m'')]"

lemma lower_texts: "js_lower ''none'' = ''none''" "js_lower ''every'' = ''every''" "js_lower ''agentTurn'' = ''agentturn''"
  by code_simp+

lemma every_input:
  "\<exists>j. normalize_job demo_ext (service_opts (demo_service 5)) (create_input every_args (JStr ''a1'') ''k2''
      (JObj [(''kind'', JStr ''every''), (''everyMs'', JInt 60000), (''anchorMs'', JInt 5)]) (JObj [(''mode'', JStr ''none'')])) = Inr j"
  by (simp add: normalize_job_def create_input_def every_args_def payloadForCreate_def given_def coalesce_def Let_def require_text_def
      normalize_schedule_def normalize_mode_def normalize_logical_key_def normalize_retry_def normalize_timeout_def
      schedulerReceiptBudget_def mode_of_def normalizeOptionalText_def lower_texts js_trim_def is_ws_def
      receipt_seconds_def is_safe_int_def max_safe_def bool_field_def)

lemma first_every: "\<exists>disk1 r evs. ss_create (demo_service 5) every_args (context_of ''a1'') None = (disk1, Ok r, evs)"
proof -
  let ?in = "create_input every_args (JStr ''a1'') ''k2''
      (JObj [(''kind'', JStr ''every''), (''everyMs'', JInt 60000), (''anchorMs'', JInt 5)]) (JObj [(''mode'', JStr ''none'')])"
  obtain j where j: "normalize_job demo_ext (service_opts (demo_service 5)) ?in = Inr j"
    using every_input by blast
  obtain st where st: "refreshJob demo_ext [] (no_nowMs (service_opts (demo_service 5))) j = Inr (j\<lparr>j_state := st\<rparr>)"
    using deriveJobStateSummary_returns[of "[]" demo_ext j "no_nowMs (service_opts (demo_service 5))"]
    by (auto simp: refreshJob_def)
  let ?d = "\<lparr>s_jobs = [j\<lparr>j_state := st\<rparr>], s_occurrences = [], s_fences = []\<rparr>"
  have "createOrReconcileJob demo_ext (service_opts (demo_service 5)) ?in emptyDoc = Inr (?d, j\<lparr>j_state := st\<rparr>, False)"
    using j st by (simp add: createOrReconcileJob_def findByKey_def insertJob_def emptyDoc_def split: option.split)
  then have "mutateDoc Written None (createOrReconcileJob demo_ext (service_opts (demo_service 5)) ?in)
      = (Some ?d, Committed ?d (j\<lparr>j_state := st\<rparr>, False))"
    by (intro mutateDoc_written) (simp_all add: valid_disk_def disk_doc_def valid_doc_def ledger_ok_def rebuildFences_def)
  moreover have "sv_ext (demo_service 5) = demo_ext" "sv_now (demo_service 5) = 5" "sv_write (demo_service 5) = Written"
    by (simp_all add: demo_service_def)
  moreover have "scheduleFromArgs demo_ext every_args 5
      = Inr (JObj [(''kind'', JStr ''every''), (''everyMs'', JInt 60000), (''anchorMs'', JInt 5)])"
    "deliveryFromArgs every_args (context_of ''a1'') = Inr (JObj [(''mode'', JStr ''none'')])"
    "nonEmpty (jget every_args ''logical_key'') = Some ''k2''" "\<not> names_target every_args"
    "coalesce (jget every_args ''target_agent_id'') (JStr ''a1'') = JStr ''a1''"
    by (simp_all add: scheduleFromArgs_def deliveryFromArgs_def every_args_def coalesce_def nonEmpty_def js_trim_def is_ws_def
        names_target_def Let_def)
  ultimately show ?thesis
    using j by (simp add: ss_create_def normalized_then_def Let_def settle_mutation_def)
qed

theorem every_creation_not_repeatable_witness:
  "\<exists>disk1 r evs. ss_create (demo_service 5) every_args (context_of ''a1'') None = (disk1, Ok r, evs)
    \<and> ss_create (demo_service 6) every_args (context_of ''a1'') disk1 = (disk1, Err ''logical_key_conflict'', [])"
proof -
  have "\<exists>disk1 r evs. ss_create (demo_service 5) every_args (context_of ''a1'') None = (disk1, Ok r, evs)"
    by (rule first_every)
  then obtain disk1 r evs where first: "ss_create (demo_service 5) every_args (context_of ''a1'') None = (disk1, Ok r, evs)"
    by blast
  from every_creation_not_repeatable[OF _ _ _ _ _ _ first, of "demo_service 6"]
  have "ss_create (demo_service 6) every_args (context_of ''a1'') disk1 = (disk1, Err ''logical_key_conflict'', [])"
    by (simp add: demo_service_def every_args_def)
  with first show ?thesis by blast
qed

text \<open>A job that is removed between the first read and the lock is answered with an internal error,
  never with \<^verbatim>\<open>job_not_found\<close>: the error of the lookup is marked uncommitted before it is classified.\<close>

theorem vanished_job_is_internal_error:
  assumes "trustedCaller ctx = Some caller" and "loadScopedJob V caller (jget args ''job_id'') = Inr (job, allowAny)"
    and "expectedRevisionFromArgs args = Inr e" and "valid_disk disk" and "findJob (s_jobs (disk_doc disk)) (j_id job) = None"
  shows "mutateToggle V enabling args ctx disk = (disk, Err ''internal_error'', [])"
  using assms by (rule vanished_job)

theorem vanished_job_is_internal_error_witness:
  "mutateToggle (demo_service 5) True (JObj [(''job_id'', JStr ''j1'')]) (context_of ''a1'') None = (None, Err ''internal_error'', [])"
proof (rule vanished_job_is_internal_error)
  show "loadScopedJob (demo_service 5) ''a1'' (jget (JObj [(''job_id'', JStr ''j1'')]) ''job_id'') = Inr (demo_job, False)"
    by (simp add: loadScopedJob_def demo_service_def loadDoc_def demo_doc_def validate_doc_def rebuildFences_def rbind_def
        demo_job_def)
qed (simp_all add: expectedRevisionFromArgs_def valid_disk_def disk_doc_def emptyDoc_def findJob_def)

lemma jget_fields: "jget v k = (case map_of (obj_fields v) k of Some x \<Rightarrow> x | None \<Rightarrow> JUndef)"
  by (cases v) (simp_all split: option.split)

lemma lookup_simps:
  "map_of (obj_fields (merge_obj a b)) k = (case map_of (obj_fields b) k of Some x \<Rightarrow> Some x | None \<Rightarrow> map_of (obj_fields a) k)"
  "map_of (obj_fields (drop_field k' v)) k = (if k = k' then None else map_of (obj_fields v) k)"
  "map_of (obj_fields (obj_of [])) k = None"
  "map_of (obj_fields (obj_of ((k', x) # kvs))) k = (if x \<noteq> JUndef \<and> k = k' then Some x else map_of (obj_fields (obj_of kvs)) k)"
proof -
  have "map_of (filter (\<lambda>kv. fst kv \<noteq> k') kvs) k = (if k = k' then None else map_of kvs k)" for kvs :: "(string \<times> jval) list"
    by (induction kvs) auto
  then show "map_of (obj_fields (drop_field k' v)) k = (if k = k' then None else map_of (obj_fields v) k)"
    by (simp add: drop_field_def)
qed (simp_all add: merge_obj_def obj_of_def map_add_def split: option.split)

lemma public_fields:
  "jget (publicJobWithoutMessage j) ''id'' = JStr (j_id j)"
  "jget (publicJobWithoutMessage j) ''agentId'' = JStr (j_agentId j)"
  "jget (jget (publicJobWithoutMessage j) ''payload'') ''message'' = JUndef"
  by (simp_all add: jget_fields publicJobWithoutMessage_def toPublicJob_def definition_val_def job_val_def Let_def lookup_simps)

text \<open>A listing shows exactly the caller's own jobs, in the order of the document, and no message of a
  payload.\<close>

theorem listing_is_own_and_silent:
  assumes "trustedCaller ctx = Some caller" and "ss_list args ctx before = Inr (Ok rows)"
  shows "list_all (\<lambda>(row, fence). jget row ''agentId'' = JStr caller \<and> jget (jget row ''payload'') ''message'' = JUndef) rows
    \<and> (\<exists>d. loadDoc before = Inr d \<and> subseq (map (\<lambda>(row, fence). jget row ''id'') rows) (map (\<lambda>j. JStr (j_id j)) (s_jobs d)))"
proof -
  obtain d p where d: "loadDoc before = Inr d"
    and rows: "rows = map (\<lambda>j. (publicJobWithoutMessage j, fenced (s_fences d) (j_id j))) (filter p (s_jobs d))"
    and own: "\<And>j. p j \<Longrightarrow> j_agentId j = caller"
    using assms by (auto simp: ss_list_def rbind_eq_Inr split: if_splits)
  have "list_all (\<lambda>(row, fence). jget row ''agentId'' = JStr caller \<and> jget (jget row ''payload'') ''message'' = JUndef) rows"
    using own by (auto simp: rows list_all_iff public_fields)
  moreover have "subseq (map (\<lambda>(row, fence). jget row ''id'') rows) (map (\<lambda>j. JStr (j_id j)) (s_jobs d))"
    by (simp add: rows public_fields comp_def case_prod_unfold subseq_map)
  ultimately show ?thesis using d by blast
qed

theorem listing_is_own_and_silent_witness:
  "list_all (\<lambda>(row, fence). jget row ''agentId'' = JStr ''a1'' \<and> jget (jget row ''payload'') ''message'' = JUndef)
     [(publicJobWithoutMessage demo_job, False)]"
proof -
  have "ss_list (JObj []) (context_of ''a1'') (Some demo_doc) = Inr (Ok [(publicJobWithoutMessage demo_job, False)])"
    by (simp add: ss_list_def loadDoc_def demo_doc_def validate_doc_def rebuildFences_def rbind_def fences_exact_def)
      (simp add: demo_job_def fenced_def)
  from listing_is_own_and_silent[where caller = "''a1''", OF _ this] show ?thesis by simp
qed

subsection \<open>Admission failures\<close>

lemma handleFailure_receipts:
  assumes "handleFailure L occs e c slot pending st = (v, st', rs)"
  shows "list_all (\<lambda>x. receipt_job x = None \<or> (\<exists>c' \<in> set (c # pending). receipt_job x = Some (j_id (cd_job c')))) rs"
proof -
  obtain st1 first where f: "receiptCandidate L occs c slot ''ADMISSION_INTERRUPTED'' (take 300 (error_text e)) st = (st1, first)"
    by (cases "receiptCandidate L occs c slot ''ADMISSION_INTERRUPTED'' (take 300 (error_text e)) st")
  obtain st2 b where b: "noteBlockade L (take 300 (error_text e)) st1 = (st2, b)"
    by (cases "noteBlockade L (take 300 (error_text e)) st1")
  obtain st3 rest where r: "receiptPending L occs pending st2 = (st3, rest)"
    by (cases "receiptPending L occs pending st2")
  have "set rs \<subseteq> set (first @ b @ rest)"
    using assms f b r by (auto simp: handleFailure_def Let_def split: if_splits)
  moreover have "list_all (\<lambda>x. receipt_job x = None) b"
    using b by (auto simp: noteBlockade_def split: if_splits)
  moreover have "list_all (\<lambda>x. receipt_job x = Some (j_id (cd_job c))) first"
    "list_all (\<lambda>x. \<exists>c' \<in> set pending. receipt_job x = Some (j_id (cd_job c'))) rest"
    using receiptCandidate_own(2)[OF f] receiptPending_own[OF r] by blast+
  ultimately show ?thesis
    unfolding list_all_iff by auto
qed

text \<open>
  What else an engine session does with the handler, in whatever order: failures, refusals and superseded
  retries, each with the ledger and the state of the evidence log of its moment.
\<close>

datatype isolation_event =
  Failure logs "occurrence list" js_error candidate "int option" "candidate list"
| Refusal logs "occurrence list" candidate "int option" string
| Supersession bool job retry_candidate

fun isolation_step :: "isolation_event \<Rightarrow> isolation \<Rightarrow> isolation \<times> tick_receipt list" where
  "isolation_step (Failure L occs e c slot pending) st = snd (handleFailure L occs e c slot pending st)"
| "isolation_step (Refusal L occs c slot reason) st = recordRefusal L occs c slot reason st"
| "isolation_step (Supersession ok job retry) st = (fst (noteStaleSupersession ok job retry st), [])"

fun isolation_session :: "isolation_event list \<Rightarrow> isolation \<Rightarrow> isolation \<times> tick_receipt list" where
  "isolation_session [] st = (st, [])"
| "isolation_session (x # xs) st = (case isolation_step x st of
     (st1, rs1) \<Rightarrow> (case isolation_session xs st1 of (st2, rs2) \<Rightarrow> (st2, rs1 @ rs2)))"

lemma step_blockade:
  assumes "isolation_step x st = (st', rs)"
  shows "length (filter (\<lambda>x. receipt_job x = None) rs) = (if is_blockade st' \<and> \<not> is_blockade st then 1 else 0)
     \<and> (is_blockade st \<longrightarrow> is_blockade st')"
proof (cases x)
  case (Failure L occs e c slot pending)
  then obtain v where "handleFailure L occs e c slot pending st = (v, st', rs)"
    using assms by (cases "handleFailure L occs e c slot pending st") auto
  then show ?thesis using handleFailure_blockade by blast
next
  case (Refusal L occs c slot reason)
  then have "receiptCandidate L occs c slot ''ADMISSION_REJECTED'' reason st = (st', rs)"
    using assms by (simp add: recordRefusal_def)
  then show ?thesis
    using receiptCandidate_own(2,3) by (fastforce simp: list_all_iff filter_empty_conv)
next
  case (Supersession ok job retry)
  then show ?thesis
    using assms by (auto simp: noteStaleSupersession_def split: prod.splits)
qed

lemma session_blockade:
  "isolation_session xs st = (st', rs) \<Longrightarrow>
     length (filter (\<lambda>x. receipt_job x = None) rs) = (if is_blockade st' \<and> \<not> is_blockade st then 1 else 0)
     \<and> (is_blockade st \<longrightarrow> is_blockade st')"
proof (induction xs arbitrary: st st' rs)
  case (Cons x xs)
  obtain st1 rs1 where one: "isolation_step x st = (st1, rs1)"
    by (cases "isolation_step x st")
  obtain st2 rs2 where two: "isolation_session xs st1 = (st2, rs2)"
    by (cases "isolation_session xs st1")
  have "st' = st2" "rs = rs1 @ rs2"
    using Cons.prems one two by simp_all
  moreover note step_blockade[OF one] Cons.IH[OF two]
  ultimately show ?case
    by (cases "is_blockade st"; cases "is_blockade st1"; cases "is_blockade st2") simp_all
qed simp

text \<open>C33. A failure that belongs to one job touches only that job: at most one receipt, its own, no other
  job's cursor, no blockade. Of any other failure every receipt but the one of the blockade belongs to the
  failed candidate or to one the tick did not reach. The blockade, once reported, stays reported: whatever
  failures, refusals and superseded retries follow in the session, it is not reported again.\<close>

theorem failure_stays_with_its_job:
  assumes "handleFailure L occs e c slot pending st = (v, st', rs)"
  shows "v = classifyAdmissionFailure (failure_of c e) c
    \<and> (v = Job_Local \<longrightarrow> length rs \<le> 1 \<and> list_all (\<lambda>x. receipt_job x = Some (j_id (cd_job c))) rs
         \<and> is_blockade st' = is_blockade st \<and> (\<forall>i. i \<noteq> j_id (cd_job c) \<longrightarrow> is_cursor st' i = is_cursor st i))
    \<and> list_all (\<lambda>x. receipt_job x = None \<or> (\<exists>c' \<in> set (c # pending). receipt_job x = Some (j_id (cd_job c')))) rs
    \<and> length (filter (\<lambda>x. receipt_job x = None) (rs @ snd (isolation_session xs st'))) \<le> 1
    \<and> (is_blockade st \<or> list_ex (\<lambda>x. receipt_job x = None) rs \<longrightarrow>
         is_blockade (fst (isolation_session xs st')) \<and> list_all (\<lambda>x. receipt_job x \<noteq> None) (snd (isolation_session xs st')))"
proof -
  obtain st2 rs2 where after: "isolation_session xs st' = (st2, rs2)"
    by (cases "isolation_session xs st'")
  note block = handleFailure_blockade[OF assms] and later = session_blockade[OF after]
  have once: "length (filter (\<lambda>x. receipt_job x = None) (rs @ rs2)) \<le> 1"
    using block later by (auto split: if_splits)
  have reported: "is_blockade st2 \<and> list_all (\<lambda>x. receipt_job x \<noteq> None) rs2"
    if "is_blockade st \<or> list_ex (\<lambda>x. receipt_job x = None) rs"
  proof -
    have "filter (\<lambda>x. receipt_job x = None) rs \<noteq> [] \<or> is_blockade st"
      using that by (auto simp: list_ex_iff filter_empty_conv)
    then have latched: "is_blockade st'"
      using block by (auto split: if_splits)
    then have "filter (\<lambda>x. receipt_job x = None) rs2 = []"
      using later by simp
    then show ?thesis
      using latched later by (simp add: filter_empty_conv list_all_iff)
  qed
  have own: "length rs \<le> 1 \<and> list_all (\<lambda>x. receipt_job x = Some (j_id (cd_job c))) rs \<and> is_blockade st' = is_blockade st
      \<and> (\<forall>i. i \<noteq> j_id (cd_job c) \<longrightarrow> is_cursor st' i = is_cursor st i)" if "v = Job_Local"
    using handleFailure_local[OF assms[unfolded that]] by blast
  have verdict: "v = classifyAdmissionFailure (failure_of c e) c"
    using handleFailure_verdict[of L occs e c slot pending st] assms by simp
  show ?thesis
    unfolding after fst_conv snd_conv
    by (intro conjI verdict handleFailure_receipts[OF assms] once) (use own reported in blast)+
qed

definition open_logs :: logs where
  "open_logs = \<lparr>lg_slot = \<lambda>_ _. True, lg_retry = \<lambda>_. True, lg_blocked = True\<rparr>"

text \<open>Two full disks in a row: one report.\<close>

theorem failure_stays_with_its_job_witness:
  "\<exists>st' rs. handleFailure open_logs [] (Plain_Error ''disk full'') demo_candidate (Some 120000) [] isolation_start = (Global, st', rs)
    \<and> list_ex (\<lambda>x. receipt_job x = None) rs
    \<and> list_all (\<lambda>x. receipt_job x \<noteq> None)
        (snd (isolation_session [Failure open_logs [] (Plain_Error ''disk full'') demo_candidate (Some 120000) []] st'))"
proof -
  obtain v st' rs where h: "handleFailure open_logs [] (Plain_Error ''disk full'') demo_candidate (Some 120000) [] isolation_start = (v, st', rs)"
    by (cases "handleFailure open_logs [] (Plain_Error ''disk full'') demo_candidate (Some 120000) [] isolation_start") auto
  have "v = classifyAdmissionFailure (failure_of demo_candidate (Plain_Error ''disk full'')) demo_candidate"
    using failure_stays_with_its_job[OF h, of "[]"] by simp
  then have v: "v = Global"
    by (simp add: classifyAdmissionFailure_def failure_of_def)
  have "list_ex (\<lambda>x. receipt_job x = None) rs"
    using h[unfolded v] receiptCandidate_own(3)[of open_logs "[]" demo_candidate "Some 120000" "''ADMISSION_INTERRUPTED''"]
    by (auto simp: handleFailure_def Let_def noteBlockade_def open_logs_def isolation_start_def list_ex_iff split: prod.splits if_splits)
  then show ?thesis
    using h[unfolded v] failure_stays_with_its_job[OF h, of "[Failure open_logs [] (Plain_Error ''disk full'') demo_candidate (Some 120000) []]"]
    by blast
qed

end
