(* ===== verification/Contracts.thy ===== *)
theory Contracts
  imports Services
begin

section \<open>Contracts of the components\<close>

text \<open>
  What each component promises by itself: the arithmetic of schedules, the job model, the identity and
  validity of records, the document store and the control operations.
\<close>

subsection \<open>Schedules\<close>

lemma least_slot:
  assumes "1 \<le> every" and "computeNextRunAtMs X (Every every anchor) now jobId fallback = Some n"
    and "a = max 0 (case anchor of Some x \<Rightarrow> x | None \<Rightarrow> (case fallback of Some f \<Rightarrow> f | None \<Rightarrow> now))"
  shows "on_grid a every n \<and> now \<le> n \<and> (\<forall>t. on_grid a every t \<and> now \<le> t \<and> (t = a \<longrightarrow> now < a) \<longrightarrow> n \<le> t)"
proof (cases "now < a")
  case True
  then have "n = a"
    using assms by (simp add: computeEveryNext_def Let_def)
  then show ?thesis
    using True by (simp add: on_grid_def)
next
  case False
  define k where "k = max 1 ((now - a + every - 1) div every)"
  have n: "n = a + k * every"
    using assms False by (simp add: computeEveryNext_def Let_def k_def)
  have p: "0 < every" using assms(1) by simp
  note ceil = ceil_div_mult(1,2)[OF p, of "now - a"]
  have "now - a \<le> k * every"
    using ceil(1) p by (auto simp: k_def max_def intro: order_trans)
  moreover have "n \<le> t" if t: "on_grid a every t" "now \<le> t" "t \<noteq> a" for t
  proof -
    obtain m where m: "t - a = m * every"
      using t(1) that[of "(t - a) div every"] by (simp add: on_grid_def minus_mod_eq_div_mult[symmetric])
    have "0 < t - a" using t by (simp add: on_grid_def)
    then have "1 \<le> m" using p m by (metis zero_less_mult_pos2 int_one_le_iff_zero_less)
    moreover have "(now - a + every - 1) div every \<le> m"
    proof -
      have "(now - a + every - 1) div every * every < (m + 1) * every"
        using ceil(2) t(2) m by (simp add: distrib_right)
      then show ?thesis using p by (simp add: mult_less_cancel_right)
    qed
    ultimately have "k * every \<le> m * every"
      using p by (simp add: k_def mult_right_mono)
    then show ?thesis using n m by simp
  qed
  ultimately show ?thesis
    using False n p by (auto simp: on_grid_def)
qed

text \<open>C34. The next run of an interval schedule is the least slot of its grid that does not lie in the
  past, where the anchor itself counts only while it is still ahead. So an instant that lies on the grid
  after the anchor is its own next run, although the comments of the file (the header, and the one of
  \<^verbatim>\<open>computeNextRunAtMs\<close>) promise an instant strictly after it.\<close>

theorem every_next_is_least_slot:
  assumes "1 \<le> every" and "computeNextRunAtMs X (Every every anchor) now jobId fallback = Some n"
    and "a = max 0 (case anchor of Some x \<Rightarrow> x | None \<Rightarrow> (case fallback of Some f \<Rightarrow> f | None \<Rightarrow> now))"
  shows "on_grid a every n \<and> now \<le> n \<and> (\<forall>t. on_grid a every t \<and> now \<le> t \<and> (t = a \<longrightarrow> now < a) \<longrightarrow> n \<le> t)
    \<and> (on_grid a every now \<and> now \<noteq> a \<longrightarrow> n = now)"
  using least_slot[OF assms] by auto

theorem every_next_is_least_slot_witness: "on_grid 0 60000 180000 \<and> computeNextRunAtMs demo_ext (Every 60000 (Some 0)) 180000 ''j1'' None = Some 180000"
  using every_next_is_least_slot[of 60000 demo_ext "Some 0" 180000 "''j1''" None 180000 0]
  by (simp add: computeEveryNext_def Let_def)

lemma every_next_ge:
  assumes "computeEveryNext every anchor now f = Some n"
  shows "now \<le> n"
proof -
  have p: "1 \<le> every" using assms by (simp add: computeEveryNext_def split: if_splits)
  have "computeNextRunAtMs demo_ext (Every every anchor) now [] (Some f) = Some n" using assms by simp
  from least_slot[OF p this refl] show ?thesis by blast
qed

text \<open>C35. Whatever the schedule and the cron evaluator, the next run lies after the given instant (an
  interval schedule may answer that instant itself), the previous one not after it, and the stagger of
  a job stays inside its window.\<close>

theorem next_and_previous_bracket:
  assumes "computeNextRunAtMs X s now jobId fallback = Some n" and "previousNaturalSlotMs X s jobId now' = Some p" and "0 < w"
  shows "now \<le> n \<and> (now < n \<or> is_every s) \<and> p \<le> now' \<and> 0 \<le> stableStaggerOffsetMs jobId w \<and> stableStaggerOffsetMs jobId w < w"
proof -
  have "now \<le> n \<and> (now < n \<or> is_every s)"
    using assms(1) by (cases s) (auto simp: is_every_def split: option.splits if_splits
        dest: computeStaggeredCronNext_after every_next_ge)
  then show ?thesis
    using previousNaturalSlotMs_before[OF assms(2)] stagger_offset_nonneg stagger_offset_bound[OF assms(3)] by blast
qed

theorem next_and_previous_bracket_witness:
  "(150000::int) \<le> 180000 \<and> (120000::int) \<le> 150000 \<and> stableStaggerOffsetMs ''j1'' 5 < 5"
  using next_and_previous_bracket[of demo_ext "Every 60000 (Some 0)" 150000 "''j1''" None 180000 150000 120000 5]
  by (simp add: computeEveryNext_def Let_def previousNaturalSlotMs_def)

subsection \<open>The job model\<close>

lemma normalize_job_fresh:
  assumes "normalize_job X opts v = Inr j"
  shows "j_cloneProvenance j = None"
  using assms[unfolded normalize_job_def Let_def rbind_eq_Inr]
  apply (elim exE conjE)
  apply (drule sum.inject(2) [THEN iffD1])
  apply hypsubst
  apply simp
  done

text \<open>C36. A definition that was accepted once is accepted again as it is stored and means the same job:
  normalising the stored object, with any clock and any fresh identifier, gives back every field. The
  contract is that \<^verbatim>\<open>toISOString\<close> prints what \<^verbatim>\<open>Date.parse\<close> reads; a stagger below one millisecond is the one
  exception (it is floored to zero and dropped by the next normalisation).\<close>

theorem stored_job_reloads:
  assumes "iso_contract X" and "normalize_job X opts v = Inr j"
    and "pred_option wf_text (no_id opts)" and "wf_text (no_uuid opts)" and "\<And>e tz. j_schedule j \<noteq> Cron e tz (Some 0)"
    and "no_id opts' = None \<or> no_id opts' = Some (j_id j)"
  shows "normalize_job X opts' (job_val j) = Inr j"
  by (rule normalize_job_val[OF normalize_job_wf[OF assms(1-5)] normalize_job_fresh[OF assms(2)] assms(6)])

theorem stored_job_reloads_witness: "normalize_job demo_ext (opts_at 99 ''u9'') (job_val demo_job) = Inr demo_job"
  by (rule stored_job_reloads[OF _ demo_normalizes])
    (simp_all add: iso_contract_def demo_ext_def opts_at_def wf_text_def js_trim_def is_ws_def demo_job_def)

subsection \<open>Identity\<close>

lemma derived_id_text:
  assumes "deriveOccurrenceId a n k x y z = Inr i"
  shows "i = ''occ:'' @ shaHex16 (encodeCoords [a, int_str n, kind_str k, slot_str (slot_for k x y z)])"
  using assms by (auto simp: deriveOccurrenceId_def Let_def split: if_splits)

text \<open>Two occurrences get the same identifier only if they agree on the job, the revision, the kind and
  the slot, or two different texts have the same truncated SHA-256: the encoding of the coordinates
  itself confuses nothing.\<close>

theorem same_id_same_coordinates:
  assumes "deriveOccurrenceId a n k x y z = Inr i" and "deriveOccurrenceId a' n' k' x' y' z' = Inr i"
  shows "(a = a' \<and> n = n' \<and> kind_str k = kind_str k' \<and> slot_str (slot_for k x y z) = slot_str (slot_for k' x' y' z'))
    \<or> (\<exists>s t. s \<noteq> t \<and> shaHex16 s = shaHex16 t)"
proof -
  let ?s = "encodeCoords [a, int_str n, kind_str k, slot_str (slot_for k x y z)]"
  let ?t = "encodeCoords [a', int_str n', kind_str k', slot_str (slot_for k' x' y' z')]"
  have "shaHex16 ?s = shaHex16 ?t"
    using derived_id_text[OF assms(1)] derived_id_text[OF assms(2)] by simp
  moreover have "?s = ?t \<Longrightarrow> a = a' \<and> n = n' \<and> kind_str k = kind_str k' \<and> slot_str (slot_for k x y z) = slot_str (slot_for k' x' y' z')"
    by (simp add: encodeCoords_inj int_str_inj)
  ultimately show ?thesis by blast
qed

theorem same_id_same_coordinates_witness:
  "\<exists>i. deriveOccurrenceId ''j1'' 1 Natural (Some 120000) None None = Inr i
    \<and> (slot_str (slot_for Natural (Some 120000) None None) = slot_str (slot_for Natural (Some 120000) None None)
       \<or> (\<exists>s t. s \<noteq> t \<and> shaHex16 s = shaHex16 t))"
proof -
  have i: "deriveOccurrenceId ''j1'' 1 Natural (Some 120000) None None
      = Inr (''occ:'' @ shaHex16 (encodeCoords [''j1'', int_str 1, kind_str Natural, slot_str (Slot_At 120000)]))"
    by (simp only: deriveOccurrenceId_def Let_def slot_for_def occ_kind.case option.case eff_slot.distinct if_False)
  from same_id_same_coordinates[OF i i] i show ?thesis by blast
qed

subsection \<open>Records\<close>

text \<open>C37. Every record the engine builds passes the validation of the store, is admitted at the instant of
  its reservation and has a deadline after it.\<close>

theorem built_record_is_valid:
  assumes "wf_job X job" and "is_safe_int (j_scheduleRevision job)" and "kind = Retry \<Longrightarrow> retryOf \<noteq> Some []"
    and "buildOccurrenceRecord X job kind nominal retryOf catchUp now timeout = Inr r"
  shows "validateOccurrenceRecord r = Inr r \<and> o_state r = Admitted \<and> o_admittedAt r = now \<and> now < o_executionDeadlineAtMs r
    \<and> o_jobId r = j_id job \<and> o_ownerAgentId r = Some (j_agentId job)"
proof -
  have ids: "j_id job \<noteq> []" "j_agentId job \<noteq> []" "1 \<le> j_scheduleRevision job"
    using assms(1) by (auto simp: wf_job_def wf_text_def)
  have "valid_occ r"
    using build_valid[OF assms(4) ids assms(2,3)] .
  then show ?thesis
    using assms(4) by (auto simp: valid_occ_def buildOccurrenceRecord_def res_simps Let_def split: option.splits)
qed

theorem built_record_is_valid_witness:
  "\<exists>r. buildOccurrenceRecord demo_ext demo_job Natural (Some 120000) None None 130000 (Some 1000) = Inr r
    \<and> validateOccurrenceRecord r = Inr r"
proof -
  obtain r where r: "buildOccurrenceRecord demo_ext demo_job Natural (Some 120000) None None 130000 (Some 1000) = Inr r"
    by (simp add: buildOccurrenceRecord_def deriveOccurrenceId_def slot_for_def Let_def known_kind_def rbind_def)
  from built_record_is_valid[OF demo_job_wf _ _ r] have "validateOccurrenceRecord r = Inr r"
    by (simp add: demo_job_def is_safe_int_def max_safe_def)
  with r show ?thesis by blast
qed

subsection \<open>The store\<close>

text \<open>A mutation is atomic: either the caller is told that nothing was committed and the file is
  untouched, or the file was valid before and now is exactly the validated result of the function, whatever
  happened to the acknowledgement.\<close>

theorem mutation_is_atomic:
  assumes "mutateDoc w disk f = (disk', m)"
  shows "(disk' = disk \<and> (\<exists>e. m = Not_Committed e))
    \<or> (\<exists>latest d v. loadDocForMutation disk = Inr latest \<and> f latest = Inr (d, v) \<and> validateDocument d = Inr d
         \<and> disk' = Some d \<and> (m = Committed d v \<or> (\<exists>e. m = Ack_Lost d v e)))"
  using mutateDoc_cases[OF assms] by (auto simp: loadDocForMutation_iff validateDocument_iff)

theorem mutation_is_atomic_witness:
  "mutateDoc (Lost_After ''fsync'') None (\<lambda>d. Inr (d, ())) = (Some emptyDoc, Ack_Lost emptyDoc () (Plain_Error ''fsync''))
    \<and> (\<exists>latest. loadDocForMutation None = Inr latest)"
proof -
  have m: "mutateDoc (Lost_After ''fsync'') None (\<lambda>d. Inr (d, ())) = (Some emptyDoc, Ack_Lost emptyDoc () (Plain_Error ''fsync''))"
    by (simp add: mutateDoc_def loadDocForMutation_def validateDocument_iff rbind_def
        validateDocument_iff[THEN iffD2, of emptyDoc emptyDoc])
  from mutation_is_atomic[OF m] m show ?thesis by auto
qed

subsection \<open>Control operations\<close>

text \<open>Creating is idempotent by logical key: repeating the very same request on the resulting document,
  at any instant and with any fresh identifier, changes nothing and answers with the same job.\<close>

theorem creation_is_idempotent:
  assumes "createOrReconcileJob X opts input d = Inr (d1, j, applied)" and "j_logicalKey j \<noteq> None"
  shows "\<exists>j'. createOrReconcileJob X opts' input d1 = Inr (d1, j', True) \<and> j_id j' = j_id j"
  using assms by (rule create_retry)

lemma demo_creation:
  "\<exists>d1 j. createOrReconcileJob demo_ext (opts_at 0 ''u1'') (job_val demo_job) emptyDoc = Inr (d1, j, False) \<and> j_logicalKey j \<noteq> None"
proof -
  obtain st where st: "refreshJob demo_ext [] 0 demo_job = Inr (demo_job\<lparr>j_state := st\<rparr>)"
    using deriveJobStateSummary_returns[of "[]" demo_ext demo_job 0] by (auto simp: refreshJob_def)
  then have "insertJob demo_ext demo_job 0 emptyDoc
      = Inr (emptyDoc\<lparr>s_jobs := [demo_job\<lparr>j_state := st\<rparr>]\<rparr>, demo_job\<lparr>j_state := st\<rparr>, False)"
    by (simp add: insertJob_def emptyDoc_def)
  then have "createOrReconcileJob demo_ext (opts_at 0 ''u1'') (job_val demo_job) emptyDoc
      = Inr (emptyDoc\<lparr>s_jobs := [demo_job\<lparr>j_state := st\<rparr>]\<rparr>, demo_job\<lparr>j_state := st\<rparr>, False)"
    using demo_normalizes by (simp add: createOrReconcileJob_def findByKey_def emptyDoc_def opts_at_def split: option.split)
  then show ?thesis
    by (intro exI conjI) (assumption, simp add: demo_job_def)
qed

theorem creation_is_idempotent_witness:
  "\<exists>d1 j'. createOrReconcileJob demo_ext (opts_at 7 ''u2'') (job_val demo_job) d1 = Inr (d1, j', True)"
proof -
  obtain d1 j where first: "createOrReconcileJob demo_ext (opts_at 0 ''u1'') (job_val demo_job) emptyDoc = Inr (d1, j, False)"
      "j_logicalKey j \<noteq> None"
    using demo_creation by (elim exE conjE)
  from creation_is_idempotent[OF first] show ?thesis by blast
qed

lemma updateJob_stored:
  assumes "updateJob X opts a b e i patch d = Inr (d', stored)"
  obtains current normalized where "findJob (s_jobs d) i = Some current" "a current = None"
    "normalize_job X (opts\<lparr>no_id := Some (j_id current), no_createdAtMs := Some (j_createdAtMs current)\<rparr>)
        (drop_field ''scheduleRevision'' (merge_obj (job_val current) (b current patch))) = Inr normalized"
    "stored = (revised (no_nowMs opts) current normalized)\<lparr>j_state := j_state stored\<rparr>"
    "s_jobs d' = replaceFirst (j_id current) (\<lambda>_. stored) (s_jobs d)"
proof -
  obtain current where g: "guarded_job a e i d = Inr current"
    using assms by (cases "guarded_job a e i d") (simp_all add: updateJob_def)
  then obtain normalized where n: "normalize_job X (opts\<lparr>no_id := Some (j_id current), no_createdAtMs := Some (j_createdAtMs current)\<rparr>)
        (drop_field ''scheduleRevision'' (merge_obj (job_val current) (b current patch))) = Inr normalized"
      "refreshJob X (s_occurrences d) (no_nowMs opts) (revised (no_nowMs opts) current normalized) = Inr stored"
      "d' = d\<lparr>s_jobs := replaceFirst (j_id current) (\<lambda>_. stored) (s_jobs d)\<rparr>"
    using assms by (auto simp: updateJob_def Let_def rbind_eq_Inr)
  show thesis
    using that[of current normalized] g n refreshJob_fields[OF n(2)] by (simp add: guarded_job_Inr)
qed

text \<open>An update keeps the job's identifier and place; it raises the schedule revision by one and restarts the
  activation at this instant exactly when the schedule, the payload, the target or the retry policy
  changed, and otherwise keeps the revision; the ledger and the fences are not touched.\<close>

theorem update_raises_revision:
  assumes "updateJob X opts a b e i patch d = Inr (d', stored)"
  shows "\<exists>current. findJob (s_jobs d) i = Some current \<and> j_id stored = j_id current \<and> j_updatedAtMs stored = no_nowMs opts
    \<and> s_jobs d' = replaceFirst (j_id current) (\<lambda>_. stored) (s_jobs d)
    \<and> s_occurrences d' = s_occurrences d \<and> s_fences d' = s_fences d
    \<and> (if semanticChange stored current
       then j_scheduleRevision stored = j_scheduleRevision current + 1 \<and> j_revisionActivatedAtMs stored = Some (no_nowMs opts)
       else j_scheduleRevision stored = j_scheduleRevision current)"
proof -
  obtain current normalized where u: "findJob (s_jobs d) i = Some current"
    "normalize_job X (opts\<lparr>no_id := Some (j_id current), no_createdAtMs := Some (j_createdAtMs current)\<rparr>)
        (drop_field ''scheduleRevision'' (merge_obj (job_val current) (b current patch))) = Inr normalized"
    "stored = (revised (no_nowMs opts) current normalized)\<lparr>j_state := j_state stored\<rparr>"
    "s_jobs d' = replaceFirst (j_id current) (\<lambda>_. stored) (s_jobs d)"
    using updateJob_stored[OF assms] by metis
  obtain st where st: "stored = (revised (no_nowMs opts) current normalized)\<lparr>j_state := st\<rparr>"
    using u(3) by blast
  have "j_id normalized = j_id current"
    using normalize_job_parts[OF u(2)] by (auto simp: job_id_for_def)
  moreover have "semanticChange stored current = semanticChange normalized current"
    by (simp add: st revised_def semanticChange_def)
  ultimately show ?thesis
    using u(1,4) updateJob_only[OF assms] by (auto simp: st revised_def definitions_only_def)
qed

lemma normalize_job_lookup:
  assumes "is_object v" and "is_object v'" and "\<And>k. jget v' k = jget v k"
  shows "normalize_job X opts v' = normalize_job X opts v"
proof -
  have b: "bool_field v' k = bool_field v k" "num_field v' k = num_field v k" "job_id_for opts v' = job_id_for opts v"
      "is_object v' = is_object v" for k
    by (simp_all add: bool_field_def num_field_def job_id_for_def assms cong: option.case_cong)
  show ?thesis
    by (simp only: normalize_job_def b assms(3))
qed

lemma normalize_job_without_revision:
  assumes "normalize_job X opts v = Inr j" and "is_object v'" and "jget v' ''scheduleRevision'' = JUndef"
    and "\<And>k. k \<noteq> ''scheduleRevision'' \<Longrightarrow> jget v' k = jget v k"
  shows "normalize_job X opts v' = Inr (j\<lparr>j_scheduleRevision := 1\<rparr>)"
proof -
  have b: "k \<noteq> ''scheduleRevision'' \<Longrightarrow> bool_field v' k = bool_field v k"
      "k \<noteq> ''scheduleRevision'' \<Longrightarrow> num_field v' k = num_field v k" "job_id_for opts v' = job_id_for opts v" for k
    by (simp_all add: bool_field_def num_field_def job_id_for_def assms cong: option.case_cong)
  show ?thesis
  using assms(1)[unfolded normalize_job_def Let_def rbind_eq_Inr]
  apply (elim exE conjE)
  apply (drule sum.inject(2) [THEN iffD1])
  apply hypsubst
  apply (simp add: normalize_job_def Let_def assms(2-4) b ensure_def[of True])
  done
qed

text \<open>An update forgets where a clone came from: the stored definition has no provenance, whatever the
  patch was, and the same clone request, repeated afterwards, is refused as a conflict with its own clone.\<close>

theorem update_forgets_provenance:
  assumes "updateJob X opts a b e i patch d = Inr (d', stored)"
    and "normalize_job X opts' (merge_obj input (JObj [(''enabled'', JBool False)])) = Inr cloned"
    and "findByKey (s_jobs d') (j_logicalKey cloned) = Some stored" and "guarded_job a' (Some ex) src d' = Inr source"
  shows "j_cloneProvenance stored = None
    \<and> cloneDisabledJob X opts' a' src ex input d' = Inl (logicalKeyConflictError stored)"
proof -
  obtain current normalized where u:
    "normalize_job X (opts\<lparr>no_id := Some (j_id current), no_createdAtMs := Some (j_createdAtMs current)\<rparr>)
        (drop_field ''scheduleRevision'' (merge_obj (job_val current) (b current patch))) = Inr normalized"
    "stored = (revised (no_nowMs opts) current normalized)\<lparr>j_state := j_state stored\<rparr>"
    using updateJob_stored[OF assms(1)] by metis
  obtain st where st: "stored = (revised (no_nowMs opts) current normalized)\<lparr>j_state := st\<rparr>"
    using u(2) by blast
  then have "j_cloneProvenance stored = None"
    using normalize_job_fresh[OF u(1)] by (simp add: revised_def)
  then show ?thesis
    using assms(2-4) by (simp add: cloneDisabledJob_def Let_def)
qed

definition demo_clone :: job where
  "demo_clone = demo_job\<lparr>j_id := ''j2'', j_enabled := False, j_logicalKey := Some ''k2'',
     j_cloneProvenance := Some \<lparr>cp_sourceJobId = ''j1'', cp_sourceScheduleRevision = 1, cp_sourceUpdatedAtMs = 0\<rparr>\<rparr>"

lemma demo_clone_normalizes:
  assumes "no_id opts = None \<or> no_id opts = Some ''j2''"
  shows "normalize_job demo_ext opts (job_val demo_clone) = Inr (demo_clone\<lparr>j_cloneProvenance := None\<rparr>)"
proof -
  have "job_val demo_clone = job_val (demo_clone\<lparr>j_cloneProvenance := None\<rparr>)"
    by (simp add: job_val_def)
  moreover have "wf_job demo_ext (demo_clone\<lparr>j_cloneProvenance := None\<rparr>)"
    using demo_job_wf by (simp add: demo_clone_def wf_job_def wf_text_def js_trim_def is_ws_def)
  ultimately show ?thesis
    using normalize_job_val[of demo_ext "demo_clone\<lparr>j_cloneProvenance := None\<rparr>" opts] assms by (simp add: demo_clone_def)
qed

lemma demo_update:
  "\<exists>st. updateJob demo_ext (opts_at 9 ''u9'') (\<lambda>_. None) (\<lambda>_ p. p) None ''j2'' (JObj [])
      \<lparr>s_jobs = [demo_job, demo_clone], s_occurrences = [], s_fences = []\<rparr>
    = Inr (\<lparr>s_jobs = [demo_job, (revised 9 demo_clone (demo_clone\<lparr>j_cloneProvenance := None\<rparr>))\<lparr>j_state := st\<rparr>],
            s_occurrences = [], s_fences = []\<rparr>,
          (revised 9 demo_clone (demo_clone\<lparr>j_cloneProvenance := None\<rparr>))\<lparr>j_state := st\<rparr>)"
proof -
  let ?d = "\<lparr>s_jobs = [demo_job, demo_clone], s_occurrences = [], s_fences = []\<rparr>"
  let ?opts = "opts_at 9 ''u9''\<lparr>no_id := Some ''j2'', no_createdAtMs := Some 0\<rparr>"
  let ?n = "demo_clone\<lparr>j_cloneProvenance := None\<rparr>"
  have obj: "obj_fields (merge_obj (job_val demo_clone) (JObj [])) = obj_fields (job_val demo_clone)"
    by (simp add: merge_obj_def)
  have "normalize_job demo_ext ?opts (drop_field ''scheduleRevision'' (merge_obj (job_val demo_clone) (JObj [])))
      = Inr (?n\<lparr>j_scheduleRevision := 1\<rparr>)"
  proof (rule normalize_job_without_revision)
    show "normalize_job demo_ext ?opts (job_val demo_clone) = Inr ?n"
      by (rule demo_clone_normalizes) simp
    show "is_object (drop_field ''scheduleRevision'' (merge_obj (job_val demo_clone) (JObj [])))"
      by (simp add: drop_field_def)
  qed (simp_all only: jget_fields lookup_simps obj, simp_all split: option.split)
  moreover have "?n\<lparr>j_scheduleRevision := 1\<rparr> = ?n"
    by (simp add: demo_clone_def demo_job_def)
  ultimately have n: "normalize_job demo_ext ?opts (drop_field ''scheduleRevision'' (merge_obj (job_val demo_clone) (JObj []))) = Inr ?n"
    by simp
  obtain st where st: "refreshJob demo_ext [] 9 (revised 9 demo_clone ?n) = Inr ((revised 9 demo_clone ?n)\<lparr>j_state := st\<rparr>)"
    using deriveJobStateSummary_returns[of "[]" demo_ext "revised 9 demo_clone ?n" 9] by (auto simp: refreshJob_def)
  let ?s = "(revised 9 demo_clone ?n)\<lparr>j_state := st\<rparr>"
  have ids: "j_id demo_clone = ''j2''" "j_createdAtMs demo_clone = 0" "\<not> j_migrationRestoreBlocked demo_clone" "j_id demo_job = ''j1''"
    by (simp_all add: demo_clone_def demo_job_def)
  have upd: "updateJob demo_ext (opts_at 9 ''u9'') (\<lambda>_. None) (\<lambda>_ p. p) None ''j2'' (JObj []) ?d = Inr (?d\<lparr>s_jobs := [demo_job, ?s]\<rparr>, ?s)"
    using n st by (simp add: updateJob_def guarded_job_def requireJob_def checked_def assertExpectedRevision_def findJob_def
        ids Let_def replaceFirst_def opts_at_def)
  then show ?thesis by (intro exI[of _ st]) simp
qed

theorem update_raises_revision_witness:
  "\<exists>d' stored. updateJob demo_ext (opts_at 9 ''u9'') (\<lambda>_. None) (\<lambda>_ p. p) None ''j2'' (JObj [])
      \<lparr>s_jobs = [demo_job, demo_clone], s_occurrences = [], s_fences = []\<rparr> = Inr (d', stored)
    \<and> s_occurrences d' = [] \<and> s_fences d' = []"
proof -
  obtain st where "updateJob demo_ext (opts_at 9 ''u9'') (\<lambda>_. None) (\<lambda>_ p. p) None ''j2'' (JObj [])
      \<lparr>s_jobs = [demo_job, demo_clone], s_occurrences = [], s_fences = []\<rparr>
    = Inr (\<lparr>s_jobs = [demo_job, (revised 9 demo_clone (demo_clone\<lparr>j_cloneProvenance := None\<rparr>))\<lparr>j_state := st\<rparr>],
            s_occurrences = [], s_fences = []\<rparr>,
          (revised 9 demo_clone (demo_clone\<lparr>j_cloneProvenance := None\<rparr>))\<lparr>j_state := st\<rparr>)"
    using demo_update by blast
  note upd = this
  from update_raises_revision[OF this] have "s_occurrences (\<lparr>s_jobs = [demo_job, (revised 9 demo_clone (demo_clone\<lparr>j_cloneProvenance := None\<rparr>))\<lparr>j_state := st\<rparr>],
            s_occurrences = [], s_fences = []\<rparr> :: sdoc) = []"
    by simp
  with upd show ?thesis by (intro exI conjI) (assumption, simp_all)
qed

theorem update_forgets_provenance_witness:
  "\<exists>d' stored. updateJob demo_ext (opts_at 9 ''u9'') (\<lambda>_. None) (\<lambda>_ p. p) None ''j2'' (JObj [])
      \<lparr>s_jobs = [demo_job, demo_clone], s_occurrences = [], s_fences = []\<rparr> = Inr (d', stored)
    \<and> cloneDisabledJob demo_ext (opts_at 10 ''u10'') (\<lambda>_. None) ''j1'' (1, 0) (job_val demo_clone) d' = Inl (logicalKeyConflictError stored)"
proof -
  let ?d = "\<lparr>s_jobs = [demo_job, demo_clone], s_occurrences = [], s_fences = []\<rparr>"
  let ?n = "demo_clone\<lparr>j_cloneProvenance := None\<rparr>"
  obtain st where upd: "updateJob demo_ext (opts_at 9 ''u9'') (\<lambda>_. None) (\<lambda>_ p. p) None ''j2'' (JObj []) ?d
      = Inr (?d\<lparr>s_jobs := [demo_job, (revised 9 demo_clone ?n)\<lparr>j_state := st\<rparr>]\<rparr>, (revised 9 demo_clone ?n)\<lparr>j_state := st\<rparr>)"
    using demo_update by auto
  let ?s = "(revised 9 demo_clone ?n)\<lparr>j_state := st\<rparr>"
  have keys: "j_logicalKey demo_job = Some ''k1''" "j_logicalKey ?s = Some ''k2''" "j_logicalKey ?n = Some ''k2''"
    by (simp_all add: demo_clone_def demo_job_def revised_def)
  have again: "normalize_job demo_ext (opts_at 10 ''u10'') (merge_obj (job_val demo_clone) (JObj [(''enabled'', JBool False)])) = Inr ?n"
  proof -
    have off: "map_of (obj_fields (job_val demo_clone)) ''enabled'' = Some (JBool False)"
      by (simp add: job_val_def lookup_simps demo_clone_def)
    have "normalize_job demo_ext (opts_at 10 ''u10'') (merge_obj (job_val demo_clone) (JObj [(''enabled'', JBool False)]))
        = normalize_job demo_ext (opts_at 10 ''u10'') (job_val demo_clone)"
      by (rule normalize_job_lookup)
        (simp_all add: job_fields merge_obj_def map_add_def jget_fields[of "job_val demo_clone"] off split: option.split)
    then show ?thesis using demo_clone_normalizes[of "opts_at 10 ''u10''"] by (simp add: opts_at_def)
  qed
  have "cloneDisabledJob demo_ext (opts_at 10 ''u10'') (\<lambda>_. None) ''j1'' (1, 0) (job_val demo_clone) (?d\<lparr>s_jobs := [demo_job, ?s]\<rparr>)
      = Inl (logicalKeyConflictError ?s)"
  proof (rule conjunct2[OF update_forgets_provenance[OF upd again]])
    show "findByKey (s_jobs (?d\<lparr>s_jobs := [demo_job, ?s]\<rparr>)) (j_logicalKey ?n) = Some ?s"
      using keys by (simp add: findByKey_def)
    show "guarded_job (\<lambda>_. None) (Some (1, 0)) ''j1'' (?d\<lparr>s_jobs := [demo_job, ?s]\<rparr>) = Inr demo_job"
      by (simp add: guarded_job_def requireJob_def checked_def assertExpectedRevision_def findJob_def demo_job_def)
  qed
  with upd show ?thesis by blast
qed

text \<open>A caller who read a state of the job that is no longer current changes nothing: update, enable,
  disable and delete all fail with the conflict error before anything else is decided.\<close>

theorem stale_target_refused:
  assumes "findJob (s_jobs d) i = Some job" and "a job = None"
    and "j_scheduleRevision job \<noteq> rv \<or> j_updatedAtMs job \<noteq> upd"
  shows "\<exists>m. updateJob X opts a b (Some (rv, upd)) i patch d = Inl (Coded_Error ''STALE_TARGET_CONFLICT'' m)
    \<and> enableJob X now a (Some (rv, upd)) i d = Inl (Coded_Error ''STALE_TARGET_CONFLICT'' m)
    \<and> disableJobOp X now a (Some (rv, upd)) i d = Inl (Coded_Error ''STALE_TARGET_CONFLICT'' m)
    \<and> deleteJob a (Some (rv, upd)) i d = Inl (Coded_Error ''STALE_TARGET_CONFLICT'' m)"
proof -
  obtain m where "guarded_job a (Some (rv, upd)) i d = Inl (Coded_Error ''STALE_TARGET_CONFLICT'' m)"
    using guarded_job_stale[where a = a, OF assms] by (elim exE)
  then show ?thesis
    by (simp add: updateJob_def enableJob_def disableJobOp_def deleteJob_def)
qed

theorem stale_target_refused_witness:
  "\<exists>m. deleteJob (\<lambda>_. None) (Some (1, 77)) ''j1'' demo_doc = Inl (Coded_Error ''STALE_TARGET_CONFLICT'' m)"
proof -
  have "findJob (s_jobs demo_doc) ''j1'' = Some demo_job"
    by (simp add: findJob_def demo_doc_def demo_job_def)
  then have "\<exists>m. updateJob demo_ext (opts_at 0 ''u'') (\<lambda>_. None) (\<lambda>_ p. p) (Some (1, 77)) ''j1'' JNull demo_doc = Inl (Coded_Error ''STALE_TARGET_CONFLICT'' m)
    \<and> enableJob demo_ext 0 (\<lambda>_. None) (Some (1, 77)) ''j1'' demo_doc = Inl (Coded_Error ''STALE_TARGET_CONFLICT'' m)
    \<and> disableJobOp demo_ext 0 (\<lambda>_. None) (Some (1, 77)) ''j1'' demo_doc = Inl (Coded_Error ''STALE_TARGET_CONFLICT'' m)
    \<and> deleteJob (\<lambda>_. None) (Some (1, 77)) ''j1'' demo_doc = Inl (Coded_Error ''STALE_TARGET_CONFLICT'' m)"
    by (rule stale_target_refused) (simp_all add: demo_job_def)
  then show ?thesis by blast
qed

text \<open>The operator settles an unresolved unknown outcome: with exact coordinates and a non-empty note of
  evidence the operation succeeds, the run is resolved as asked (a proved termination keeps the business
  outcome unknown), only this record of the ledger changes, the fences are rebuilt and the invariant
  of the engine holds.\<close>

theorem operator_reconcile_commits:
  assumes "engine_inv clock d" and "clock \<le> now" and "findOccurrenceById (s_occurrences d) i = Some r"
    and "o_runId r \<noteq> []" "js_trim evidence \<noteq> []" "operator \<noteq> []" and "isUnresolvedUnknown r"
    and "to = To_Terminated \<Longrightarrow> findJob (s_jobs d) (o_jobId r) \<noteq> None"
  shows "\<exists>d' r'. reconcileOccurrence X now operator i (o_runId r) to evidence d
      = Inr (d', r', fenced (s_fences d') (o_jobId r), False)
    \<and> engine_inv now d' \<and> s_occurrences d' = putOccurrence i r' (s_occurrences d) \<and> \<not> isUnresolvedUnknown r'
    \<and> o_state r' = (case to of To_Succeeded \<Rightarrow> Succeeded | To_Failed \<Rightarrow> Failed | To_Terminated \<Rightarrow> Outcome_Unknown)"
proof -
  obtain d' r' where
    "reconcileOccurrence X now operator i (o_runId r) to evidence d = Inr (d', r', fenced (s_fences d') (o_jobId r), False)"
    "engine_inv now d'" "s_occurrences d' = putOccurrence i r' (s_occurrences d)"
    "o_state r' = (if to = To_Terminated then Outcome_Unknown else late_state to)" "\<not> isUnresolvedUnknown r'"
    by (rule reconcile_commits[OF assms(1-3) refl assms(4-8)]) blast
  then show ?thesis
    by (intro exI[of _ d'] exI[of _ r']) (cases to; simp add: late_state_def)
qed

theorem operator_reconcile_commits_witness:
  "\<exists>d' r' f. reconcileOccurrence demo_ext 300000 ''root:0'' (o_occurrenceId unknown_record) (o_runId unknown_record) To_Succeeded
      ''log shows success'' unknown_doc = Inr (d', r', f, False) \<and> o_state r' = Succeeded"
proof -
  have "o_runId unknown_record \<noteq> []"
    using found_valid(1)[OF unknown_facts(1) unknown_found order_refl]
    by (auto simp: valid_occ_iff head_ok_def identity_faults_def deriveRunId_def)
  from operator_reconcile_commits[OF unknown_facts(1) _ unknown_found this _ _ unknown_unresolved,
      of 300000 "''log shows success''" "''root:0''" To_Succeeded demo_ext]
  show ?thesis by (auto simp: js_trim_def is_ws_def)
qed

end
