(* ===== verification/Decisions.thy ===== *)
theory Decisions
  imports Services
begin

section \<open>Decisions: what is settled, chosen, accounted and refused\<close>

text \<open>
  The decisions of the automatic policy and of the tick, the accounting of elapsed slots, and the
  results the store refuses.
\<close>

subsection \<open>Automatic settlements\<close>

lemma decision_is_coherent:
  assumes "au_decision (evaluateAutoReconcileDecision job r evidence now) = Some dec"
  shows "\<exists>e snap h. evidence = Some e \<and> ae_snapshot e = Some snap \<and> ae_handle e = Some h
    \<and> au_decision (coherent_decision snap h) = Some dec"
  using assms by (auto simp: evaluateAutoReconcileDecision_def split: option.splits if_splits)

lemma coherent_facts:
  assumes "au_decision (coherent_decision snap h) = Some dec"
  shows "(rs_outcome snap = None \<or> rs_lateOutcome snap = None \<or> rs_outcome snap = rs_lateOutcome snap)
    \<and> (rs_settlementResult snap = None \<or> rs_settlementResult snap = override (rs_lateOutcome snap) (rs_outcome snap))
    \<and> (case dec of
         Auto_Late s \<Rightarrow> (s = Succeeded \<and> rs_outcomeEvidence snap = Some ''exact_turn_end_success''
             \<and> override (rs_lateOutcome snap) (rs_outcome snap) \<in> {Some ''completed'', Some ''late_completed''}
           \<or> s = Failed \<and> rs_outcomeEvidence snap = Some ''exact_turn_end_failure''
             \<and> override (rs_lateOutcome snap) (rs_outcome snap) \<in> {Some ''failed'', Some ''late_failed''})
           \<and> (rs_terminationEvidence snap = None \<or> rs_terminationEvidence snap \<in> Some ` set TRUSTED_TERMINATION_EVIDENCE)
       | Auto_Terminated k \<Rightarrow> rs_outcomeEvidence snap = None
           \<and> override (rs_lateOutcome snap) (rs_outcome snap) = Some ''terminated_without_outcome''
           \<and> rs_terminationEvidence snap = Some k \<and> k \<in> set TRUSTED_TERMINATION_EVIDENCE)"
proof -
  define out where "out = override (rs_lateOutcome snap) (rs_outcome snap)"
  have agree: "\<not> (rs_outcome snap \<noteq> None \<and> rs_lateOutcome snap \<noteq> None \<and> rs_outcome snap \<noteq> rs_lateOutcome snap)"
      "\<not> (rs_settlementResult snap \<noteq> None \<and> rs_settlementResult snap \<noteq> out)"
    using assms by (simp_all only: coherent_decision_def Let_def out_def[symmetric] split: if_splits) simp_all
  note D = assms[unfolded coherent_decision_def Let_def out_def[symmetric] if_not_P[OF agree(1)] if_not_P[OF agree(2)]]
  show ?thesis
    using agree D unfolding out_def[symmetric]
    by (auto simp: business_of_def expected_outcome_def split: if_splits option.splits)
qed

lemma policy_keeps_others:
  assumes "applyPolicySettlement X now actor dec reason h q d = Inr d1" and "x \<in> set (s_occurrences d)"
    and "o_occurrenceId x \<noteq> o_occurrenceId q"
  shows "x \<in> set (s_occurrences d1)"
  using assms by (auto simp: applyPolicySettlement_def settleTermination_def putOccurrence_def Let_def rbind_eq_Inr update_first_other
      split: auto_decision.splits)

lemma applied_state: "applyTransition t r = Inr r' \<Longrightarrow> o_state r' = t_to t \<and> o_occurrenceId r' = o_occurrenceId r"
  by (auto simp: applyTransition_Inr move_def split: if_splits)

lemma policy_late_state:
  assumes "applyPolicySettlement X now actor (Auto_Late s) reason h q d = Inr d1"
    and "findOccurrenceById (s_occurrences d) (o_occurrenceId q) = Some q"
  shows "\<exists>r' \<in> set (s_occurrences d1). o_occurrenceId r' = o_occurrenceId q \<and> o_state r' = s"
proof -
  obtain t q' where q: "applyTransition t q = Inr q'" "t_to t = s"
      "s_occurrences d1 = putOccurrence (o_occurrenceId q) q' (s_occurrences d)"
    using assms(1) by (auto simp: applyPolicySettlement_def Let_def rbind_eq_Inr late_transition_def plain_transition_def)
  have "q' \<in> set (s_occurrences d1)"
    unfolding q(3) putOccurrence_def using findOccurrenceById_Some[OF assms(2)] by (intro update_first_put) auto
  then show ?thesis
    using applied_state[OF q(1)] q(2) by auto
qed

text \<open>The first change of a record in a pass is a settlement decided on the record as it was.\<close>

lemma autoLoop_evidence:
  assumes "engine_inv clock d" and "clock \<le> now" and "actor \<noteq> []"
    and "autoLoop X now actor lookup ts d = Inr (d', touched, results)"
    and "r \<in> set (s_occurrences d)" and "r \<notin> set (s_occurrences d')"
  shows "\<exists>dec. au_decision (evaluateAutoReconcileDecision (findJob (s_jobs d) (o_jobId r)) (Some r) (lookup r) now) = Some dec
    \<and> \<not> inapplicable (Some dec) r \<and> Auto_Settled (o_occurrenceId r) dec \<in> set results
    \<and> (case dec of Auto_Late s \<Rightarrow> \<exists>r' \<in> set (s_occurrences d'). o_occurrenceId r' = o_occurrenceId r \<and> o_state r' = s | _ \<Rightarrow> True)"
  using assms(1,2,4-)
proof (induction ts arbitrary: d clock touched results)
  case (Cons t ts)
  show ?case
  proof (cases "findOccurrenceById (s_occurrences d) (at_occurrenceId t)")
    case None
    then obtain touched1 results1 where "autoLoop X now actor lookup ts d = Inr (d', touched1, results1)" "\<forall>y \<in> set results1. y \<in> set results"
      using Cons.prems(3) by (auto simp: rbind_eq_Inr)
    with Cons.IH[OF Cons.prems(1,2) _ Cons.prems(4,5)] show ?thesis by blast
  next
    case (Some q)
    have found: "findOccurrenceById (s_occurrences d) (o_occurrenceId q) = Some q"
      using Some findOccurrenceById_Some[OF Some] by simp
    let ?ev = "evaluateAutoReconcileDecision (findJob (s_jobs d) (o_jobId q)) (Some q) (lookup q) now"
    show ?thesis
    proof (cases "o_runId q = at_runId t \<and> (\<exists>dec. au_decision ?ev = Some dec
        \<and> same_resolution dec (at_resolvedTo t) \<and> \<not> inapplicable (Some dec) q)")
      case False
      then obtain touched1 results1 where "autoLoop X now actor lookup ts d = Inr (d', touched1, results1)" "\<forall>y \<in> set results1. y \<in> set results"
        using Cons.prems(3) Some by (auto simp: Let_def rbind_eq_Inr split: option.splits if_splits)
      with Cons.IH[OF Cons.prems(1,2) _ Cons.prems(4,5)] show ?thesis by blast
    next
      case True
      then obtain dec where dec: "au_decision ?ev = Some dec" "same_resolution dec (at_resolvedTo t)"
          "\<not> inapplicable (Some dec) q" by blast
      obtain d1 touched1 results1 where d1: "applyPolicySettlement X now actor dec (au_reason ?ev) (au_handle ?ev) q d = Inr d1"
          "autoLoop X now actor lookup ts d1 = Inr (d', touched1, results1)" "results = Auto_Settled (o_occurrenceId q) dec # results1"
        using Cons.prems(3) Some True dec by (auto simp: Let_def rbind_eq_Inr)
      have sound: "businessUnknown q" "au_handle ?ev \<noteq> []"
          "case dec of Auto_Late s \<Rightarrow> isTerminalState s | Auto_Terminated k \<Rightarrow> k \<in> set TRUSTED_TERMINATION_EVIDENCE"
        by (rule decision_sound[OF dec(1)],
            auto simp: business_of_def isTerminalState_def split: auto_decision.splits if_splits)+
      obtain d2 where "applyPolicySettlement X now actor dec (au_reason ?ev) (au_handle ?ev) q d = Inr d2" "engine_inv now d2"
        using policy_keeps[OF Cons.prems(1,2) assms(3) found sound(1) dec(3) sound(2,3)] by blast
      then have inv: "engine_inv now d1" using d1(1) by simp
      have jobs: "s_jobs d1 = s_jobs d"
        using d1(1) by (auto simp: applyPolicySettlement_def settleTermination_def Let_def rbind_eq_Inr split: auto_decision.splits)
      show ?thesis
      proof (cases "r \<in> set (s_occurrences d1)")
        case True
        then show ?thesis
          using Cons.IH[OF inv order_refl d1(2) True Cons.prems(5)] jobs d1(3) by auto
      next
        case False
        then have "o_occurrenceId r = o_occurrenceId q"
          using policy_keeps_others[OF d1(1) Cons.prems(4)] by blast
        moreover have "ledger_ok (s_occurrences d)"
          using Cons.prems(1) by (simp add: engine_inv_def valid_doc_def)
        ultimately have rq: "r = q"
          using found_unique found Cons.prems(4) by blast
        have "case dec of Auto_Late s \<Rightarrow> \<exists>r' \<in> set (s_occurrences d'). o_occurrenceId r' = o_occurrenceId q \<and> o_state r' = s | _ \<Rightarrow> True"
        proof (cases dec)
          case (Auto_Late s)
          obtain q' where q': "q' \<in> set (s_occurrences d1)" "o_occurrenceId q' = o_occurrenceId q" "o_state q' = s"
            using policy_late_state[OF d1(1)[unfolded Auto_Late] found] by auto
          have "q' \<in> set (s_occurrences d')"
            using q'(1,3) sound(3) Auto_Late by (auto simp: advances_def elim: extends_member[OF autoLoop_extends[OF d1(2)]])
          then show ?thesis using q'(2,3) Auto_Late by auto
        qed simp
        then show ?thesis
          using dec(1,3) d1(3) rq by auto
      qed
    qed
  qed
qed simp

text \<open>C38. Whatever targets it is given, a pass of the automatic policy changes a record only on evidence that
  leaves nothing to judge. The record is an owned run of a recurring job with an unknown outcome; the
  evidence is a trusted readback of the router, at most five minutes old, whose handle, execution, epoch
  and process generation all name one settled turn of the agent of the job and whose correlation is
  exactly that of the record; the outcomes it states agree; and it either proves the success or the
  failure that the record then gets, or states no business outcome and proves by one of five trusted
  kinds that the turn ended, on a run whose end was not settled before.\<close>

theorem automatic_settlement_needs_exact_evidence:
  assumes "engine_inv clock d" and "clock \<le> now" and "autoReconcileOccurrences X now actor (Some lookup) targets d = Inr (d', results)"
    and "r \<in> set (s_occurrences d)" and "r \<notin> set (s_occurrences d')"
  shows "\<exists>j e snap h epoch generation t. findJob (s_jobs d) (o_jobId r) = Some j \<and> \<not> is_at (j_schedule j)
    \<and> o_state r = Outcome_Unknown \<and> o_lateSettlement r = None \<and> o_ownerAgentId r = Some (j_agentId j)
    \<and> lookup r = Some e \<and> ae_source e = ''router-current-readback'' \<and> ae_trusted e \<and> ae_state e = ''settled''
    \<and> ae_observedAt e = Some t \<and> t \<le> now \<and> now - t \<le> 5 * 60 * 1000
    \<and> ae_handle e = Some h \<and> parse_handle h = Some (epoch, generation) \<and> ae_currentEpoch e = Some epoch
    \<and> ae_snapshot e = Some snap \<and> rs_handle snap = Some h \<and> rs_turnExecutionId snap = Some h \<and> rs_runtimeEpoch snap = Some epoch
    \<and> rs_processGeneration snap = Some generation \<and> rs_state snap = Some ''settled'' \<and> rs_agentId snap = Some (j_agentId j)
    \<and> rs_correlation snap = Some (Some (o_occurrenceId r), Some (o_runId r), Some (requestIdFor r))
    \<and> (rs_outcome snap = None \<or> rs_lateOutcome snap = None \<or> rs_outcome snap = rs_lateOutcome snap)
    \<and> (let out = (if rs_lateOutcome snap = None then rs_outcome snap else rs_lateOutcome snap) in
        (rs_settlementResult snap = None \<or> rs_settlementResult snap = out)
        \<and> (\<exists>s r'. r' \<in> set (s_occurrences d') \<and> o_occurrenceId r' = o_occurrenceId r \<and> o_state r' = s
              \<and> Auto_Settled (o_occurrenceId r) (Auto_Late s) \<in> set results
              \<and> (s = Succeeded \<and> rs_outcomeEvidence snap = Some ''exact_turn_end_success'' \<and> out \<in> {Some ''completed'', Some ''late_completed''}
                 \<or> s = Failed \<and> rs_outcomeEvidence snap = Some ''exact_turn_end_failure'' \<and> out \<in> {Some ''failed'', Some ''late_failed''})
           \<or> rs_outcomeEvidence snap = None \<and> out = Some ''terminated_without_outcome'' \<and> o_terminationSettlement r = None
              \<and> rs_terminationEvidence snap \<in> {Some ''exact_terminal_then_idle'', Some ''exact_queued_removal'', Some ''child_real_exit'',
                   Some ''cancellation_ack'', Some ''restart_quiescence_proven''}))"
proof -
  have "targets \<noteq> []" "machine_actor actor"
    using assms(3-5) by (auto simp: autoReconcileOccurrences_def split: if_splits)
  then have "actor \<noteq> []"
    by (auto simp: machine_actor_def)
  obtain d1 touched results1 where l: "autoLoop X now actor lookup targets d = Inr (d1, touched, results1)"
    using autoLoop_keeps[OF assms(1,2) \<open>actor \<noteq> []\<close>] by blast
  then have same: "results1 = results" "s_occurrences d1 = s_occurrences d'"
    using assms(3-5) \<open>targets \<noteq> []\<close> \<open>machine_actor actor\<close> by (auto simp: autoReconcileOccurrences_def rbind_eq_Inr split: if_splits)
  obtain dec where dec: "au_decision (evaluateAutoReconcileDecision (findJob (s_jobs d) (o_jobId r)) (Some r) (lookup r) now) = Some dec"
      "\<not> inapplicable (Some dec) r" "Auto_Settled (o_occurrenceId r) dec \<in> set results"
      "case dec of Auto_Late s \<Rightarrow> \<exists>r' \<in> set (s_occurrences d'). o_occurrenceId r' = o_occurrenceId r \<and> o_state r' = s | _ \<Rightarrow> True"
    using autoLoop_evidence[OF assms(1,2) \<open>actor \<noteq> []\<close> l assms(4), unfolded same, OF assms(5)] by blast
  obtain j e snap h where e: "findJob (s_jobs d) (o_jobId r) = Some j" "lookup r = Some e" "ae_snapshot e = Some snap" "ae_handle e = Some h"
      "\<not> is_at (j_schedule j)" "businessUnknown r" "o_ownerAgentId r = Some (j_agentId j)" "fresh_evidence e now" "exact_turn e snap j r"
    by (rule decision_sound[OF dec(1)]) auto
  have c: "au_decision (coherent_decision snap h) = Some dec"
    using decision_is_coherent[OF dec(1)] e(2-4) by auto
  obtain t where t: "ae_observedAt e = Some t" "t \<le> now" "now - t \<le> 5 * 60 * 1000"
    using e(8) by (auto simp: fresh_evidence_def MAX_EVIDENCE_AGE_MS_def split: option.splits)
  obtain epoch generation where g: "parse_handle h = Some (epoch, generation)"
    using e(9) e(4) by (auto simp: exact_turn_def split: option.splits)
  note turn = e(9)[unfolded exact_turn_def e(4) option.case g prod.case exact_correlation_def]
  have over: "override (rs_lateOutcome snap) (rs_outcome snap) = (if rs_lateOutcome snap = None then rs_outcome snap else rs_lateOutcome snap)"
    by (simp add: override_def split: option.split)
  define out where "out = (if rs_lateOutcome snap = None then rs_outcome snap else rs_lateOutcome snap)"
  note facts = coherent_facts[OF c, unfolded over, folded out_def]
  have outcome: "(\<exists>s r'. r' \<in> set (s_occurrences d') \<and> o_occurrenceId r' = o_occurrenceId r \<and> o_state r' = s
      \<and> Auto_Settled (o_occurrenceId r) (Auto_Late s) \<in> set results
      \<and> (s = Succeeded \<and> rs_outcomeEvidence snap = Some ''exact_turn_end_success'' \<and> out \<in> {Some ''completed'', Some ''late_completed''}
         \<or> s = Failed \<and> rs_outcomeEvidence snap = Some ''exact_turn_end_failure'' \<and> out \<in> {Some ''failed'', Some ''late_failed''}))
    \<or> rs_outcomeEvidence snap = None \<and> out = Some ''terminated_without_outcome'' \<and> o_terminationSettlement r = None
      \<and> rs_terminationEvidence snap \<in> {Some ''exact_terminal_then_idle'', Some ''exact_queued_removal'', Some ''child_real_exit'',
           Some ''cancellation_ack'', Some ''restart_quiescence_proven''}"
  proof (cases dec)
    case (Auto_Late s)
    then show ?thesis using facts dec(3,4) by (intro disjI1 exI[of _ s]) auto
  next
    case (Auto_Terminated k)
    then show ?thesis
      using facts dec(2) by (auto simp: TRUSTED_TERMINATION_EVIDENCE_def inapplicable_def isUnresolvedUnknown_def)
  qed
  show ?thesis
    apply (rule exI[of _ j], rule exI[of _ e], rule exI[of _ snap], rule exI[of _ h], rule exI[of _ epoch], rule exI[of _ generation], rule exI[of _ t])
    unfolding Let_def out_def[symmetric]
    by (intro conjI) (use e t g turn facts outcome in \<open>simp_all add: businessUnknown_def fresh_evidence_def\<close>)
qed

definition demo_turn :: router_snapshot where
  "demo_turn = demo_snapshot unknown_record\<lparr>rs_outcome := Some ''completed'', rs_outcomeEvidence := Some ''exact_turn_end_success'',
     rs_handle := Some ''turn:e1:a1:g2:s3'', rs_turnExecutionId := Some ''turn:e1:a1:g2:s3'', rs_runtimeEpoch := Some ''e1'',
     rs_processGeneration := Some 2, rs_state := Some ''settled''\<rparr>"

definition demo_turn_evidence :: auto_evidence where
  "demo_turn_evidence = \<lparr>ae_source = ''router-current-readback'', ae_trusted = True, ae_state = ''settled'',
     ae_snapshot = Some demo_turn, ae_handle = Some ''turn:e1:a1:g2:s3'', ae_currentEpoch = Some ''e1'', ae_observedAt = Some 300000\<rparr>"

lemma demo_handle: "parse_handle ''turn:e1:a1:g2:s3'' = Some (''e1'', 2)"
  by code_simp

lemma demo_request: "requestIdFor unknown_record \<noteq> []"
proof -
  have "valid_occ unknown_record"
    using found_valid(1)[OF unknown_facts(1) unknown_found order_refl] .
  then have "o_occurrenceId unknown_record \<noteq> []" "o_idempotencyKey unknown_record = o_occurrenceId unknown_record"
      "o_requestId unknown_record = Some (o_occurrenceId unknown_record) \<or> o_requestId unknown_record = None"
    using valid_occ_id by (auto simp: valid_occ_iff head_ok_def identity_faults_def)
  then show ?thesis
    by (auto simp: requestIdFor_def text_or_def)
qed

lemma demo_decision:
  "au_decision (evaluateAutoReconcileDecision (Some (demo_job\<lparr>j_state := st\<rparr>)) (Some unknown_record) (Some demo_turn_evidence) 300000)
    = Some (Auto_Late Succeeded)"
proof -
  have "exact_turn demo_turn_evidence demo_turn (demo_job\<lparr>j_state := st\<rparr>) unknown_record"
    by (simp add: exact_turn_def demo_turn_evidence_def demo_handle demo_turn_def demo_snapshot_def demo_request exact_correlation_def)
      (simp add: demo_job_def)
  moreover have "coherent_decision demo_turn ''turn:e1:a1:g2:s3''
      = \<lparr>au_decision = Some (Auto_Late Succeeded), au_reason = ''trusted_exact_business_outcome'', au_handle = ''turn:e1:a1:g2:s3''\<rparr>"
    by (simp add: coherent_decision_def demo_turn_def demo_snapshot_def override_def business_of_def expected_outcome_def
        TRUSTED_TERMINATION_EVIDENCE_def Let_def)
  moreover have "fresh_evidence demo_turn_evidence 300000"
    by (simp add: fresh_evidence_def demo_turn_evidence_def MAX_EVIDENCE_AGE_MS_def)
  ultimately show ?thesis
    using unknown_version
    by (simp add: evaluateAutoReconcileDecision_def businessUnknown_def unknown_facts)
      (simp add: demo_turn_evidence_def demo_job_def is_at_def)
qed

abbreviation demo_target :: auto_target where
  "demo_target \<equiv> \<lparr>at_occurrenceId = o_occurrenceId unknown_record, at_runId = o_runId unknown_record, at_resolvedTo = Auto_Late Succeeded\<rparr>"

lemma demo_pass:
  "\<exists>d' results. autoReconcileOccurrences demo_ext 300000 ''system:x'' (Some (\<lambda>_. Some demo_turn_evidence)) [demo_target] unknown_doc
      = Inr (d', results) \<and> unknown_record \<notin> set (s_occurrences d')"
proof -
  obtain st where j: "findJob (s_jobs unknown_doc) (o_jobId unknown_record) = Some (demo_job\<lparr>j_state := st\<rparr>)"
    using unknown_shape(2) by (auto simp: unknown_facts findJob_def) (auto simp: demo_job_def)
  define ev where "ev = evaluateAutoReconcileDecision (Some (demo_job\<lparr>j_state := st\<rparr>)) (Some unknown_record) (Some demo_turn_evidence) 300000"
  have ev: "au_decision ev = Some (Auto_Late Succeeded)"
    unfolding ev_def by (rule demo_decision)
  have b: "businessUnknown unknown_record" "au_handle ev \<noteq> []"
    using ev unfolding ev_def by (auto elim: decision_sound)
  obtain d1 where d1: "applyPolicySettlement demo_ext 300000 ''system:x'' (Auto_Late Succeeded) (au_reason ev) (au_handle ev) unknown_record unknown_doc = Inr d1"
      "engine_inv 300000 d1"
    using policy_keeps[OF unknown_facts(1) _ _ unknown_found b(1) _ b(2), of 300000 "''system:x''" "Auto_Late Succeeded" demo_ext "au_reason ev"]
    by (auto simp: inapplicable_def isTerminalState_def)
  obtain q where q: "applyTransition (late_transition Succeeded 300000 (''policy auto-reconcile: '' @ au_reason ev) ''policy-auto-reconcile''
      (au_handle ev) ''policy-auto-reconcile'' (au_handle ev)) unknown_record = Inr q" "s_occurrences d1 = [q]"
    using d1(1) by (auto simp: applyPolicySettlement_def Let_def rbind_eq_Inr unknown_facts(2) putOccurrence_def)
  have "q \<noteq> unknown_record"
    using applied_state[OF q(1)] unknown_facts(3) by (auto simp: late_transition_def plain_transition_def)
  moreover have "retry_ordered (s_occurrences d1)"
    using d1(2) by (simp add: engine_inv_def ledger_inv_def)
  then obtain js where "refreshStates demo_ext (\<lambda>j. j_id j \<in> set [o_jobId unknown_record]) (s_occurrences d1) 300000 (s_jobs d1) = Inr js"
    using refreshStates_returns by blast
  ultimately show ?thesis
    using ev[unfolded ev_def] d1(1)[unfolded ev_def] unknown_found q(2)
    by (auto simp: autoReconcileOccurrences_def machine_actor_def kebab_char_def j Let_def same_resolution_def inapplicable_def rbind_def)
qed

theorem automatic_settlement_needs_exact_evidence_witness:
  "\<exists>d' results r'. autoReconcileOccurrences demo_ext 300000 ''system:x'' (Some (\<lambda>_. Some demo_turn_evidence)) [demo_target] unknown_doc
      = Inr (d', results) \<and> r' \<in> set (s_occurrences d') \<and> o_occurrenceId r' = o_occurrenceId unknown_record \<and> o_state r' = Succeeded"
proof -
  obtain d' results where d: "autoReconcileOccurrences demo_ext 300000 ''system:x'' (Some (\<lambda>_. Some demo_turn_evidence)) [demo_target] unknown_doc
      = Inr (d', results)" "unknown_record \<notin> set (s_occurrences d')"
    using demo_pass by blast
  show ?thesis
    using automatic_settlement_needs_exact_evidence[OF unknown_facts(1) _ d(1) _ d(2)] d(1)
    by (auto simp: unknown_facts(2) demo_turn_evidence_def demo_turn_def Let_def)
qed

subsection \<open>Candidates\<close>

text \<open>A retry is offered only for an enabled job that asks for retries and whose latest finished run
  failed under the current revision; it becomes due exactly one backoff step after that failure, with the
  step given by the length of the chain of retries.\<close>

theorem retry_candidate_is_sound:
  assumes "retryCandidate job occs now = Some (Some c)" and "\<not> rc_exhausted c"
  shows "j_enabled job \<and> j_retry job = Some True \<and> rc_terminal c \<in> set occs \<and> o_state (rc_terminal c) = Failed
    \<and> o_jobId (rc_terminal c) = j_id job \<and> o_scheduleRevision (rc_terminal c) = j_scheduleRevision job
    \<and> rc_retryOf c = o_occurrenceId (rc_terminal c)
    \<and> (rc_due c \<longleftrightarrow> (case o_endedAt (rc_terminal c) of Some t \<Rightarrow> t | None \<Rightarrow> o_admittedAt (rc_terminal c))
        + backoffForRetry (j_schedule job) (rc_chain c) \<le> now)"
proof -
  note s = retryCandidate_due[OF assms]
  from s(9) have "rc_due c \<longleftrightarrow> rc_eligibleAtMs c \<le> now" .
  with s show ?thesis by simp
qed

definition demo_failed :: occurrence where
  "demo_failed = demo_record\<lparr>o_state := Failed, o_endedAt := Some 140000\<rparr>"

theorem retry_candidate_is_sound_witness:
  "\<exists>c. retryCandidate demo_job [demo_failed] 200000 = Some (Some c) \<and> rc_terminal c = demo_failed
    \<and> (rc_due c \<longleftrightarrow> (case o_endedAt (rc_terminal c) of Some t \<Rightarrow> t | None \<Rightarrow> o_admittedAt (rc_terminal c))
        + backoffForRetry (j_schedule demo_job) (rc_chain c) \<le> 200000)"
proof -
  have f: "o_jobId demo_failed = ''j1''" "o_retryOf demo_failed = None" "o_state demo_failed = Failed" "o_scheduleRevision demo_failed = 1"
    by (simp_all add: demo_failed_def demo_fields) (simp_all add: demo_job_def demo_candidate_def)
  have "retryChainLength [demo_failed] demo_failed = Some 0"
    by (simp add: retryChainLength_def retry_walk.simps f)
  moreover have "latestTerminalOccurrence [demo_failed] ''j1'' = Some demo_failed"
    by (simp add: latestTerminalOccurrence_def jobOccurrences_def isTerminalRecord_def f)
  ultimately obtain c where c: "retryCandidate demo_job [demo_failed] 200000 = Some (Some c)" "\<not> rc_exhausted c" "rc_terminal c = demo_failed"
    using that by (simp add: retryCandidate_def f) (simp add: demo_job_def f Let_def)
  from retry_candidate_is_sound[OF c(1,2)] c show ?thesis by blast
qed

text \<open>A natural slot is due only if it elapsed after the job was activated and after every finished run
  of the job, an interval job also waits one period after its last run, and a one-shot job is not
  started later than the grace allows.\<close>

theorem natural_slot_is_due:
  assumes "nc_due (naturalCandidate X job occs now grace)"
  shows "j_enabled job \<and> (\<exists>slot. nc_nominal (naturalCandidate X job occs now grace) = Some slot
    \<and> previousNaturalSlotMs X (j_schedule job) (j_id job) now = Some slot \<and> activationBoundary job < slot \<and> slot \<le> now
    \<and> (\<forall>r \<in> set occs. o_jobId r = j_id job \<and> isTerminalRecord r \<longrightarrow> operationalEndedAt r + MIN_REFIRE_GAP_MS < slot
         \<and> (is_every (j_schedule job) \<longrightarrow> operationalEndedAt r + every_of (j_schedule job) \<le> now))
    \<and> (is_at (j_schedule job) \<longrightarrow> now - slot \<le> grace))"
  by (rule naturalCandidate_due[OF assms]) (intro conjI exI ballI impI; blast)

theorem natural_slot_is_due_witness:
  "\<exists>slot. nc_nominal (naturalCandidate demo_ext demo_job [] 130000 0) = Some slot \<and> 0 < slot \<and> slot \<le> 130000"
proof -
  have "nc_due (naturalCandidate demo_ext demo_job [] 130000 0)"
    by (simp add: naturalCandidate_def previousNaturalSlotMs_def naturalLowerBoundMs_def latestTerminalOccurrence_def
        activationBoundary_def jobOccurrences_def is_every_def is_at_def demo_job_def Let_def)
  from natural_slot_is_due[OF this] show ?thesis
    by (auto simp: activationBoundary_def demo_job_def)
qed

text \<open>A tick chooses at most one candidate for each job, and only for enabled jobs without a fence and
  without a run in progress; a candidate is a due natural slot or a due retry.\<close>

theorem tick_chooses_one_per_job:
  assumes "tickCandidates X grace now d (s_jobs d) = Some cs" and "distinct (map j_id (s_jobs d))"
  shows "distinct (map (\<lambda>c. j_id (cd_job c)) cs)
    \<and> list_all (\<lambda>c. cd_job c \<in> set (s_jobs d) \<and> j_enabled (cd_job c) \<and> \<not> fenced (s_fences d) (j_id (cd_job c))
        \<and> list_all isTerminalRecord (filter (\<lambda>r. o_jobId r = j_id (cd_job c)) (s_occurrences d))
        \<and> (cd_kind c = Natural \<and> nc_due (naturalCandidate X (cd_job c) (s_occurrences d) now grace) \<or> cd_kind c = Retry)) cs"
proof -
  have "cd_job c \<in> set (s_jobs d) \<and> j_enabled (cd_job c) \<and> \<not> fenced (s_fences d) (j_id (cd_job c))
        \<and> \<not> hasNonTerminalOccurrence (s_occurrences d) (j_id (cd_job c))
        \<and> (cd_kind c = Natural \<and> nc_due (naturalCandidate X (cd_job c) (s_occurrences d) now grace) \<or> cd_kind c = Retry)"
    if c: "c \<in> set cs" for c
  proof -
    obtain b where "cd_job c \<in> set (s_jobs d)" "tickDecision X grace now d (cd_job c) = Some (b, Mint c)"
      using tickCandidates_members[OF assms(1) c] by blast
    with tickDecision_mint[OF this(2)] show ?thesis by blast
  qed
  then show ?thesis
    using tickCandidates_jobs[OF assms] by (auto simp: list_all_iff hasNonTerminal_iff)
qed

theorem tick_chooses_one_per_job_witness:
  "tickCandidates demo_ext 0 130000 demo_doc (s_jobs demo_doc) = Some [demo_candidate]
    \<and> distinct (map (\<lambda>c. j_id (cd_job c)) [demo_candidate])"
proof -
  have t: "tickCandidates demo_ext 0 130000 demo_doc (s_jobs demo_doc) = Some [demo_candidate]"
    by (simp add: demo_doc_def tickDecision_def fenced_def hasNonTerminalOccurrence_def jobOccurrences_def retryCandidate_def
        latestTerminalOccurrence_def naturalCandidate_def previousNaturalSlotMs_def naturalLowerBoundMs_def activationBoundary_def
        is_every_def is_at_def natural_mint_def demo_candidate_def Let_def demo_job_def)
  from tick_chooses_one_per_job[OF t] t show ?thesis by (simp add: demo_doc_def)
qed

lemma tickCandidates_returns:
  assumes "retry_ordered (s_occurrences d)"
  shows "\<exists>cs. tickCandidates X grace now d jobs = Some cs"
proof (induction jobs)
  case (Cons job jobs)
  obtain c where "retryCandidate job (s_occurrences d) now = Some c"
    using retryCandidate_returns[OF assms] by blast
  then obtain x where "tickDecision X grace now d job = Some x"
    by (cases "tickDecision X grace now d job") (simp_all add: tickDecision_def Let_def split: if_splits)
  then show ?case
    using Cons by auto
qed simp

text \<open>C39. On every document the system can reach, the decisions the tick is made of all return: the walk
  along the retries of a failed run ends, every job has a summary, and the pass over the jobs chooses its
  candidates.\<close>

theorem decisions_return:
  assumes "reachable S s" and "y_disk s = Some d"
  shows "(\<forall>job now. \<exists>st. deriveJobStateSummary X job (s_occurrences d) now = Some st)
    \<and> (\<forall>r \<in> set (s_occurrences d). \<exists>n. retryChainLength (s_occurrences d) r = Some n)
    \<and> (\<exists>cs. tickCandidates X grace now d (s_jobs d) = Some cs)"
proof -
  have "engine_inv (y_clock s) d"
    using reachable_inv[OF assms(1)] assms(2) by (simp add: sys_inv_def doc_inv_def)
  then have o: "retry_ordered (s_occurrences d)"
    by (simp add: engine_inv_def ledger_inv_def)
  show ?thesis
    using deriveJobStateSummary_returns[OF o] retryChainLength_returns[OF o] tickCandidates_returns[OF o] by blast
qed

theorem decisions_return_witness: "\<exists>(d :: sdoc) cs. map j_id (s_jobs d) = [''j1''] \<and> tickCandidates demo_ext 0 60000 d (s_jobs d) = Some cs"
proof -
  obtain d where d: "reachable demo_seams \<lparr>y_clock = 0, y_disk = Some d\<rparr>" "map j_id (s_jobs d) = [''j1'']"
    using demo_reachable by (elim exE conjE)
  have "y_disk \<lparr>y_clock = 0, y_disk = Some d\<rparr> = Some d" by simp
  from decisions_return[OF d(1) this, of demo_ext 0 60000]
  obtain cs where cs: "tickCandidates demo_ext 0 60000 d (s_jobs d) = Some cs" by (elim conjE exE)
  show ?thesis
    by (rule exI[of _ d], rule exI[of _ cs], rule conjI[OF d(2) cs])
qed

subsection \<open>Accounting of slots\<close>

lemma grid_loop_length: "length (grid_loop n every fromMs slot) \<le> n"
  by (induction n every fromMs slot rule: grid_loop.induct) auto

lemma cron_loop_length: "length (cron_loop n X sc jobId fromMs cursor) \<le> n"
  by (induction n arbitrary: cursor) (auto simp del: computePreviousRunAtMs.simps split: option.split)

text \<open>The enumeration of elapsed slots stays inside the window it is asked for, goes back in time, and
  never returns more than one slot beyond the bound of the backfill.\<close>

theorem elapsed_slots_are_bounded:
  "list_all (\<lambda>t. fromMs < t \<and> t \<le> toMs) (enumerateElapsedSlots X s jobId fromMs toMs)
    \<and> sorted_wrt (\<lambda>a b. b \<le> a) (enumerateElapsedSlots X s jobId fromMs toMs)
    \<and> length (enumerateElapsedSlots X s jobId fromMs toMs) \<le> Suc MAX_BACKFILL_SLOTS"
proof (intro conjI)
  have m: "1 \<le> max 1 ms" for ms :: int by simp
  have le: "a + (toMs - a) div max 1 ms * max 1 ms \<le> toMs" for a ms :: int
    using m[of ms] by (smt (verit) div_mult_mod_eq pos_mod_sign)
  have "list_all (\<lambda>t. fromMs < t \<and> t \<le> toMs) (grid_loop n (max 1 ms) fromMs (a + (toMs - a) div max 1 ms * max 1 ms))" for n ms a
    using grid_loop_bounds[OF m, where fromMs = fromMs and n = n and slot = "a + (toMs - a) div max 1 ms * max 1 ms"] le[of a ms]
    by (force simp: list_all_iff)
  then show "list_all (\<lambda>t. fromMs < t \<and> t \<le> toMs) (enumerateElapsedSlots X s jobId fromMs toMs)"
    by (auto simp: enumerateElapsedSlots_def gridSlots_def Let_def cron_loop_bounds
        simp del: grid_loop.simps cron_loop.simps split: schedule.split option.split)
  show "sorted_wrt (\<lambda>a b. b \<le> a) (enumerateElapsedSlots X s jobId fromMs toMs)"
    by (rule enumerate_down)
  show "length (enumerateElapsedSlots X s jobId fromMs toMs) \<le> Suc MAX_BACKFILL_SLOTS"
    by (auto simp: enumerateElapsedSlots_def gridSlots_def Let_def grid_loop_length cron_loop_length
        simp del: grid_loop.simps cron_loop.simps split: schedule.split option.split)
qed

text \<open>C40. The accounting of a restart leaves gaps: however many slots of a job elapsed during the downtime,
  at most one of them gets a receipt, because the newest is receipted first and moves the cursor past
  all the others.\<close>

theorem downtime_receipts_at_most_one:
  assumes "distinct (map j_id jobs)"
  shows "length (filter (\<lambda>r. sr_jobId r = i) (snd (accountDowntimeSlots X appendOk occs now session jobs cur))) \<le> 1"
  using accountDowntime_one[OF assms] by blast

theorem downtime_receipts_at_most_one_witness:
  "length (filter (\<lambda>r. sr_jobId r = ''j1'')
     (snd (accountDowntimeSlots demo_ext (\<lambda>_ _. True) [] 1000000 ''s1'' [demo_job] (\<lambda>_. None)))) \<le> 1"
  by (rule downtime_receipts_at_most_one) simp

subsection \<open>A result that cannot be written\<close>

text \<open>An invoker that reports a failure with an empty error text cannot be written back: the
  failure is classified with an empty reference of evidence, which the store refuses, so that nothing is
  committed and the run stays in progress.\<close>

theorem empty_failure_is_refused:
  assumes "findOccurrenceById (s_occurrences d) (o_occurrenceId (w_record w)) = Some r" and "o_state r = Admitted \<or> o_state r = Running"
    and "oc_error oc = Some []" and "cl_state (classifyOccurrenceOutcome started oc) = Failed"
  shows "\<exists>e. mutateDoc outcome (Some d) (writeOccurrenceOutcome X now w (classifyOccurrenceOutcome started oc) ds)
    = (Some d, Not_Committed e)"
proof -
  obtain k where k: "classifyOccurrenceOutcome started oc = failed_class [] k"
    using assms(3,4) by (auto simp: classifyOccurrenceOutcome_def Let_def unknown_class_def text_or_def split: if_splits)
  let ?f = "writeOccurrenceOutcome X now w (classifyOccurrenceOutcome started oc) ds"
  obtain disk' m where m: "mutateDoc outcome (Some d) ?f = (disk', m)"
    by (cases "mutateDoc outcome (Some d) ?f")
  have "\<not> valid_doc d'" if "?f d = Inr (d', v)" for d' v
    using empty_failure_refused[OF assms(1) _ k that] assms(2) by (simp add: in_flight_def)
  with mutateDoc_cases[OF m] m show ?thesis
    by (auto simp: disk_doc_def)
qed

definition empty_outcome :: outcome where
  "empty_outcome = \<lparr>oc_status = ''error'', oc_error = Some [], oc_timedOut = False, oc_started = Some False,
     oc_routerEnvelope = None, oc_terminationEvidence = None, oc_evidenceTermination = None, oc_evidenceSource = None,
     oc_evidenceReceipt = None, oc_handle = None, oc_summary = None\<rparr>"

theorem empty_failure_is_refused_witness:
  "\<exists>e. mutateDoc Written (Some admitted_doc) (writeOccurrenceOutcome demo_ext 200000 demo_run
      (classifyOccurrenceOutcome False empty_outcome) ''none'') = (Some admitted_doc, Not_Committed e)"
  by (rule empty_failure_is_refused[OF demo_found])
    (simp_all add: demo_fields classifyOccurrenceOutcome_def empty_outcome_def failed_class_def Let_def)

end
