(* ===== verification/Incidents.thy ===== *)
theory Incidents
  imports OccurrenceModel
begin

section \<open>Incidents of the watchdog\<close>

text \<open>
  \<^verbatim>\<open>packages/scheduler/src/watchdog/incident-compiler.js\<close> groups the findings of a watchdog run by root
  cause; \<^verbatim>\<open>packages/scheduler/src/watchdog/incident-lifecycle.js\<close> keeps one durable record per root
  cause, moves it through its lifecycle, and puts a notification into the outbox for every transition.
  The order of \<^verbatim>\<open>localeCompare\<close> is a parameter \<open>le\<close>. The two objects of the durable state are kept as
  lists in insertion order, since the loader refuses a record or notification that is stored under
  another name than its own.
\<close>

subsection \<open>Findings\<close>

record fact_disposition =
  dp_basis :: string
  dp_resolvedTo :: occ_state
  dp_resolvedAt :: int

record fact =
  ft_class :: string
  ft_jobId :: "string option"
  ft_logicalKey :: "string option"
  ft_agentId :: "string option"
  ft_jobRevision :: "int option"
  ft_runId :: "string option"
  ft_occurrenceId :: "string option"
  ft_derived :: bool
  ft_subjectKind :: "string option"
  ft_stableSubjectId :: "string option"
  ft_startedAt :: "string option"
  ft_endedAt :: "string option"
  ft_dueAt :: "string option"
  ft_blockedSince :: "string option"
  ft_evidenceAt :: "string option"
  ft_overdueMs :: "int option"
  ft_consecutiveErrors :: "int option"
  ft_reason :: "string option"
  ft_expected :: "string option"
  ft_actual :: "string option"
  ft_operation :: "string option"
  ft_jobIds :: "string list"
  ft_disposition :: "fact_disposition option"

definition bare_fact :: "string \<Rightarrow> fact" where
  "bare_fact cls = \<lparr>ft_class = cls, ft_jobId = None, ft_logicalKey = None, ft_agentId = None, ft_jobRevision = None,
     ft_runId = None, ft_occurrenceId = None, ft_derived = False, ft_subjectKind = None, ft_stableSubjectId = None,
     ft_startedAt = None, ft_endedAt = None, ft_dueAt = None, ft_blockedSince = None, ft_evidenceAt = None,
     ft_overdueMs = None, ft_consecutiveErrors = None, ft_reason = None, ft_expected = None, ft_actual = None,
     ft_operation = None, ft_jobIds = [], ft_disposition = None\<rparr>"

lemma bare_fact_fields [simp]:
  "ft_class (bare_fact c) = c" "ft_jobId (bare_fact c) = None" "ft_occurrenceId (bare_fact c) = None"
  "ft_runId (bare_fact c) = None" "ft_jobRevision (bare_fact c) = None" "ft_derived (bare_fact c) = False"
  "ft_disposition (bare_fact c) = None" "ft_logicalKey (bare_fact c) = None" "ft_agentId (bare_fact c) = None"
  "ft_stableSubjectId (bare_fact c) = None" "ft_subjectKind (bare_fact c) = None"
  by (simp_all add: bare_fact_def)

subsection \<open>Root causes\<close>

definition occurrence_classes :: "string list" where
  "occurrence_classes = [''RUN_FAILED'', ''RUN_STUCK'', ''ADMISSION_BLOCKED_UNKNOWN'']"

definition job_classes :: "string list" where
  "job_classes = [''CONSECUTIVE_FAILURE'', ''JOB_DISABLED'', ''SCHEDULE_DRIFT'', ''TIMEZONE_DRIFT'',
     ''TARGET_AGENT_DRIFT'', ''JOB_CONFIGURATION_INVALID'', ''EXPECTED_RUN_MISSED'']"

record root_input =
  rin_cause :: string
  rin_jobId :: "string option"
  rin_occurrenceId :: "string option"
  rin_jobRevision :: "int option"
  rin_subjectKind :: "string option"
  rin_stableSubjectId :: "string option"

definition nonEmptyField :: "string option \<Rightarrow> string \<Rightarrow> string res" where
  "nonEmptyField v name = (case v of
     Some s \<Rightarrow> if js_trim s = [] then Inl (Type_Error (name @ '' must be non-empty'')) else Inr s
   | None \<Rightarrow> Inl (Type_Error (name @ '' must be non-empty'')))"

definition incidentRootIdentity :: "root_input \<Rightarrow> string res" where
  "incidentRootIdentity r = rbind (nonEmptyField (Some (rin_cause r)) ''rootCauseClass'') (\<lambda>cause.
     if rin_occurrenceId r \<noteq> None then
       rbind (nonEmptyField (rin_jobId r) ''jobId'') (\<lambda>job.
       rbind (nonEmptyField (rin_occurrenceId r) ''occurrenceId'') (\<lambda>occ.
         Inr (''occurrence|'' @ cause @ ''|'' @ job @ ''|'' @ occ)))
     else case rin_jobRevision r of
       Some revision \<Rightarrow> rbind (nonEmptyField (rin_jobId r) ''jobId'') (\<lambda>job.
         Inr (''job|'' @ cause @ ''|'' @ job @ ''|'' @ int_str revision))
     | None \<Rightarrow> rbind (nonEmptyField (rin_subjectKind r) ''subjectKind'') (\<lambda>kind.
         rbind (nonEmptyField (rin_stableSubjectId r) ''stableSubjectId'') (\<lambda>subject.
         Inr (''control|'' @ cause @ ''|'' @ kind @ ''|'' @ subject))))"

definition routeClassFor :: "string \<Rightarrow> string" where
  "routeClassFor cause = (if cause \<in> set [''RUN_FAILED'', ''CONSECUTIVE_FAILURE''] then ''JOB_FAILURE''
     else ''SCHEDULER_CONTROL_PLANE_INCIDENT'')"

definition or_else :: "'a option \<Rightarrow> 'a option \<Rightarrow> 'a option" where
  "or_else a b = (case a of Some x \<Rightarrow> Some x | None \<Rightarrow> b)"

definition truthy_text :: "string option \<Rightarrow> bool" where
  "truthy_text v = (case v of Some s \<Rightarrow> s \<noteq> [] | None \<Rightarrow> False)"

definition occurrenceIdentity :: "fact \<Rightarrow> string option" where
  "occurrenceIdentity f = or_else (ft_occurrenceId f) (ft_runId f)"

definition stableControlSubject :: "string \<Rightarrow> string" where
  "stableControlSubject cls =
     (if cls = ''SCHEDULER_WATCHDOG_W2_FAILURE'' then ''watchdog:w2''
      else if cls = ''SCHEDULER_WATCHDOG_FAILURE'' then ''watchdog:w1''
      else if cls = ''SCHEDULER_RUNTIME_UNHEALTHY'' then ''scheduler-runtime''
      else if cls = ''CREDENTIAL_PROVIDER_DEGRADED'' then ''credential-provider''
      else ''watchdog:'' @ cls)"

definition occ_root :: "string \<Rightarrow> fact \<Rightarrow> root_input" where
  "occ_root cause f = \<lparr>rin_cause = cause, rin_jobId = ft_jobId f, rin_occurrenceId = occurrenceIdentity f,
     rin_jobRevision = None, rin_subjectKind = None, rin_stableSubjectId = None\<rparr>"

definition rootInputFor :: "fact \<Rightarrow> root_input" where
  "rootInputFor f =
     (if ft_class f = ''ADMISSION_BLOCKED_UNKNOWN'' then occ_root ''RUN_STUCK_OUTCOME_UNKNOWN'' f
      else if ft_class f = ''EXPECTED_RUN_MISSED'' \<and> ft_derived f \<and> truthy_text (occurrenceIdentity f)
      then occ_root ''RUN_STUCK_OUTCOME_UNKNOWN'' f
      else if ft_class f \<in> set occurrence_classes \<and> truthy_text (occurrenceIdentity f) then occ_root (ft_class f) f
      else if ft_class f \<in> set job_classes \<and> truthy_text (ft_jobId f) \<and> ft_jobRevision f \<noteq> None
      then \<lparr>rin_cause = ft_class f, rin_jobId = ft_jobId f, rin_occurrenceId = None, rin_jobRevision = ft_jobRevision f,
            rin_subjectKind = None, rin_stableSubjectId = None\<rparr>
      else \<lparr>rin_cause = ft_class f, rin_jobId = None, rin_occurrenceId = None, rin_jobRevision = None,
            rin_subjectKind = or_else (ft_subjectKind f) (Some (if truthy_text (ft_jobId f) then ''job'' else ''watchdog'')),
            rin_stableSubjectId = or_else (ft_stableSubjectId f) (or_else (ft_jobId f) (or_else (ft_logicalKey f)
              (Some (stableControlSubject (ft_class f)))))\<rparr>)"

subsection \<open>Compilation\<close>

record compiled =
  ci_root :: root_input
  ci_identity :: string
  ci_routeClass :: string
  ci_facts :: "fact list"
  ci_symptoms :: "string list"

definition fresh_compiled :: "root_input \<Rightarrow> string \<Rightarrow> compiled" where
  "fresh_compiled rt identity = \<lparr>ci_root = rt, ci_identity = identity, ci_routeClass = routeClassFor (rin_cause rt),
     ci_facts = [], ci_symptoms = []\<rparr>"

definition add_fact :: "fact \<Rightarrow> compiled \<Rightarrow> compiled" where
  "add_fact f c = c\<lparr>ci_facts := ci_facts c @ [f],
     ci_symptoms := (if ft_class f \<notin> set (ci_symptoms c) \<and> ft_class f \<noteq> rin_cause (ci_root c)
       then ci_symptoms c @ [ft_class f] else ci_symptoms c)\<rparr>"

text \<open>\<^verbatim>\<open>map.set(key, row)\<close>: a row of the same key is replaced in place, a new one is added at the end.\<close>

fun put_row :: "('r \<Rightarrow> 'k) \<Rightarrow> 'r \<Rightarrow> 'r list \<Rightarrow> 'r list" where
  "put_row key x [] = [x]"
| "put_row key x (y # ys) = (if key y = key x then x # ys else y # put_row key x ys)"

fun compile_into :: "compiled list \<Rightarrow> fact list \<Rightarrow> compiled list res" where
  "compile_into acc [] = Inr acc"
| "compile_into acc (f # fs) = rbind (incidentRootIdentity (rootInputFor f)) (\<lambda>identity.
     let current = (case find (\<lambda>c. ci_identity c = identity) acc of
           Some c \<Rightarrow> c | None \<Rightarrow> fresh_compiled (rootInputFor f) identity)
     in compile_into (put_row ci_identity (add_fact f current) acc) fs)"

text \<open>\<^verbatim>\<open>sort((a, b) => a.key.localeCompare(b.key))\<close>, which is stable.\<close>

fun insert_by :: "('k \<Rightarrow> 'k \<Rightarrow> bool) \<Rightarrow> ('r \<Rightarrow> 'k) \<Rightarrow> 'r \<Rightarrow> 'r list \<Rightarrow> 'r list" where
  "insert_by le key x [] = [x]"
| "insert_by le key x (y # ys) = (if le (key x) (key y) then x # y # ys else y # insert_by le key x ys)"

definition sort_by :: "('k \<Rightarrow> 'k \<Rightarrow> bool) \<Rightarrow> ('r \<Rightarrow> 'k) \<Rightarrow> 'r list \<Rightarrow> 'r list" where
  "sort_by le key xs = foldr (insert_by le key) xs []"

definition compileIncidents :: "(string \<Rightarrow> string \<Rightarrow> bool) \<Rightarrow> fact list \<Rightarrow> compiled list res" where
  "compileIncidents le findings = rbind (compile_into [] findings) (\<lambda>cs. Inr (sort_by le ci_identity cs))"

definition findingFingerprint :: "fact \<Rightarrow> string res" where
  "findingFingerprint f = rbind (compileIncidents (\<lambda>_ _. True) [f]) (\<lambda>cs. Inr (ci_identity (hd cs)))"

subsection \<open>Durable incidents and notifications\<close>

datatype lifecycle = L_Open | L_Acknowledged | L_Recovered

datatype dstate = D_Pending | D_Delivered | D_Failed | D_Unknown

definition lifecycle_str :: "lifecycle \<Rightarrow> string" where
  "lifecycle_str l = (case l of L_Open \<Rightarrow> ''OPEN'' | L_Acknowledged \<Rightarrow> ''CLOSED_ACKNOWLEDGED'' | L_Recovered \<Rightarrow> ''CLOSED_RECOVERED'')"

record alert =
  al_lifecycle :: lifecycle
  al_delivery :: dstate
  al_incidentKey :: string
  al_lastTransitionAt :: int

record incident =
  i_of :: compiled
  i_producer :: string
  i_episode :: int
  i_incidentId :: string
  i_lifecycle :: lifecycle
  i_revision :: int
  i_firstSeenAt :: int
  i_lastSeenAt :: int
  i_deliveryProjection :: "int option"
  i_alert :: alert

abbreviation i_root :: "incident \<Rightarrow> string" where
  "i_root r \<equiv> ci_identity (i_of r)"

record target =
  tg_channel :: string
  tg_to :: string

record delivery_binding =
  b_producer :: string
  b_route :: target
  b_routeSource :: string
  b_routingSha256 :: string
  b_payload :: string
  b_providerKey :: string

record intent =
  n_incident :: incident
  n_incidentId :: string
  n_revision :: int
  n_kind :: lifecycle
  n_routeClass :: string
  n_producer :: string
  n_key :: string
  n_delivery :: dstate
  n_payloadRevision :: int
  n_binding :: "delivery_binding option"
  n_bindingAt :: "int option"
  n_firstAttemptAt :: "int option"
  n_updatedAt :: "int option"

abbreviation n_root :: "intent \<Rightarrow> string" where
  "n_root n \<equiv> i_root (n_incident n)"

record migration =
  mg_evidence :: string
  mg_facts :: string
  mg_legacy :: string

record istate =
  st_migration :: "migration option"
  st_incidents :: "incident list"
  st_outbox :: "intent list"

definition empty_istate :: istate where
  "empty_istate = \<lparr>st_migration = None, st_incidents = [], st_outbox = []\<rparr>"

definition DELIVERY_PROJECTION_VERSION :: int where
  "DELIVERY_PROJECTION_VERSION = 2"

definition key_payload :: "string \<times> int \<times> lifecycle \<times> string \<Rightarrow> jval" where
  "key_payload p = (case p of (incidentId, revision, kind, route) \<Rightarrow>
     obj_of [(''incidentId'', JStr incidentId), (''transitionRevision'', JInt revision),
       (''transitionKind'', JStr (lifecycle_str kind)), (''routeClass'', JStr route)])"

definition notificationKey :: "ext \<Rightarrow> string \<times> int \<times> lifecycle \<times> string \<Rightarrow> string" where
  "notificationKey X p = sha256_hex (canonicalJSON X (key_payload p))"

definition n_coords :: "intent \<Rightarrow> string \<times> int \<times> lifecycle \<times> string" where
  "n_coords n = (n_incidentId n, n_revision n, n_kind n, n_routeClass n)"

definition incident_id :: "string \<Rightarrow> int \<Rightarrow> string" where
  "incident_id rt episode = rt @ ''|episode:'' @ int_str episode"

subsection \<open>Transitions\<close>

text \<open>A record moves one revision on, and its copy goes into a new notification.\<close>

definition transitioned :: "int \<Rightarrow> incident \<Rightarrow> incident" where
  "transitioned now r = r\<lparr>i_revision := i_revision r + 1,
     i_alert := (i_alert r)\<lparr>al_lastTransitionAt := now, al_delivery := D_Pending\<rparr>\<rparr>"

definition transitionIntent :: "ext \<Rightarrow> lifecycle \<Rightarrow> incident \<Rightarrow> intent" where
  "transitionIntent X kind r = \<lparr>n_incident = r, n_incidentId = i_incidentId r, n_revision = i_revision r, n_kind = kind,
     n_routeClass = ci_routeClass (i_of r), n_producer = i_producer r,
     n_key = notificationKey X (i_incidentId r, i_revision r, kind, ci_routeClass (i_of r)),
     n_delivery = D_Pending, n_payloadRevision = i_revision r, n_binding = None, n_bindingAt = None,
     n_firstAttemptAt = None, n_updatedAt = None\<rparr>"

definition put_incident :: "incident \<Rightarrow> istate \<Rightarrow> istate" where
  "put_incident r st = st\<lparr>st_incidents := put_row i_root r (st_incidents st)\<rparr>"

definition put_outbox :: "intent \<Rightarrow> istate \<Rightarrow> istate" where
  "put_outbox n st = (if n_key n \<in> n_key ` set (st_outbox st) then st else st\<lparr>st_outbox := st_outbox st @ [n]\<rparr>)"

definition emit :: "ext \<Rightarrow> lifecycle \<Rightarrow> int \<Rightarrow> incident \<Rightarrow> istate \<times> intent list \<Rightarrow> istate \<times> intent list" where
  "emit X kind now record acc = (case acc of (st, notes) \<Rightarrow>
     let r = transitioned now record; n = transitionIntent X kind r
     in (put_outbox n (put_incident r st), notes @ [n]))"

definition open_record :: "int \<Rightarrow> string \<Rightarrow> int \<Rightarrow> compiled \<Rightarrow> incident" where
  "open_record now producer episode c = \<lparr>i_of = c, i_producer = producer, i_episode = episode,
     i_incidentId = incident_id (ci_identity c) episode, i_lifecycle = L_Open, i_revision = 0,
     i_firstSeenAt = now, i_lastSeenAt = now, i_deliveryProjection = Some DELIVERY_PROJECTION_VERSION,
     i_alert = \<lparr>al_lifecycle = L_Open, al_delivery = D_Pending, al_incidentKey = ci_identity c, al_lastTransitionAt = now\<rparr>\<rparr>"

definition closed_as :: "lifecycle \<Rightarrow> incident \<Rightarrow> incident" where
  "closed_as l r = r\<lparr>i_lifecycle := l, i_alert := (i_alert r)\<lparr>al_lifecycle := l\<rparr>\<rparr>"

definition seen_again :: "int \<Rightarrow> compiled \<Rightarrow> incident \<Rightarrow> incident" where
  "seen_again now c r = r\<lparr>i_lastSeenAt := now,
     i_of := (i_of r)\<lparr>ci_facts := ci_facts c, ci_symptoms := ci_symptoms c\<rparr>\<rparr>"

definition is_occurrence_root :: "string \<Rightarrow> bool" where
  "is_occurrence_root rt \<longleftrightarrow> take 11 rt = ''occurrence|''"

definition find_incident :: "istate \<Rightarrow> string \<Rightarrow> incident option" where
  "find_incident st rt = find (\<lambda>r. i_root r = rt) (st_incidents st)"

definition acknowledge :: "ext \<Rightarrow> int \<Rightarrow> string list \<Rightarrow> string \<Rightarrow> istate \<times> intent list \<Rightarrow> istate \<times> intent list" where
  "acknowledge X now acks rt acc = (case find_incident (fst acc) rt of
     Some r \<Rightarrow> if i_lifecycle r = L_Open \<and> rt \<in> set acks
       then emit X L_Acknowledged now (closed_as L_Acknowledged r) acc else acc
   | None \<Rightarrow> acc)"

definition incident_step ::
    "ext \<Rightarrow> int \<Rightarrow> string list \<Rightarrow> string \<Rightarrow> compiled \<Rightarrow> istate \<times> intent list \<Rightarrow> istate \<times> intent list" where
  "incident_step X now acks producer c acc =
     (case find_incident (fst acc) (ci_identity c) of
       Some r \<Rightarrow>
         if i_lifecycle r \<noteq> L_Open then
           (if is_occurrence_root (ci_identity c) then acc
            else emit X L_Open now (open_record now producer (i_episode r + 1) c) acc)
         else acknowledge X now acks (ci_identity c) (put_incident (seen_again now c r) (fst acc), snd acc)
     | None \<Rightarrow> acknowledge X now acks (ci_identity c) (emit X L_Open now (open_record now producer 1 c) acc))"

definition recover_step ::
    "ext \<Rightarrow> int \<Rightarrow> string list \<Rightarrow> (incident \<Rightarrow> bool) \<Rightarrow> incident \<Rightarrow> istate \<times> intent list \<Rightarrow> istate \<times> intent list" where
  "recover_step X now seen owns r acc =
     (if i_lifecycle r \<noteq> L_Open \<or> i_root r \<in> set seen \<or> \<not> owns r then acc
      else emit X L_Recovered now (closed_as L_Recovered r) acc)"

definition updateIncidentState ::
    "ext \<Rightarrow> int \<Rightarrow> string list \<Rightarrow> (incident \<Rightarrow> bool) \<Rightarrow> string \<Rightarrow> istate \<Rightarrow> compiled list \<Rightarrow> istate \<times> intent list" where
  "updateIncidentState X now acks owns producer st inputs =
     (let acc = fold (incident_step X now acks producer) inputs (st, [])
      in fold (recover_step X now (map ci_identity inputs) owns) (st_incidents (fst acc)) acc)"

definition operator_reconciled :: "fact \<Rightarrow> bool" where
  "operator_reconciled f = (case ft_disposition f of Some d \<Rightarrow> dp_basis d = ''operator-reconcile'' | None \<Rightarrow> False)"

definition acknowledged_roots :: "compiled list \<Rightarrow> string list" where
  "acknowledged_roots cs = map ci_identity (filter (\<lambda>c. list_ex operator_reconciled (ci_facts c)) cs)"

definition updateAlertState ::
    "ext \<Rightarrow> (string \<Rightarrow> string \<Rightarrow> bool) \<Rightarrow> int \<Rightarrow> (incident \<Rightarrow> bool) \<Rightarrow> string \<Rightarrow> istate \<Rightarrow> fact list \<Rightarrow> (istate \<times> intent list) res" where
  "updateAlertState X le now owns producer st findings = rbind (compileIncidents le findings) (\<lambda>cs.
     Inr (updateIncidentState X now (acknowledged_roots cs) owns producer st cs))"

text \<open>
  \<^verbatim>\<open>scripts/scheduler-watchdog.mjs\<close>: the first watchdog owns every incident but that of its own death, the
  second one only that.
\<close>

definition ownsIncident :: "string \<Rightarrow> incident \<Rightarrow> bool" where
  "ownsIncident role r = (if role = ''w2'' then rin_stableSubjectId (ci_root (i_of r)) = Some ''watchdog:w1''
     else rin_stableSubjectId (ci_root (i_of r)) \<noteq> Some ''watchdog:w1'')"

definition annotate_finding :: "job list \<Rightarrow> fact \<Rightarrow> fact" where
  "annotate_finding jobs f = (if ft_jobId f = None \<or> ft_logicalKey f \<noteq> None then f
     else case find (\<lambda>j. Some (j_id j) = ft_jobId f) (rev jobs) of
       None \<Rightarrow> f
     | Some j \<Rightarrow> f\<lparr>ft_logicalKey := or_else (j_logicalKey j) (ft_logicalKey f), ft_agentId := Some (j_agentId j)\<rparr>)"

definition annotateFindingsWithJobs :: "job list \<Rightarrow> fact list \<Rightarrow> fact list" where
  "annotateFindingsWithJobs jobs findings = map (annotate_finding jobs) findings"

end
