(* ===== verification/IncidentStore.thy ===== *)
theory IncidentStore
  imports Incidents
begin

section \<open>The durable incident state\<close>

text \<open>
  \<^verbatim>\<open>packages/scheduler/src/watchdog/durable-state.js\<close> decides which incident states are coherent and
  which step from the stored state to a new one may be committed;
  \<^verbatim>\<open>packages/scheduler/src/watchdog/incident-lifecycle.js\<close> binds a notification to a route and moves its
  delivery state; \<^verbatim>\<open>packages/scheduler/src/watchdog/delivery.js\<close> derives the idempotency key of the
  provider. The wording of a notification (\<^verbatim>\<open>stableNotificationText\<close>, which is derived from the incident,
  the transition and the key alone) is a parameter \<open>render\<close>; whether the backups of a migration have the
  hashes it names is a parameter \<open>backups\<close>. That a field has its type is part of the record types. The
  generation of a stored state is the state itself instead of the hash of its bytes.
\<close>

type_synonym rendering = "incident \<Rightarrow> lifecycle \<Rightarrow> string \<Rightarrow> string"

definition is_sha256 :: "string \<Rightarrow> bool" where
  "is_sha256 s \<longleftrightarrow> length s = 64 \<and> list_all is_lower_hex s"

subsection \<open>The idempotency key of the provider\<close>

definition hex_value :: "char \<Rightarrow> nat" where
  "hex_value c = (let n = (of_char c :: nat) in if n \<le> 57 then n - 48 else n - 87)"

fun hex_bytes :: "string \<Rightarrow> nat list" where
  "hex_bytes (a # b # rest) = (16 * hex_value a + hex_value b) # hex_bytes rest"
| "hex_bytes _ = []"

definition base64_char :: "nat \<Rightarrow> char" where
  "base64_char n = (if n < 26 then char_of (65 + n) else if n < 52 then char_of (71 + n)
     else if n < 62 then char_of (n - 4) else if n = 62 then CHR ''-'' else CHR ''_'')"

fun base64url :: "nat list \<Rightarrow> string" where
  "base64url [] = []"
| "base64url [a] = map base64_char [a div 4, (a mod 4) * 16]"
| "base64url [a, b] = map base64_char [a div 4, (a mod 4) * 16 + b div 16, (b mod 16) * 4]"
| "base64url (a # b # c # rest) =
     map base64_char [a div 4, (a mod 4) * 16 + b div 16, (b mod 16) * 4 + c div 64, c mod 64] @ base64url rest"

definition providerIdempotencyKey :: "string \<Rightarrow> string res" where
  "providerIdempotencyKey key = (if is_sha256 key then Inr (base64url (hex_bytes key))
     else Inl (Type_Error ''notificationKey must be a sha256 hex digest''))"

subsection \<open>Coherence of a stored state\<close>

definition record_coherent :: "incident \<Rightarrow> bool" where
  "record_coherent r \<longleftrightarrow> is_safe_int (i_episode r) \<and> 1 \<le> i_episode r
     \<and> i_incidentId r = incident_id (i_root r) (i_episode r)
     \<and> is_safe_int (i_revision r) \<and> 1 \<le> i_revision r
     \<and> al_incidentKey (i_alert r) = i_root r \<and> al_lifecycle (i_alert r) = i_lifecycle r
     \<and> rin_cause (ci_root (i_of r)) \<noteq> [] \<and> ci_routeClass (i_of r) \<noteq> [] \<and> i_producer r \<noteq> []"

definition requireIncidentRecord :: "incident \<Rightarrow> unit res" where
  "requireIncidentRecord r = ensure (record_coherent r) (Type_Error (''incoherent incident record: '' @ i_root r))"

definition expected_kind :: "intent \<Rightarrow> lifecycle option" where
  "expected_kind n = (if n_revision n = 1 then Some L_Open
     else if n_revision n = 2 \<and> n_kind n \<noteq> L_Open then Some (n_kind n) else None)"

definition n_identity :: "intent \<Rightarrow> string" where
  "n_identity n = n_incidentId n @ ''|'' @ int_str (n_revision n)"

definition intent_coherent :: "ext \<Rightarrow> istate \<Rightarrow> intent \<Rightarrow> bool" where
  "intent_coherent X st n \<longleftrightarrow> (let e = n_incident n in case find_incident st (i_root e) of
     None \<Rightarrow> False
   | Some r \<Rightarrow> expected_kind n = Some (n_kind n) \<and> n_routeClass n \<noteq> [] \<and> n_producer n \<noteq> []
       \<and> is_safe_int (n_revision n) \<and> 1 \<le> n_revision n \<and> n_payloadRevision n = n_revision n
       \<and> n_key n = notificationKey X (n_coords n)
       \<and> i_incidentId e = n_incidentId n \<and> i_revision e = n_revision n \<and> i_lifecycle e = n_kind n
       \<and> ci_routeClass (i_of e) = n_routeClass n \<and> i_producer e = n_producer n
       \<and> n_incidentId n = incident_id (i_root e) (i_episode e) \<and> i_episode e \<le> i_episode r
       \<and> (i_episode e = i_episode r \<longrightarrow> n_revision n \<le> i_revision r))"

definition allowed_sources :: "string \<Rightarrow> string list" where
  "allowed_sources routeClass = (if routeClass = ''SCHEDULER_CONTROL_PLANE_INCIDENT'' then [''canonicalOpsTarget'']
     else if routeClass = ''JOB_FAILURE'' then [''jobFailureTargets'', ''ownerTargets'', ''canonicalOpsTarget'']
     else [''job.delivery''])"

definition binding_coherent :: "rendering \<Rightarrow> intent \<Rightarrow> bool" where
  "binding_coherent render n \<longleftrightarrow> (case n_binding n of
     None \<Rightarrow> n_bindingAt n = None
   | Some b \<Rightarrow> b_producer b = n_producer n
       \<and> (case n_bindingAt n of Some t \<Rightarrow> is_safe_int t \<and> al_lastTransitionAt (i_alert (n_incident n)) \<le> t | None \<Rightarrow> False)
       \<and> providerIdempotencyKey (n_key n) = Inr (b_providerKey b)
       \<and> b_payload b = render (n_incident n) (n_kind n) (n_key n)
       \<and> b_routeSource b \<in> set (allowed_sources (n_routeClass n)) \<and> is_sha256 (b_routingSha256 b)
       \<and> tg_channel (b_route b) = ''feishu'' \<and> js_trim (tg_to (b_route b)) \<noteq> [])"

definition at_least :: "int option \<Rightarrow> int option \<Rightarrow> bool" where
  "at_least t bound = (case t of Some t \<Rightarrow> is_safe_int t \<and> (case bound of Some f \<Rightarrow> f \<le> t | None \<Rightarrow> False) | None \<Rightarrow> True)"

definition chronology_coherent :: "intent \<Rightarrow> bool" where
  "chronology_coherent n \<longleftrightarrow>
     (n_delivery n = D_Pending \<longrightarrow> n_firstAttemptAt n = None \<and> n_updatedAt n = None)
   \<and> (n_firstAttemptAt n \<noteq> None \<longrightarrow> n_binding n \<noteq> None)
   \<and> at_least (n_firstAttemptAt n) (n_bindingAt n)
   \<and> at_least (n_updatedAt n)
       (if n_firstAttemptAt n \<noteq> None then n_firstAttemptAt n else Some (al_lastTransitionAt (i_alert (n_incident n))))
   \<and> (n_delivery n = D_Delivered \<or> n_delivery n = D_Unknown \<longrightarrow>
       n_binding n \<noteq> None \<and> n_firstAttemptAt n \<noteq> None \<and> n_updatedAt n \<noteq> None)
   \<and> (n_delivery n = D_Failed \<and> n_binding n \<noteq> None \<longrightarrow> n_firstAttemptAt n \<noteq> None \<and> n_updatedAt n \<noteq> None)"

fun validateOutbox :: "ext \<Rightarrow> rendering \<Rightarrow> istate \<Rightarrow> string list \<Rightarrow> intent list \<Rightarrow> unit res" where
  "validateOutbox X render st ids [] = Inr ()"
| "validateOutbox X render st ids (n # ns) =
     rbind (if find_incident st (n_root n) \<noteq> None then requireIncidentRecord (n_incident n) else Inr ()) (\<lambda>_.
     rbind (ensure (intent_coherent X st n \<and> n_identity n \<notin> set ids) (Type_Error (''incoherent incident outbox: '' @ n_key n))) (\<lambda>_.
     rbind (ensure (binding_coherent render n) (Type_Error (''incoherent incident delivery binding: '' @ n_key n))) (\<lambda>_.
     rbind (ensure (chronology_coherent n) (Type_Error (''incoherent incident delivery chronology: '' @ n_key n))) (\<lambda>_.
       validateOutbox X render st (n_identity n # ids) ns))))"

definition history_coherent :: "bool \<Rightarrow> incident \<Rightarrow> bool" where
  "history_coherent migrated r \<longleftrightarrow> (if i_lifecycle r = L_Open then i_revision r = 1
     else i_revision r = 2 \<or> (migrated \<and> i_revision r = 1))"

definition intents_of :: "istate \<Rightarrow> incident \<Rightarrow> intent list" where
  "intents_of st r = filter (\<lambda>n. n_incidentId n = i_incidentId r) (st_outbox st)"

definition history_complete :: "bool \<Rightarrow> incident \<Rightarrow> intent list \<Rightarrow> bool" where
  "history_complete migrated r entries \<longleftrightarrow> i_revision r \<in> n_revision ` set entries
     \<and> (migrated \<or> (\<forall>k \<in> {1..i_revision r}. k \<in> n_revision ` set entries))"

definition current_coherent :: "ext \<Rightarrow> bool \<Rightarrow> incident \<Rightarrow> intent \<Rightarrow> bool" where
  "current_coherent X migrated r n \<longleftrightarrow> n_key n = notificationKey X (n_coords n) \<and> n_kind n = i_lifecycle r
     \<and> n_revision n = i_revision r \<and> n_routeClass n = ci_routeClass (i_of r) \<and> n_producer n = i_producer r
     \<and> n_root n = i_root r
     \<and> (n_delivery n = al_delivery (i_alert r)
        \<or> (migrated \<and> al_delivery (i_alert r) = D_Failed \<and> n_delivery n = D_Pending))"

definition validate_record :: "ext \<Rightarrow> bool \<Rightarrow> istate \<Rightarrow> incident \<Rightarrow> unit res" where
  "validate_record X migrated st r =
     rbind (requireIncidentRecord r) (\<lambda>_.
     rbind (ensure (history_coherent migrated r) (Type_Error (''incoherent incident lifecycle history: '' @ i_root r))) (\<lambda>_.
     let entries = intents_of st r in
     if entries = []
     then ensure (al_delivery (i_alert r) = D_Delivered \<and> migrated) (Type_Error (''incident lacks current outbox: '' @ i_root r))
     else rbind (ensure (history_complete migrated r entries) (Type_Error (''incident lifecycle history is incomplete: '' @ i_root r))) (\<lambda>_.
       case filter (\<lambda>n. n_revision n = i_revision r) entries of
         [n] \<Rightarrow> ensure (current_coherent X migrated r n) (Type_Error (''incoherent incident outbox: '' @ i_root r))
       | _ \<Rightarrow> Inl (Type_Error (''incident lacks unique current outbox: '' @ i_root r)))))"

fun each :: "('a \<Rightarrow> unit res) \<Rightarrow> 'a list \<Rightarrow> unit res" where
  "each f [] = Inr ()"
| "each f (x # xs) = rbind (f x) (\<lambda>_. each f xs)"

definition hasValidMigration :: "istate \<Rightarrow> bool res" where
  "hasValidMigration st = (case st_migration st of None \<Rightarrow> Inr False
   | Some m \<Rightarrow> rbind (ensure (is_sha256 (mg_evidence m) \<and> is_sha256 (mg_facts m) \<and> is_sha256 (mg_legacy m))
       (Type_Error ''incoherent incident migration'')) (\<lambda>_. Inr True))"

definition validateIncidentState :: "ext \<Rightarrow> rendering \<Rightarrow> migration option \<Rightarrow> istate \<Rightarrow> istate res" where
  "validateIncidentState X render authority st =
     rbind (hasValidMigration st) (\<lambda>migrated.
     rbind (ensure (\<not> migrated \<or> st_migration st = authority) (Type_Error ''incident migration authority mismatch'')) (\<lambda>_.
     rbind (validateOutbox X render st [] (st_outbox st)) (\<lambda>_.
     rbind (each (validate_record X migrated st) (st_incidents st)) (\<lambda>_. Inr st))))"

definition verifiedMigrationAuthority :: "(migration \<Rightarrow> bool) \<Rightarrow> istate \<Rightarrow> migration option res" where
  "verifiedMigrationAuthority backups st = rbind (hasValidMigration st) (\<lambda>migrated.
     case st_migration st of None \<Rightarrow> Inr None
     | Some m \<Rightarrow> rbind (ensure (backups m) (Type_Error ''incident migration backup generation mismatch'')) (\<lambda>_. Inr (Some m)))"

definition checked_state :: "ext \<Rightarrow> rendering \<Rightarrow> (migration \<Rightarrow> bool) \<Rightarrow> istate \<Rightarrow> istate res" where
  "checked_state X render backups st = rbind (verifiedMigrationAuthority backups st) (\<lambda>authority.
     validateIncidentState X render authority st)"

definition loadIncidentState :: "ext \<Rightarrow> rendering \<Rightarrow> (migration \<Rightarrow> bool) \<Rightarrow> istate option \<Rightarrow> istate res" where
  "loadIncidentState X render backups disk = (case disk of None \<Rightarrow> Inr empty_istate
   | Some st \<Rightarrow> (case checked_state X render backups st of
       Inr st \<Rightarrow> Inr st | Inl e \<Rightarrow> Inl (Type_Error ''corrupt incident state'')))"

subsection \<open>Committing\<close>

definition commit_allows :: "dstate \<Rightarrow> dstate \<Rightarrow> bool" where
  "commit_allows before after = (after \<in> set (case before of
     D_Pending \<Rightarrow> [D_Pending, D_Failed, D_Unknown]
   | D_Failed \<Rightarrow> [D_Failed, D_Unknown]
   | D_Unknown \<Rightarrow> [D_Unknown, D_Failed, D_Delivered]
   | D_Delivered \<Rightarrow> [D_Delivered]))"

definition find_intent :: "istate \<Rightarrow> string \<Rightarrow> intent option" where
  "find_intent st key = find (\<lambda>n. n_key n = key) (st_outbox st)"

definition kept :: "'a option \<Rightarrow> 'a option \<Rightarrow> bool" where
  "kept before after \<longleftrightarrow> before = None \<or> after = before"

definition commit_intent :: "istate \<Rightarrow> intent \<Rightarrow> unit res" where
  "commit_intent after b = (case find_intent after (n_key b) of
     None \<Rightarrow> Inl (Type_Error (''invalid notification delivery transition: '' @ n_key b))
   | Some a \<Rightarrow>
       rbind (ensure (commit_allows (n_delivery b) (n_delivery a))
         (Type_Error (''invalid notification delivery transition: '' @ n_key b))) (\<lambda>_.
       rbind (ensure (kept (n_binding b) (n_binding a) \<and> kept (n_bindingAt b) (n_bindingAt a)
           \<and> kept (n_firstAttemptAt b) (n_firstAttemptAt a))
         (Type_Error (''notification delivery evidence is immutable: '' @ n_key b))) (\<lambda>_.
       ensure (n_updatedAt b \<noteq> None \<longrightarrow> n_updatedAt a \<noteq> None \<and> at_least (n_updatedAt a) (n_updatedAt b))
         (Type_Error (''notification delivery update time cannot regress: '' @ n_key b)))))"

definition validateDeliveryCommitTransition :: "istate \<Rightarrow> istate \<Rightarrow> unit res" where
  "validateDeliveryCommitTransition before after = each (commit_intent after) (st_outbox before)"

definition commitIncidentState ::
    "ext \<Rightarrow> rendering \<Rightarrow> (migration \<Rightarrow> bool) \<Rightarrow> istate option \<Rightarrow> istate option \<Rightarrow> istate \<Rightarrow> istate option res" where
  "commitIncidentState X render backups disk expected st =
     rbind (checked_state X render backups st) (\<lambda>_.
     rbind (loadIncidentState X render backups disk) (\<lambda>current.
     rbind (ensure (disk = expected) (Plain_Error ''incident state generation mismatch'')) (\<lambda>_.
     rbind (validateDeliveryCommitTransition current st) (\<lambda>_. Inr (Some st)))))"

subsection \<open>Binding and marking a notification\<close>

definition update_intent :: "string \<Rightarrow> (intent \<Rightarrow> intent) \<Rightarrow> istate \<Rightarrow> istate" where
  "update_intent key f st = st\<lparr>st_outbox := update_first (\<lambda>n. n_key n = key) f (st_outbox st)\<rparr>"

definition bindNotificationDelivery :: "istate \<Rightarrow> string \<Rightarrow> delivery_binding \<Rightarrow> int \<Rightarrow> istate res" where
  "bindNotificationDelivery st key binding now = (case find_intent st key of
     None \<Rightarrow> Inl (Type_Error (''unknown notification key: '' @ key))
   | Some n \<Rightarrow>
       if \<not> is_safe_int now \<or> now < al_lastTransitionAt (i_alert (n_incident n))
       then Inl (Type_Error ''notification delivery binding time is invalid'')
       else if n_binding n \<noteq> None \<and> n_binding n \<noteq> Some binding
       then Inl (Plain_Error ''notification delivery binding conflict'')
       else Inr (update_intent key (\<lambda>n. n\<lparr>n_binding := or_else (n_binding n) (Some binding),
         n_bindingAt := or_else (n_bindingAt n) (Some now)\<rparr>) st))"

definition mark_allows :: "dstate \<Rightarrow> dstate \<Rightarrow> bool" where
  "mark_allows before after = (after \<in> set (case before of
     D_Pending \<Rightarrow> [D_Failed, D_Unknown]
   | D_Failed \<Rightarrow> [D_Failed, D_Unknown]
   | D_Unknown \<Rightarrow> [D_Unknown, D_Failed, D_Delivered]
   | D_Delivered \<Rightarrow> [D_Delivered]))"

definition or_zero :: "int option \<Rightarrow> int" where
  "or_zero t = (case t of Some v \<Rightarrow> v | None \<Rightarrow> 0)"

definition chronology_floor :: "intent \<Rightarrow> int" where
  "chronology_floor n = Max {al_lastTransitionAt (i_alert (n_incident n)), or_zero (n_bindingAt n),
     or_zero (n_firstAttemptAt n), or_zero (n_updatedAt n)}"

definition marked :: "dstate \<Rightarrow> int \<Rightarrow> intent \<Rightarrow> intent" where
  "marked delivery now n = n\<lparr>n_delivery := delivery, n_updatedAt := Some now,
     n_firstAttemptAt := (if delivery = D_Unknown then or_else (n_firstAttemptAt n) (Some now) else n_firstAttemptAt n)\<rparr>"

definition mark_record :: "dstate \<Rightarrow> intent \<Rightarrow> incident \<Rightarrow> incident" where
  "mark_record delivery n r = (if i_incidentId r = n_incidentId n \<and> i_revision r = n_revision n
     then r\<lparr>i_alert := (i_alert r)\<lparr>al_delivery := delivery\<rparr>\<rparr> else r)"

definition markNotificationDelivery :: "istate \<Rightarrow> string \<Rightarrow> dstate \<Rightarrow> int \<Rightarrow> istate res" where
  "markNotificationDelivery st key delivery now = (case find_intent st key of
     None \<Rightarrow> Inl (Type_Error (''unknown notification key: '' @ key))
   | Some n \<Rightarrow>
       if \<not> mark_allows (n_delivery n) delivery then Inl (Type_Error ''invalid notification delivery transition'')
       else if \<not> is_safe_int now \<or> now < chronology_floor n
       then Inl (Type_Error ''notification delivery update time is invalid'')
       else if (delivery = D_Unknown \<or> delivery = D_Delivered) \<and> n_binding n = None
       then Inl (Type_Error ''attempted notification delivery requires an immutable binding'')
       else if (delivery = D_Delivered \<or> delivery = D_Failed) \<and> n_binding n \<noteq> None
         \<and> \<not> (case n_firstAttemptAt n of Some t \<Rightarrow> is_safe_int t | None \<Rightarrow> False)
       then Inl (Type_Error ''terminal notification delivery requires durable attempt evidence'')
       else Inr ((update_intent key (marked delivery now) st)\<lparr>st_incidents :=
         update_first (\<lambda>r. i_root r = n_root n) (mark_record delivery n) (st_incidents st)\<rparr>))"

subsection \<open>What is still to be delivered\<close>

fun retryable :: "string \<Rightarrow> intent list \<Rightarrow> intent list res" where
  "retryable producer [] = Inr []"
| "retryable producer (n # ns) =
     (if n_producer n \<noteq> producer then retryable producer ns
      else rbind (ensure (\<not> (n_delivery n = D_Pending \<and> (n_firstAttemptAt n \<noteq> None \<or> n_updatedAt n \<noteq> None))
          \<and> \<not> ((n_delivery n = D_Unknown \<or> n_delivery n = D_Delivered)
             \<and> (n_binding n = None \<or> \<not> (case n_firstAttemptAt n of Some t \<Rightarrow> is_safe_int t | None \<Rightarrow> False))))
        (Type_Error ''attempted notification intent requires immutable binding and firstDeliveryAttemptAt'')) (\<lambda>_.
      rbind (retryable producer ns) (\<lambda>rest.
        Inr (if n_delivery n = D_Delivered then rest else n # rest))))"

definition retryableOutboxIntents :: "istate \<Rightarrow> string \<Rightarrow> intent list res" where
  "retryableOutboxIntents st producer = retryable producer (st_outbox st)"

end
