(* ===== verification/Wording.thy ===== *)
theory Wording
  imports IncidentStore
begin

section \<open>The wording of a notification\<close>

text \<open>
  \<^verbatim>\<open>stableNotificationText\<close> of \<^verbatim>\<open>packages/scheduler/src/watchdog/delivery.js\<close> and the search for its
  marker in the chat history. The text depends on the incident, the transition and the key alone, so it
  is a \<open>rendering\<close>, the parameter of the coherence check and of the delivery run. Strings are sequences of
  bytes here; the dash of the first line is its three UTF-8 bytes. A time outside the range of \<^verbatim>\<open>Date\<close>,
  which makes the code throw, is left empty.
\<close>

definition ROOT_CAUSE_SUMMARY :: "(string \<times> string) list" where
  "ROOT_CAUSE_SUMMARY =
    [(''RUN_STUCK_OUTCOME_UNKNOWN'', ''run ended without a known outcome (same-job admission fenced)''),
     (''RUN_STUCK'', ''run stuck without finishing''),
     (''RUN_FAILED'', ''run failed''),
     (''CONSECUTIVE_FAILURE'', ''job failing repeatedly''),
     (''EXPECTED_RUN_MISSED'', ''expected scheduled run missed''),
     (''SCHEDULER_RUNTIME_UNHEALTHY'', ''scheduler runtime unhealthy''),
     (''CREDENTIAL_PROVIDER_DEGRADED'', ''scheduler credential provider degraded''),
     (''SCHEDULER_WATCHDOG_FAILURE'', ''scheduler watchdog W1 liveness failure''),
     (''SCHEDULER_WATCHDOG_W2_FAILURE'', ''scheduler watchdog W2 liveness failure''),
     (''MUTATION_STILL_UNKNOWN'', ''scheduler mutation outcome still unknown'')]"

definition OPEN_ACTIONS :: "(string \<times> string) list" where
  "OPEN_ACTIONS =
    [(''RUN_STUCK_OUTCOME_UNKNOWN'', ''operator reconcile required to release the same-job admission fence''),
     (''RUN_STUCK'', ''watching for completion; reconcile the occurrence if it never terminates''),
     (''RUN_FAILED'', ''investigate the failed run; repeated failures aggregate into the job incident''),
     (''CONSECUTIVE_FAILURE'', ''automatic recovery monitoring active; investigate the failing job''),
     (''EXPECTED_RUN_MISSED'', ''watching for the next scheduled slot; investigate why the slot did not run''),
     (''SCHEDULER_RUNTIME_UNHEALTHY'', ''automatic recovery monitoring active; attributable occurrence alerts are recorded as evidence'')]"

definition NEXT_RUN_PROBE_TEXT :: "(string \<times> string \<times> string) list" where
  "NEXT_RUN_PROBE_TEXT =
    [(''next_run_projection_missing'', ''enabled job next-run projection missing'',
       ''inspect the job next-run projection; its definition and ledger may still permit execution''),
     (''no_remaining_run'', ''enabled job has no remaining scheduled run'',
       ''inspect the job schedule and retry state; operator action is required'')]"

definition or_unknown :: "string option \<Rightarrow> string" where
  "or_unknown v = (case v of Some s \<Rightarrow> s | None \<Rightarrow> ''unknown'')"

definition iso_text :: "ext \<Rightarrow> int \<Rightarrow> string" where
  "iso_text X t = (case to_iso X t of Some s \<Rightarrow> s | None \<Rightarrow> [])"

definition first_fact :: "incident \<Rightarrow> fact option" where
  "first_fact r = (case ci_facts (i_of r) of f # _ \<Rightarrow> Some f | [] \<Rightarrow> None)"

definition fact_field :: "(fact \<Rightarrow> string option) \<Rightarrow> incident \<Rightarrow> string option" where
  "fact_field f r = (case first_fact r of Some x \<Rightarrow> f x | None \<Rightarrow> None)"

definition marker :: "string \<Rightarrow> string" where
  "marker key = ''[notification-key:'' @ key @ '']''"

definition subject_line :: "incident \<Rightarrow> string" where
  "subject_line r = (case rin_stableSubjectId (ci_root (i_of r)) of
     Some s \<Rightarrow> if s \<noteq> [] then ''Subject: '' @ s else
       ''Agent: '' @ or_unknown (fact_field ft_agentId r) @ ''  Job: '' @ or_unknown (fact_field ft_logicalKey r)
         @ '' ('' @ or_unknown (rin_jobId (ci_root (i_of r))) @ '')''
   | None \<Rightarrow>
       ''Agent: '' @ or_unknown (fact_field ft_agentId r) @ ''  Job: '' @ or_unknown (fact_field ft_logicalKey r)
         @ '' ('' @ or_unknown (rin_jobId (ci_root (i_of r))) @ '')'')"

definition probe_text :: "incident \<Rightarrow> (string \<times> string) option" where
  "probe_text r = (if rin_cause (ci_root (i_of r)) = ''JOB_CONFIGURATION_INVALID''
     then (case fact_field ft_reason r of Some x \<Rightarrow> map_of NEXT_RUN_PROBE_TEXT x | None \<Rightarrow> None) else None)"

definition incidentDeliveryText :: "ext \<Rightarrow> incident \<Rightarrow> lifecycle \<Rightarrow> string \<Rightarrow> string" where
  "incidentDeliveryText X r kind key =
     (let cause = rin_cause (ci_root (i_of r));
          label = (case kind of L_Recovered \<Rightarrow> ''RECOVERED'' | L_Acknowledged \<Rightarrow> ''ACKNOWLEDGED'' | L_Open \<Rightarrow> ''OPEN'');
          summary = (case probe_text r of Some (s, _) \<Rightarrow> s
            | None \<Rightarrow> (case map_of ROOT_CAUSE_SUMMARY cause of Some s \<Rightarrow> s | None \<Rightarrow> cause));
          symptoms = (if ci_symptoms (i_of r) \<noteq> []
            then '' (also observed: '' @ join_with '', '' (ci_symptoms (i_of r)) @ '')'' else []);
          action = (case probe_text r of Some (_, a) \<Rightarrow> a
            | None \<Rightarrow> (case map_of OPEN_ACTIONS cause of Some a \<Rightarrow> a | None \<Rightarrow> ''automatic recovery monitoring active''))
      in join_with [CHR 0x0A]
        ([''Scheduler incident '' @ label @ '' '' @ [CHR 0xE2, CHR 0x80, CHR 0x94] @ '' '' @ summary,
          subject_line r, ''First detected: '' @ iso_text X (i_firstSeenAt r)]
         @ (if label = ''OPEN'' then [''Current state: ACTIVE'' @ symptoms, ''Action: '' @ action]
            else [''Current state: '' @ label @ '' at '' @ iso_text X (al_lastTransitionAt (i_alert r)),
              ''Recovery: resolved '' @ [CHR 0xE2, CHR 0x80, CHR 0x94] @ '' no further action required for this incident''])
         @ [''Evidence: '' @ i_incidentId r, marker key]))"

definition stableNotificationText :: "ext \<Rightarrow> rendering" where
  "stableNotificationText X r kind key =
     (if i_deliveryProjection r = Some DELIVERY_PROJECTION_VERSION then incidentDeliveryText X r kind key
      else ''Scheduler watchdog '' @ (case kind of L_Recovered \<Rightarrow> ''RECOVERED'' | L_Acknowledged \<Rightarrow> ''ACKNOWLEDGED'' | L_Open \<Rightarrow> ''NEW'')
        @ '' ['' @ i_root r @ ''] '' @ rin_cause (ci_root (i_of r)) @ '' '' @ marker key)"

text \<open>\<^verbatim>\<open>String.prototype.includes\<close>.\<close>

fun js_includes :: "string \<Rightarrow> string \<Rightarrow> bool" where
  "js_includes [] part \<longleftrightarrow> part = []"
| "js_includes (c # cs) part \<longleftrightarrow> take (length part) (c # cs) = part \<or> js_includes cs part"

definition feishuHistoryContainsNotification :: "string option list \<Rightarrow> string \<Rightarrow> bool" where
  "feishuHistoryContainsNotification items key = list_ex (\<lambda>item. case item of Some content \<Rightarrow> js_includes content (marker key) | None \<Rightarrow> False) items"

subsection \<open>A text ends with the marker of its key\<close>

lemma includes_end: "js_includes (xs @ part) part"
proof (induction xs)
  case Nil
  then show ?case by (cases part) simp_all
qed simp

lemma includes_before: "js_includes xs part \<Longrightarrow> js_includes (xs @ ys) part"
proof (induction xs)
  case Nil
  then show ?case by (cases ys) simp_all
next
  case (Cons a xs)
  have "take (length part) ((a # xs) @ ys) = part" if "take (length part) (a # xs) = part"
  proof -
    have "length part \<le> length (a # xs)"
      using arg_cong[OF that, of length] by simp
    then show ?thesis
      using that by (simp only: take_append) simp
  qed
  with Cons show ?case by auto
qed

lemma includes_inside: "js_includes (xs @ part @ ys) part"
  using includes_before[OF includes_end[of xs part], of ys] by simp

lemma join_last: "\<exists>front. join_with sep (xs @ [x]) = front @ x"
proof (induction xs)
  case Nil
  then show ?case by simp
next
  case (Cons y ys)
  then obtain front where "join_with sep (ys @ [x]) = front @ x" by blast
  then have "join_with sep ((y # ys) @ [x]) = (y @ sep @ front) @ x"
    by (cases "ys @ [x]") auto
  then show ?case by blast
qed

lemma join_last_of_two: "\<exists>front. join_with sep (xs @ ys @ [y, x]) = front @ x"
  using join_last[of sep "xs @ ys @ [y]" x] by simp

lemma text_ends_with_marker: "\<exists>front. stableNotificationText X r kind key = front @ marker key"
proof (cases "i_deliveryProjection r = Some DELIVERY_PROJECTION_VERSION")
  case True
  show ?thesis
    unfolding stableNotificationText_def if_P[OF True] incidentDeliveryText_def Let_def by (rule join_last_of_two)
next
  case False
  then show ?thesis by (simp add: stableNotificationText_def)
qed

text \<open>
  A message that carries the text of a notification, with whatever the provider puts around it, is
  recognised in the chat history by the key of the notification: the run that finds its delivery in
  doubt will not send it again.
\<close>

lemma sent_text_is_recognised:
  "feishuHistoryContainsNotification (items @ [Some (before @ stableNotificationText X r kind key @ after)] @ others) key"
proof -
  obtain front where "stableNotificationText X r kind key = front @ marker key"
    using text_ends_with_marker by metis
  then have "js_includes (before @ stableNotificationText X r kind key @ after) (marker key)"
    using includes_inside[of "before @ front" "marker key" after] by simp
  then show ?thesis
    by (simp add: feishuHistoryContainsNotification_def)
qed

end
