(* ===== verification/IncidentValidity.thy ===== *)
theory IncidentValidity
  imports IncidentStore
begin

section \<open>Every transition of an incident can be committed\<close>

text \<open>
  The invariant behind the checks of the durable incident state, and its preservation by the lifecycle:
  whatever the findings are, the state that a watchdog run computes from a stored one is accepted by the
  commit. The only way out is a collision of SHA-256, so the lemmas assume that the keys of the
  notifications at hand do not collide.
\<close>

subsection \<open>Names with a numeral at the end\<close>

lemma separator_inj:
  assumes "s \<notin> set x" and "s \<notin> set y"
  shows "a @ s # x = b @ s # y \<longleftrightarrow> a = b \<and> x = y"
proof
  have tw: "takeWhile (\<lambda>c. c \<noteq> s) (rev (c @ s # z)) = rev z" if "s \<notin> set z" for c z
  proof -
    have "\<forall>x \<in> set (rev z). x \<noteq> s" using that by auto
    then have "takeWhile (\<lambda>c. c \<noteq> s) (rev z @ s # rev c) = rev z @ takeWhile (\<lambda>c. c \<noteq> s) (s # rev c)"
      by (intro takeWhile_append2) simp
    then show ?thesis by simp
  qed
  assume eq: "a @ s # x = b @ s # y"
  then have "rev x = rev y"
    using tw[OF assms(1), of a] tw[OF assms(2), of b] by simp
  with eq show "a = b \<and> x = y" by simp
qed simp

lemma int_str_chars: "c \<in> set (int_str i) \<Longrightarrow> is_digit c \<or> c = CHR ''-''"
  using nat_str_digits by (auto simp: int_str_def split: if_splits)

lemma int_str_no: "CHR '':'' \<notin> set (int_str i)" "CHR ''|'' \<notin> set (int_str i)"
  using int_str_chars[of "CHR '':''" i] int_str_chars[of "CHR ''|''" i] by (auto simp: is_digit_def)

lemma incident_id_inj [simp]: "incident_id a i = incident_id b j \<longleftrightarrow> a = b \<and> i = j"
proof -
  have "incident_id a i = (a @ ''|episode'') @ CHR '':'' # int_str i" for a i
    by (simp add: incident_id_def)
  then have "incident_id a i = incident_id b j \<longleftrightarrow> a @ ''|episode'' = b @ ''|episode'' \<and> int_str i = int_str j"
    by (simp only: separator_inj[OF int_str_no(1) int_str_no(1)])
  then show ?thesis
    by (simp add: int_str_inj)
qed

lemma n_identity_inj [simp]:
  "n_identity m = n_identity n \<longleftrightarrow> n_incidentId m = n_incidentId n \<and> n_revision m = n_revision n"
  by (simp add: n_identity_def separator_inj[OF int_str_no(2) int_str_no(2)] int_str_inj)

subsection \<open>The checks as a predicate\<close>

lemma each_Inr: "each f xs = Inr () \<longleftrightarrow> (\<forall>x \<in> set xs. f x = Inr ())"
  by (induction xs) (auto simp: rbind_eq_Inr)

definition outbox_ok :: "ext \<Rightarrow> rendering \<Rightarrow> istate \<Rightarrow> intent \<Rightarrow> bool" where
  "outbox_ok X render st n \<longleftrightarrow> record_coherent (n_incident n) \<and> intent_coherent X st n
     \<and> binding_coherent render n \<and> chronology_coherent n"

definition record_ok :: "ext \<Rightarrow> bool \<Rightarrow> istate \<Rightarrow> incident \<Rightarrow> bool" where
  "record_ok X migrated st r \<longleftrightarrow> record_coherent r \<and> history_coherent migrated r
     \<and> (if intents_of st r = [] then al_delivery (i_alert r) = D_Delivered \<and> migrated
        else history_complete migrated r (intents_of st r)
          \<and> (\<exists>n. filter (\<lambda>n. n_revision n = i_revision r) (intents_of st r) = [n] \<and> current_coherent X migrated r n))"

definition wf_istate :: "istate \<Rightarrow> bool" where
  "wf_istate st \<longleftrightarrow> distinct (map i_root (st_incidents st)) \<and> distinct (map n_key (st_outbox st))"

definition valid_istate :: "ext \<Rightarrow> rendering \<Rightarrow> istate \<Rightarrow> bool" where
  "valid_istate X render st \<longleftrightarrow> wf_istate st
     \<and> (\<forall>n \<in> set (st_outbox st). outbox_ok X render st n) \<and> distinct (map n_identity (st_outbox st))
     \<and> (\<forall>r \<in> set (st_incidents st). record_ok X (st_migration st \<noteq> None) st r)"

lemma intent_coherent_record: "intent_coherent X st n \<Longrightarrow> find_incident st (n_root n) \<noteq> None"
  by (auto simp: intent_coherent_def Let_def split: option.splits)

lemma validateOutbox_Inr:
  "validateOutbox X render st ids ns = Inr () \<longleftrightarrow>
    (\<forall>n \<in> set ns. outbox_ok X render st n) \<and> distinct (map n_identity ns) \<and> set (map n_identity ns) \<inter> set ids = {}"
proof (induction ns arbitrary: ids)
  case (Cons n ns)
  have "validateOutbox X render st ids (n # ns) = Inr () \<longleftrightarrow>
      outbox_ok X render st n \<and> n_identity n \<notin> set ids \<and> validateOutbox X render st (n_identity n # ids) ns = Inr ()"
    using intent_coherent_record[of X st n]
    by (auto simp: rbind_eq_Inr ensure_eq_Inr outbox_ok_def requireIncidentRecord_def)
  with Cons.IH[of "n_identity n # ids"] show ?case by auto
qed simp

lemma validate_record_Inr: "validate_record X migrated st r = Inr () \<longleftrightarrow> record_ok X migrated st r"
  by (auto simp: validate_record_def record_ok_def requireIncidentRecord_def rbind_eq_Inr ensure_eq_Inr Let_def
      split: list.splits)

lemma validateIncidentState_Inr:
  "validateIncidentState X render authority st = Inr st' \<longleftrightarrow> st' = st \<and> hasValidMigration st \<noteq> Inl (Type_Error ''incoherent incident migration'')
    \<and> (st_migration st \<noteq> None \<longrightarrow> st_migration st = authority)
    \<and> (\<forall>n \<in> set (st_outbox st). outbox_ok X render st n) \<and> distinct (map n_identity (st_outbox st))
    \<and> (\<forall>r \<in> set (st_incidents st). record_ok X (st_migration st \<noteq> None) st r)"
  by (cases "st_migration st")
    (auto simp: validateIncidentState_def hasValidMigration_def rbind_eq_Inr ensure_eq_Inr validateOutbox_Inr each_Inr
      validate_record_Inr ensure_def)

definition migration_ok :: "(migration \<Rightarrow> bool) \<Rightarrow> istate \<Rightarrow> bool" where
  "migration_ok backups st \<longleftrightarrow> (case st_migration st of None \<Rightarrow> True
     | Some m \<Rightarrow> is_sha256 (mg_evidence m) \<and> is_sha256 (mg_facts m) \<and> is_sha256 (mg_legacy m) \<and> backups m)"

lemma checked_state_Inr:
  "checked_state X render backups st = Inr st' \<longleftrightarrow> st' = st \<and> migration_ok backups st
    \<and> (\<forall>n \<in> set (st_outbox st). outbox_ok X render st n) \<and> distinct (map n_identity (st_outbox st))
    \<and> (\<forall>r \<in> set (st_incidents st). record_ok X (st_migration st \<noteq> None) st r)"
  by (cases "st_migration st")
    (auto simp: checked_state_def verifiedMigrationAuthority_def validateIncidentState_Inr hasValidMigration_def
      rbind_eq_Inr ensure_eq_Inr migration_ok_def ensure_def split: if_splits)

lemma checked_state_valid:
  "wf_istate st \<Longrightarrow> checked_state X render backups st = Inr st \<longleftrightarrow> migration_ok backups st \<and> valid_istate X render st"
  by (auto simp: checked_state_Inr valid_istate_def)

lemma empty_istate_valid [simp]: "valid_istate X render empty_istate" "migration_ok backups empty_istate"
  by (simp_all add: valid_istate_def wf_istate_def empty_istate_def migration_ok_def)

lemma loaded_valid:
  assumes "loadIncidentState X render backups disk = Inr st" and "wf_istate st"
  shows "valid_istate X render st" and "migration_ok backups st"
proof -
  have "checked_state X render backups st = Inr st" if "disk = Some d" for d
    using assms(1) that by (auto simp: loadIncidentState_def checked_state_Inr split: sum.splits)
  then show "valid_istate X render st" and "migration_ok backups st"
    using assms checked_state_valid[OF assms(2)] by (cases disk; simp add: loadIncidentState_def)+
qed


subsection \<open>Rows stored under their names\<close>

lemma find_put_row: "find (\<lambda>y. key y = k) (put_row key x xs) = (if k = key x then Some x else find (\<lambda>y. key y = k) xs)"
  by (induction xs) auto

lemma put_row_keys: "set (map key (put_row key x xs)) = insert (key x) (set (map key xs))"
  by (induction xs) auto

lemma put_row_distinct: "distinct (map key xs) \<Longrightarrow> distinct (map key (put_row key x xs))"
proof (induction xs)
  case (Cons y ys)
  have "key y \<notin> key ` set (put_row key x ys)" if "key y \<noteq> key x"
    using Cons.prems that put_row_keys[of key x ys] by auto
  with Cons show ?case by auto
qed simp

lemma put_row_member: "distinct (map key xs) \<Longrightarrow> y \<in> set (put_row key x xs) \<longleftrightarrow> y = x \<or> (y \<in> set xs \<and> key y \<noteq> key x)"
  by (induction xs) (auto simp: image_iff)

lemma find_incident_in:
  assumes "wf_istate st"
  shows "find_incident st k = Some r \<longleftrightarrow> r \<in> set (st_incidents st) \<and> i_root r = k"
  using assms find_key_distinct[of i_root "st_incidents st" r] find_Some_set[of "\<lambda>r. i_root r = k" "st_incidents st" r]
  by (auto simp: find_incident_def wf_istate_def)

lemma find_incident_put [simp]:
  "find_incident (put_incident r st) k = (if k = i_root r then Some r else find_incident st k)"
  by (simp add: find_incident_def put_incident_def find_put_row)

lemma put_incident_fields [simp]:
  "st_outbox (put_incident r st) = st_outbox st" "st_migration (put_incident r st) = st_migration st"
  "intents_of (put_incident r st) r' = intents_of st r'"
  by (simp_all add: put_incident_def intents_of_def)

lemma put_outbox_fields [simp]:
  "st_incidents (put_outbox n st) = st_incidents st" "st_migration (put_outbox n st) = st_migration st"
  "find_incident (put_outbox n st) k = find_incident st k"
  by (simp_all add: put_outbox_def find_incident_def)

subsection \<open>A record that changes nothing the checks read\<close>

definition same_row :: "incident \<Rightarrow> incident \<Rightarrow> bool" where
  "same_row r r' \<longleftrightarrow> i_root r' = i_root r \<and> ci_root (i_of r') = ci_root (i_of r)
     \<and> ci_routeClass (i_of r') = ci_routeClass (i_of r) \<and> i_producer r' = i_producer r \<and> i_episode r' = i_episode r
     \<and> i_incidentId r' = i_incidentId r \<and> i_lifecycle r' = i_lifecycle r \<and> i_revision r' = i_revision r
     \<and> i_alert r' = i_alert r"

lemma same_row_record_ok: "same_row r r' \<Longrightarrow> record_ok X mig st r' = record_ok X mig st r"
  by (simp add: same_row_def record_ok_def record_coherent_def history_coherent_def history_complete_def
      current_coherent_def intents_of_def)

lemma record_ok_outbox: "st_outbox st' = st_outbox st \<Longrightarrow> record_ok X mig st' r = record_ok X mig st r"
  by (simp add: record_ok_def intents_of_def)

lemma intent_coherent_later:
  assumes "intent_coherent X st n" and "\<And>r. find_incident st (n_root n) = Some r \<Longrightarrow> \<exists>r'. find_incident st' (n_root n) = Some r'
      \<and> (i_episode r < i_episode r' \<or> i_episode r = i_episode r' \<and> i_revision r \<le> i_revision r')"
  shows "intent_coherent X st' n"
proof -
  obtain r where r: "find_incident st (n_root n) = Some r"
    using intent_coherent_record[OF assms(1)] by blast
  then obtain r' where "find_incident st' (n_root n) = Some r'"
    "i_episode r < i_episode r' \<or> i_episode r = i_episode r' \<and> i_revision r \<le> i_revision r'"
    using assms(2) by blast
  with assms(1) r show ?thesis by (auto simp: intent_coherent_def Let_def)
qed

lemma valid_put_same:
  assumes "valid_istate X render st" and "find_incident st (i_root r) = Some r" and "same_row r r'"
  shows "valid_istate X render (put_incident r' st)"
proof -
  have wf: "wf_istate st" and k: "i_root r' = i_root r"
    using assms(1,3) by (simp_all add: valid_istate_def same_row_def)
  have "wf_istate (put_incident r' st)"
    using wf put_row_distinct[of i_root "st_incidents st" r'] by (simp add: wf_istate_def put_incident_def)
  moreover have "outbox_ok X render (put_incident r' st) n" if "n \<in> set (st_outbox st)" for n
  proof -
    have o: "outbox_ok X render st n"
      using assms(1) that by (simp add: valid_istate_def)
    then have "intent_coherent X st n" by (simp add: outbox_ok_def)
    then have "intent_coherent X (put_incident r' st) n"
      by (rule intent_coherent_later) (use assms(2,3) in \<open>auto simp: same_row_def\<close>)
    with o show ?thesis by (simp add: outbox_ok_def)
  qed
  moreover have "record_ok X (st_migration st \<noteq> None) (put_incident r' st) q" if "q \<in> set (st_incidents (put_incident r' st))" for q
  proof -
    have "q = r' \<or> q \<in> set (st_incidents st)"
      using that wf put_row_member[of i_root "st_incidents st" q r'] by (auto simp: put_incident_def wf_istate_def)
    moreover have "r \<in> set (st_incidents st)"
      using assms(2) find_incident_in[OF wf] by blast
    ultimately show ?thesis
      using assms(1) same_row_record_ok[OF assms(3)] by (auto simp: valid_istate_def record_ok_outbox[of "put_incident r' st" st])
  qed
  ultimately show ?thesis
    using assms(1) by (auto simp: valid_istate_def)
qed

subsection \<open>One transition\<close>

definition may_follow :: "istate \<Rightarrow> lifecycle \<Rightarrow> incident \<Rightarrow> bool" where
  "may_follow st kind record \<longleftrightarrow> i_lifecycle record = kind
     \<and> (if kind = L_Open then i_revision record = 0
           \<and> (\<forall>r. find_incident st (i_root record) = Some r \<longrightarrow> i_episode r < i_episode record)
        else i_revision record = 1 \<and> (\<exists>r. find_incident st (i_root record) = Some r \<and> i_episode r = i_episode record
           \<and> i_incidentId r = i_incidentId record \<and> i_lifecycle r = L_Open \<and> i_revision r = 1))"

lemma outbox_revisions:
  assumes valid: "valid_istate X render st" and "may_follow st kind record"
    and "i_incidentId record = incident_id (i_root record) (i_episode record)"
    and m: "m \<in> set (st_outbox st)" "n_incidentId m = i_incidentId record"
  shows "kind \<noteq> L_Open \<and> n_revision m \<le> i_revision record"
proof -
  have "intent_coherent X st m"
    using valid m(1) by (simp add: valid_istate_def outbox_ok_def)
  then obtain r where r: "find_incident st (n_root m) = Some r"
    "n_incidentId m = incident_id (n_root m) (i_episode (n_incident m))" "i_episode (n_incident m) \<le> i_episode r"
    "i_episode (n_incident m) = i_episode r \<longrightarrow> n_revision m \<le> i_revision r"
    by (auto simp: intent_coherent_def Let_def split: option.splits)
  then have "n_root m = i_root record" "i_episode (n_incident m) = i_episode record"
    using assms(3) m(2) by simp_all
  with r assms(2) show ?thesis
    by (auto simp: may_follow_def split: if_splits)
qed

lemma transitioned_fields [simp]:
  "i_of (transitioned now r) = i_of r" "i_incidentId (transitioned now r) = i_incidentId r"
  "i_episode (transitioned now r) = i_episode r" "i_lifecycle (transitioned now r) = i_lifecycle r"
  "i_revision (transitioned now r) = i_revision r + 1" "i_producer (transitioned now r) = i_producer r"
  "al_delivery (i_alert (transitioned now r)) = D_Pending"
  by (simp_all add: transitioned_def)

lemma transitionIntent_fields [simp]:
  "n_incident (transitionIntent X kind r) = r" "n_incidentId (transitionIntent X kind r) = i_incidentId r"
  "n_revision (transitionIntent X kind r) = i_revision r" "n_kind (transitionIntent X kind r) = kind"
  "n_routeClass (transitionIntent X kind r) = ci_routeClass (i_of r)" "n_producer (transitionIntent X kind r) = i_producer r"
  "n_delivery (transitionIntent X kind r) = D_Pending" "n_payloadRevision (transitionIntent X kind r) = i_revision r"
  "n_binding (transitionIntent X kind r) = None" "n_bindingAt (transitionIntent X kind r) = None"
  "n_firstAttemptAt (transitionIntent X kind r) = None" "n_updatedAt (transitionIntent X kind r) = None"
  "n_key (transitionIntent X kind r) = notificationKey X (i_incidentId r, i_revision r, kind, ci_routeClass (i_of r))"
  by (simp_all add: transitionIntent_def)

lemma may_follow_kind:
  assumes "may_follow st kind record"
  shows "i_lifecycle record = kind" and "kind = L_Open \<and> i_revision record = 0 \<or> kind \<noteq> L_Open \<and> i_revision record = 1"
  using assms by (simp_all add: may_follow_def split: if_splits)

lemma emit_intent_ok:
  assumes "may_follow st kind record" and "record_coherent (transitioned now record)"
  shows "outbox_ok X render (put_incident (transitioned now record) st) (transitionIntent X kind (transitioned now record))"
proof -
  let ?n = "transitionIntent X kind (transitioned now record)"
  have "binding_coherent render ?n" and "chronology_coherent ?n"
    by (simp_all add: binding_coherent_def chronology_coherent_def at_least_def)
  moreover have "expected_kind ?n = Some kind"
    using may_follow_kind(2)[OF assms(1)] by (auto simp: expected_kind_def)
  then have "intent_coherent X (put_incident (transitioned now record) st) ?n"
    using assms(2) may_follow_kind(1)[OF assms(1)]
    by (simp add: intent_coherent_def record_coherent_def n_coords_def)
  ultimately show ?thesis
    using assms(2) by (simp add: outbox_ok_def)
qed

lemma emit_record_ok:
  assumes valid: "valid_istate X render st" and follow: "may_follow st kind record"
    and coh: "record_coherent (transitioned now record)"
    and st': "st_outbox st' = st_outbox st @ [transitionIntent X kind (transitioned now record)]"
  shows "record_ok X (st_migration st \<noteq> None) st' (transitioned now record)"
proof -
  let ?r = "transitioned now record" and ?n = "transitionIntent X kind (transitioned now record)"
  let ?mig = "st_migration st \<noteq> None"
  have wf: "wf_istate st"
    using valid by (simp add: valid_istate_def)
  have name: "i_incidentId record = incident_id (i_root record) (i_episode record)"
    using coh by (simp add: record_coherent_def)
  have entries: "intents_of st' ?r = filter (\<lambda>m. n_incidentId m = i_incidentId record) (st_outbox st) @ [?n]"
    by (simp add: intents_of_def st')
  have old: "n_revision m \<le> i_revision record \<and> kind \<noteq> L_Open" if "m \<in> set (st_outbox st)" "n_incidentId m = i_incidentId record" for m
    using outbox_revisions[OF valid follow name that] by blast
  have single: "filter (\<lambda>m. n_revision m = i_revision ?r) (intents_of st' ?r) = [?n]"
    using old by (fastforce simp: entries filter_empty_conv)
  have "?mig \<or> 1 \<in> n_revision ` set (intents_of st' ?r)"
  proof (cases "kind = L_Open")
    case True
    then show ?thesis using follow by (auto simp: entries may_follow_def)
  next
    case False
    then obtain q where q: "find_incident st (i_root record) = Some q" "i_incidentId q = i_incidentId record" "i_revision q = 1"
      using follow by (auto simp: may_follow_def)
    then have "record_ok X ?mig st q"
      using valid find_incident_in[OF wf] by (auto simp: valid_istate_def)
    then have "?mig \<or> 1 \<in> n_revision ` set (intents_of st q)"
      using q(3) by (auto simp: record_ok_def history_complete_def split: if_splits)
    moreover have "set (intents_of st q) \<subseteq> set (intents_of st' ?r)"
      unfolding entries using q(2) by (auto simp: intents_of_def)
    ultimately show ?thesis by blast
  qed
  moreover have "i_revision ?r = 1 \<or> i_revision ?r = 2"
    using follow by (auto simp: may_follow_def split: if_splits)
  ultimately have "history_complete ?mig ?r (intents_of st' ?r)"
  proof -
    assume one: "?mig \<or> 1 \<in> n_revision ` set (intents_of st' ?r)" and two: "i_revision ?r = 1 \<or> i_revision ?r = 2"
    have "i_revision ?r \<in> n_revision ` set (intents_of st' ?r)"
      by (simp add: entries)
    moreover have "k = 1 \<or> k = i_revision ?r" if "k \<in> {1..i_revision ?r}" for k
      using that two by auto
    ultimately show ?thesis
      using one unfolding history_complete_def by blast
  qed
  moreover have "current_coherent X ?mig ?r ?n"
    using follow by (simp add: current_coherent_def n_coords_def may_follow_def)
  moreover have "history_coherent ?mig ?r"
    using follow by (auto simp: history_coherent_def may_follow_def split: if_splits)
  ultimately show ?thesis
    using coh single by (auto simp: record_ok_def entries)
qed

lemma emit_valid:
  assumes valid: "valid_istate X render st" and follow: "may_follow st kind record"
    and coh: "record_coherent (transitioned now record)"
    and fresh: "n_key (transitionIntent X kind (transitioned now record)) \<notin> n_key ` set (st_outbox st)"
  shows "valid_istate X render (fst (emit X kind now record (st, notes)))"
    and "st_outbox (fst (emit X kind now record (st, notes))) = st_outbox st @ [transitionIntent X kind (transitioned now record)]"
proof -
  let ?r = "transitioned now record" and ?n = "transitionIntent X kind (transitioned now record)"
  let ?st = "put_outbox ?n (put_incident ?r st)"
  have st: "fst (emit X kind now record (st, notes)) = ?st"
    by (simp add: emit_def Let_def)
  have out: "st_outbox ?st = st_outbox st @ [?n]"
    using fresh by (auto simp: put_outbox_def)
  have wf: "wf_istate st"
    using valid by (simp add: valid_istate_def)
  have name: "i_incidentId record = incident_id (i_root record) (i_episode record)"
    using coh by (simp add: record_coherent_def)
  note old = outbox_revisions[OF valid follow name]
  have "wf_istate ?st"
    using wf fresh put_row_distinct[of i_root "st_incidents st" ?r] by (simp add: wf_istate_def out) (simp add: put_incident_def)
  moreover have "outbox_ok X render ?st m" if "m \<in> set (st_outbox st)" for m
  proof -
    have o: "outbox_ok X render st m"
      using valid that by (simp add: valid_istate_def)
    then have "intent_coherent X st m" by (simp add: outbox_ok_def)
    then have "intent_coherent X ?st m"
      by (rule intent_coherent_later) (use follow in \<open>auto simp: may_follow_def split: if_splits\<close>)
    with o show ?thesis by (simp add: outbox_ok_def)
  qed
  moreover have "outbox_ok X render ?st ?n"
    using emit_intent_ok[OF follow coh, of X render] by (simp add: outbox_ok_def intent_coherent_def)
  moreover have "distinct (map n_identity (st_outbox ?st))"
    using valid old by (fastforce simp: valid_istate_def out)
  moreover have "record_ok X (st_migration st \<noteq> None) ?st q" if "q \<in> set (st_incidents ?st)" for q
  proof (cases "q = ?r")
    case True
    then show ?thesis using emit_record_ok[OF valid follow coh out] by simp
  next
    case False
    then have q: "q \<in> set (st_incidents st)" "i_root q \<noteq> i_root record"
      using that wf put_row_member[of i_root "st_incidents st" q ?r] by (auto simp: put_incident_def wf_istate_def)
    have ok: "record_ok X (st_migration st \<noteq> None) st q"
      using valid q(1) by (simp add: valid_istate_def)
    then have "i_incidentId q \<noteq> i_incidentId record"
      using q(2) name by (simp add: record_ok_def record_coherent_def)
    then have "intents_of ?st q = intents_of st q"
      by (simp add: intents_of_def out)
    with ok show ?thesis by (simp add: record_ok_def)
  qed
  ultimately show "valid_istate X render (fst (emit X kind now record (st, notes)))"
    by (auto simp: valid_istate_def st out)
  show "st_outbox (fst (emit X kind now record (st, notes))) = st_outbox st @ [?n]"
    by (simp add: st out)
qed

subsection \<open>A whole run\<close>

definition collision_free :: "ext \<Rightarrow> istate \<Rightarrow> intent list \<Rightarrow> bool" where
  "collision_free X st notes \<longleftrightarrow> inj_on (notificationKey X) (n_coords ` (set (st_outbox st) \<union> set notes))"

text \<open>
  What holds between the steps of one run that started from \<open>st0\<close>: the state is valid, what the run
  has emitted so far stands at the end of the outbox, and the episodes leave room for \<open>room\<close> more.
\<close>

definition run_inv :: "ext \<Rightarrow> rendering \<Rightarrow> istate \<Rightarrow> nat \<Rightarrow> istate \<times> intent list \<Rightarrow> bool" where
  "run_inv X render st0 room acc \<longleftrightarrow> valid_istate X render (fst acc) \<and> st_outbox (fst acc) = st_outbox st0 @ snd acc
     \<and> st_migration (fst acc) = st_migration st0
     \<and> (\<forall>r \<in> set (st_incidents (fst acc)). i_episode r + int room \<le> max_safe)"

lemma run_inv_less: "run_inv X render st0 (Suc k) acc \<Longrightarrow> run_inv X render st0 k acc"
  by (force simp: run_inv_def)

lemma emit_notes: "snd (emit X kind now record acc) = snd acc @ [transitionIntent X kind (transitioned now record)]"
  by (cases acc) (simp add: emit_def Let_def)

lemma emit_incidents:
  "st_incidents (fst (emit X kind now record acc)) = put_row i_root (transitioned now record) (st_incidents (fst acc))"
  by (cases acc) (simp add: emit_def Let_def put_incident_def)

lemma emit_find [simp]:
  "find_incident (fst (emit X kind now record acc)) k =
    (if k = i_root record then Some (transitioned now record) else find_incident (fst acc) k)"
  by (cases acc) (simp add: emit_def Let_def)

lemma emit_migration [simp]: "st_migration (fst (emit X kind now record acc)) = st_migration (fst acc)"
  by (cases acc) (simp add: emit_def Let_def)

lemma emit_inv:
  assumes inv: "run_inv X render st0 k acc" and follow: "may_follow (fst acc) kind record"
    and coh: "record_coherent (transitioned now record)"
    and free: "collision_free X st0 (snd (emit X kind now record acc))"
    and room: "i_episode record + int k \<le> max_safe"
  shows "run_inv X render st0 k (emit X kind now record acc)"
proof -
  let ?n = "transitionIntent X kind (transitioned now record)"
  obtain st "notes" where acc: "acc = (st, notes)" by (cases acc)
  have valid: "valid_istate X render st" and out: "st_outbox st = st_outbox st0 @ notes"
    using inv by (simp_all add: run_inv_def acc)
  have name: "i_incidentId record = incident_id (i_root record) (i_episode record)"
    using coh by (simp add: record_coherent_def)
  have "n_key ?n \<noteq> n_key m" if m: "m \<in> set (st_outbox st)" for m
  proof
    assume eq: "n_key ?n = n_key m"
    have "n_key m = notificationKey X (n_coords m)"
      using valid m by (auto simp: valid_istate_def outbox_ok_def intent_coherent_def Let_def split: option.splits)
    moreover have "n_key ?n = notificationKey X (n_coords ?n)"
      by (simp add: n_coords_def)
    ultimately have same: "notificationKey X (n_coords ?n) = notificationKey X (n_coords m)"
      using eq by simp
    have "n_coords ?n = n_coords m"
      by (rule inj_onD[OF free[unfolded collision_free_def] same]) (use m out in \<open>auto simp: emit_notes acc\<close>)
    then have "n_incidentId m = i_incidentId record" and "n_revision m = i_revision record + 1"
      by (auto simp: n_coords_def)
    then show False
      using outbox_revisions[OF valid _ name m, of kind] follow by (simp add: acc)
  qed
  then have fresh: "n_key ?n \<notin> n_key ` set (st_outbox st)" by blast
  have f: "may_follow st kind record"
    using follow by (simp add: acc)
  have wf: "distinct (map i_root (st_incidents st))"
    using valid by (simp add: valid_istate_def wf_istate_def)
  have "i_episode r + int k \<le> max_safe" if "r \<in> set (st_incidents (fst (emit X kind now record acc)))" for r
    using that inv room put_row_member[OF wf, of r "transitioned now record"]
    by (force simp: run_inv_def acc emit_incidents)
  then show ?thesis
    using emit_valid[OF valid f coh fresh, of "notes"] inv out
    by (simp add: run_inv_def acc emit_notes)
qed

text \<open>Later steps only add notifications.\<close>

definition appends :: "(istate \<times> intent list \<Rightarrow> istate \<times> intent list) \<Rightarrow> bool" where
  "appends f \<longleftrightarrow> (\<forall>acc. \<exists>more. snd (f acc) = snd acc @ more)"

lemma grows_emit: "\<exists>more. snd (emit X kind now record acc) = snd acc @ more"
  by (simp add: emit_notes)

lemma grows_acknowledge: "\<exists>more. snd (acknowledge X now acks rt acc) = snd acc @ more"
  using grows_emit by (auto simp: acknowledge_def split: option.splits)

lemma grows_incident_step: "appends (incident_step X now acks producer c)"
proof -
  have "\<exists>more. snd (acknowledge X now acks rt (emit X kind now q acc)) = snd acc @ more" for rt kind q acc
    using grows_acknowledge[of X now acks rt "emit X kind now q acc"] by (auto simp: emit_notes)
  moreover have "\<exists>more. snd (acknowledge X now acks rt (st, snd acc)) = snd acc @ more" for rt st acc
    using grows_acknowledge[of X now acks rt "(st, snd acc)"] by simp
  ultimately show ?thesis
    by (auto simp: appends_def incident_step_def emit_notes split: option.splits)
qed

lemma grows_recover_step: "appends (recover_step X now seen owns r)"
  using grows_emit by (auto simp: appends_def recover_step_def)

lemma grows_fold:
  assumes "\<And>x. appends (f x)"
  shows "\<exists>more. snd (fold f xs acc) = snd acc @ more"
proof (induction xs arbitrary: acc)
  case (Cons x xs)
  obtain more where "snd (f x acc) = snd acc @ more"
    using assms[of x] unfolding appends_def by blast
  moreover obtain rest where "snd (fold f xs (f x acc)) = snd (f x acc) @ rest"
    using Cons.IH by blast
  ultimately show ?case by simp
qed simp

lemma grows_incident_steps: "\<exists>more. snd (fold (incident_step X now acks producer) cs acc) = snd acc @ more"
  by (intro grows_fold grows_incident_step)

lemma grows_recover_steps: "\<exists>more. snd (fold (recover_step X now seen owns) rs acc) = snd acc @ more"
  by (intro grows_fold grows_recover_step)

lemma collision_free_prefix: "collision_free X st ns' \<Longrightarrow> ns' = ns @ ms \<Longrightarrow> collision_free X st ns"
  unfolding collision_free_def by (rule inj_on_subset) auto

subsection \<open>The steps of a run\<close>

definition good_input :: "compiled \<Rightarrow> bool" where
  "good_input c \<longleftrightarrow> rin_cause (ci_root c) \<noteq> [] \<and> ci_routeClass c \<noteq> []"

lemma open_record_fields [simp]:
  "i_of (open_record now producer e c) = c" "i_episode (open_record now producer e c) = e"
  "i_incidentId (open_record now producer e c) = incident_id (ci_identity c) e"
  "i_lifecycle (open_record now producer e c) = L_Open" "i_revision (open_record now producer e c) = 0"
  "i_producer (open_record now producer e c) = producer"
  by (simp_all add: open_record_def)

lemma open_record_coherent:
  assumes "good_input c" and "producer \<noteq> []" and "1 \<le> e" and "e \<le> max_safe"
  shows "record_coherent (transitioned now (open_record now producer e c))"
  using assms by (simp add: record_coherent_def good_input_def is_safe_int_def max_safe_def)
    (simp add: transitioned_def open_record_def)

lemma closed_as_fields [simp]:
  "i_of (closed_as l r) = i_of r" "i_episode (closed_as l r) = i_episode r"
  "i_incidentId (closed_as l r) = i_incidentId r" "i_lifecycle (closed_as l r) = l"
  "i_revision (closed_as l r) = i_revision r" "i_producer (closed_as l r) = i_producer r"
  by (simp_all add: closed_as_def)

lemma closed_coherent:
  assumes "record_coherent r" and "i_revision r = 1"
  shows "record_coherent (transitioned now (closed_as l r))"
  using assms by (auto simp: record_coherent_def is_safe_int_def max_safe_def) (simp_all add: transitioned_def closed_as_def)

lemma closing_inv:
  assumes inv: "run_inv X render st0 k acc" and r: "find_incident (fst acc) rt = Some r" "i_lifecycle r = L_Open"
    and l: "l \<noteq> L_Open" and free: "collision_free X st0 (snd (emit X l now (closed_as l r) acc))"
  shows "run_inv X render st0 k (emit X l now (closed_as l r) acc)"
proof (rule emit_inv[OF inv _ _ free])
  have wf: "wf_istate (fst acc)"
    using inv by (simp add: run_inv_def valid_istate_def)
  then have m: "r \<in> set (st_incidents (fst acc))" and rt: "rt = i_root r"
    using r(1) by (simp_all add: find_incident_in)
  have "valid_istate X render (fst acc)"
    using inv by (simp add: run_inv_def)
  with m have ok: "record_ok X (st_migration (fst acc) \<noteq> None) (fst acc) r"
    by (simp add: valid_istate_def)
  then have one: "i_revision r = 1"
    using r(2) by (simp add: record_ok_def history_coherent_def)
  with r rt l show "may_follow (fst acc) l (closed_as l r)"
    by (auto simp: may_follow_def)
  show "record_coherent (transitioned now (closed_as l r))"
    using ok one by (intro closed_coherent) (simp_all add: record_ok_def)
  show "i_episode (closed_as l r) + int k \<le> max_safe"
    using inv m by (force simp: run_inv_def)
qed

lemma acknowledge_inv:
  assumes "run_inv X render st0 k acc" and "collision_free X st0 (snd (acknowledge X now acks rt acc))"
  shows "run_inv X render st0 k (acknowledge X now acks rt acc)"
  using assms closing_inv[OF assms(1)]
  by (auto simp: acknowledge_def split: option.splits if_splits)

lemma opening_inv:
  assumes inv: "run_inv X render st0 (Suc k) acc" and c: "good_input c" "producer \<noteq> []" and e: "1 \<le> e" "e + int k \<le> max_safe"
    and earlier: "\<And>r. find_incident (fst acc) (ci_identity c) = Some r \<Longrightarrow> i_episode r < e"
    and free: "collision_free X st0 (snd (emit X L_Open now (open_record now producer e c) acc))"
  shows "run_inv X render st0 k (emit X L_Open now (open_record now producer e c) acc)"
  by (rule emit_inv[OF run_inv_less[OF inv] _ _ free]) (use c e earlier in \<open>auto simp: may_follow_def intro!: open_record_coherent\<close>)

lemma seen_again_same: "same_row r (seen_again now c r)"
  by (simp add: same_row_def seen_again_def)

lemma incident_step_inv:
  assumes inv: "run_inv X render st0 (Suc k) acc" and c: "good_input c" "producer \<noteq> []" and small: "int k < max_safe"
    and free: "collision_free X st0 (snd (incident_step X now acks producer c acc))"
  shows "run_inv X render st0 k (incident_step X now acks producer c acc)"
proof (cases "find_incident (fst acc) (ci_identity c)")
  case None
  let ?acc = "emit X L_Open now (open_record now producer 1 c) acc"
  have step: "incident_step X now acks producer c acc = acknowledge X now acks (ci_identity c) ?acc"
    by (simp add: incident_step_def None)
  obtain ms where "snd (acknowledge X now acks (ci_identity c) ?acc) = snd ?acc @ ms"
    using grows_acknowledge by blast
  with free step have "collision_free X st0 (snd ?acc)"
    by (metis collision_free_prefix)
  then have "run_inv X render st0 k ?acc"
    using None small by (intro opening_inv[OF inv c]) auto
  with free step show ?thesis
    by (simp add: acknowledge_inv)
next
  case (Some r)
  have "wf_istate (fst acc)"
    using inv by (simp add: run_inv_def valid_istate_def)
  with Some have r: "r \<in> set (st_incidents (fst acc))" "i_root r = ci_identity c"
    by (simp_all add: find_incident_in)
  have valid: "valid_istate X render (fst acc)"
    using inv by (simp add: run_inv_def)
  with r have "record_ok X (st_migration (fst acc) \<noteq> None) (fst acc) r"
    by (simp add: valid_istate_def)
  then have e: "1 \<le> i_episode r"
    by (simp add: record_ok_def record_coherent_def)
  have room: "i_episode r + int (Suc k) \<le> max_safe"
    using inv r(1) by (simp add: run_inv_def)
  show ?thesis
  proof (cases "i_lifecycle r = L_Open")
    case True
    let ?st = "put_incident (seen_again now c r) (fst acc)"
    have "valid_istate X render ?st"
      using valid Some r(2) by (intro valid_put_same[of X render "fst acc" r] seen_again_same) simp_all
    moreover have "i_episode q + int k \<le> max_safe" if "q \<in> set (st_incidents ?st)" for q
    proof -
      have "distinct (map i_root (st_incidents (fst acc)))"
        using valid by (simp add: valid_istate_def wf_istate_def)
      then have "q = seen_again now c r \<or> q \<in> set (st_incidents (fst acc))"
        using that by (auto simp: put_incident_def put_row_member)
      then show ?thesis
        using room inv by (auto simp: run_inv_def seen_again_def)
    qed
    ultimately have "run_inv X render st0 k (?st, snd acc)"
      using inv by (simp add: run_inv_def)
    moreover have "incident_step X now acks producer c acc = acknowledge X now acks (ci_identity c) (?st, snd acc)"
      by (simp add: incident_step_def Some True)
    ultimately show ?thesis
      using free by (simp add: acknowledge_inv)
  next
    case False
    have "run_inv X render st0 k (emit X L_Open now (open_record now producer (i_episode r + 1) c) acc)"
      if "\<not> is_occurrence_root (ci_identity c)"
      using False Some e room free that by (intro opening_inv[OF inv c]) (auto simp: incident_step_def)
    with False Some show ?thesis
      using run_inv_less[OF inv] by (simp add: incident_step_def)
  qed
qed

lemma incident_steps_inv:
  assumes "run_inv X render st0 (length cs) acc" and "\<And>c. c \<in> set cs \<Longrightarrow> good_input c" and "producer \<noteq> []"
    and "int (length cs) \<le> max_safe"
    and "collision_free X st0 (snd (fold (incident_step X now acks producer) cs acc))"
  shows "run_inv X render st0 0 (fold (incident_step X now acks producer) cs acc)"
  using assms
proof (induction cs arbitrary: acc)
  case (Cons c cs)
  let ?acc = "incident_step X now acks producer c acc"
  obtain ms where "snd (fold (incident_step X now acks producer) cs ?acc) = snd ?acc @ ms"
    using grows_incident_steps by blast
  then have "collision_free X st0 (snd ?acc)"
    using Cons.prems(5) by (simp add: collision_free_prefix)
  then have "run_inv X render st0 (length cs) ?acc"
    using Cons.prems by (intro incident_step_inv) simp_all
  with Cons show ?case by simp
qed simp

lemma recover_steps_inv:
  assumes "run_inv X render st0 0 acc" and "distinct (map i_root rs)"
    and "\<And>r. r \<in> set rs \<Longrightarrow> find_incident (fst acc) (i_root r) = Some r"
    and "collision_free X st0 (snd (fold (recover_step X now seen owns) rs acc))"
  shows "run_inv X render st0 0 (fold (recover_step X now seen owns) rs acc)"
  using assms
proof (induction rs arbitrary: acc)
  case (Cons r rs)
  let ?acc = "recover_step X now seen owns r acc"
  obtain ms where "snd (fold (recover_step X now seen owns) rs ?acc) = snd ?acc @ ms"
    using grows_recover_steps by blast
  then have free: "collision_free X st0 (snd ?acc)"
    using Cons.prems(4) by (simp add: collision_free_prefix)
  have "run_inv X render st0 0 ?acc"
    using Cons.prems(1,3) free closing_inv[OF Cons.prems(1), of "i_root r" r L_Recovered now]
    by (auto simp: recover_step_def)
  moreover have "find_incident (fst ?acc) (i_root q) = Some q" if "q \<in> set rs" for q
  proof -
    have "i_root q \<noteq> i_root r"
      using that Cons.prems(2) by (auto simp: image_iff)
    with that Cons.prems(3) show ?thesis
      by (simp add: recover_step_def)
  qed
  ultimately show ?case
    using Cons.IH[of ?acc] Cons.prems(2,4) by simp
qed simp

lemma updateIncidentState_inv:
  assumes valid: "valid_istate X render st" and inputs: "\<And>c. c \<in> set cs \<Longrightarrow> good_input c" and "producer \<noteq> []"
    and room: "\<And>r. r \<in> set (st_incidents st) \<Longrightarrow> i_episode r + int (length cs) \<le> max_safe" and "int (length cs) \<le> max_safe"
    and free: "collision_free X st (snd (updateIncidentState X now acks owns producer st cs))"
  shows "run_inv X render st 0 (updateIncidentState X now acks owns producer st cs)"
proof -
  let ?acc = "fold (incident_step X now acks producer) cs (st, [])"
  let ?f = "recover_step X now (map ci_identity cs) owns"
  have u: "updateIncidentState X now acks owns producer st cs = fold ?f (st_incidents (fst ?acc)) ?acc"
    by (simp add: updateIncidentState_def Let_def)
  obtain ms where "snd (fold ?f (st_incidents (fst ?acc)) ?acc) = snd ?acc @ ms"
    using grows_recover_steps by blast
  then have "collision_free X st (snd ?acc)"
    using free u by (simp add: collision_free_prefix)
  moreover have "run_inv X render st (length cs) (st, [])"
    using valid room by (simp add: run_inv_def)
  ultimately have inv: "run_inv X render st 0 ?acc"
    using assms by (intro incident_steps_inv) simp_all
  then have wf: "wf_istate (fst ?acc)"
    by (simp add: run_inv_def valid_istate_def)
  show ?thesis
    unfolding u
  proof (rule recover_steps_inv[OF inv])
    show "distinct (map i_root (st_incidents (fst ?acc)))"
      using wf by (simp add: wf_istate_def)
    show "find_incident (fst ?acc) (i_root r) = Some r" if "r \<in> set (st_incidents (fst ?acc))" for r
      using that wf by (simp add: find_incident_in)
  qed (use free u in simp)
qed

end
