(* ===== verification/IncidentRuns.thy ===== *)
theory IncidentRuns
  imports IncidentValidity "HOL-Library.Multiset"
begin

section \<open>Compiling findings and committing the run\<close>

text \<open>
  The incident compiler splits the findings among the root causes without losing or repeating one, and
  the incidents it returns satisfy what the lifecycle relies on.
\<close>

subsection \<open>Sorting by a comparator\<close>

lemma mset_insert_by [simp]: "mset (insert_by le key x ys) = add_mset x (mset ys)"
  by (induction ys) auto

lemma mset_sort_by [simp]: "mset (sort_by le key xs) = mset xs"
  by (induction xs) (simp_all add: sort_by_def)

lemma set_insert_by [simp]: "set (insert_by le key x ys) = insert x (set ys)"
  by (induction ys) (simp_all add: insert_commute)

lemma set_sort_by [simp]: "set (sort_by le key xs) = set xs"
  by (induction xs) (simp_all add: sort_by_def)

lemma length_sort_by [simp]: "length (sort_by le key xs) = length xs"
  by (metis mset_sort_by size_mset)

lemma distinct_sort_by [simp]: "distinct (map f (sort_by le key xs)) = distinct (map f xs)"
  by (rule mset_eq_imp_distinct_iff) simp

lemma sorted_insert_by:
  assumes "\<And>a b. le a b \<or> le b a" and "\<And>a b c. le a b \<Longrightarrow> le b c \<Longrightarrow> le a c"
    and "sorted_wrt (\<lambda>a b. le (key a) (key b)) ys"
  shows "sorted_wrt (\<lambda>a b. le (key a) (key b)) (insert_by le key x ys)"
  using assms(3)
proof (induction ys)
  case (Cons y ys)
  then show ?case using assms(1)[of "key x" "key y"] assms(2) by auto
qed simp

lemma sorted_sort_by:
  assumes "\<And>a b. le a b \<or> le b a" and "\<And>a b c. le a b \<Longrightarrow> le b c \<Longrightarrow> le a c"
  shows "sorted_wrt (\<lambda>a b. le (key a) (key b)) (sort_by le key xs)"
  using sorted_insert_by[of le key, OF assms] by (induction xs) (simp_all add: sort_by_def)

subsection \<open>The compiler\<close>

definition root_of :: "fact \<Rightarrow> string res" where
  "root_of f = incidentRootIdentity (rootInputFor f)"

definition compiled_ok :: "fact list \<Rightarrow> compiled \<Rightarrow> bool" where
  "compiled_ok fs c \<longleftrightarrow> ci_facts c = filter (\<lambda>f. root_of f = Inr (ci_identity c)) fs \<and> ci_facts c \<noteq> []
     \<and> set (ci_symptoms c) = ft_class ` set (ci_facts c) - {rin_cause (ci_root c)}
     \<and> ci_routeClass c = routeClassFor (rin_cause (ci_root c)) \<and> incidentRootIdentity (ci_root c) = Inr (ci_identity c)"

definition compiled_inv :: "fact list \<Rightarrow> compiled list \<Rightarrow> bool" where
  "compiled_inv fs cs \<longleftrightarrow> distinct (map ci_identity cs) \<and> (\<forall>c \<in> set cs. compiled_ok fs c)
     \<and> (\<forall>f \<in> set fs. \<exists>c \<in> set cs. root_of f = Inr (ci_identity c))"

lemma compiled_ok_other: "compiled_ok fs c \<Longrightarrow> root_of f \<noteq> Inr (ci_identity c) \<Longrightarrow> compiled_ok (fs @ [f]) c"
  by (auto simp: compiled_ok_def)

lemma add_fact_fields [simp]:
  "ci_identity (add_fact f c) = ci_identity c" "ci_root (add_fact f c) = ci_root c"
  "ci_routeClass (add_fact f c) = ci_routeClass c" "ci_facts (add_fact f c) = ci_facts c @ [f]"
  by (simp_all add: add_fact_def)

lemma add_fact_symptoms: "set (ci_symptoms (add_fact f c)) = set (ci_symptoms c) \<union> ({ft_class f} - {rin_cause (ci_root c)})"
  by (auto simp: add_fact_def)

lemma compiled_ok_add:
  assumes "compiled_ok fs c" and "root_of f = Inr (ci_identity c)"
  shows "compiled_ok (fs @ [f]) (add_fact f c)"
  using assms by (auto simp: compiled_ok_def add_fact_symptoms)

lemma compiled_ok_fresh:
  assumes "root_of f = Inr k" and "\<And>g. g \<in> set fs \<Longrightarrow> root_of g \<noteq> Inr k"
  shows "compiled_ok (fs @ [f]) (add_fact f (fresh_compiled (rootInputFor f) k))"
proof -
  have "filter (\<lambda>g. root_of g = Inr k) fs = []"
    using assms(2) by (simp add: filter_empty_conv)
  then show ?thesis
    using assms(1) by (simp add: compiled_ok_def add_fact_symptoms fresh_compiled_def root_of_def)
qed

lemma compile_step_inv:
  assumes inv: "compiled_inv fs acc" and k: "root_of f = Inr k"
    and current: "current = (case find (\<lambda>c. ci_identity c = k) acc of Some c \<Rightarrow> c | None \<Rightarrow> fresh_compiled (rootInputFor f) k)"
  shows "compiled_inv (fs @ [f]) (put_row ci_identity (add_fact f current) acc)"
proof -
  have d: "distinct (map ci_identity acc)"
    using inv by (simp add: compiled_inv_def)
  have id: "ci_identity current = k \<and> compiled_ok (fs @ [f]) (add_fact f current)"
  proof (cases "find (\<lambda>c. ci_identity c = k) acc")
    case None
    then have "root_of g \<noteq> Inr k" if "g \<in> set fs" for g
      using that inv by (auto simp: find_None_set compiled_inv_def)
    then show ?thesis
      using compiled_ok_fresh[OF k] None by (simp add: current) (simp add: fresh_compiled_def)
  next
    case (Some c)
    then have "c \<in> set acc \<and> ci_identity c = k"
      by (rule find_Some_set)
    then show ?thesis
      using inv k Some by (simp add: current compiled_inv_def compiled_ok_add)
  qed
  have "compiled_ok (fs @ [f]) c" if "c \<in> set (put_row ci_identity (add_fact f current) acc)" for c
    using that id inv k put_row_member[OF d, of c "add_fact f current"]
    by (auto simp: compiled_inv_def intro: compiled_ok_other)
  moreover have "\<exists>c \<in> set (put_row ci_identity (add_fact f current) acc). root_of g = Inr (ci_identity c)"
    if "g \<in> set (fs @ [f])" for g
  proof -
    have "ci_identity ` set (put_row ci_identity (add_fact f current) acc) = insert k (ci_identity ` set acc)"
      using put_row_keys[of ci_identity "add_fact f current" acc] id by simp
    moreover have "\<exists>i \<in> insert k (ci_identity ` set acc). root_of g = Inr i"
      using that k inv by (auto simp: compiled_inv_def)
    ultimately show ?thesis
      by (metis imageE)
  qed
  ultimately show ?thesis
    using put_row_distinct[OF d] by (simp add: compiled_inv_def)
qed

lemma length_put_row: "length (put_row key x xs) \<le> Suc (length xs)"
  by (induction xs) auto

lemma compile_into_inv:
  "compile_into acc fs = Inr cs \<Longrightarrow> compiled_inv gs acc \<Longrightarrow> compiled_inv (gs @ fs) cs \<and> length cs \<le> length acc + length fs"
proof (induction fs arbitrary: acc gs)
  case (Cons f fs)
  obtain k where k: "root_of f = Inr k"
    and rest: "compile_into (put_row ci_identity (add_fact f (case find (\<lambda>c. ci_identity c = k) acc of
           Some c \<Rightarrow> c | None \<Rightarrow> fresh_compiled (rootInputFor f) k)) acc) fs = Inr cs"
    using Cons.prems(1) by (auto simp: rbind_eq_Inr root_of_def Let_def)
  show ?case
    using Cons.IH[OF rest compile_step_inv[OF Cons.prems(2) k refl]] length_put_row[of ci_identity _ acc]
    by (auto intro: order_trans)
qed simp

lemma compileIncidents_inv:
  assumes "compileIncidents le fs = Inr cs"
  shows "compiled_inv fs cs" and "length cs \<le> length fs"
proof -
  obtain ds where ds: "compile_into [] fs = Inr ds" "cs = sort_by le ci_identity ds"
    using assms by (auto simp: compileIncidents_def rbind_eq_Inr)
  have "compiled_inv [] []"
    by (simp add: compiled_inv_def)
  from compile_into_inv[OF ds(1) this] ds(2) show "compiled_inv fs cs" and "length cs \<le> length fs"
    by (simp_all add: compiled_inv_def)
qed

lemma root_identity_cause: "incidentRootIdentity r = Inr k \<Longrightarrow> rin_cause r \<noteq> []"
  by (auto simp: incidentRootIdentity_def nonEmptyField_def js_trim_def)

lemma compiled_good: "compiled_inv fs cs \<Longrightarrow> c \<in> set cs \<Longrightarrow> good_input c"
  using root_identity_cause by (auto simp: compiled_inv_def compiled_ok_def good_input_def routeClassFor_def)

lemma facts_partition:
  assumes "compiled_inv fs cs"
  shows "mset (concat (map ci_facts cs)) = mset fs"
proof (rule multiset_eqI)
  fix f
  have count: "count (mset (ci_facts c)) f = (if root_of f = Inr (ci_identity c) then count (mset fs) f else 0)" if "c \<in> set cs" for c
    using that assms by (auto simp: compiled_inv_def compiled_ok_def)
  have "count (mset (concat (map ci_facts ds))) f = (if root_of f \<in> Inr ` ci_identity ` set ds then count (mset fs) f else 0)"
    if "distinct (map ci_identity ds)" "set ds \<subseteq> set cs" for ds
    using that by (induction ds) (auto simp: count image_iff)
  then have "count (mset (concat (map ci_facts cs))) f = (if root_of f \<in> Inr ` ci_identity ` set cs then count (mset fs) f else 0)"
    using assms by (simp add: compiled_inv_def)
  moreover have "f \<in> set fs \<Longrightarrow> root_of f \<in> Inr ` ci_identity ` set cs"
    using assms by (auto simp: compiled_inv_def)
  ultimately show "count (mset (concat (map ci_facts cs))) f = count (mset fs) f"
    by (auto simp: count_eq_zero_iff)
qed

subsection \<open>Committing what a run has computed\<close>

lemma find_intent_in:
  assumes "wf_istate st"
  shows "find_intent st k = Some n \<longleftrightarrow> n \<in> set (st_outbox st) \<and> n_key n = k"
  using assms find_key_distinct[of n_key "st_outbox st" n] find_Some_set[of "\<lambda>n. n_key n = k" "st_outbox st" n]
  by (auto simp: find_intent_def wf_istate_def)

lemma commit_intent_refl:
  assumes "find_intent st (n_key n) = Some n" and "chronology_coherent n"
  shows "commit_intent st n = Inr ()"
proof -
  have "commit_allows (n_delivery n) (n_delivery n)"
    by (cases "n_delivery n") (simp_all add: commit_allows_def)
  moreover have "n_updatedAt n \<noteq> None \<longrightarrow> at_least (n_updatedAt n) (n_updatedAt n)"
    using assms(2) by (auto simp: chronology_coherent_def at_least_def)
  ultimately show ?thesis
    using assms(1) by (simp add: commit_intent_def kept_def)
qed

lemma valid_chronology: "valid_istate X render st \<Longrightarrow> n \<in> set (st_outbox st) \<Longrightarrow> chronology_coherent n"
  by (simp add: valid_istate_def outbox_ok_def)

lemma load_valid:
  assumes "valid_istate X render st" and "migration_ok backups st"
  shows "loadIncidentState X render backups (Some st) = Inr st"
  using assms checked_state_valid[of st X render backups] by (simp add: loadIncidentState_def valid_istate_def)

lemma commit_accepts:
  assumes "loadIncidentState X render backups disk = Inr st"
    and "valid_istate X render st'" and "migration_ok backups st'"
    and "\<And>n. n \<in> set (st_outbox st) \<Longrightarrow> commit_intent st' n = Inr ()"
  shows "commitIncidentState X render backups disk disk st' = Inr (Some st')"
proof -
  have "checked_state X render backups st' = Inr st'"
    using assms(2,3) checked_state_valid[of st' X render backups] by (simp add: valid_istate_def)
  moreover have "validateDeliveryCommitTransition st st' = Inr ()"
    using assms(4) by (simp add: validateDeliveryCommitTransition_def each_Inr)
  ultimately show ?thesis
    using assms(1) by (simp add: commitIncidentState_def)
qed

lemma commit_appended:
  assumes "valid_istate X render st" and "valid_istate X render st'" and "st_outbox st' = st_outbox st @ ns"
    and "n \<in> set (st_outbox st)"
  shows "commit_intent st' n = Inr ()"
proof (rule commit_intent_refl)
  have "wf_istate st'"
    using assms(2) by (simp add: valid_istate_def)
  then show "find_intent st' (n_key n) = Some n"
    using assms(3,4) by (simp add: find_intent_in)
qed (rule valid_chronology[OF assms(1,4)])

subsection \<open>Changing the delivery of one notification\<close>

definition same_core :: "intent \<Rightarrow> intent \<Rightarrow> bool" where
  "same_core n m \<longleftrightarrow> n_incident m = n_incident n \<and> n_incidentId m = n_incidentId n \<and> n_revision m = n_revision n
     \<and> n_kind m = n_kind n \<and> n_routeClass m = n_routeClass n \<and> n_producer m = n_producer n \<and> n_key m = n_key n
     \<and> n_payloadRevision m = n_payloadRevision n"

lemma same_core_coherent: "same_core x y \<Longrightarrow> intent_coherent X st y = intent_coherent X st x"
  by (cases "find_incident st (n_root x)") (simp_all add: intent_coherent_def same_core_def expected_kind_def n_coords_def)

definition replaced :: "intent \<Rightarrow> (incident \<Rightarrow> incident) \<Rightarrow> istate \<Rightarrow> istate" where
  "replaced m g st = st\<lparr>st_outbox := map (\<lambda>n. if n_key n = n_key m then m else n) (st_outbox st),
     st_incidents := map (\<lambda>r. if i_root r = n_root m then g r else r) (st_incidents st)\<rparr>"

lemma mark_record_fields [simp]:
  "i_of (mark_record d n r) = i_of r" "i_episode (mark_record d n r) = i_episode r"
  "i_incidentId (mark_record d n r) = i_incidentId r" "i_lifecycle (mark_record d n r) = i_lifecycle r"
  "i_revision (mark_record d n r) = i_revision r" "i_producer (mark_record d n r) = i_producer r"
  "al_lifecycle (i_alert (mark_record d n r)) = al_lifecycle (i_alert r)"
  "al_incidentKey (i_alert (mark_record d n r)) = al_incidentKey (i_alert r)"
  by (simp_all add: mark_record_def)

lemma mark_record_coherent [simp]:
  "record_coherent (mark_record d n r) = record_coherent r" "history_coherent mig (mark_record d n r) = history_coherent mig r"
  "history_complete mig (mark_record d n r) es = history_complete mig r es"
  by (simp_all add: record_coherent_def history_coherent_def history_complete_def)

definition intent_change :: "ext \<Rightarrow> rendering \<Rightarrow> istate \<Rightarrow> intent \<Rightarrow> intent \<Rightarrow> (incident \<Rightarrow> incident) \<Rightarrow> bool" where
  "intent_change X render st n m g \<longleftrightarrow> valid_istate X render st \<and> n \<in> set (st_outbox st) \<and> same_core n m
     \<and> (g = mark_record (n_delivery m) n \<or> g = (\<lambda>r. r) \<and> n_delivery m = n_delivery n)"

lemma change_parts:
  assumes "intent_change X render st n m g"
  shows "valid_istate X render st" and "wf_istate st" and "n \<in> set (st_outbox st)" and "same_core n m"
    and "n_key m = n_key n" and "n_root m = n_root n"
  using assms by (simp_all add: intent_change_def valid_istate_def same_core_def)

lemma change_row:
  assumes "intent_change X render st n m g"
  shows "i_root (g r) = i_root r" and "i_episode (g r) = i_episode r" and "i_revision (g r) = i_revision r"
    and "i_incidentId (g r) = i_incidentId r" and "i_lifecycle (g r) = i_lifecycle r"
    and "record_coherent (g r) = record_coherent r" and "history_coherent mig (g r) = history_coherent mig r"
  using assms by (auto simp: intent_change_def)

lemma change_other:
  assumes "intent_change X render st n m g" and "\<not> (i_incidentId r = n_incidentId n \<and> i_revision r = n_revision n)"
  shows "g r = r"
  using assms by (auto simp: intent_change_def mark_record_def)

lemma change_intent:
  assumes "intent_change X render st n m g" and "x \<in> set (st_outbox st)"
  shows "same_core x (if n_key x = n_key m then m else x)" and "n_key x = n_key m \<longleftrightarrow> x = n"
proof -
  show eq: "n_key x = n_key m \<longleftrightarrow> x = n"
    using assms(2) change_parts[OF assms(1)] inj_onD[of n_key "set (st_outbox st)" x n]
    by (auto simp: wf_istate_def distinct_map)
  then show "same_core x (if n_key x = n_key m then m else x)"
    using change_parts(4)[OF assms(1)] by (simp add: same_core_def)
qed

lemma replaced_find:
  assumes "intent_change X render st n m g"
  shows "find_incident (replaced m g st) k = map_option (\<lambda>r. if i_root r = n_root m then g r else r) (find_incident st k)"
proof -
  have "find (\<lambda>r. i_root r = k) (map (\<lambda>r. if i_root r = n_root m then g r else r) rs)
      = map_option (\<lambda>r. if i_root r = n_root m then g r else r) (find (\<lambda>r. i_root r = k) rs)" for rs
    by (induction rs) (auto simp: change_row[OF assms])
  then show ?thesis by (simp add: find_incident_def replaced_def)
qed

lemma replaced_coherent:
  assumes "intent_change X render st n m g" and "intent_coherent X st x"
  shows "intent_coherent X (replaced m g st) x"
  using assms(2) by (rule intent_coherent_later) (auto simp: replaced_find[OF assms(1)] change_row[OF assms(1)])

lemma filter_map_same: "(\<And>x. x \<in> set xs \<Longrightarrow> P (h x) = P x) \<Longrightarrow> filter P (map h xs) = map h (filter P xs)"
  by (induction xs) auto

lemma replaced_intents:
  assumes "intent_change X render st n m g"
  shows "intents_of (replaced m g st) r = map (\<lambda>x. if n_key x = n_key m then m else x) (intents_of st r)"
proof -
  have "(n_incidentId (if n_key x = n_key m then m else x) = i_incidentId r) = (n_incidentId x = i_incidentId r)"
    if "x \<in> set (st_outbox st)" for x
    using change_intent(1)[OF assms that] by (auto simp: same_core_def)
  then show ?thesis
    by (simp add: intents_of_def replaced_def filter_map_same)
qed

lemma replaced_record_ok:
  assumes change: "intent_change X render st n m g" and ok: "record_ok X mig st r" and r: "r \<in> set (st_incidents st)"
  shows "record_ok X mig (replaced m g st) (if i_root r = n_root m then g r else r)"
proof -
  let ?h = "\<lambda>x. if n_key x = n_key m then m else x"
  let ?r = "if i_root r = n_root m then g r else r"
  note row = change_row[OF change]
  have core: "same_core x (?h x)" if "x \<in> set (intents_of st r)" for x
    using that change_intent(1)[OF change] by (simp add: intents_of_def)
  have es: "intents_of (replaced m g st) ?r = map ?h (intents_of st r)"
    using replaced_intents[OF change, of ?r] by (simp add: intents_of_def row)
  show ?thesis
  proof (cases "intents_of st r = []")
    case True
    then have "\<not> (i_incidentId r = n_incidentId n)"
      using change_parts(3)[OF change] by (auto simp: intents_of_def filter_empty_conv)
    then have "?r = r"
      using change_other[OF change] by simp
    then show ?thesis
      using ok es True unfolding record_ok_def by auto
  next
    case False
    then obtain c where c: "filter (\<lambda>x. n_revision x = i_revision r) (intents_of st r) = [c]" "current_coherent X mig r c"
      and complete: "history_complete mig r (intents_of st r)"
      using ok by (auto simp: record_ok_def)
    have c_in: "c \<in> set (st_outbox st)" "n_incidentId c = i_incidentId r" "n_revision c = i_revision r"
      using arg_cong[OF c(1), of set] by (auto simp: intents_of_def)
    have "filter (\<lambda>x. n_revision x = i_revision r) (map ?h (intents_of st r)) = [?h c]"
      using filter_map_same[of "intents_of st r" "\<lambda>x. n_revision x = i_revision r" ?h] core c(1) by (simp add: same_core_def)
    moreover have "n_revision ` set (map ?h (intents_of st r)) = n_revision ` set (intents_of st r)"
      unfolding set_map image_image by (rule image_cong[OF refl]) (use core in \<open>simp add: same_core_def\<close>)
    then have "history_complete mig ?r (map ?h (intents_of st r))"
      using complete by (simp add: history_complete_def row)
    moreover have "current_coherent X mig ?r (?h c)"
    proof (cases "c = n")
      case True
      then have "n_root m = i_root r"
        using c(2) change_parts(6)[OF change] by (simp add: current_coherent_def)
      then show ?thesis
        using True c(2) change_parts(4)[OF change] c_in change
        by (auto simp: intent_change_def current_coherent_def same_core_def n_coords_def mark_record_def)
    next
      case False
      have "n \<notin> set (filter (\<lambda>x. n_revision x = i_revision r) (intents_of st r))"
        using False c(1) by simp
      then have "g r = r"
        using change_parts(3)[OF change] change_other[OF change] by (auto simp: intents_of_def)
      then show ?thesis
        using False c(2) change_intent(2)[OF change c_in(1)] by simp
    qed
    moreover have base: "record_coherent ?r" "history_coherent mig ?r" "i_revision ?r = i_revision r"
      using ok by (simp_all add: record_ok_def row)
    ultimately show ?thesis
      unfolding record_ok_def es base(3) map_is_Nil_conv using False by (simp only: if_False) blast
  qed
qed

lemma replaced_valid:
  assumes change: "intent_change X render st n m g" and "binding_coherent render m" and "chronology_coherent m"
  shows "valid_istate X render (replaced m g st)"
proof -
  let ?h = "\<lambda>x. if n_key x = n_key m then m else x"
  note valid = change_parts(1)[OF change]
  have core: "same_core x (?h x)" if "x \<in> set (st_outbox st)" for x
    using that change_intent(1)[OF change] by simp
  have names: "map n_key (st_outbox (replaced m g st)) = map n_key (st_outbox st)"
      "map n_identity (st_outbox (replaced m g st)) = map n_identity (st_outbox st)"
      "map i_root (st_incidents (replaced m g st)) = map i_root (st_incidents st)"
    using core by (auto simp: replaced_def same_core_def change_row[OF change] intro!: map_cong)
  have lists: "set (st_outbox (replaced m g st)) = ?h ` set (st_outbox st)"
      "set (st_incidents (replaced m g st)) = (\<lambda>r. if i_root r = n_root m then g r else r) ` set (st_incidents st)"
      "st_migration (replaced m g st) = st_migration st"
    by (simp_all add: replaced_def)
  have "outbox_ok X render (replaced m g st) (?h x)" if x: "x \<in> set (st_outbox st)" for x
  proof -
    have ok: "outbox_ok X render st x"
      using valid x by (simp add: valid_istate_def)
    then have "intent_coherent X (replaced m g st) x"
      using replaced_coherent[OF change] by (simp add: outbox_ok_def)
    then have "intent_coherent X (replaced m g st) (?h x)" and "record_coherent (n_incident (?h x))"
      using same_core_coherent[OF core[OF x]] core[OF x] ok by (simp, simp add: outbox_ok_def same_core_def)
    then show ?thesis
      using assms(2,3) ok by (simp add: outbox_ok_def)
  qed
  moreover have "record_ok X (st_migration st \<noteq> None) (replaced m g st) (if i_root r = n_root m then g r else r)"
    if "r \<in> set (st_incidents st)" for r
    using that valid by (intro replaced_record_ok[OF change]) (simp_all add: valid_istate_def)
  ultimately have "\<forall>x \<in> set (st_outbox (replaced m g st)). outbox_ok X render (replaced m g st) x"
    and "\<forall>r \<in> set (st_incidents (replaced m g st)). record_ok X (st_migration (replaced m g st) \<noteq> None) (replaced m g st) r"
    unfolding lists by blast+
  then show ?thesis
    using valid unfolding valid_istate_def wf_istate_def names by blast
qed

end
