(* ===== verification/Projection.thy ===== *)
theory Projection
  imports IncidentRuns
begin

section \<open>Which notifications reach the user\<close>

text \<open>
  \<^verbatim>\<open>packages/scheduler/src/watchdog/delivery-projection.js\<close>: a pure function of the durable incident state
  that decides which waiting notifications are sent. It holds back the opening of an incident that has
  closed meanwhile, the children of a failing job or of an outage of the runtime, and all but one
  notification of the two incidents a stuck run can have. A window without an end is still open.
\<close>

subsection \<open>Reading a root identity\<close>

fun split_on :: "char \<Rightarrow> string \<Rightarrow> string \<Rightarrow> string list" where
  "split_on s acc [] = [rev acc]"
| "split_on s acc (c # cs) = (if c = s then rev acc # split_on s [] cs else split_on s (c # acc) cs)"

definition nth_opt :: "'a list \<Rightarrow> nat \<Rightarrow> 'a option" where
  "nth_opt xs k = (if k < length xs then Some (xs ! k) else None)"

definition rootSegments :: "incident \<Rightarrow> string list" where
  "rootSegments r = split_on (CHR ''|'') [] (i_root r)"

definition rootKind :: "incident \<Rightarrow> string option" where
  "rootKind r = nth_opt (rootSegments r) 0"

definition rootClass :: "incident \<Rightarrow> string option" where
  "rootClass r = nth_opt (rootSegments r) 1"

definition rootJobId :: "incident \<Rightarrow> string option" where
  "rootJobId r = or_else (rin_jobId (ci_root (i_of r)))
     (if rootKind r = Some ''occurrence'' \<or> rootKind r = Some ''job'' then nth_opt (rootSegments r) 2 else None)"

definition rootOccurrenceId :: "incident \<Rightarrow> string option" where
  "rootOccurrenceId r = (if rootKind r = Some ''occurrence'' then nth_opt (rootSegments r) 3 else None)"

definition or_undefined :: "string option \<Rightarrow> string" where
  "or_undefined v = (case v of Some s \<Rightarrow> s | None \<Rightarrow> ''undefined'')"

definition stuckPairKey :: "incident \<Rightarrow> string option" where
  "stuckPairKey r = (if rootKind r \<noteq> Some ''occurrence'' \<or> rootClass r \<notin> Some ` set [''RUN_STUCK'', ''RUN_STUCK_OUTCOME_UNKNOWN'']
     then None else Some (or_undefined (rootJobId r) @ ''|'' @ or_undefined (rootOccurrenceId r)))"

subsection \<open>Windows of a parent\<close>

record window =
  wn_id :: string
  wn_start :: "int option"
  wn_end :: "int option"

definition window_entry :: "string \<Rightarrow> window list \<Rightarrow> window" where
  "window_entry i ws = (case find (\<lambda>w. wn_id w = i) ws of Some w \<Rightarrow> w | None \<Rightarrow> \<lparr>wn_id = i, wn_start = None, wn_end = None\<rparr>)"

definition intent_window :: "(incident \<Rightarrow> bool) \<Rightarrow> intent \<Rightarrow> window list \<Rightarrow> window list" where
  "intent_window matches n ws = (if \<not> matches (n_incident n) then ws
     else let w = window_entry (n_incidentId n) ws; t = al_lastTransitionAt (i_alert (n_incident n)) in
       put_row wn_id (if n_kind n = L_Open then w\<lparr>wn_start := Some t\<rparr> else w\<lparr>wn_end := or_else (wn_end w) (Some t)\<rparr>) ws)"

definition record_window :: "(incident \<Rightarrow> bool) \<Rightarrow> incident \<Rightarrow> window list \<Rightarrow> window list" where
  "record_window matches r ws = (if \<not> matches r then ws
     else let w = window_entry (i_incidentId r) ws in
       put_row wn_id (w\<lparr>wn_start := or_else (wn_start w) (Some (i_firstSeenAt r)),
         wn_end := (if wn_end w = None \<and> i_lifecycle r \<noteq> L_Open then Some (al_lastTransitionAt (i_alert r)) else wn_end w)\<rparr>) ws)"

definition episodeWindows :: "istate \<Rightarrow> (incident \<Rightarrow> bool) \<Rightarrow> window list" where
  "episodeWindows st matches = filter (\<lambda>w. wn_start w \<noteq> None)
     (fold (record_window matches) (st_incidents st) (fold (intent_window matches) (st_outbox st) []))"

subsection \<open>Parents\<close>

datatype suppression = Stale_New | Job_Parent | Runtime_Parent | Stuck_Pair

definition first_date :: "ext \<Rightarrow> (fact \<Rightarrow> string option) \<Rightarrow> fact list \<Rightarrow> int option" where
  "first_date X field facts = (case find (\<lambda>d. d \<noteq> None)
       (map (\<lambda>f. case field f of Some s \<Rightarrow> date_parse X s | None \<Rightarrow> None) facts) of Some d \<Rightarrow> d | None \<Rightarrow> None)"

definition occurrenceAnchor :: "ext \<Rightarrow> incident \<Rightarrow> (int \<times> int) option" where
  "occurrenceAnchor X r = (let facts = ci_facts (i_of r); point = map_option (\<lambda>t. (t, t)) in
     if rootClass r = Some ''RUN_FAILED'' then point (first_date X ft_endedAt facts)
     else if rootClass r = Some ''RUN_STUCK''
     then map_option (\<lambda>t. (t, al_lastTransitionAt (i_alert r))) (first_date X ft_startedAt facts)
     else if rootClass r = Some ''RUN_STUCK_OUTCOME_UNKNOWN''
     then point (or_else (first_date X ft_blockedSince facts) (first_date X ft_dueAt facts))
     else if rootClass r = Some ''EXPECTED_RUN_MISSED'' then point (first_date X ft_dueAt facts)
     else None)"

definition before_end :: "int \<Rightarrow> window \<Rightarrow> bool" where
  "before_end t w \<longleftrightarrow> (case wn_end w of Some e \<Rightarrow> t < e | None \<Rightarrow> True)"

definition after_start :: "int \<Rightarrow> window \<Rightarrow> bool" where
  "after_start t w \<longleftrightarrow> (case wn_start w of Some s \<Rightarrow> s \<le> t | None \<Rightarrow> False)"

definition runtimeParentCode :: "ext \<Rightarrow> istate \<Rightarrow> incident \<Rightarrow> suppression option" where
  "runtimeParentCode X st r = (case occurrenceAnchor X r of None \<Rightarrow> None
   | Some (s, e) \<Rightarrow>
       if list_ex (\<lambda>w. before_end s w \<and> after_start e w)
            (episodeWindows st (\<lambda>q. rootClass q = Some ''SCHEDULER_RUNTIME_UNHEALTHY''))
       then Some Runtime_Parent else None)"

definition jobParentCode :: "istate \<Rightarrow> incident \<Rightarrow> suppression option" where
  "jobParentCode st r = (if rootKind r \<noteq> Some ''occurrence'' \<or> rootClass r \<noteq> Some ''RUN_FAILED'' \<or> rootJobId r = None then None
     else if list_ex (\<lambda>w. after_start (al_lastTransitionAt (i_alert r)) w \<and> before_end (al_lastTransitionAt (i_alert r)) w)
            (episodeWindows st (\<lambda>q. rootClass q = Some ''CONSECUTIVE_FAILURE'' \<and> rootJobId q = rootJobId r))
     then Some Job_Parent else None)"

definition parentCode :: "ext \<Rightarrow> istate \<Rightarrow> incident \<Rightarrow> suppression option" where
  "parentCode X st r =
     (if rootKind r = Some ''occurrence'' \<and> rootClass r = Some ''RUN_FAILED''
      then or_else (jobParentCode st r) (runtimeParentCode X st r)
      else if rootKind r = Some ''occurrence'' then runtimeParentCode X st r
      else if rootKind r = Some ''job'' \<and> rootClass r = Some ''EXPECTED_RUN_MISSED'' then runtimeParentCode X st r
      else None)"

definition consider_parent :: "ext \<Rightarrow> istate \<Rightarrow> string \<times> incident \<Rightarrow> (string \<times> suppression) list \<Rightarrow> (string \<times> suppression) list" where
  "consider_parent X st p codes = (case p of (i, r) \<Rightarrow>
     if map_of codes i \<noteq> None then codes
     else case parentCode X st r of Some c \<Rightarrow> codes @ [(i, c)] | None \<Rightarrow> codes)"

definition parentSuppressionCodes :: "ext \<Rightarrow> istate \<Rightarrow> (string \<times> suppression) list" where
  "parentSuppressionCodes X st = fold (consider_parent X st)
     (map (\<lambda>n. (n_incidentId n, n_incident n)) (filter (\<lambda>n. n_kind n = L_Open) (st_outbox st))
      @ map (\<lambda>r. (i_incidentId r, r)) (filter (\<lambda>r. i_lifecycle r = L_Open) (st_incidents st))) []"

subsection \<open>The two incidents of a stuck run\<close>

record stuck_pair =
  sp_openPrimary :: string
  sp_parent :: "suppression option"
  sp_fullyClosed :: bool
  sp_closePrimary :: "string option"

definition pair_members :: "istate \<Rightarrow> string \<Rightarrow> incident list" where
  "pair_members st key = filter (\<lambda>r. stuckPairKey r = Some key) (st_incidents st)"

definition opens_before :: "int \<times> string \<Rightarrow> int \<times> string \<Rightarrow> bool" where
  "opens_before a b \<longleftrightarrow> fst a < fst b \<or> fst a = fst b \<and> snd a \<le> snd b"

definition closes_after :: "(string \<times> string \<times> int) \<Rightarrow> (string \<times> string \<times> int) \<Rightarrow> bool" where
  "closes_after c best \<longleftrightarrow> snd (snd best) < snd (snd c) \<or> snd (snd c) = snd (snd best) \<and> fst (snd c) < fst (snd best)"

definition close_candidate ::
    "incident list \<Rightarrow> intent \<Rightarrow> (string \<times> string \<times> int) option \<Rightarrow> (string \<times> string \<times> int) option" where
  "close_candidate members n best = (if n_kind n = L_Open then best
     else case find (\<lambda>r. i_incidentId r = n_incidentId n) members of
       None \<Rightarrow> best
     | Some r \<Rightarrow> let c = (i_incidentId r, i_root r, al_lastTransitionAt (i_alert (n_incident n))) in
         (case best of None \<Rightarrow> Some c | Some b \<Rightarrow> if closes_after c b then Some c else Some b))"

definition pair_analysis :: "istate \<Rightarrow> (string \<times> suppression) list \<Rightarrow> string \<Rightarrow> stuck_pair option" where
  "pair_analysis st codes key = (let members = pair_members st key in
     if members = [] then None
     else Some \<lparr>sp_openPrimary = i_incidentId (hd (sort_by opens_before (\<lambda>r. (i_firstSeenAt r, i_root r)) members)),
       sp_parent = (case find (\<lambda>c. c \<noteq> None) (map (\<lambda>r. map_of codes (i_incidentId r)) members) of Some c \<Rightarrow> c | None \<Rightarrow> None),
       sp_fullyClosed = list_all (\<lambda>r. i_lifecycle r \<noteq> L_Open) members,
       sp_closePrimary = map_option fst (fold (close_candidate members) (st_outbox st) None)\<rparr>)"

definition pairDecision :: "stuck_pair \<Rightarrow> intent \<Rightarrow> suppression option" where
  "pairDecision pair n = (case sp_parent pair of Some c \<Rightarrow> Some c
   | None \<Rightarrow>
       if n_kind n = L_Open then (if n_incidentId n = sp_openPrimary pair then None else Some Stuck_Pair)
       else if \<not> sp_fullyClosed pair \<or> Some (n_incidentId n) \<noteq> sp_closePrimary pair then Some Stuck_Pair else None)"

subsection \<open>The decision\<close>

definition stale_new :: "istate \<Rightarrow> intent \<Rightarrow> bool" where
  "stale_new st n \<longleftrightarrow> n_kind n = L_Open \<and> (case find_incident st (n_root n) of
     Some r \<Rightarrow> i_incidentId r \<noteq> n_incidentId n \<or> i_lifecycle r \<noteq> L_Open | None \<Rightarrow> True)"

definition intent_decision :: "ext \<Rightarrow> istate \<Rightarrow> intent \<Rightarrow> suppression option" where
  "intent_decision X st n = (if stale_new st n then Some Stale_New
     else let codes = parentSuppressionCodes X st in
       or_else (case stuckPairKey (n_incident n) of None \<Rightarrow> None
           | Some key \<Rightarrow> (case pair_analysis st codes key of None \<Rightarrow> None | Some pair \<Rightarrow> pairDecision pair n))
         (map_of codes (n_incidentId n)))"

text \<open>The notifications to deliver, and the others with the reason why they are held back.\<close>

definition projectIncidentDelivery ::
    "ext \<Rightarrow> (string \<Rightarrow> string \<Rightarrow> bool) \<Rightarrow> istate \<Rightarrow> intent list \<Rightarrow> intent list \<times> (string \<times> suppression) list" where
  "projectIncidentDelivery X le st intents = (let ordered = sort_by le n_key intents in
     (filter (\<lambda>n. intent_decision X st n = None) ordered,
      List.map_filter (\<lambda>n. map_option (\<lambda>c. (n_key n, c)) (intent_decision X st n)) ordered))"

end
