(* ===== verification/Notify.thy ===== *)
theory Notify
  imports Projection IncidentRuns
begin

section \<open>Routing and delivering notifications\<close>

text \<open>
  \<^verbatim>\<open>packages/scheduler/src/watchdog/routing.js\<close> validates the routing manifest and resolves the target of
  a notification; \<^verbatim>\<open>processIncidentNotifications\<close> of \<^verbatim>\<open>scripts/scheduler-watchdog.mjs\<close> commits a run and
  delivers what is waiting. The answers of the outside world (the protected manifest file, the search in
  the chat history, the message provider) are an argument; what the run does to the outside world is its
  trace. The names of \<^verbatim>\<open>Object.prototype\<close> are not entries of a target map here.
\<close>

subsection \<open>The routing manifest\<close>

record manifest =
  mf_canonicalOpsTarget :: "target option"
  mf_ownerTargets :: "(string \<times> target) list"
  mf_jobFailureTargets :: "(string \<times> target) list"

fun plain_object :: "jval \<Rightarrow> bool" where
  "plain_object (JObj _) = True"
| "plain_object _ = False"

definition validateTarget :: "jval \<Rightarrow> string \<Rightarrow> bool \<Rightarrow> target option res" where
  "validateTarget v label optional =
     (if optional \<and> v = JNull then Inr None
      else rbind (ensure (plain_object v) (Type_Error (label @ '' must be an object''))) (\<lambda>_.
      rbind (ensure (set (map fst (obj_fields v)) \<subseteq> {''channel'', ''to''}) (Type_Error (label @ '' has unknown field''))) (\<lambda>_.
      rbind (ensure (jget v ''channel'' = JStr ''feishu'') (Type_Error (label @ ''.channel is unsupported''))) (\<lambda>_.
      rbind (ensure (is_str (jget v ''to'') \<and> js_trim (str_val (jget v ''to'')) \<noteq> []) (Type_Error (label @ ''.to must be non-empty''))) (\<lambda>_.
        Inr (Some \<lparr>tg_channel = ''feishu'', tg_to = str_val (jget v ''to'')\<rparr>))))))"

fun target_entries :: "string \<Rightarrow> string list \<Rightarrow> (string \<times> jval) list \<Rightarrow> (string \<times> target) list res" where
  "target_entries label seen [] = Inr []"
| "target_entries label seen ((k, v) # kvs) =
     rbind (ensure (js_trim k \<noteq> []) (Type_Error (label @ '' key must be non-empty''))) (\<lambda>_.
     rbind (ensure (js_trim k \<notin> set seen) (Type_Error (label @ '' has duplicate normalized key''))) (\<lambda>_.
     rbind (validateTarget v (label @ ''.'' @ k) False) (\<lambda>t.
     rbind (target_entries label (js_trim k # seen) kvs) (\<lambda>rest.
       Inr (case t of Some t \<Rightarrow> (k, t) # rest | None \<Rightarrow> rest)))))"

definition validateTargetMap :: "jval \<Rightarrow> string \<Rightarrow> (string \<times> target) list res" where
  "validateTargetMap v label = rbind (ensure (plain_object v) (Type_Error (label @ '' must be an object''))) (\<lambda>_.
     target_entries label [] (obj_fields v))"

definition manifest_fields :: "string list" where
  "manifest_fields = [''version'', ''canonicalOpsTarget'', ''ownerTargets'', ''jobFailureTargets'']"

definition validateRoutingManifest :: "jval \<Rightarrow> bool \<Rightarrow> manifest res" where
  "validateRoutingManifest raw allowMissing =
     rbind (ensure (plain_object raw) (Type_Error ''routing manifest must be an object'')) (\<lambda>_.
     rbind (ensure (set (map fst (obj_fields raw)) \<subseteq> set manifest_fields) (Type_Error ''routing manifest has unknown field'')) (\<lambda>_.
     rbind (ensure (set manifest_fields \<subseteq> set (map fst (obj_fields raw))) (Type_Error ''routing manifest requires every field'')) (\<lambda>_.
     rbind (ensure (jget raw ''version'' = JInt 1) (Type_Error ''routing manifest version must be 1'')) (\<lambda>_.
     rbind (validateTarget (jget raw ''canonicalOpsTarget'') ''canonicalOpsTarget'' allowMissing) (\<lambda>ops.
     rbind (validateTargetMap (jget raw ''ownerTargets'') ''ownerTargets'') (\<lambda>owners.
     rbind (validateTargetMap (jget raw ''jobFailureTargets'') ''jobFailureTargets'') (\<lambda>jobs.
       Inr \<lparr>mf_canonicalOpsTarget = ops, mf_ownerTargets = owners, mf_jobFailureTargets = jobs\<rparr>)))))))"

definition target_val :: "target \<Rightarrow> jval" where
  "target_val t = JObj [(''channel'', JStr (tg_channel t)), (''to'', JStr (tg_to t))]"

text \<open>The validated manifest is an object of the same shape and is validated again by its readers.\<close>

definition manifest_val :: "manifest \<Rightarrow> jval" where
  "manifest_val m = JObj [(''version'', JInt 1),
     (''canonicalOpsTarget'', case mf_canonicalOpsTarget m of Some t \<Rightarrow> target_val t | None \<Rightarrow> JNull),
     (''ownerTargets'', JObj (map (\<lambda>(k, t). (k, target_val t)) (mf_ownerTargets m))),
     (''jobFailureTargets'', JObj (map (\<lambda>(k, t). (k, target_val t)) (mf_jobFailureTargets m)))]"

subsection \<open>The route of a notification\<close>

record route_decision =
  rd_route :: "target option"
  rd_source :: "string option"
  rd_targetMissing :: bool
  rd_degraded :: bool
  rd_reason :: "string option"

definition routed :: "target \<Rightarrow> string \<Rightarrow> bool \<Rightarrow> route_decision" where
  "routed t source missing = \<lparr>rd_route = Some t, rd_source = Some source, rd_targetMissing = missing,
     rd_degraded = False, rd_reason = None\<rparr>"

definition unrouted :: "bool \<Rightarrow> string option \<Rightarrow> route_decision" where
  "unrouted missing reason = \<lparr>rd_route = None, rd_source = None, rd_targetMissing = missing, rd_degraded = True, rd_reason = reason\<rparr>"

definition businessTarget :: "job option \<Rightarrow> target option" where
  "businessTarget j = (case j of None \<Rightarrow> None
   | Some j \<Rightarrow> if d_mode (j_delivery j) = No_Delivery then None
       else if d_channel (j_delivery j) = Some ''feishu''
       then (case d_to (j_delivery j) of Some to \<Rightarrow> if js_trim to \<noteq> [] then Some \<lparr>tg_channel = ''feishu'', tg_to = to\<rparr> else None
         | None \<Rightarrow> None)
       else None)"

definition error_message :: "js_error \<Rightarrow> string" where
  "error_message e = (case e of Type_Error m \<Rightarrow> m | Plain_Error m \<Rightarrow> m | Coded_Error _ m \<Rightarrow> m | No_Return \<Rightarrow> [])"

definition resolveNotificationRoute :: "string \<Rightarrow> job option \<Rightarrow> jval \<Rightarrow> route_decision res" where
  "resolveNotificationRoute routeClass j raw = (case validateRoutingManifest raw True of
     Inl e \<Rightarrow> Inr (unrouted False (Some (error_message e)))
   | Inr m \<Rightarrow>
       if routeClass = ''BUSINESS_OUTPUT'' then
         (case businessTarget j of Some t \<Rightarrow> Inr (routed t ''job.delivery'' False)
          | None \<Rightarrow> Inr (unrouted False (Some ''business delivery target missing'')))
       else if routeClass = ''JOB_FAILURE'' then
         (case map_of (mf_jobFailureTargets m) (or_undefined (case j of Some j \<Rightarrow> j_logicalKey j | None \<Rightarrow> None)) of
            Some t \<Rightarrow> Inr (routed t ''jobFailureTargets'' False)
          | None \<Rightarrow> (case map_of (mf_ownerTargets m) (or_undefined (map_option j_agentId j)) of
              Some t \<Rightarrow> Inr (routed t ''ownerTargets'' False)
            | None \<Rightarrow> (case mf_canonicalOpsTarget m of
                Some t \<Rightarrow> Inr (routed t ''canonicalOpsTarget'' True)
              | None \<Rightarrow> Inr (unrouted True None))))
       else if routeClass = ''SCHEDULER_CONTROL_PLANE_INCIDENT'' then
         (case mf_canonicalOpsTarget m of Some t \<Rightarrow> Inr (routed t ''canonicalOpsTarget'' False)
          | None \<Rightarrow> Inr (unrouted False None))
       else Inl (Type_Error (''unknown route class: '' @ routeClass)))"

definition job_of :: "job list \<Rightarrow> string option \<Rightarrow> job option" where
  "job_of jobs i = find (\<lambda>j. Some (j_id j) = i) jobs"

definition binding_current :: "delivery_binding \<Rightarrow> route_decision \<Rightarrow> string \<Rightarrow> bool" where
  "binding_current b dec sha \<longleftrightarrow> rd_route dec = Some (b_route b) \<and> rd_source dec = Some (b_routeSource b) \<and> b_routingSha256 b = sha"

definition within_now :: "int \<Rightarrow> int option \<Rightarrow> bool" where
  "within_now now t \<longleftrightarrow> (case t of Some v \<Rightarrow> is_safe_int v \<and> v \<le> now | None \<Rightarrow> True)"

definition check_binding :: "manifest \<Rightarrow> job list \<Rightarrow> string \<Rightarrow> int \<Rightarrow> intent \<Rightarrow> unit res" where
  "check_binding m jobs sha now n =
     rbind (ensure (within_now now (n_bindingAt n) \<and> within_now now (n_firstAttemptAt n) \<and> within_now now (n_updatedAt n))
       (Type_Error (''incident delivery binding time is invalid: '' @ n_key n))) (\<lambda>_.
     case n_binding n of None \<Rightarrow> Inr ()
     | Some b \<Rightarrow> rbind (resolveNotificationRoute (n_routeClass n) (job_of jobs (rin_jobId (ci_root (i_of (n_incident n))))) (manifest_val m)) (\<lambda>dec.
         ensure (binding_current b dec sha) (Type_Error (''incident delivery binding routing authority mismatch: '' @ n_key n))))"

definition validateIncidentDeliveryBindings ::
    "istate \<Rightarrow> jval \<Rightarrow> job list \<Rightarrow> string option \<Rightarrow> int \<Rightarrow> unit res" where
  "validateIncidentDeliveryBindings st raw jobs sha now = (case sha of
     Some sha \<Rightarrow>
       rbind (ensure (is_sha256 sha) (Type_Error ''incident binding routing generation is unavailable'')) (\<lambda>_.
       rbind (ensure (is_safe_int now \<and> 0 \<le> now) (Type_Error ''incident binding observation time is unavailable'')) (\<lambda>_.
       rbind (validateRoutingManifest raw False) (\<lambda>m. each (check_binding m jobs sha now) (st_outbox st))))
   | None \<Rightarrow> Inl (Type_Error ''incident binding routing generation is unavailable''))"

subsection \<open>One delivery attempt\<close>

datatype send_outcome = Send_Accepted | Send_Refused | Send_Lost

definition attemptNotificationDelivery :: "send_outcome \<Rightarrow> dstate" where
  "attemptNotificationDelivery s = (case s of Send_Accepted \<Rightarrow> D_Delivered | Send_Refused \<Rightarrow> D_Failed | Send_Lost \<Rightarrow> D_Unknown)"

datatype recovery_action = Do_Send | Do_Hold | Do_Mark_Delivered

definition deliveryRecoveryAction :: "dstate \<Rightarrow> bool \<Rightarrow> bool \<Rightarrow> recovery_action" where
  "deliveryRecoveryAction delivery accepted readbackComplete = (if delivery \<noteq> D_Unknown then Do_Send
     else if \<not> readbackComplete then Do_Hold else if accepted then Do_Mark_Delivered else Do_Send)"

datatype effect =
    Saved istate
  | Looked_Up string
  | Sent string string target

text \<open>
  \<^verbatim>\<open>feishuAlert\<close> tries up to three times, each time with a fresh token: the token may be refused before
  anything is posted, the provider may accept or refuse the message, or the answer to the POST may be
  lost. It throws the error of the last attempt, and only a lost answer leaves that one in doubt. It
  returns the number of POSTs made. Missing credentials, which end it at once with the error of a refused
  token, are three refused tokens here.
\<close>

datatype attempt = Token_Refused | Post_Accepted | Post_Refused | Post_Lost

definition attempt_error :: "attempt \<Rightarrow> send_outcome" where
  "attempt_error a = (if a = Post_Lost then Send_Lost else Send_Refused)"

fun feishuAlert :: "attempt list \<Rightarrow> nat \<times> send_outcome" where
  "feishuAlert [] = (0, Send_Refused)"
| "feishuAlert (a # as) =
     (if a = Post_Accepted then (1, Send_Accepted)
      else let posts = (if a = Token_Refused then 0 else 1) in
        if as = [] then (posts, attempt_error a)
        else let (more, s) = feishuAlert as in (posts + more, s))"

record answers =
  an_file :: "(jval \<times> string) option"
  an_readback :: "bool option"
  an_attempts :: "attempt \<times> attempt \<times> attempt"

definition alert_of :: "answers \<Rightarrow> nat \<times> send_outcome" where
  "alert_of an = (case an_attempts an of (a, b, c) \<Rightarrow> feishuAlert [a, b, c])"

definition an_send :: "answers \<Rightarrow> send_outcome" where
  "an_send an = snd (alert_of an)"

text \<open>\<^verbatim>\<open>deliverOrPark\<close>: every POST carries the same text to the same target.\<close>

definition deliverOrPark :: "answers \<Rightarrow> intent \<Rightarrow> string \<Rightarrow> target \<Rightarrow> effect list \<times> dstate" where
  "deliverOrPark an n text' t =
     (replicate (fst (alert_of an)) (Sent (n_key n) text' t), attemptNotificationDelivery (an_send an))"

text \<open>What is sent and looked up, and the delivery state that results.\<close>

definition recoverNotificationDelivery :: "answers \<Rightarrow> intent \<Rightarrow> string \<Rightarrow> target \<Rightarrow> effect list \<times> dstate" where
  "recoverNotificationDelivery an n text' t =
     (let send = deliverOrPark an n text' t in
      if n_delivery n \<noteq> D_Unknown then send
      else case an_readback an of
        None \<Rightarrow> ([Looked_Up (n_key n)], D_Unknown)
      | Some accepted \<Rightarrow> (case deliveryRecoveryAction (n_delivery n) accepted True of
          Do_Mark_Delivered \<Rightarrow> ([Looked_Up (n_key n)], D_Delivered)
        | _ \<Rightarrow> (Looked_Up (n_key n) # fst send, snd send)))"

subsection \<open>The loop over the waiting notifications\<close>

record run_state =
  dr_state :: istate
  dr_disk :: "istate option"
  dr_trace :: "effect list"
  dr_failed :: bool

type_synonym run_outcome = "run_state \<times> js_error option"

text \<open>A step that throws ends the run; what was done before stays done.\<close>

definition and_then :: "run_outcome \<Rightarrow> (run_state \<Rightarrow> run_outcome) \<Rightarrow> run_outcome" where
  "and_then p f = (case p of (rs, None) \<Rightarrow> f rs | (rs, Some e) \<Rightarrow> (rs, Some e))"

definition change_state :: "istate res \<Rightarrow> run_state \<Rightarrow> run_outcome" where
  "change_state r rs = (case r of Inr st \<Rightarrow> (rs\<lparr>dr_state := st\<rparr>, None) | Inl e \<Rightarrow> (rs, Some e))"

definition commit_state :: "ext \<Rightarrow> rendering \<Rightarrow> (migration \<Rightarrow> bool) \<Rightarrow> run_state \<Rightarrow> run_outcome" where
  "commit_state X render backups rs = (case commitIncidentState X render backups (dr_disk rs) (dr_disk rs) (dr_state rs) of
     Inr disk \<Rightarrow> (rs\<lparr>dr_disk := disk, dr_trace := dr_trace rs @ [Saved (dr_state rs)]\<rparr>, None)
   | Inl e \<Rightarrow> (rs, Some e))"

definition failed_run :: "run_state \<Rightarrow> run_outcome" where
  "failed_run rs = (rs\<lparr>dr_failed := True\<rparr>, None)"

definition does :: "effect list \<Rightarrow> run_state \<Rightarrow> run_state" where
  "does es rs = rs\<lparr>dr_trace := dr_trace rs @ es\<rparr>"

definition bind_step ::
    "ext \<Rightarrow> rendering \<Rightarrow> (migration \<Rightarrow> bool) \<Rightarrow> string \<Rightarrow> int \<Rightarrow> intent \<Rightarrow> target \<Rightarrow> string \<Rightarrow> string \<Rightarrow> string \<Rightarrow> run_state \<Rightarrow> run_outcome" where
  "bind_step X render backups role now n t source sha text' rs =
     (if n_binding n \<noteq> None then (rs, None)
      else case providerIdempotencyKey (n_key n) of
        Inl e \<Rightarrow> (rs, Some e)
      | Inr pk \<Rightarrow> and_then (change_state (bindNotificationDelivery (dr_state rs) (n_key n)
            \<lparr>b_producer = role, b_route = t, b_routeSource = source, b_routingSha256 = sha, b_payload = text', b_providerKey = pk\<rparr> now) rs)
          (\<lambda>rs. if n_delivery n \<noteq> D_Failed then commit_state X render backups rs else (rs, None)))"

definition deliver_step ::
    "ext \<Rightarrow> rendering \<Rightarrow> (migration \<Rightarrow> bool) \<Rightarrow> int \<Rightarrow> answers \<Rightarrow> intent \<Rightarrow> target \<Rightarrow> string \<Rightarrow> run_state \<Rightarrow> run_outcome" where
  "deliver_step X render backups now an n t text' rs =
     and_then
       (if n_delivery n = D_Unknown then (rs, None)
        else and_then (change_state (markNotificationDelivery (dr_state rs) (n_key n) D_Unknown now) rs) (commit_state X render backups))
       (\<lambda>rs. let (es, delivered) = (if n_delivery n = D_Unknown then recoverNotificationDelivery an n text' t
             else deliverOrPark an n text' t);
           rs = (does es rs)\<lparr>dr_failed := dr_failed rs \<or> delivered \<noteq> D_Delivered\<rparr>
         in and_then (change_state (markNotificationDelivery (dr_state rs) (n_key n) delivered now) rs) (commit_state X render backups))"

text \<open>\<^verbatim>\<open>readProtectedRoutingManifest\<close> with its caller's \<^verbatim>\<open>catch\<close>: the validated manifest and the hash of its bytes.\<close>

definition routing_of :: "answers \<Rightarrow> (manifest \<times> string) option" where
  "routing_of an = (case an_file an of None \<Rightarrow> None
     | Some (raw, sha) \<Rightarrow> (case validateRoutingManifest raw False of Inr m \<Rightarrow> Some (m, sha) | Inl _ \<Rightarrow> None))"

definition finding_job :: "intent \<Rightarrow> string option" where
  "finding_job n = (case ci_facts (i_of (n_incident n)) of f # _ \<Rightarrow> ft_jobId f | [] \<Rightarrow> None)"

definition process_intent ::
    "ext \<Rightarrow> rendering \<Rightarrow> (migration \<Rightarrow> bool) \<Rightarrow> string \<Rightarrow> int \<Rightarrow> job list \<Rightarrow> (intent \<Rightarrow> answers) \<Rightarrow> intent \<Rightarrow> run_state \<Rightarrow> run_outcome" where
  "process_intent X render backups role now jobs world n rs =
     (let an = world n; routing = routing_of an;
          raw = (case routing of Some (m, _) \<Rightarrow> manifest_val m | None \<Rightarrow> JNull)
      in case validateIncidentDeliveryBindings (dr_state rs) raw jobs (map_option snd routing) now of
        Inl _ \<Rightarrow> failed_run rs
      | Inr _ \<Rightarrow> (case resolveNotificationRoute (n_routeClass n) (job_of jobs (finding_job n)) raw of
          Inl e \<Rightarrow> (rs, Some e)
        | Inr dec \<Rightarrow>
            let sha = (case routing of Some (_, sha) \<Rightarrow> sha | None \<Rightarrow> []) in
            if (case n_binding n of Some b \<Rightarrow> \<not> binding_current b dec sha | None \<Rightarrow> False) then failed_run rs
            else if rd_route dec = None \<and> n_delivery n \<noteq> D_Pending then failed_run rs
            else let text' = (case n_binding n of Some b \<Rightarrow> b_payload b | None \<Rightarrow> render (n_incident n) (n_kind n) (n_key n)) in
              case rd_route dec of
                Some t \<Rightarrow> and_then (bind_step X render backups role now n t (or_undefined (rd_source dec)) sha text' rs)
                  (deliver_step X render backups now an n t text')
              | None \<Rightarrow> and_then (change_state (markNotificationDelivery (dr_state rs) (n_key n) D_Failed now) (rs\<lparr>dr_failed := True\<rparr>))
                  (commit_state X render backups)))"

fun process_intents ::
    "ext \<Rightarrow> rendering \<Rightarrow> (migration \<Rightarrow> bool) \<Rightarrow> string \<Rightarrow> int \<Rightarrow> job list \<Rightarrow> (intent \<Rightarrow> answers) \<Rightarrow> intent list \<Rightarrow> run_state \<Rightarrow> run_outcome" where
  "process_intents X render backups role now jobs world [] rs = (rs, None)"
| "process_intents X render backups role now jobs world (n # ns) rs =
     and_then (process_intent X render backups role now jobs world n rs) (process_intents X render backups role now jobs world ns)"

definition processIncidentNotifications ::
    "ext \<Rightarrow> (string \<Rightarrow> string \<Rightarrow> bool) \<Rightarrow> rendering \<Rightarrow> (migration \<Rightarrow> bool) \<Rightarrow> string \<Rightarrow> int \<Rightarrow> job list \<Rightarrow> (intent \<Rightarrow> answers)
      \<Rightarrow> fact list \<Rightarrow> istate option \<Rightarrow> run_outcome" where
  "processIncidentNotifications X le render backups role now jobs world findings disk =
     (let rs0 = \<lparr>dr_state = empty_istate, dr_disk = disk, dr_trace = [], dr_failed = False\<rparr> in
      and_then (change_state (rbind (loadIncidentState X render backups disk) (\<lambda>st.
          rbind (updateAlertState X le now (ownsIncident role) role st (annotateFindingsWithJobs jobs findings)) (\<lambda>p. Inr (fst p)))) rs0) (\<lambda>rs.
      and_then (commit_state X render backups rs) (\<lambda>rs.
      case retryableOutboxIntents (dr_state rs) role of
        Inl e \<Rightarrow> (rs, Some e)
      | Inr waiting \<Rightarrow> process_intents X render backups role now jobs world
          (fst (projectIncidentDelivery X le (dr_state rs) waiting)) rs)))"

end
