(* ===== verification/NotifyRuns.thy ===== *)
theory NotifyRuns
  imports Notify
begin

section \<open>What a delivery run does\<close>

text \<open>
  A run that starts from a coherent state ends without an error, every state it commits is coherent, and
  nothing is sent that is not recorded in the state committed before.
\<close>

subsection \<open>Changes of one notification, as replacements\<close>

interpretation marked_rows: keyed_rows n_key "marked d now"
  by unfold_locales (simp add: marked_def)

definition bound :: "delivery_binding \<Rightarrow> int \<Rightarrow> intent \<Rightarrow> intent" where
  "bound b now n = n\<lparr>n_binding := or_else (n_binding n) (Some b), n_bindingAt := or_else (n_bindingAt n) (Some now)\<rparr>"

interpretation bound_rows: keyed_rows n_key "bound b now"
  by unfold_locales (simp add: bound_def)

interpretation alerted_rows: keyed_rows i_root "mark_record d n"
  by unfold_locales simp

lemma bound_fields [simp]:
  "n_incident (bound b now n) = n_incident n" "n_key (bound b now n) = n_key n" "n_delivery (bound b now n) = n_delivery n"
  "n_firstAttemptAt (bound b now n) = n_firstAttemptAt n" "n_updatedAt (bound b now n) = n_updatedAt n"
  "n_binding (bound b now n) = or_else (n_binding n) (Some b)" "n_bindingAt (bound b now n) = or_else (n_bindingAt n) (Some now)"
  "same_core n (bound b now n)" "n_producer (bound b now n) = n_producer n" "n_routeClass (bound b now n) = n_routeClass n"
  "n_kind (bound b now n) = n_kind n"
  by (simp_all add: bound_def same_core_def)

lemma marked_fields [simp]:
  "n_incident (marked d now n) = n_incident n" "n_key (marked d now n) = n_key n" "n_delivery (marked d now n) = d"
  "n_updatedAt (marked d now n) = Some now" "n_binding (marked d now n) = n_binding n" "n_bindingAt (marked d now n) = n_bindingAt n"
  "n_firstAttemptAt (marked d now n) = (if d = D_Unknown then or_else (n_firstAttemptAt n) (Some now) else n_firstAttemptAt n)"
  "same_core n (marked d now n)" "n_producer (marked d now n) = n_producer n" "n_routeClass (marked d now n) = n_routeClass n"
  "n_kind (marked d now n) = n_kind n"
  by (simp_all add: marked_def same_core_def)

lemma bound_marked_core [simp]: "same_core n (marked d now (bound b now n))"
  by (simp add: same_core_def marked_def bound_def)

lemma only_one_key:
  assumes "wf_istate st" and "find_intent st k = Some n"
  shows "map (\<lambda>x. if n_key x = k then f x else x) (st_outbox st) = map (\<lambda>x. if n_key x = k then f n else x) (st_outbox st)"
proof (rule map_cong[OF refl])
  fix x
  assume "x \<in> set (st_outbox st)"
  then have "n_key x = k \<Longrightarrow> find_intent st k = Some x"
    by (simp add: find_intent_in[OF assms(1)])
  with assms(2) show "(if n_key x = k then f x else x) = (if n_key x = k then f n else x)"
    by auto
qed

lemma bind_result:
  assumes wf: "wf_istate st" and n: "find_intent st k = Some n" and "n_binding n = None"
    and "is_safe_int now" and "al_lastTransitionAt (i_alert (n_incident n)) \<le> now"
  shows "bindNotificationDelivery st k b now = Inr (replaced (bound b now n) (\<lambda>r. r) st)"
proof -
  have "n_key n = k"
    using n find_intent_in[OF wf] by blast
  moreover have "update_first (\<lambda>x. n_key x = k) (bound b now) (st_outbox st)
      = map (\<lambda>x. if n_key x = k then bound b now n else x) (st_outbox st)"
    using wf bound_rows.update_first_map only_one_key[OF wf n, of "bound b now"]
    by (simp add: wf_istate_def)
  moreover have "(\<lambda>n. n\<lparr>n_binding := or_else (n_binding n) (Some b), n_bindingAt := or_else (n_bindingAt n) (Some now)\<rparr>) = bound b now"
    by (simp add: bound_def fun_eq_iff)
  ultimately show ?thesis
    using assms by (simp add: bindNotificationDelivery_def update_intent_def replaced_def)
qed

lemma mark_result:
  assumes wf: "wf_istate st" and n: "find_intent st k = Some n" and "mark_allows (n_delivery n) d"
    and "is_safe_int now" and "chronology_floor n \<le> now"
    and "d = D_Unknown \<or> d = D_Delivered \<Longrightarrow> n_binding n \<noteq> None"
    and "d = D_Delivered \<or> d = D_Failed \<Longrightarrow> n_binding n \<noteq> None \<Longrightarrow> \<exists>t. n_firstAttemptAt n = Some t \<and> is_safe_int t"
  shows "markNotificationDelivery st k d now = Inr (replaced (marked d now n) (mark_record d n) st)"
proof -
  have "n_key n = k"
    using n find_intent_in[OF wf] by blast
  moreover have "update_first (\<lambda>x. n_key x = k) (marked d now) (st_outbox st)
      = map (\<lambda>x. if n_key x = k then marked d now n else x) (st_outbox st)"
    using wf marked_rows.update_first_map only_one_key[OF wf n, of "marked d now"]
    by (simp add: wf_istate_def)
  moreover have "update_first (\<lambda>r. i_root r = n_root n) (mark_record d n) (st_incidents st)
      = map (\<lambda>r. if i_root r = n_root n then mark_record d n r else r) (st_incidents st)"
    using wf by (simp add: wf_istate_def alerted_rows.update_first_map)
  ultimately show ?thesis
    using assms by (auto simp: markNotificationDelivery_def update_intent_def replaced_def)
qed

lemma replaced_twice:
  assumes "same_core m m'"
  shows "replaced m' g (replaced m (\<lambda>r. r) st) = replaced m' g st"
  using assms by (simp add: replaced_def same_core_def o_def)

lemma replaced_find_intent:
  assumes "intent_change X render st n m g"
  shows "find_intent (replaced m g st) k = (if k = n_key n then Some m else find_intent st k)"
proof -
  have "find (\<lambda>x. n_key x = k) (map (\<lambda>x. if n_key x = n_key m then m else x) xs)
      = (if k = n_key m \<and> n_key m \<in> n_key ` set xs then Some m else find (\<lambda>x. n_key x = k) xs)" for xs
    by (induction xs) auto
  then show ?thesis
    using change_parts[OF assms] by (auto simp: find_intent_def replaced_def)
qed

subsection \<open>Committing a replacement\<close>

definition may_become :: "intent \<Rightarrow> intent \<Rightarrow> bool" where
  "may_become b a \<longleftrightarrow> commit_allows (n_delivery b) (n_delivery a) \<and> kept (n_binding b) (n_binding a)
     \<and> kept (n_bindingAt b) (n_bindingAt a) \<and> kept (n_firstAttemptAt b) (n_firstAttemptAt a)
     \<and> (n_updatedAt b \<noteq> None \<longrightarrow> n_updatedAt a \<noteq> None \<and> at_least (n_updatedAt a) (n_updatedAt b))"

lemma commit_intent_iff: "find_intent st (n_key b) = Some a \<Longrightarrow> commit_intent st b = Inr () \<longleftrightarrow> may_become b a"
  by (auto simp: commit_intent_def may_become_def rbind_eq_Inr ensure_eq_Inr)

lemma replaced_migration [simp]: "st_migration (replaced m g st) = st_migration st"
  by (simp add: replaced_def)

lemma migration_ok_replaced [simp]: "migration_ok backups (replaced m g st) = migration_ok backups st"
  by (simp add: migration_ok_def)

lemma commit_replaced:
  assumes change: "intent_change X render st n m g" and m: "binding_coherent render m" "chronology_coherent m" "may_become n m"
    and mig: "migration_ok backups st"
  shows "commitIncidentState X render backups (Some st) (Some st) (replaced m g st) = Inr (Some (replaced m g st))"
proof (rule commit_accepts)
  note st = change_parts[OF change]
  show "loadIncidentState X render backups (Some st) = Inr st"
    by (rule load_valid[OF st(1) mig])
  show "valid_istate X render (replaced m g st)"
    by (rule replaced_valid[OF change m(1,2)])
  show "migration_ok backups (replaced m g st)"
    using mig by simp
  show "commit_intent (replaced m g st) x = Inr ()" if x: "x \<in> set (st_outbox st)" for x
  proof (cases "n_key x = n_key n")
    case True
    then have "x = n"
      using change_intent(2)[OF change x] st(5) by simp
    then show ?thesis
      using m(3) commit_intent_iff[of "replaced m g st" n m] replaced_find_intent[OF change] by simp
  next
    case False
    then have "find_intent (replaced m g st) (n_key x) = Some x"
      using x st(2) by (simp add: replaced_find_intent[OF change] find_intent_in)
    then show ?thesis
      using valid_chronology[OF st(1) x] by (rule commit_intent_refl)
  qed
qed

subsection \<open>The routing manifest is validated twice\<close>

definition good_target :: "target \<Rightarrow> bool" where
  "good_target t \<longleftrightarrow> tg_channel t = ''feishu'' \<and> js_trim (tg_to t) \<noteq> []"

lemma validateTarget_good:
  "validateTarget v label optional = Inr r \<Longrightarrow> (case r of Some t \<Rightarrow> good_target t | None \<Rightarrow> optional)"
  by (auto simp: validateTarget_def rbind_eq_Inr ensure_eq_Inr good_target_def split: if_splits)

lemma validateTarget_val: "good_target t \<Longrightarrow> validateTarget (target_val t) label optional = Inr (Some t)"
  by (auto simp: validateTarget_def target_val_def good_target_def)

lemma target_entries_good:
  "target_entries label seen kvs = Inr ts \<Longrightarrow>
    (\<forall>t \<in> snd ` set ts. good_target t) \<and> target_entries label seen (map (\<lambda>(k, t). (k, target_val t)) ts) = Inr ts"
proof (induction label seen kvs arbitrary: ts rule: target_entries.induct)
  case (2 label seen k v kvs)
  obtain t rest where t: "js_trim k \<noteq> []" "js_trim k \<notin> set seen" "validateTarget v (label @ ''.'' @ k) False = Inr t"
    "target_entries label (js_trim k # seen) kvs = Inr rest" "ts = (case t of Some t \<Rightarrow> (k, t) # rest | None \<Rightarrow> rest)"
    using "2.prems" by (auto simp: rbind_eq_Inr ensure_eq_Inr)
  obtain t' where t': "t = Some t'" "good_target t'"
    using validateTarget_good[OF t(3)] by (cases t) auto
  have "(\<forall>t \<in> snd ` set rest. good_target t) \<and> target_entries label (js_trim k # seen) (map (\<lambda>(k, t). (k, target_val t)) rest) = Inr rest"
    using "2.IH" t(1-4) by (simp add: ensure_def)
  then show ?case
    using t t' by (simp add: validateTarget_val)
qed simp

definition good_manifest :: "manifest \<Rightarrow> bool" where
  "good_manifest m \<longleftrightarrow> (\<exists>t. mf_canonicalOpsTarget m = Some t \<and> good_target t)
     \<and> (\<forall>t \<in> snd ` set (mf_ownerTargets m). good_target t) \<and> (\<forall>t \<in> snd ` set (mf_jobFailureTargets m). good_target t)"

lemma validateTargetMap_good:
  assumes "validateTargetMap v label = Inr ts"
  shows "\<forall>t \<in> snd ` set ts. good_target t" and "validateTargetMap (JObj (map (\<lambda>(k, t). (k, target_val t)) ts)) label = Inr ts"
  using assms target_entries_good[of label "[]"] by (auto simp: validateTargetMap_def rbind_eq_Inr ensure_eq_Inr)

lemma validateRoutingManifest_again:
  assumes "validateRoutingManifest raw False = Inr m"
  shows "good_manifest m" and "validateRoutingManifest (manifest_val m) optional = Inr m"
proof -
  obtain ops owners jobs where parts: "validateTarget (jget raw ''canonicalOpsTarget'') ''canonicalOpsTarget'' False = Inr ops"
    "validateTargetMap (jget raw ''ownerTargets'') ''ownerTargets'' = Inr owners"
    "validateTargetMap (jget raw ''jobFailureTargets'') ''jobFailureTargets'' = Inr jobs"
    "m = \<lparr>mf_canonicalOpsTarget = ops, mf_ownerTargets = owners, mf_jobFailureTargets = jobs\<rparr>"
    using assms by (auto simp: validateRoutingManifest_def rbind_eq_Inr)
  obtain t where t: "ops = Some t" "good_target t"
    using validateTarget_good[OF parts(1)] by (cases ops) auto
  show "good_manifest m"
    using t parts(4) validateTargetMap_good(1)[OF parts(2)] validateTargetMap_good(1)[OF parts(3)] by (simp add: good_manifest_def)
  have "set (map fst (obj_fields (manifest_val m))) = set manifest_fields"
    by (auto simp: manifest_val_def manifest_fields_def)
  moreover have "plain_object (manifest_val m)" "jget (manifest_val m) ''version'' = JInt 1"
    "jget (manifest_val m) ''canonicalOpsTarget'' = target_val t"
    "jget (manifest_val m) ''ownerTargets'' = JObj (map (\<lambda>(k, t). (k, target_val t)) owners)"
    "jget (manifest_val m) ''jobFailureTargets'' = JObj (map (\<lambda>(k, t). (k, target_val t)) jobs)"
    by (simp_all add: manifest_val_def parts(4) t(1))
  ultimately show "validateRoutingManifest (manifest_val m) optional = Inr m"
    using validateTarget_val[OF t(2)] validateTargetMap_good(2)[OF parts(2)] validateTargetMap_good(2)[OF parts(3)]
    by (simp add: validateRoutingManifest_def parts(4) t(1))
qed

definition incident_routes :: "string list" where
  "incident_routes = [''JOB_FAILURE'', ''SCHEDULER_CONTROL_PLANE_INCIDENT'']"

text \<open>With a manifest that passes validation, a notification of an incident always has a route.\<close>

lemma route_exists:
  assumes "validateRoutingManifest raw False = Inr m" and "routeClass \<in> set incident_routes"
  shows "\<exists>t s missing. resolveNotificationRoute routeClass j (manifest_val m) = Inr (routed t s missing) \<and> good_target t
    \<and> s \<in> set (allowed_sources routeClass)"
proof -
  note again = validateRoutingManifest_again[OF assms(1)]
  obtain ops where ops: "mf_canonicalOpsTarget m = Some ops" "good_target ops"
    using again(1) by (auto simp: good_manifest_def)
  have good: "map_of (mf_jobFailureTargets m) k = Some t \<Longrightarrow> good_target t" "map_of (mf_ownerTargets m) k = Some t \<Longrightarrow> good_target t" for k t
    using again(1) by (force simp: good_manifest_def dest: map_of_SomeD)+
  show ?thesis
  proof (cases "routeClass = ''JOB_FAILURE''")
    case True
    let ?job = "map_of (mf_jobFailureTargets m) (or_undefined (case j of Some j \<Rightarrow> j_logicalKey j | None \<Rightarrow> None))"
    let ?owner = "map_of (mf_ownerTargets m) (or_undefined (map_option j_agentId j))"
    have "resolveNotificationRoute routeClass j (manifest_val m) = Inr (case ?job of Some t \<Rightarrow> routed t ''jobFailureTargets'' False
        | None \<Rightarrow> (case ?owner of Some t \<Rightarrow> routed t ''ownerTargets'' False | None \<Rightarrow> routed ops ''canonicalOpsTarget'' True))"
      using True again(2)[of True] ops(1) by (simp add: resolveNotificationRoute_def split: option.split)
    moreover have "set (allowed_sources routeClass) = {''jobFailureTargets'', ''ownerTargets'', ''canonicalOpsTarget''}"
      using True by (simp add: allowed_sources_def)
    ultimately show ?thesis
      using good ops(2) by (cases ?job; cases ?owner) fastforce+
  next
    case False
    then have "routeClass = ''SCHEDULER_CONTROL_PLANE_INCIDENT''"
      using assms(2) by (simp add: incident_routes_def)
    then show ?thesis
      using again(2)[of True] ops by (intro exI[of _ ops] exI[of _ "''canonicalOpsTarget''"] exI[of _ False])
        (simp add: resolveNotificationRoute_def allowed_sources_def)
  qed
qed

subsection \<open>Steps of the delivery\<close>

definition timely :: "int \<Rightarrow> intent \<Rightarrow> bool" where
  "timely now n \<longleftrightarrow> chronology_floor n \<le> now"

lemma timely_iff: "timely now n \<longleftrightarrow> al_lastTransitionAt (i_alert (n_incident n)) \<le> now \<and> or_zero (n_bindingAt n) \<le> now
    \<and> or_zero (n_firstAttemptAt n) \<le> now \<and> or_zero (n_updatedAt n) \<le> now"
  by (simp add: timely_def chronology_floor_def)

lemma or_zero_simps [simp]: "or_zero None = 0" "or_zero (Some t) = t"
  by (simp_all add: or_zero_def)

lemma or_else_simps [simp]: "or_else None b = b" "or_else (Some x) b = Some x"
  by (simp_all add: or_else_def)

lemma at_least_simps [simp]:
  "at_least None b" "at_least (Some t) (Some f) \<longleftrightarrow> is_safe_int t \<and> f \<le> t" "\<not> at_least (Some t) None"
  by (simp_all add: at_least_def)

lemma unbound_never_tried:
  assumes "binding_coherent render n" and "chronology_coherent n" and "n_binding n = None"
  shows "n_bindingAt n = None" and "n_firstAttemptAt n = None" and "n_delivery n = D_Pending \<or> n_delivery n = D_Failed"
proof -
  show "n_bindingAt n = None" and "n_firstAttemptAt n = None"
    using assms by (auto simp: binding_coherent_def chronology_coherent_def)
  show "n_delivery n = D_Pending \<or> n_delivery n = D_Failed"
    using assms(2,3) by (cases "n_delivery n") (simp_all add: chronology_coherent_def)
qed

lemma bound_waits:
  assumes "binding_coherent render n" and "chronology_coherent n" and "n_binding n = None" and "n_delivery n = D_Pending"
    and "timely now n" and "0 \<le> now"
  shows "chronology_coherent (bound b now n)" and "may_become n (bound b now n)" and "timely now (bound b now n)"
proof -
  note u = unbound_never_tried[OF assms(1-3)]
  have "n_updatedAt n = None"
    using assms(2,4) by (simp add: chronology_coherent_def)
  then show "chronology_coherent (bound b now n)" and "may_become n (bound b now n)" and "timely now (bound b now n)"
    using u assms(4-6) by (simp_all add: chronology_coherent_def may_become_def commit_allows_def kept_def timely_iff assms(3))
qed

lemma attempt_recorded:
  assumes "chronology_coherent n" and "timely now n" and "is_safe_int now" and "0 \<le> now"
    and "n_binding n = Some b" and "n_bindingAt n = Some t" and "n_delivery n = D_Pending \<or> n_delivery n = D_Failed"
  shows "chronology_coherent (marked D_Unknown now n)" and "may_become n (marked D_Unknown now n)" and "timely now (marked D_Unknown now n)"
proof -
  have t: "t \<le> now"
    using assms(2,6) by (simp add: timely_iff)
  show "chronology_coherent (marked D_Unknown now n)" and "timely now (marked D_Unknown now n)"
    using assms(1-6) t by (cases "n_firstAttemptAt n"; simp add: chronology_coherent_def timely_iff)+
  show "may_become n (marked D_Unknown now n)"
    using assms(2,3,7) by (cases "n_firstAttemptAt n"; cases "n_updatedAt n")
      (auto simp: may_become_def commit_allows_def kept_def timely_iff)
qed

lemma first_attempt_recorded:
  assumes "binding_coherent render n" and "chronology_coherent n" and "timely now n" and "is_safe_int now" and "0 \<le> now"
    and "n_binding n = None"
  shows "chronology_coherent (marked D_Unknown now (bound b now n))" and "may_become n (marked D_Unknown now (bound b now n))"
    and "timely now (marked D_Unknown now (bound b now n))"
proof -
  note u = unbound_never_tried[OF assms(1,2,6)]
  show "chronology_coherent (marked D_Unknown now (bound b now n))" and "timely now (marked D_Unknown now (bound b now n))"
    using u assms(3-6) by (simp_all add: chronology_coherent_def timely_iff)
  show "may_become n (marked D_Unknown now (bound b now n))"
    using u assms(3-6) by (cases "n_updatedAt n") (auto simp: may_become_def commit_allows_def kept_def timely_iff)
qed

lemma settlement_recorded:
  assumes "chronology_coherent n" and "timely now n" and "is_safe_int now" and "0 \<le> now"
    and "n_delivery n = D_Unknown" and "d \<noteq> D_Pending"
  shows "chronology_coherent (marked d now n)" and "may_become n (marked d now n)" and "timely now (marked d now n)"
proof -
  obtain f where f: "n_firstAttemptAt n = Some f" "n_binding n \<noteq> None" "f \<le> now"
    using assms(1,2,5) by (auto simp: chronology_coherent_def timely_iff)
  show "chronology_coherent (marked d now n)" and "timely now (marked d now n)"
    using assms(1-4,6) f by (simp_all add: chronology_coherent_def timely_iff)
  show "may_become n (marked d now n)"
    using assms(2-6) f by (cases d; cases "n_updatedAt n") (auto simp: may_become_def commit_allows_def kept_def timely_iff)
qed

lemma marked_binding_coherent [simp]: "binding_coherent render (marked d now n) = binding_coherent render n"
  by (simp add: binding_coherent_def cong: option.case_cong)

text \<open>Between two notifications the state in memory is the one on disk.\<close>

definition run_ok :: "ext \<Rightarrow> rendering \<Rightarrow> (migration \<Rightarrow> bool) \<Rightarrow> int \<Rightarrow> run_state \<Rightarrow> bool" where
  "run_ok X render backups now rs \<longleftrightarrow> valid_istate X render (dr_state rs) \<and> dr_disk rs = Some (dr_state rs)
     \<and> migration_ok backups (dr_state rs)
     \<and> (\<forall>n \<in> set (st_outbox (dr_state rs)). timely now n \<and> n_routeClass n \<in> set incident_routes)"

definition stored :: "istate \<Rightarrow> run_state \<Rightarrow> run_state" where
  "stored st rs = rs\<lparr>dr_state := st, dr_disk := Some st, dr_trace := dr_trace rs @ [Saved st]\<rparr>"

lemma stored_fields [simp]:
  "dr_state (stored st rs) = st" "dr_disk (stored st rs) = Some st" "dr_trace (stored st rs) = dr_trace rs @ [Saved st]"
  "dr_failed (stored st rs) = dr_failed rs" "stored st (rs\<lparr>dr_state := st'\<rparr>) = stored st rs"
  by (simp_all add: stored_def)

lemma commit_step:
  assumes ok: "run_ok X render backups now rs" and change: "intent_change X render (dr_state rs) n m g"
    and m: "binding_coherent render m" "chronology_coherent m" "may_become n m" "timely now m"
    and rs': "dr_state rs' = replaced m g (dr_state rs)" "dr_disk rs' = dr_disk rs"
  shows "commit_state X render backups rs' = (stored (replaced m g (dr_state rs)) rs', None)"
    and "run_ok X render backups now (stored (replaced m g (dr_state rs)) rs')"
    and "find_intent (replaced m g (dr_state rs)) k = (if k = n_key n then Some m else find_intent (dr_state rs) k)"
proof -
  have mig: "migration_ok backups (dr_state rs)" and disk: "dr_disk rs = Some (dr_state rs)"
    using ok by (simp_all add: run_ok_def)
  show "commit_state X render backups rs' = (stored (replaced m g (dr_state rs)) rs', None)"
    using commit_replaced[OF change m(1-3) mig] rs' disk by (simp add: commit_state_def stored_def)
  have "timely now x \<and> n_routeClass x \<in> set incident_routes" if "x \<in> set (st_outbox (replaced m g (dr_state rs)))" for x
  proof -
    have "x = m \<or> x \<in> set (st_outbox (dr_state rs))"
      using that by (auto simp: replaced_def)
    then show ?thesis
      using ok m(4) change_parts(3,4)[OF change] by (auto simp: run_ok_def same_core_def)
  qed
  then show "run_ok X render backups now (stored (replaced m g (dr_state rs)) rs')"
    using replaced_valid[OF change m(1,2)] mig by (simp add: run_ok_def)
  show "find_intent (replaced m g (dr_state rs)) k = (if k = n_key n then Some m else find_intent (dr_state rs) k)"
    by (rule replaced_find_intent[OF change])
qed

lemma replaced_wf:
  assumes change: "intent_change X render st n m g"
  shows "wf_istate (replaced m g st)"
proof -
  have "map n_key (st_outbox (replaced m g st)) = map n_key (st_outbox st)"
    "map i_root (st_incidents (replaced m g st)) = map i_root (st_incidents st)"
    by (auto simp: replaced_def change_row[OF change] intro!: map_cong)
  then show ?thesis
    using change_parts(2)[OF change] by (simp add: wf_istate_def)
qed

lemma mark_record_bound [simp]: "mark_record d (bound b now n) = mark_record d n"
  by (simp add: mark_record_def bound_def fun_eq_iff)

lemma and_then_simps [simp]: "and_then (rs, None) f = f rs" "and_then (rs, Some e) f = (rs, Some e)"
  by (simp_all add: and_then_def)

lemma and_then_assoc: "and_then (and_then p f) g = and_then p (\<lambda>rs. and_then (f rs) g)"
  by (cases p; cases "snd p") (auto simp: and_then_def split: option.splits)

lemma change_state_Inr [simp]: "change_state (Inr st) rs = (rs\<lparr>dr_state := st\<rparr>, None)"
  by (simp add: change_state_def)

definition is_commit :: "effect \<Rightarrow> bool" where
  "is_commit e \<longleftrightarrow> (case e of Saved _ \<Rightarrow> True | _ \<Rightarrow> False)"

lemma is_commit_simps [simp]: "is_commit (Saved st)" "\<not> is_commit (Looked_Up k)" "\<not> is_commit (Sent k x t)"
  by (simp_all add: is_commit_def)

definition commits_to :: "istate \<Rightarrow> effect list \<Rightarrow> bool" where
  "commits_to st es \<longleftrightarrow> es \<noteq> [] \<and> last es = Saved st \<and> list_all is_commit es"

definition keeps_others :: "string \<Rightarrow> istate \<Rightarrow> istate \<Rightarrow> bool" where
  "keeps_others k st st' \<longleftrightarrow> (\<forall>k'. k' \<noteq> k \<longrightarrow> find_intent st' k' = find_intent st k')"

lemma run_find:
  assumes "run_ok X render backups now rs" and "find_intent (dr_state rs) k = Some n"
  shows "n \<in> set (st_outbox (dr_state rs))" and "n_key n = k" and "valid_istate X render (dr_state rs)"
    and "wf_istate (dr_state rs)" and "binding_coherent render n" and "chronology_coherent n" and "timely now n"
    and "n_routeClass n \<in> set incident_routes"
proof -
  show v: "valid_istate X render (dr_state rs)"
    using assms(1) by (simp add: run_ok_def)
  then show wf: "wf_istate (dr_state rs)"
    by (simp add: valid_istate_def)
  show n: "n \<in> set (st_outbox (dr_state rs))" and "n_key n = k"
    using assms(2) find_intent_in[OF wf] by blast+
  show "binding_coherent render n" and "chronology_coherent n"
    using v n by (simp_all add: valid_istate_def outbox_ok_def)
  show "timely now n" and "n_routeClass n \<in> set incident_routes"
    using assms(1) n by (simp_all add: run_ok_def)
qed

lemma mark_step:
  assumes ok: "run_ok X render backups now rs" and n: "find_intent (dr_state rs) k = Some n"
    and allowed: "mark_allows (n_delivery n) d" and now: "is_safe_int now" "0 \<le> now" and bound: "n_binding n \<noteq> None"
    and tried: "d = D_Unknown \<or> n_firstAttemptAt n \<noteq> None"
    and m: "chronology_coherent (marked d now n)" "may_become n (marked d now n)" "timely now (marked d now n)"
  shows "\<exists>st. and_then (change_state (markNotificationDelivery (dr_state rs) k d now) rs) (commit_state X render backups) = (stored st rs, None)
    \<and> run_ok X render backups now (stored st rs) \<and> find_intent st k = Some (marked d now n) \<and> keeps_others k (dr_state rs) st"
proof -
  note r = run_find[OF ok n]
  let ?m = "marked d now n" and ?g = "mark_record d n"
  have first: "\<exists>t. n_firstAttemptAt n = Some t \<and> is_safe_int t" if "d = D_Delivered \<or> d = D_Failed"
    using tried r(6) that by (auto simp: chronology_coherent_def at_least_def)
  have mark: "markNotificationDelivery (dr_state rs) k d now = Inr (replaced ?m ?g (dr_state rs))"
    using r(7) bound first by (intro mark_result[OF r(4) n allowed now(1)]) (simp_all add: timely_def)
  have change: "intent_change X render (dr_state rs) n ?m ?g"
    using r(1,3) by (simp add: intent_change_def)
  have b: "binding_coherent render ?m"
    using r(5) by simp
  note c = commit_step[OF ok change b m, of "rs\<lparr>dr_state := replaced ?m ?g (dr_state rs)\<rparr>"]
  show ?thesis
    using c mark r(2) by (intro exI[of _ "replaced ?m ?g (dr_state rs)"]) (simp add: keeps_others_def)
qed

text \<open>Before a message goes out, the state that says so is on disk.\<close>

lemma announce_step:
  assumes ok: "run_ok X render backups now rs" and n: "find_intent (dr_state rs) k = Some n"
    and waiting: "n_delivery n = D_Pending \<or> n_delivery n = D_Failed" and now: "is_safe_int now" "0 \<le> now"
    and pk: "providerIdempotencyKey k = Inr pk"
    and b: "b = \<lparr>b_producer = role, b_route = t, b_routeSource = source, b_routingSha256 = sha, b_payload = text', b_providerKey = pk\<rparr>"
    and bc: "n_binding n = None \<Longrightarrow> binding_coherent render (bound b now n)"
  shows "\<exists>rs' m es. and_then (bind_step X render backups role now n t source sha text' rs)
        (\<lambda>rs. and_then (change_state (markNotificationDelivery (dr_state rs) k D_Unknown now) rs) (commit_state X render backups)) = (rs', None)
    \<and> run_ok X render backups now rs' \<and> find_intent (dr_state rs') k = Some m \<and> n_delivery m = D_Unknown
    \<and> n_binding m = or_else (n_binding n) (Some b) \<and> same_core n m \<and> keeps_others k (dr_state rs) (dr_state rs')
    \<and> dr_trace rs' = dr_trace rs @ es \<and> commits_to (dr_state rs') es \<and> dr_failed rs' = dr_failed rs"
proof -
  note r = run_find[OF ok n]
  have allowed: "mark_allows (n_delivery n) D_Unknown"
    using waiting by (auto simp: mark_allows_def)
  show ?thesis
  proof (cases "n_binding n")
    case (Some b')
    obtain u where at: "n_bindingAt n = Some u"
      using r(5) Some by (auto simp: binding_coherent_def split: option.splits)
    note m = attempt_recorded[OF r(6,7) now Some at waiting]
    have "n_binding n \<noteq> None" using Some by simp
    obtain st where st: "and_then (change_state (markNotificationDelivery (dr_state rs) k D_Unknown now) rs) (commit_state X render backups) = (stored st rs, None)"
      "run_ok X render backups now (stored st rs)" "find_intent st k = Some (marked D_Unknown now n)" "keeps_others k (dr_state rs) st"
      using mark_step[OF ok n allowed now \<open>n_binding n \<noteq> None\<close> _ m] by blast
    have "bind_step X render backups role now n t source sha text' rs = (rs, None)"
      using Some by (simp add: bind_step_def)
    then show ?thesis
      using st Some by (intro exI[of _ "stored st rs"] exI[of _ "marked D_Unknown now n"] exI[of _ "[Saved st]"])
        (simp add: commits_to_def or_else_def split: option.split)
  next
    case None
    let ?n = "bound b now n" and ?s = "replaced (bound b now n) (\<lambda>r. r) (dr_state rs)"
    have change: "intent_change X render (dr_state rs) n ?n (\<lambda>r. r)"
      using r(1,3) by (simp add: intent_change_def)
    have bind: "bindNotificationDelivery (dr_state rs) k b now = Inr ?s"
      using r(7) now None by (intro bind_result[OF r(4) n]) (simp_all add: timely_iff)
    have s_find: "find_intent ?s k = Some ?n"
      using replaced_find_intent[OF change] r(2) by simp
    show ?thesis
    proof (cases "n_delivery n = D_Pending")
      case True
      note m = bound_waits[OF r(5,6) None True r(7) now(2), of b]
      note c = commit_step[OF ok change bc[OF None] m(1,2,3), of "rs\<lparr>dr_state := ?s\<rparr>"]
      let ?rs = "stored ?s rs"
      have bound_step: "bind_step X render backups role now n t source sha text' rs = (?rs, None)"
        using c(1) bind True None pk r(2) by (simp add: bind_step_def b)
      have ok1: "run_ok X render backups now ?rs"
        using c(2) by simp
      have find1: "find_intent (dr_state ?rs) k = Some ?n"
        using s_find by simp
      have u: "n_binding ?n = Some b" "n_bindingAt ?n = Some now"
        using None unbound_never_tried(1)[OF r(5,6) None] by simp_all
      note m2 = attempt_recorded[OF m(1,3) now u]
      have "\<exists>st. and_then (change_state (markNotificationDelivery (dr_state ?rs) k D_Unknown now) ?rs) (commit_state X render backups) = (stored st ?rs, None)
        \<and> run_ok X render backups now (stored st ?rs) \<and> find_intent st k = Some (marked D_Unknown now ?n) \<and> keeps_others k (dr_state ?rs) st"
        using True u m2 allowed by (intro mark_step[OF ok1 find1 _ now]) simp_all
      then obtain st where st: "and_then (change_state (markNotificationDelivery (dr_state ?rs) k D_Unknown now) ?rs) (commit_state X render backups) = (stored st ?rs, None)"
        "run_ok X render backups now (stored st ?rs)" "find_intent st k = Some (marked D_Unknown now ?n)" "keeps_others k ?s st"
        by auto
      have "keeps_others k (dr_state rs) ?s"
        using replaced_find_intent[OF change] r(2) by (simp add: keeps_others_def)
      then have "keeps_others k (dr_state rs) st"
        using st(4) by (simp add: keeps_others_def)
      then show ?thesis
        using st(1-3) bound_step None by (intro exI[of _ "stored st ?rs"] exI[of _ "marked D_Unknown now ?n"] exI[of _ "[Saved ?s, Saved st]"])
          (simp add: commits_to_def or_else_def split: option.split)
    next
      case False
      then have failed: "n_delivery n = D_Failed" using waiting by simp
      let ?m = "marked D_Unknown now ?n" and ?g = "mark_record D_Unknown n"
      let ?t = "replaced ?m ?g (dr_state rs)"
      note m = first_attempt_recorded[OF r(5-7) now None, of b]
      have bound_step: "bind_step X render backups role now n t source sha text' rs = (rs\<lparr>dr_state := ?s\<rparr>, None)"
        using bind failed None pk r(2) by (simp add: bind_step_def b)
      have "markNotificationDelivery ?s k D_Unknown now = Inr (replaced ?m (mark_record D_Unknown ?n) ?s)"
        using allowed failed None r(7) now unbound_never_tried[OF r(5,6) None]
        by (intro mark_result[OF replaced_wf[OF change] s_find]) (simp_all add: timely_def[symmetric] timely_iff)
      then have mark: "markNotificationDelivery ?s k D_Unknown now = Inr ?t"
        using replaced_twice[of ?n ?m] by simp
      have change2: "intent_change X render (dr_state rs) n ?m ?g"
        using r(1,3) by (simp add: intent_change_def)
      have bc2: "binding_coherent render ?m"
        using bc[OF None] by simp
      note c = commit_step[OF ok change2 bc2 m(1,2,3), of "rs\<lparr>dr_state := ?t\<rparr>"]
      have "keeps_others k (dr_state rs) ?t"
        using c(3) r(2) by (simp add: keeps_others_def)
      then show ?thesis
        using c bound_step mark None r(2) by (intro exI[of _ "stored ?t rs"] exI[of _ ?m] exI[of _ "[Saved ?t]"])
          (simp add: commits_to_def or_else_def split: option.split)
    qed
  qed
qed

subsection \<open>Traces\<close>

definition recorded :: "istate option \<Rightarrow> string \<Rightarrow> string \<Rightarrow> target \<Rightarrow> bool" where
  "recorded disk k x t \<longleftrightarrow> (\<exists>st n b. disk = Some st \<and> find_intent st k = Some n \<and> n_delivery n = D_Unknown
     \<and> n_binding n = Some b \<and> b_payload b = x \<and> b_route b = t)"

text \<open>
  \<open>U\<close> are the keys whose delivery was open to doubt before the run, \<open>seen\<close> those looked up in the history.
\<close>

fun disciplined :: "string set \<Rightarrow> istate option \<Rightarrow> string set \<Rightarrow> effect list \<Rightarrow> bool" where
  "disciplined U disk seen [] \<longleftrightarrow> True"
| "disciplined U disk seen (Saved st # es) \<longleftrightarrow> disciplined U (Some st) seen es"
| "disciplined U disk seen (Looked_Up k # es) \<longleftrightarrow> disciplined U disk (insert k seen) es"
| "disciplined U disk seen (Sent k x t # es) \<longleftrightarrow>
     recorded disk k x t \<and> (k \<in> U \<longrightarrow> k \<in> seen) \<and> disciplined U disk seen es"

fun last_commit :: "istate option \<Rightarrow> effect list \<Rightarrow> istate option" where
  "last_commit disk [] = disk"
| "last_commit disk (Saved st # es) = last_commit (Some st) es"
| "last_commit disk (_ # es) = last_commit disk es"

fun sent_keys :: "effect list \<Rightarrow> string list" where
  "sent_keys [] = []"
| "sent_keys (Sent k x t # es) = k # sent_keys es"
| "sent_keys (_ # es) = sent_keys es"

lemma sent_keys_append [simp]: "sent_keys (xs @ ys) = sent_keys xs @ sent_keys ys"
  by (induction xs rule: sent_keys.induct) auto

lemma disciplined_more: "disciplined U disk seen es \<Longrightarrow> seen \<subseteq> seen' \<Longrightarrow> disciplined U disk seen' es"
proof (induction es arbitrary: disk seen seen')
  case (Cons e es)
  have "insert k seen \<subseteq> insert k seen'" for k
    using Cons.prems(2) by blast
  with Cons show ?case by (cases e) auto
qed simp

lemma disciplined_append:
  "disciplined U disk seen xs \<Longrightarrow> disciplined U (last_commit disk xs) seen ys \<Longrightarrow> disciplined U disk seen (xs @ ys)"
proof (induction xs arbitrary: disk seen)
  case (Cons e xs)
  then show ?case
    using disciplined_more[of U _ seen ys "insert _ seen"] by (cases e) (auto simp: subset_insertI)
qed simp

lemma last_commit_append [simp]: "last_commit disk (xs @ ys) = last_commit (last_commit disk xs) ys"
  by (induction xs arbitrary: disk rule: sent_keys.induct) (auto elim: sent_keys.cases)

lemma commits_to_trace:
  assumes "commits_to st es"
  shows "disciplined U disk seen es" and "last_commit disk es = Some st" and "sent_keys es = []"
proof -
  have all: "list_all is_commit es" using assms by (simp add: commits_to_def)
  then show "disciplined U disk seen es" and "sent_keys es = []"
    by (induction es arbitrary: disk) (auto simp: is_commit_def split: effect.splits)
  obtain fs where "es = fs @ [Saved st]"
    using assms by (metis append_butlast_last_id commits_to_def)
  then show "last_commit disk es = Some st" by simp
qed

lemma disciplined_split:
  assumes "disciplined U disk seen (pre @ Sent k x t # post)"
  shows "recorded (last_commit disk pre) k x t" and "k \<in> U \<Longrightarrow> k \<in> seen \<or> Looked_Up k \<in> set pre"
  using assms by (induction U disk seen pre rule: disciplined.induct) auto

lemma run_ok_again:
  "dr_state rs' = dr_state rs \<Longrightarrow> dr_disk rs' = dr_disk rs \<Longrightarrow> run_ok X render backups now rs' = run_ok X render backups now rs"
  by (simp add: run_ok_def)

subsection \<open>One notification\<close>

text \<open>What handling the notification with key \<open>k\<close> may do to a run; \<open>P\<close> holds of it and what was sent afterwards.\<close>

definition handled_intent ::
    "ext \<Rightarrow> rendering \<Rightarrow> (migration \<Rightarrow> bool) \<Rightarrow> int \<Rightarrow> string set \<Rightarrow> (string list \<Rightarrow> intent \<Rightarrow> bool) \<Rightarrow> string \<Rightarrow> run_state \<Rightarrow> run_outcome \<Rightarrow> bool" where
  "handled_intent X render backups now U P k rs out \<longleftrightarrow> (\<exists>rs' es. out = (rs', None) \<and> run_ok X render backups now rs'
     \<and> keeps_others k (dr_state rs) (dr_state rs') \<and> (\<exists>m. find_intent (dr_state rs') k = Some m \<and> P (sent_keys es) m)
     \<and> dr_trace rs' = dr_trace rs @ es \<and> disciplined U (dr_disk rs) {} es
     \<and> last_commit (dr_disk rs) es = dr_disk rs' \<and> (\<exists>m \<le> 3. sent_keys es = replicate m k))"

lemma handled_intent_failed:
  "run_ok X render backups now rs \<Longrightarrow> find_intent (dr_state rs) k = Some n \<Longrightarrow> P [] n \<Longrightarrow> handled_intent X render backups now U P k rs (failed_run rs)"
  unfolding handled_intent_def failed_run_def
  by (intro exI[of _ "rs\<lparr>dr_failed := True\<rparr>"] exI[of _ "[]"]) (simp add: keeps_others_def run_ok_again[of "rs\<lparr>dr_failed := True\<rparr>" rs])

lemma keeps_others_trans: "keeps_others k a b \<Longrightarrow> keeps_others k b c \<Longrightarrow> keeps_others k a c"
  by (simp add: keeps_others_def)

text \<open>The second half of an attempt: effects that touch no file, and the settlement.\<close>

lemma settle_step:
  assumes ok: "run_ok X render backups now rs" and n: "find_intent (dr_state rs) k = Some n" and unknown: "n_delivery n = D_Unknown"
    and now: "is_safe_int now" "0 \<le> now" and d: "d \<noteq> D_Pending" and rs': "rs' = (does es rs)\<lparr>dr_failed := f\<rparr>"
    and es: "disciplined U (dr_disk rs) {} es" "last_commit (dr_disk rs) es = dr_disk rs" "\<exists>m \<le> 3. sent_keys es = replicate m k"
    and P: "P (sent_keys es) (marked d now n)"
  shows "handled_intent X render backups now U P k rs
    (and_then (change_state (markNotificationDelivery (dr_state rs') k d now) rs') (commit_state X render backups))"
proof -
  have same: "dr_state rs' = dr_state rs" "dr_disk rs' = dr_disk rs" "dr_trace rs' = dr_trace rs @ es"
    by (simp_all add: rs' does_def)
  have ok': "run_ok X render backups now rs'"
    using ok run_ok_again[OF same(1,2)] by blast
  have n': "find_intent (dr_state rs') k = Some n"
    using n same(1) by simp
  note r = run_find[OF ok' n']
  note m = settlement_recorded[OF r(6,7) now unknown d]
  have tried: "n_binding n \<noteq> None" "n_firstAttemptAt n \<noteq> None"
    using r(6) unknown by (simp_all add: chronology_coherent_def)
  have allowed: "mark_allows (n_delivery n) d"
    using unknown d by (cases d) (simp_all add: mark_allows_def)
  obtain st where st: "and_then (change_state (markNotificationDelivery (dr_state rs') k d now) rs') (commit_state X render backups) = (stored st rs', None)"
    "run_ok X render backups now (stored st rs')" "find_intent st k = Some (marked d now n)" "keeps_others k (dr_state rs') st"
    using mark_step[OF ok' n' allowed now tried(1) disjI2[OF tried(2)] m] by auto
  have "disciplined U (dr_disk rs) {} (es @ [Saved st])"
    using es(1) by (intro disciplined_append) simp_all
  then show ?thesis
    unfolding handled_intent_def
    using st es(3) same P by (intro exI[of _ "stored st rs'"] exI[of _ "es @ [Saved st]"]) auto
qed

lemma handled_intent_after:
  assumes "and_then p f = (rs1, None)" and "run_ok X render backups now rs1" and "keeps_others k (dr_state rs) (dr_state rs1)"
    and "dr_trace rs1 = dr_trace rs @ cs" and "commits_to (dr_state rs1) cs" and "handled_intent X render backups now U P k rs1 (g rs1)"
  shows "handled_intent X render backups now U P k rs (and_then (and_then p f) g)"
proof -
  obtain rs' es where h: "g rs1 = (rs', None)" "run_ok X render backups now rs'" "keeps_others k (dr_state rs1) (dr_state rs')"
    "\<exists>m. find_intent (dr_state rs') k = Some m \<and> P (sent_keys es) m" "dr_trace rs' = dr_trace rs1 @ es" "disciplined U (dr_disk rs1) {} es" "last_commit (dr_disk rs1) es = dr_disk rs'"
    "\<exists>m \<le> 3. sent_keys es = replicate m k"
    using assms(6) unfolding handled_intent_def by blast
  have disk: "dr_disk rs1 = Some (dr_state rs1)"
    using assms(2) by (simp add: run_ok_def)
  note c = commits_to_trace[OF assms(5)]
  have "disciplined U (dr_disk rs) {} (cs @ es)"
    using c h(6) disk by (intro disciplined_append) simp_all
  moreover have "last_commit (dr_disk rs) (cs @ es) = dr_disk rs'"
    using c(2) h(7) disk by simp
  moreover have "keeps_others k (dr_state rs) (dr_state rs')"
    using keeps_others_trans[OF assms(3) h(3)] .
  ultimately show ?thesis
    unfolding handled_intent_def using assms(1,4) c(3) h
    by (intro exI[of _ rs'] exI[of _ "cs @ es"]) simp
qed

lemma attempt_settles: "attemptNotificationDelivery a \<noteq> D_Pending"
  by (cases a) (simp_all add: attemptNotificationDelivery_def)

lemma alert_posts: "fst (feishuAlert as) \<le> length as"
  by (induction as rule: feishuAlert.induct) (auto simp: Let_def split: prod.splits)

lemma alert_accepted: "snd (feishuAlert as) = Send_Accepted \<Longrightarrow> 0 < fst (feishuAlert as)"
  by (induction as rule: feishuAlert.induct) (auto simp: Let_def attempt_error_def split: prod.splits if_splits)

lemma posts_le: "fst (alert_of an) \<le> 3"
proof -
  obtain a b c where "an_attempts an = (a, b, c)"
    using prod_cases3 by blast
  then show ?thesis
    using alert_posts[of "[a, b, c]"] unfolding alert_of_def by (simp del: feishuAlert.simps)
qed

lemma posts_pos: "an_send an = Send_Accepted \<Longrightarrow> 0 < fst (alert_of an)"
  using alert_accepted by (auto simp: an_send_def alert_of_def simp del: feishuAlert.simps split: prod.splits)

lemma sent_keys_replicate [simp]: "sent_keys (replicate m (Sent k x t)) = replicate m k"
  by (induction m) simp_all

lemma disciplined_replicate:
  "recorded disk k x t \<Longrightarrow> (k \<in> U \<longrightarrow> k \<in> seen) \<Longrightarrow> disciplined U disk seen (replicate m (Sent k x t))"
  by (induction m) simp_all

lemma last_commit_replicate [simp]: "last_commit disk (replicate m (Sent k x t)) = disk"
  by (induction m) simp_all

lemma recovery_cases:
  assumes "n_delivery n = D_Unknown"
  shows "\<exists>d m. d \<noteq> D_Pending \<and> m \<le> 3
    \<and> recoverNotificationDelivery an n text' t = (Looked_Up (n_key n) # replicate m (Sent (n_key n) text' t), d)"
proof -
  consider "an_readback an = None" | "an_readback an = Some True" | "an_readback an = Some False"
    by (cases "an_readback an") auto
  then show ?thesis
  proof cases
    case 3
    then show ?thesis
      using assms attempt_settles[of "an_send an"] posts_le[of an]
      by (auto simp: recoverNotificationDelivery_def deliveryRecoveryAction_def deliverOrPark_def)
  qed (use assms in \<open>simp_all add: recoverNotificationDelivery_def deliveryRecoveryAction_def Let_def\<close>)
qed

lemma deliver_unknown:
  assumes ok: "run_ok X render backups now rs" and n: "find_intent (dr_state rs) k = Some n" and unknown: "n_delivery n = D_Unknown"
    and now: "is_safe_int now" "0 \<le> now" and b: "n_binding n = Some b" "b_payload b = text'" "b_route b = t"
    and P: "P (sent_keys (fst (recoverNotificationDelivery an n text' t))) (marked (snd (recoverNotificationDelivery an n text' t)) now n)"
  shows "handled_intent X render backups now U P k rs (and_then (bind_step X render backups role now n t source sha text' rs)
    (deliver_step X render backups now an n t text'))"
proof -
  note r = run_find[OF ok n]
  obtain es d where es: "recoverNotificationDelivery an n text' t = (es, d)"
    by (cases "recoverNotificationDelivery an n text' t")
  have rec: "recorded (dr_disk rs) k text' t"
    using ok n unknown b by (auto simp: recorded_def run_ok_def)
  obtain posts where "es = Looked_Up k # replicate posts (Sent k text' t)" "posts \<le> 3" "d \<noteq> D_Pending"
    using es recovery_cases[OF unknown, of an text' t] r(2) by auto
  then have "disciplined U (dr_disk rs) {} es \<and> last_commit (dr_disk rs) es = dr_disk rs \<and> (\<exists>m \<le> 3. sent_keys es = replicate m k) \<and> d \<noteq> D_Pending"
    using disciplined_replicate[OF rec] by auto
  then have "handled_intent X render backups now U P k rs (and_then (change_state (markNotificationDelivery
      (dr_state ((does es rs)\<lparr>dr_failed := dr_failed rs \<or> d \<noteq> D_Delivered\<rparr>)) k d now) ((does es rs)\<lparr>dr_failed := dr_failed rs \<or> d \<noteq> D_Delivered\<rparr>))
      (commit_state X render backups))"
    using P es by (intro settle_step[OF ok n unknown now _ refl]) auto
  then show ?thesis
    using unknown b(1) es r(2) by (simp add: bind_step_def deliver_step_def does_def)
qed

lemma deliver_waiting:
  assumes ok: "run_ok X render backups now rs" and n: "find_intent (dr_state rs) k = Some n"
    and waiting: "n_delivery n = D_Pending \<or> n_delivery n = D_Failed" and now: "is_safe_int now" "0 \<le> now" and k: "k \<notin> U"
    and pk: "providerIdempotencyKey k = Inr pk"
    and b: "b = \<lparr>b_producer = role, b_route = t, b_routeSource = source, b_routingSha256 = sha, b_payload = text', b_providerKey = pk\<rparr>"
    and bc: "n_binding n = None \<Longrightarrow> binding_coherent render (bound b now n)"
    and old: "\<And>b. n_binding n = Some b \<Longrightarrow> b_payload b = text' \<and> b_route b = t"
    and P: "\<And>m. same_core n m \<Longrightarrow> n_binding m = or_else (n_binding n) (Some b) \<Longrightarrow> P (replicate (fst (alert_of an)) k) (marked (attemptNotificationDelivery (an_send an)) now m)"
  shows "handled_intent X render backups now U P k rs (and_then (bind_step X render backups role now n t source sha text' rs)
    (deliver_step X render backups now an n t text'))"
proof -
  let ?bind = "bind_step X render backups role now n t source sha text' rs"
  let ?mark = "\<lambda>rs. and_then (change_state (markNotificationDelivery (dr_state rs) k D_Unknown now) rs) (commit_state X render backups)"
  let ?d = "attemptNotificationDelivery (an_send an)"
  let ?sent = "\<lambda>rs. (does (replicate (fst (alert_of an)) (Sent k text' t)) rs)\<lparr>dr_failed := dr_failed rs \<or> ?d \<noteq> D_Delivered\<rparr>"
  let ?settle = "\<lambda>rs. and_then (change_state (markNotificationDelivery (dr_state (?sent rs)) k ?d now) (?sent rs)) (commit_state X render backups)"
  have key: "n_key n = k"
    by (rule run_find(2)[OF ok n])
  have "n_delivery n \<noteq> D_Unknown"
    using waiting by auto
  then have "deliver_step X render backups now an n t text' = (\<lambda>rs. and_then (?mark rs) ?settle)"
    by (intro ext) (simp add: deliver_step_def and_then_assoc key does_def deliverOrPark_def)
  then have shape: "and_then ?bind (deliver_step X render backups now an n t text') = and_then (and_then ?bind ?mark) ?settle"
    by (simp only: and_then_assoc)
  obtain rs1 m cs where a: "and_then ?bind ?mark = (rs1, None)" "run_ok X render backups now rs1"
    "find_intent (dr_state rs1) k = Some m" "n_delivery m = D_Unknown" "n_binding m = or_else (n_binding n) (Some b)" "same_core n m"
    "keeps_others k (dr_state rs) (dr_state rs1)" "dr_trace rs1 = dr_trace rs @ cs" "commits_to (dr_state rs1) cs"
    using announce_step[OF ok n waiting now pk b bc] by blast
  have "\<exists>b'. n_binding m = Some b' \<and> b_payload b' = text' \<and> b_route b' = t"
    using a(5) old b by (cases "n_binding n") simp_all
  then have "recorded (dr_disk rs1) k text' t"
    using a(2-4) by (auto simp: recorded_def run_ok_def)
  then have "disciplined U (dr_disk rs1) {} (replicate (fst (alert_of an)) (Sent k text' t))"
    using k by (intro disciplined_replicate) simp_all
  then have "handled_intent X render backups now U P k rs1 (?settle rs1)"
    using P[OF a(6,5)] posts_le[of an] by (intro settle_step[OF a(2-4) now attempt_settles refl]) auto
  with a(1,2,7-9) show ?thesis
    unfolding shape by (rule handled_intent_after)
qed

lemma sha256_is [simp]: "is_sha256 (sha256_hex s)"
  using sha256_hex_lower by (auto simp: is_sha256_def list_all_iff)

text \<open>
  The manifest is readable and no bound notification contradicts it: the case in which the run does not
  refuse to go on.
\<close>

definition routing_calm :: "job list \<Rightarrow> int \<Rightarrow> answers \<Rightarrow> intent \<Rightarrow> istate \<Rightarrow> bool" where
  "routing_calm jobs now an n st \<longleftrightarrow> (\<exists>m sha. routing_of an = Some (m, sha) \<and> is_sha256 sha
     \<and> each (check_binding m jobs sha now) (st_outbox st) = Inr ()
     \<and> (\<forall>b dec. n_binding n = Some b \<and> resolveNotificationRoute (n_routeClass n) (job_of jobs (finding_job n)) (manifest_val m) = Inr dec
          \<longrightarrow> binding_current b dec sha))"

definition bound_to :: "delivery_binding option \<Rightarrow> target \<Rightarrow> string \<Rightarrow> string \<Rightarrow> delivery_binding option \<Rightarrow> bool" where
  "bound_to old t source sha b \<longleftrightarrow> (if old \<noteq> None then b = old
     else \<exists>b'. b = Some b' \<and> b_route b' = t \<and> b_routeSource b' = source \<and> b_routingSha256 b' = sha)"

lemma process_intent_ok:
  assumes ok: "run_ok X render backups now rs" and n: "find_intent (dr_state rs) k = Some n" and role: "n_producer n = role"
    and open_intent: "n_delivery n \<noteq> D_Delivered" and U: "n_delivery n \<noteq> D_Unknown \<Longrightarrow> k \<notin> U" and now: "is_safe_int now" "0 \<le> now"
    and calm: "\<not> P [] n \<Longrightarrow> routing_calm jobs now (world n) n (dr_state rs)"
    and asked: "\<And>text' t. n_delivery n = D_Unknown \<Longrightarrow> P (sent_keys (fst (recoverNotificationDelivery (world n) n text' t)))
      (marked (snd (recoverNotificationDelivery (world n) n text' t)) now n)"
    and tried: "\<And>m mf sha t s missing. same_core n m \<Longrightarrow> routing_of (world n) = Some (mf, sha)
      \<Longrightarrow> resolveNotificationRoute (n_routeClass n) (job_of jobs (finding_job n)) (manifest_val mf) = Inr (routed t s missing)
      \<Longrightarrow> bound_to (n_binding n) t s sha (n_binding m) \<Longrightarrow> P (replicate (fst (alert_of (world n))) k) (marked (attemptNotificationDelivery (an_send (world n))) now m)"
  shows "handled_intent X render backups now U P k rs (process_intent X render backups role now jobs world n rs)"
proof -
  note r = run_find[OF ok n]
  define routing where "routing = routing_of (world n)"
  define raw where "raw = (case routing of Some (m, _) \<Rightarrow> manifest_val m | None \<Rightarrow> JNull)"
  define j where "j = job_of jobs (finding_job n)"
  note folds = routing_def[symmetric] raw_def[symmetric] j_def[symmetric]
  have failed: "handled_intent X render backups now U P k rs (process_intent X render backups role now jobs world n rs)"
    if "process_intent X render backups role now jobs world n rs = failed_run rs" and "\<not> routing_calm jobs now (world n) n (dr_state rs)"
    using that handled_intent_failed[OF ok n] calm by auto
  show ?thesis
  proof (cases "validateIncidentDeliveryBindings (dr_state rs) raw jobs (map_option snd routing) now")
    case (Inl e)
    have "\<not> routing_calm jobs now (world n) n (dr_state rs)"
      using Inl validateRoutingManifest_again(2) now
      by (auto simp: routing_calm_def validateIncidentDeliveryBindings_def raw_def routing_def routing_of_def split: option.splits sum.splits)
    moreover have "process_intent X render backups role now jobs world n rs = failed_run rs"
      using Inl unfolding process_intent_def Let_def folds by simp
    ultimately show ?thesis by (rule failed[rotated])
  next
    case (Inr u)
    then obtain m sha where ms: "routing = Some (m, sha)" "is_sha256 sha"
      by (cases routing) (auto simp: validateIncidentDeliveryBindings_def rbind_eq_Inr ensure_eq_Inr)
    then obtain text0 where read: "validateRoutingManifest text0 False = Inr m"
      by (auto simp: routing_def routing_of_def split: option.splits sum.splits)
    obtain t s missing where dec: "resolveNotificationRoute (n_routeClass n) j (manifest_val m) = Inr (routed t s missing)"
      "good_target t" "s \<in> set (allowed_sources (n_routeClass n))"
      using route_exists[OF read r(8)] by blast
    define text' where "text' = (case n_binding n of Some b \<Rightarrow> b_payload b | None \<Rightarrow> render (n_incident n) (n_kind n) (n_key n))"
    have raw: "raw = manifest_val m"
      by (simp add: raw_def ms(1))
    have route: "rd_route (routed t s missing) = Some t" "rd_source (routed t s missing) = Some s"
      by (simp_all add: routed_def)
    show ?thesis
    proof (cases "case n_binding n of Some b \<Rightarrow> \<not> binding_current b (routed t s missing) sha | None \<Rightarrow> False")
      case True
      then have "\<not> routing_calm jobs now (world n) n (dr_state rs)"
        using ms(1) dec(1) by (auto simp: routing_calm_def routing_def j_def split: option.splits)
      moreover have "process_intent X render backups role now jobs world n rs = failed_run rs"
        using True unfolding process_intent_def Let_def folds Inr sum.case raw dec(1) ms(1) option.case prod.case if_True by (simp split: sum.split)
      ultimately show ?thesis by (rule failed[rotated])
    next
      case False
      then have p: "process_intent X render backups role now jobs world n rs
          = and_then (bind_step X render backups role now n t s sha text' rs) (deliver_step X render backups now (world n) n t text')"
        unfolding process_intent_def Let_def folds raw ms(1)
        using Inr by (simp add: raw ms(1) dec(1) route text'_def or_undefined_def cong: option.case_cong)
      have old: "b_payload b = text' \<and> b_route b = t" if "n_binding n = Some b" for b
        using False that by (simp add: text'_def binding_current_def routed_def)
      have "n_key n = notificationKey X (n_coords n)"
        using r(1,3) by (auto simp: valid_istate_def outbox_ok_def intent_coherent_def Let_def split: option.splits)
      then have "is_sha256 k"
        using r(2) by (simp add: notificationKey_def)
      then obtain pk where pk: "providerIdempotencyKey k = Inr pk"
        by (simp add: providerIdempotencyKey_def)
      define b where "b = \<lparr>b_producer = role, b_route = t, b_routeSource = s, b_routingSha256 = sha, b_payload = text', b_providerKey = pk\<rparr>"
      have bc: "binding_coherent render (bound b now n)" if none: "n_binding n = None"
        using unbound_never_tried(1)[OF r(5,6) none] none dec(2,3) ms(2) now r(2,7) role pk
        by (simp add: binding_coherent_def b_def text'_def good_target_def timely_iff)
      show ?thesis
      proof (cases "n_delivery n = D_Unknown")
        case True
        then obtain b' where "n_binding n = Some b'"
          using r(6) by (auto simp: chronology_coherent_def)
        with old asked[OF True] show ?thesis
          unfolding p by (intro deliver_unknown[OF ok n True now]) auto
      next
        case False
        then have "n_delivery n = D_Pending \<or> n_delivery n = D_Failed"
          using open_intent by (cases "n_delivery n") auto
        moreover have "P (replicate (fst (alert_of (world n))) k) (marked (attemptNotificationDelivery (an_send (world n))) now m')"
          if "same_core n m'" "n_binding m' = or_else (n_binding n) (Some b)" for m'
          using tried[OF that(1), of m sha t s missing] ms(1) dec(1) that(2)
          by (cases "n_binding n") (simp_all add: routing_def j_def bound_to_def b_def)
        ultimately show ?thesis
          unfolding p using U[OF False] old bc by (intro deliver_waiting[OF ok n _ now _ pk b_def]) auto
      qed
    qed
  qed
qed

end
