(* ===== verification/Alerts.thy ===== *)
theory Alerts
  imports NotifyRuns
begin

section \<open>What holds of the watchdog's notifications\<close>

text \<open>
  The properties of the incident compiler, the lifecycle, the commit and the delivery run, each with a
  concrete instance.
\<close>

subsection \<open>The state a run starts from\<close>

definition known_routes :: "istate \<Rightarrow> bool" where
  "known_routes st \<longleftrightarrow> (\<forall>n \<in> set (st_outbox st). n_routeClass n \<in> set incident_routes)
     \<and> (\<forall>r \<in> set (st_incidents st). ci_routeClass (i_of r) \<in> set incident_routes)"

definition sound_start ::
    "ext \<Rightarrow> rendering \<Rightarrow> (migration \<Rightarrow> bool) \<Rightarrow> int \<Rightarrow> nat \<Rightarrow> istate option \<Rightarrow> istate \<Rightarrow> bool" where
  "sound_start X render backups now room disk st \<longleftrightarrow> loadIncidentState X render backups disk = Inr st \<and> wf_istate st
     \<and> is_safe_int now \<and> 0 \<le> now \<and> int room \<le> max_safe \<and> (\<forall>r \<in> set (st_incidents st). i_episode r + int room \<le> max_safe)
     \<and> (\<forall>n \<in> set (st_outbox st). timely now n) \<and> known_routes st"

definition fresh_note :: "int \<Rightarrow> intent \<Rightarrow> bool" where
  "fresh_note now n \<longleftrightarrow> al_lastTransitionAt (i_alert (n_incident n)) = now \<and> n_delivery n = D_Pending
     \<and> n_bindingAt n = None \<and> n_firstAttemptAt n = None \<and> n_updatedAt n = None"

definition notes_ok :: "int \<Rightarrow> istate \<times> intent list \<Rightarrow> bool" where
  "notes_ok now acc \<longleftrightarrow> known_routes (fst acc) \<and> (\<forall>n \<in> set (snd acc). fresh_note now n)"

lemma put_row_subset: "set (put_row key x xs) \<subseteq> insert x (set xs)"
  by (induction xs) auto

lemma known_routes_put: "known_routes st \<Longrightarrow> ci_routeClass (i_of r) \<in> set incident_routes \<Longrightarrow> known_routes (put_incident r st)"
  using put_row_subset[of i_root r "st_incidents st"] by (auto simp: known_routes_def put_incident_def)

lemma step_ok_emit:
  assumes "notes_ok now acc" and "ci_routeClass (i_of r) \<in> set incident_routes"
  shows "notes_ok now (emit X kind now r acc)"
proof -
  have "known_routes (put_incident (transitioned now r) (fst acc))"
    using assms by (simp add: notes_ok_def known_routes_put)
  then have "known_routes (fst (emit X kind now r acc))"
    using assms(2) by (cases acc) (auto simp: emit_def Let_def put_outbox_def known_routes_def)
  moreover have "fresh_note now (transitionIntent X kind (transitioned now r))"
    by (simp add: fresh_note_def) (simp add: transitioned_def)
  ultimately show ?thesis
    using assms(1) by (auto simp: notes_ok_def emit_notes)
qed

lemma step_ok_acknowledge: "notes_ok now acc \<Longrightarrow> notes_ok now (acknowledge X now acks rt acc)"
  using step_ok_emit[of now acc "closed_as L_Acknowledged _"]
  by (auto simp: acknowledge_def notes_ok_def known_routes_def find_incident_def split: option.split dest!: find_Some_set)

lemma step_ok_incident:
  assumes "notes_ok now acc" and "ci_routeClass c \<in> set incident_routes"
  shows "notes_ok now (incident_step X now acks producer c acc)"
proof (cases "find_incident (fst acc) (ci_identity c)")
  case None
  then show ?thesis
    using assms by (simp add: incident_step_def step_ok_acknowledge step_ok_emit)
next
  case (Some r)
  then have "r \<in> set (st_incidents (fst acc))"
    by (auto simp: find_incident_def dest: find_Some_set)
  then have "ci_routeClass (i_of (seen_again now c r)) \<in> set incident_routes"
    using assms(1) by (simp add: notes_ok_def known_routes_def seen_again_def)
  then have "notes_ok now (put_incident (seen_again now c r) (fst acc), snd acc)"
    using assms(1) known_routes_put[of "fst acc" "seen_again now c r"] by (simp add: notes_ok_def)
  then show ?thesis
    using Some assms by (simp add: incident_step_def step_ok_acknowledge step_ok_emit)
qed

lemma step_ok_fold:
  assumes "\<And>x acc. x \<in> set xs \<Longrightarrow> notes_ok now acc \<Longrightarrow> notes_ok now (f x acc)" and "notes_ok now acc"
  shows "notes_ok now (fold f xs acc)"
  using assms by (induction xs arbitrary: acc) auto

lemma step_ok_update:
  assumes "known_routes st" and "\<And>c. c \<in> set cs \<Longrightarrow> ci_routeClass c \<in> set incident_routes"
  shows "notes_ok now (updateIncidentState X now acks owns producer st cs)"
proof -
  let ?acc = "fold (incident_step X now acks producer) cs (st, [])"
  have "notes_ok now (st, [])"
    using assms(1) by (simp add: notes_ok_def)
  then have one: "notes_ok now ?acc"
    using assms(2) by (intro step_ok_fold step_ok_incident) auto
  have "notes_ok now (recover_step X now seen owns r acc)" if "r \<in> set (st_incidents (fst ?acc))" "notes_ok now acc" for r seen acc
    using that one step_ok_emit[of now acc "closed_as L_Recovered r"] by (simp add: recover_step_def notes_ok_def known_routes_def)
  then show ?thesis
    unfolding updateIncidentState_def Let_def by (rule step_ok_fold[OF _ one])
qed

lemma route_class_known: "routeClassFor cause \<in> set incident_routes"
  by (simp add: routeClassFor_def incident_routes_def)

text \<open>The first part of a run: what it computes can be committed.\<close>

lemma run_transition:
  assumes start: "sound_start X render backups now (length findings) disk st" and producer: "producer \<noteq> []"
    and upd: "updateAlertState X le now owns producer st findings = Inr (st', notes)"
    and free: "collision_free X st notes"
  shows "commitIncidentState X render backups disk disk st' = Inr (Some st')" and "valid_istate X render st'"
    and "migration_ok backups st'" and "st_outbox st' = st_outbox st @ notes" and "known_routes st'"
    and "\<forall>n \<in> set (st_outbox st'). timely now n"
proof -
  have load: "loadIncidentState X render backups disk = Inr st" and wf: "wf_istate st"
    using start by (simp_all add: sound_start_def)
  note v = loaded_valid[OF load wf]
  obtain cs where cs: "compileIncidents le findings = Inr cs"
    and run: "updateIncidentState X now (acknowledged_roots cs) owns producer st cs = (st', notes)"
    using upd by (auto simp: updateAlertState_def rbind_eq_Inr)
  note c = compileIncidents_inv[OF cs]
  have "run_inv X render st 0 (updateIncidentState X now (acknowledged_roots cs) owns producer st cs)"
  proof (rule updateIncidentState_inv[OF v(1) _ producer])
    show "good_input i" if "i \<in> set cs" for i
      using compiled_good[OF c(1) that] .
    show "i_episode r + int (length cs) \<le> max_safe" if "r \<in> set (st_incidents st)" for r
      using start that c(2) by (force simp: sound_start_def)
  qed (use start c(2) free run in \<open>auto simp: sound_start_def\<close>)
  then have inv: "valid_istate X render st'" "st_outbox st' = st_outbox st @ notes" "st_migration st' = st_migration st"
    by (simp_all add: run run_inv_def)
  have mig: "migration_ok backups st'"
    using v(2) inv(3) by (simp add: migration_ok_def)
  have ok: "notes_ok now (st', notes)"
    using start c(1) step_ok_update[of st cs now X "acknowledged_roots cs" owns producer] route_class_known
    by (auto simp: run sound_start_def compiled_inv_def compiled_ok_def)
  show "commitIncidentState X render backups disk disk st' = Inr (Some st')"
    using commit_appended[OF v(1) inv(1,2)] by (intro commit_accepts[OF load inv(1) mig])
  have "timely now n" if "fresh_note now n" for n
    using that start by (simp add: fresh_note_def timely_iff sound_start_def)
  then show "\<forall>n \<in> set (st_outbox st'). timely now n"
    using start ok inv(2) by (auto simp: sound_start_def notes_ok_def)
  show "known_routes st'" and "valid_istate X render st'" and "migration_ok backups st'" and "st_outbox st' = st_outbox st @ notes"
    using ok inv mig by (simp_all add: notes_ok_def)
qed

subsection \<open>The whole run\<close>

definition at_most_three :: "effect list \<Rightarrow> bool" where
  "at_most_three es \<longleftrightarrow> (\<forall>k. count_list (sent_keys es) k \<le> 3)"

lemma at_most_three_Nil [simp]: "at_most_three []"
  by (simp add: at_most_three_def)

lemma count_replicate: "count_list (replicate m a) k = (if a = k then m else 0)"
  by (induction m) auto

lemma at_most_three_step:
  assumes "\<exists>m \<le> 3. sent_keys es = replicate m k" and "at_most_three fs" and "k \<notin> set (sent_keys fs)"
  shows "at_most_three (es @ fs)"
  using assms by (auto simp: at_most_three_def count_replicate)

lemma process_intents_ok:
  assumes "run_ok X render backups now rs" and "distinct (map n_key ns)" and "is_safe_int now" "0 \<le> now"
    and "\<And>n. n \<in> set ns \<Longrightarrow> find_intent (dr_state rs) (n_key n) = Some n \<and> n_producer n = role
      \<and> n_delivery n \<noteq> D_Delivered \<and> (n_delivery n \<noteq> D_Unknown \<longrightarrow> n_key n \<notin> U)"
  shows "\<exists>rs' es. process_intents X render backups role now jobs world ns rs = (rs', None) \<and> run_ok X render backups now rs'
    \<and> (\<forall>k. find_intent (dr_state rs) k \<noteq> None \<longrightarrow> find_intent (dr_state rs') k \<noteq> None)
    \<and> dr_trace rs' = dr_trace rs @ es \<and> disciplined U (dr_disk rs) {} es \<and> last_commit (dr_disk rs) es = dr_disk rs'
    \<and> at_most_three es \<and> set (sent_keys es) \<subseteq> n_key ` set ns"
  using assms
proof (induction ns arbitrary: rs)
  case Nil
  then show ?case by (intro exI[of _ rs] exI[of _ "[]"]) simp
next
  case (Cons n ns)
  have "handled_intent X render backups now U (\<lambda>_ _. True) (n_key n) rs (process_intent X render backups role now jobs world n rs)"
    using Cons.prems by (intro process_intent_ok) auto
  then obtain rs1 es where one: "process_intent X render backups role now jobs world n rs = (rs1, None)" "run_ok X render backups now rs1"
    "keeps_others (n_key n) (dr_state rs) (dr_state rs1)" "\<exists>m. find_intent (dr_state rs1) (n_key n) = Some m \<and> True" "dr_trace rs1 = dr_trace rs @ es"
    "disciplined U (dr_disk rs) {} es" "last_commit (dr_disk rs) es = dr_disk rs1" "\<exists>m \<le> 3. sent_keys es = replicate m (n_key n)"
    unfolding handled_intent_def by blast
  have "find_intent (dr_state rs1) (n_key m) = Some m \<and> n_producer m = role \<and> n_delivery m \<noteq> D_Delivered
      \<and> (n_delivery m \<noteq> D_Unknown \<longrightarrow> n_key m \<notin> U)" if m: "m \<in> set ns" for m
  proof -
    have "n_key m \<noteq> n_key n"
      using m Cons.prems(2) by (auto simp: image_iff)
    then show ?thesis
      using Cons.prems(5)[of m] m one(3) by (simp add: keeps_others_def)
  qed
  then obtain rs2 fs where two: "process_intents X render backups role now jobs world ns rs1 = (rs2, None)" "run_ok X render backups now rs2"
    "\<forall>k. find_intent (dr_state rs1) k \<noteq> None \<longrightarrow> find_intent (dr_state rs2) k \<noteq> None" "dr_trace rs2 = dr_trace rs1 @ fs"
    "disciplined U (dr_disk rs1) {} fs" "last_commit (dr_disk rs1) fs = dr_disk rs2" "at_most_three fs" "set (sent_keys fs) \<subseteq> n_key ` set ns"
    using Cons.IH[OF one(2) _ Cons.prems(3,4)] Cons.prems(2) by auto
  have "disciplined U (dr_disk rs) {} (es @ fs)"
    using one(6,7) two(5) by (intro disciplined_append) simp_all
  moreover have "at_most_three (es @ fs)"
    using two(8) Cons.prems(2) by (intro at_most_three_step[OF one(8) two(7)]) auto
  moreover have "set (sent_keys (es @ fs)) \<subseteq> n_key ` set (n # ns)"
    using one(8) two(8) by auto
  moreover have "\<forall>k. find_intent (dr_state rs) k \<noteq> None \<longrightarrow> find_intent (dr_state rs2) k \<noteq> None"
    using two(3) one(3,4) by (auto simp: keeps_others_def) metis
  ultimately show ?case
    using one two by (intro exI[of _ rs2] exI[of _ "es @ fs"]) simp
qed

text \<open>When the manifest is readable and contradicts no bound notification, and messages are accepted.\<close>

definition binding_ok :: "manifest \<Rightarrow> string \<Rightarrow> job list \<Rightarrow> intent \<Rightarrow> bool" where
  "binding_ok m sha jobs n \<longleftrightarrow> (\<forall>b. n_binding n = Some b \<longrightarrow> (\<exists>dec.
     resolveNotificationRoute (n_routeClass n) (job_of jobs (rin_jobId (ci_root (i_of (n_incident n))))) (manifest_val m) = Inr dec
     \<and> binding_current b dec sha))"

definition names_its_job :: "intent \<Rightarrow> bool" where
  "names_its_job n \<longleftrightarrow> (n_routeClass n = ''JOB_FAILURE'' \<longrightarrow> finding_job n = rin_jobId (ci_root (i_of (n_incident n))))"

definition favourable :: "manifest \<Rightarrow> string \<Rightarrow> answers \<Rightarrow> bool" where
  "favourable m sha an \<longleftrightarrow> routing_of an = Some (m, sha) \<and> an_send an = Send_Accepted \<and> an_readback an \<noteq> None"

lemma binding_ok_checked:
  assumes "run_ok X render backups now rs" and "n \<in> set (st_outbox (dr_state rs))" and "binding_ok m sha jobs n"
  shows "check_binding m jobs sha now n = Inr ()"
proof -
  have "find_intent (dr_state rs) (n_key n) = Some n"
    using assms(1,2) by (simp add: run_ok_def valid_istate_def find_intent_in)
  note r = run_find[OF assms(1) this]
  have "within_now now (n_bindingAt n) \<and> within_now now (n_firstAttemptAt n) \<and> within_now now (n_updatedAt n)"
    using r(5-7) by (cases "n_bindingAt n"; cases "n_firstAttemptAt n"; cases "n_updatedAt n"; cases "n_binding n")
      (auto simp: within_now_def timely_iff binding_coherent_def chronology_coherent_def split: if_splits)
  then show ?thesis
    using assms(3) by (cases "n_binding n") (auto simp: check_binding_def binding_ok_def)
qed

lemma resolve_named:
  assumes "names_its_job n" and "n_routeClass n \<in> set incident_routes"
  shows "resolveNotificationRoute (n_routeClass n) (job_of jobs (finding_job n)) raw
    = resolveNotificationRoute (n_routeClass n) (job_of jobs (rin_jobId (ci_root (i_of (n_incident n))))) raw"
  using assms by (cases "n_routeClass n = ''JOB_FAILURE''") (simp_all add: names_its_job_def incident_routes_def resolveNotificationRoute_def split: sum.split)

lemma process_intents_deliver:
  assumes "run_ok X render backups now rs" and "distinct (map n_key ns)" and "is_safe_int now" "0 \<le> now" and "is_sha256 sha"
    and "\<And>n. n \<in> set ns \<Longrightarrow> find_intent (dr_state rs) (n_key n) = Some n \<and> n_producer n = role \<and> n_delivery n \<noteq> D_Delivered
      \<and> names_its_job n \<and> favourable m sha (world n)"
    and "\<And>n. n \<in> set (st_outbox (dr_state rs)) \<Longrightarrow> binding_ok m sha jobs n"
  shows "\<exists>rs'. process_intents X render backups role now jobs world ns rs = (rs', None)
    \<and> (\<forall>k. k \<notin> n_key ` set ns \<longrightarrow> find_intent (dr_state rs') k = find_intent (dr_state rs) k)
    \<and> (\<forall>n \<in> set ns. \<exists>n'. find_intent (dr_state rs') (n_key n) = Some n' \<and> n_delivery n' = D_Delivered)
    \<and> (\<exists>es. dr_trace rs' = dr_trace rs @ es \<and> (\<forall>n \<in> set ns. n_delivery n \<noteq> D_Unknown \<longrightarrow> n_key n \<in> set (sent_keys es)))"
  using assms(1,2,6,7)
proof (induction ns arbitrary: rs)
  case Nil
  then show ?case by simp
next
  case (Cons n ns)
  let ?P = "\<lambda>ks x. n_delivery x = D_Delivered \<and> binding_ok m sha jobs x \<and> (n_delivery n \<noteq> D_Unknown \<longrightarrow> n_key n \<in> set ks)"
  have n: "find_intent (dr_state rs) (n_key n) = Some n" "n_producer n = role" "n_delivery n \<noteq> D_Delivered" "names_its_job n"
    "routing_of (world n) = Some (m, sha)" "an_send (world n) = Send_Accepted" "an_readback (world n) \<noteq> None"
    using Cons.prems(3)[of n] by (simp_all add: favourable_def)
  note r = run_find[OF Cons.prems(1) n(1)]
  have ok_n: "binding_ok m sha jobs n"
    using Cons.prems(4) r(1) .
  note same = resolve_named[OF n(4) r(8)]
  have "handled_intent X render backups now (if n_delivery n = D_Unknown then {n_key n} else {}) ?P (n_key n) rs
      (process_intent X render backups role now jobs world n rs)"
  proof (rule process_intent_ok[OF Cons.prems(1) n(1-3) _ assms(3,4)])
    have "each (check_binding m jobs sha now) (st_outbox (dr_state rs)) = Inr ()"
      using binding_ok_checked[OF Cons.prems(1)] Cons.prems(4) by (simp add: each_Inr)
    then show "routing_calm jobs now (world n) n (dr_state rs)"
      using ok_n n(5) assms(5) by (auto simp: routing_calm_def binding_ok_def same)
    show "?P (sent_keys (fst (recoverNotificationDelivery (world n) n text' t))) (marked (snd (recoverNotificationDelivery (world n) n text' t)) now n)" if "n_delivery n = D_Unknown" for text' t
      using that n(6,7) ok_n
      by (auto simp: recoverNotificationDelivery_def deliveryRecoveryAction_def deliverOrPark_def attemptNotificationDelivery_def
          binding_ok_def split: option.splits)
    show "?P (replicate (fst (alert_of (world n))) (n_key n)) (marked (attemptNotificationDelivery (an_send (world n))) now x)"
      if "same_core n x" "routing_of (world n) = Some (mf, sha')"
        "resolveNotificationRoute (n_routeClass n) (job_of jobs (finding_job n)) (manifest_val mf) = Inr (routed t s missing)"
        "bound_to (n_binding n) t s sha' (n_binding x)" for x mf sha' t s missing
    proof -
      have "binding_ok m sha jobs x"
        using that n(5) ok_n by (auto simp: binding_ok_def bound_to_def same same_core_def binding_current_def routed_def split: if_splits)
      then show ?thesis
        using n(6) posts_pos[OF n(6)] by (simp add: attemptNotificationDelivery_def binding_ok_def)
    qed
  qed simp
  then obtain rs1 where one: "process_intent X render backups role now jobs world n rs = (rs1, None)" "run_ok X render backups now rs1"
    "keeps_others (n_key n) (dr_state rs) (dr_state rs1)" "\<exists>x. find_intent (dr_state rs1) (n_key n) = Some x \<and> n_delivery x = D_Delivered \<and> binding_ok m sha jobs x"
    "\<exists>es. dr_trace rs1 = dr_trace rs @ es \<and> (n_delivery n \<noteq> D_Unknown \<longrightarrow> n_key n \<in> set (sent_keys es))"
    unfolding handled_intent_def by force
  have wf: "wf_istate (dr_state rs)" "wf_istate (dr_state rs1)"
    using Cons.prems(1) one(2) by (simp_all add: run_ok_def valid_istate_def)
  have "find_intent (dr_state rs1) (n_key x) = Some x \<and> n_producer x = role \<and> n_delivery x \<noteq> D_Delivered
      \<and> names_its_job x \<and> favourable m sha (world x)" if x: "x \<in> set ns" for x
  proof -
    have "n_key x \<noteq> n_key n"
      using x Cons.prems(2) by (auto simp: image_iff)
    then show ?thesis
      using Cons.prems(3)[of x] x one(3) by (simp add: keeps_others_def)
  qed
  moreover have "binding_ok m sha jobs x" if x: "x \<in> set (st_outbox (dr_state rs1))" for x
  proof (cases "n_key x = n_key n")
    case True
    then show ?thesis
      using x one(4) find_intent_in[OF wf(2), of "n_key x" x] by auto
  next
    case False
    then have "find_intent (dr_state rs) (n_key x) = Some x"
      using x one(3) find_intent_in[OF wf(2), of "n_key x" x] by (simp add: keeps_others_def)
    then show ?thesis
      using Cons.prems(4) by (simp add: find_intent_in[OF wf(1)])
  qed
  ultimately obtain rs2 where two: "process_intents X render backups role now jobs world ns rs1 = (rs2, None)"
    "\<forall>k. k \<notin> n_key ` set ns \<longrightarrow> find_intent (dr_state rs2) k = find_intent (dr_state rs1) k"
    "\<forall>x \<in> set ns. \<exists>n'. find_intent (dr_state rs2) (n_key x) = Some n' \<and> n_delivery n' = D_Delivered"
    "\<exists>es. dr_trace rs2 = dr_trace rs1 @ es \<and> (\<forall>x \<in> set ns. n_delivery x \<noteq> D_Unknown \<longrightarrow> n_key x \<in> set (sent_keys es))"
    using Cons.IH[OF one(2)] Cons.prems(2) by auto
  have key: "n_key n \<notin> n_key ` set ns"
    using Cons.prems(2) by simp
  have trace: "\<exists>es. dr_trace rs2 = dr_trace rs @ es \<and> (\<forall>x \<in> set (n # ns). n_delivery x \<noteq> D_Unknown \<longrightarrow> n_key x \<in> set (sent_keys es))"
    using one(5) two(4) by (elim exE) (rule exI, force)
  have "process_intents X render backups role now jobs world (n # ns) rs = (rs2, None)"
    using one(1) two(1) by simp
  moreover have "\<forall>k. k \<notin> n_key ` set (n # ns) \<longrightarrow> find_intent (dr_state rs2) k = find_intent (dr_state rs) k"
    using one(3) two(2) by (simp add: keeps_others_def)
  moreover have "\<forall>x \<in> set (n # ns). \<exists>n'. find_intent (dr_state rs2) (n_key x) = Some n' \<and> n_delivery n' = D_Delivered"
    using one(4) two(2,3) key by auto
  ultimately show ?case
    using trace by blast
qed

lemma retryable_waiting:
  assumes "\<And>n. n \<in> set ns \<Longrightarrow> chronology_coherent n"
  shows "retryable role ns = Inr (filter (\<lambda>n. n_producer n = role \<and> n_delivery n \<noteq> D_Delivered) ns)"
  using assms
proof (induction ns)
  case (Cons n ns)
  have n: "chronology_coherent n"
    using Cons.prems by simp
  have "\<not> (n_delivery n = D_Pending \<and> (n_firstAttemptAt n \<noteq> None \<or> n_updatedAt n \<noteq> None))
      \<and> \<not> ((n_delivery n = D_Unknown \<or> n_delivery n = D_Delivered)
         \<and> (n_binding n = None \<or> \<not> (case n_firstAttemptAt n of Some t \<Rightarrow> is_safe_int t | None \<Rightarrow> False)))"
    using n by (cases "n_delivery n"; cases "n_firstAttemptAt n") (auto simp: chronology_coherent_def at_least_def)
  moreover have "retryable role ns = Inr (filter (\<lambda>n. n_producer n = role \<and> n_delivery n \<noteq> D_Delivered) ns)"
    using Cons by simp
  ultimately show ?case
    by (simp add: ensure_def del: de_Morgan_conj not_None_eq)
qed simp

lemma projected_intents:
  "set (fst (projectIncidentDelivery X le st ns)) \<subseteq> set ns"
  "distinct (map n_key ns) \<Longrightarrow> distinct (map n_key (fst (projectIncidentDelivery X le st ns)))"
  by (auto simp: projectIncidentDelivery_def Let_def intro!: distinct_map_filter)

definition in_doubt :: "istate \<Rightarrow> string set" where
  "in_doubt st = {k. \<exists>n. find_intent st k = Some n \<and> n_delivery n = D_Unknown}"

definition first_commit :: "istate \<Rightarrow> run_state" where
  "first_commit st = \<lparr>dr_state = st, dr_disk = Some st, dr_trace = [Saved st], dr_failed = False\<rparr>"

lemma first_commit_fields [simp]:
  "dr_state (first_commit st) = st" "dr_disk (first_commit st) = Some st" "dr_trace (first_commit st) = [Saved st]"
  by (simp_all add: first_commit_def)

definition waiting :: "string \<Rightarrow> istate \<Rightarrow> intent list" where
  "waiting role st = filter (\<lambda>n. n_producer n = role \<and> n_delivery n \<noteq> D_Delivered) (st_outbox st)"

text \<open>A run is its first commit and the loop over what the projection lets through.\<close>

lemma run_shape:
  assumes start: "sound_start X render backups now (length findings) disk st" and role: "role \<noteq> []"
    and upd: "updateAlertState X le now (ownsIncident role) role st (annotateFindingsWithJobs jobs findings) = Inr (st', notes)"
    and free: "collision_free X st notes"
    and ns: "ns = fst (projectIncidentDelivery X le st' (waiting role st'))"
  shows "processIncidentNotifications X le render backups role now jobs world findings disk
      = process_intents X render backups role now jobs world ns (first_commit st')"
    and "run_ok X render backups now (first_commit st')" and "is_safe_int now" and "0 \<le> now" and "distinct (map n_key ns)"
    and "\<And>n. n \<in> set ns \<Longrightarrow> find_intent st' (n_key n) = Some n \<and> n_producer n = role \<and> n_delivery n \<noteq> D_Delivered
      \<and> (n_delivery n \<noteq> D_Unknown \<longrightarrow> n_key n \<notin> in_doubt st')"
    and "st_outbox st' = st_outbox st @ notes" and "wf_istate st'"
proof -
  have load: "loadIncidentState X render backups disk = Inr st"
    using start by (simp add: sound_start_def)
  show "is_safe_int now" and "0 \<le> now"
    using start by (simp_all add: sound_start_def)
  have "sound_start X render backups now (length (annotateFindingsWithJobs jobs findings)) disk st"
    using start by (simp add: annotateFindingsWithJobs_def)
  note t = run_transition[OF this role upd free]
  show wf: "wf_istate st'" and "st_outbox st' = st_outbox st @ notes"
    using t(2,4) by (simp_all add: valid_istate_def)
  show "run_ok X render backups now (first_commit st')"
    using t(2,3,5,6) by (simp add: run_ok_def known_routes_def)
  have "retryableOutboxIntents st' role = Inr (waiting role st')"
    unfolding retryableOutboxIntents_def waiting_def by (rule retryable_waiting) (rule valid_chronology[OF t(2)])
  then show "processIncidentNotifications X le render backups role now jobs world findings disk
      = process_intents X render backups role now jobs world ns (first_commit st')"
    using load upd t(1) by (simp add: processIncidentNotifications_def commit_state_def first_commit_def ns)
  show "distinct (map n_key ns)"
    using wf unfolding ns by (intro projected_intents(2)) (simp add: wf_istate_def distinct_map_filter waiting_def)
  show "find_intent st' (n_key n) = Some n \<and> n_producer n = role \<and> n_delivery n \<noteq> D_Delivered
      \<and> (n_delivery n \<noteq> D_Unknown \<longrightarrow> n_key n \<notin> in_doubt st')" if "n \<in> set ns" for n
  proof -
    have n: "n \<in> set (st_outbox st')" "n_producer n = role" "n_delivery n \<noteq> D_Delivered"
      using that projected_intents(1)[of X le st' "waiting role st'"] by (auto simp: ns waiting_def)
    moreover have "find_intent st' (n_key n) = Some n"
      using n(1) by (simp add: find_intent_in[OF wf])
    ultimately show ?thesis
      by (simp add: in_doubt_def)
  qed
qed

lemma run_result:
  assumes "sound_start X render backups now (length findings) disk st" and "role \<noteq> []"
    and "updateAlertState X le now (ownsIncident role) role st (annotateFindingsWithJobs jobs findings) = Inr (st', notes)"
    and "collision_free X st notes"
  shows "\<exists>rs es. processIncidentNotifications X le render backups role now jobs world findings disk = (rs, None)
    \<and> run_ok X render backups now rs \<and> dr_trace rs = Saved st' # es
    \<and> (\<forall>k. find_intent st' k \<noteq> None \<longrightarrow> find_intent (dr_state rs) k \<noteq> None)
    \<and> disciplined (in_doubt st') (Some st') {} es \<and> last_commit (Some st') es = dr_disk rs \<and> at_most_three es
    \<and> (\<forall>k \<in> set (sent_keys es). \<exists>n. find_intent st' k = Some n \<and> n_producer n = role \<and> n_delivery n \<noteq> D_Delivered)"
proof -
  define ns where "ns = fst (projectIncidentDelivery X le st' (waiting role st'))"
  note run = run_shape[OF assms ns_def]
  have "\<exists>rs' es. process_intents X render backups role now jobs world ns (first_commit st') = (rs', None) \<and> run_ok X render backups now rs'
    \<and> (\<forall>k. find_intent st' k \<noteq> None \<longrightarrow> find_intent (dr_state rs') k \<noteq> None)
    \<and> dr_trace rs' = [Saved st'] @ es \<and> disciplined (in_doubt st') (Some st') {} es \<and> last_commit (Some st') es = dr_disk rs'
    \<and> at_most_three es \<and> set (sent_keys es) \<subseteq> n_key ` set ns"
    by (rule process_intents_ok[OF run(2,5,3,4), unfolded first_commit_fields]) (rule run(6))
  then obtain rs es where r: "process_intents X render backups role now jobs world ns (first_commit st') = (rs, None)" "run_ok X render backups now rs"
    "\<forall>k. find_intent st' k \<noteq> None \<longrightarrow> find_intent (dr_state rs) k \<noteq> None"
    "dr_trace rs = [Saved st'] @ es" "disciplined (in_doubt st') (Some st') {} es" "last_commit (Some st') es = dr_disk rs"
    "at_most_three es" "set (sent_keys es) \<subseteq> n_key ` set ns"
    by (elim exE conjE) (rule that)
  have "\<exists>n. find_intent st' k = Some n \<and> n_producer n = role \<and> n_delivery n \<noteq> D_Delivered" if "k \<in> set (sent_keys es)" for k
    using that r(8) run(6) by blast
  then have keys: "\<forall>k \<in> set (sent_keys es). \<exists>n. find_intent st' k = Some n \<and> n_producer n = role \<and> n_delivery n \<noteq> D_Delivered"
    by (rule ballI)
  have trace: "dr_trace rs = Saved st' # es"
    using r(4) by simp
  show ?thesis
    unfolding run(1) by (intro exI[of _ rs] exI[of _ es] conjI r(1) r(2) r(3) r(5) r(6) r(7) keys trace)
qed

lemma projected_iff:
  "n \<in> set (fst (projectIncidentDelivery X le st (waiting role st))) \<longleftrightarrow>
    n \<in> set (st_outbox st) \<and> n_producer n = role \<and> n_delivery n \<noteq> D_Delivered \<and> intent_decision X st n = None"
  by (auto simp: projectIncidentDelivery_def Let_def waiting_def)

lemma run_delivers:
  assumes "sound_start X render backups now (length findings) disk st" and "role \<noteq> []"
    and "updateAlertState X le now (ownsIncident role) role st (annotateFindingsWithJobs jobs findings) = Inr (st', notes)"
    and "collision_free X st notes" and "is_sha256 sha" and "\<And>n. favourable m sha (world n)"
    and "\<And>n. n \<in> set (st_outbox st @ notes) \<Longrightarrow> binding_ok m sha jobs n \<and> names_its_job n"
    and "n \<in> set (st_outbox st @ notes)" "n_producer n = role" "intent_decision X st' n = None"
  shows "\<exists>rs n'. processIncidentNotifications X le render backups role now jobs world findings disk = (rs, None)
    \<and> find_intent (dr_state rs) (n_key n) = Some n' \<and> n_delivery n' = D_Delivered
    \<and> (n_delivery n = D_Pending \<or> n_delivery n = D_Failed \<longrightarrow> n_key n \<in> set (sent_keys (dr_trace rs)))"
proof -
  define ns where "ns = fst (projectIncidentDelivery X le st' (waiting role st'))"
  note run = run_shape[OF assms(1-4) ns_def]
  have sub: "x \<in> set ns \<Longrightarrow> x \<in> set (st_outbox st')" for x
    by (simp add: ns_def projected_iff)
  have "\<exists>rs'. process_intents X render backups role now jobs world ns (first_commit st') = (rs', None)
    \<and> (\<forall>k. k \<notin> n_key ` set ns \<longrightarrow> find_intent (dr_state rs') k = find_intent (dr_state (first_commit st')) k)
    \<and> (\<forall>n \<in> set ns. \<exists>n'. find_intent (dr_state rs') (n_key n) = Some n' \<and> n_delivery n' = D_Delivered)
    \<and> (\<exists>es. dr_trace rs' = dr_trace (first_commit st') @ es \<and> (\<forall>n \<in> set ns. n_delivery n \<noteq> D_Unknown \<longrightarrow> n_key n \<in> set (sent_keys es)))"
  proof (rule process_intents_deliver[OF run(2,5,3,4) assms(5)])
    show "find_intent (dr_state (first_commit st')) (n_key x) = Some x \<and> n_producer x = role \<and> n_delivery x \<noteq> D_Delivered
        \<and> names_its_job x \<and> favourable m sha (world x)" if "x \<in> set ns" for x
      using run(6)[OF that] sub[OF that] assms(6,7) run(7) by simp
    show "binding_ok m sha jobs x" if "x \<in> set (st_outbox (dr_state (first_commit st')))" for x
      using that assms(7) run(7) by simp
  qed
  then obtain rs es where r: "process_intents X render backups role now jobs world ns (first_commit st') = (rs, None)"
    "\<forall>k. k \<notin> n_key ` set ns \<longrightarrow> find_intent (dr_state rs) k = find_intent st' k"
    "\<forall>n \<in> set ns. \<exists>n'. find_intent (dr_state rs) (n_key n) = Some n' \<and> n_delivery n' = D_Delivered"
    "dr_trace rs = dr_trace (first_commit st') @ es" "\<forall>n \<in> set ns. n_delivery n \<noteq> D_Unknown \<longrightarrow> n_key n \<in> set (sent_keys es)"
    by (elim exE conjE) (rule that, simp_all)
  have n: "find_intent st' (n_key n) = Some n"
    using assms(8) run(7) by (simp add: find_intent_in[OF run(8)])
  have "\<exists>n'. find_intent (dr_state rs) (n_key n) = Some n' \<and> n_delivery n' = D_Delivered"
  proof (cases "n_key n \<in> n_key ` set ns")
    case True
    then show ?thesis using r(3) by auto
  next
    case False
    then have "n_delivery n = D_Delivered"
      using assms(8-10) run(7) unfolding ns_def image_iff by (metis projected_iff)
    then show ?thesis
      using r(2) False n by simp
  qed
  moreover have "n_key n \<in> set (sent_keys (dr_trace rs))" if "n_delivery n = D_Pending \<or> n_delivery n = D_Failed"
  proof -
    have "n \<in> set ns"
      using that assms(8-10) run(7) by (auto simp: ns_def projected_iff)
    then show ?thesis
      using that r(4,5) by auto
  qed
  ultimately show ?thesis
    using r(1) run(1) by auto
qed

end
