(* ===== verification/Watchdog.thy ===== *)
theory Watchdog
  imports Alerts Examples Wording
begin

section \<open>What the watchdog guarantees\<close>

text \<open>
  The properties of the incident compiler, of the lifecycle and its commit, and of a delivery run, each
  with a concrete instance: a watchdog that finds its file empty and the second watchdog dead.
\<close>

subsection \<open>The example\<close>

definition demo_alert :: fact where
  "demo_alert = bare_fact ''SCHEDULER_WATCHDOG_W2_FAILURE''"

definition demo_root :: string where
  "demo_root = ''control|SCHEDULER_WATCHDOG_W2_FAILURE|watchdog|watchdog:w2''"

definition shorter :: "string \<Rightarrow> string \<Rightarrow> bool" where
  "shorter a b \<longleftrightarrow> length a \<le> length b"

definition demo_compiled :: compiled where
  "demo_compiled = add_fact demo_alert (fresh_compiled (rootInputFor demo_alert) demo_root)"

definition demo_transition :: "ext \<Rightarrow> istate \<times> intent list" where
  "demo_transition X = emit X L_Open 100 (open_record 100 ''w1'' 1 demo_compiled) (empty_istate, [])"

lemma demo_identity: "incidentRootIdentity (rootInputFor demo_alert) = Inr demo_root"
  by code_simp

lemma demo_compile: "compileIncidents le [demo_alert] = Inr [demo_compiled]"
  by (simp add: compileIncidents_def demo_identity demo_compiled_def sort_by_def)

lemma demo_compiled_fields [simp]: "ci_identity demo_compiled = demo_root" "ci_facts demo_compiled = [demo_alert]"
  by (simp_all add: demo_compiled_def) (simp_all add: fresh_compiled_def)

lemma demo_not_acknowledged: "acknowledged_roots [demo_compiled] = []"
  by (simp add: acknowledged_roots_def operator_reconciled_def demo_alert_def)

lemma demo_first_run: "updateAlertState X le 100 owns ''w1'' empty_istate [demo_alert] = Inr (demo_transition X)"
proof -
  have first: "incident_step X 100 [] ''w1'' demo_compiled (empty_istate, []) = demo_transition X"
    by (simp add: incident_step_def find_incident_def empty_istate_def acknowledge_def demo_transition_def split: option.split)
  have "st_incidents (fst (demo_transition X)) = [transitioned 100 (open_record 100 ''w1'' 1 demo_compiled)]"
    by (simp add: demo_transition_def emit_def Let_def put_incident_def empty_istate_def put_outbox_def)
  then have "fold (recover_step X 100 [demo_root] owns) (st_incidents (fst (demo_transition X))) (demo_transition X) = demo_transition X"
    by (simp add: recover_step_def)
  then show ?thesis
    by (simp add: updateAlertState_def demo_compile demo_not_acknowledged updateIncidentState_def first)
qed

lemma demo_annotated: "annotateFindingsWithJobs [] [demo_alert] = [demo_alert]"
  by (simp add: annotateFindingsWithJobs_def annotate_finding_def demo_alert_def)

lemma demo_start: "sound_start X render backups 100 1 None empty_istate"
  by (simp add: sound_start_def loadIncidentState_def wf_istate_def empty_istate_def known_routes_def is_safe_int_def max_safe_def)

definition demo_note :: "ext \<Rightarrow> intent" where
  "demo_note X = transitionIntent X L_Open (transitioned 100 (open_record 100 ''w1'' 1 demo_compiled))"

lemma demo_notes: "snd (demo_transition X) = [demo_note X]" "st_outbox (fst (demo_transition X)) = [demo_note X]"
  by (simp_all add: demo_transition_def demo_note_def emit_def Let_def put_outbox_def empty_istate_def put_incident_def)

lemma demo_collision_free: "collision_free X empty_istate [demo_note X]"
  by (simp add: collision_free_def empty_istate_def)

text \<open>The wording of the code; there are no migration backups.\<close>

definition demo_render :: rendering where
  "demo_render = stableNotificationText demo_ext"

definition demo_backups :: "migration \<Rightarrow> bool" where
  "demo_backups m \<longleftrightarrow> False"

definition demo_manifest :: jval where
  "demo_manifest = JObj [(''version'', JInt 1), (''canonicalOpsTarget'', JObj [(''channel'', JStr ''feishu''), (''to'', JStr ''oc_ops'')]),
     (''ownerTargets'', JObj []), (''jobFailureTargets'', JObj [])]"

definition demo_routes :: manifest where
  "demo_routes = \<lparr>mf_canonicalOpsTarget = Some \<lparr>tg_channel = ''feishu'', tg_to = ''oc_ops''\<rparr>, mf_ownerTargets = [], mf_jobFailureTargets = []\<rparr>"

definition demo_sha :: string where
  "demo_sha = replicate 64 (CHR ''0'')"

definition demo_world :: "intent \<Rightarrow> answers" where
  "demo_world n = \<lparr>an_file = Some (demo_manifest, demo_sha), an_readback = Some False, an_attempts = (Post_Accepted, Post_Accepted, Post_Accepted)\<rparr>"

lemma demo_valid_manifest: "validateRoutingManifest demo_manifest False = Inr demo_routes"
  by code_simp

lemma demo_sha_ok: "is_sha256 demo_sha"
  by code_simp

subsection \<open>The compiler\<close>

text \<open>When the compiler accepts the findings of a run, every finding is in exactly one incident, as
  often as it was reported; an incident holds exactly the findings with its root identity, in their
  order, and no incident is empty or stands twice; the incidents are in the order of the collation.\<close>

theorem compile_partitions_findings:
  assumes "compileIncidents le fs = Inr cs"
    and "\<And>a b. le a b \<or> le b a" and "transp le"
  shows "mset (concat (map ci_facts cs)) = mset fs \<and> distinct (map ci_identity cs)
    \<and> (\<forall>c \<in> set cs. ci_facts c \<noteq> [] \<and> ci_facts c = filter (\<lambda>f. incidentRootIdentity (rootInputFor f) = Inr (ci_identity c)) fs
         \<and> set (ci_symptoms c) = ft_class ` set (ci_facts c) - {rin_cause (ci_root c)})
    \<and> sorted_wrt (\<lambda>a b. le (ci_identity a) (ci_identity b)) cs"
proof -
  have inv: "compiled_inv fs cs"
    by (rule compileIncidents_inv[OF assms(1)])
  obtain ds where "cs = sort_by le ci_identity ds"
    using assms(1) by (auto simp: compileIncidents_def rbind_eq_Inr)
  then have "sorted_wrt (\<lambda>a b. le (ci_identity a) (ci_identity b)) cs"
    using sorted_sort_by[of le ci_identity, OF assms(2) transpD[OF assms(3)]] by simp
  moreover have "ci_facts c \<noteq> [] \<and> ci_facts c = filter (\<lambda>f. incidentRootIdentity (rootInputFor f) = Inr (ci_identity c)) fs
      \<and> set (ci_symptoms c) = ft_class ` set (ci_facts c) - {rin_cause (ci_root c)}" if "c \<in> set cs" for c
  proof -
    have "compiled_ok fs c"
      using inv that by (simp add: compiled_inv_def)
    then show ?thesis
      unfolding compiled_ok_def root_of_def by (elim conjE) (intro conjI)
  qed
  ultimately show ?thesis
    using facts_partition[OF inv] inv by (simp only: compiled_inv_def) blast
qed

theorem compile_partitions_findings_witness:
  "\<exists>cs. compileIncidents shorter [demo_alert, bare_fact ''JOB_MISSING'', demo_alert] = Inr cs
    \<and> mset (concat (map ci_facts cs)) = mset [demo_alert, bare_fact ''JOB_MISSING'', demo_alert] \<and> length cs = 2"
proof -
  have "incidentRootIdentity (rootInputFor (bare_fact ''JOB_MISSING'')) = Inr ''control|JOB_MISSING|watchdog|watchdog:JOB_MISSING''"
    by code_simp
  then have "\<exists>cs. compileIncidents shorter [demo_alert, bare_fact ''JOB_MISSING'', demo_alert] = Inr cs \<and> length cs = 2"
    by (simp add: compileIncidents_def demo_identity fresh_compiled_def demo_root_def)
  then obtain cs where cs: "compileIncidents shorter [demo_alert, bare_fact ''JOB_MISSING'', demo_alert] = Inr cs" "length cs = 2"
    by blast
  have total: "\<And>a b. shorter a b \<or> shorter b a" and trans: "transp shorter"
    by (auto simp: shorter_def transp_def)
  from compile_partitions_findings[OF cs(1) total trans] cs show ?thesis
    by blast
qed

subsection \<open>The transition and its commit\<close>

text \<open>A watchdog run that starts from a state the loader accepts computes a state that the commit
  accepts and that the next run can load again; nothing waiting in the outbox is changed or lost, and the
  new notifications stand at its end.\<close>

theorem transition_can_be_committed:
  assumes "sound_start X render backups now (length findings) disk st" and "producer \<noteq> []"
    and "updateAlertState X le now owns producer st findings = Inr (st', notes)" and "collision_free X st notes"
  shows "commitIncidentState X render backups disk disk st' = Inr (Some st')
    \<and> loadIncidentState X render backups (Some st') = Inr st' \<and> st_outbox st' = st_outbox st @ notes"
  using run_transition[OF assms] load_valid by blast

theorem transition_can_be_committed_witness:
  "\<exists>st' n. updateAlertState demo_ext shorter 100 (ownsIncident ''w1'') ''w1'' empty_istate [demo_alert] = Inr (st', [n])
    \<and> commitIncidentState demo_ext demo_render demo_backups None None st' = Inr (Some st') \<and> st_outbox st' = [n]"
proof -
  have upd: "updateAlertState demo_ext shorter 100 (ownsIncident ''w1'') ''w1'' empty_istate [demo_alert] = Inr (fst (demo_transition demo_ext), [demo_note demo_ext])"
    using demo_first_run demo_notes(1)[of demo_ext] by (metis prod.collapse)
  have start: "sound_start demo_ext demo_render demo_backups 100 (length [demo_alert]) None empty_istate"
    using demo_start by simp
  have "commitIncidentState demo_ext demo_render demo_backups None None (fst (demo_transition demo_ext)) = Inr (Some (fst (demo_transition demo_ext)))"
    using transition_can_be_committed[OF start _ upd demo_collision_free] by simp
  then show ?thesis
    using upd demo_notes(2)[of demo_ext] by blast
qed

subsection \<open>The delivery run\<close>

text \<open>From a state the loader accepts, with findings the compiler accepts, and as long as no other process
  writes the file, a run ends without an error whatever the manifest, the history and the provider answer;
  its last state is on disk and loads again, and no notification has left the outbox.\<close>

theorem delivery_run_completes:
  assumes "sound_start X render backups now (length findings) disk st" and "role \<noteq> []"
    and "updateAlertState X le now (ownsIncident role) role st (annotateFindingsWithJobs jobs findings) = Inr (st', notes)"
    and "collision_free X st notes"
  shows "\<exists>rs. processIncidentNotifications X le render backups role now jobs world findings disk = (rs, None)
    \<and> dr_disk rs = Some (dr_state rs) \<and> loadIncidentState X render backups (dr_disk rs) = Inr (dr_state rs)
    \<and> (\<forall>n \<in> set (st_outbox st) \<union> set notes. find_intent (dr_state rs) (n_key n) \<noteq> None)"
proof -
  obtain rs es where r: "processIncidentNotifications X le render backups role now jobs world findings disk = (rs, None)"
    "run_ok X render backups now rs" "\<forall>k. find_intent st' k \<noteq> None \<longrightarrow> find_intent (dr_state rs) k \<noteq> None"
    using run_result[OF assms, of world] by (elim exE conjE) (rule that)
  have "sound_start X render backups now (length (annotateFindingsWithJobs jobs findings)) disk st"
    using assms(1) by (simp add: annotateFindingsWithJobs_def)
  note t = run_transition[OF this assms(2-4)]
  have wf: "wf_istate st'"
    using t(2) by (simp add: valid_istate_def)
  have "find_intent (dr_state rs) (n_key n) \<noteq> None" if "n \<in> set (st_outbox st) \<union> set notes" for n
  proof -
    have "find_intent st' (n_key n) = Some n"
      using that t(4) by (simp add: find_intent_in[OF wf])
    then show ?thesis using r(3) by simp
  qed
  moreover have "dr_disk rs = Some (dr_state rs)" "loadIncidentState X render backups (dr_disk rs) = Inr (dr_state rs)"
    using r(2) load_valid[of X render "dr_state rs" backups] by (simp_all add: run_ok_def)
  ultimately show ?thesis
    using r(1) by blast
qed

lemma demo_run:
  "sound_start X render backups 100 (length [demo_alert]) None empty_istate"
  "updateAlertState X le 100 (ownsIncident ''w1'') ''w1'' empty_istate (annotateFindingsWithJobs [] [demo_alert])
    = Inr (fst (demo_transition X), [demo_note X])"
  "collision_free X empty_istate [demo_note X]"
proof -
  show "sound_start X render backups 100 (length [demo_alert]) None empty_istate"
    using demo_start by simp
  show "updateAlertState X le 100 (ownsIncident ''w1'') ''w1'' empty_istate (annotateFindingsWithJobs [] [demo_alert])
    = Inr (fst (demo_transition X), [demo_note X])"
    unfolding demo_annotated demo_first_run demo_notes(1)[symmetric] prod.collapse ..
qed (rule demo_collision_free)

theorem delivery_run_completes_witness:
  "\<exists>rs. processIncidentNotifications demo_ext shorter demo_render demo_backups ''w1'' 100 [] demo_world [demo_alert] None = (rs, None)
    \<and> dr_disk rs = Some (dr_state rs) \<and> find_intent (dr_state rs) (n_key (demo_note demo_ext)) \<noteq> None"
  using delivery_run_completes[OF demo_run(1) _ demo_run(2,3), where world = demo_world] by force

text \<open>C10. When the manifest is readable and valid, contradicts no notification that is already bound, the
  search in the chat history completes and the provider accepts, the run delivers every notification of
  its watchdog that the projection lets through, and it has sent those that were waiting or refused.\<close>

theorem favourable_run_delivers:
  assumes "sound_start X render backups now (length findings) disk st" and "role \<noteq> []"
    and "updateAlertState X le now (ownsIncident role) role st (annotateFindingsWithJobs jobs findings) = Inr (st', notes)"
    and "collision_free X st notes"
    and "is_sha256 sha" and "\<And>n. favourable m sha (world n)"
    and "\<And>n. n \<in> set (st_outbox st @ notes) \<Longrightarrow> binding_ok m sha jobs n \<and> names_its_job n"
    and "n \<in> set (st_outbox st @ notes)" and "n_producer n = role" and "intent_decision X st' n = None"
  shows "\<exists>rs n'. processIncidentNotifications X le render backups role now jobs world findings disk = (rs, None)
    \<and> find_intent (dr_state rs) (n_key n) = Some n' \<and> n_delivery n' = D_Delivered
    \<and> (n_delivery n = D_Pending \<or> n_delivery n = D_Failed \<longrightarrow> n_key n \<in> set (sent_keys (dr_trace rs)))"
  by (rule run_delivers[OF assms])

lemma demo_favourable: "favourable demo_routes demo_sha (demo_world n)"
  by (simp add: favourable_def routing_of_def demo_world_def demo_valid_manifest an_send_def alert_of_def)

lemma demo_class: "routeClassFor (rin_cause (rootInputFor demo_alert)) = ''SCHEDULER_CONTROL_PLANE_INCIDENT''"
  by code_simp

lemma demo_note_fields [simp]:
  "n_binding (demo_note X) = None" "n_producer (demo_note X) = ''w1''" "n_delivery (demo_note X) = D_Pending"
  "n_kind (demo_note X) = L_Open" "n_root (demo_note X) = demo_root" "n_routeClass (demo_note X) = ''SCHEDULER_CONTROL_PLANE_INCIDENT''"
  "n_incidentId (demo_note X) = incident_id demo_root 1"
  by (simp_all add: demo_note_def transitioned_def open_record_def)
    (simp add: demo_compiled_def fresh_compiled_def demo_class)

lemma demo_record: "st_incidents (fst (demo_transition X)) = [transitioned 100 (open_record 100 ''w1'' 1 demo_compiled)]"
  by (simp add: demo_transition_def emit_def Let_def put_incident_def empty_istate_def put_outbox_def)

lemma demo_segments: "split_on (CHR ''|'') [] demo_root = [''control'', ''SCHEDULER_WATCHDOG_W2_FAILURE'', ''watchdog'', ''watchdog:w2'']"
  by code_simp

lemma demo_kind [simp]: "i_root r = demo_root \<Longrightarrow> rootKind r = Some ''control''"
  by (simp add: rootKind_def rootSegments_def demo_segments nth_opt_def)

lemma demo_projected: "intent_decision X (fst (demo_transition X)) (demo_note X) = None"
proof -
  have root: "i_root (transitioned 100 (open_record 100 ''w1'' 1 demo_compiled)) = demo_root"
    by (simp add: transitioned_def open_record_def)
  have "\<not> stale_new (fst (demo_transition X)) (demo_note X)"
    by (simp add: stale_new_def find_incident_def demo_record root)
  moreover have "parentCode X st r = None" if "i_root r = demo_root" for st r
    using that by (simp add: parentCode_def)
  then have "parentSuppressionCodes X (fst (demo_transition X)) = []"
    by (simp add: parentSuppressionCodes_def demo_notes(2) demo_record root consider_parent_def)
  moreover have "stuckPairKey (n_incident (demo_note X)) = None"
    by (simp add: stuckPairKey_def)
  ultimately show ?thesis
    by (simp add: intent_decision_def)
qed

lemma demo_bindings: "n \<in> set (st_outbox empty_istate @ [demo_note X]) \<Longrightarrow> binding_ok demo_routes demo_sha [] n \<and> names_its_job n"
  by (simp add: empty_istate_def binding_ok_def names_its_job_def)

lemma demo_delivers:
  "\<exists>rs n'. processIncidentNotifications X le render backups ''w1'' 100 [] demo_world [demo_alert] None = (rs, None)
    \<and> find_intent (dr_state rs) (n_key (demo_note X)) = Some n' \<and> n_delivery n' = D_Delivered
    \<and> n_key (demo_note X) \<in> set (sent_keys (dr_trace rs))"
  using run_delivers[OF demo_run(1) _ demo_run(2,3) demo_sha_ok demo_favourable demo_bindings, where n = "demo_note X" and X = X] demo_projected[of X]
  by simp

theorem favourable_run_delivers_witness:
  "\<exists>rs n'. processIncidentNotifications demo_ext shorter demo_render demo_backups ''w1'' 100 [] demo_world [demo_alert] None = (rs, None)
    \<and> find_intent (dr_state rs) (n_key (demo_note demo_ext)) = Some n' \<and> n_delivery n' = D_Delivered
    \<and> n_key (demo_note demo_ext) \<in> set (sent_keys (dr_trace rs))"
  using favourable_run_delivers[OF demo_run(1) _ demo_run(2,3) demo_sha_ok demo_favourable demo_bindings, where n = "demo_note demo_ext" and X = demo_ext] demo_projected[of demo_ext]
  by simp

text \<open>C8. No message leaves before the state that says so is on disk: when a run sends a message, the last
  state committed before holds its notification as being in doubt, bound to exactly this text and this
  target. A run that dies at any instant leaves a file from which the next run knows that it may have sent.\<close>

theorem sends_are_recorded_first:
  assumes "sound_start X render backups now (length findings) disk st" and "role \<noteq> []"
    and "updateAlertState X le now (ownsIncident role) role st (annotateFindingsWithJobs jobs findings) = Inr (st', notes)"
    and "collision_free X st notes"
    and "processIncidentNotifications X le render backups role now jobs world findings disk = (rs, e)"
    and "dr_trace rs = before @ Sent k x t # after"
  shows "\<exists>st1 n b. last_commit disk before = Some st1 \<and> find_intent st1 k = Some n \<and> n_delivery n = D_Unknown
    \<and> n_binding n = Some b \<and> b_payload b = x \<and> b_route b = t"
proof -
  obtain es where es: "dr_trace rs = Saved st' # es" "disciplined (in_doubt st') (Some st') {} es"
    using run_result[OF assms(1-4), of world] assms(5) by auto
  obtain before' where "before = Saved st' # before'" "es = before' @ Sent k x t # after"
    using es(1) assms(6) by (cases before) auto
  then have "recorded (last_commit disk before) k x t"
    using es(2) disciplined_split(1)[of "in_doubt st'" "Some st'" "{}" before' k x t after] by simp
  then show ?thesis
    by (simp add: recorded_def)
qed

lemma sent_split: "k \<in> set (sent_keys es) \<Longrightarrow> \<exists>before x t after. es = before @ Sent k x t # after"
proof (induction es rule: sent_keys.induct)
  case (2 k' x t es)
  then show ?case by (metis append_Cons append_Nil set_ConsD sent_keys.simps(2))
qed (auto, (metis append_Cons)+)

theorem sends_are_recorded_first_witness:
  "\<exists>rs before x t after st1 n b. processIncidentNotifications demo_ext shorter demo_render demo_backups ''w1'' 100 [] demo_world [demo_alert] None = (rs, None)
    \<and> dr_trace rs = before @ Sent (n_key (demo_note demo_ext)) x t # after \<and> last_commit None before = Some st1
    \<and> find_intent st1 (n_key (demo_note demo_ext)) = Some n \<and> n_delivery n = D_Unknown \<and> n_binding n = Some b \<and> b_payload b = x \<and> b_route b = t"
proof -
  obtain rs where rs: "processIncidentNotifications demo_ext shorter demo_render demo_backups ''w1'' 100 [] demo_world [demo_alert] None = (rs, None)"
    "n_key (demo_note demo_ext) \<in> set (sent_keys (dr_trace rs))"
    using demo_delivers[of demo_ext shorter demo_render demo_backups] by (elim exE conjE) (rule that)
  have role: "''w1'' \<noteq> []" by simp
  obtain before x t after where split: "dr_trace rs = before @ Sent (n_key (demo_note demo_ext)) x t # after"
    using sent_split[OF rs(2)] by (elim exE) (rule that)
  obtain st1 n b where "last_commit None before = Some st1 \<and> find_intent st1 (n_key (demo_note demo_ext)) = Some n \<and> n_delivery n = D_Unknown
      \<and> n_binding n = Some b \<and> b_payload b = x \<and> b_route b = t"
    using sends_are_recorded_first[OF demo_run(1) role demo_run(2,3) rs(1) split] by (elim exE) (rule that)
  with rs(1) split show ?thesis
    by (intro exI conjI) auto
qed

text \<open>C9. A run posts the message of a notification at most three times, which are the attempts of one
  hand-over; it posts none for a notification that was delivered before, and for one whose delivery was in
  doubt only after it has searched the chat history for it.\<close>

theorem posted_at_most_three_times:
  assumes "sound_start X render backups now (length findings) disk st" and "role \<noteq> []"
    and "updateAlertState X le now (ownsIncident role) role st (annotateFindingsWithJobs jobs findings) = Inr (st', notes)"
    and "collision_free X st notes"
    and "processIncidentNotifications X le render backups role now jobs world findings disk = (rs, e)"
  shows "(\<forall>k. count_list (sent_keys (dr_trace rs)) k \<le> 3)
    \<and> (\<forall>n \<in> set (st_outbox st). n_delivery n = D_Delivered \<longrightarrow> n_key n \<notin> set (sent_keys (dr_trace rs)))
    \<and> (\<forall>n \<in> set (st_outbox st). \<forall>before x t after. n_delivery n = D_Unknown \<and> dr_trace rs = before @ Sent (n_key n) x t # after
         \<longrightarrow> Looked_Up (n_key n) \<in> set before)"
proof -
  obtain es where es: "dr_trace rs = Saved st' # es" "disciplined (in_doubt st') (Some st') {} es" "at_most_three es"
    "\<forall>k \<in> set (sent_keys es). \<exists>n. find_intent st' k = Some n \<and> n_producer n = role \<and> n_delivery n \<noteq> D_Delivered"
    using run_result[OF assms(1-4), of world] assms(5) by auto
  have "sound_start X render backups now (length (annotateFindingsWithJobs jobs findings)) disk st"
    using assms(1) by (simp add: annotateFindingsWithJobs_def)
  note t = run_transition[OF this assms(2-4)]
  have found: "find_intent st' (n_key n) = Some n" if "n \<in> set (st_outbox st)" for n
    using that t(2,4) by (simp add: find_intent_in valid_istate_def)
  have "n_key n \<notin> set (sent_keys es)" if "n \<in> set (st_outbox st)" "n_delivery n = D_Delivered" for n
    using that found es(4) by force
  moreover have "Looked_Up (n_key n) \<in> set before"
    if n: "n \<in> set (st_outbox st)" "n_delivery n = D_Unknown" and split: "dr_trace rs = before @ Sent (n_key n) x t # after" for n before x t after
  proof -
    obtain before' where "before = Saved st' # before'" "es = before' @ Sent (n_key n) x t # after"
      using es(1) split by (cases before) auto
    then show ?thesis
      using es(2) disciplined_split(2)[of "in_doubt st'" "Some st'" "{}" before' "n_key n" x t after] found[OF n(1)] n(2)
      by (simp add: in_doubt_def)
  qed
  ultimately show ?thesis
    using es(1,3) by (simp add: at_most_three_def)
qed

theorem posted_at_most_three_times_witness:
  "\<exists>rs. processIncidentNotifications demo_ext shorter demo_render demo_backups ''w1'' 100 [] demo_world [demo_alert] None = (rs, None)
    \<and> count_list (sent_keys (dr_trace rs)) (n_key (demo_note demo_ext)) \<le> 3 \<and> n_key (demo_note demo_ext) \<in> set (sent_keys (dr_trace rs))"
proof -
  obtain rs where rs: "processIncidentNotifications demo_ext shorter demo_render demo_backups ''w1'' 100 [] demo_world [demo_alert] None = (rs, None)"
    "n_key (demo_note demo_ext) \<in> set (sent_keys (dr_trace rs))"
    using demo_delivers[of demo_ext shorter demo_render demo_backups] by (elim exE conjE) (rule that)
  have "count_list (sent_keys (dr_trace rs)) (n_key (demo_note demo_ext)) \<le> 3"
    using posted_at_most_three_times[OF demo_run(1) _ demo_run(2,3) rs(1)] by simp
  with rs show ?thesis by blast
qed




end
