(* ===== verification/Silences.thy ===== *)
theory Silences
  imports Watchdog
begin

section \<open>What the watchdog keeps to itself\<close>

text \<open>
  When a delivery run sends nothing: a bound notification that the manifest no longer agrees with blocks
  every other one, a stuck run has one notification for its opening and one for its closing, and none at
  all when the first of its two incidents has closed before it was sent. An unchanged finding is not
  reported twice.
\<close>

subsection \<open>A stale binding\<close>

lemma each_Inl: "x \<in> set xs \<Longrightarrow> f x = Inl e \<Longrightarrow> \<exists>e'. each f xs = Inl e'"
  by (induction xs) (auto simp: rbind_def split: sum.splits)









subsection \<open>The two incidents of a stuck run\<close>

lemma deliverable_decision: "n \<in> set (fst (projectIncidentDelivery X le st ns)) \<Longrightarrow> n \<in> set ns \<and> intent_decision X st n = None"
  by (auto simp: projectIncidentDelivery_def Let_def)

lemma pair_of_member:
  assumes "r \<in> set (st_incidents st)" and "stuckPairKey r = Some key"
  obtains pair where "pair_analysis st codes key = Some pair"
proof -
  have "pair_analysis st codes key \<noteq> None"
    using assms by (auto simp: pair_analysis_def pair_members_def Let_def filter_empty_conv)
  then show ?thesis using that by blast
qed

lemma decided_by_pair:
  assumes "intent_decision X st n = None" and "stuckPairKey (n_incident n) = Some key"
    and "pair_analysis st (parentSuppressionCodes X st) key = Some pair"
  shows "pairDecision pair n = None"
  using assms by (auto simp: intent_decision_def or_else_def Let_def split: if_splits option.splits)

text \<open>C18. Of the notifications that a run delivers for one stuck run, all that open an incident are about
  the same incident, and so are all that close one: the user hears of the opening once and of the
  closing once, although two findings may describe the run.\<close>

theorem one_alert_per_stuck_run:
  assumes "n \<in> set (fst (projectIncidentDelivery X le st intents))" and "m \<in> set (fst (projectIncidentDelivery X le st intents))"
    and "stuckPairKey (n_incident n) = Some key" and "stuckPairKey (n_incident m) = Some key"
    and "r \<in> set (st_incidents st)" and "stuckPairKey r = Some key" and "n_kind n = L_Open \<longleftrightarrow> n_kind m = L_Open"
  shows "n_incidentId n = n_incidentId m \<and> (n_kind n \<noteq> L_Open \<longrightarrow> (\<forall>q \<in> set (st_incidents st). stuckPairKey q = Some key \<longrightarrow> i_lifecycle q \<noteq> L_Open))"
proof -
  obtain pair where pair: "pair_analysis st (parentSuppressionCodes X st) key = Some pair"
    using pair_of_member[OF assms(5,6)] .
  have n: "pairDecision pair n = None" and m: "pairDecision pair m = None"
    using decided_by_pair[OF conjunct2[OF deliverable_decision[OF assms(1)]] assms(3) pair]
      decided_by_pair[OF conjunct2[OF deliverable_decision[OF assms(2)]] assms(4) pair] by simp_all
  have closed: "sp_fullyClosed pair \<Longrightarrow> q \<in> set (st_incidents st) \<Longrightarrow> stuckPairKey q = Some key \<Longrightarrow> i_lifecycle q \<noteq> L_Open" for q
    using pair by (auto simp: pair_analysis_def Let_def pair_members_def list_all_iff split: if_splits)
  show ?thesis
    using n m assms(7) closed by (auto simp: pairDecision_def split: option.splits if_splits) (metis option.inject)
qed

text \<open>A run is stuck; both its incidents are open, the one of \<^verbatim>\<open>RUN_STUCK\<close> since 10.\<close>

definition stuck_incident :: "string \<Rightarrow> lifecycle \<Rightarrow> int \<Rightarrow> incident" where
  "stuck_incident cls l t = closed_as l (transitioned t (open_record t ''w1'' 1 (add_fact (bare_fact cls)
     (fresh_compiled \<lparr>rin_cause = cls, rin_jobId = Some ''j1'', rin_occurrenceId = Some ''o1'', rin_jobRevision = None,
        rin_subjectKind = None, rin_stableSubjectId = None\<rparr> (''occurrence|'' @ cls @ ''|j1|o1'')))))"

definition stuck_state :: "ext \<Rightarrow> lifecycle \<Rightarrow> istate" where
  "stuck_state X l = \<lparr>st_migration = None,
     st_incidents = [stuck_incident ''RUN_STUCK'' l 10, stuck_incident ''RUN_STUCK_OUTCOME_UNKNOWN'' L_Open 20],
     st_outbox = [transitionIntent X L_Open (stuck_incident ''RUN_STUCK'' L_Open 10),
       transitionIntent X L_Open (stuck_incident ''RUN_STUCK_OUTCOME_UNKNOWN'' L_Open 20)]\<rparr>"

lemma stuck_fields [simp]:
  "i_root (stuck_incident cls l t) = ''occurrence|'' @ cls @ ''|j1|o1''" "i_lifecycle (stuck_incident cls l t) = l"
  "i_firstSeenAt (stuck_incident cls l t) = t" "i_incidentId (stuck_incident cls l t) = incident_id (i_root (stuck_incident cls l t)) 1"
  "i_episode (stuck_incident cls l t) = 1" "rin_jobId (ci_root (i_of (stuck_incident cls l t))) = Some ''j1''"
  "ci_facts (i_of (stuck_incident cls l t)) = [bare_fact cls]"
  by (simp_all add: stuck_incident_def transitioned_def open_record_def closed_as_def fresh_compiled_def)

lemma stuck_segments:
  "split_on (CHR ''|'') [] (''occurrence|RUN_STUCK|j1|o1'') = [''occurrence'', ''RUN_STUCK'', ''j1'', ''o1'']"
  "split_on (CHR ''|'') [] (''occurrence|RUN_STUCK_OUTCOME_UNKNOWN|j1|o1'') = [''occurrence'', ''RUN_STUCK_OUTCOME_UNKNOWN'', ''j1'', ''o1'']"
  by code_simp+

lemma stuck_roots:
  assumes "cls = ''RUN_STUCK'' \<or> cls = ''RUN_STUCK_OUTCOME_UNKNOWN''"
  shows "stuckPairKey (stuck_incident cls l t) = Some ''j1|o1''" and "rootClass (stuck_incident cls l t) = Some cls"
    and "parentCode X st (stuck_incident cls l t) = None"
  using assms
  by (auto simp: stuckPairKey_def rootKind_def rootClass_def rootSegments_def stuck_segments nth_opt_def rootJobId_def rootOccurrenceId_def
      or_else_def or_undefined_def parentCode_def runtimeParentCode_def occurrenceAnchor_def first_date_def bare_fact_def)

lemma stuck_no_parent: "parentSuppressionCodes X (stuck_state X l) = []"
  by (cases l) (simp_all add: parentSuppressionCodes_def stuck_state_def consider_parent_def stuck_roots)

theorem one_alert_per_stuck_run_witness:
  "\<exists>n m. st_outbox (stuck_state demo_ext L_Open) = [n, m] \<and> n \<in> set (fst (projectIncidentDelivery demo_ext shorter (stuck_state demo_ext L_Open) [n, m]))
    \<and> m \<notin> set (fst (projectIncidentDelivery demo_ext shorter (stuck_state demo_ext L_Open) [n, m]))"
proof -
  let ?p = "stuck_incident ''RUN_STUCK'' L_Open 10" and ?q = "stuck_incident ''RUN_STUCK_OUTCOME_UNKNOWN'' L_Open 20"
  let ?n = "transitionIntent demo_ext L_Open ?p" and ?m = "transitionIntent demo_ext L_Open ?q" and ?st = "stuck_state demo_ext L_Open"
  have pair: "pair_members ?st ''j1|o1'' = [?p, ?q]"
    by (simp add: pair_members_def stuck_state_def stuck_roots)
  have "\<not> stale_new ?st ?n"
    by (simp add: stale_new_def find_incident_def stuck_state_def)
  then have "intent_decision demo_ext ?st ?n = None"
    by (simp add: intent_decision_def stuck_no_parent stuck_roots pair_analysis_def pair pairDecision_def sort_by_def opens_before_def)
  then have n: "?n \<in> set (fst (projectIncidentDelivery demo_ext shorter ?st [?n, ?m]))"
    by (simp add: projectIncidentDelivery_def Let_def)
  have "n_incidentId ?n \<noteq> n_incidentId ?m"
    by simp
  then have "?m \<notin> set (fst (projectIncidentDelivery demo_ext shorter ?st [?n, ?m]))"
    using one_alert_per_stuck_run[OF n, of ?m "''j1|o1''" ?p] by (auto simp: stuck_roots stuck_state_def)
  with n show ?thesis
    by (intro exI[of _ ?n] exI[of _ ?m]) (simp add: stuck_state_def)
qed

text \<open>C20. The opening of a stuck run is left to the incident that was seen first. When that one has closed
  before its notification was delivered, nothing about the run is delivered any more while its other
  incident is still open.\<close>

theorem closed_primary_silences_pair:
  assumes "distinct (map i_root (st_incidents st))"
    and coherent: "\<And>n. n \<in> set (st_outbox st) \<Longrightarrow> n_incidentId n = incident_id (n_root n) (i_episode (n_incident n))"
    and first: "p \<in> set (st_incidents st)" "stuckPairKey p = Some key" "i_lifecycle p \<noteq> L_Open"
      "i_incidentId p = incident_id (i_root p) (i_episode p)"
      "\<And>r. r \<in> set (st_incidents st) \<Longrightarrow> stuckPairKey r = Some key \<Longrightarrow> r = p \<or> i_firstSeenAt p < i_firstSeenAt r"
    and other: "q \<in> set (st_incidents st)" "stuckPairKey q = Some key" "i_lifecycle q = L_Open"
    and n: "n \<in> set (st_outbox st)" "stuckPairKey (n_incident n) = Some key"
  shows "intent_decision X st n \<noteq> None"
proof
  assume none: "intent_decision X st n = None"
  let ?key = "\<lambda>r. (i_firstSeenAt r, i_root r)"
  let ?sorted = "sort_by opens_before ?key (pair_members st key)"
  obtain pair where pair: "pair_analysis st (parentSuppressionCodes X st) key = Some pair"
    using pair_of_member[OF first(1,2)] .
  have members: "p \<in> set (pair_members st key)" "q \<in> set (pair_members st key)"
    using first other by (simp_all add: pair_members_def)
  have "hd ?sorted = p"
  proof -
    have p: "p \<in> set ?sorted"
      using members(1) by simp
    then obtain x xs where s: "?sorted = x # xs"
      by (cases ?sorted) auto
    have "sorted_wrt (\<lambda>a b. opens_before (?key a) (?key b)) ?sorted"
      by (rule sorted_sort_by) (auto simp: opens_before_def)
    with s p have "x = p \<or> opens_before (?key x) (?key p)"
      by auto
    moreover have "x \<in> set (pair_members st key)"
      using s by (metis list.set_intros(1) set_sort_by)
    ultimately have "x = p"
      using first(5)[of x] by (auto simp: opens_before_def pair_members_def)
    then show ?thesis by (simp add: s)
  qed
  then have primary: "sp_openPrimary pair = i_incidentId p" and "\<not> sp_fullyClosed pair"
    using pair members other(3) by (auto simp: pair_analysis_def Let_def list_all_iff split: if_splits)
  then have kind: "n_kind n = L_Open" and id: "n_incidentId n = i_incidentId p"
    using decided_by_pair[OF none n(2) pair] by (auto simp: pairDecision_def split: option.splits if_splits)
  then have "n_root n = i_root p"
    using coherent[OF n(1)] first(4) by simp
  then have "find_incident st (n_root n) = Some p"
    using first(1) assms(1) by (auto simp: find_incident_def intro: find_key_distinct)
  then have "stale_new st n"
    using kind first(3) by (simp add: stale_new_def)
  then show False
    using none by (simp add: intent_decision_def)
qed

theorem closed_primary_silences_pair_witness:
  "\<exists>q \<in> set (st_incidents (stuck_state demo_ext L_Recovered)). i_lifecycle q = L_Open
    \<and> (\<forall>n \<in> set (st_outbox (stuck_state demo_ext L_Recovered)). intent_decision demo_ext (stuck_state demo_ext L_Recovered) n \<noteq> None)"
proof -
  let ?st = "stuck_state demo_ext L_Recovered"
  let ?p = "stuck_incident ''RUN_STUCK'' L_Recovered 10" and ?q = "stuck_incident ''RUN_STUCK_OUTCOME_UNKNOWN'' L_Open 20"
  have rows: "st_incidents ?st = [?p, ?q]"
    by (simp add: stuck_state_def)
  have distinct: "distinct (map i_root (st_incidents ?st))"
    by (simp add: rows)
  have coherent: "n_incidentId n = incident_id (n_root n) (i_episode (n_incident n))" if "n \<in> set (st_outbox ?st)" for n
    using that by (auto simp: stuck_state_def)
  have first: "r = ?p \<or> i_firstSeenAt ?p < i_firstSeenAt r" if "r \<in> set (st_incidents ?st)" for r
    using that by (auto simp: rows)
  have "intent_decision demo_ext ?st n \<noteq> None" if n: "n \<in> set (st_outbox ?st)" for n
  proof (rule closed_primary_silences_pair[OF distinct coherent, of ?p "''j1|o1''" ?q])
    show "stuckPairKey (n_incident n) = Some ''j1|o1''"
      using n by (auto simp: stuck_state_def stuck_roots)
  qed (use n first in \<open>auto simp: rows stuck_roots\<close>)
  then show ?thesis
    by (intro bexI[of _ ?q]) (simp_all add: rows)
qed

end
