(* ===== verification/Quiet.thy ===== *)
theory Quiet
  imports Watchdog
begin

section \<open>An unchanged finding is not reported twice\<close>

definition settled_root :: "string list \<Rightarrow> string \<Rightarrow> incident \<Rightarrow> bool" where
  "settled_root acks k r \<longleftrightarrow> (if i_lifecycle r = L_Open then k \<notin> set acks else is_occurrence_root k)"

definition quiet :: "string list \<Rightarrow> string list \<Rightarrow> (incident \<Rightarrow> bool) \<Rightarrow> istate \<Rightarrow> bool" where
  "quiet acks seen owns st \<longleftrightarrow> (\<forall>k \<in> set seen. \<exists>r. find_incident st k = Some r \<and> settled_root acks k r)
     \<and> (\<forall>k r. find_incident st k = Some r \<longrightarrow> k \<notin> set seen \<longrightarrow> i_lifecycle r = L_Open \<longrightarrow> \<not> owns r)"

lemma find_incident_root: "find_incident st k = Some r \<Longrightarrow> i_root r = k"
  by (auto simp: find_incident_def dest: find_Some_set)

lemma transitioned_settled [simp]: "settled_root acks k (transitioned now r) = settled_root acks k r"
  by (simp add: settled_root_def)

lemma seen_again_settled [simp]: "settled_root acks k (seen_again now c r) = settled_root acks k r"
  by (simp add: settled_root_def seen_again_def)

lemma seen_again_root [simp]: "i_root (seen_again now c r) = i_root r"
  by (simp add: seen_again_def)

lemma acknowledge_other: "k \<noteq> rt \<Longrightarrow> find_incident (fst (acknowledge X now acks rt acc)) k = find_incident (fst acc) k"
  by (auto simp: acknowledge_def dest: find_incident_root split: option.split)

lemma acknowledge_settles:
  assumes "find_incident (fst acc) rt = Some r" and "i_lifecycle r \<noteq> L_Open \<Longrightarrow> is_occurrence_root rt"
    and "rt \<in> set acks \<Longrightarrow> is_occurrence_root rt"
  shows "\<exists>r'. find_incident (fst (acknowledge X now acks rt acc)) rt = Some r' \<and> settled_root acks rt r'"
  using assms find_incident_root[OF assms(1)] by (auto simp: acknowledge_def settled_root_def)

lemma incident_step_other:
  assumes "k \<noteq> ci_identity c"
  shows "find_incident (fst (incident_step X now acks producer c acc)) k = find_incident (fst acc) k"
  using assms
  by (auto simp: incident_step_def acknowledge_other dest: find_incident_root split: option.split)

lemma opened_lifecycle: "i_lifecycle (transitioned now (open_record now producer e c)) = L_Open"
  by (simp add: transitioned_def open_record_def)

lemma incident_step_settles:
  assumes "ci_identity c \<in> set acks \<Longrightarrow> is_occurrence_root (ci_identity c)"
  shows "\<exists>r. find_incident (fst (incident_step X now acks producer c acc)) (ci_identity c) = Some r \<and> settled_root acks (ci_identity c) r"
proof (cases "find_incident (fst acc) (ci_identity c)")
  case None
  let ?opened = "emit X L_Open now (open_record now producer 1 c) acc"
  have "find_incident (fst ?opened) (ci_identity c) = Some (transitioned now (open_record now producer 1 c))"
    by simp
  from acknowledge_settles[OF this _ assms] opened_lifecycle[of now producer 1 c] show ?thesis
    using None by (simp add: incident_step_def)
next
  case (Some r)
  note root = find_incident_root[OF Some]
  show ?thesis
  proof (cases "i_lifecycle r = L_Open")
    case True
    have "find_incident (fst (put_incident (seen_again now c r) (fst acc), snd acc)) (ci_identity c) = Some (seen_again now c r)"
      using root by simp
    from acknowledge_settles[OF this _ assms] show ?thesis
      using Some True by (simp add: incident_step_def) (simp add: seen_again_def)
  next
    case False
    then show ?thesis
      using Some assms by (auto simp: incident_step_def settled_root_def)
  qed
qed

lemma incident_steps_settle:
  assumes "distinct (map ci_identity cs)" and "\<And>c. c \<in> set cs \<Longrightarrow> ci_identity c \<in> set acks \<Longrightarrow> is_occurrence_root (ci_identity c)"
    and "c \<in> set cs"
  shows "\<exists>r. find_incident (fst (fold (incident_step X now acks producer) cs acc)) (ci_identity c) = Some r \<and> settled_root acks (ci_identity c) r"
  using assms
proof (induction cs arbitrary: acc rule: rev_induct)
  case (snoc d cs)
  show ?case
  proof (cases "c = d")
    case True
    then show ?thesis
      using incident_step_settles snoc.prems(2)[of d] by simp
  next
    case False
    then have "c \<in> set cs" "ci_identity c \<noteq> ci_identity d"
      using snoc.prems(1,3) by (auto simp: image_iff)
    then show ?thesis
      using snoc by (simp add: incident_step_other)
  qed
qed simp

lemma recover_step_find:
  "find_incident (fst (recover_step X now seen owns r acc)) k
    = (if k = i_root r \<and> i_lifecycle r = L_Open \<and> k \<notin> set seen \<and> owns r then Some (transitioned now (closed_as L_Recovered r))
       else find_incident (fst acc) k)"
  by (auto simp: recover_step_def)

lemma recover_steps_find:
  assumes "distinct (map i_root rs)"
  shows "find_incident (fst (fold (recover_step X now seen owns) rs acc)) k
    = (case find (\<lambda>r. i_root r = k) rs of
        Some r \<Rightarrow> if i_lifecycle r = L_Open \<and> k \<notin> set seen \<and> owns r then Some (transitioned now (closed_as L_Recovered r))
          else find_incident (fst acc) k
      | None \<Rightarrow> find_incident (fst acc) k)"
  using assms
proof (induction rs arbitrary: acc)
  case (Cons r rs)
  have none: "find (\<lambda>r'. i_root r' = i_root r) rs = None"
    using Cons.prems by (auto simp: find_None_set image_iff)
  have "distinct (map i_root rs)"
    using Cons.prems by simp
  note step = Cons.IH[OF this, of "recover_step X now seen owns r acc"]
  show ?case
  proof (cases "k = i_root r")
    case True
    then show ?thesis
      using step none by (simp add: recover_step_find)
  next
    case False
    then show ?thesis
      using step by (simp add: recover_step_find split: option.split)
  qed
qed simp

lemma find_incident_member:
  "distinct (map i_root (st_incidents st)) \<Longrightarrow> find (\<lambda>r. i_root r = k) (st_incidents st) = find_incident st k"
  by (simp add: find_incident_def)

lemma quiet_after:
  assumes "distinct (map ci_identity cs)" and "\<And>c. c \<in> set cs \<Longrightarrow> ci_identity c \<in> set acks \<Longrightarrow> is_occurrence_root (ci_identity c)"
    and "distinct (map i_root (st_incidents (fst (fold (incident_step X now acks producer) cs (st, [])))))"
  shows "quiet acks (map ci_identity cs) owns (fst (updateIncidentState X now acks owns producer st cs))"
proof -
  let ?acc = "fold (incident_step X now acks producer) cs (st, [])"
  let ?fin = "fst (updateIncidentState X now acks owns producer st cs)"
  have after: "find_incident ?fin k = (case find_incident (fst ?acc) k of
        Some r \<Rightarrow> if i_lifecycle r = L_Open \<and> k \<notin> set (map ci_identity cs) \<and> owns r then Some (transitioned now (closed_as L_Recovered r))
          else Some r
      | None \<Rightarrow> None)" for k
    using recover_steps_find[OF assms(3), of X now "map ci_identity cs" owns ?acc k]
    by (simp add: updateIncidentState_def Let_def find_incident_def split: option.split)
  have "\<exists>r. find_incident ?fin k = Some r \<and> settled_root acks k r" if k: "k \<in> set (map ci_identity cs)" for k
  proof -
    obtain c where c: "c \<in> set cs" "k = ci_identity c"
      using k by auto
    have "\<exists>r. find_incident (fst ?acc) (ci_identity c) = Some r \<and> settled_root acks (ci_identity c) r"
      using assms(2) by (intro incident_steps_settle[OF assms(1) _ c(1)])
    then show ?thesis
      using k c(2) by (auto simp: after)
  qed
  moreover have "\<not> owns r" if "find_incident ?fin k = Some r" "k \<notin> set (map ci_identity cs)" "i_lifecycle r = L_Open" for k r
    using that by (auto simp: after transitioned_def closed_as_def split: option.splits if_splits)
  ultimately show ?thesis
    by (simp add: quiet_def)
qed

subsection \<open>The next run\<close>

definition quiet_step :: "string list \<Rightarrow> string list \<Rightarrow> (incident \<Rightarrow> bool) \<Rightarrow> intent list \<Rightarrow> istate \<times> intent list \<Rightarrow> bool" where
  "quiet_step acks seen owns outbox acc \<longleftrightarrow> quiet acks seen owns (fst acc) \<and> snd acc = [] \<and> st_outbox (fst acc) = outbox"

lemma quiet_incident_step:
  assumes "quiet_step acks seen owns outbox acc" and "ci_identity c \<in> set seen"
  shows "quiet_step acks seen owns outbox (incident_step X now acks producer c acc)"
proof -
  obtain r where r: "find_incident (fst acc) (ci_identity c) = Some r" "settled_root acks (ci_identity c) r"
    using assms by (auto simp: quiet_step_def quiet_def)
  note root = find_incident_root[OF r(1)]
  show ?thesis
  proof (cases "i_lifecycle r = L_Open")
    case True
    then have "incident_step X now acks producer c acc = (put_incident (seen_again now c r) (fst acc), snd acc)"
      using r root by (simp add: incident_step_def acknowledge_def settled_root_def)
    moreover have "quiet acks seen owns (put_incident (seen_again now c r) (fst acc))"
      using assms r root by (auto simp: quiet_step_def quiet_def)
    ultimately show ?thesis
      using assms(1) by (simp add: quiet_step_def)
  next
    case False
    then show ?thesis
      using r assms(1) by (simp add: incident_step_def settled_root_def)
  qed
qed

lemma quiet_recover_step:
  assumes "quiet acks seen owns (fst acc0)" and "distinct (map i_root (st_incidents (fst acc0)))" and "r \<in> set (st_incidents (fst acc0))"
  shows "recover_step X now seen owns r acc = acc"
proof -
  have "find_incident (fst acc0) (i_root r) = Some r"
    using assms(2,3) by (auto simp: find_incident_def intro: find_key_distinct)
  then show ?thesis
    using assms(1) by (auto simp: recover_step_def quiet_def)
qed

subsection \<open>Two runs\<close>

lemma recover_steps_nothing:
  assumes "quiet acks seen owns st" and "distinct (map i_root (st_incidents st))" and "set rs \<subseteq> set (st_incidents st)"
  shows "fold (recover_step X now seen owns) rs acc = acc"
  using assms(3)
proof (induction rs)
  case (Cons r rs)
  then show ?case
    using quiet_recover_step[of acks seen owns "(st, [])"] assms(1,2) by simp
qed simp

lemma quiet_run:
  assumes "quiet acks (map ci_identity cs) owns st"
    and "distinct (map i_root (st_incidents (fst (fold (incident_step X now acks producer) cs (st, [])))))"
  shows "snd (updateIncidentState X now acks owns producer st cs) = []
    \<and> st_outbox (fst (updateIncidentState X now acks owns producer st cs)) = st_outbox st"
proof -
  let ?acc = "fold (incident_step X now acks producer) cs (st, [])"
  have "quiet_step acks (map ci_identity cs) owns (st_outbox st) (fold (incident_step X now acks producer) ds (st, []))" if "set ds \<subseteq> set cs" for ds
    using that
  proof (induction ds rule: rev_induct)
    case Nil
    then show ?case using assms(1) by (simp add: quiet_step_def)
  next
    case (snoc d ds)
    then show ?case by (simp add: quiet_incident_step)
  qed
  from this[of cs] have q: "quiet_step acks (map ci_identity cs) owns (st_outbox st) ?acc"
    by simp
  then have "quiet acks (map ci_identity cs) owns (fst ?acc)"
    by (simp add: quiet_step_def)
  then have "updateIncidentState X now acks owns producer st cs = ?acc"
    using recover_steps_nothing[OF _ assms(2) subset_refl] by (simp add: updateIncidentState_def Let_def)
  then show ?thesis
    using q by (simp add: quiet_step_def)
qed

lemma distinct_emit: "distinct (map i_root (st_incidents (fst acc))) \<Longrightarrow> distinct (map i_root (st_incidents (fst (emit X kind now r acc))))"
  by (simp add: emit_incidents put_row_distinct)

lemma distinct_put: "distinct (map i_root (st_incidents st)) \<Longrightarrow> distinct (map i_root (st_incidents (put_incident r st)))"
  by (simp add: put_incident_def put_row_distinct)

lemma distinct_acknowledge:
  "distinct (map i_root (st_incidents (fst acc))) \<Longrightarrow> distinct (map i_root (st_incidents (fst (acknowledge X now acks rt acc))))"
  by (auto simp: acknowledge_def distinct_emit split: option.split)

lemma distinct_step:
  "distinct (map i_root (st_incidents (fst acc))) \<Longrightarrow> distinct (map i_root (st_incidents (fst (incident_step X now acks producer c acc))))"
  by (auto simp: incident_step_def distinct_emit distinct_acknowledge distinct_put split: option.split)

lemma distinct_fold:
  assumes "\<And>x acc. distinct (map i_root (st_incidents (fst acc))) \<Longrightarrow> distinct (map i_root (st_incidents (fst (f x acc))))"
    and "distinct (map i_root (st_incidents (fst acc)))"
  shows "distinct (map i_root (st_incidents (fst (fold f xs acc))))"
  using assms(2) by (induction xs arbitrary: acc) (simp_all add: assms(1))

lemma distinct_update:
  assumes "distinct (map i_root (st_incidents st))"
  shows "distinct (map i_root (st_incidents (fst (fold (incident_step X now acks producer) cs (st, [])))))"
    and "distinct (map i_root (st_incidents (fst (updateIncidentState X now acks owns producer st cs))))"
proof -
  show first: "distinct (map i_root (st_incidents (fst (fold (incident_step X now acks producer) cs (st, [])))))"
    using assms by (intro distinct_fold distinct_step) simp_all
  show "distinct (map i_root (st_incidents (fst (updateIncidentState X now acks owns producer st cs))))"
    unfolding updateIncidentState_def Let_def
    by (rule distinct_fold[OF _ first]) (simp add: recover_step_def distinct_emit)
qed

text \<open>C17. A run that sees the same findings as the run before it, at whatever time, opens, acknowledges and
  closes nothing and puts nothing into the outbox, provided that operator dispositions are attached to
  findings about one occurrence only, as the detectors attach them.\<close>

theorem unchanged_findings_are_quiet:
  assumes "distinct (map i_root (st_incidents st))"
    and "updateAlertState X le now owns producer st findings = Inr (st1, notes1)"
    and "updateAlertState X le later owns producer st1 findings = Inr (st2, notes2)"
    and "\<And>f k. f \<in> set findings \<Longrightarrow> operator_reconciled f \<Longrightarrow> incidentRootIdentity (rootInputFor f) = Inr k \<Longrightarrow> is_occurrence_root k"
  shows "notes2 = [] \<and> st_outbox st2 = st_outbox st1"
proof -
  obtain cs where cs: "compileIncidents le findings = Inr cs"
    and one: "updateIncidentState X now (acknowledged_roots cs) owns producer st cs = (st1, notes1)"
    using assms(2) by (auto simp: updateAlertState_def rbind_eq_Inr)
  have two: "updateIncidentState X later (acknowledged_roots cs) owns producer st1 cs = (st2, notes2)"
    using assms(3) cs by (simp add: updateAlertState_def)
  have inv: "compiled_inv findings cs"
    by (rule compileIncidents_inv[OF cs])
  have occ: "is_occurrence_root (ci_identity c)" if c: "c \<in> set cs" "ci_identity c \<in> set (acknowledged_roots cs)" for c
  proof -
    obtain d f where d: "d \<in> set cs" "ci_identity d = ci_identity c" "f \<in> set (ci_facts d)" "operator_reconciled f"
      using c(2) by (auto simp: acknowledged_roots_def list_ex_iff)
    then have "f \<in> set findings" "root_of f = Inr (ci_identity d)"
      using inv by (auto simp: compiled_inv_def compiled_ok_def)
    then show ?thesis
      using assms(4)[of f "ci_identity d"] d(2,4) by (simp add: root_of_def)
  qed
  have "quiet (acknowledged_roots cs) (map ci_identity cs) owns st1"
    using quiet_after[of cs "acknowledged_roots cs" X now producer st owns] occ inv distinct_update(1)[OF assms(1)] one
    by (simp add: compiled_inv_def)
  moreover have "distinct (map i_root (st_incidents st1))"
    using distinct_update(2)[OF assms(1)] one by (metis fst_conv)
  ultimately show ?thesis
    using quiet_run[OF _ distinct_update(1)] two by (metis fst_conv snd_conv)
qed

theorem unchanged_findings_are_quiet_witness:
  "\<exists>st2. updateAlertState demo_ext shorter 200 (ownsIncident ''w1'') ''w1'' (fst (demo_transition demo_ext)) [demo_alert] = Inr (st2, [])
    \<and> st_outbox st2 = [demo_note demo_ext]"
proof -
  have empty: "distinct (map i_root (st_incidents empty_istate))"
    by (simp add: empty_istate_def)
  have one: "updateAlertState demo_ext shorter 100 (ownsIncident ''w1'') ''w1'' empty_istate [demo_alert] = Inr (fst (demo_transition demo_ext), snd (demo_transition demo_ext))"
    by (simp add: demo_first_run)
  obtain st2 notes2 where two: "updateAlertState demo_ext shorter 200 (ownsIncident ''w1'') ''w1'' (fst (demo_transition demo_ext)) [demo_alert] = Inr (st2, notes2)"
    by (cases "updateAlertState demo_ext shorter 200 (ownsIncident ''w1'') ''w1'' (fst (demo_transition demo_ext)) [demo_alert]")
      (auto simp: updateAlertState_def demo_compile)
  have "\<not> operator_reconciled f" if "f \<in> set [demo_alert]" for f
    using that by (simp add: operator_reconciled_def demo_alert_def)
  then have "notes2 = [] \<and> st_outbox st2 = st_outbox (fst (demo_transition demo_ext))"
    using unchanged_findings_are_quiet[OF empty one two] by blast
  then show ?thesis
    using two demo_notes(2)[of demo_ext] by auto
qed

end
