(* ===== verification/Keys.thy ===== *)
theory Keys
  imports NotifyRuns
begin

section \<open>The idempotency key of the provider\<close>

lemma base64_chars: "distinct (map base64_char [0..<64])"
  by code_simp

lemma base64_char_inj: "x < 64 \<Longrightarrow> y < 64 \<Longrightarrow> base64_char x = base64_char y \<longleftrightarrow> x = y"
  using base64_chars by (auto simp: distinct_map inj_on_def)

lemma digits_unique:
  assumes "y < k" and "y' < (k :: nat)" and "x * k + y = x' * k + y'"
  shows "x = x' \<and> y = y'"
proof -
  have "x = (x * k + y) div k" "x' = (x' * k + y') div k"
    using assms(1,2) by simp_all
  with assms(3) show ?thesis by simp
qed

lemma sixbits:
  assumes "a < (256 :: nat)"
  shows "a div 4 < 64" and "(a mod 4) * 16 < 64" and "(a mod 16) * 4 < 64" and "a mod 64 < 64"
    and "(b mod 4) * 16 + a div 16 < 64" and "(b mod 16) * 4 + a div 64 < 64"
proof -
  have "a mod 4 < 4" "a mod 16 < 16" "a div 16 < 16" "a div 64 < 4" "b mod 4 < 4" "b mod 16 < 16"
    using assms by (simp_all add: less_mult_imp_div_less)
  then show "a div 4 < 64" and "(a mod 4) * 16 < 64" and "(a mod 16) * 4 < 64" and "a mod 64 < 64"
    and "(b mod 4) * 16 + a div 16 < 64" and "(b mod 16) * 4 + a div 64 < 64"
    using assms by simp_all
qed

lemma from_digits: "a div k = a' div k \<Longrightarrow> a mod k = a' mod k \<Longrightarrow> a = (a' :: nat)"
  by (metis div_mult_mod_eq)

lemma bytes_from_sixbits:
  assumes "b < 256" "c < 256" "b' < 256" "c' < (256 :: nat)"
    and "a div 4 = a' div 4" and "(a mod 4) * 16 + b div 16 = (a' mod 4) * 16 + b' div 16"
  shows "a = a'" and "b div 16 = b' div 16"
    and "(b mod 16) * 4 + c div 64 = (b' mod 16) * 4 + c' div 64 \<Longrightarrow> b = b' \<and> c div 64 = c' div 64"
proof -
  have d: "b div 16 < 16" "b' div 16 < 16" "c div 64 < 4" "c' div 64 < 4"
    using assms(1-4) by (simp_all add: less_mult_imp_div_less)
  have first: "a mod 4 = a' mod 4 \<and> b div 16 = b' div 16"
    by (rule digits_unique[OF d(1,2) assms(6)])
  then show "a = a'" and "b div 16 = b' div 16"
    using from_digits[OF assms(5)] by blast+
  assume "(b mod 16) * 4 + c div 64 = (b' mod 16) * 4 + c' div 64"
  then have "b mod 16 = b' mod 16 \<and> c div 64 = c' div 64"
    by (rule digits_unique[OF d(3,4)])
  then show "b = b' \<and> c div 64 = c' div 64"
    using first from_digits by blast
qed

lemma base64url_inj:
  assumes "list_all (\<lambda>x. x < 256) xs" and "list_all (\<lambda>x. x < 256) ys" and "length xs = length ys" and "base64url xs = base64url ys"
  shows "xs = ys"
  using assms
proof (induction xs arbitrary: ys rule: base64url.induct)
  case (2 a)
  then obtain a' where "ys = [a']" by (cases ys) auto
  with 2 show ?case
    using bytes_from_sixbits(1)[of 0 0 0 0 a a'] by (simp add: base64_char_inj sixbits)
next
  case (3 a b)
  then obtain a' b' where "ys = [a', b']" by (cases ys; cases "tl ys") auto
  with 3 show ?case
    using bytes_from_sixbits[of b 0 b' 0 a a'] by (simp add: base64_char_inj sixbits)
next
  case (4 a b c rest)
  then obtain a' b' c' rest' where ys: "ys = a' # b' # c' # rest'" by (cases ys; cases "tl ys"; cases "tl (tl ys)") auto
  have "a = a' \<and> b = b' \<and> c div 64 = c' div 64 \<and> c mod 64 = c' mod 64"
    using 4 ys bytes_from_sixbits[of b c b' c' a a'] by (simp add: base64_char_inj sixbits)
  moreover have "rest = rest'"
    using 4 ys by simp
  ultimately show ?case
    using ys from_digits by blast
qed simp

lemma hex_value_less: "is_lower_hex c \<Longrightarrow> hex_value c < 16"
  by (auto simp: is_lower_hex_def is_digit_def hex_value_def Let_def)

lemma hex_digit_value:
  assumes "48 \<le> x \<and> x \<le> 57 \<or> 97 \<le> x \<and> x \<le> 102" and "48 \<le> y \<and> y \<le> 57 \<or> 97 \<le> y \<and> y \<le> (102 :: nat)"
    and "(if x \<le> 57 then x - 48 else x - 87) = (if y \<le> 57 then y - 48 else y - 87)"
  shows "x = y"
  using assms by (auto split: if_splits)

lemma hex_value_inj: "is_lower_hex c \<Longrightarrow> is_lower_hex d \<Longrightarrow> hex_value c = hex_value d \<Longrightarrow> c = d"
  using hex_digit_value[of "of_char c" "of_char d"] unfolding is_lower_hex_def is_digit_def hex_value_def Let_def by simp

lemma hex_bytes_small: "list_all is_lower_hex s \<Longrightarrow> list_all (\<lambda>x. x < 256) (hex_bytes s)"
proof (induction s rule: hex_bytes.induct)
  case (1 a b rest)
  then have "hex_value a < 16" "hex_value b < 16" "list_all (\<lambda>x. x < 256) (hex_bytes rest)"
    by (simp_all add: hex_value_less)
  then show ?case by simp
qed simp_all

lemma length_hex_bytes: "length (hex_bytes s) = length s div 2"
  by (induction s rule: hex_bytes.induct) simp_all

lemma hex_bytes_inj:
  assumes "list_all is_lower_hex s" and "list_all is_lower_hex t" and "length s = length t" and "even (length s)" and "hex_bytes s = hex_bytes t"
  shows "s = t"
  using assms
proof (induction s arbitrary: t rule: hex_bytes.induct)
  case (1 a b rest)
  then obtain a' b' rest' where t: "t = a' # b' # rest'" by (cases t; cases "tl t") auto
  have v: "hex_value a < 16" "hex_value b < 16" "hex_value a' < 16" "hex_value b' < 16"
    using 1 t hex_value_less by auto
  have "hex_value a * 16 + hex_value b = hex_value a' * 16 + hex_value b'"
    using 1 t by simp
  then have "hex_value a = hex_value a' \<and> hex_value b = hex_value b'"
    using digits_unique[OF v(2,4), of "hex_value a" "hex_value a'"] by (simp add: mult.commute)
  then show ?case
    using 1 t hex_value_inj by auto
next
  case "2_1"
  then show ?case by simp
next
  case "2_2"
  then show ?case by (cases t) auto
qed

lemma length_base64url: "length (base64url bs) = (length bs * 4 + 2) div 3"
proof (induction bs rule: base64url.induct)
  case (4 a b c rest)
  have "(length (a # b # c # rest) * 4 + 2) div 3 = 4 + (length rest * 4 + 2) div 3"
    by (simp add: algebra_simps)
  with 4 show ?case by simp
qed simp_all

text \<open>Two notifications never share the key that keeps the message provider from sending twice: the
  provider key of a notification determines the notification key, although it is shortened to 43
  characters; every key of a notification has one.\<close>

theorem provider_key_injective:
  "\<exists>k. providerIdempotencyKey (notificationKey X p) = Inr k \<and> length k = 43
    \<and> (\<forall>key. providerIdempotencyKey key = Inr k \<longleftrightarrow> key = notificationKey X p)"
proof -
  have sha: "is_sha256 (notificationKey X p)"
    by (simp add: notificationKey_def)
  have "providerIdempotencyKey key = Inr (base64url (hex_bytes (notificationKey X p))) \<longleftrightarrow> key = notificationKey X p" for key
  proof
    assume eq: "providerIdempotencyKey key = Inr (base64url (hex_bytes (notificationKey X p)))"
    then have key: "is_sha256 key" "base64url (hex_bytes key) = base64url (hex_bytes (notificationKey X p))"
      by (simp_all add: providerIdempotencyKey_def split: if_splits)
    then have "hex_bytes key = hex_bytes (notificationKey X p)"
      using sha by (intro base64url_inj) (simp_all add: is_sha256_def hex_bytes_small length_hex_bytes)
    then show "key = notificationKey X p"
      using key(1) sha by (intro hex_bytes_inj) (simp_all add: is_sha256_def)
  qed (simp add: providerIdempotencyKey_def sha)
  then show ?thesis
    using sha by (intro exI[of _ "base64url (hex_bytes (notificationKey X p))"])
      (simp add: providerIdempotencyKey_def length_base64url hex_bytes_small length_hex_bytes is_sha256_def)
qed

end
