(* ===== verification/Health.thy ===== *)
theory Health
  imports Store Notify
begin

section \<open>The health projection of the scheduler\<close>

text \<open>
  \<^verbatim>\<open>packages/scheduler/src/watchdog/health.js\<close> and
  \<^verbatim>\<open>packages/production-runtime/src/scheduler/health-runtime.js\<close>: five files are read until none changed
  during the reading, the document of the scheduler is validated again, and every enabled job gets a row
  with its class, its blocker and its findings. The document is typed here, so that the checks of the
  kind of a field have no counterpart; \<^verbatim>\<open>runPolicy\<close>, \<^verbatim>\<open>lastExpectedAtMs\<close> and \<^verbatim>\<open>lastReconciliationAt\<close>, which the
  code reads and no stored job or record has, are absent. The provenance that is only copied into the
  answer has no counterpart.
\<close>

subsection \<open>Generations\<close>

record generation =
  g_source :: string
  g_captured :: "bool option"
  g_trusted :: bool
  g_start :: "string option"
  g_end :: "string option"

definition generationsComplete :: "generation list \<Rightarrow> bool" where
  "generationsComplete gs \<longleftrightarrow> gs \<noteq> [] \<and> list_all (\<lambda>g. g_trusted g \<and> g_captured g \<noteq> Some False
     \<and> g_start g \<noteq> None \<and> g_start g = g_end g) gs"

text \<open>
  One source in one attempt: the token (the hash of the file) before and after the capture, which is a
  text for the error that was thrown.
\<close>

record 'v source_read =
  sr_name :: string
  sr_start :: "string option"
  sr_value :: "string + 'v"
  sr_end :: "string option"

definition captured_ok :: "'v source_read \<Rightarrow> bool" where
  "captured_ok r \<longleftrightarrow> (case sr_value r of Inr _ \<Rightarrow> True | Inl _ \<Rightarrow> False)"

definition generation_of :: "'v source_read \<Rightarrow> generation" where
  "generation_of r = \<lparr>g_source = sr_name r, g_captured = Some (captured_ok r),
     g_trusted = (captured_ok r \<and> sr_start r \<noteq> None \<and> sr_end r \<noteq> None), g_start = sr_start r, g_end = sr_end r\<rparr>"

definition captured_values :: "'v source_read list \<Rightarrow> (string \<times> 'v) list" where
  "captured_values rs = List.map_filter (\<lambda>r. case sr_value r of Inr v \<Rightarrow> Some (sr_name r, v) | Inl _ \<Rightarrow> None) rs"

definition capture_error :: "'v source_read list \<Rightarrow> string" where
  "capture_error rs = (if list_all captured_ok rs then ''source generations drifted or were unavailable''
     else ''health source unavailable: '' @ join_with ''; ''
       (List.map_filter (\<lambda>r. case sr_value r of Inl e \<Rightarrow> Some (sr_name r @ '': '' @ take 160 e) | Inr _ \<Rightarrow> None) rs))"

record 'v acquired =
  aq_complete :: bool
  aq_attempts :: nat
  aq_generations :: "generation list"
  aq_sources :: "(string \<times> 'v) list"
  aq_censusError :: "string option"

text \<open>The loop from attempt \<open>k\<close> on, with \<open>n\<close> attempts left; \<open>reads k\<close> is what attempt \<open>k\<close> sees.\<close>

fun acquire_loop :: "(nat \<Rightarrow> 'v source_read list) \<Rightarrow> nat \<Rightarrow> nat \<Rightarrow> 'v source_read list \<Rightarrow> 'v acquired" where
  "acquire_loop reads k 0 seen = \<lparr>aq_complete = False, aq_attempts = k - 1, aq_generations = map generation_of seen,
     aq_sources = captured_values seen, aq_censusError = Some (capture_error seen)\<rparr>"
| "acquire_loop reads k (Suc n) seen =
     (let gs = map generation_of (reads k)
      in if generationsComplete gs
         then \<lparr>aq_complete = True, aq_attempts = k, aq_generations = gs, aq_sources = captured_values (reads k), aq_censusError = None\<rparr>
         else acquire_loop reads (Suc k) n (reads k))"

definition acquireConsistentHealthSnapshot :: "(nat \<Rightarrow> 'v source_read list) \<Rightarrow> nat \<Rightarrow> 'v acquired" where
  "acquireConsistentHealthSnapshot reads maxAttempts = acquire_loop reads 1 maxAttempts []"

subsection \<open>The document the projection trusts\<close>

definition fence_val :: "fence \<Rightarrow> jval" where
  "fence_val f = JObj [(''occurrenceId'', JStr (f_occurrenceId f)), (''runId'', JStr (f_runId f)),
     (''activatedAtMs'', JInt (f_activatedAtMs f)), (''reason'', JStr (f_reason f))]"

definition fences_val :: "fences \<Rightarrow> jval" where
  "fences_val fs = JObj (map (\<lambda>(k, f). (k, fence_val f)) fs)"

definition fenceProjectionValid :: "ext \<Rightarrow> fences \<Rightarrow> occurrence list \<Rightarrow> bool" where
  "fenceProjectionValid X fs occs \<longleftrightarrow> canonicalJSON X (fences_val fs) = canonicalJSON X (fences_val (rebuildFences occs))"

definition authority_error :: "string \<Rightarrow> js_error" where
  "authority_error what = Type_Error (''canonical health authority '' @ what)"

definition pinned_opts :: "job \<Rightarrow> norm_opts" where
  "pinned_opts j = \<lparr>no_nowMs = j_updatedAtMs j, no_id = Some (j_id j), no_createdAtMs = Some (j_createdAtMs j), no_uuid = []\<rparr>"

definition check_job :: "ext \<Rightarrow> job \<Rightarrow> unit res" where
  "check_job X j =
     rbind (ensure (j_id j \<noteq> [] \<and> is_safe_int (j_scheduleRevision j) \<and> j_revisionActivatedAtMs j \<noteq> None)
       (authority_error ''has malformed Job record'')) (\<lambda>_.
     rbind (normalize_job X (pinned_opts j) (job_val j)) (\<lambda>_. Inr ()))"

fun check_jobs :: "ext \<Rightarrow> string list \<Rightarrow> string list \<Rightarrow> job list \<Rightarrow> unit res" where
  "check_jobs X ids keys [] = Inr ()"
| "check_jobs X ids keys (j # js) =
     rbind (check_job X j) (\<lambda>_.
     rbind (ensure (j_id j \<notin> set ids) (authority_error ''has duplicate jobId'')) (\<lambda>_.
     case j_logicalKey j of
       None \<Rightarrow> check_jobs X (j_id j # ids) keys js
     | Some k \<Rightarrow> rbind (ensure (k \<notin> set keys) (authority_error ''has duplicate logicalKey'')) (\<lambda>_.
         check_jobs X (j_id j # ids) (k # keys) js)))"

fun check_occurrences :: "string list \<Rightarrow> occurrence list \<Rightarrow> unit res" where
  "check_occurrences ids [] = Inr ()"
| "check_occurrences ids (r # rs) =
     rbind (validateOccurrenceRecord r) (\<lambda>_.
     rbind (ensure (o_occurrenceId r \<notin> set ids) (authority_error ''has duplicate occurrenceId'')) (\<lambda>_.
     check_occurrences (o_occurrenceId r # ids) rs))"

definition validateCanonicalHealthAuthority :: "ext \<Rightarrow> sdoc \<Rightarrow> unit res" where
  "validateCanonicalHealthAuthority X d =
     rbind (check_jobs X [] [] (s_jobs d)) (\<lambda>_.
     rbind (check_occurrences [] (s_occurrences d)) (\<lambda>_.
     ensure (fenceProjectionValid X (s_fences d) (s_occurrences d)) (authority_error ''fence projection mismatch'')))"

subsection \<open>The findings about one job\<close>

definition isoTime :: "ext \<Rightarrow> int \<Rightarrow> string res" where
  "isoTime X ms = (case to_iso X ms of Some t \<Rightarrow> Inr t | None \<Rightarrow> Inl (Plain_Error ''Invalid time value''))"

definition unsettledUnknown :: "occurrence \<Rightarrow> bool" where
  "unsettledUnknown r \<longleftrightarrow> o_state r = Outcome_Unknown \<and> o_terminationSettlement r = None"

definition hasNativeAtCatchup :: "ext \<Rightarrow> job \<Rightarrow> occurrence list \<Rightarrow> int \<Rightarrow> bool" where
  "hasNativeAtCatchup X j records nowMs \<longleftrightarrow> is_at (j_schedule j) \<and> records = []
     \<and> nc_due (naturalCandidate X j records nowMs DEFAULT_AT_CATCHUP_GRACE_MS)"

definition scheduleReady :: "ext \<Rightarrow> job \<Rightarrow> occurrence list \<Rightarrow> int \<Rightarrow> bool" where
  "scheduleReady X j records nowMs \<longleftrightarrow> hasNativeAtCatchup X j records nowMs
     \<or> computeNextRunAtMs X (j_schedule j) nowMs (j_id j) (Some (j_createdAtMs j)) \<noteq> None"

definition nextRunProbe :: "ext \<Rightarrow> job \<Rightarrow> occurrence list \<Rightarrow> int \<Rightarrow> string option res" where
  "nextRunProbe X j records nowMs =
     (if hasNonTerminalOccurrence records (j_id j) then Inr None
      else rbind (returns (computeNextRunAtMsV2 X j records nowMs)) (\<lambda>next'.
        Inr (if next' = None \<and> \<not> hasNativeAtCatchup X j records nowMs then Some ''no_remaining_run''
             else if st_nextRunAtMs (j_state j) = None then Some ''next_run_projection_missing''
             else None)))"

definition job_fact :: "string \<Rightarrow> job \<Rightarrow> fact" where
  "job_fact cls j = (bare_fact cls)\<lparr>ft_jobId := Some (j_id j), ft_logicalKey := j_logicalKey j,
     ft_agentId := Some (j_agentId j), ft_jobRevision := Some (j_scheduleRevision j)\<rparr>"

definition run_fact :: "string \<Rightarrow> job \<Rightarrow> occurrence \<Rightarrow> fact" where
  "run_fact cls j r = (bare_fact cls)\<lparr>ft_jobId := Some (j_id j), ft_runId := Some (o_runId r),
     ft_occurrenceId := Some (o_occurrenceId r)\<rparr>"

definition disposition_fact :: "occurrence \<Rightarrow> fact_disposition option" where
  "disposition_fact r = (case o_lateSettlement r of
     Some s \<Rightarrow> if ls_basis s = ''operator-reconcile''
       then Some \<lparr>dp_basis = ''operator-reconcile'', dp_resolvedTo = ls_resolvedTo s, dp_resolvedAt = ls_resolvedAt s\<rparr> else None
   | None \<Rightarrow> None)"

definition failed_facts :: "ext \<Rightarrow> job \<Rightarrow> occurrence \<Rightarrow> fact list res" where
  "failed_facts X j r = (case o_endedAt r of
     Some e \<Rightarrow> if o_executionOutcome r = Some Failed
       then rbind (isoTime X e) (\<lambda>t. Inr [(run_fact ''RUN_FAILED'' j r)\<lparr>ft_endedAt := Some t, ft_disposition := disposition_fact r\<rparr>])
       else Inr []
   | None \<Rightarrow> Inr [])"

definition stuck_facts :: "ext \<Rightarrow> int \<Rightarrow> job \<Rightarrow> occurrence \<Rightarrow> fact list res" where
  "stuck_facts X nowMs j r = (case o_startedAt r of
     Some s \<Rightarrow> if o_endedAt r = None \<and> nowMs > o_executionDeadlineAtMs r
       then rbind (isoTime X s) (\<lambda>t. Inr [(run_fact ''RUN_STUCK'' j r)\<lparr>ft_startedAt := Some t\<rparr>]) else Inr []
   | None \<Rightarrow> Inr [])"

definition record_facts :: "ext \<Rightarrow> int \<Rightarrow> job \<Rightarrow> occurrence \<Rightarrow> fact list res" where
  "record_facts X nowMs j r =
     rbind (failed_facts X j r) (\<lambda>a. rbind (stuck_facts X nowMs j r) (\<lambda>b.
     Inr (a @ b @ (if unsettledUnknown r then [run_fact ''ADMISSION_BLOCKED_UNKNOWN'' j r] else []))))"

definition health_reference :: "job \<Rightarrow> occurrence list \<Rightarrow> int" where
  "health_reference j occs = (case latestTerminalOccurrence occs (j_id j) of
     Some r \<Rightarrow> max ((case o_endedAt r of Some e \<Rightarrow> e | None \<Rightarrow> o_admittedAt r) + MIN_REFIRE_GAP_MS) (activationBoundary j)
   | None \<Rightarrow> activationBoundary j)"

definition expected_run :: "ext \<Rightarrow> job \<Rightarrow> occurrence list \<Rightarrow> int option" where
  "expected_run X j occs = (case st_nextRunAtMs (j_state j) of
     Some t \<Rightarrow> Some t
   | None \<Rightarrow> computeNextRunAtMs X (j_schedule j) (health_reference j occs) (j_id j) (Some (j_createdAtMs j)))"

definition HEALTH_GRACE_MS :: int where
  "HEALTH_GRACE_MS = 30 * 60 * 1000"

definition missed_facts :: "ext \<Rightarrow> int \<Rightarrow> job \<Rightarrow> occurrence list \<Rightarrow> occurrence list \<Rightarrow> fact list res" where
  "missed_facts X nowMs j unresolved occs = (case expected_run X j occs of
     Some t \<Rightarrow> if nowMs - t > HEALTH_GRACE_MS then
         rbind (isoTime X t) (\<lambda>due.
           let base = (job_fact ''EXPECTED_RUN_MISSED'' j)\<lparr>ft_dueAt := Some due, ft_overdueMs := Some (nowMs - t)\<rparr>
           in Inr (if unresolved = [] then [base]
              else map (\<lambda>r. base\<lparr>ft_occurrenceId := Some (o_occurrenceId r), ft_runId := Some (o_runId r), ft_derived := True\<rparr>) unresolved))
       else Inr []
   | None \<Rightarrow> Inr [])"

definition repeated_facts :: "job \<Rightarrow> fact list" where
  "repeated_facts j = (case st_consecutiveErrors (j_state j) of
     Some n \<Rightarrow> if 2 \<le> n then [(job_fact ''CONSECUTIVE_FAILURE'' j)\<lparr>ft_consecutiveErrors := Some n\<rparr>] else []
   | None \<Rightarrow> [])"

definition canonicalJobFindings :: "ext \<Rightarrow> int \<Rightarrow> job \<Rightarrow> occurrence list \<Rightarrow> occurrence list \<Rightarrow> fact list res" where
  "canonicalJobFindings X nowMs j records occs =
     rbind (nextRunProbe X j records nowMs) (\<lambda>probe.
     rbind (rmap (record_facts X nowMs j) records) (\<lambda>fss.
     rbind (missed_facts X nowMs j (filter unsettledUnknown records) occs) (\<lambda>missed.
     Inr ((case probe of Some reason \<Rightarrow> [(job_fact ''JOB_CONFIGURATION_INVALID'' j)\<lparr>ft_reason := Some reason\<rparr>] | None \<Rightarrow> [])
       @ concat fss @ repeated_facts j @ missed))))"

subsection \<open>The row of one job\<close>

text \<open>
  The answers of the other four files: who has credentials, the route of a job's failures, the incidents,
  and the reason why the runtime is unhealthy, if a probe said so.
\<close>

record route_state =
  ro_class :: string
  ro_ready :: bool
  ro_source :: string
  ro_status :: string
  ro_targetRef :: "string option"

record snapshot =
  hs_doc :: "sdoc option"
  hs_generatedAt :: int
  hs_credentials :: "string list"
  hs_routes :: "(string \<times> route_state) list"
  hs_incidents :: "incident list"
  hs_runtimeFault :: "string option"
  hs_canonicalPair :: bool
  hs_generations :: "generation list"
  hs_censusError :: "string option"

datatype row_class = Row_Healthy | Row_Degraded | Row_Blocked | Row_Unknown

datatype row_state = Is_Healthy | Is_Unknown | Is_Quarantined | Is_Blocked | Is_Degraded

record job_row =
  jr_jobId :: string
  jr_agentId :: string
  jr_logicalKey :: "string option"
  jr_classification :: row_class
  jr_state :: row_state
  jr_lastExpectedAt :: "int option"
  jr_lastStartAt :: "int option"
  jr_lastFinishAt :: "int option"
  jr_lastSuccessAt :: "int option"
  jr_lastOutcome :: "occ_state option"
  jr_current :: "(string \<times> occ_state) option"
  jr_blocker :: "string option"
  jr_blockedSince :: "int option"
  jr_blockedAgeMs :: "int option"
  jr_credentialReady :: bool
  jr_nextExpectedAt :: "int option"
  jr_route :: route_state
  jr_targetMissing :: bool
  jr_lastReconciliationAt :: "int option"
  jr_evidence :: "(int \<times> occ_state) option"
  jr_fenceReason :: "string option"
  jr_alert :: "alert option"
  jr_findings :: "fact list"

text \<open>\<^verbatim>\<open>Math.max\<close> and \<^verbatim>\<open>Math.min\<close> of a list, absent for an empty one.\<close>

definition max_of :: "int list \<Rightarrow> int option" where
  "max_of ts = (case ts of [] \<Rightarrow> None | t # rest \<Rightarrow> Some (foldl max t rest))"

definition min_of :: "int list \<Rightarrow> int option" where
  "min_of ts = (case ts of [] \<Rightarrow> None | t # rest \<Rightarrow> Some (foldl min t rest))"

definition latest_at :: "(occurrence \<Rightarrow> bool) \<Rightarrow> (occurrence \<Rightarrow> int option) \<Rightarrow> occurrence list \<Rightarrow> int option" where
  "latest_at p field records = max_of (List.map_filter field (filter p records))"

definition lastOutcome :: "occurrence list \<Rightarrow> occ_state option" where
  "lastOutcome records = (case sort_key (\<lambda>r. - the (o_endedAt r)) (filter (\<lambda>r. o_endedAt r \<noteq> None) records) of
     [] \<Rightarrow> None | r # _ \<Rightarrow> Some (case o_executionOutcome r of Some e \<Rightarrow> e | None \<Rightarrow> o_state r))"

definition settlement_times :: "occurrence \<Rightarrow> int list" where
  "settlement_times r = (case o_lateSettlement r of Some s \<Rightarrow> [ls_resolvedAt s] | None \<Rightarrow> [])
     @ (case o_terminationSettlement r of Some s \<Rightarrow> [ts_settledAt s] | None \<Rightarrow> [])"

definition lastReconciliation :: "occurrence list \<Rightarrow> int option" where
  "lastReconciliation records = max_of (concat (map settlement_times records))"

text \<open>\<open>None\<close> is the constant alert state of a job without an incident.\<close>

definition alertForJob :: "incident list \<Rightarrow> string \<Rightarrow> alert option" where
  "alertForJob incidents jobId = (case sort_key (\<lambda>i. - al_lastTransitionAt (i_alert i))
       (filter (\<lambda>i. rin_jobId (ci_root (i_of i)) = Some jobId) incidents) of
     [] \<Rightarrow> None | i # _ \<Rightarrow> Some (i_alert i))"

definition no_route :: route_state where
  "no_route = \<lparr>ro_class = ''JOB_FAILURE'', ro_ready = False, ro_source = ''local_ops_sink'',
     ro_status = ''CONFIG_MISSING'', ro_targetRef = None\<rparr>"

definition route_of :: "snapshot \<Rightarrow> job \<Rightarrow> route_state" where
  "route_of s j = (case map_of (hs_routes s) (j_id j) of
     Some ro \<Rightarrow> ro
   | None \<Rightarrow> (case (case j_logicalKey j of Some k \<Rightarrow> map_of (hs_routes s) k | None \<Rightarrow> None) of
       Some ro \<Rightarrow> ro | None \<Rightarrow> no_route))"

definition routeHealthy :: "route_state \<Rightarrow> bool" where
  "routeHealthy ro \<longleftrightarrow> ro_ready ro \<and> ro_status ro = ''READY''"

definition blocked_at :: "occurrence \<Rightarrow> int" where
  "blocked_at r = (case o_endedAt r of Some t \<Rightarrow> t | None \<Rightarrow> (case o_startedAt r of Some t \<Rightarrow> t | None \<Rightarrow> o_admittedAt r))"

definition row_classify :: "bool \<Rightarrow> bool \<Rightarrow> bool \<Rightarrow> bool \<Rightarrow> row_class \<times> row_state" where
  "row_classify whole unresolved credentialReady degraded =
     (if \<not> whole then (Row_Unknown, Is_Unknown)
      else if unresolved \<or> \<not> credentialReady then (Row_Blocked, if unresolved then Is_Quarantined else Is_Blocked)
      else if degraded then (Row_Degraded, Is_Degraded)
      else (Row_Healthy, Is_Healthy))"

definition projectRow :: "ext \<Rightarrow> snapshot \<Rightarrow> sdoc \<Rightarrow> bool \<Rightarrow> bool \<Rightarrow> job \<Rightarrow> job_row res" where
  "projectRow X s d whole authorityValid j =
     (let records = jobOccurrences (s_occurrences d) (j_id j);
          now = hs_generatedAt s;
          unresolved = filter unsettledUnknown records;
          current = (case sort_key (\<lambda>r. - o_admittedAt r) records of [] \<Rightarrow> None | r # _ \<Rightarrow> Some r);
          credentialReady = (j_agentId j \<in> set (hs_credentials s));
          ro = route_of s j;
          since = min_of (map blocked_at unresolved)
      in rbind (if authorityValid then canonicalJobFindings X now j records (s_occurrences d) else Inr []) (\<lambda>findings.
      let cls = row_classify whole (unresolved \<noteq> []) credentialReady
            (\<not> routeHealthy ro \<or> \<not> scheduleReady X j records now \<or> findings \<noteq> [] \<or> hs_runtimeFault s \<noteq> None)
      in Inr \<lparr>jr_jobId = j_id j, jr_agentId = j_agentId j, jr_logicalKey = j_logicalKey j,
        jr_classification = fst cls, jr_state = snd cls,
        jr_lastExpectedAt = latest_at (\<lambda>_. True) (\<lambda>_. None) records,
        jr_lastStartAt = latest_at (\<lambda>_. True) o_startedAt records,
        jr_lastFinishAt = latest_at (\<lambda>_. True) o_endedAt records,
        jr_lastSuccessAt = latest_at (\<lambda>r. o_executionOutcome r = Some Succeeded \<or> o_state r = Succeeded) o_endedAt records,
        jr_lastOutcome = lastOutcome records,
        jr_current = map_option (\<lambda>r. (o_occurrenceId r, o_state r)) current,
        jr_blocker = (if unresolved \<noteq> [] then Some ''OUTCOME_UNKNOWN''
          else if \<not> credentialReady then Some ''CREDENTIAL_UNAVAILABLE'' else None),
        jr_blockedSince = since,
        jr_blockedAgeMs = map_option (\<lambda>t. max 0 (now - t)) since,
        jr_credentialReady = credentialReady,
        jr_nextExpectedAt = st_nextRunAtMs (j_state j),
        jr_route = ro, jr_targetMissing = (\<not> routeHealthy ro),
        jr_lastReconciliationAt = lastReconciliation records,
        jr_evidence = map_option (\<lambda>r. (blocked_at r, o_state r)) current,
        jr_fenceReason = (if unresolved \<noteq> [] then Some ''unresolved outcome_unknown occurrence contribution'' else None),
        jr_alert = alertForJob (hs_incidents s) (j_id j),
        jr_findings = findings\<rparr>))"

subsection \<open>The whole projection\<close>

record health =
  he_counts :: "(nat \<times> nat \<times> nat \<times> nat \<times> nat) option"
  he_complete :: bool
  he_generatedAt :: int
  he_jobs :: "job_row list"
  he_findings :: "fact list"
  he_censusError :: "string option"

definition count_rows :: "job_row list \<Rightarrow> row_class \<Rightarrow> nat" where
  "count_rows rows kind = length (filter (\<lambda>r. jr_classification r = kind) rows)"

text \<open>How many jobs are enabled, healthy, degraded, blocked and unknown.\<close>

definition row_counts :: "job_row list \<Rightarrow> nat \<times> nat \<times> nat \<times> nat \<times> nat" where
  "row_counts rows = (length rows, count_rows rows Row_Healthy, count_rows rows Row_Degraded,
     count_rows rows Row_Blocked, count_rows rows Row_Unknown)"

definition text_default :: "string option \<Rightarrow> string \<Rightarrow> string" where
  "text_default t d = (case t of Some s \<Rightarrow> s | None \<Rightarrow> d)"

definition runtime_fact :: "string \<Rightarrow> string \<Rightarrow> fact" where
  "runtime_fact subject reason = (bare_fact ''SCHEDULER_RUNTIME_UNHEALTHY'')\<lparr>ft_subjectKind := Some ''runtime'',
     ft_stableSubjectId := Some subject, ft_reason := Some reason\<rparr>"

definition projectSchedulerHealth :: "ext \<Rightarrow> snapshot \<Rightarrow> health res" where
  "projectSchedulerHealth X s = (case hs_doc s of
     None \<Rightarrow> Inr \<lparr>he_counts = None, he_complete = False, he_generatedAt = hs_generatedAt s, he_jobs = [],
       he_findings = [], he_censusError = Some (text_default (hs_censusError s) ''canonical Job document unreadable'')\<rparr>
   | Some d \<Rightarrow>
       (let authority = validateCanonicalHealthAuthority X d;
            valid = (authority = Inr ());
            whole = (valid \<and> generationsComplete (hs_generations s) \<and> hs_canonicalPair s
              \<and> fenceProjectionValid X (s_fences d) (s_occurrences d))
        in rbind (rmap (projectRow X s d whole valid) (filter j_enabled (s_jobs d))) (\<lambda>rows.
        Inr \<lparr>he_counts = Some (row_counts rows), he_complete = whole, he_generatedAt = hs_generatedAt s, he_jobs = rows,
          he_findings = concat (map jr_findings rows) @ (case hs_runtimeFault s of
            Some reason \<Rightarrow> [runtime_fact ''scheduler-runtime'' reason] | None \<Rightarrow> []),
          he_censusError = (if whole then None else Some (text_default (hs_censusError s)
            (case authority of Inl e \<Rightarrow> error_text e
             | Inr _ \<Rightarrow> ''source generation, provenance, or fence projection incomplete'')))\<rparr>)))"

subsection \<open>What a principal may see\<close>

record principal =
  pr_agentId :: "string option"
  pr_scopes :: "string list"

definition filterHealthForPrincipal :: "health \<Rightarrow> principal \<Rightarrow> health res" where
  "filterHealthForPrincipal h p =
     (if ''scheduler.audit'' \<in> set (pr_scopes p) then Inr h
      else if ''scheduler.read'' \<notin> set (pr_scopes p) \<or> \<not> truthy_text (pr_agentId p)
      then Inl (Coded_Error ''forbidden'' ''forbidden scheduler health read'')
      else (let rows = filter (\<lambda>r. Some (jr_agentId r) = pr_agentId p) (he_jobs h);
                visible = map jr_jobId rows
            in Inr (h\<lparr>he_counts := Some (row_counts rows), he_jobs := rows,
                 he_findings := filter (\<lambda>f. ft_subjectKind f = Some ''runtime''
                   \<or> (case ft_jobId f of Some i \<Rightarrow> i \<in> set visible | None \<Rightarrow> False)) (he_findings h)\<rparr>)))"

subsection \<open>The reading of the five files\<close>

datatype capture = Cap_Jobs sdoc | Cap_History | Cap_Routing manifest | Cap_Incidents istate | Cap_Credentials "string list"

text \<open>
  What one attempt finds on disk: for each file its hash before and after and what reading it gives. The
  document is validated by the capture; the manifest and the incident state arrive as their readers, which
  are modelled elsewhere, return them.
\<close>

record files =
  fi_tokens :: "string \<Rightarrow> string option \<times> string option"
  fi_jobs :: "string + sdoc"
  fi_history :: "string + unit"
  fi_routing :: "string + manifest"
  fi_incidents :: "string + istate"
  fi_credentials :: "string + string list"

definition read_as :: "files \<Rightarrow> string \<Rightarrow> string + capture \<Rightarrow> capture source_read" where
  "read_as w name v = \<lparr>sr_name = name, sr_start = fst (fi_tokens w name), sr_value = v, sr_end = snd (fi_tokens w name)\<rparr>"

definition jobs_capture :: "ext \<Rightarrow> string + sdoc \<Rightarrow> string + capture" where
  "jobs_capture X v = (case v of Inl e \<Rightarrow> Inl e
     | Inr d \<Rightarrow> (case validateCanonicalHealthAuthority X d of Inl e \<Rightarrow> Inl (error_text e) | Inr _ \<Rightarrow> Inr (Cap_Jobs d)))"

definition sources_of :: "ext \<Rightarrow> files \<Rightarrow> capture source_read list" where
  "sources_of X w = [read_as w ''jobs'' (jobs_capture X (fi_jobs w)),
     read_as w ''history'' (map_sum id (\<lambda>_. Cap_History) (fi_history w)),
     read_as w ''routing'' (map_sum id Cap_Routing (fi_routing w)),
     read_as w ''incidents'' (map_sum id Cap_Incidents (fi_incidents w)),
     read_as w ''credentials'' (map_sum id Cap_Credentials (fi_credentials w))]"

definition the_jobs :: "capture acquired \<Rightarrow> sdoc option" where
  "the_jobs a = (case find (\<lambda>g. g_source g = ''jobs'') (aq_generations a) of
     Some g \<Rightarrow> if g_trusted g \<and> g_start g = g_end g
       then (case map_of (aq_sources a) ''jobs'' of Some (Cap_Jobs d) \<Rightarrow> Some d | _ \<Rightarrow> None) else None
   | None \<Rightarrow> None)"

definition the_routing :: "capture acquired \<Rightarrow> jval" where
  "the_routing a = (case map_of (aq_sources a) ''routing'' of Some (Cap_Routing m) \<Rightarrow> manifest_val m | _ \<Rightarrow> JUndef)"

definition the_incidents :: "capture acquired \<Rightarrow> istate option" where
  "the_incidents a = (case map_of (aq_sources a) ''incidents'' of Some (Cap_Incidents st) \<Rightarrow> Some st | _ \<Rightarrow> None)"

definition the_credentials :: "capture acquired \<Rightarrow> string list" where
  "the_credentials a = (case map_of (aq_sources a) ''credentials'' of Some (Cap_Credentials cs) \<Rightarrow> cs | _ \<Rightarrow> [])"

definition end_token :: "capture acquired \<Rightarrow> string \<Rightarrow> string option" where
  "end_token a name = (case find (\<lambda>g. g_source g = name) (aq_generations a) of Some g \<Rightarrow> g_end g | None \<Rightarrow> None)"

definition targetRef :: "target option \<Rightarrow> string option" where
  "targetRef t = (case t of Some t \<Rightarrow> if tg_to t \<noteq> [] then Some (''sha256:'' @ sha256_hex (tg_to t)) else None | None \<Rightarrow> None)"

definition routeSource :: "string option \<Rightarrow> string" where
  "routeSource source = (if source = Some ''jobFailureTargets'' then ''job_failure_override''
     else if source = Some ''ownerTargets'' then ''owner''
     else if source = Some ''canonicalOpsTarget'' then ''canonical_ops'' else ''local_ops_sink'')"

definition job_route :: "jval \<Rightarrow> job \<Rightarrow> (string \<times> route_state) res" where
  "job_route raw j = rbind (resolveNotificationRoute ''JOB_FAILURE'' (Some j) raw) (\<lambda>dec.
     Inr (j_id j, \<lparr>ro_class = ''JOB_FAILURE'', ro_ready = (rd_route dec \<noteq> None), ro_source = routeSource (rd_source dec),
       ro_status = (if rd_route dec \<noteq> None then (if rd_targetMissing dec then ''FALLBACK_CONFIG_MISSING'' else ''READY'')
         else ''CONFIG_MISSING''), ro_targetRef = targetRef (rd_route dec)\<rparr>))"

definition is_commit_sha :: "string option \<Rightarrow> bool" where
  "is_commit_sha g = (case g of Some s \<Rightarrow> length s = 40 \<and> list_all (\<lambda>c. c \<in> set ''0123456789abcdef'') s | None \<Rightarrow> False)"

definition starts_with_slash :: "string \<Rightarrow> bool" where
  "starts_with_slash p \<longleftrightarrow> take 1 p = ''/''"

text \<open>
  \<^verbatim>\<open>read\<close> of \<^verbatim>\<open>createSchedulerHealthRuntime\<close>: a binding that contradicts the manifest makes the projection
  incomplete.
\<close>

definition bindings_error :: "capture acquired \<Rightarrow> sdoc option \<Rightarrow> int \<Rightarrow> string option" where
  "bindings_error a d now = (case validateIncidentDeliveryBindings (case the_incidents a of Some st \<Rightarrow> st | None \<Rightarrow> empty_istate)
       (the_routing a) (case d of Some d \<Rightarrow> s_jobs d | None \<Rightarrow> []) (end_token a ''routing'') now of
     Inl e \<Rightarrow> Some (''health incident binding unavailable: '' @ error_text e) | Inr _ \<Rightarrow> None)"

definition read_health :: "ext \<Rightarrow> string option \<Rightarrow> string \<Rightarrow> string option \<Rightarrow> int \<Rightarrow> (nat \<Rightarrow> files) \<Rightarrow> health res" where
  "read_health X runtimeGeneration storePath fault now world =
     (let a = acquireConsistentHealthSnapshot (\<lambda>k. sources_of X (world k)) 3;
          d = the_jobs a;
          bad = bindings_error a d now;
          whole = (aq_complete a \<and> bad = None)
      in rbind (rmap (job_route (the_routing a)) (case d of Some d \<Rightarrow> s_jobs d | None \<Rightarrow> [])) (\<lambda>routes.
      projectSchedulerHealth X \<lparr>hs_doc = d, hs_generatedAt = now, hs_credentials = the_credentials a, hs_routes = routes,
        hs_incidents = (case the_incidents a of Some st \<Rightarrow> st_incidents st | None \<Rightarrow> []),
        hs_runtimeFault = fault,
        hs_canonicalPair = (whole \<and> is_commit_sha runtimeGeneration \<and> starts_with_slash storePath),
        hs_generations = aq_generations a,
        hs_censusError = or_else bad (aq_censusError a)\<rparr>))"

definition assertSchedulerStartupReady :: "health \<Rightarrow> unit res" where
  "assertSchedulerStartupReady h = ensure (he_complete h) (Coded_Error ''SCHEDULER_HEALTH_INCOMPLETE''
     (''scheduler startup readiness failed: '' @ text_default (he_censusError h) ''incomplete canonical health census''))"

end
