(* ===== verification/Detectors.thy ===== *)
theory Detectors
  imports Health
begin

section \<open>The detectors of the watchdog\<close>

text \<open>
  \<^verbatim>\<open>packages/scheduler/src/watchdog/index.js\<close> compares the document with a manifest of desired jobs and
  judges the credential file, the heartbeat of the other watchdog and the evidence the broker's relay has
  left; \<^verbatim>\<open>runW1\<close> and \<^verbatim>\<open>runW2\<close> of \<^verbatim>\<open>scripts/scheduler-watchdog.mjs\<close> collect the findings of one run and hand
  them to the incident lifecycle. What a run reads from the outside is an argument.
\<close>

subsection \<open>The desired state\<close>

record desired_schedule =
  ds_kind :: string
  ds_expr :: "string option"
  ds_tz :: "string option"
  ds_at :: "string option"
  ds_everyMs :: "jsnum option"

record desired_job =
  dj_logicalKey :: string
  dj_enabled :: bool
  dj_schedule :: desired_schedule
  dj_agentId :: string
  dj_graceMinutes :: rat
  dj_maxConsecutiveFailures :: rat

definition given_text :: "ext \<Rightarrow> jval \<Rightarrow> string option" where
  "given_text X v = (if v = JUndef then None else Some (js_string X v))"

fun finite_or :: "jval \<Rightarrow> rat \<Rightarrow> rat" where
  "finite_or (JNum (Num q)) d = q"
| "finite_or _ d = d"

definition parse_desired_job :: "ext \<Rightarrow> jval \<Rightarrow> desired_job res" where
  "parse_desired_job X entry =
     rbind (ensure (is_object entry) (Type_Error ''desired job entry must be an object'')) (\<lambda>_.
     let key = jget entry ''logicalKey''; schedule = jget entry ''expectedSchedule'';
         policy = coalesce (jget entry ''runPolicy'') (JObj []) in
     rbind (ensure (is_str key \<and> js_trim (str_val key) \<noteq> [])
       (Type_Error ''desired job entry requires a non-empty logicalKey'')) (\<lambda>_.
     rbind (ensure (is_object schedule) (Type_Error (''desired job '' @ str_val key @ '' requires expectedSchedule''))) (\<lambda>_.
     rbind (ensure (jget schedule ''kind'' \<in> {JStr ''cron'', JStr ''at'', JStr ''every''})
       (Type_Error (''desired job '' @ str_val key @ '' expectedSchedule.kind must be cron|at|every''))) (\<lambda>_.
     Inr \<lparr>dj_logicalKey = str_val key, dj_enabled = (jget entry ''expectedEnabled'' \<noteq> JBool False),
       dj_schedule = \<lparr>ds_kind = str_val (jget schedule ''kind''), ds_expr = given_text X (jget schedule ''expr''),
         ds_tz = given_text X (jget schedule ''tz''), ds_at = given_text X (jget schedule ''at''),
         ds_everyMs = (if jget schedule ''everyMs'' = JUndef then None else Some (js_number X (jget schedule ''everyMs'')))\<rparr>,
       dj_agentId = js_string X (coalesce (jget entry ''expectedAgentId'') (JStr [])),
       dj_graceMinutes = finite_or (jget policy ''graceMinutes'') 30,
       dj_maxConsecutiveFailures = finite_or (jget policy ''maxConsecutiveFailures'') 2\<rparr>))))"

fun array_of :: "jval \<Rightarrow> jval list option" where
  "array_of (JArr vs) = Some vs"
| "array_of _ = None"

definition parseDesiredState :: "ext \<Rightarrow> jval \<Rightarrow> desired_job list res" where
  "parseDesiredState X raw =
     rbind (ensure (plain_object raw) (Type_Error ''desired-state manifest must be an object'')) (\<lambda>_.
     rbind (ensure (jget raw ''version'' = JInt 1) (Type_Error ''desired-state manifest version must be 1'')) (\<lambda>_.
     case array_of (jget raw ''jobs'') of
       None \<Rightarrow> Inl (Type_Error ''desired-state manifest jobs must be an array'')
     | Some entries \<Rightarrow> rmap (parse_desired_job X) entries))"

definition undefined_text :: "string option \<Rightarrow> string" where
  "undefined_text t = (case t of Some s \<Rightarrow> s | None \<Rightarrow> ''undefined'')"

definition comparableSchedule :: "ext \<Rightarrow> desired_schedule \<Rightarrow> string" where
  "comparableSchedule X s =
     (if ds_kind s = ''cron'' then ''cron:'' @ undefined_text (ds_expr s)
      else if ds_kind s = ''at'' then ''at:'' @ undefined_text (ds_at s)
      else ''every:'' @ undefined_text (map_option (num_str X) (ds_everyMs s)))"

definition normalizeStoredSchedule :: "schedule \<Rightarrow> desired_schedule" where
  "normalizeStoredSchedule s = (case s of
     Cron expr tz stagger \<Rightarrow> \<lparr>ds_kind = ''cron'', ds_expr = Some expr, ds_tz = tz, ds_at = None, ds_everyMs = None\<rparr>
   | At t \<Rightarrow> \<lparr>ds_kind = ''at'', ds_expr = None, ds_tz = None, ds_at = Some t, ds_everyMs = None\<rparr>
   | Every ms anchor \<Rightarrow> \<lparr>ds_kind = ''every'', ds_expr = None, ds_tz = None, ds_at = None, ds_everyMs = Some (Num (of_int ms))\<rparr>)"

definition drift_fact :: "string \<Rightarrow> desired_job \<Rightarrow> job \<Rightarrow> fact" where
  "drift_fact cls e j = (bare_fact cls)\<lparr>ft_logicalKey := Some (dj_logicalKey e), ft_jobId := Some (j_id j),
     ft_jobRevision := Some (j_scheduleRevision j)\<rparr>"

definition schedule_drift :: "ext \<Rightarrow> desired_job \<Rightarrow> job \<Rightarrow> fact list" where
  "schedule_drift X e j =
     (let stored = normalizeStoredSchedule (j_schedule j); wanted = dj_schedule e in
      if comparableSchedule X stored \<noteq> comparableSchedule X wanted
      then [(drift_fact ''SCHEDULE_DRIFT'' e j)\<lparr>ft_expected := Some (comparableSchedule X wanted),
             ft_actual := Some (comparableSchedule X stored)\<rparr>]
      else if ds_kind stored = ''cron'' \<and> ds_tz stored \<noteq> ds_tz wanted
      then [(drift_fact ''TIMEZONE_DRIFT'' e j)\<lparr>ft_expected := ds_tz wanted, ft_actual := ds_tz stored\<rparr>]
      else [])"

definition desired_facts :: "ext \<Rightarrow> job list \<Rightarrow> desired_job \<Rightarrow> fact list" where
  "desired_facts X jobs e = (case filter (\<lambda>j. j_logicalKey j = Some (dj_logicalKey e)) jobs of
     [] \<Rightarrow> [(bare_fact ''JOB_MISSING'')\<lparr>ft_logicalKey := Some (dj_logicalKey e)\<rparr>]
   | [j] \<Rightarrow> (if dj_enabled e \<and> \<not> j_enabled j then [drift_fact ''JOB_DISABLED'' e j] else [])
       @ schedule_drift X e j
       @ (if dj_agentId e \<noteq> [] \<and> j_agentId j \<noteq> dj_agentId e
          then [(drift_fact ''TARGET_AGENT_DRIFT'' e j)\<lparr>ft_expected := Some (dj_agentId e), ft_actual := Some (j_agentId j)\<rparr>] else [])
   | matches \<Rightarrow> [(bare_fact ''JOB_DUPLICATED'')\<lparr>ft_logicalKey := Some (dj_logicalKey e), ft_jobIds := map j_id matches\<rparr>])"

definition evaluateDesiredState :: "ext \<Rightarrow> job list \<Rightarrow> desired_job list \<Rightarrow> fact list" where
  "evaluateDesiredState X jobs desired = concat (map (desired_facts X jobs) desired)"

subsection \<open>The other probes\<close>

text \<open>\<open>None\<close> is a credential file that does not exist, otherwise its size.\<close>

definition evaluateCredentialProvider :: "nat option \<Rightarrow> string \<Rightarrow> fact list" where
  "evaluateCredentialProvider bytes path =
     (let suffix = (if path = [] then [] else '' ('' @ path @ '')'') in
      case bytes of
        Some n \<Rightarrow> if 0 < n then [] else [(bare_fact ''CREDENTIAL_PROVIDER_DEGRADED'')\<lparr>ft_reason := Some (''credential provider file empty'' @ suffix)\<rparr>]
      | None \<Rightarrow> [(bare_fact ''CREDENTIAL_PROVIDER_DEGRADED'')\<lparr>ft_reason := Some (''credential provider file missing'' @ suffix)\<rparr>])"

text \<open>
  A line the relay has written to the evidence file: the instant, the operation, the identity of the
  target and the reason.
\<close>

record evidence_entry =
  ev_ts :: int
  ev_operation :: string
  ev_logicalKey :: "string option"
  ev_jobId :: "string option"
  ev_reason :: string

definition EVIDENCE_WINDOW_MS :: int where
  "EVIDENCE_WINDOW_MS = 24 * 60 * 60 * 1000"

definition evaluateReconciliationEvidence :: "ext \<Rightarrow> int \<Rightarrow> evidence_entry list \<Rightarrow> fact list res" where
  "evaluateReconciliationEvidence X nowMs entries =
     rmap (\<lambda>e. rbind (isoTime X (ev_ts e)) (\<lambda>t.
       Inr ((bare_fact ''MUTATION_STILL_UNKNOWN'')\<lparr>ft_operation := Some (ev_operation e), ft_logicalKey := ev_logicalKey e,
         ft_jobId := ev_jobId e, ft_reason := Some (ev_reason e), ft_evidenceAt := Some t\<rparr>)))
     (filter (\<lambda>e. nowMs - ev_ts e \<le> EVIDENCE_WINDOW_MS) entries)"

definition heartbeat_late :: "int option \<Rightarrow> int \<Rightarrow> bool" where
  "heartbeat_late age grace \<longleftrightarrow> (case age of None \<Rightarrow> True | Some a \<Rightarrow> a > grace)"

definition age_text :: "int option \<Rightarrow> string" where
  "age_text age = (case age of None \<Rightarrow> ''missing'' | Some a \<Rightarrow> int_str a)"

subsection \<open>One run of the first watchdog\<close>

text \<open>
  What the run reads: the document, the desired state (its text parsed), the health, the evidence, the
  credential file and the heartbeat of the second watchdog.
\<close>

record w1_input =
  wi_doc :: "string + sdoc"
  wi_desired :: "string + jval"
  wi_health :: "health res"
  wi_evidence :: "evidence_entry list"
  wi_credentialBytes :: "nat option"
  wi_credentialFile :: string
  wi_w2Age :: "int option"
  wi_grace :: int

definition plain_unhealthy :: "string \<Rightarrow> fact" where
  "plain_unhealthy reason = (bare_fact ''SCHEDULER_RUNTIME_UNHEALTHY'')\<lparr>ft_reason := Some reason\<rparr>"

definition input_jobs :: "w1_input \<Rightarrow> job list" where
  "input_jobs i = (case wi_doc i of Inr d \<Rightarrow> s_jobs d | Inl _ \<Rightarrow> [])"

definition store_facts :: "w1_input \<Rightarrow> fact list" where
  "store_facts i = (case wi_doc i of Inl e \<Rightarrow> [plain_unhealthy (''canonical store unreadable: '' @ take 120 e)] | Inr _ \<Rightarrow> [])"

text \<open>The findings of the comparison are held back until the health turns out complete.\<close>

definition desired_outcome :: "ext \<Rightarrow> w1_input \<Rightarrow> fact list \<times> fact list" where
  "desired_outcome X i = (case wi_desired i of
     Inl e \<Rightarrow> ([plain_unhealthy (''desired-state manifest unreadable/invalid: '' @ take 120 e)], [])
   | Inr raw \<Rightarrow> (case parseDesiredState X raw of
       Inl e \<Rightarrow> ([plain_unhealthy (''desired-state manifest unreadable/invalid: '' @ take 120 (error_text e))], [])
     | Inr desired \<Rightarrow> ([], evaluateDesiredState X (input_jobs i) desired)))"

definition health_facts :: "w1_input \<Rightarrow> fact list \<Rightarrow> fact list" where
  "health_facts i candidates = (case wi_health i of
     Inr h \<Rightarrow> if he_complete h then candidates @ he_findings h
       else [runtime_fact ''scheduler-health'' (''canonical Scheduler health incomplete: '' @ text_default (he_censusError h) ''unknown source'')]
   | Inl e \<Rightarrow> [runtime_fact ''scheduler-health'' (''canonical Scheduler health unavailable: '' @ take 120 (error_text e))])"

definition w1_findings :: "ext \<Rightarrow> int \<Rightarrow> w1_input \<Rightarrow> fact list" where
  "w1_findings X now i = store_facts i @ fst (desired_outcome X i) @ health_facts i (snd (desired_outcome X i))
     @ (case evaluateReconciliationEvidence X now (wi_evidence i) of Inr fs \<Rightarrow> fs | Inl _ \<Rightarrow> [])
     @ evaluateCredentialProvider (wi_credentialBytes i) (wi_credentialFile i)
     @ (if heartbeat_late (wi_w2Age i) (wi_grace i)
        then [(bare_fact ''SCHEDULER_WATCHDOG_W2_FAILURE'')\<lparr>ft_reason :=
               Some (''W2 heartbeat stale or missing (ageMs='' @ age_text (wi_w2Age i) @ '')'')\<rparr>] else [])"

definition runW1 ::
    "ext \<Rightarrow> (string \<Rightarrow> string \<Rightarrow> bool) \<Rightarrow> rendering \<Rightarrow> (migration \<Rightarrow> bool) \<Rightarrow> int \<Rightarrow> w1_input \<Rightarrow> (intent \<Rightarrow> answers)
      \<Rightarrow> istate option \<Rightarrow> run_outcome" where
  "runW1 X le render backups now i world disk =
     processIncidentNotifications X le render backups ''w1'' now (input_jobs i) world (w1_findings X now i) disk"

definition w2_findings :: "int option \<Rightarrow> int \<Rightarrow> fact list" where
  "w2_findings age grace = (if heartbeat_late age grace
     then [(bare_fact ''SCHEDULER_WATCHDOG_FAILURE'')\<lparr>ft_reason := Some (''W1 heartbeat stale or missing (ageMs='' @ age_text age @ '')''),
            ft_subjectKind := Some ''watchdog'', ft_stableSubjectId := Some ''watchdog:w1''\<rparr>] else [])"

definition runW2 ::
    "ext \<Rightarrow> (string \<Rightarrow> string \<Rightarrow> bool) \<Rightarrow> rendering \<Rightarrow> (migration \<Rightarrow> bool) \<Rightarrow> int \<Rightarrow> int option \<Rightarrow> int \<Rightarrow> (intent \<Rightarrow> answers)
      \<Rightarrow> istate option \<Rightarrow> run_outcome" where
  "runW2 X le render backups now age grace world disk =
     processIncidentNotifications X le render backups ''w2'' now [] world (w2_findings age grace) disk"

end
