(* ===== verification/HealthFacts.thy ===== *)
theory HealthFacts
  imports Detectors System
begin

section \<open>The health projection: what its parts guarantee\<close>

text \<open>
  When a reading counts as complete, which documents the projection accepts, what a row says about its
  job, and which findings reach the watchdog.
\<close>

subsection \<open>Reading the files\<close>

lemma generation_of_fields [simp]:
  "g_source (generation_of r) = sr_name r" "g_captured (generation_of r) = Some (captured_ok r)"
  "g_trusted (generation_of r) \<longleftrightarrow> captured_ok r \<and> sr_start r \<noteq> None \<and> sr_end r \<noteq> None"
  "g_start (generation_of r) = sr_start r" "g_end (generation_of r) = sr_end r"
  by (simp_all add: generation_of_def)

definition steady :: "'v source_read list \<Rightarrow> bool" where
  "steady rs \<longleftrightarrow> rs \<noteq> [] \<and> list_all (\<lambda>r. captured_ok r \<and> sr_start r \<noteq> None \<and> sr_start r = sr_end r) rs"

lemma generations_steady: "generationsComplete (map generation_of rs) \<longleftrightarrow> steady rs"
  unfolding generationsComplete_def steady_def list_all_iff by auto metis

lemma acquired_from:
  "\<exists>rs. (rs = seen \<or> (\<exists>m. k \<le> m \<and> m < k + n \<and> rs = reads m))
     \<and> aq_generations (acquire_loop reads k n seen) = map generation_of rs
     \<and> aq_sources (acquire_loop reads k n seen) = captured_values rs
     \<and> (aq_complete (acquire_loop reads k n seen) \<longrightarrow> steady rs)"
proof (induction n arbitrary: k seen)
  case 0
  show ?case by (intro exI[of _ seen]) simp
next
  case (Suc n)
  show ?case
  proof (cases "steady (reads k)")
    case True
    have "reads k = seen \<or> (\<exists>m. k \<le> m \<and> m < k + Suc n \<and> reads k = reads m)"
      by (intro disjI2 exI[of _ k]) simp
    moreover have "aq_generations (acquire_loop reads k (Suc n) seen) = map generation_of (reads k)"
      "aq_sources (acquire_loop reads k (Suc n) seen) = captured_values (reads k)"
      using True by (simp_all add: Let_def generations_steady)
    ultimately show ?thesis
      using True by (intro exI[of _ "reads k"] conjI impI)
  next
    case False
    then have "acquire_loop reads k (Suc n) seen = acquire_loop reads (Suc k) n (reads k)"
      by (simp add: Let_def generations_steady)
    moreover obtain rs where rs: "rs = reads k \<or> (\<exists>m. Suc k \<le> m \<and> m < Suc k + n \<and> rs = reads m)"
      "aq_generations (acquire_loop reads (Suc k) n (reads k)) = map generation_of rs"
      "aq_sources (acquire_loop reads (Suc k) n (reads k)) = captured_values rs"
      "aq_complete (acquire_loop reads (Suc k) n (reads k)) \<longrightarrow> steady rs"
      using Suc.IH[of "reads k" "Suc k"] by blast
    moreover have "\<exists>m. k \<le> m \<and> m < k + Suc n \<and> rs = reads m"
      using rs(1)
    proof
      assume "\<exists>m. Suc k \<le> m \<and> m < Suc k + n \<and> rs = reads m"
      then obtain m where "Suc k \<le> m" "m < Suc k + n" "rs = reads m" by blast
      then show ?thesis by (intro exI[of _ m]) simp
    qed auto
    ultimately show ?thesis by metis
  qed
qed

lemma acquire_complete_iff:
  "aq_complete (acquire_loop reads k n seen) \<longleftrightarrow> (\<exists>m. k \<le> m \<and> m < k + n \<and> steady (reads m))"
proof (induction n arbitrary: k seen)
  case (Suc n)
  have "k \<le> m \<and> m < k + Suc n \<longleftrightarrow> m = k \<or> Suc k \<le> m \<and> m < Suc k + n" for m
    by auto
  then have "(\<exists>m. k \<le> m \<and> m < k + Suc n \<and> steady (reads m))
      \<longleftrightarrow> steady (reads k) \<or> (\<exists>m. Suc k \<le> m \<and> m < Suc k + n \<and> steady (reads m))"
    by metis
  then show ?case
    by (simp add: Let_def generations_steady Suc.IH)
qed simp

subsection \<open>The document of the reading\<close>

lemma captured_value:
  assumes "map_of (captured_values rs) name = Some v"
  shows "\<exists>r \<in> set rs. sr_name r = name \<and> sr_value r = Inr v"
  using map_of_SomeD[OF assms] by (auto simp: captured_values_def List.map_filter_def split: sum.splits)

lemma captured_jobs:
  assumes "map_of (captured_values (sources_of X w)) ''jobs'' = Some (Cap_Jobs d)"
  shows "fi_jobs w = Inr d \<and> validateCanonicalHealthAuthority X d = Inr ()"
  using captured_value[OF assms]
  by (auto simp: sources_of_def read_as_def jobs_capture_def map_sum_def split: sum.splits)

lemma the_jobs_read:
  assumes "the_jobs (acquireConsistentHealthSnapshot (\<lambda>k. sources_of X (world k)) n) = Some d"
  shows "\<exists>k. 1 \<le> k \<and> k \<le> n \<and> fi_jobs (world k) = Inr d \<and> validateCanonicalHealthAuthority X d = Inr ()"
proof -
  let ?reads = "\<lambda>k. sources_of X (world k)"
  let ?a = "acquire_loop ?reads 1 n []"
  obtain rs where rs: "rs = [] \<or> (\<exists>m. 1 \<le> m \<and> m < 1 + n \<and> rs = ?reads m)" "aq_sources ?a = captured_values rs"
    using acquired_from[where reads = ?reads and k = 1 and n = n and seen = "[]"] by blast
  have jobs: "map_of (captured_values rs) ''jobs'' = Some (Cap_Jobs d)"
    using assms rs(2) by (auto simp: the_jobs_def acquireConsistentHealthSnapshot_def split: option.splits capture.splits if_splits)
  then have "rs \<noteq> []"
    by (auto simp: captured_values_def List.map_filter_def)
  then obtain m where m: "1 \<le> m" "m < 1 + n" "rs = ?reads m"
    using rs(1) by blast
  then show ?thesis
    using captured_jobs[of X "world m" d] jobs by (intro exI[of _ m]) simp
qed

subsection \<open>Which documents are accepted\<close>

definition key_list :: "job list \<Rightarrow> string list" where
  "key_list js = List.map_filter j_logicalKey js"

lemma key_list_simps [simp]:
  "key_list [] = []" "key_list (j # js) = (case j_logicalKey j of Some k \<Rightarrow> k # key_list js | None \<Rightarrow> key_list js)"
  by (simp_all add: key_list_def List.map_filter_simps split: option.split)

lemma check_jobs_iff:
  "check_jobs X ids keys js = Inr () \<longleftrightarrow> list_all (\<lambda>j. check_job X j = Inr ()) js
     \<and> distinct (map j_id js) \<and> j_id ` set js \<inter> set ids = {}
     \<and> distinct (key_list js) \<and> set (key_list js) \<inter> set keys = {}"
  by (induction js arbitrary: ids keys) (auto simp: rbind_eq_Inr ensure_eq_Inr split: option.splits)

lemma check_occurrences_iff:
  "check_occurrences ids rs = Inr () \<longleftrightarrow> list_all valid_occ rs \<and> distinct (map o_occurrenceId rs)
     \<and> o_occurrenceId ` set rs \<inter> set ids = {}"
  by (induction rs arbitrary: ids)
    (auto simp: rbind_eq_Inr ensure_eq_Inr validateOccurrenceRecord_def valid_occ_strict dest: validateRecord_strict)

lemma check_job_wf:
  assumes "wf_job X j"
  shows "check_job X j = Inr ()"
proof -
  let ?j = "j\<lparr>j_cloneProvenance := None\<rparr>"
  have "normalize_job X (pinned_opts j) (job_val ?j) = Inr ?j"
    using assms by (intro normalize_job_val) (simp_all add: wf_job_def pinned_opts_def)
  moreover have "job_val ?j = job_val j"
    by (simp add: job_val_def)
  ultimately show ?thesis
    using assms by (simp add: check_job_def wf_job_def wf_text_def)
qed

lemma sort_key_fst_unique:
  assumes "distinct (map fst xs)" and "distinct (map fst ys)" and "set xs = set ys"
  shows "sort_key fst xs = sort_key fst (ys :: ('a :: linorder \<times> 'b) list)"
proof (rule map_sorted_distinct_set_unique)
  show "inj_on fst (set (sort_key fst xs) \<union> set (sort_key fst ys))"
    using assms by (simp add: distinct_map)
  have "distinct (map fst (sort_key fst zs))" if "distinct (map fst zs)" for zs :: "('a \<times> 'b) list"
    using that by (simp add: distinct_map)
  then show "distinct (map fst (sort_key fst xs))" "distinct (map fst (sort_key fst ys))"
    using assms by blast+
qed (simp_all add: assms(3))

lemma fences_exact_canonical:
  assumes "fences_exact fs (rebuildFences occs)"
  shows "fenceProjectionValid X fs occs"
proof -
  let ?e = "rebuildFences occs"
  have m: "mset (map fst fs) = mset (map fst ?e)"
  proof -
    have "mset (sort (map fst fs)) = mset (sort (map fst ?e))"
      using assms by (simp only: fences_exact_def)
    then show ?thesis by simp
  qed
  have de: "distinct (map fst ?e)"
    by (rule rebuildFences_distinct)
  then have d: "distinct (map fst fs)"
    using m mset_eq_imp_distinct_iff by blast
  have "(k, f) \<in> set fs \<longleftrightarrow> (k, f) \<in> set ?e" for k f
    using fences_exact_lookup[OF assms, of k] map_of_eq_Some_iff[OF d, of k f] map_of_eq_Some_iff[OF de, of k f] by simp
  then have "set fs = set ?e"
    by auto
  then have "set (map g fs) = set (map g ?e)" for g :: "string \<times> fence \<Rightarrow> string \<times> string"
    by simp
  then have "sort_key fst (map (\<lambda>(k, f). (k, canonicalJSON X (fence_val f))) fs)
      = sort_key fst (map (\<lambda>(k, f). (k, canonicalJSON X (fence_val f))) ?e)"
    using d de by (intro sort_key_fst_unique) (simp_all add: comp_def case_prod_beta')
  moreover have "filter (\<lambda>kv. snd kv \<noteq> JUndef) (map (\<lambda>(k, f). (k, fence_val f)) gs) = map (\<lambda>(k, f). (k, fence_val f)) gs" for gs :: fences
    by (induction gs) (auto simp: fence_val_def)
  ultimately show ?thesis
    by (simp add: fenceProjectionValid_def fences_val_def comp_def case_prod_beta')
qed

lemma authority_accepts:
  assumes "valid_doc d" and "list_all (wf_job X) (s_jobs d)"
  shows "validateCanonicalHealthAuthority X d = Inr () \<longleftrightarrow> distinct (map j_id (s_jobs d)) \<and> distinct (key_list (s_jobs d))"
proof -
  have "list_all (\<lambda>j. check_job X j = Inr ()) (s_jobs d)"
    using assms(2) check_job_wf by (auto simp: list_all_iff)
  moreover have "check_occurrences [] (s_occurrences d) = Inr ()"
    using assms(1) by (simp add: check_occurrences_iff valid_doc_def ledger_ok_def)
  moreover have "fenceProjectionValid X (s_fences d) (s_occurrences d)"
    using assms(1) fences_exact_canonical by (simp add: valid_doc_def)
  ultimately show ?thesis
    by (auto simp: validateCanonicalHealthAuthority_def rbind_eq_Inr check_jobs_iff)
qed

subsection \<open>Findings and rows\<close>

lemma rmap_image:
  assumes "rmap f xs = Inr ys" and "x \<in> set xs"
  shows "\<exists>y \<in> set ys. f x = Inr y"
  using assms by (induction xs arbitrary: ys) (auto simp: rbind_eq_Inr)

lemma blocked_fact:
  assumes "canonicalJobFindings X now j records occs = Inr fs" and "r \<in> set records" and "unsettledUnknown r"
  shows "run_fact ''ADMISSION_BLOCKED_UNKNOWN'' j r \<in> set fs"
proof -
  obtain fss before after where fss: "rmap (record_facts X now j) records = Inr fss" "fs = before @ concat fss @ after"
    using assms(1) by (auto simp: canonicalJobFindings_def rbind_eq_Inr)
  obtain gs where gs: "gs \<in> set fss" "record_facts X now j r = Inr gs"
    using rmap_image[OF fss(1) assms(2)] by blast
  moreover have "run_fact ''ADMISSION_BLOCKED_UNKNOWN'' j r \<in> set gs"
    using gs(2) assms(3) by (auto simp: record_facts_def rbind_eq_Inr)
  ultimately show ?thesis
    using fss(2) by auto
qed

lemma job_record: "r \<in> set (jobOccurrences occs i) \<longleftrightarrow> r \<in> set occs \<and> o_jobId r = i"
  by (auto simp: jobOccurrences_def)

definition trusted_document :: "ext \<Rightarrow> snapshot \<Rightarrow> sdoc \<Rightarrow> bool" where
  "trusted_document X s d \<longleftrightarrow> hs_doc s = Some d \<and> validateCanonicalHealthAuthority X d = Inr ()
     \<and> generationsComplete (hs_generations s) \<and> hs_canonicalPair s"

lemma project_complete:
  assumes "projectSchedulerHealth X s = Inr h" and "he_complete h"
  shows "\<exists>d rows. trusted_document X s d \<and> rmap (projectRow X s d True True) (filter j_enabled (s_jobs d)) = Inr rows
    \<and> he_jobs h = rows \<and> set (concat (map jr_findings rows)) \<subseteq> set (he_findings h)"
  using assms by (auto simp: projectSchedulerHealth_def trusted_document_def Let_def rbind_eq_Inr split: option.splits)

lemma row_parts:
  assumes "projectRow X s d whole valid j = Inr row"
  shows "jr_jobId row = j_id j" and "jr_agentId row = j_agentId j"
    and "valid \<Longrightarrow> canonicalJobFindings X (hs_generatedAt s) j (jobOccurrences (s_occurrences d) (j_id j)) (s_occurrences d) = Inr (jr_findings row)"
    and "(jr_classification row, jr_state row) = row_classify whole
      (filter unsettledUnknown (jobOccurrences (s_occurrences d) (j_id j)) \<noteq> []) (j_agentId j \<in> set (hs_credentials s))
      (\<not> routeHealthy (route_of s j) \<or> \<not> scheduleReady X j (jobOccurrences (s_occurrences d) (j_id j)) (hs_generatedAt s)
        \<or> jr_findings row \<noteq> [] \<or> hs_runtimeFault s \<noteq> None)"
  using assms by (auto simp: projectRow_def Let_def rbind_eq_Inr)

lemma projected_fact:
  assumes "projectSchedulerHealth X s = Inr h" and "he_complete h" and "hs_doc s = Some d"
    and "j \<in> set (s_jobs d)" "j_enabled j" and "r \<in> set (s_occurrences d)" "o_jobId r = j_id j" "unsettledUnknown r"
  shows "run_fact ''ADMISSION_BLOCKED_UNKNOWN'' j r \<in> set (he_findings h)"
proof -
  obtain rows where rows: "rmap (projectRow X s d True True) (filter j_enabled (s_jobs d)) = Inr rows"
    "set (concat (map jr_findings rows)) \<subseteq> set (he_findings h)"
    using project_complete[OF assms(1,2)] assms(3) by (auto simp: trusted_document_def)
  obtain row where row: "row \<in> set rows" "projectRow X s d True True j = Inr row"
    using rmap_image[OF rows(1), of j] assms(4,5) by auto
  have "run_fact ''ADMISSION_BLOCKED_UNKNOWN'' j r \<in> set (jr_findings row)"
    using blocked_fact[OF row_parts(3)[OF row(2)]] assms(6-8) by (simp add: job_record)
  then show ?thesis
    using rows(2) row(1) by auto
qed

lemma classify_healthy: "row_classify whole u c g = (Row_Healthy, x) \<longleftrightarrow> whole \<and> \<not> u \<and> c \<and> \<not> g \<and> x = Is_Healthy"
  by (auto simp: row_classify_def)

lemma read_health_parts:
  assumes "read_health X gen path fault now world = Inr h" and "he_complete h"
  shows "\<exists>s d. projectSchedulerHealth X s = Inr h \<and> trusted_document X s d
    \<and> hs_generatedAt s = now \<and> (\<exists>k. fi_jobs (world k) = Inr d)
    \<and> aq_complete (acquireConsistentHealthSnapshot (\<lambda>k. sources_of X (world k)) 3)
    \<and> hs_credentials s = the_credentials (acquireConsistentHealthSnapshot (\<lambda>k. sources_of X (world k)) 3)
    \<and> the_jobs (acquireConsistentHealthSnapshot (\<lambda>k. sources_of X (world k)) 3) = Some d"
proof -
  let ?a = "acquireConsistentHealthSnapshot (\<lambda>k. sources_of X (world k)) 3"
  obtain s where s: "projectSchedulerHealth X s = Inr h" "hs_doc s = the_jobs ?a" "hs_generatedAt s = now"
    "hs_canonicalPair s \<longrightarrow> aq_complete ?a" "hs_credentials s = the_credentials ?a"
    using assms(1) by (auto simp: read_health_def Let_def rbind_eq_Inr)
  obtain d where d: "trusted_document X s d"
    using project_complete[OF s(1) assms(2)] by blast
  then have "the_jobs ?a = Some d" "aq_complete ?a"
    using s(2,4) by (auto simp: trusted_document_def)
  moreover obtain k where "fi_jobs (world k) = Inr d"
    using the_jobs_read calculation(1) by blast
  ultimately show ?thesis
    using s d by (intro exI[of _ s] exI[of _ d]) auto
qed

end
