(* ===== verification/Readings.thy ===== *)
theory Readings
  imports HealthFacts Contracts Watchdog
begin

section \<open>Concrete readings of the health\<close>

text \<open>
  Five files that do not change, with a routing manifest that knows the owner of the one job, and what the
  projection makes of them: in general, and for the document of the instance with a run whose outcome is
  unknown.
\<close>

definition owned_routes :: manifest where
  "owned_routes = demo_routes\<lparr>mf_ownerTargets := [(''a1'', \<lparr>tg_channel = ''feishu'', tg_to = ''oc_owner''\<rparr>)]\<rparr>"

definition demo_commit :: string where
  "demo_commit = replicate 40 (CHR ''0'')"

definition demo_files :: "sdoc \<Rightarrow> files" where
  "demo_files d = \<lparr>fi_tokens = (\<lambda>_. (Some demo_sha, Some demo_sha)), fi_jobs = Inr d, fi_history = Inr (),
     fi_routing = Inr owned_routes, fi_incidents = Inr empty_istate, fi_credentials = Inr [''a1'']\<rparr>"

definition demo_reading :: "string option \<Rightarrow> sdoc \<Rightarrow> health res" where
  "demo_reading commitSha d = read_health demo_ext commitSha ''/store'' None 300000 (\<lambda>_. demo_files d)"

lemma demo_files_jobs [simp]: "fi_jobs (demo_files d) = Inr d"
  by (simp add: demo_files_def)

lemma owned_fields: "mf_jobFailureTargets owned_routes = []" "mf_ownerTargets owned_routes = [(''a1'', \<lparr>tg_channel = ''feishu'', tg_to = ''oc_owner''\<rparr>)]"
  by (simp_all add: owned_routes_def demo_routes_def)

lemma demo_owned: "validateRoutingManifest (manifest_val owned_routes) strict = Inr owned_routes"
  by (cases strict) (simp_all only:, code_simp+)

lemma demo_commit_ok: "is_commit_sha (Some demo_commit)" "starts_with_slash ''/store''"
  by code_simp+

lemma demo_acquired:
  assumes "validateCanonicalHealthAuthority X d = Inr ()"
  defines "a \<equiv> acquireConsistentHealthSnapshot (\<lambda>k. sources_of X (demo_files d)) 3"
  shows "aq_complete a" and "the_jobs a = Some d" and "the_routing a = manifest_val owned_routes"
    and "the_incidents a = Some empty_istate" and "the_credentials a = [''a1'']" and "end_token a ''routing'' = Some demo_sha"
    and "generationsComplete (aq_generations a)" and "aq_censusError a = None"
  unfolding a_def
  by (simp_all add: acquireConsistentHealthSnapshot_def eval_nat_numeral Let_def generations_steady steady_def sources_of_def
      read_as_def jobs_capture_def assms(1) demo_files_def captured_ok_def the_jobs_def the_routing_def the_incidents_def
      the_credentials_def end_token_def captured_values_def List.map_filter_simps generation_of_def generationsComplete_def)

definition demo_route :: "string \<times> route_state" where
  "demo_route = (''j1'', \<lparr>ro_class = ''JOB_FAILURE'', ro_ready = True, ro_source = ''owner'', ro_status = ''READY'',
     ro_targetRef = targetRef (Some \<lparr>tg_channel = ''feishu'', tg_to = ''oc_owner''\<rparr>)\<rparr>)"

lemma demo_job_route:
  assumes "j_id j = ''j1''" "j_agentId j = ''a1''"
  shows "job_route (manifest_val owned_routes) j = Inr demo_route"
  by (simp add: job_route_def resolveNotificationRoute_def demo_owned routed_def assms or_undefined_def demo_route_def
      routeSource_def owned_fields)

definition demo_health_snapshot :: "ext \<Rightarrow> sdoc \<Rightarrow> snapshot" where
  "demo_health_snapshot X d = \<lparr>hs_doc = Some d, hs_generatedAt = 300000, hs_credentials = [''a1''], hs_routes = [demo_route],
     hs_incidents = [], hs_runtimeFault = None, hs_canonicalPair = True,
     hs_generations = aq_generations (acquireConsistentHealthSnapshot (\<lambda>k. sources_of X (demo_files d)) 3),
     hs_censusError = None\<rparr>"

lemma demo_reads:
  assumes "validateCanonicalHealthAuthority X d = Inr ()" and "s_jobs d = [j]" and "j_id j = ''j1''" "j_agentId j = ''a1''"
    and "projectRow X (demo_health_snapshot X d) d True True j = Inr row"
  shows "\<exists>h. read_health X (Some demo_commit) ''/store'' None 300000 (\<lambda>_. demo_files d) = Inr h
    \<and> he_complete h \<and> he_jobs h = (if j_enabled j then [row] else []) \<and> he_findings h = (if j_enabled j then jr_findings row else [])"
proof -
  note a = demo_acquired[OF assms(1)]
  have "bindings_error (acquireConsistentHealthSnapshot (\<lambda>k. sources_of X (demo_files d)) 3) (Some d) 300000 = None"
    by (simp add: bindings_error_def a validateIncidentDeliveryBindings_def demo_sha_ok demo_owned rbind_def ensure_def
        is_safe_int_def max_safe_def empty_istate_def)
  moreover have "rmap (job_route (manifest_val owned_routes)) (s_jobs d) = Inr [demo_route]"
    using demo_job_route[OF assms(3,4)] by (simp add: assms(2) rbind_def)
  ultimately have "read_health X (Some demo_commit) ''/store'' None 300000 (\<lambda>_. demo_files d)
      = projectSchedulerHealth X (demo_health_snapshot X d)"
    by (simp add: read_health_def Let_def a demo_commit_ok rbind_def empty_istate_def demo_health_snapshot_def or_else_def)
  moreover have "fenceProjectionValid X (s_fences d) (s_occurrences d)"
    using assms(1) by (auto simp: validateCanonicalHealthAuthority_def rbind_eq_Inr ensure_eq_Inr)
  ultimately show ?thesis
    using assms(5) a(7) by (simp add: projectSchedulerHealth_def demo_health_snapshot_def assms(1,2) Let_def rbind_def)
qed

definition blocked_doc :: sdoc where
  "blocked_doc = unknown_doc\<lparr>s_jobs := [demo_job]\<rparr>"

lemma blocked_fields [simp]:
  "s_jobs blocked_doc = [demo_job]" "s_occurrences blocked_doc = [unknown_record]" "s_fences blocked_doc = s_fences unknown_doc"
  by (simp_all add: blocked_doc_def unknown_facts)

lemma demo_job_fields [simp]:
  "j_id demo_job = ''j1''" "j_agentId demo_job = ''a1''" "j_logicalKey demo_job = Some ''k1''" "j_enabled demo_job"
  "j_schedule demo_job = Every 60000 (Some 0)" "j_state demo_job = empty_state" "j_createdAtMs demo_job = 0"
  "j_revisionActivatedAtMs demo_job = Some 0"
  by (simp_all add: demo_job_def)

lemma blocked_accepted: "validateCanonicalHealthAuthority demo_ext blocked_doc = Inr ()"
proof -
  have "valid_doc blocked_doc"
    using unknown_facts(1,2) by (simp add: engine_inv_def valid_doc_def)
  then show ?thesis
    using demo_job_wf by (simp add: authority_accepts)
qed

lemma unknown_times: "o_endedAt unknown_record = Some 200000" "o_startedAt unknown_record = None" "o_executionOutcome unknown_record = None"
proof -
  have u: "unknown_record = move (outcome_transition demo_run demo_record (crash_class ''boom'') ''unknown'' 200000) demo_record"
    using unknown_shape(1) by (simp add: unknown_record_def)
  show "o_endedAt unknown_record = Some 200000" "o_startedAt unknown_record = None" "o_executionOutcome unknown_record = None"
    by (simp_all add: u outcome_transition_def plain_transition_def crash_class_def unknown_class_def demo_fields move_def)
qed

lemma blocked_record: "record_facts demo_ext now demo_job unknown_record = Inr [run_fact ''ADMISSION_BLOCKED_UNKNOWN'' demo_job unknown_record]"
  by (simp add: record_facts_def failed_facts_def stuck_facts_def unsettledUnknown_def unknown_facts unknown_times rbind_def)

lemma blocked_findings:
  "canonicalJobFindings demo_ext 300000 demo_job [unknown_record] [unknown_record] = Inr [run_fact ''ADMISSION_BLOCKED_UNKNOWN'' demo_job unknown_record]"
proof -
  have "missed_facts demo_ext 300000 demo_job [unknown_record] [unknown_record] = Inr []"
    by (simp add: missed_facts_def expected_run_def health_reference_def latestTerminalOccurrence_def unknown_facts
      isTerminalState_def activationBoundary_def HEALTH_GRACE_MS_def empty_state_def isTerminalRecord_def jobOccurrences_def
      computeEveryNext_def)
  moreover have "nextRunProbe demo_ext demo_job [unknown_record] 300000 = Inr None"
    by (simp add: nextRunProbe_def hasNonTerminalOccurrence_def unknown_facts isTerminalState_def isTerminalRecord_def jobOccurrences_def)
  ultimately show ?thesis
    by (simp add: canonicalJobFindings_def rbind_def blocked_record unsettledUnknown_def unknown_facts repeated_facts_def empty_state_def)
qed

lemma blocked_reading:
  "\<exists>h. read_health demo_ext (Some demo_commit) ''/store'' None 300000 (\<lambda>_. demo_files blocked_doc) = Inr h
    \<and> he_complete h \<and> he_findings h = [run_fact ''ADMISSION_BLOCKED_UNKNOWN'' demo_job unknown_record]"
proof -
  have "hs_generatedAt (demo_health_snapshot demo_ext blocked_doc) = 300000"
    by (simp add: demo_health_snapshot_def)
  then obtain row where "projectRow demo_ext (demo_health_snapshot demo_ext blocked_doc) blocked_doc True True demo_job = Inr row"
    "jr_findings row = [run_fact ''ADMISSION_BLOCKED_UNKNOWN'' demo_job unknown_record]"
    using blocked_findings by (simp add: projectRow_def Let_def jobOccurrences_def unknown_facts rbind_def)
  then show ?thesis
    using demo_reads[OF blocked_accepted] by fastforce
qed

subsection \<open>A healthy job and a failed run\<close>

text \<open>
  The instants a \<^verbatim>\<open>Date\<close> can hold, and their text in UTC by the Gregorian calendar, for the years of four
  digits.
\<close>

definition civil :: "int \<Rightarrow> int \<times> int \<times> int" where
  "civil days =
     (let z = days + 719468; era = z div 146097; doe = z mod 146097;
          yoe = (doe - doe div 1460 + doe div 36524 - doe div 146096) div 365;
          doy = doe - (365 * yoe + yoe div 4 - yoe div 100); mp = (5 * doy + 2) div 153;
          m = (if mp < 10 then mp + 3 else mp - 9)
      in (yoe + era * 400 + (if m \<le> 2 then 1 else 0), m, doy - (153 * mp + 2) div 5 + 1))"

definition digits :: "nat \<Rightarrow> int \<Rightarrow> string" where
  "digits k n = (let s = int_str n in replicate (k - length s) (CHR ''0'') @ s)"

definition utc_text :: "int \<Rightarrow> string" where
  "utc_text ms = (let (y, m, d) = civil (ms div 86400000); t = ms mod 86400000 in
     digits 4 y @ ''-'' @ digits 2 m @ ''-'' @ digits 2 d @ ''T'' @ digits 2 (t div 3600000) @ '':'' @ digits 2 (t div 60000 mod 60)
     @ '':'' @ digits 2 (t div 1000 mod 60) @ ''.'' @ digits 3 (t mod 1000) @ ''Z'')"

definition iso_ext :: ext where
  "iso_ext = demo_ext\<lparr>to_iso := (\<lambda>ms. if \<bar>ms\<bar> \<le> 8640000000000000 then Some (utc_text ms) else None)\<rparr>"

lemma iso_in_range: "\<bar>n\<bar> \<le> 8640000000000000 \<Longrightarrow> to_iso iso_ext n = Some (utc_text n)"
  by (simp add: iso_ext_def)

lemma utc_text_example: "utc_text 1700000000000 = ''2023-11-14T22:13:20.000Z''"
  by code_simp

definition ready_job :: job where
  "ready_job = demo_job\<lparr>j_state := empty_state\<lparr>st_nextRunAtMs := Some 360000\<rparr>\<rparr>"

definition ready_doc :: sdoc where
  "ready_doc = \<lparr>s_jobs = [ready_job], s_occurrences = [], s_fences = []\<rparr>"

lemma ready_doc_fields [simp]: "s_jobs ready_doc = [ready_job]" "s_occurrences ready_doc = []"
  by (simp_all add: ready_doc_def)

lemma ready_job_fields [simp]:
  "j_id ready_job = ''j1''" "j_agentId ready_job = ''a1''" "j_logicalKey ready_job = Some ''k1''" "j_enabled ready_job"
  "j_schedule ready_job = Every 60000 (Some 0)" "j_createdAtMs ready_job = 0" "j_revisionActivatedAtMs ready_job = Some 0"
  "st_nextRunAtMs (j_state ready_job) = Some 360000" "st_consecutiveErrors (j_state ready_job) = None"
  by (simp_all add: ready_job_def empty_state_def)

lemma ready_wf: "wf_job iso_ext ready_job"
  using demo_job_wf by (simp add: ready_job_def wf_job_def wf_schedule_def wf_state_def empty_state_def demo_job_def is_safe_int_def max_safe_def)

lemma ready_accepted: "validateCanonicalHealthAuthority iso_ext ready_doc = Inr ()"
proof -
  have "valid_doc ready_doc"
    by (simp add: ready_doc_def valid_doc_def ledger_ok_def rebuildFences_def)
  then show ?thesis
    using ready_wf by (simp add: authority_accepts ready_doc_def)
qed

lemma no_runs_simps [simp]:
  "hasNonTerminalOccurrence [] i = False" "latestTerminalOccurrence [] i = None" "jobOccurrences [] i = []"
  by (simp_all add: hasNonTerminalOccurrence_def latestTerminalOccurrence_def jobOccurrences_def)

lemma ready_findings: "canonicalJobFindings iso_ext 300000 ready_job [] [] = Inr []"
proof -
  have "computeNextRunAtMsV2 iso_ext ready_job [] 300000 = Some (Some 300000)"
  proof -
    have "naturalNextMs iso_ext ready_job None 300000 = Some 300000"
      by (simp add: naturalNextMs_def Let_def is_every_def activationBoundary_def computeEveryNext_def nonzero_def)
    then show ?thesis
      by (simp add: computeNextRunAtMsV2_def retryCandidate_def Let_def)
  qed
  then have "nextRunProbe iso_ext ready_job [] 300000 = Inr None"
    by (simp add: nextRunProbe_def rbind_def)
  then show ?thesis
    by (simp add: canonicalJobFindings_def rbind_def repeated_facts_def missed_facts_def expected_run_def HEALTH_GRACE_MS_def)
qed

lemma ready_reading:
  "\<exists>h row. read_health iso_ext (Some demo_commit) ''/store'' None 300000 (\<lambda>_. demo_files ready_doc) = Inr h
    \<and> he_complete h \<and> he_jobs h = [row] \<and> jr_jobId row = ''j1'' \<and> jr_classification row = Row_Healthy"
proof -
  have s: "hs_generatedAt (demo_health_snapshot iso_ext ready_doc) = 300000" "hs_credentials (demo_health_snapshot iso_ext ready_doc) = [''a1'']"
    "hs_routes (demo_health_snapshot iso_ext ready_doc) = [demo_route]" "hs_runtimeFault (demo_health_snapshot iso_ext ready_doc) = None"
    by (simp_all add: demo_health_snapshot_def)
  have "routeHealthy (route_of (demo_health_snapshot iso_ext ready_doc) ready_job)"
    by (simp add: route_of_def s demo_route_def routeHealthy_def)
  moreover have "scheduleReady iso_ext ready_job [] 300000"
    by (simp add: scheduleReady_def computeEveryNext_def)
  ultimately obtain row where "projectRow iso_ext (demo_health_snapshot iso_ext ready_doc) ready_doc True True ready_job = Inr row"
    "jr_jobId row = ''j1''" "jr_classification row = Row_Healthy"
    using ready_findings by (simp add: projectRow_def Let_def rbind_def s row_classify_def)
  then show ?thesis
    using demo_reads[OF ready_accepted] by fastforce
qed

definition failed_record :: occurrence where
  "failed_record = move ((plain_transition Failed 200000 ''boom'')\<lparr>t_endedAt := Some 200000, t_executionOutcome := Some Failed,
     t_terminalEvidence := Some \<lparr>te_kind = ''turn-terminal'', te_detailRef = ''boom''\<rparr>\<rparr>) demo_record"

definition failed_doc :: sdoc where
  "failed_doc = \<lparr>s_jobs = [demo_job], s_occurrences = [failed_record], s_fences = []\<rparr>"

lemma failed_doc_fields [simp]: "s_jobs failed_doc = [demo_job]" "s_occurrences failed_doc = [failed_record]"
  by (simp_all add: failed_doc_def)

lemma failed_record_fields [simp]:
  "o_state failed_record = Failed" "o_executionOutcome failed_record = Some Failed" "o_endedAt failed_record = Some 200000"
  "o_startedAt failed_record = None" "o_jobId failed_record = ''j1''" "o_kind failed_record = Natural" "o_retryOf failed_record = None"
  by (simp_all add: failed_record_def plain_transition_def demo_fields demo_candidate_def move_def)

lemma failed_valid: "valid_doc failed_doc"
proof -
  have "valid_occ demo_record"
    using admitted_inv by (simp add: engine_inv_def valid_doc_def ledger_ok_def admitted_doc_def)
  moreover have "fit_transition demo_record ((plain_transition Failed 200000 ''boom'')\<lparr>t_endedAt := Some 200000, t_executionOutcome := Some Failed,
     t_terminalEvidence := Some \<lparr>te_kind = ''turn-terminal'', te_detailRef = ''boom''\<rparr>\<rparr>)"
    by (simp add: fit_transition_def plain_transition_def demo_fields isTerminalState_def terminal_evidence_kinds_def)
  ultimately have "valid_occ failed_record"
    unfolding failed_record_def by (rule move_valid)
  then show ?thesis
    by (simp add: failed_doc_def valid_doc_def ledger_ok_def rebuildFences_def isUnresolvedUnknown_def)
qed

lemma failed_accepted: "validateCanonicalHealthAuthority iso_ext failed_doc = Inr ()"
proof -
  have "wf_job iso_ext demo_job"
    using demo_job_wf by (simp add: wf_job_def wf_schedule_def)
  then show ?thesis
    using failed_valid by (simp add: authority_accepts failed_doc_def)
qed

lemma failed_findings: "\<exists>fs. canonicalJobFindings iso_ext 300000 demo_job [failed_record] [failed_record] = Inr fs"
proof -
  have iso: "isoTime iso_ext 200000 = Inr (utc_text 200000)"
    by (simp add: isoTime_def iso_in_range)
  obtain probe where "nextRunProbe iso_ext demo_job [failed_record] 300000 = Inr probe"
  proof -
    obtain c where "retryCandidate demo_job [failed_record] 300000 = Some c"
      using retryCandidate_returns[of "[failed_record]" demo_job 300000] failed_valid by (auto simp: valid_doc_def ledger_ok_def)
    then obtain t where t: "computeNextRunAtMsV2 iso_ext demo_job [failed_record] 300000 = Some t"
      by (simp add: computeNextRunAtMsV2_def Let_def)
    have "\<exists>probe. nextRunProbe iso_ext demo_job [failed_record] 300000 = Inr probe"
      unfolding nextRunProbe_def t returns_simps rbind_Inr by (split if_split) blast
    then show ?thesis
      using that by blast
  qed
  moreover have "\<exists>missed. missed_facts iso_ext 300000 demo_job [] [failed_record] = Inr missed"
  proof (cases "expected_run iso_ext demo_job [failed_record]")
    case (Some t)
    then have "computeNextRunAtMs iso_ext (Every 60000 (Some 0)) (health_reference demo_job [failed_record]) ''j1'' (Some 0) = Some t"
      by (simp add: expected_run_def empty_state_def)
    from least_slot[OF _ this refl] have "0 \<le> t"
      by (simp add: on_grid_def)
    then show ?thesis
      using Some by (simp add: missed_facts_def HEALTH_GRACE_MS_def)
  qed (simp add: missed_facts_def)
  then obtain missed where "missed_facts iso_ext 300000 demo_job [] [failed_record] = Inr missed" ..
  ultimately show ?thesis
    by (simp add: canonicalJobFindings_def record_facts_def failed_facts_def stuck_facts_def iso unsettledUnknown_def)
qed

lemma failed_reading:
  "\<exists>h row. read_health iso_ext (Some demo_commit) ''/store'' None 300000 (\<lambda>_. demo_files failed_doc) = Inr h
    \<and> he_complete h \<and> he_jobs h = [row] \<and> jr_jobId row = ''j1''"
proof -
  have "hs_generatedAt (demo_health_snapshot iso_ext failed_doc) = 300000"
    by (simp add: demo_health_snapshot_def)
  then obtain row where "projectRow iso_ext (demo_health_snapshot iso_ext failed_doc) failed_doc True True demo_job = Inr row"
    "jr_jobId row = ''j1''"
    using failed_findings by (auto simp: projectRow_def Let_def rbind_def jobOccurrences_def)
  then show ?thesis
    using demo_reads[OF failed_accepted] by fastforce
qed

end
