(* ===== verification/Closing.thy ===== *)
theory Closing
  imports HealthFacts Quiet
begin

section \<open>Closed incidents of a run\<close>

text \<open>
  An incident about one occurrence is never opened again. What a watchdog run may do to the state of the
  incidents is the step relation \<open>watchdog_step\<close>: an observation with any findings, and the two changes a
  delivery makes.
\<close>

inductive watchdog_step :: "istate \<Rightarrow> istate \<Rightarrow> bool" where
  observed: "updateAlertState X le now owns producer st findings = Inr (st', notes) \<Longrightarrow> watchdog_step st st'"
| bound: "bindNotificationDelivery st key binding now = Inr st' \<Longrightarrow> watchdog_step st st'"
| marked: "markNotificationDelivery st key delivery now = Inr st' \<Longrightarrow> watchdog_step st st'"

inductive_cases watchdog_stepE: "watchdog_step st st'"

text \<open>The lifecycle of the incident with a root, and the keys of all notifications about it.\<close>

definition lifecycle_at :: "istate \<Rightarrow> string \<Rightarrow> lifecycle option" where
  "lifecycle_at st k = map_option i_lifecycle (find_incident st k)"

definition told :: "istate \<Rightarrow> string \<Rightarrow> string list" where
  "told st k = map n_key (filter (\<lambda>n. n_root n = k) (st_outbox st))"

definition same_about :: "string \<Rightarrow> istate \<Rightarrow> istate \<Rightarrow> bool" where
  "same_about k st st' \<longleftrightarrow> find_incident st' k = find_incident st k \<and> told st' k = told st k"

lemma same_about_refl [simp]: "same_about k st st"
  by (simp add: same_about_def)

lemma same_about_trans: "same_about k a b \<Longrightarrow> same_about k b c \<Longrightarrow> same_about k a c"
  by (simp add: same_about_def)

lemma told_put [simp]: "told (put_incident r st) k = told st k"
  by (simp add: told_def put_incident_def)

lemma told_emit: "i_root r \<noteq> k \<Longrightarrow> told (fst (emit X kind now r acc)) k = told (fst acc) k"
  by (cases acc) (simp add: told_def emit_def Let_def put_outbox_def put_incident_def transitionIntent_def transitioned_def)

lemma emit_other: "i_root r \<noteq> k \<Longrightarrow> same_about k (fst acc) (fst (emit X kind now r acc))"
  by (simp add: same_about_def told_emit)

lemma acknowledge_other_about: "rt \<noteq> k \<Longrightarrow> same_about k (fst acc) (fst (acknowledge X now acks rt acc))"
  by (auto simp: acknowledge_def closed_as_def dest!: find_incident_root intro!: emit_other split: option.split)

lemma step_other_about:
  assumes "ci_identity c \<noteq> k"
  shows "same_about k (fst acc) (fst (incident_step X now acks producer c acc))"
proof (cases "find_incident (fst acc) (ci_identity c)")
  case None
  let ?opened = "emit X L_Open now (open_record now producer 1 c) acc"
  have "same_about k (fst acc) (fst ?opened)"
    using assms by (intro emit_other) (simp add: open_record_def)
  then show ?thesis
    using None acknowledge_other_about[OF assms, of ?opened] same_about_trans by (auto simp: incident_step_def)
next
  case (Some r)
  have root: "i_root (seen_again now c r) = ci_identity c"
    using find_incident_root[OF Some] by simp
  have "same_about k (fst acc) (fst (put_incident (seen_again now c r) (fst acc), snd acc))"
    using assms root by (simp add: same_about_def)
  then show ?thesis
    using Some assms acknowledge_other_about[OF assms, of "(put_incident (seen_again now c r) (fst acc), snd acc)"]
    by (auto simp: incident_step_def open_record_def intro: emit_other same_about_trans)
qed

text \<open>A run whose finding is reported again leaves its closed incident alone.\<close>

lemma step_closed_about:
  assumes "is_occurrence_root k" and "lifecycle_at (fst acc) k = Some l" and "l \<noteq> L_Open"
  shows "same_about k (fst acc) (fst (incident_step X now acks producer c acc))"
proof (cases "ci_identity c = k")
  case True
  then show ?thesis
    using assms by (auto simp: incident_step_def lifecycle_at_def)
qed (rule step_other_about)

lemma recover_other_about: "i_root r \<noteq> k \<or> i_lifecycle r \<noteq> L_Open \<Longrightarrow> same_about k (fst acc) (fst (recover_step X now seen owns r acc))"
  by (auto simp: recover_step_def closed_as_def intro: emit_other)

lemma same_lifecycle: "same_about k st st' \<Longrightarrow> lifecycle_at st' k = lifecycle_at st k"
  by (simp add: same_about_def lifecycle_at_def)

lemma fold_about:
  assumes "\<And>x acc. x \<in> set xs \<Longrightarrow> lifecycle_at (fst acc) k = Some l \<Longrightarrow> same_about k (fst acc) (fst (f x acc))"
    and "lifecycle_at (fst acc) k = Some l"
  shows "same_about k (fst acc) (fst (fold f xs acc))"
  using assms
proof (induction xs arbitrary: acc)
  case (Cons x xs)
  have first: "same_about k (fst acc) (fst (f x acc))"
    using Cons.prems by simp
  then have "same_about k (fst (f x acc)) (fst (fold f xs (f x acc)))"
    using Cons.prems same_lifecycle[OF first] by (intro Cons.IH) simp_all
  then show ?case
    using first same_about_trans by auto
qed simp

lemma update_closed_about:
  assumes "is_occurrence_root k" and "lifecycle_at st k = Some l" and "l \<noteq> L_Open" and "distinct (map i_root (st_incidents st))"
  shows "same_about k st (fst (updateIncidentState X now acks owns producer st cs))"
proof -
  let ?acc = "fold (incident_step X now acks producer) cs (st, [])"
  have one: "same_about k st (fst ?acc)"
    using fold_about[of cs k l "incident_step X now acks producer" "(st, [])"] step_closed_about[OF assms(1) _ assms(3)] assms(2)
    by simp
  have d: "distinct (map i_root (st_incidents (fst ?acc)))"
    by (rule distinct_update(1)[OF assms(4)])
  have closed: "i_root r \<noteq> k \<or> i_lifecycle r \<noteq> L_Open" if "r \<in> set (st_incidents (fst ?acc))" for r
  proof (cases "i_root r = k")
    case True
    then have "find_incident (fst ?acc) k = Some r"
      using find_key_distinct[OF d that] by (simp add: find_incident_def)
    then have "lifecycle_at (fst ?acc) k = Some (i_lifecycle r)"
      by (simp add: lifecycle_at_def)
    then show ?thesis
      using same_lifecycle[OF one] assms(2,3) by simp
  qed simp
  have "lifecycle_at (fst ?acc) k = Some l"
    using same_lifecycle[OF one] assms(2) by simp
  then have "same_about k (fst ?acc) (fst (fold (recover_step X now (map ci_identity cs) owns) (st_incidents (fst ?acc)) ?acc))"
    using closed by (intro fold_about[where l = l]) (auto intro: recover_other_about)
  then show ?thesis
    using one same_about_trans by (auto simp: updateIncidentState_def Let_def)
qed

text \<open>The changes a delivery makes keep the lifecycle and the keys.\<close>

lemma told_update_intent:
  assumes "\<And>n. n_key (f n) = n_key n \<and> n_incident (f n) = n_incident n"
  shows "told (update_intent key f st) k = told st k"
proof -
  have "map n_key (filter (\<lambda>n. n_root n = k) (update_first p f ns)) = map n_key (filter (\<lambda>n. n_root n = k) ns)" for p ns
    using assms by (induction ns) auto
  then show ?thesis
    by (simp add: told_def update_intent_def)
qed

lemma lifecycle_update_first:
  assumes "\<And>r. i_of (g r) = i_of r \<and> i_lifecycle (g r) = i_lifecycle r"
  shows "map_option i_lifecycle (find (\<lambda>r. i_root r = k) (update_first p g rs)) = map_option i_lifecycle (find (\<lambda>r. i_root r = k) rs)"
  using assms by (induction rs) auto

lemma bind_keeps:
  assumes "bindNotificationDelivery st key b now = Inr st'"
  shows "lifecycle_at st' k = lifecycle_at st k" and "told st' k = told st k" and "map i_root (st_incidents st') = map i_root (st_incidents st)"
proof -
  obtain f where "st' = update_intent key f st" "\<And>n. n_key (f n) = n_key n \<and> n_incident (f n) = n_incident n"
    using assms by (auto simp: bindNotificationDelivery_def split: option.splits if_splits)
  then show "lifecycle_at st' k = lifecycle_at st k" "told st' k = told st k" "map i_root (st_incidents st') = map i_root (st_incidents st)"
    by (simp_all add: told_update_intent) (simp_all add: lifecycle_at_def update_intent_def find_incident_def)
qed

lemma mark_keeps:
  assumes "markNotificationDelivery st key delivery now = Inr st'"
  shows "lifecycle_at st' k = lifecycle_at st k" and "told st' k = told st k" and "map i_root (st_incidents st') = map i_root (st_incidents st)"
proof -
  obtain n where st': "st' = (update_intent key (marked delivery now) st)\<lparr>st_incidents :=
      update_first (\<lambda>r. i_root r = n_root n) (mark_record delivery n) (st_incidents st)\<rparr>"
    using assms by (auto simp: markNotificationDelivery_def split: option.splits if_splits)
  show "lifecycle_at st' k = lifecycle_at st k"
    by (simp add: st' lifecycle_at_def find_incident_def lifecycle_update_first)
  have "told st' k = told (update_intent key (marked delivery now) st) k"
    by (simp add: st' told_def)
  then show "told st' k = told st k"
    by (simp add: told_update_intent marked_def)
  have "map i_root (update_first p (mark_record delivery n) rs) = map i_root rs" for p rs
    by (induction rs) auto
  then show "map i_root (st_incidents st') = map i_root (st_incidents st)"
    by (simp add: st')
qed

lemma step_keeps_closed:
  assumes "watchdog_step st st'" and "is_occurrence_root k" and "lifecycle_at st k = Some l" and "l \<noteq> L_Open"
    and "distinct (map i_root (st_incidents st))"
  shows "lifecycle_at st' k = Some l \<and> told st' k = told st k \<and> distinct (map i_root (st_incidents st'))"
  using assms(1)
proof (cases rule: watchdog_step.cases)
  case (observed X le now owns producer findings intents)
  then obtain cs where cs: "updateIncidentState X now (acknowledged_roots cs) owns producer st cs = (st', intents)"
    by (auto simp: updateAlertState_def rbind_eq_Inr)
  then show ?thesis
    using update_closed_about[OF assms(2-5), of X now "acknowledged_roots cs" owns producer cs]
      distinct_update(2)[OF assms(5), of X now "acknowledged_roots cs" owns producer cs] assms(3)
    by (auto simp: same_about_def lifecycle_at_def)
next
  case (bound key b now)
  then show ?thesis
    using bind_keeps[OF bound] assms(3,5) by simp
next
  case (marked key delivery now)
  then show ?thesis
    using mark_keeps[OF marked] assms(3,5) by simp
qed

lemma steps_keep_closed:
  assumes "watchdog_step\<^sup>*\<^sup>* st st'" and "is_occurrence_root k" and "lifecycle_at st k = Some l" and "l \<noteq> L_Open"
    and "distinct (map i_root (st_incidents st))"
  shows "lifecycle_at st' k = Some l \<and> told st' k = told st k \<and> distinct (map i_root (st_incidents st'))"
  using assms(1)
proof (induction rule: rtranclp_induct)
  case base
  then show ?case
    using assms(3,5) by simp
next
  case (step a b)
  then show ?case
    using step_keeps_closed[OF step.hyps(2) assms(2) _ assms(4)] by simp
qed

end
