(* ===== verification/Vigilance.thy ===== *)
theory Vigilance
  imports Closing
begin

section \<open>What the watchdog sees and tells\<close>

text \<open>
  The properties that join the document of the scheduler, its health projection, the findings of a run and
  the incidents.
\<close>

subsection \<open>From a finding to its incident\<close>

definition stuck_root :: "job \<Rightarrow> occurrence \<Rightarrow> string" where
  "stuck_root j r = ''occurrence|RUN_STUCK_OUTCOME_UNKNOWN|'' @ j_id j @ ''|'' @ o_occurrenceId r"

definition health_root :: string where
  "health_root = ''control|SCHEDULER_RUNTIME_UNHEALTHY|runtime|scheduler-health''"

lemma stuck_root_occurrence [simp]: "is_occurrence_root (stuck_root j r)"
  by (simp add: is_occurrence_root_def stuck_root_def)

lemma root_of_stuck: "root_of (run_fact ''ADMISSION_BLOCKED_UNKNOWN'' j r) = Inr k \<Longrightarrow> k = stuck_root j r"
  by (auto simp: root_of_def run_fact_def rootInputFor_def occ_root_def occurrenceIdentity_def or_else_def
      incidentRootIdentity_def rbind_eq_Inr nonEmptyField_def stuck_root_def split: if_splits)

lemma root_of_health: "root_of (runtime_fact ''scheduler-health'' reason) = Inr health_root"
proof -
  have "rootInputFor (runtime_fact ''scheduler-health'' reason) = \<lparr>rin_cause = ''SCHEDULER_RUNTIME_UNHEALTHY'',
      rin_jobId = None, rin_occurrenceId = None, rin_jobRevision = None, rin_subjectKind = Some ''runtime'',
      rin_stableSubjectId = Some ''scheduler-health''\<rparr>"
    by (simp add: rootInputFor_def runtime_fact_def occurrence_classes_def job_classes_def or_else_def)
  moreover have "js_trim ''SCHEDULER_RUNTIME_UNHEALTHY'' \<noteq> []" "js_trim ''runtime'' \<noteq> []" "js_trim ''scheduler-health'' \<noteq> []"
    by code_simp+
  ultimately show ?thesis
    by (simp add: root_of_def incidentRootIdentity_def nonEmptyField_def health_root_def)
qed

lemma finding_fields [simp]:
  "ft_class (annotate_finding jobs f) = ft_class f" "ft_disposition (annotate_finding jobs f) = ft_disposition f"
  "ft_occurrenceId (annotate_finding jobs f) = ft_occurrenceId f" "ft_runId (annotate_finding jobs f) = ft_runId f"
  "ft_jobId (annotate_finding jobs f) = ft_jobId f" "ft_derived (annotate_finding jobs f) = ft_derived f"
  "ft_jobRevision (annotate_finding jobs f) = ft_jobRevision f" "ft_subjectKind (annotate_finding jobs f) = ft_subjectKind f"
  "ft_stableSubjectId (annotate_finding jobs f) = ft_stableSubjectId f"
  by (simp_all add: annotate_finding_def split: option.split)

lemma annotate_occurrence [simp]: "occurrenceIdentity (annotate_finding jobs f) = occurrenceIdentity f"
  by (cases "ft_occurrenceId f") (simp_all add: occurrenceIdentity_def or_else_def)

text \<open>A job's own key is only the subject of a finding that names no job.\<close>

lemma annotate_root [simp]: "root_of (annotate_finding jobs f) = root_of f"
proof (cases "ft_jobId f")
  case None
  then show ?thesis by (simp add: annotate_finding_def)
next
  case (Some i)
  then have "or_else (ft_jobId f) (or_else (ft_logicalKey (annotate_finding jobs f)) z) = or_else (ft_jobId f) (or_else (ft_logicalKey f) z)" for z
    by (simp add: or_else_def)
  then have "rootInputFor (annotate_finding jobs f) = rootInputFor f"
    by (simp only: rootInputFor_def occ_root_def finding_fields annotate_occurrence)
  then show ?thesis by (simp add: root_of_def)
qed

lemma step_reports:
  assumes "ci_identity c \<notin> set acks"
  shows "lifecycle_at (fst (incident_step X now acks producer c acc)) (ci_identity c) = Some L_Open
    \<or> is_occurrence_root (ci_identity c) \<and> (\<exists>l. lifecycle_at (fst acc) (ci_identity c) = Some l \<and> l \<noteq> L_Open)"
proof (cases "find_incident (fst acc) (ci_identity c)")
  case None
  then show ?thesis
    using assms by (simp add: incident_step_def acknowledge_def lifecycle_at_def open_record_def transitioned_def)
next
  case (Some r)
  then show ?thesis
    using assms find_incident_root[OF Some]
    by (auto simp: incident_step_def acknowledge_def lifecycle_at_def seen_again_def open_record_def transitioned_def)
qed

lemma steps_other_about:
  assumes "\<And>c. c \<in> set cs \<Longrightarrow> ci_identity c \<noteq> k"
  shows "same_about k (fst acc) (fst (fold (incident_step X now acks producer) cs acc))"
  using assms
proof (induction cs arbitrary: acc)
  case (Cons c cs)
  have "same_about k (fst acc) (fst (incident_step X now acks producer c acc))"
    using Cons.prems by (intro step_other_about) simp
  then show ?case
    using Cons same_about_trans by simp
qed simp

lemma reported_root:
  assumes "updateAlertState X le now owns producer st fs = Inr (st', notes)" and "f \<in> set fs" and "root_of f = Inr k"
    and "\<And>g. g \<in> set fs \<Longrightarrow> root_of g = Inr k \<Longrightarrow> \<not> operator_reconciled g"
    and "distinct (map i_root (st_incidents st))"
  shows "lifecycle_at st' k = Some L_Open \<or> is_occurrence_root k \<and> (\<exists>l. lifecycle_at st k = Some l \<and> l \<noteq> L_Open)"
proof -
  obtain cs where cs: "compileIncidents le fs = Inr cs" "updateIncidentState X now (acknowledged_roots cs) owns producer st cs = (st', notes)"
    using assms(1) by (auto simp: updateAlertState_def rbind_eq_Inr)
  have inv: "compiled_inv fs cs"
    by (rule compileIncidents_inv[OF cs(1)])
  then obtain c where c: "c \<in> set cs" "ci_identity c = k"
    using assms(2,3) by (auto simp: compiled_inv_def)
  have d: "distinct (map ci_identity cs)"
    using inv by (simp add: compiled_inv_def)
  obtain xs ys where split: "cs = xs @ c # ys"
    using c(1) by (meson split_list)
  have other: "ci_identity e \<noteq> k" if "e \<in> set xs \<or> e \<in> set ys" for e
    using d that c(2) by (auto simp: split image_iff)
  have acks: "k \<notin> set (acknowledged_roots cs)"
  proof
    assume "k \<in> set (acknowledged_roots cs)"
    then obtain e g where e: "e \<in> set cs" "ci_identity e = k" "g \<in> set (ci_facts e)" "operator_reconciled g"
      by (auto simp: acknowledged_roots_def list_ex_iff)
    then have "g \<in> set fs" "root_of g = Inr k"
      using inv by (auto simp: compiled_inv_def compiled_ok_def)
    then show False
      using assms(4) e(4) by blast
  qed
  let ?step = "incident_step X now (acknowledged_roots cs) producer"
  let ?a = "fold ?step xs (st, [])"
  let ?b = "?step c ?a"
  let ?acc = "fold ?step cs (st, [])"
  have before: "same_about k st (fst ?a)"
    using steps_other_about[of xs k "(st, [])"] other by simp
  have after: "same_about k (fst ?b) (fst ?acc)"
    using steps_other_about[of ys k ?b] other by (simp add: split)
  have "find_incident st' k = find_incident (fst ?acc) k"
    using recover_steps_find[OF distinct_update(1)[OF assms(5)], of X now "map ci_identity cs" owns X now "acknowledged_roots cs" producer cs ?acc k]
      cs(2) c by (force simp: updateIncidentState_def Let_def split: option.splits)
  then have "lifecycle_at st' k = lifecycle_at (fst ?b) k"
    using same_lifecycle[OF after] by (simp add: lifecycle_at_def)
  then show ?thesis
    using step_reports[of c "acknowledged_roots cs" X now producer ?a] acks c(2) same_lifecycle[OF before] by simp
qed

subsection \<open>Dispositions\<close>

lemma bare_disposition [simp]:
  "ft_disposition (job_fact c j) = None" "ft_disposition (run_fact c j r) = None" "ft_class (run_fact c j r) = c"
  "ft_disposition (drift_fact c e j) = None" "ft_disposition (plain_unhealthy m) = None" "ft_disposition (runtime_fact s' m) = None"
  by (simp_all add: job_fact_def run_fact_def drift_fact_def plain_unhealthy_def runtime_fact_def)

lemma record_facts_disposition:
  "record_facts X now j r = Inr fs \<Longrightarrow> f \<in> set fs \<Longrightarrow> ft_disposition f \<noteq> None \<Longrightarrow> ft_class f = ''RUN_FAILED''"
  by (auto simp: record_facts_def failed_facts_def stuck_facts_def rbind_eq_Inr split: option.splits if_splits)

lemma missed_facts_disposition: "missed_facts X now j rs occs = Inr fs \<Longrightarrow> f \<in> set fs \<Longrightarrow> ft_disposition f = None"
  by (cases "expected_run X j occs") (auto simp: missed_facts_def rbind_eq_Inr Let_def split: if_splits)

lemma repeated_facts_disposition: "f \<in> set (repeated_facts j) \<Longrightarrow> ft_disposition f = None"
  by (cases "st_consecutiveErrors (j_state j)") (simp_all add: repeated_facts_def split: if_splits)

lemma rmap_mem_back: "rmap f xs = Inr ys \<Longrightarrow> y \<in> set ys \<Longrightarrow> \<exists>x \<in> set xs. f x = Inr y"
  by (induction xs arbitrary: ys) (auto simp: rbind_eq_Inr)

lemma job_findings_disposition:
  assumes "canonicalJobFindings X now j records occs = Inr fs" and "f \<in> set fs" and "ft_disposition f \<noteq> None"
  shows "ft_class f = ''RUN_FAILED''"
proof -
  obtain probe fss missed where parts: "rmap (record_facts X now j) records = Inr fss"
    "missed_facts X now j (filter unsettledUnknown records) occs = Inr missed"
    "fs = (case probe of Some reason \<Rightarrow> [(job_fact ''JOB_CONFIGURATION_INVALID'' j)\<lparr>ft_reason := Some reason\<rparr>] | None \<Rightarrow> [])
       @ concat fss @ repeated_facts j @ missed"
    using assms(1) by (auto simp: canonicalJobFindings_def rbind_eq_Inr)
  have "f \<notin> set missed" "f \<notin> set (repeated_facts j)"
    using missed_facts_disposition[OF parts(2), of f] repeated_facts_disposition[of f j] assms(3) by auto
  moreover have "f \<notin> set (case probe of Some reason \<Rightarrow> [(job_fact ''JOB_CONFIGURATION_INVALID'' j)\<lparr>ft_reason := Some reason\<rparr>] | None \<Rightarrow> [])"
    using assms(3) by (cases probe) auto
  ultimately obtain gs where gs: "gs \<in> set fss" "f \<in> set gs"
    using assms(2) by (auto simp: parts(3))
  then obtain r where "record_facts X now j r = Inr gs"
    using rmap_mem_back[OF parts(1)] by blast
  then show ?thesis
    using record_facts_disposition gs(2) assms(3) by blast
qed

lemma project_findings:
  assumes "projectSchedulerHealth X s = Inr h"
  shows "he_findings h = concat (map jr_findings (he_jobs h))
    @ (case hs_doc s of None \<Rightarrow> [] | Some _ \<Rightarrow> (case hs_runtimeFault s of Some reason \<Rightarrow> [runtime_fact ''scheduler-runtime'' reason] | None \<Rightarrow> []))"
  using assms by (cases "hs_doc s") (auto simp: projectSchedulerHealth_def Let_def rbind_eq_Inr)

lemma health_findings_cases:
  assumes "projectSchedulerHealth X s = Inr h" and "f \<in> set (he_findings h)"
  shows "(\<exists>row \<in> set (he_jobs h). f \<in> set (jr_findings row)) \<or> (\<exists>reason. f = runtime_fact ''scheduler-runtime'' reason)"
proof (cases "\<exists>row \<in> set (he_jobs h). f \<in> set (jr_findings row)")
  case False
  then have "f \<in> set (case hs_doc s of None \<Rightarrow> [] | Some _ \<Rightarrow> (case hs_runtimeFault s of Some reason \<Rightarrow> [runtime_fact ''scheduler-runtime'' reason] | None \<Rightarrow> []))"
    using assms(2) by (simp add: project_findings[OF assms(1)])
  then show ?thesis
    by (cases "hs_doc s"; cases "hs_runtimeFault s") auto
qed simp

lemma health_findings_disposition:
  assumes "projectSchedulerHealth X s = Inr h" and "he_complete h" and "f \<in> set (he_findings h)" and "ft_disposition f \<noteq> None"
  shows "ft_class f = ''RUN_FAILED''"
proof -
  obtain row where row: "row \<in> set (he_jobs h)" "f \<in> set (jr_findings row)"
    using health_findings_cases[OF assms(1,3)] assms(4) by force
  obtain d where "rmap (projectRow X s d True True) (filter j_enabled (s_jobs d)) = Inr (he_jobs h)"
    using project_complete[OF assms(1,2)] by blast
  then obtain j where "projectRow X s d True True j = Inr row"
    using rmap_mem_back[OF _ row(1)] by blast
  from job_findings_disposition[OF row_parts(3)[OF this TrueI] row(2) assms(4)] show ?thesis .
qed

text \<open>A finding about no run and without a disposition.\<close>

definition plain_fact :: "fact \<Rightarrow> bool" where
  "plain_fact f \<longleftrightarrow> ft_disposition f = None \<and> ft_occurrenceId f = None \<and> ft_runId f = None"

lemma plain_facts [simp]:
  "plain_fact (drift_fact c e j)" "plain_fact (bare_fact c)" "plain_fact (plain_unhealthy m)" "plain_fact (runtime_fact s' m)"
  "plain_fact (f\<lparr>ft_reason := a\<rparr>) = plain_fact f" "plain_fact (f\<lparr>ft_expected := a\<rparr>) = plain_fact f"
  "plain_fact (f\<lparr>ft_actual := a\<rparr>) = plain_fact f" "plain_fact (f\<lparr>ft_logicalKey := a\<rparr>) = plain_fact f"
  "plain_fact (f\<lparr>ft_jobIds := b\<rparr>) = plain_fact f" "plain_fact (f\<lparr>ft_jobId := a\<rparr>) = plain_fact f"
  "plain_fact (f\<lparr>ft_operation := a\<rparr>) = plain_fact f" "plain_fact (f\<lparr>ft_evidenceAt := a\<rparr>) = plain_fact f"
  by (simp_all add: plain_fact_def drift_fact_def plain_unhealthy_def runtime_fact_def)

lemma plain_desired: "list_all plain_fact (desired_facts X jobs e)"
proof -
  consider "filter (\<lambda>j. j_logicalKey j = Some (dj_logicalKey e)) jobs = []"
    | j where "filter (\<lambda>j. j_logicalKey j = Some (dj_logicalKey e)) jobs = [j]"
    | j j' rest where "filter (\<lambda>j. j_logicalKey j = Some (dj_logicalKey e)) jobs = j # j' # rest"
    by (metis list.exhaust)
  then show ?thesis
    by cases (simp_all add: desired_facts_def schedule_drift_def Let_def)
qed

lemma plain_desired_outcome: "list_all plain_fact (fst (desired_outcome X i))" "list_all plain_fact (snd (desired_outcome X i))"
proof -
  have "list_all plain_fact (evaluateDesiredState X jobs desired)" for jobs desired
    using plain_desired by (simp add: evaluateDesiredState_def list_all_iff)
  then show "list_all plain_fact (fst (desired_outcome X i))" "list_all plain_fact (snd (desired_outcome X i))"
    by (simp_all add: desired_outcome_def split: sum.split)
qed

lemma plain_evidence:
  assumes "evaluateReconciliationEvidence X now es = Inr fs"
  shows "list_all plain_fact fs"
proof -
  have "plain_fact f" if "f \<in> set fs" for f
    using rmap_mem_back[OF assms[unfolded evaluateReconciliationEvidence_def] that] by (auto simp: rbind_eq_Inr)
  then show ?thesis
    by (simp add: list_all_iff)
qed

lemma w1_findings_cases:
  assumes "f \<in> set (w1_findings X now i)"
  shows "plain_fact f \<or> (\<exists>h. wi_health i = Inr h \<and> he_complete h \<and> f \<in> set (he_findings h))"
proof -
  have "list_all plain_fact (store_facts i)" "list_all plain_fact (evaluateCredentialProvider (wi_credentialBytes i) (wi_credentialFile i))"
    by (simp_all add: store_facts_def evaluateCredentialProvider_def Let_def split: sum.split option.split)
  moreover have "list_all plain_fact (case evaluateReconciliationEvidence X now (wi_evidence i) of Inr fs \<Rightarrow> fs | Inl _ \<Rightarrow> [])"
    using plain_evidence by (simp split: sum.split)
  moreover have "plain_fact f \<or> (\<exists>h. wi_health i = Inr h \<and> he_complete h \<and> f \<in> set (he_findings h))"
    if "f \<in> set (health_facts i (snd (desired_outcome X i)))"
    using that plain_desired_outcome(2)[of X i] by (auto simp: health_facts_def list_all_iff split: sum.splits if_splits)
  ultimately show ?thesis
    using assms plain_desired_outcome(1)[of X i] unfolding w1_findings_def list_all_iff by (auto split: if_splits)
qed

end
