(* ===== verification/HealthGuarantees.thy ===== *)
theory HealthGuarantees
  imports Readings Vigilance
begin

section \<open>What the health projection guarantees\<close>

text \<open>
  A complete projection comes from one undisturbed reading, calls a job healthy only when nothing keeps it
  from running, remembers every failed run, and shows a caller nothing about the jobs of others.
\<close>

subsection \<open>The findings of one job\<close>

lemma job_fact_subject [simp]:
  "ft_subjectKind (job_fact c j) = None" "ft_jobId (job_fact c j) = Some (j_id j)"
  "ft_subjectKind (run_fact c j r) = None" "ft_jobId (run_fact c j r) = Some (j_id j)"
  by (simp_all add: job_fact_def run_fact_def)

definition about_job :: "job \<Rightarrow> fact \<Rightarrow> bool" where
  "about_job j f \<longleftrightarrow> ft_subjectKind f = None \<and> ft_jobId f = Some (j_id j)"

lemma record_facts_about: "record_facts X now j r = Inr fs \<Longrightarrow> list_all (about_job j) fs"
  by (auto simp: record_facts_def failed_facts_def stuck_facts_def rbind_eq_Inr about_job_def split: option.splits if_splits)

lemma missed_facts_about: "missed_facts X now j rs occs = Inr fs \<Longrightarrow> list_all (about_job j) fs"
  by (cases "expected_run X j occs") (auto simp: missed_facts_def rbind_eq_Inr Let_def about_job_def list_all_iff split: if_splits)

lemma repeated_facts_about: "list_all (about_job j) (repeated_facts j)"
  by (cases "st_consecutiveErrors (j_state j)") (simp_all add: repeated_facts_def about_job_def)

lemma rmap_all: "rmap f xs = Inr ys \<Longrightarrow> (\<And>x y. f x = Inr y \<Longrightarrow> P y) \<Longrightarrow> list_all P ys"
  by (induction xs arbitrary: ys) (auto simp: rbind_eq_Inr)

lemma job_findings_about:
  assumes "canonicalJobFindings X now j records occs = Inr fs"
  shows "list_all (about_job j) fs"
proof -
  obtain probe fss missed where parts: "rmap (record_facts X now j) records = Inr fss"
    "missed_facts X now j (filter unsettledUnknown records) occs = Inr missed"
    "fs = (case probe of Some reason \<Rightarrow> [(job_fact ''JOB_CONFIGURATION_INVALID'' j)\<lparr>ft_reason := Some reason\<rparr>] | None \<Rightarrow> [])
       @ concat fss @ repeated_facts j @ missed"
    using assms by (auto simp: canonicalJobFindings_def rbind_eq_Inr)
  have "list_all (list_all (about_job j)) fss"
    by (rule rmap_all[OF parts(1) record_facts_about])
  moreover have "list_all (about_job j) (case probe of Some reason \<Rightarrow> [(job_fact ''JOB_CONFIGURATION_INVALID'' j)\<lparr>ft_reason := Some reason\<rparr>] | None \<Rightarrow> [])"
    by (cases probe) (simp_all add: about_job_def)
  ultimately show ?thesis
    using missed_facts_about[OF parts(2)] repeated_facts_about[of j] by (auto simp: parts(3) list_all_iff)
qed

lemma failed_fact:
  assumes "canonicalJobFindings X now j records occs = Inr fs" and "r \<in> set records"
    and "o_executionOutcome r = Some Failed" and "o_endedAt r = Some e"
  shows "\<exists>f \<in> set fs. ft_class f = ''RUN_FAILED'' \<and> ft_occurrenceId f = Some (o_occurrenceId r)"
proof -
  obtain fss before after where fss: "rmap (record_facts X now j) records = Inr fss" "fs = before @ concat fss @ after"
    using assms(1) by (auto simp: canonicalJobFindings_def rbind_eq_Inr)
  obtain gs where gs: "gs \<in> set fss" "record_facts X now j r = Inr gs"
    using rmap_image[OF fss(1) assms(2)] by blast
  have "\<exists>f \<in> set gs. ft_class f = ''RUN_FAILED'' \<and> ft_occurrenceId f = Some (o_occurrenceId r)"
    using gs(2) assms(3,4) by (auto simp: record_facts_def failed_facts_def rbind_eq_Inr run_fact_def)
  then show ?thesis
    using fss(2) gs(1) by auto
qed

lemma valid_failed: "valid_occ r \<Longrightarrow> o_state r = Failed \<Longrightarrow> o_executionOutcome r = Some Failed"
  by (simp add: valid_occ_iff head_ok_def outcome_faults_def isTerminalState_def)

subsection \<open>One undisturbed reading\<close>

lemma complete_attempt:
  assumes "aq_complete (acquireConsistentHealthSnapshot reads n)"
  shows "\<exists>k. 1 \<le> k \<and> k \<le> n \<and> steady (reads k)
    \<and> aq_generations (acquireConsistentHealthSnapshot reads n) = map generation_of (reads k)
    \<and> aq_sources (acquireConsistentHealthSnapshot reads n) = captured_values (reads k)"
proof -
  obtain rs where rs: "rs = [] \<or> (\<exists>m. 1 \<le> m \<and> m < 1 + n \<and> rs = reads m)"
    "aq_generations (acquire_loop reads 1 n []) = map generation_of rs"
    "aq_sources (acquire_loop reads 1 n []) = captured_values rs"
    "aq_complete (acquire_loop reads 1 n []) \<longrightarrow> steady rs"
    using acquired_from[where reads = reads and k = 1 and n = n and seen = "[]"] by blast
  then have "steady rs"
    using assms by (simp add: acquireConsistentHealthSnapshot_def)
  then obtain m where "1 \<le> m" "m \<le> n" "rs = reads m"
    using rs(1) by (auto simp: steady_def)
  then show ?thesis
    using rs(2,3) \<open>steady rs\<close> by (intro exI[of _ m]) (simp add: acquireConsistentHealthSnapshot_def)
qed

lemma steady_files:
  assumes "steady (sources_of X w)" and "name \<in> set [''jobs'', ''history'', ''routing'', ''incidents'', ''credentials'']"
  shows "\<exists>t. fi_tokens w name = (Some t, Some t)"
  using assms by (cases "fi_tokens w name") (auto simp: steady_def sources_of_def read_as_def)

lemma steady_credentials:
  assumes "steady (sources_of X w)" and "aq_sources a = captured_values (sources_of X w)"
  shows "fi_credentials w = Inr (the_credentials a)"
  using assms by (cases "fi_credentials w"; cases "fi_jobs w"; cases "fi_routing w"; cases "fi_incidents w"; cases "fi_history w")
    (simp_all add: steady_def sources_of_def read_as_def captured_ok_def the_credentials_def captured_values_def List.map_filter_simps
      jobs_capture_def split: sum.splits)

lemma rmap_keys: "rmap f xs = Inr ys \<Longrightarrow> (\<And>x y. f x = Inr y \<Longrightarrow> key y = key' x) \<Longrightarrow> map key ys = map key' xs"
  by (induction xs arbitrary: ys) (auto simp: rbind_eq_Inr)

text \<open>The parts of a complete projection of the files.\<close>

lemma complete_reading:
  assumes "read_health X gen path fault now world = Inr h" and "he_complete h"
  obtains k d s where "1 \<le> k" "k \<le> 3" "steady (sources_of X (world k))" "fi_jobs (world k) = Inr d"
    "validateCanonicalHealthAuthority X d = Inr ()" "fi_credentials (world k) = Inr (hs_credentials s)"
    "hs_generatedAt s = now" "hs_doc s = Some d"
    "rmap (projectRow X s d True True) (filter j_enabled (s_jobs d)) = Inr (he_jobs h)"
proof -
  let ?a = "acquireConsistentHealthSnapshot (\<lambda>k. sources_of X (world k)) 3"
  obtain s d where s: "projectSchedulerHealth X s = Inr h" "trusted_document X s d" "hs_generatedAt s = now" "aq_complete ?a"
    "hs_credentials s = the_credentials ?a" "the_jobs ?a = Some d"
    using read_health_parts[OF assms] by blast
  obtain k where k: "1 \<le> k" "k \<le> 3" "steady (sources_of X (world k))" "aq_sources ?a = captured_values (sources_of X (world k))"
    using complete_attempt[OF s(4)] by blast
  have "map_of (aq_sources ?a) ''jobs'' = Some (Cap_Jobs d)"
    using s(6) by (auto simp: the_jobs_def split: option.splits capture.splits if_splits)
  then have jobs: "fi_jobs (world k) = Inr d" "validateCanonicalHealthAuthority X d = Inr ()"
    using captured_jobs[of X "world k" d] by (simp_all add: k(4))
  have doc: "hs_doc s = Some d"
    using s(2) by (simp add: trusted_document_def)
  then have rows: "rmap (projectRow X s d True True) (filter j_enabled (s_jobs d)) = Inr (he_jobs h)"
    using project_complete[OF s(1) assms(2)] by (auto simp: trusted_document_def)
  show ?thesis
    by (rule that[OF k(1,2,3) jobs _ s(3) doc rows]) (use steady_credentials[OF k(3,4)] s(5) in simp)
qed

text \<open>C24. A complete projection describes one state of the files: one of at most three attempts found each of
  the five files unchanged from its first hash to its second, and the rows are those of the enabled jobs
  of the document of that attempt, which the full validation has accepted.\<close>

theorem trusted_health_is_one_reading:
  assumes "read_health X gen path fault now world = Inr h" and "he_complete h"
  shows "\<exists>k d. 1 \<le> k \<and> k \<le> 3 \<and> fi_jobs (world k) = Inr d \<and> validateCanonicalHealthAuthority X d = Inr ()
    \<and> (\<forall>name \<in> set [''jobs'', ''history'', ''routing'', ''incidents'', ''credentials'']. \<exists>t. fi_tokens (world k) name = (Some t, Some t))
    \<and> map jr_jobId (he_jobs h) = map j_id (filter j_enabled (s_jobs d)) \<and> distinct (map jr_jobId (he_jobs h))
    \<and> he_counts h = Some (row_counts (he_jobs h)) \<and> is_commit_sha gen"
proof -
  obtain k d s where k: "1 \<le> k" "k \<le> 3" "steady (sources_of X (world k))" "fi_jobs (world k) = Inr d"
    "validateCanonicalHealthAuthority X d = Inr ()"
    "rmap (projectRow X s d True True) (filter j_enabled (s_jobs d)) = Inr (he_jobs h)"
    by (rule complete_reading[OF assms]) blast
  have ids: "map jr_jobId (he_jobs h) = map j_id (filter j_enabled (s_jobs d))"
    by (rule rmap_keys[OF k(6)]) (rule row_parts(1))
  have "distinct (map j_id (s_jobs d))"
    using k(5) by (auto simp: validateCanonicalHealthAuthority_def rbind_eq_Inr check_jobs_iff)
  then have "distinct (map j_id (filter j_enabled (s_jobs d)))"
    by (rule distinct_map_filter)
  moreover have "he_counts h = Some (row_counts (he_jobs h))" "is_commit_sha gen"
  proof -
    obtain s' where s': "projectSchedulerHealth X s' = Inr h" "hs_canonicalPair s' \<longrightarrow> is_commit_sha gen"
      using assms(1) by (auto simp: read_health_def Let_def rbind_eq_Inr)
    obtain d' where d': "trusted_document X s' d'"
      using project_complete[OF s'(1) assms(2)] by blast
    then show "is_commit_sha gen"
      using s'(2) by (simp add: trusted_document_def)
    show "he_counts h = Some (row_counts (he_jobs h))"
      using s'(1) d' by (auto simp: projectSchedulerHealth_def Let_def rbind_eq_Inr trusted_document_def)
  qed
  ultimately show ?thesis
    using k ids steady_files[OF k(3)] by (intro exI[of _ k] exI[of _ d]) simp
qed

theorem trusted_health_is_one_reading_witness:
  "\<exists>h (k :: nat) d. read_health iso_ext (Some demo_commit) ''/store'' None 300000 (\<lambda>_. demo_files ready_doc) = Inr h \<and> k \<le> 3
    \<and> fi_jobs (demo_files ready_doc) = Inr d \<and> map jr_jobId (he_jobs h) = map j_id (filter j_enabled (s_jobs d))"
proof -
  obtain h where h: "read_health iso_ext (Some demo_commit) ''/store'' None 300000 (\<lambda>_. demo_files ready_doc) = Inr h" "he_complete h"
    using ready_reading by blast
  show ?thesis
    using trusted_health_is_one_reading[OF h] h(1) by blast
qed

text \<open>C23. A job that a complete projection calls healthy can run: its agent has credentials in the same
  reading, no run of it has an unknown outcome that still blocks it, none has failed, a route for its
  failures exists, and there is no finding about it. Its schedule has a next instant, or it is a one-shot
  job that has never run and whose instant, which has passed, is still due within the grace of the
  catch-up.\<close>

theorem healthy_job_is_schedulable:
  assumes "read_health X gen path fault now world = Inr h" and "he_complete h"
    and "row \<in> set (he_jobs h)" and "jr_classification row = Row_Healthy"
  shows "\<exists>k d j cs. fi_jobs (world k) = Inr d \<and> fi_credentials (world k) = Inr cs
    \<and> j \<in> set (s_jobs d) \<and> j_enabled j \<and> j_id j = jr_jobId row \<and> j_agentId j \<in> set cs
    \<and> (\<forall>r \<in> set (s_occurrences d). o_jobId r = j_id j \<longrightarrow> \<not> isUnresolvedUnknown r \<and> (o_endedAt r \<noteq> None \<longrightarrow> o_executionOutcome r \<noteq> Some Failed))
    \<and> (computeNextRunAtMs X (j_schedule j) now (j_id j) (Some (j_createdAtMs j)) \<noteq> None
       \<or> is_at (j_schedule j) \<and> list_all (\<lambda>r. o_jobId r \<noteq> j_id j) (s_occurrences d)
         \<and> nc_due (naturalCandidate X j [] now DEFAULT_AT_CATCHUP_GRACE_MS))
    \<and> jr_findings row = [] \<and> jr_blocker row = None
    \<and> routeHealthy (jr_route row)"
proof -
  obtain k d s where k: "fi_jobs (world k) = Inr d" "fi_credentials (world k) = Inr (hs_credentials s)"
    "rmap (projectRow X s d True True) (filter j_enabled (s_jobs d)) = Inr (he_jobs h)" "hs_generatedAt s = now"
    by (rule complete_reading[OF assms(1,2)]) blast
  obtain j where j: "j \<in> set (s_jobs d)" "j_enabled j" "projectRow X s d True True j = Inr row"
    using rmap_mem_back[OF k(3) assms(3)] by auto
  let ?records = "jobOccurrences (s_occurrences d) (j_id j)"
  note row = row_parts[OF j(3)]
  have parts: "filter unsettledUnknown ?records = []" "j_agentId j \<in> set (hs_credentials s)" "scheduleReady X j ?records now"
    "jr_findings row = []" "routeHealthy (route_of s j)"
    using classify_healthy[THEN iffD1, OF row(4)[symmetric, unfolded assms(4)]] k(4) by simp_all
  have findings: "canonicalJobFindings X now j ?records (s_occurrences d) = Inr []"
    using row(3) parts(4) k(4) by simp
  have "\<not> isUnresolvedUnknown r \<and> (o_endedAt r \<noteq> None \<longrightarrow> o_executionOutcome r \<noteq> Some Failed)"
    if "r \<in> set (s_occurrences d)" "o_jobId r = j_id j" for r
  proof -
    have r: "r \<in> set ?records"
      using that by (simp add: job_record)
    then have "\<not> unsettledUnknown r"
      using parts(1) by (simp add: filter_empty_conv)
    then show ?thesis
      using failed_fact[OF findings r] by (auto simp: isUnresolvedUnknown_def unsettledUnknown_def)
  qed
  moreover have "?records = [] \<longleftrightarrow> list_all (\<lambda>r. o_jobId r \<noteq> j_id j) (s_occurrences d)"
    by (simp add: jobOccurrences_def filter_empty_conv list_all_iff)
  then have "computeNextRunAtMs X (j_schedule j) now (j_id j) (Some (j_createdAtMs j)) \<noteq> None
      \<or> is_at (j_schedule j) \<and> list_all (\<lambda>r. o_jobId r \<noteq> j_id j) (s_occurrences d)
        \<and> nc_due (naturalCandidate X j [] now DEFAULT_AT_CATCHUP_GRACE_MS)"
    using parts(3) by (auto simp: scheduleReady_def hasNativeAtCatchup_def)
  moreover have shown: "jr_blocker row = None" "jr_route row = route_of s j"
    using j(3) parts(1,2) by (auto simp: projectRow_def Let_def rbind_eq_Inr)
  ultimately show ?thesis
    using k(1,2) j(1,2) row(1) parts shown(2) by (intro exI[of _ k] exI[of _ d] exI[of _ j] exI[of _ "hs_credentials s"]) simp
qed

theorem healthy_job_is_schedulable_witness:
  "\<exists>h row j. read_health iso_ext (Some demo_commit) ''/store'' None 300000 (\<lambda>_. demo_files ready_doc) = Inr h
    \<and> row \<in> set (he_jobs h) \<and> jr_classification row = Row_Healthy \<and> j \<in> set (s_jobs ready_doc) \<and> jr_blocker row = None"
proof -
  obtain h row where h: "read_health iso_ext (Some demo_commit) ''/store'' None 300000 (\<lambda>_. demo_files ready_doc) = Inr h" "he_complete h"
    "row \<in> set (he_jobs h)" "jr_classification row = Row_Healthy"
    using ready_reading by fastforce
  show ?thesis
    using healthy_job_is_schedulable[OF h] h by fastforce
qed

subsection \<open>A failed run is remembered\<close>

text \<open>C22. A job with a failed run is never called healthy again: whatever the scheduler does after the failure was
  recorded, every later complete projection gives the job another class and reports that very run.\<close>

theorem failed_job_never_healthy:
  assumes "(sys_step S)\<^sup>*\<^sup>* y y'" and "r \<in> set (s_occurrences (disk_doc (y_disk y)))"
    and "o_state r = Failed" "o_endedAt r = Some e"
    and "read_health X gen path fault now world = Inr h" "he_complete h" and "\<And>k. fi_jobs (world k) = Inr (disk_doc (y_disk y'))"
    and "row \<in> set (he_jobs h)" "jr_jobId row = o_jobId r"
  shows "jr_classification row \<noteq> Row_Healthy
    \<and> (\<exists>f \<in> set (jr_findings row). ft_class f = ''RUN_FAILED'' \<and> ft_occurrenceId f = Some (o_occurrenceId r))"
proof -
  obtain r' where "r' \<in> set (s_occurrences (disk_doc (y_disk y')))" "advances r r'"
    by (rule extends_member[OF steps_extend[OF assms(1)] assms(2)])
  then have later: "r \<in> set (s_occurrences (disk_doc (y_disk y')))"
    using assms(3) by (simp add: advances_def isTerminalState_def)
  obtain k d s where k: "fi_jobs (world k) = Inr d" "validateCanonicalHealthAuthority X d = Inr ()"
    "rmap (projectRow X s d True True) (filter j_enabled (s_jobs d)) = Inr (he_jobs h)"
    by (rule complete_reading[OF assms(5,6)]) blast
  then have d: "d = disk_doc (y_disk y')"
    using assms(7)[of k] by simp
  then have "valid_occ r"
    using k(2) later by (auto simp: validateCanonicalHealthAuthority_def rbind_eq_Inr check_occurrences_iff list_all_iff)
  then have failed: "o_executionOutcome r = Some Failed"
    using assms(3) by (rule valid_failed)
  obtain j where j: "projectRow X s d True True j = Inr row"
    using rmap_mem_back[OF k(3) assms(8)] by auto
  note row = row_parts[OF j]
  have "r \<in> set (jobOccurrences (s_occurrences d) (j_id j))"
    using later d assms(9) row(1) by (simp add: job_record)
  then have found: "\<exists>f \<in> set (jr_findings row). ft_class f = ''RUN_FAILED'' \<and> ft_occurrenceId f = Some (o_occurrenceId r)"
    using failed_fact[OF row(3)[OF TrueI]] failed assms(4) by blast
  then have "jr_findings row \<noteq> []"
    by auto
  then have "jr_classification row \<noteq> Row_Healthy"
    using classify_healthy[THEN iffD1, OF row(4)[symmetric, THEN trans]] by fastforce
  then show ?thesis
    using found by simp
qed

theorem failed_job_never_healthy_witness:
  "\<exists>h row. read_health iso_ext (Some demo_commit) ''/store'' None 300000 (\<lambda>_. demo_files failed_doc) = Inr h
    \<and> he_complete h \<and> row \<in> set (he_jobs h) \<and> jr_jobId row = ''j1'' \<and> jr_classification row \<noteq> Row_Healthy"
proof -
  let ?y = "\<lparr>y_clock = 300000, y_disk = Some failed_doc\<rparr>"
  obtain h row where h: "read_health iso_ext (Some demo_commit) ''/store'' None 300000 (\<lambda>_. demo_files failed_doc) = Inr h"
    "he_complete h" "he_jobs h = [row]" "jr_jobId row = ''j1''"
    using failed_reading by blast
  have "jr_classification row \<noteq> Row_Healthy \<and> (\<exists>f \<in> set (jr_findings row). ft_class f = ''RUN_FAILED'' \<and> ft_occurrenceId f = Some (o_occurrenceId failed_record))"
  proof (rule failed_job_never_healthy[where y = ?y and y' = ?y and S = demo_seams, OF _ _ _ _ h(1,2)])
    show "o_endedAt failed_record = Some 200000" by simp
  qed (simp_all add: disk_doc_def h)
  then show ?thesis
    using h by (intro exI[of _ h] exI[of _ row]) simp
qed

subsection \<open>What a caller sees\<close>

text \<open>C25. A caller without the audit scope sees exactly the rows of the enabled jobs of its own agent, and of the
  findings those about these jobs and the one about the runtime: nothing about the job of another agent.\<close>

theorem principal_sees_own_jobs:
  assumes "projectSchedulerHealth X s = Inr h" and "hs_doc s = Some d"
    and "filterHealthForPrincipal h p = Inr v" and "''scheduler.audit'' \<notin> set (pr_scopes p)"
  shows "\<exists>a. pr_agentId p = Some a \<and> a \<noteq> [] \<and> ''scheduler.read'' \<in> set (pr_scopes p)
    \<and> map jr_jobId (he_jobs v) = map j_id (filter (\<lambda>j. j_enabled j \<and> j_agentId j = a) (s_jobs d))
    \<and> he_counts v = Some (row_counts (he_jobs v))
    \<and> (\<forall>f \<in> set (he_findings v). (\<exists>reason. f = runtime_fact ''scheduler-runtime'' reason)
         \<or> (\<exists>j \<in> set (s_jobs d). j_enabled j \<and> j_agentId j = a \<and> ft_jobId f = Some (j_id j)))"
proof -
  obtain a where a: "pr_agentId p = Some a" "a \<noteq> []" "''scheduler.read'' \<in> set (pr_scopes p)"
    using assms(3,4) by (auto simp: filterHealthForPrincipal_def truthy_text_def split: if_splits option.splits)
  let ?rows = "filter (\<lambda>r. jr_agentId r = a) (he_jobs h)"
  have v: "v = h\<lparr>he_counts := Some (row_counts ?rows), he_jobs := ?rows,
      he_findings := filter (\<lambda>f. ft_subjectKind f = Some ''runtime''
        \<or> (case ft_jobId f of Some i \<Rightarrow> i \<in> set (map jr_jobId ?rows) | None \<Rightarrow> False)) (he_findings h)\<rparr>"
    using assms(3,4) a by (auto simp: filterHealthForPrincipal_def Let_def truthy_text_def)
  obtain whole valid where rows: "rmap (projectRow X s d whole valid) (filter j_enabled (s_jobs d)) = Inr (he_jobs h)"
    using assms(1,2) by (auto simp: projectSchedulerHealth_def Let_def rbind_eq_Inr)
  have keys: "map (\<lambda>r. (jr_jobId r, jr_agentId r)) (he_jobs h) = map (\<lambda>j. (j_id j, j_agentId j)) (filter j_enabled (s_jobs d))"
    by (rule rmap_keys[OF rows]) (simp add: row_parts(1,2))
  have "map jr_jobId ?rows = map fst (filter (\<lambda>q. snd q = a) (map (\<lambda>r. (jr_jobId r, jr_agentId r)) (he_jobs h)))"
    by (simp add: filter_map comp_def)
  then have ids: "map jr_jobId ?rows = map j_id (filter (\<lambda>j. j_enabled j \<and> j_agentId j = a) (s_jobs d))"
    by (simp add: keys filter_map comp_def conj_commute)
  have "(\<exists>reason. f = runtime_fact ''scheduler-runtime'' reason) \<or> (\<exists>j \<in> set (s_jobs d). j_enabled j \<and> j_agentId j = a \<and> ft_jobId f = Some (j_id j))"
    if f: "f \<in> set (he_findings v)" for f
  proof (cases "\<exists>reason. f = runtime_fact ''scheduler-runtime'' reason")
    case False
    then obtain row where row: "row \<in> set (he_jobs h)" "f \<in> set (jr_findings row)"
      using health_findings_cases[OF assms(1), of f] f by (auto simp: v)
    then obtain j where j: "projectRow X s d whole valid j = Inr row"
      using rmap_mem_back[OF rows] by blast
    have "ft_subjectKind f = None"
      using row_parts(3)[OF j] job_findings_about row(2) j
      by (cases valid) (fastforce simp: list_all_iff about_job_def projectRow_def Let_def)+
    then obtain i where "ft_jobId f = Some i" "i \<in> set (map jr_jobId ?rows)"
      using f by (auto simp: v split: option.splits)
    then show ?thesis
      unfolding ids by auto
  qed simp
  then show ?thesis
    using a ids by (intro exI[of _ a]) (simp add: v)
qed

theorem principal_sees_own_jobs_witness:
  "\<exists>s h v. projectSchedulerHealth iso_ext s = Inr h \<and> hs_doc s = Some ready_doc
    \<and> filterHealthForPrincipal h \<lparr>pr_agentId = Some ''a1'', pr_scopes = [''scheduler.read'']\<rparr> = Inr v
    \<and> map jr_jobId (he_jobs v) = [''j1'']"
proof -
  obtain h where h: "read_health iso_ext (Some demo_commit) ''/store'' None 300000 (\<lambda>_. demo_files ready_doc) = Inr h" "he_complete h"
    using ready_reading by blast
  obtain s :: snapshot where s: "projectSchedulerHealth iso_ext s = Inr h" "hs_doc s = Some ready_doc"
    using read_health_parts[OF h] by (auto simp: trusted_document_def)
  let ?p = "\<lparr>pr_agentId = Some ''a1'', pr_scopes = [''scheduler.read'']\<rparr>"
  obtain v where v: "filterHealthForPrincipal h ?p = Inr v"
    by (simp add: filterHealthForPrincipal_def truthy_text_def Let_def)
  from principal_sees_own_jobs[OF s v] have "map jr_jobId (he_jobs v) = [''j1'']"
    by auto
  then show ?thesis
    using s v by (intro exI[of _ s] exI[of _ h] exI[of _ v]) simp
qed

end
