(* ===== verification/Oversight.thy ===== *)
theory Oversight
  imports Vigilance Readings
begin

section \<open>What the watchdog oversees\<close>

text \<open>
  The properties of the health projection and of a run of the first watchdog, together with the scheduler
  whose document they read.
\<close>

lemma root_of_failed: "ft_class f = ''RUN_FAILED'' \<Longrightarrow> root_of f = Inr k \<Longrightarrow> k \<noteq> stuck_root j r \<and> k \<noteq> health_root"
  by (auto simp: root_of_def rootInputFor_def occ_root_def incidentRootIdentity_def rbind_eq_Inr nonEmptyField_def
      stuck_root_def health_root_def occurrence_classes_def job_classes_def split: if_splits option.splits)

lemma w1_reconciled:
  assumes "wi_health i = read_health X gen path fault now world" and "g \<in> set (annotateFindingsWithJobs jobs (w1_findings X now i))"
    and "operator_reconciled g" and "root_of g = Inr k"
  shows "k \<noteq> stuck_root j r \<and> k \<noteq> health_root"
proof -
  obtain f where f: "f \<in> set (w1_findings X now i)" "g = annotate_finding jobs f"
    using assms(2) by (auto simp: annotateFindingsWithJobs_def)
  then have d: "ft_disposition f \<noteq> None"
    using assms(3) by (cases "ft_disposition f") (simp_all add: operator_reconciled_def)
  then obtain h where h: "wi_health i = Inr h" "he_complete h" "f \<in> set (he_findings h)"
    using w1_findings_cases[OF f(1)] by (auto simp: plain_fact_def)
  then obtain s where "projectSchedulerHealth X s = Inr h"
    using read_health_parts[of X gen path fault now world h] assms(1) by auto
  then have "ft_class f = ''RUN_FAILED''"
    using health_findings_disposition h(2,3) d by blast
  then show ?thesis
    using root_of_failed assms(4) f(2) by simp
qed

lemma w1_sees_fence:
  assumes "wi_health i = read_health X gen path fault now world" and "\<And>k. fi_jobs (world k) = Inr d"
    and "j \<in> set (s_jobs d)" "j_enabled j" and "r \<in> set (s_occurrences d)" "o_jobId r = j_id j" "isUnresolvedUnknown r"
  shows "run_fact ''ADMISSION_BLOCKED_UNKNOWN'' j r \<in> set (w1_findings X now i)
    \<or> (\<exists>reason. runtime_fact ''scheduler-health'' reason \<in> set (w1_findings X now i))"
proof (cases "wi_health i")
  case (Inl e)
  then show ?thesis by (auto simp: w1_findings_def health_facts_def)
next
  case (Inr h)
  show ?thesis
  proof (cases "he_complete h")
    case False
    then show ?thesis
      using Inr by (auto simp: w1_findings_def health_facts_def)
  next
    case True
    obtain s k d' where s: "projectSchedulerHealth X s = Inr h" "trusted_document X s d'" "fi_jobs (world k) = Inr d'"
      using read_health_parts[of X gen path fault now world h] assms(1) Inr True by auto
    then have "hs_doc s = Some d"
      using assms(2)[of k] by (simp add: trusted_document_def)
    then have "run_fact ''ADMISSION_BLOCKED_UNKNOWN'' j r \<in> set (he_findings h)"
      using projected_fact[OF s(1) True] assms(3-7) by (simp add: isUnresolvedUnknown_def unsettledUnknown_def)
    then show ?thesis
      using Inr True by (auto simp: w1_findings_def health_facts_def)
  qed
qed

lemma updated_root:
  assumes "updateAlertState X le now owns producer st fs = Inr (st', notes)" and "f \<in> set fs"
  shows "\<exists>k. root_of f = Inr k"
proof -
  obtain cs where "compileIncidents le fs = Inr cs"
    using assms(1) by (auto simp: updateAlertState_def rbind_eq_Inr)
  then have "compiled_inv fs cs"
    by (rule compileIncidents_inv)
  then show ?thesis
    using assms(2) by (auto simp: compiled_inv_def)
qed

text \<open>C21. No blocked job goes unnoticed: when a run of the first watchdog reads a document with an enabled
  job whose run has an unknown outcome, then after the run the incident of that run is open, or the one
  that says that the health could not be established, unless the incident of this very run was closed
  before.\<close>

theorem blocked_job_has_incident:
  assumes "wi_health i = read_health X gen path fault now world" and "\<And>k. fi_jobs (world k) = Inr d"
    and "j \<in> set (s_jobs d)" "j_enabled j" and "r \<in> set (s_occurrences d)" "o_jobId r = j_id j" "isUnresolvedUnknown r"
    and "distinct (map i_root (st_incidents st))"
    and "updateAlertState X le now (ownsIncident ''w1'') ''w1'' st (annotateFindingsWithJobs (input_jobs i) (w1_findings X now i)) = Inr (st', notes)"
  shows "lifecycle_at st' (stuck_root j r) = Some L_Open \<or> lifecycle_at st' health_root = Some L_Open
    \<or> (\<exists>l. lifecycle_at st (stuck_root j r) = Some l \<and> l \<noteq> L_Open)"
proof -
  let ?fs = "annotateFindingsWithJobs (input_jobs i) (w1_findings X now i)"
  have seen: "lifecycle_at st' k = Some L_Open \<or> is_occurrence_root k \<and> (\<exists>l. lifecycle_at st k = Some l \<and> l \<noteq> L_Open)"
    if f: "f \<in> set (w1_findings X now i)" and k: "root_of f = Inr k" "k = stuck_root j r \<or> k = health_root" for f k
  proof (rule reported_root[OF assms(9)])
    show "annotate_finding (input_jobs i) f \<in> set ?fs"
      using f by (simp add: annotateFindingsWithJobs_def)
    show "root_of (annotate_finding (input_jobs i) f) = Inr k"
      using k(1) by simp
    show "\<not> operator_reconciled g" if "g \<in> set ?fs" "root_of g = Inr k" for g
      using w1_reconciled[OF assms(1) that(1) _ that(2)] k(2) by blast
  qed (rule assms(8))
  from w1_sees_fence[OF assms(1-7)] show ?thesis
  proof
    assume f: "run_fact ''ADMISSION_BLOCKED_UNKNOWN'' j r \<in> set (w1_findings X now i)"
    then have "annotate_finding (input_jobs i) (run_fact ''ADMISSION_BLOCKED_UNKNOWN'' j r) \<in> set ?fs"
      by (simp add: annotateFindingsWithJobs_def)
    then obtain k where k: "root_of (run_fact ''ADMISSION_BLOCKED_UNKNOWN'' j r) = Inr k"
      using updated_root[OF assms(9)] annotate_root by metis
    show ?thesis
      using seen[OF f k] root_of_stuck[OF k] by auto
  next
    assume "\<exists>reason. runtime_fact ''scheduler-health'' reason \<in> set (w1_findings X now i)"
    then obtain reason where f: "runtime_fact ''scheduler-health'' reason \<in> set (w1_findings X now i)" ..
    have "\<not> is_occurrence_root health_root"
      by (simp add: is_occurrence_root_def health_root_def)
    then show ?thesis
      using seen[OF f root_of_health] by simp
  qed
qed

lemma unseen_is_recovered:
  assumes "updateAlertState X le now owns producer st fs = Inr (st', notes)" and "find_incident st k = Some r"
    and "i_lifecycle r = L_Open" and "owns r" and "\<And>f. f \<in> set fs \<Longrightarrow> root_of f \<noteq> Inr k"
    and "distinct (map i_root (st_incidents st))"
  shows "lifecycle_at st' k = Some L_Recovered" and "distinct (map i_root (st_incidents st'))"
proof -
  obtain cs where cs: "compileIncidents le fs = Inr cs" "updateIncidentState X now (acknowledged_roots cs) owns producer st cs = (st', notes)"
    using assms(1) by (auto simp: updateAlertState_def rbind_eq_Inr)
  have inv: "compiled_inv fs cs"
    by (rule compileIncidents_inv[OF cs(1)])
  have other: "ci_identity c \<noteq> k" if c: "c \<in> set cs" for c
  proof
    assume "ci_identity c = k"
    moreover obtain f where "f \<in> set (ci_facts c)"
      using inv c by (fastforce simp: compiled_inv_def compiled_ok_def neq_Nil_conv)
    ultimately show False
      using inv c assms(5) by (auto simp: compiled_inv_def compiled_ok_def)
  qed
  let ?acc = "fold (incident_step X now (acknowledged_roots cs) producer) cs (st, [])"
  have "find_incident (fst ?acc) k = Some r"
    using steps_other_about[of cs k "(st, [])" X now "acknowledged_roots cs" producer] other assms(2) by (simp add: same_about_def)
  then have "find_incident (fst (fold (recover_step X now (map ci_identity cs) owns) (st_incidents (fst ?acc)) ?acc)) k
      = Some (transitioned now (closed_as L_Recovered r))"
    using recover_steps_find[OF distinct_update(1)[OF assms(6)], of X now "map ci_identity cs" owns X now "acknowledged_roots cs" producer cs ?acc k]
      other assms(3,4) by (auto simp: find_incident_def)
  then show "lifecycle_at st' k = Some L_Recovered"
    using cs(2) by (simp add: updateIncidentState_def Let_def lifecycle_at_def transitioned_def closed_as_def)
  show "distinct (map i_root (st_incidents st'))"
    using distinct_update(2)[OF assms(6), of X now "acknowledged_roots cs" owns producer cs] cs(2) by simp
qed

lemma occurrence_root_has_run: "root_of f = Inr k \<Longrightarrow> is_occurrence_root k \<Longrightarrow> occurrenceIdentity f \<noteq> None"
  by (auto simp: root_of_def rootInputFor_def occ_root_def incidentRootIdentity_def rbind_eq_Inr nonEmptyField_def
      is_occurrence_root_def occurrence_classes_def job_classes_def truthy_text_def split: if_splits option.splits)

text \<open>C26. A run that cannot establish the health takes what it did not see for recovered, and for good: the
  open incident of a blocked run is closed as recovered, and whatever the watchdogs see and deliver from
  then on, it stays closed and no notification about it is ever added.\<close>

theorem incomplete_health_closes_run:
  assumes "\<And>h. wi_health i = Inr h \<Longrightarrow> \<not> he_complete h"
    and "find_incident st k = Some r" and "is_occurrence_root k" and "i_lifecycle r = L_Open" and "ownsIncident ''w1'' r"
    and "distinct (map i_root (st_incidents st))"
    and "updateAlertState X le now (ownsIncident ''w1'') ''w1'' st (annotateFindingsWithJobs (input_jobs i) (w1_findings X now i)) = Inr (st', notes)"
    and "watchdog_step\<^sup>*\<^sup>* st' later"
  shows "lifecycle_at later k = Some L_Recovered \<and> told later k = told st' k"
proof -
  have "root_of g \<noteq> Inr k" if g: "g \<in> set (annotateFindingsWithJobs (input_jobs i) (w1_findings X now i))" for g
  proof
    assume k: "root_of g = Inr k"
    obtain f where f: "f \<in> set (w1_findings X now i)" "g = annotate_finding (input_jobs i) f"
      using g by (auto simp: annotateFindingsWithJobs_def)
    then have "plain_fact f"
      using w1_findings_cases[OF f(1)] assms(1) by blast
    then show False
      using occurrence_root_has_run[OF k assms(3)] f(2) by (simp add: plain_fact_def occurrenceIdentity_def or_else_def)
  qed
  from unseen_is_recovered[OF assms(7,2,4,5) this assms(6)] show ?thesis
    using steps_keep_closed[OF assms(8,3)] by simp
qed

subsection \<open>Documents the health projection refuses\<close>

lemma rejected_document:
  assumes "read_health X gen path fault now world = Inr h" and "\<And>k. fi_jobs (world k) = Inr d"
    and "validateCanonicalHealthAuthority X d \<noteq> Inr ()"
  shows "\<not> he_complete h"
  using read_health_parts[OF assms(1)] assms(2,3) by (auto simp: trusted_document_def)

lemma key_list_mem: "j \<in> set js \<Longrightarrow> j_logicalKey j = Some k \<Longrightarrow> k \<in> set (key_list js)"
  by (induction js) (auto split: option.splits)

lemma key_list_distinct:
  "distinct (key_list js) \<Longrightarrow> a \<in> set js \<Longrightarrow> b \<in> set js \<Longrightarrow> j_logicalKey a = Some k \<Longrightarrow> j_logicalKey b = Some k \<Longrightarrow> a = b"
  by (induction js) (auto split: option.splits dest: key_list_mem)

lemma shared_key_refused:
  assumes "a \<in> set (s_jobs d)" "b \<in> set (s_jobs d)" and "a \<noteq> b" and "j_logicalKey a = Some k" "j_logicalKey b = Some k"
  shows "validateCanonicalHealthAuthority X d \<noteq> Inr ()"
proof
  assume "validateCanonicalHealthAuthority X d = Inr ()"
  then have "distinct (key_list (s_jobs d))"
    by (auto simp: validateCanonicalHealthAuthority_def rbind_eq_Inr check_jobs_iff)
  then show False
    using key_list_distinct assms by blast
qed

text \<open>A finding that names neither a job nor a run.\<close>

definition names_no_job :: "fact \<Rightarrow> bool" where
  "names_no_job f \<longleftrightarrow> ft_jobId f = None \<and> ft_logicalKey f = None \<and> ft_jobIds f = [] \<and> ft_agentId f = None
     \<and> ft_runId f = None \<and> ft_occurrenceId f = None"

lemma names_no_job_simps [simp]:
  "names_no_job (bare_fact c)" "names_no_job (f\<lparr>ft_reason := a\<rparr>) = names_no_job f"
  "names_no_job (f\<lparr>ft_subjectKind := a\<rparr>) = names_no_job f" "names_no_job (f\<lparr>ft_stableSubjectId := a\<rparr>) = names_no_job f"
  by (simp_all add: names_no_job_def bare_fact_def)

lemma without_health:
  assumes "\<And>candidates. health_facts i candidates = [runtime_fact ''scheduler-health'' reason]"
    and "f \<in> set (w1_findings X now i)"
  shows "names_no_job f \<or> (\<exists>fs. evaluateReconciliationEvidence X now (wi_evidence i) = Inr fs \<and> f \<in> set fs)"
  using assms by (auto simp: w1_findings_def store_facts_def desired_outcome_def plain_unhealthy_def runtime_fact_def
      evaluateCredentialProvider_def Let_def split: sum.splits option.splits if_splits)

text \<open>C27. An update may give a job the logical key of another job: the mutation is committed and the document
  is valid for the store, but a health projection that reads this document refuses it as a whole. A run
  of the watchdog with such a reading learns of the scheduler only that the health is unavailable or
  incomplete: the findings about the runs of every job and those of the comparison with the desired state
  are all withheld, and no finding names a job or a run but those copied from the evidence file.\<close>

theorem duplicate_key_blinds_watchdog:
  assumes "valid_doc d" and "updateJob X opts a b e i patch d = Inr (d', new)"
    and "other \<in> set (s_jobs d)" "j_id other \<noteq> i" and "j_logicalKey other = Some k" "j_logicalKey new = Some k"
    and "wi_health inp = read_health X gen path fault now world" and "\<And>n. fi_jobs (world n) = Inr d'"
  shows "mutateDoc Written (Some d) (updateJob X opts a b e i patch) = (Some d', Committed d' new)
    \<and> (\<exists>reason. health_facts inp (snd (desired_outcome X inp)) = [runtime_fact ''scheduler-health'' reason]
        \<and> runtime_fact ''scheduler-health'' reason \<in> set (w1_findings X now inp))
    \<and> (\<forall>f \<in> set (w1_findings X now inp). plain_fact f
        \<and> (names_no_job f \<or> (\<exists>fs. evaluateReconciliationEvidence X now (wi_evidence inp) = Inr fs \<and> f \<in> set fs)))"
proof -
  from updateJob_stored[OF assms(2)] obtain current normalized where
    u: "findJob (s_jobs d) i = Some current" "new = (revised (no_nowMs opts) current normalized)\<lparr>j_state := j_state new\<rparr>"
      "s_jobs d' = replaceFirst (j_id current) (\<lambda>_. new) (s_jobs d)"
      "normalize_job X (opts\<lparr>no_id := Some (j_id current), no_createdAtMs := Some (j_createdAtMs current)\<rparr>)
        (drop_field ''scheduleRevision'' (merge_obj (job_val current) (b current patch))) = Inr normalized"
    by metis
  have cur: "current \<in> set (s_jobs d)" "j_id current = i"
    using u(1) by (auto simp: findJob_def find_Some_iff)
  have "valid_doc d'"
    using updateJob_only[OF assms(2)] assms(1) by (simp add: definitions_only_def valid_doc_def)
  then have written: "mutateDoc Written (Some d) (updateJob X opts a b e i patch) = (Some d', Committed d' new)"
    using assms(1,2) by (intro mutateDoc_written) (simp_all add: valid_disk_def disk_doc_def)
  have "other \<in> set (s_jobs d')"
    using assms(3,4) cur(2) by (simp add: u(3) replaceFirst_def update_first_other)
  moreover have "new \<in> set (s_jobs d')"
    unfolding u(3) replaceFirst_def by (rule update_first_put[OF cur(1)]) simp
  moreover have "j_id new = i"
  proof -
    have "j_id normalized = j_id current"
      using normalize_job_parts[OF u(4)] by (auto simp: job_id_for_def)
    moreover have "j_id new = j_id ((revised (no_nowMs opts) current normalized)\<lparr>j_state := j_state new\<rparr>)"
      using u(2) by simp
    ultimately show ?thesis
      using cur(2) by (simp add: revised_def)
  qed
  ultimately have refused: "validateCanonicalHealthAuthority X d' \<noteq> Inr ()"
    using shared_key_refused[of other d' new k X] assms(4-6) by metis
  have blind: "\<not> he_complete h" if "wi_health inp = Inr h" for h
    using rejected_document[OF that[unfolded assms(7)] assms(8) refused] .
  obtain reason where h: "health_facts inp candidates = [runtime_fact ''scheduler-health'' reason]" for candidates
    using blind by (cases "wi_health inp") (auto simp: health_facts_def)
  have "plain_fact f" if "f \<in> set (w1_findings X now inp)" for f
    using w1_findings_cases[OF that] blind by blast
  moreover have "names_no_job f \<or> (\<exists>fs. evaluateReconciliationEvidence X now (wi_evidence inp) = Inr fs \<and> f \<in> set fs)"
      if "f \<in> set (w1_findings X now inp)" for f
    using without_health[OF h that] .
  moreover have "runtime_fact ''scheduler-health'' reason \<in> set (w1_findings X now inp)"
    using h by (simp add: w1_findings_def)
  ultimately show ?thesis
    using written h by blast
qed

subsection \<open>Concrete runs\<close>

definition demo_input :: "string option \<Rightarrow> sdoc \<Rightarrow> w1_input" where
  "demo_input commitSha d = \<lparr>wi_doc = Inr d, wi_desired = Inr (JObj [(''version'', JInt 1), (''jobs'', JArr [])]), wi_health = demo_reading commitSha d,
     wi_evidence = [], wi_credentialBytes = Some 1, wi_credentialFile = [], wi_w2Age = Some 0, wi_grace = 60000\<rparr>"

lemma demo_input_fields [simp]:
  "wi_health (demo_input commitSha d) = read_health demo_ext commitSha ''/store'' None 300000 (\<lambda>_. demo_files d)"
  "wi_doc (demo_input commitSha d) = Inr d"
  by (simp_all add: demo_input_def demo_reading_def)

lemma demo_evidence [simp]: "evaluateReconciliationEvidence X now (wi_evidence (demo_input commitSha d)) = Inr []"
  by (simp add: demo_input_def evaluateReconciliationEvidence_def)

lemma demo_takeover:
  "\<exists>new. updateJob demo_ext (opts_at 9 ''u9'') (\<lambda>_. None) (\<lambda>_ p. p) None ''j2'' (JObj [(''logicalKey'', JStr ''k1'')])
      \<lparr>s_jobs = [demo_job, demo_clone], s_occurrences = [], s_fences = []\<rparr>
    = Inr (\<lparr>s_jobs = [demo_job, new], s_occurrences = [], s_fences = []\<rparr>, new) \<and> j_logicalKey new = Some ''k1''"
proof -
  let ?d = "\<lparr>s_jobs = [demo_job, demo_clone], s_occurrences = [], s_fences = []\<rparr>"
  let ?opts = "opts_at 9 ''u9''\<lparr>no_id := Some ''j2'', no_createdAtMs := Some 0\<rparr>"
  let ?n = "demo_clone\<lparr>j_logicalKey := Some ''k1'', j_cloneProvenance := None\<rparr>"
  let ?patch = "JObj [(''logicalKey'', JStr ''k1'')]"
  have wf: "wf_job demo_ext ?n"
    using demo_job_wf by (simp add: demo_clone_def wf_job_def wf_text_def js_trim_def is_ws_def)
  have ids: "j_id demo_clone = ''j2''" "j_createdAtMs demo_clone = 0" "\<not> j_migrationRestoreBlocked demo_clone" "j_id demo_job = ''j1''"
      "j_id ?n = ''j2''"
    by (simp_all add: demo_clone_def demo_job_def)
  have "normalize_job demo_ext ?opts (drop_field ''scheduleRevision'' (merge_obj (job_val demo_clone) ?patch))
      = Inr (?n\<lparr>j_scheduleRevision := 1\<rparr>)"
  proof (rule normalize_job_without_revision)
    show "normalize_job demo_ext ?opts (job_val ?n) = Inr ?n"
      using wf by (intro normalize_job_val) (simp_all add: ids)
    show "is_object (drop_field ''scheduleRevision'' (merge_obj (job_val demo_clone) ?patch))"
      by (simp add: drop_field_def)
    show "jget (drop_field ''scheduleRevision'' (merge_obj (job_val demo_clone) ?patch)) k = jget (job_val ?n) k"
      if "k \<noteq> ''scheduleRevision''" for k
      using that by (simp add: jget_fields lookup_simps job_val_def)
  qed (simp add: jget_fields lookup_simps)
  moreover have "?n\<lparr>j_scheduleRevision := 1\<rparr> = ?n"
    by (simp add: demo_clone_def demo_job_def)
  ultimately have n: "normalize_job demo_ext ?opts (drop_field ''scheduleRevision'' (merge_obj (job_val demo_clone) ?patch)) = Inr ?n"
    by simp
  obtain st where st: "refreshJob demo_ext [] 9 (revised 9 demo_clone ?n) = Inr ((revised 9 demo_clone ?n)\<lparr>j_state := st\<rparr>)"
    using deriveJobStateSummary_returns[of "[]" demo_ext "revised 9 demo_clone ?n" 9] by (auto simp: refreshJob_def)
  let ?s = "(revised 9 demo_clone ?n)\<lparr>j_state := st\<rparr>"
  have "updateJob demo_ext (opts_at 9 ''u9'') (\<lambda>_. None) (\<lambda>_ p. p) None ''j2'' ?patch ?d = Inr (?d\<lparr>s_jobs := [demo_job, ?s]\<rparr>, ?s)"
    using n st by (simp add: updateJob_def guarded_job_def requireJob_def checked_def assertExpectedRevision_def findJob_def
        ids Let_def replaceFirst_def opts_at_def)
  moreover have "j_logicalKey ?s = Some ''k1''"
    by (simp add: revised_def)
  ultimately show ?thesis
    by (intro exI[of _ ?s]) simp
qed

theorem duplicate_key_blinds_watchdog_witness:
  "\<exists>d' new. updateJob demo_ext (opts_at 9 ''u9'') (\<lambda>_. None) (\<lambda>_ p. p) None ''j2'' (JObj [(''logicalKey'', JStr ''k1'')])
      \<lparr>s_jobs = [demo_job, demo_clone], s_occurrences = [], s_fences = []\<rparr> = Inr (d', new)
    \<and> (\<forall>f \<in> set (w1_findings demo_ext 300000 (demo_input (Some demo_commit) d')). names_no_job f)"
proof -
  let ?d = "\<lparr>s_jobs = [demo_job, demo_clone], s_occurrences = [], s_fences = []\<rparr>"
  obtain new where new: "updateJob demo_ext (opts_at 9 ''u9'') (\<lambda>_. None) (\<lambda>_ p. p) None ''j2'' (JObj [(''logicalKey'', JStr ''k1'')]) ?d
      = Inr (?d\<lparr>s_jobs := [demo_job, new]\<rparr>, new)" "j_logicalKey new = Some ''k1''"
    using demo_takeover by auto
  have "valid_doc ?d"
    by (simp add: valid_doc_def ledger_ok_def rebuildFences_def)
  from duplicate_key_blinds_watchdog[OF this new(1) _ _ _ new(2) demo_input_fields(1) demo_files_jobs, of demo_job]
  have "\<forall>f \<in> set (w1_findings demo_ext 300000 (demo_input (Some demo_commit) (?d\<lparr>s_jobs := [demo_job, new]\<rparr>))). names_no_job f"
    by (simp add: demo_job_def)
  then show ?thesis
    using new(1) by blast
qed

lemma demo_quiet_parts:
  "store_facts (demo_input commitSha d) = []" "desired_outcome demo_ext (demo_input commitSha d) = ([], [])"
  "evaluateReconciliationEvidence demo_ext now (wi_evidence (demo_input commitSha d)) = Inr []"
  "evaluateCredentialProvider (wi_credentialBytes (demo_input commitSha d)) p = []"
  "\<not> heartbeat_late (wi_w2Age (demo_input commitSha d)) (wi_grace (demo_input commitSha d))"
  by (simp_all add: store_facts_def demo_input_def desired_outcome_def parseDesiredState_def
      rbind_def ensure_def evaluateDesiredState_def evaluateReconciliationEvidence_def evaluateCredentialProvider_def heartbeat_late_def)

lemma demo_w1: "w1_findings demo_ext now (demo_input commitSha d) = health_facts (demo_input commitSha d) []"
  by (simp add: w1_findings_def demo_quiet_parts)

lemma blocked_w1_findings:
  "w1_findings demo_ext now (demo_input (Some demo_commit) blocked_doc) = [run_fact ''ADMISSION_BLOCKED_UNKNOWN'' demo_job unknown_record]"
  using blocked_reading by (auto simp: demo_w1 health_facts_def)

lemma one_fact_updates: "root_of f = Inr k \<Longrightarrow> \<exists>st' notes. updateAlertState X le now owns producer st [f] = Inr (st', notes)"
  by (simp add: updateAlertState_def compileIncidents_def root_of_def rbind_def)

lemma occ_text: "js_trim (''occ:'' @ t) \<noteq> []"
  by (simp add: js_trim_def is_ws_def dropWhile_eq_Nil_conv)

lemma blocked_root: "root_of (annotate_finding jobs (run_fact ''ADMISSION_BLOCKED_UNKNOWN'' demo_job unknown_record)) = Inr (stuck_root demo_job unknown_record)"
proof -
  obtain t where "o_occurrenceId unknown_record = ''occ:'' @ t"
    using build_fields(13)[OF demo_build[unfolded buildFor_def]] by (auto simp: unknown_facts deriveOccurrenceId_def Let_def dest: sym split: if_splits)
  then have "js_trim (o_occurrenceId unknown_record) \<noteq> []"
    using occ_text by simp
  moreover have "js_trim ''RUN_STUCK_OUTCOME_UNKNOWN'' \<noteq> []" "js_trim ''j1'' \<noteq> []"
    by code_simp+
  ultimately show ?thesis
    by (simp add: root_of_def run_fact_def rootInputFor_def occ_root_def occurrenceIdentity_def or_else_def incidentRootIdentity_def
        nonEmptyField_def rbind_def stuck_root_def)
qed

lemma first_report:
  assumes "root_of f = Inr k" and "\<not> operator_reconciled f"
  shows "\<exists>st' notes r. updateAlertState X le now owns producer empty_istate [f] = Inr (st', notes) \<and> st_incidents st' = [r]
    \<and> i_root r = k \<and> i_lifecycle r = L_Open \<and> ci_root (i_of r) = rootInputFor f"
proof -
  let ?c = "add_fact f (fresh_compiled (rootInputFor f) k)"
  have c: "ci_identity ?c = k" "ci_facts ?c = [f]" "ci_root ?c = rootInputFor f"
    by (simp_all add: add_fact_def fresh_compiled_def)
  let ?r = "transitioned now (open_record now producer 1 ?c)"
  let ?st = "emit X L_Open now (open_record now producer 1 ?c) (empty_istate, [])"
  have i: "st_incidents (fst ?st) = [?r]"
    by (simp add: emit_def Let_def put_incident_def empty_istate_def put_outbox_def)
  have "acknowledged_roots [?c] = []"
    using assms(2) c by (simp add: acknowledged_roots_def)
  moreover have "incident_step X now [] producer ?c (empty_istate, []) = ?st"
    by (simp add: incident_step_def find_incident_def empty_istate_def acknowledge_def split: option.split)
  moreover have "fold (recover_step X now [k] owns) (st_incidents (fst ?st)) ?st = ?st"
    using c by (simp add: i recover_step_def)
  ultimately have "updateAlertState X le now owns producer empty_istate [f] = Inr ?st"
    using assms(1) c by (simp add: updateAlertState_def compileIncidents_def root_of_def rbind_def sort_by_def updateIncidentState_def)
  then show ?thesis
    using i c by (intro exI[of _ "fst ?st"] exI[of _ "snd ?st"] exI[of _ ?r]) (simp add: transitioned_def open_record_def)
qed

lemma blocked_seen:
  "annotateFindingsWithJobs jobs (w1_findings demo_ext 300000 (demo_input (Some demo_commit) blocked_doc))
    = [annotate_finding jobs (run_fact ''ADMISSION_BLOCKED_UNKNOWN'' demo_job unknown_record)]"
  by (simp add: blocked_w1_findings annotateFindingsWithJobs_def)

lemma blocked_first_run:
  "\<exists>st' notes r. updateAlertState demo_ext shorter 300000 (ownsIncident ''w1'') ''w1'' empty_istate
      (annotateFindingsWithJobs (input_jobs (demo_input (Some demo_commit) blocked_doc))
        (w1_findings demo_ext 300000 (demo_input (Some demo_commit) blocked_doc))) = Inr (st', notes)
    \<and> st_incidents st' = [r] \<and> i_root r = stuck_root demo_job unknown_record \<and> i_lifecycle r = L_Open \<and> ownsIncident ''w1'' r"
proof -
  let ?f = "annotate_finding (input_jobs (demo_input (Some demo_commit) blocked_doc)) (run_fact ''ADMISSION_BLOCKED_UNKNOWN'' demo_job unknown_record)"
  have "rin_stableSubjectId (rootInputFor ?f) = None"
    by (simp add: rootInputFor_def occ_root_def)
  moreover have "\<not> operator_reconciled ?f"
    by (simp add: operator_reconciled_def)
  ultimately show ?thesis
    using first_report[OF blocked_root, of _ demo_ext shorter 300000 "ownsIncident ''w1''" "''w1''"]
    unfolding blocked_seen by (fastforce simp: ownsIncident_def)
qed

theorem blocked_job_has_incident_witness:
  "\<exists>st' notes. updateAlertState demo_ext shorter 300000 (ownsIncident ''w1'') ''w1'' empty_istate
      (annotateFindingsWithJobs (input_jobs (demo_input (Some demo_commit) blocked_doc))
        (w1_findings demo_ext 300000 (demo_input (Some demo_commit) blocked_doc))) = Inr (st', notes)
    \<and> (lifecycle_at st' (stuck_root demo_job unknown_record) = Some L_Open \<or> lifecycle_at st' health_root = Some L_Open)"
proof -
  obtain st' ns where run: "updateAlertState demo_ext shorter 300000 (ownsIncident ''w1'') ''w1'' empty_istate
      (annotateFindingsWithJobs (input_jobs (demo_input (Some demo_commit) blocked_doc))
        (w1_findings demo_ext 300000 (demo_input (Some demo_commit) blocked_doc))) = Inr (st', ns)"
    using blocked_first_run by blast
  from blocked_job_has_incident[OF demo_input_fields(1) demo_files_jobs _ _ _ _ unknown_unresolved _ run, of demo_job]
  have "lifecycle_at st' (stuck_root demo_job unknown_record) = Some L_Open \<or> lifecycle_at st' health_root = Some L_Open"
    by (simp add: empty_istate_def lifecycle_at_def find_incident_def unknown_facts)
  with run show ?thesis by blast
qed

lemma blind_reading:
  assumes "read_health X None path fault now world = Inr h"
  shows "\<not> he_complete h"
proof
  assume "he_complete h"
  moreover obtain s where "projectSchedulerHealth X s = Inr h" "\<not> hs_canonicalPair s"
    using assms by (auto simp: read_health_def Let_def rbind_eq_Inr is_commit_sha_def)
  ultimately show False
    using project_complete by (auto simp: trusted_document_def)
qed

lemma blind_findings: "\<exists>reason. w1_findings demo_ext now (demo_input None d) = [runtime_fact ''scheduler-health'' reason]"
proof (cases "wi_health (demo_input None d)")
  case (Inr h)
  then show ?thesis
    using blind_reading[of demo_ext _ _ _ _ h] by (auto simp: demo_w1 health_facts_def)
next
  case (Inl e)
  show ?thesis
    unfolding demo_w1 health_facts_def Inl by (simp only: sum.case) (rule exI, rule refl)
qed

text \<open>The run is reported, an incomplete reading of the same document closes its incident, and a complete
  one does not open it again.\<close>

theorem incomplete_health_closes_run_witness:
  "\<exists>st0 st1 st2 n1 n2. lifecycle_at st0 (stuck_root demo_job unknown_record) = Some L_Open
    \<and> updateAlertState demo_ext shorter 400000 (ownsIncident ''w1'') ''w1'' st0
        (annotateFindingsWithJobs (input_jobs (demo_input None blocked_doc)) (w1_findings demo_ext 400000 (demo_input None blocked_doc))) = Inr (st1, n1)
    \<and> updateAlertState demo_ext shorter 500000 (ownsIncident ''w1'') ''w1'' st1
        (annotateFindingsWithJobs [demo_job] [run_fact ''ADMISSION_BLOCKED_UNKNOWN'' demo_job unknown_record]) = Inr (st2, n2)
    \<and> lifecycle_at st2 (stuck_root demo_job unknown_record) = Some L_Recovered \<and> told st2 (stuck_root demo_job unknown_record) = told st1 (stuck_root demo_job unknown_record)"
proof -
  let ?k = "stuck_root demo_job unknown_record"
  let ?i = "demo_input None blocked_doc"
  obtain st0 :: istate and r where first: "st_incidents st0 = [r]" "i_root r = ?k" "i_lifecycle r = L_Open" "ownsIncident ''w1'' r"
    using blocked_first_run by blast
  then have found: "find_incident st0 ?k = Some r" "distinct (map i_root (st_incidents st0))"
    by (simp_all add: find_incident_def)
  obtain reason where "w1_findings demo_ext 400000 ?i = [runtime_fact ''scheduler-health'' reason]"
    using blind_findings by blast
  then obtain st1 n1 where second: "updateAlertState demo_ext shorter 400000 (ownsIncident ''w1'') ''w1'' st0
      (annotateFindingsWithJobs (input_jobs ?i) (w1_findings demo_ext 400000 ?i)) = Inr (st1, n1)"
    using one_fact_updates[of "annotate_finding (input_jobs ?i) (runtime_fact ''scheduler-health'' reason)"] root_of_health
    by (fastforce simp: annotateFindingsWithJobs_def)
  obtain st2 n2 where third: "updateAlertState demo_ext shorter 500000 (ownsIncident ''w1'') ''w1'' st1
      (annotateFindingsWithJobs [demo_job] [run_fact ''ADMISSION_BLOCKED_UNKNOWN'' demo_job unknown_record]) = Inr (st2, n2)"
    using one_fact_updates[OF blocked_root] by (fastforce simp: annotateFindingsWithJobs_def)
  have "lifecycle_at st2 ?k = Some L_Recovered \<and> told st2 ?k = told st1 ?k"
  proof (rule incomplete_health_closes_run[OF _ found(1) _ first(3,4) found(2) second])
    show "\<not> he_complete h" if "wi_health ?i = Inr h" for h
      using blind_reading that by simp
    show "watchdog_step\<^sup>*\<^sup>* st1 st2"
      using watchdog_step.observed[OF third] by blast
  qed simp
  then show ?thesis
    using second third found(1) first(3) by (intro exI[of _ st0] exI[of _ st1] exI[of _ st2] exI[of _ n1] exI[of _ n2]) (simp add: lifecycle_at_def)
qed

end
