(* ===== verification/Relay.thy ===== *)
theory Relay
  imports SelfService Detectors
begin

section \<open>The relay of the broker\<close>

text \<open>
  \<^verbatim>\<open>packages/broker/src/relay.js\<close> and \<^verbatim>\<open>scheduler-mutation-result.js\<close>: the process of an agent sends a mutation
  of the scheduler to its parent and may lose the answer. The relay then lists the job over the same
  channel and decides from the list whether the mutation was applied. The arguments are those the schema
  of the capability admits. An answer that never arrived, because the call threw, is \<open>None\<close>. The detail
  sentences of errors are left out; the reason of an undecided outcome, which is also appended to the
  evidence file, is kept. The result of a list is an object, never null.
\<close>

subsection \<open>Shapes\<close>

definition exactKeys :: "jval \<Rightarrow> string list \<Rightarrow> bool" where
  "exactKeys v expected \<longleftrightarrow> (case v of
     JObj kvs \<Rightarrow> join_with [CHR 0x00] (sort (map fst kvs)) = join_with [CHR 0x00] (sort expected) | _ \<Rightarrow> False)"

definition nonEmptyText :: "jval \<Rightarrow> bool" where
  "nonEmptyText v \<longleftrightarrow> (case v of JStr s \<Rightarrow> s \<noteq> [] | _ \<Rightarrow> False)"

definition is_bool :: "jval \<Rightarrow> bool" where
  "is_bool v \<longleftrightarrow> (case v of JBool _ \<Rightarrow> True | _ \<Rightarrow> False)"

definition validIso :: "ext \<Rightarrow> jval \<Rightarrow> bool" where
  "validIso X v \<longleftrightarrow> (case v of
     JStr s \<Rightarrow> s \<noteq> [] \<and> (case date_parse X s of Some ms \<Rightarrow> to_iso X ms = Some s | None \<Rightarrow> False) | _ \<Rightarrow> False)"

definition validSchedule :: "ext \<Rightarrow> jval \<Rightarrow> bool" where
  "validSchedule X v \<longleftrightarrow>
     (if jget v ''kind'' = JStr ''at'' then exactKeys v [''at'', ''kind''] \<and> validIso X (jget v ''at'')
      else if jget v ''kind'' = JStr ''every''
      then exactKeys v [''everyMs'', ''kind''] \<and> safe_integer (jget v ''everyMs'') \<and> 1 \<le> num_floor (jget v ''everyMs'')
      else jget v ''kind'' = JStr ''cron'' \<and> exactKeys v [''expr'', ''kind'', ''timezone'']
        \<and> nonEmptyText (jget v ''expr'') \<and> nonEmptyText (jget v ''timezone''))"

definition validDestination :: "jval \<Rightarrow> bool" where
  "validDestination v \<longleftrightarrow> v = JNull
     \<or> exactKeys v [''channel'', ''to''] \<and> nonEmptyText (jget v ''channel'') \<and> nonEmptyText (jget v ''to'')"

definition validAuditStatus :: "jval \<Rightarrow> bool" where
  "validAuditStatus v \<longleftrightarrow> v \<in> {JStr ''appended'', JStr ''append_failed'', JStr ''reconciled''}"

definition COMMITTED_FIELDS :: "string list" where
  "COMMITTED_FIELDS = [''auditStatus'', ''autoRetry'', ''deleteAfterRun'', ''enabled'', ''exactPersistedDeliveryDestination'',
     ''jobId'', ''name'', ''nextRunAt'', ''normalizedSchedule'', ''targetAgentId'', ''timezone'']"

text \<open>The fields a created, updated and cloned job have in common.\<close>

definition committed_shape :: "ext \<Rightarrow> jval \<Rightarrow> bool" where
  "committed_shape X r \<longleftrightarrow> exactKeys r COMMITTED_FIELDS \<and> nonEmptyText (jget r ''jobId'') \<and> nonEmptyText (jget r ''name'')
     \<and> validSchedule X (jget r ''normalizedSchedule'')
     \<and> (if jget (jget r ''normalizedSchedule'') ''kind'' = JStr ''cron''
        then jget r ''timezone'' = jget (jget r ''normalizedSchedule'') ''timezone'' else jget r ''timezone'' = JNull)
     \<and> nonEmptyText (jget r ''targetAgentId'') \<and> validDestination (jget r ''exactPersistedDeliveryDestination'')
     \<and> is_bool (jget r ''autoRetry'') \<and> is_bool (jget r ''deleteAfterRun'') \<and> validAuditStatus (jget r ''auditStatus'')"

definition validSchedulerMutationResult :: "ext \<Rightarrow> string \<Rightarrow> jval \<Rightarrow> bool" where
  "validSchedulerMutationResult X operation r \<longleftrightarrow>
     (let next' = jget r ''nextRunAt'' in
      if operation \<in> {''create'', ''update''} then committed_shape X r \<and> is_bool (jget r ''enabled'')
        \<and> (next' = JNull \<or> validIso X next')
        \<and> (operation \<noteq> ''create'' \<or> jget r ''enabled'' = JBool True \<and> next' \<noteq> JNull)
      else if operation = ''clone_disabled'' then committed_shape X r \<and> jget r ''enabled'' = JBool False \<and> next' = JNull
      else if operation \<in> {''enable'', ''disable''}
      then exactKeys r [''auditStatus'', ''enabled'', ''jobId'', ''nextRunAt''] \<and> nonEmptyText (jget r ''jobId'')
        \<and> is_bool (jget r ''enabled'') \<and> (next' = JNull \<or> validIso X next') \<and> validAuditStatus (jget r ''auditStatus'')
      else operation = ''remove'' \<and> exactKeys r [''auditStatus'', ''jobId'', ''removed''] \<and> jget r ''removed'' = JBool True
        \<and> nonEmptyText (jget r ''jobId'') \<and> validAuditStatus (jget r ''auditStatus''))"

text \<open>\<open>codes\<close> are the error codes the manifest declares.\<close>

definition validSchedulerFailure :: "string list \<Rightarrow> jval \<Rightarrow> bool" where
  "validSchedulerFailure codes parent \<longleftrightarrow> exactKeys parent [''error'', ''ok''] \<and> jget parent ''ok'' = JBool False
     \<and> exactKeys (jget parent ''error'') [''code'', ''detail''] \<and> nonEmptyText (jget (jget parent ''error'') ''code'')
     \<and> is_str (jget (jget parent ''error'') ''detail'') \<and> str_val (jget (jget parent ''error'') ''code'') \<in> set codes"

subsection \<open>The read-back\<close>

definition relay_key :: "jval \<Rightarrow> jval" where
  "relay_key args = (if jget args ''logical_key'' \<noteq> JUndef then jget args ''logical_key'' else jget args ''new_logical_key'')"

definition relay_list_args :: "jval \<Rightarrow> jval" where
  "relay_list_args args = (if relay_key args \<noteq> JUndef then JObj [(''logical_key'', relay_key args)]
     else JObj [(''job_id'', jget args ''job_id'')])"

text \<open>The first job of the answer (\<^verbatim>\<open>undefined\<close> when there is none), or the reason why it cannot be used.\<close>

definition structured :: "jval \<Rightarrow> bool" where
  "structured envelope \<longleftrightarrow> exactKeys envelope [''ok'', ''result''] \<and> jget envelope ''ok'' = JBool True"

definition read_back :: "jval option \<Rightarrow> string + jval" where
  "read_back answer = (case answer of None \<Rightarrow> Inl ''read-back transport failed''
   | Some envelope \<Rightarrow>
       if structured envelope \<and> jget (jget envelope ''result'') ''ok'' = JBool True
       then (case jget (jget (jget envelope ''result'') ''result'') ''jobs'' of
           JArr jobs \<Rightarrow> Inr (case jobs of [] \<Rightarrow> JUndef | j # _ \<Rightarrow> j)
         | _ \<Rightarrow> Inl ''read-back response unusable'')
       else Inl ''read-back response unusable'')"

definition isoOrNull :: "ext \<Rightarrow> jval \<Rightarrow> jval res" where
  "isoOrNull X v = (if num_finite v then rbind (isoTime X (num_floor v)) (\<lambda>t. Inr (JStr t)) else Inr JNull)"

definition committedFromJob :: "ext \<Rightarrow> jval \<Rightarrow> jval res" where
  "committedFromJob X job =
     (let schedule = coalesce (jget job ''schedule'') (JObj []); kind = jget schedule ''kind''; delivery = jget job ''delivery'' in
      rbind (isoOrNull X (jget job ''nextRunAtMs'')) (\<lambda>next'.
      Inr (JObj [(''jobId'', jget job ''id''), (''name'', jget job ''name''), (''enabled'', jget job ''enabled''),
        (''normalizedSchedule'',
           if kind = JStr ''cron'' then JObj [(''kind'', kind), (''expr'', jget schedule ''expr''), (''timezone'', jget schedule ''tz'')]
           else if kind = JStr ''at'' then JObj [(''kind'', kind), (''at'', jget schedule ''at'')]
           else JObj [(''kind'', JStr ''every''), (''everyMs'', jget schedule ''everyMs'')]),
        (''timezone'', if kind = JStr ''cron'' then jget schedule ''tz'' else JNull),
        (''nextRunAt'', next'), (''targetAgentId'', jget job ''agentId''),
        (''exactPersistedDeliveryDestination'',
           if jget delivery ''mode'' = JStr ''announce''
           then JObj [(''channel'', jget delivery ''channel''), (''to'', jget delivery ''to'')] else JNull),
        (''autoRetry'', JBool (jget (jget job ''retry'') ''auto'' = JBool True)),
        (''deleteAfterRun'', JBool (jget job ''deleteAfterRun'' = JBool True)), (''auditStatus'', JStr ''reconciled'')])))"

definition toggledFromJob :: "ext \<Rightarrow> jval \<Rightarrow> jval res" where
  "toggledFromJob X job = rbind (isoOrNull X (jget job ''nextRunAtMs'')) (\<lambda>next'.
     Inr (JObj [(''jobId'', jget job ''id''), (''enabled'', jget job ''enabled''), (''nextRunAt'', next'),
       (''auditStatus'', JStr ''reconciled'')]))"

subsection \<open>The decision\<close>

datatype relay_answer = Applied jval | Not_Applied | Still_Unknown string

definition applied :: "jval res \<Rightarrow> relay_answer res" where
  "applied r = rbind r (\<lambda>v. Inr (Applied v))"

definition clone_proven :: "jval \<Rightarrow> jval \<Rightarrow> bool" where
  "clone_proven args job \<longleftrightarrow> (let p = jget job ''cloneProvenance''; anchor = jget args ''expected_revision'' in
     is_object p \<and> jget p ''sourceJobId'' = jget args ''job_id''
     \<and> jget p ''sourceScheduleRevision'' = jget anchor ''schedule_revision''
     \<and> jget p ''sourceUpdatedAtMs'' = jget anchor ''updated_at_ms'')"

definition decide_create :: "ext \<Rightarrow> jval \<Rightarrow> jval \<Rightarrow> relay_answer res" where
  "decide_create X args job = (if job = JUndef then Inr Not_Applied
     else if jget args ''name'' \<noteq> JUndef \<and> jget job ''name'' \<noteq> jget args ''name''
     then Inr (Still_Unknown ''logical key bound to a different definition'') else applied (committedFromJob X job))"

definition decide_clone :: "ext \<Rightarrow> jval \<Rightarrow> jval \<Rightarrow> relay_answer res" where
  "decide_clone X args job = (if job = JUndef then Inr Not_Applied
     else if \<not> is_object (jget args ''expected_revision'')
     then Inr (Still_Unknown ''no revision anchor for a deterministic clone read-back'')
     else if \<not> clone_proven args job
     then Inr (Still_Unknown ''logical key bound to a job whose clone provenance does not prove this intent'')
     else if jget job ''enabled'' \<noteq> JBool False then Inr (Still_Unknown ''logical key bound to an enabled job'')
     else if jget args ''new_name'' \<noteq> JUndef \<and> jget job ''name'' \<noteq> jget args ''new_name''
     then Inr (Still_Unknown ''logical key bound to a different definition'') else applied (committedFromJob X job))"

definition decide_remove :: "jval \<Rightarrow> jval \<Rightarrow> relay_answer" where
  "decide_remove args job = (if job = JUndef
     then Applied (JObj [(''removed'', JBool True), (''jobId'', jget args ''job_id''), (''auditStatus'', JStr ''reconciled'')])
     else Not_Applied)"

definition movedPast :: "jval \<Rightarrow> jval \<Rightarrow> bool" where
  "movedPast args job \<longleftrightarrow> (let anchor = jget args ''expected_revision'' in
     jget job ''scheduleRevision'' \<noteq> jget anchor ''schedule_revision'' \<or> jget job ''updatedAtMs'' \<noteq> jget anchor ''updated_at_ms'')"

definition decide_change :: "ext \<Rightarrow> string \<Rightarrow> jval \<Rightarrow> jval \<Rightarrow> relay_answer res" where
  "decide_change X operation args job =
     (if jget args ''expected_revision'' = JUndef
      then Inr (Still_Unknown ''no expected_revision anchor for a deterministic read-back'')
      else if job = JUndef then Inr Not_Applied
      else if \<not> movedPast args job then Inr Not_Applied
      else applied (if operation = ''update'' then committedFromJob X job else toggledFromJob X job))"

definition reconcileAfterLostResponse :: "ext \<Rightarrow> string \<Rightarrow> jval \<Rightarrow> jval option \<Rightarrow> relay_answer res" where
  "reconcileAfterLostResponse X operation args answer = (case read_back answer of
     Inl reason \<Rightarrow> Inr (Still_Unknown reason)
   | Inr job \<Rightarrow> if operation = ''create'' then decide_create X args job
       else if operation = ''clone_disabled'' then decide_clone X args job
       else if operation = ''remove'' then Inr (decide_remove args job)
       else decide_change X operation args job)"

text \<open>The line an undecided outcome leaves for the watchdog.\<close>

definition evidence_of :: "int \<Rightarrow> string \<Rightarrow> jval \<Rightarrow> relay_answer \<Rightarrow> evidence_entry list" where
  "evidence_of now operation args answer = (case answer of
     Still_Unknown reason \<Rightarrow> [\<lparr>ev_ts = now, ev_operation = operation,
       ev_logicalKey = (if relay_key args \<noteq> JUndef then Some (str_val (relay_key args)) else None),
       ev_jobId = (if relay_key args = JUndef \<and> jget args ''job_id'' \<noteq> JUndef then Some (str_val (jget args ''job_id'')) else None),
       ev_reason = reason\<rparr>]
   | _ \<Rightarrow> [])"

subsection \<open>The handler\<close>

datatype relay_reply = Relay_Result jval | Relay_Failure string

definition relay_reply_of :: "relay_answer \<Rightarrow> relay_reply" where
  "relay_reply_of a = (case a of Applied v \<Rightarrow> Relay_Result v | Not_Applied \<Rightarrow> Relay_Failure ''mutation_not_applied''
     | Still_Unknown _ \<Rightarrow> Relay_Failure ''mutation_outcome_unknown'')"

text \<open>
  One mutation of the scheduler through the relay: \<open>sent\<close> is the answer to the mutation, \<open>answer\<close> that to
  the list, which is asked for only when the first one decides nothing.
\<close>

definition relay_parent :: "jval \<Rightarrow> jval" where
  "relay_parent envelope = (if structured envelope then jget envelope ''result'' else JUndef)"

definition needs_reconcile :: "ext \<Rightarrow> string list \<Rightarrow> string \<Rightarrow> jval option \<Rightarrow> bool" where
  "needs_reconcile X codes operation sent \<longleftrightarrow> (case sent of None \<Rightarrow> True
   | Some envelope \<Rightarrow> (let parent = relay_parent envelope in
       jget parent ''ok'' = JBool False \<and> jget (jget parent ''error'') ''code'' = JStr ''mutation_outcome_unknown''
       \<or> \<not> (jget parent ''ok'' = JBool True \<and> validSchedulerMutationResult X operation (jget parent ''result''))
          \<and> \<not> validSchedulerFailure codes parent))"

definition relay_mutation :: "ext \<Rightarrow> string list \<Rightarrow> string \<Rightarrow> jval \<Rightarrow> jval option \<Rightarrow> jval option \<Rightarrow> relay_reply res" where
  "relay_mutation X codes operation args sent answer =
     (if needs_reconcile X codes operation sent
      then rbind (reconcileAfterLostResponse X operation args answer) (\<lambda>a. Inr (relay_reply_of a))
      else (case sent of None \<Rightarrow> Inr (Relay_Failure ''invalid_arguments'')
        | Some envelope \<Rightarrow> (let parent = relay_parent envelope in
            if jget parent ''ok'' = JBool True then Inr (Relay_Result (jget parent ''result''))
            else Inr (Relay_Failure (str_val (jget (jget parent ''error'') ''code''))))))"

subsection \<open>The answer of the parent\<close>

text \<open>
  \<^verbatim>\<open>list\<close> of \<^verbatim>\<open>self-service/access.js\<close>, as it arrives at the relay through the parent's gateway: the reply of
  the handler inside the envelope of the channel.
\<close>

definition list_row :: "jval \<times> bool \<Rightarrow> jval" where
  "list_row row = merge_obj (fst row) (JObj [(''fenced'', JBool (snd row))])"

definition failure_envelope :: "string \<Rightarrow> jval" where
  "failure_envelope code = JObj [(''ok'', JBool True), (''result'', JObj [(''ok'', JBool False),
     (''error'', JObj [(''code'', JStr code), (''detail'', JStr [])])])]"

definition list_answer :: "jval \<Rightarrow> jval \<Rightarrow> sdoc option \<Rightarrow> jval option" where
  "list_answer args context disk = Some (case ss_list args context disk of
     Inl _ \<Rightarrow> failure_envelope ''internal_error''
   | Inr (Err code) \<Rightarrow> failure_envelope code
   | Inr (Ok rows) \<Rightarrow> JObj [(''ok'', JBool True), (''result'', JObj [(''ok'', JBool True),
       (''result'', JObj [(''jobs'', JArr (map list_row rows))])])])"

end
