(* ===== verification/Loading.thy ===== *)
theory Loading
  imports OccurrenceValidity Store
begin

section \<open>Whatever was written can be read\<close>

text \<open>
  The compatible reader (\<^verbatim>\<open>loadDoc\<close>, which tolerates entries of an older history that name unknown states)
  accepts every document the strict validation accepts and changes nothing in it but the mark of an
  unverifiable history, which a strictly valid record has no use for.
\<close>

definition unmarked :: "occurrence \<Rightarrow> occurrence" where
  "unmarked r = r\<lparr>o_historyVerification := None\<rparr>"

lemma unmarked_fields [simp]:
  "o_occurrenceId (unmarked r) = o_occurrenceId r" "o_jobId (unmarked r) = o_jobId r" "o_kind (unmarked r) = o_kind r"
  "o_retryOf (unmarked r) = o_retryOf r" "o_state (unmarked r) = o_state r" "o_scheduleRevision (unmarked r) = o_scheduleRevision r"
  "isUnresolvedUnknown (unmarked r) = isUnresolvedUnknown r" "o_runId (unmarked r) = o_runId r" "o_admittedAt (unmarked r) = o_admittedAt r"
  "logicalCoordinates (unmarked r) = logicalCoordinates r"
  "fence_of (unmarked r) = fence_of r"
  by (simp_all add: unmarked_def isUnresolvedUnknown_def logicalCoordinates_def fence_of_def)

lemma scan_known:
  assumes "scan_history False admittedAt settledAt index hs sc = Inr sc'"
    and "if index = 0 then sc_previous sc = None else (\<exists>s. sc_previous sc = Some s \<and> known_state s)"
  shows "invalid_enums_from index hs = []"
  using assms
proof (induction hs arbitrary: index sc)
  case (Cons e hs)
  obtain sc1 where sc1: "scan_entry False admittedAt settledAt index e sc = Inr sc1"
    "scan_history False admittedAt settledAt (Suc index) hs sc1 = Inr sc'"
    using Cons.prems(1) by (auto simp: rbind_eq_Inr)
  have e: "h_from e = sc_previous sc" "sc_previous sc1 = Some (h_to e)" "index = 0 \<longrightarrow> h_to e = Admitted"
    "index > 0 \<longrightarrow> legal_entry e \<or> is_annotation settledAt e"
    using sc1(1) by (auto simp: scan_entry_Inr)
  have to: "known_state (h_to e)"
    using e(3,4) canTransition_known by (cases "index = 0") (auto simp: legal_entry_def is_annotation_def known_state_def split: option.splits)
  then have "\<not> bad_enum index e"
    using e(1) Cons.prems(2) by (auto simp: bad_enum_def split: if_splits)
  moreover have "invalid_enums_from (Suc index) hs = []"
    using Cons.IH[OF sc1(2)] e(2) to by simp
  ultimately show ?case by simp
qed simp

lemma strict_compatible:
  assumes "validateRecord r False = Inr r'"
  shows "validateRecord r True = Inr (unmarked r)"
proof -
  obtain sc where sc: "first_fault (owner_faults r @ identity_faults r @ outcome_faults r) = None"
    "scan_history False (o_admittedAt r) (settled_at r) 0 (o_history r) scan_start = Inr sc"
    "first_fault (closing_faults False r sc) = None"
    using assms by (auto simp: validateRecord_def is_unverifiable_def split: option.splits sum.splits)
  have "invalidEnums r = []"
    unfolding invalidEnums_def by (rule scan_known[OF sc(2)]) (simp add: scan_start_def)
  then have u: "is_unverifiable c r = False" "unverifiableAt c r t = False" for c t
    by (simp_all add: is_unverifiable_def unverifiableAt_def)
  have "closing_faults True r sc = closing_faults False r sc"
    by (simp add: closing_faults_def late_settlement_invalid_def termination_invalid_def u split: option.split)
  then show ?thesis
    using sc by (simp add: validateRecord_def u unmarked_def)
qed

lemma strict_ledger: "check_ledger False ids keys rs = Inr rs' \<Longrightarrow> check_ledger True ids keys rs = Inr (map unmarked rs)"
proof (induction rs arbitrary: ids keys rs')
  case (Cons r rs)
  obtain r' where r': "validateRecord r False = Inr r'"
    using Cons.prems by (auto split: sum.splits)
  then show ?case
    using Cons strict_compatible[OF r'] by (auto simp: rbind_eq_Inr split: if_splits)
qed simp

lemma find_unmarked: "findOccurrenceById (map unmarked occs) i = map_option unmarked (findOccurrenceById occs i)"
  by (induction occs) (simp_all add: findOccurrenceById_def)

lemma rebuild_unmarked: "rebuild_from fs (map unmarked occs) = rebuild_from fs occs"
  by (induction occs arbitrary: fs) (simp_all split: option.split)

lemma predecessor_unmarked: "retry_predecessor_ok (map unmarked occs) (unmarked r) = retry_predecessor_ok occs r"
  by (simp add: retry_predecessor_ok_def find_unmarked split: option.split)

lemma find_map: "find p (map f xs) = map_option f (find (p \<circ> f) xs)"
  by (induction xs) simp_all

lemma stored_document_loads:
  assumes "valid_doc d"
  shows "loadDoc (Some d) = Inr (d\<lparr>s_occurrences := map unmarked (s_occurrences d)\<rparr>)"
proof -
  have strict: "validate_doc False d = Inr d"
    using assms by (simp add: validateDocument_iff[unfolded validateDocument_def])
  obtain occs where occs: "check_ledger False [] [] (s_occurrences d) = Inr occs"
    using strict by (auto simp: validate_doc_def rbind_eq_Inr)
  then have same: "occs = s_occurrences d" 
    using strict by (auto simp: validate_doc_def rbind_eq_Inr split: option.splits if_splits dest: arg_cong[where f = s_occurrences])
  have "find (\<lambda>r. o_kind r = Retry \<and> \<not> retry_predecessor_ok (s_occurrences d) r) (s_occurrences d) = None"
    "fences_exact (s_fences d) (rebuildFences (s_occurrences d))"
    using strict occs same by (auto simp: validate_doc_def split: option.splits if_splits)
  then show ?thesis
    using strict_ledger[OF occs]
    by (simp add: loadDoc_def validate_doc_def find_map comp_def predecessor_unmarked rebuildFences_def rebuild_unmarked)
qed

lemma valid_disk_loads:
  assumes "valid_disk disk"
  shows "\<exists>d. loadDoc disk = Inr d \<and> s_jobs d = s_jobs (disk_doc disk) \<and> s_fences d = s_fences (disk_doc disk)
    \<and> s_occurrences d = map unmarked (s_occurrences (disk_doc disk))"
  using assms stored_document_loads by (cases disk) (auto simp: valid_disk_def disk_doc_def loadDoc_def emptyDoc_def)

end
