(* ===== verification/RelayFacts.thy ===== *)
theory RelayFacts
  imports Relay Loading Services Contracts
begin

section \<open>What the relay may say\<close>

text \<open>
  A mutation whose answer is lost, the document it leaves, and the answer the relay gives after it has
  listed the caller's jobs in that document.
\<close>

subsection \<open>What the list shows\<close>

definition shown :: "jval \<Rightarrow> string \<Rightarrow> sdoc option \<Rightarrow> job list" where
  "shown args caller disk = filter (\<lambda>j. j_agentId j = caller
     \<and> (jget args ''logical_key'' \<noteq> JUndef \<longrightarrow> opt_val JStr (j_logicalKey j) = jget args ''logical_key'')
     \<and> (jget args ''job_id'' \<noteq> JUndef \<longrightarrow> JStr (j_id j) = jget args ''job_id'')) (s_jobs (disk_doc disk))"

definition row_val :: "sdoc option \<Rightarrow> job \<Rightarrow> jval" where
  "row_val disk j = list_row (publicJobWithoutMessage j, fenced (s_fences (disk_doc disk)) (j_id j))"

lemma structured_simps [simp]: "structured (JObj [(''ok'', JBool True), (''result'', v)])"
  by (simp add: structured_def exactKeys_def)

lemma read_back_list:
  assumes "trustedCaller context = Some caller" and "valid_disk disk" and "jget args ''all_agents'' \<noteq> JBool True"
  shows "read_back (list_answer args context disk) = Inr (case shown args caller disk of [] \<Rightarrow> JUndef | j # _ \<Rightarrow> row_val disk j)"
proof -
  obtain d where d: "loadDoc disk = Inr d" "s_jobs d = s_jobs (disk_doc disk)" "s_fences d = s_fences (disk_doc disk)"
    using valid_disk_loads[OF assms(2)] by blast
  then have "ss_list args context disk = Inr (Ok (map (\<lambda>j. (publicJobWithoutMessage j, fenced (s_fences (disk_doc disk)) (j_id j))) (shown args caller disk)))"
    using assms(1,3) by (simp add: ss_list_def shown_def)
  then show ?thesis
    by (simp add: read_back_def list_answer_def row_val_def split: list.split)
qed

lemma row_lookup: "k \<noteq> ''fenced'' \<Longrightarrow> k \<noteq> ''payload'' \<Longrightarrow> jget (row_val disk j) k = jget (toPublicJob j) k"
  by (simp add: row_val_def list_row_def publicJobWithoutMessage_def jget_fields lookup_simps)

lemma merged_lookup: "map_of (obj_fields b) k = None \<Longrightarrow> jget (merge_obj a b) k = jget a k"
  by (simp add: jget_fields lookup_simps)

lemma absent_field: "k \<notin> set (map fst kvs) \<Longrightarrow> map_of (obj_fields (obj_of kvs)) k = None"
  by (induction kvs) (auto simp: lookup_simps)

lemma definition_lookup:
  assumes "k \<notin> set [''nextRunAtMs'', ''lastRunAtMs'', ''lastStatus'', ''lastRunStatus'', ''lastDurationMs'', ''lastDeliveryStatus'',
    ''lastError'', ''consecutiveErrors'', ''cloneProvenance'', ''state'']"
  shows "jget (toPublicJob j) k = jget (job_val j) k"
proof -
  have "jget (toPublicJob j) k = jget (definition_val j) k"
    unfolding toPublicJob_def Let_def by (rule merged_lookup, rule absent_field) (use assms in simp)
  moreover have "jget (definition_val j) k = jget (drop_field ''state'' (job_val j)) k"
    unfolding definition_val_def by (rule merged_lookup, rule absent_field) (use assms in simp)
  ultimately show ?thesis
    using assms by (simp add: jget_fields lookup_simps)
qed

lemma row_fields:
  "jget (row_val disk j) ''id'' = JStr (j_id j)" "jget (row_val disk j) ''name'' = JStr (j_name j)"
  "jget (row_val disk j) ''scheduleRevision'' = JInt (j_scheduleRevision j)" "jget (row_val disk j) ''updatedAtMs'' = JInt (j_updatedAtMs j)"
  "jget (row_val disk j) ''enabled'' = JBool (j_enabled j)" "jget (row_val disk j) ''agentId'' = JStr (j_agentId j)"
  "row_val disk j \<noteq> JUndef"
  by (simp_all add: row_lookup definition_lookup job_val_def) (simp add: row_val_def list_row_def merge_obj_def)

lemma row_next: "jget (row_val disk j) ''nextRunAtMs'' = opt_val JInt (st_nextRunAtMs (j_state j))"
  by (simp add: row_lookup) (simp add: toPublicJob_def Let_def jget_fields lookup_simps definition_val_def job_val_def opt_val_def split: option.split)

subsection \<open>The decision about a listed job\<close>

text \<open>A call that names its target by id, with a comparison.\<close>

definition targets_job :: "jval \<Rightarrow> string \<Rightarrow> bool" where
  "targets_job args i \<longleftrightarrow> jget args ''job_id'' = JStr i \<and> jget args ''logical_key'' = JUndef \<and> jget args ''new_logical_key'' = JUndef"

definition expects :: "jval \<Rightarrow> int \<Rightarrow> int \<Rightarrow> bool" where
  "expects args rv up \<longleftrightarrow> jget args ''expected_revision'' = JObj [(''schedule_revision'', JInt rv), (''updated_at_ms'', JInt up)]"

lemma relay_list_target [simp]: "targets_job args i \<Longrightarrow> relay_list_args args = JObj [(''job_id'', JStr i)]"
  by (simp add: targets_job_def relay_list_args_def relay_key_def)

lemma shown_target: "shown (JObj [(''job_id'', JStr i)]) caller disk = filter (\<lambda>j. j_id j = i \<and> j_agentId j = caller) (s_jobs (disk_doc disk))"
  unfolding shown_def by (rule filter_cong) auto

lemma filter_one:
  "distinct (map j_id js) \<Longrightarrow> j \<in> set js \<Longrightarrow> j_id j = i \<Longrightarrow> P j \<Longrightarrow> filter (\<lambda>j. j_id j = i \<and> P j) js = [j]"
proof (induction js)
  case (Cons a js)
  then show ?case
    by (cases "a = j") (auto simp: filter_empty_conv image_iff)
qed simp

lemma filter_replaced:
  "distinct (map j_id js) \<Longrightarrow> j \<in> set js \<Longrightarrow> j_id j = i \<Longrightarrow> j_id y = i \<Longrightarrow> P y
    \<Longrightarrow> filter (\<lambda>j. j_id j = i \<and> P j) (replaceFirst i (\<lambda>_. y) js) = [y]"
proof (induction js)
  case (Cons a js)
  then show ?case
    by (cases "j_id a = i") (auto simp: replaceFirst_def filter_empty_conv image_iff)
qed simp

text \<open>The next run of every job of the document is an instant a \<^verbatim>\<open>Date\<close> can hold.\<close>

definition datable :: "ext \<Rightarrow> sdoc \<Rightarrow> bool" where
  "datable X d \<longleftrightarrow> (\<forall>j \<in> set (s_jobs d). \<forall>n. st_nextRunAtMs (j_state j) = Some n \<longrightarrow> to_iso X n \<noteq> None)"

lemma filter_replaced_out:
  "distinct (map j_id js) \<Longrightarrow> \<not> P y \<Longrightarrow> j_id y = i \<Longrightarrow> filter (\<lambda>j. j_id j = i \<and> P j) (replaceFirst i (\<lambda>_. y) js) = []"
proof (induction js)
  case (Cons a js)
  then show ?case
    by (cases "j_id a = i") (auto simp: replaceFirst_def filter_empty_conv image_iff)
qed (simp add: replaceFirst_def)

lemma find_replaced:
  "j \<in> set js \<Longrightarrow> j_id j = i \<Longrightarrow> j_id y = i \<Longrightarrow> findJob (replaceFirst i (\<lambda>_. y) js) i = Some y"
  by (induction js) (auto simp: replaceFirst_def findJob_def)

lemma committed_row:
  assumes "datable X d" and "j \<in> set (s_jobs d)"
  shows "\<exists>v. committedFromJob X (row_val disk j) = Inr v \<and> jget v ''jobId'' = JStr (j_id j)"
proof -
  have "\<exists>v. isoOrNull X (jget (row_val disk j) ''nextRunAtMs'') = Inr v"
    using assms by (cases "st_nextRunAtMs (j_state j)") (auto simp: datable_def isoOrNull_def row_next isoTime_def rbind_def split: option.split)
  then obtain next' where "isoOrNull X (jget (row_val disk j) ''nextRunAtMs'') = Inr next'" ..
  then show ?thesis
    by (simp add: committedFromJob_def Let_def row_fields)
qed

lemma relay_on_list:
  assumes "trustedCaller ctx = Some caller" and "valid_disk disk" and "targets_job args i"
  shows "reconcileAfterLostResponse X operation args (list_answer (relay_list_args args) ctx disk)
    = (let job = (case filter (\<lambda>j. j_id j = i \<and> j_agentId j = caller) (s_jobs (disk_doc disk)) of [] \<Rightarrow> JUndef | j # _ \<Rightarrow> row_val disk j)
       in if operation = ''create'' then decide_create X args job
       else if operation = ''clone_disabled'' then decide_clone X args job
       else if operation = ''remove'' then Inr (decide_remove args job)
       else decide_change X operation args job)"
  using read_back_list[OF assms(1,2), of "relay_list_args args"] assms(3)
  by (simp add: reconcileAfterLostResponse_def shown_target Let_def)

lemma decided_change:
  assumes "expects args rv up" and "datable X d" and "j \<in> set (s_jobs d)"
  shows "if j_scheduleRevision j = rv \<and> j_updatedAtMs j = up then decide_change X ''update'' args (row_val disk j) = Inr Not_Applied
    else \<exists>v. decide_change X ''update'' args (row_val disk j) = Inr (Applied v) \<and> jget v ''jobId'' = JStr (j_id j)"
proof -
  have m: "movedPast args (row_val disk j) \<longleftrightarrow> \<not> (j_scheduleRevision j = rv \<and> j_updatedAtMs j = up)"
    using assms(1) by (auto simp: movedPast_def expects_def row_fields Let_def)
  obtain v where "committedFromJob X (row_val disk j) = Inr v" "jget v ''jobId'' = JStr (j_id j)"
    using committed_row[OF assms(2,3)] by blast
  then show ?thesis
    using assms(1) by (auto simp: decide_change_def m row_fields applied_def expects_def)
qed

subsection \<open>What a mutation leaves\<close>

lemma settle_cases:
  assumes "settle_mutation V disk f ok failed = (disk', r, es)"
  shows "(\<exists>d v. f (disk_doc disk) = Inr (d, v) \<and> valid_doc d \<and> disk' = Some d \<and> (r, es) = ok d v)
    \<or> (\<exists>e. disk' = disk \<and> (r, es) = failed e)"
proof -
  obtain disk1 m where m: "mutateDoc (sv_write V) disk f = (disk1, m)"
    by (cases "mutateDoc (sv_write V) disk f")
  show ?thesis
    using mutateDoc_cases[OF m] assms by (cases m) (auto simp: settle_mutation_def m eq_commute[of "(r, es)"])
qed

lemma mutationFailure_err [simp]: "mutationFailure b e = Ok v \<longleftrightarrow> False" "validationFailure e = Ok v \<longleftrightarrow> False"
  "Ok v = mutationFailure b e \<longleftrightarrow> False"
  by (auto simp: mutationFailure_def validationFailure_def Let_def)

lemma update_outcome:
  assumes "ss_update V args ctx disk = (disk', r, es)" and "targets_job args i" and "trustedCaller ctx = Some caller"
  shows "case r of Err _ \<Rightarrow> disk' = disk
    | Ok _ \<Rightarrow> \<exists>d new allowAny expected sd dl. disk' = Some d \<and> valid_doc d
        \<and> updateJob (sv_ext V) (service_opts V) (ownershipGuard caller allowAny) (with_payload args) expected i (update_patch args sd dl) (disk_doc disk) = Inr (d, new)"
proof (cases "loadScopedJob V caller (jget args ''job_id'')")
  case (Inl code)
  then show ?thesis using assms by (auto simp: ss_update_def)
next
  case (Inr q)
  obtain job allowAny where q: "q = (job, allowAny)" by (cases q)
  have i: "j_id job = i"
    using scoped_id Inr assms(2) by (simp add: q targets_job_def)
  let ?settle = "\<lambda>expected patch. settle_mutation V disk
      (updateJob (sv_ext V) (service_opts V) (ownershipGuard caller allowAny) (with_payload args) expected (j_id job) patch)
      (\<lambda>d j. (Ok (committedResult (sv_ext V) j (audit_status V)),
         logged V (change_audit V ''update'' caller (findJob (s_jobs (disk_doc disk)) (j_id job)) j)))
      (\<lambda>e. (mutationFailure True e, []))"
  consider "disk' = disk" "\<forall>v. r \<noteq> Ok v" | expected sd dl where "?settle expected (update_patch args sd dl) = (disk', r, es)"
    using assms Inr by (auto simp: ss_update_def q rbind_eq_Inr split: if_splits sum.splits)
  then show ?thesis
  proof cases
    case 1
    then show ?thesis by (cases r) auto
  next
    case 2
    from settle_cases[OF this] consider d v where
        "updateJob (sv_ext V) (service_opts V) (ownershipGuard caller allowAny) (with_payload args) expected i (update_patch args sd dl) (disk_doc disk) = Inr (d, v)"
        "valid_doc d" "disk' = Some d" "r = Ok (committedResult (sv_ext V) v (audit_status V))"
      | e where "disk' = disk" "r = mutationFailure True e"
      using i by blast
    then show ?thesis
    proof cases
      case 1
      then show ?thesis
        unfolding 1(4) reply.case by (intro exI conjI)
    next
      case 2
      then have "\<forall>v. r \<noteq> Ok v" by simp
      then show ?thesis using 2(1) by (cases r) simp_all
    qed
  qed
qed

text \<open>What an update stores; one that does not name another agent keeps the agent.\<close>

lemma update_stores:
  assumes "updateJob X opts a (with_payload args) expected i (update_patch args sd dl) d = Inr (d', new)"
    and "findJob (s_jobs d) i = Some current"
  shows "j_id new = i" and "j_updatedAtMs new = no_nowMs opts" and "s_jobs d' = replaceFirst i (\<lambda>_. new) (s_jobs d)"
    and "\<not> names_target args \<Longrightarrow> j_agentId new = js_trim (j_agentId current)"
proof -
  obtain normalized where u: "normalize_job X (opts\<lparr>no_id := Some (j_id current), no_createdAtMs := Some (j_createdAtMs current)\<rparr>)
        (drop_field ''scheduleRevision'' (merge_obj (job_val current) (with_payload args current (update_patch args sd dl)))) = Inr normalized"
    "new = (revised (no_nowMs opts) current normalized)\<lparr>j_state := j_state new\<rparr>"
    "s_jobs d' = replaceFirst (j_id current) (\<lambda>_. new) (s_jobs d)"
    using updateJob_stored[OF assms(1)] assms(2) by (metis option.inject)
  have id: "j_id current = i"
    using assms(2) by (auto simp: findJob_def find_Some_iff)
  let ?v = "drop_field ''scheduleRevision'' (merge_obj (job_val current) (with_payload args current (update_patch args sd dl)))"
  have "j_id normalized = j_id current"
    using normalize_job_parts[OF u(1)] by (auto simp: job_id_for_def)
  moreover obtain st where st: "new = (revised (no_nowMs opts) current normalized)\<lparr>j_state := st\<rparr>"
    using u(2) by blast
  ultimately show "j_id new = i" "j_updatedAtMs new = no_nowMs opts"
    using id by (simp_all add: revised_def)
  show "s_jobs d' = replaceFirst i (\<lambda>_. new) (s_jobs d)"
    using u(3) id by simp
  assume "\<not> names_target args"
  then have "jget args ''target_agent_id'' = JUndef"
    by (simp add: names_target_def)
  then have "map_of (obj_fields (update_patch args sd dl)) ''agentId'' = None"
    by (simp add: update_patch_def given_def map_add_def split: option.split)
  then have "map_of (obj_fields (with_payload args current (update_patch args sd dl))) ''agentId'' = None"
    by (simp add: with_payload_def lookup_simps split: option.split)
  then have agent: "jget ?v ''agentId'' = JStr (j_agentId current)"
    by (simp add: jget_fields lookup_simps job_val_def)
  have "j_agentId normalized = js_trim (j_agentId current)"
    using normalize_job_parts[OF u(1)] by (auto simp: agent require_text_def normalizeOptionalText_def rbind_def split: if_splits)
  then show "j_agentId new = js_trim (j_agentId current)"
    by (simp add: st revised_def)
qed

lemma remove_outcome:
  assumes "ss_remove V args ctx disk = (disk', r, es)" and "targets_job args i" and "trustedCaller ctx = Some caller"
  shows "case r of Err _ \<Rightarrow> disk' = disk
    | Ok _ \<Rightarrow> \<exists>d. disk' = Some d \<and> valid_doc d \<and> s_jobs d = removeJob i (s_jobs (disk_doc disk))"
proof (cases "loadScopedJob V caller (jget args ''job_id'')")
  case (Inl code)
  then show ?thesis using assms by (auto simp: ss_remove_def)
next
  case (Inr q)
  obtain job allowAny where q: "q = (job, allowAny)" by (cases q)
  have i: "j_id job = i"
    using scoped_id Inr assms(2) by (simp add: q targets_job_def)
  show ?thesis
  proof (cases "expectedRevisionFromArgs args")
    case (Inl e)
    then have "disk' = disk" "\<forall>v. r \<noteq> Ok v"
      using assms \<open>loadScopedJob V caller (jget args ''job_id'') = Inr q\<close> by (auto simp: ss_remove_def q)
    then show ?thesis by (cases r) simp_all
  next
    case (Inr expected)
    let ?assert = "ownership_then_critical caller allowAny ''remove'' (loadCriticalInventory (sv_ext V) (sv_inventory V))"
    obtain done' where ok: "\<And>d v. fst (done' d v) = Ok (j_id job)" and run: "settle_mutation V disk (deleteJob ?assert expected (j_id job)) done' (guarded_failure V ''remove'' caller (j_id job)) = (disk', r, es)"
      using assms Inr \<open>loadScopedJob V caller (jget args ''job_id'') = Inr q\<close>
      by (simp add: ss_remove_def q) (rule that[rotated], assumption, simp)
    from settle_cases[OF run] consider d v where "deleteJob ?assert expected i (disk_doc disk) = Inr (d, v)" "valid_doc d" "disk' = Some d" "(r, es) = done' d v"
      | e where "disk' = disk" "(r, es) = guarded_failure V ''remove'' caller (j_id job) e"
      using i by blast
    then show ?thesis
    proof cases
      case 1
      then have "r = Ok (j_id job)"
        using ok by (metis fst_conv)
      then show ?thesis
        using 1 by (auto simp: deleteJob_def rbind_eq_Inr)
    next
      case 2
      then have "\<forall>v. r \<noteq> Ok v" by (auto simp: guarded_failure_def split: js_error.splits if_splits)
      then show ?thesis using 2(1) by (cases r) simp_all
    qed
  qed
qed

lemma valid_after:
  assumes "case r of Err _ \<Rightarrow> disk' = disk | Ok _ \<Rightarrow> \<exists>d. disk' = Some d \<and> valid_doc d \<and> P d" and "valid_disk disk"
  shows "valid_disk disk'"
  using assms by (cases r) (auto simp: valid_disk_def)

text \<open>The answer to a mutation whose response was lost.\<close>

definition lost_answer :: "ext \<Rightarrow> string list \<Rightarrow> string \<Rightarrow> jval \<Rightarrow> jval \<Rightarrow> sdoc option \<Rightarrow> relay_reply res" where
  "lost_answer X codes operation args ctx disk' = relay_mutation X codes operation args None (list_answer (relay_list_args args) ctx disk')"

lemma lost_answer_is: "lost_answer X codes operation args ctx disk'
    = rbind (reconcileAfterLostResponse X operation args (list_answer (relay_list_args args) ctx disk')) (\<lambda>a. Inr (relay_reply_of a))"
  by (simp add: lost_answer_def relay_mutation_def needs_reconcile_def)

end
