(* ===== verification/Relayed.thy ===== *)
theory Relayed
  imports RelayFacts Readings
begin

section \<open>The relay: the truth of its answers\<close>

text \<open>
  Which answers after a lost response are true and which are not, each on a concrete call, what the
  watchdog learns of the undecided ones, and that the list the relay decides from can be read at all.
\<close>

subsection \<open>Concrete calls\<close>

definition relay_job :: job where
  "relay_job = demo_job\<lparr>j_logicalKey := Some ''k2'', j_updatedAtMs := 5\<rparr>"

definition relay_doc :: sdoc where
  "relay_doc = \<lparr>s_jobs = [relay_job], s_occurrences = [], s_fences = []\<rparr>"

definition relay_service :: service where
  "relay_service = (demo_service 9)\<lparr>sv_before := Some relay_doc\<rparr>"

definition relay_args :: "int \<Rightarrow> jval" where
  "relay_args up = JObj [(''job_id'', JStr ''j1''), (''expected_revision'', JObj [(''schedule_revision'', JInt 1), (''updated_at_ms'', JInt up)])]"

lemma relay_job_fields [simp]:
  "j_id relay_job = ''j1''" "j_agentId relay_job = ''a1''" "j_logicalKey relay_job = Some ''k2''" "j_updatedAtMs relay_job = 5"
  "j_scheduleRevision relay_job = 1" "j_migrationRestoreBlocked relay_job = False" "j_createdAtMs relay_job = 0"
  by (simp_all add: relay_job_def demo_job_def)

lemma relay_doc_fields [simp]: "s_jobs relay_doc = [relay_job]" "s_occurrences relay_doc = []" "s_fences relay_doc = []"
  by (simp_all add: relay_doc_def)

lemma relay_valid [simp]: "valid_disk (Some relay_doc)" "disk_doc (Some relay_doc) = relay_doc"
  by (simp_all add: valid_disk_def disk_doc_def valid_doc_def ledger_ok_def rebuildFences_def)

lemma relay_args_facts [simp]:
  "targets_job (relay_args up) ''j1''" "expects (relay_args up) 1 up" "\<not> names_target (relay_args up)"
  "jget (relay_args up) ''expected_revision'' \<noteq> JUndef" "jget (relay_args up) ''job_id'' = JStr ''j1''"
  by (simp_all add: relay_args_def targets_job_def expects_def names_target_def)

lemma relay_found [simp]: "findJob [relay_job] ''j1'' = Some relay_job"
  by (simp add: findJob_def)

lemma relay_loaded: "loadScopedJob relay_service ''a1'' (JStr ''j1'') = Inr (relay_job, False)"
proof -
  have "loadDoc (Some relay_doc) = Inr relay_doc"
    using stored_document_loads[of relay_doc] relay_valid(1) by (simp add: valid_disk_def)
  then show ?thesis
    by (simp add: loadScopedJob_def relay_service_def)
qed

lemma relay_expected: "1 \<le> up \<Longrightarrow> up \<le> 1000 \<Longrightarrow> expectedRevisionFromArgs (relay_args up) = Inr (Some (1, up))"
  by (simp add: expectedRevisionFromArgs_def relay_args_def is_safe_int_def max_safe_def Let_def)

lemma relay_patch: "optional (jget (relay_args up) ''schedule_kind'' \<noteq> JUndef) a = Inr None" "optional (jget (relay_args up) ''delivery_mode'' \<noteq> JUndef) b = Inr None"
  "update_patch (relay_args up) None None = JObj []" "with_payload (relay_args up) = (\<lambda>_ p. p)"
  by (simp_all add: optional_def relay_args_def update_patch_def given_def with_payload_def payloadPatch_def Let_def fun_eq_iff)

lemma relay_update:
  assumes "1 \<le> up" and "up \<le> 1000"
  shows "ss_update relay_service (relay_args up) (context_of ''a1'') (Some relay_doc)
    = settle_mutation relay_service (Some relay_doc)
       (updateJob demo_ext (service_opts relay_service) (ownershipGuard ''a1'' False) (\<lambda>_ p. p) (Some (1, up)) ''j1'' (JObj []))
       (\<lambda>d j. (Ok (committedResult demo_ext j ''appended''), logged relay_service (change_audit relay_service ''update'' ''a1'' (Some relay_job) j)))
       (\<lambda>e. (mutationFailure True e, []))"
proof -
  have "sv_ext relay_service = demo_ext" "audit_status relay_service = ''appended''"
    by (simp_all add: relay_service_def demo_service_def audit_status_def)
  then show ?thesis
    using relay_expected[OF assms] by (simp add: ss_update_def relay_loaded relay_patch)
qed

text \<open>C29. A fabricated success: an update that the scheduler refuses because the caller had read an older
  revision is answered, when the refusal is lost, with the job as it is, like an applied update, although
  nothing was changed. (The next runs of the listed jobs are instants a date can hold.)\<close>

theorem stale_update_is_told_applied:
  assumes "trustedCaller ctx = Some caller" and "targets_job args i" and "expects args rv up"
    and "valid_disk disk" and "distinct (map j_id (s_jobs (disk_doc disk)))" and "findJob (s_jobs (disk_doc disk)) i = Some job"
    and "j_agentId job = caller" and "j_scheduleRevision job \<noteq> rv \<or> j_updatedAtMs job \<noteq> up" and "datable X (disk_doc disk)"
    and "ss_update V args ctx disk = (disk', Err ''stale_target_conflict'', es)"
  shows "disk' = disk \<and> (\<exists>v. lost_answer X codes ''update'' args ctx disk' = Inr (Relay_Result v) \<and> jget v ''jobId'' = JStr i)"
proof -
  have job: "job \<in> set (s_jobs (disk_doc disk))" "j_id job = i"
    using assms(6) by (auto simp: findJob_def find_Some_iff)
  have same: "disk' = disk"
    using update_outcome[OF assms(10,2,1)] by simp
  have "filter (\<lambda>j. j_id j = i \<and> j_agentId j = caller) (s_jobs (disk_doc disk)) = [job]"
    using filter_one[OF assms(5) job] assms(7) by simp
  then show ?thesis
    using relay_on_list[OF assms(1,4,2), of X "''update''"] decided_change[OF assms(3,9) job(1), of disk] job(2) assms(8)
    by (auto simp: same lost_answer_is relay_reply_of_def Let_def)
qed

theorem stale_update_is_told_applied_witness:
  "\<exists>es v. ss_update relay_service (relay_args 4) (context_of ''a1'') (Some relay_doc) = (Some relay_doc, Err ''stale_target_conflict'', es)
    \<and> lost_answer iso_ext [] ''update'' (relay_args 4) (context_of ''a1'') (Some relay_doc) = Inr (Relay_Result v) \<and> jget v ''jobId'' = JStr ''j1''"
proof -
  have "updateJob demo_ext (service_opts relay_service) (ownershipGuard ''a1'' False) (\<lambda>_ p. p) (Some (1, 4)) ''j1'' (JObj []) relay_doc
      = Inl (Coded_Error ''STALE_TARGET_CONFLICT'' ''stale target state for job j1'')"
    by (simp add: updateJob_def guarded_job_def requireJob_def checked_def ownershipGuard_def assertExpectedRevision_def)
  then have "mutateDoc (sv_write relay_service) (Some relay_doc) (updateJob demo_ext (service_opts relay_service) (ownershipGuard ''a1'' False) (\<lambda>_ p. p) (Some (1, 4)) ''j1'' (JObj []))
      = (Some relay_doc, Not_Committed (Coded_Error ''STALE_TARGET_CONFLICT'' ''stale target state for job j1''))"
    by (simp add: mutateDoc_def loadDocForMutation_iff[THEN iffD2, OF conjI[OF refl relay_valid(1)]])
  then have run: "ss_update relay_service (relay_args 4) (context_of ''a1'') (Some relay_doc) = (Some relay_doc, Err ''stale_target_conflict'', [])"
    by (simp add: relay_update settle_mutation_def mutationFailure_def)
  have "datable iso_ext (disk_doc (Some relay_doc))"
    by (simp add: datable_def relay_job_def empty_state_def)
  from stale_update_is_told_applied[OF _ relay_args_facts(1,2) relay_valid(1) _ _ _ _ this run, of "''a1''" relay_job "[]"]
  show ?thesis
    using run by auto
qed

lemma next_of_revised:
  "computeNextRunAtMsV2 demo_ext (revised 9 relay_job relay_job) [] 9 = Some (Some 60000)" "j_enabled (revised 9 relay_job relay_job)"
proof -
  let ?j = "revised 9 relay_job relay_job"
  show on: "j_enabled ?j"
    by (simp add: revised_def) (simp add: relay_job_def demo_job_def)
  have f: "j_schedule ?j = Every 60000 (Some 0)" "j_createdAtMs ?j = 0" "activationBoundary ?j = 9 \<or> activationBoundary ?j = 0"
    by (simp_all add: revised_def activationBoundary_def) (simp_all add: relay_job_def demo_job_def)
  have "naturalNextMs demo_ext ?j None 9 = Some 60000"
    using f by (auto simp: naturalNextMs_def Let_def is_every_def computeEveryNext_def nonzero_def)
  then show "computeNextRunAtMsV2 demo_ext ?j [] 9 = Some (Some 60000)"
    using on by (simp add: computeNextRunAtMsV2_def retryCandidate_def Let_def)
qed

text \<open>C28. What the relay answers about an update of the caller's own job whose response was lost, when the
  caller had read the job as it was and nobody else writes in between. A refused update is truly answered
  as not applied. A committed one is answered with the job, but for two cases in which it is falsely
  answered as not applied: the job belongs to another agent now (an administrator may hand it over), or
  the update was committed in the same millisecond as the change the caller had read and kept the schedule
  revision. (The next runs of the listed jobs are instants a date can hold.)\<close>

theorem lost_update_answer:
  assumes "trustedCaller ctx = Some caller" and "targets_job args i" and "expects args (j_scheduleRevision job) (j_updatedAtMs job)"
    and "valid_disk disk" and "distinct (map j_id (s_jobs (disk_doc disk)))"
    and "findJob (s_jobs (disk_doc disk)) i = Some job" and "j_agentId job = caller"
    and "ss_update V args ctx disk = (disk', r, es)" and "datable X (disk_doc disk')"
  shows "case r of
      Err _ \<Rightarrow> disk' = disk \<and> lost_answer X codes ''update'' args ctx disk' = Inr (Relay_Failure ''mutation_not_applied'')
    | Ok _ \<Rightarrow> \<exists>d new. disk' = Some d \<and> findJob (s_jobs d) i = Some new \<and> j_updatedAtMs new = sv_now V
        \<and> (if j_agentId new = caller \<and> (j_scheduleRevision new \<noteq> j_scheduleRevision job \<or> sv_now V \<noteq> j_updatedAtMs job)
           then \<exists>v. lost_answer X codes ''update'' args ctx disk' = Inr (Relay_Result v) \<and> jget v ''jobId'' = JStr i
           else lost_answer X codes ''update'' args ctx disk' = Inr (Relay_Failure ''mutation_not_applied''))
        \<and> (\<not> names_target args \<longrightarrow> j_agentId new = caller)"
proof -
  have job: "job \<in> set (s_jobs (disk_doc disk))" "j_id job = i"
    using assms(6) by (auto simp: findJob_def find_Some_iff)
  have trimmed: "js_trim caller = caller"
    using assms(1) by (auto simp: trustedCaller_def nonEmpty_def split: option.splits if_splits jval.splits)
  note outcome = update_outcome[OF assms(8,2,1)]
  show ?thesis
  proof (cases r)
    case (Err code)
    then have same: "disk' = disk"
      using outcome by simp
    have "filter (\<lambda>j. j_id j = i \<and> j_agentId j = caller) (s_jobs (disk_doc disk)) = [job]"
      using filter_one[OF assms(5) job] assms(7) by simp
    then show ?thesis
      using relay_on_list[OF assms(1,4,2), of X "''update''"] decided_change[OF assms(3,9), of job disk] job(1)
      by (simp add: Err same lost_answer_is relay_reply_of_def Let_def)
  next
    case (Ok c)
    then obtain d new a expected sd dl where d: "disk' = Some d" "valid_doc d"
      "updateJob (sv_ext V) (service_opts V) a (with_payload args) expected i (update_patch args sd dl) (disk_doc disk) = Inr (d, new)"
      using outcome by auto
    note new = update_stores[OF d(3) assms(6)]
    have at': "j_updatedAtMs new = sv_now V"
      using new(2) by (simp add: service_opts_def)
    have found: "findJob (s_jobs d) i = Some new"
      unfolding new(3) by (rule find_replaced[OF job new(1)])
    then have mem: "new \<in> set (s_jobs (disk_doc disk'))"
      by (auto simp: findJob_def find_Some_iff d(1) disk_doc_def)
    have valid: "valid_disk disk'"
      using d by (simp add: valid_disk_def)
    note on_list = relay_on_list[OF assms(1) valid assms(2), where X = X and operation = "''update''"]
    have keeps: "\<not> names_target args \<longrightarrow> j_agentId new = caller"
      using new(4) assms(7) trimmed by simp
    have answer: "if j_agentId new = caller \<and> (j_scheduleRevision new \<noteq> j_scheduleRevision job \<or> sv_now V \<noteq> j_updatedAtMs job)
           then \<exists>v. lost_answer X codes ''update'' args ctx disk' = Inr (Relay_Result v) \<and> jget v ''jobId'' = JStr i
           else lost_answer X codes ''update'' args ctx disk' = Inr (Relay_Failure ''mutation_not_applied'')"
    proof (cases "j_agentId new = caller")
      case True
      have "filter (\<lambda>j. j_id j = i \<and> j_agentId j = caller) (s_jobs d) = [new]"
        unfolding new(3) by (rule filter_replaced[OF assms(5) job]) (use new(1) True in simp_all)
      then show ?thesis
        using on_list decided_change[OF assms(3,9) mem, of disk'] new(1) at' True
        by (auto simp: d(1) disk_doc_def lost_answer_is relay_reply_of_def Let_def)
    next
      case False
      have "filter (\<lambda>j. j_id j = i \<and> j_agentId j = caller) (s_jobs d) = []"
        unfolding new(3) by (rule filter_replaced_out[OF assms(5)]) (use new(1) False in simp_all)
      then show ?thesis
        using on_list False assms(3)
        by (simp add: d(1) disk_doc_def lost_answer_is relay_reply_of_def Let_def decide_change_def expects_def)
    qed
    show ?thesis
      unfolding Ok reply.case using d(1) found at' answer keeps by blast
  qed
qed

theorem lost_update_answer_witness:
  "\<exists>disk' c es v. ss_update relay_service (relay_args 5) (context_of ''a1'') (Some relay_doc) = (disk', Ok c, es)
    \<and> lost_answer iso_ext [] ''update'' (relay_args 5) (context_of ''a1'') disk' = Inr (Relay_Result v) \<and> jget v ''jobId'' = JStr ''j1''"
proof -
  let ?opts = "service_opts relay_service"
  have wf: "wf_job demo_ext relay_job"
    using demo_job_wf by (simp add: relay_job_def wf_job_def wf_text_def js_trim_def is_ws_def demo_job_def is_safe_int_def max_safe_def)
  have obj: "obj_fields (merge_obj (job_val relay_job) (JObj [])) = obj_fields (job_val relay_job)"
    by (simp add: merge_obj_def)
  have "normalize_job demo_ext (?opts\<lparr>no_id := Some ''j1'', no_createdAtMs := Some 0\<rparr>)
      (drop_field ''scheduleRevision'' (merge_obj (job_val relay_job) (JObj []))) = Inr (relay_job\<lparr>j_scheduleRevision := 1\<rparr>)"
  proof (rule normalize_job_without_revision)
    show "normalize_job demo_ext (?opts\<lparr>no_id := Some ''j1'', no_createdAtMs := Some 0\<rparr>) (job_val relay_job) = Inr relay_job"
      using wf by (intro normalize_job_val) (simp_all add: relay_job_def demo_job_def)
    show "is_object (drop_field ''scheduleRevision'' (merge_obj (job_val relay_job) (JObj [])))"
      by (simp add: drop_field_def)
  qed (simp_all only: jget_fields lookup_simps obj, simp_all split: option.split)
  moreover have "relay_job\<lparr>j_scheduleRevision := 1\<rparr> = relay_job"
    by (simp add: relay_job_def demo_job_def)
  ultimately have n: "normalize_job demo_ext (?opts\<lparr>no_id := Some ''j1'', no_createdAtMs := Some 0\<rparr>)
      (drop_field ''scheduleRevision'' (merge_obj (job_val relay_job) (JObj []))) = Inr relay_job"
    by simp
  obtain st where st: "refreshJob demo_ext [] 9 (revised 9 relay_job relay_job) = Inr ((revised 9 relay_job relay_job)\<lparr>j_state := st\<rparr>)"
    using deriveJobStateSummary_returns[of "[]" demo_ext "revised 9 relay_job relay_job" 9] by (auto simp: refreshJob_def)
  have next_run: "st_nextRunAtMs st = Some 60000"
  proof -
    have "revised 9 relay_job relay_job\<lparr>j_state := empty_state\<lparr>st_nextRunAtMs := Some 60000\<rparr>\<rparr> = revised 9 relay_job relay_job\<lparr>j_state := st\<rparr>"
      using st next_of_revised by (simp add: refreshJob_def deriveJobStateSummary_def summary_of_def settledOccurrences_def Let_def)
    from arg_cong[where f = j_state, OF this] show ?thesis by auto
  qed
  have now: "no_nowMs ?opts = 9"
    by (simp add: service_opts_def relay_service_def demo_service_def)
  have "updateJob demo_ext ?opts (ownershipGuard ''a1'' False) (\<lambda>_ p. p) (Some (1, 5)) ''j1'' (JObj []) relay_doc
      = Inr (relay_doc\<lparr>s_jobs := [(revised 9 relay_job relay_job)\<lparr>j_state := st\<rparr>]\<rparr>, (revised 9 relay_job relay_job)\<lparr>j_state := st\<rparr>)"
    using n st by (simp add: updateJob_def guarded_job_def requireJob_def checked_def ownershipGuard_def assertExpectedRevision_def
        Let_def replaceFirst_def now)
  then have "mutateDoc Written (Some relay_doc) (updateJob demo_ext ?opts (ownershipGuard ''a1'' False) (\<lambda>_ p. p) (Some (1, 5)) ''j1'' (JObj []))
      = (Some (relay_doc\<lparr>s_jobs := [(revised 9 relay_job relay_job)\<lparr>j_state := st\<rparr>]\<rparr>),
         Committed (relay_doc\<lparr>s_jobs := [(revised 9 relay_job relay_job)\<lparr>j_state := st\<rparr>]\<rparr>) ((revised 9 relay_job relay_job)\<lparr>j_state := st\<rparr>))"
    by (intro mutateDoc_written) (simp_all add: valid_doc_def ledger_ok_def rebuildFences_def)
  moreover have written: "sv_write relay_service = Written"
    by (simp add: relay_service_def demo_service_def)
  note settled = calculation
  obtain disk' c es where run: "ss_update relay_service (relay_args 5) (context_of ''a1'') (Some relay_doc) = (disk', Ok c, es)"
    using settled written by (simp add: relay_update settle_mutation_def)
  have "sv_now relay_service = 9"
    by (simp add: relay_service_def demo_service_def)
  moreover have "datable iso_ext (disk_doc disk')"
    using run settled written next_run by (auto simp: relay_update settle_mutation_def datable_def disk_doc_def iso_in_range)
  ultimately show ?thesis
    using run lost_update_answer[where job = relay_job and codes = "[]" and X = iso_ext, OF _ relay_args_facts(1) _ relay_valid(1) _ _ _ run]
    by fastforce
qed

text \<open>The same for a removal of the caller's own job: the relay answers that it was removed exactly when
  the scheduler had committed the removal.\<close>

theorem lost_remove_is_told_truly:
  assumes "trustedCaller ctx = Some caller" and "targets_job args i" and "valid_disk disk"
    and "distinct (map j_id (s_jobs (disk_doc disk)))" and "findJob (s_jobs (disk_doc disk)) i = Some job" and "j_agentId job = caller"
    and "ss_remove V args ctx disk = (disk', r, es)"
  shows "lost_answer X codes ''remove'' args ctx disk' = Inr (case r of
      Ok _ \<Rightarrow> Relay_Result (JObj [(''removed'', JBool True), (''jobId'', JStr i), (''auditStatus'', JStr ''reconciled'')])
    | Err _ \<Rightarrow> Relay_Failure ''mutation_not_applied'')"
proof -
  have job: "job \<in> set (s_jobs (disk_doc disk))" "j_id job = i"
    using assms(5) by (auto simp: findJob_def find_Some_iff)
  note outcome = remove_outcome[OF assms(7,2,1)]
  have valid: "valid_disk disk'"
    using valid_after[OF outcome assms(3)] .
  have own: "filter (\<lambda>j. j_id j = i \<and> j_agentId j = caller) (s_jobs (disk_doc disk')) = (case r of Ok _ \<Rightarrow> [] | Err _ \<Rightarrow> [job])"
  proof (cases r)
    case (Ok c)
    then obtain d where "disk' = Some d" "s_jobs d = removeJob i (s_jobs (disk_doc disk))"
      using outcome by auto
    moreover have "filter (\<lambda>j. j_id j = i \<and> j_agentId j = caller) (removeJob i js) = []" if "distinct (map j_id js)" for js
      using that by (induction js) (auto simp: removeJob_def filter_empty_conv image_iff)
    ultimately show ?thesis
      using assms(4) by (simp add: Ok disk_doc_def)
  next
    case (Err code)
    then show ?thesis
      using outcome filter_one[OF assms(4) job] assms(6) by simp
  qed
  have "jget args ''job_id'' = JStr i"
    using assms(2) by (simp add: targets_job_def)
  then show ?thesis
    using relay_on_list[OF assms(1) valid assms(2), of X "''remove''"] own
    by (cases r) (simp_all add: lost_answer_is relay_reply_of_def decide_remove_def row_fields Let_def)
qed

theorem lost_remove_is_told_truly_witness:
  "\<exists>disk' c es. ss_remove relay_service (relay_args 5) (context_of ''a1'') (Some relay_doc) = (disk', Ok c, es)
    \<and> lost_answer iso_ext [] ''remove'' (relay_args 5) (context_of ''a1'') disk'
      = Inr (Relay_Result (JObj [(''removed'', JBool True), (''jobId'', JStr ''j1''), (''auditStatus'', JStr ''reconciled'')]))"
proof -
  have inv: "loadCriticalInventory (sv_ext relay_service) (sv_inventory relay_service) = Some [''k1'']"
    by (simp add: relay_service_def demo_service_def loadCriticalInventory_def parseCriticalInventory_def inventory_key_def js_trim_def is_ws_def rbind_def)
  have "deleteJob (ownership_then_critical ''a1'' False ''remove'' (Some [''k1''])) (Some (1, 5)) ''j1'' relay_doc = Inr (relay_doc\<lparr>s_jobs := []\<rparr>, ())"
    by (simp add: deleteJob_def guarded_job_def requireJob_def checked_def ownership_then_critical_def ownershipGuard_def guardFor_def
        evaluateCriticalJobGuard_def assertExpectedRevision_def removeJob_def)
  then have "mutateDoc Written (Some relay_doc) (deleteJob (ownership_then_critical ''a1'' False ''remove'' (Some [''k1''])) (Some (1, 5)) ''j1'')
      = (Some (relay_doc\<lparr>s_jobs := []\<rparr>), Committed (relay_doc\<lparr>s_jobs := []\<rparr>) ())"
    by (intro mutateDoc_written) (simp_all add: valid_doc_def ledger_ok_def rebuildFences_def)
  moreover have "sv_write relay_service = Written"
    by (simp add: relay_service_def demo_service_def)
  ultimately obtain disk' c es where run: "ss_remove relay_service (relay_args 5) (context_of ''a1'') (Some relay_doc) = (disk', Ok c, es)"
    using relay_expected[of 5] by (simp add: ss_remove_def relay_loaded inv settle_mutation_def)
  with lost_remove_is_told_truly[where job = relay_job and codes = "[]" and X = iso_ext, OF _ relay_args_facts(1) relay_valid(1) _ _ _ run]
  show ?thesis
    by fastforce
qed

text \<open>C30. The list shows only the caller's own jobs, so that the answer about a job of another agent does not
  depend on what happened: a removal that was refused is answered as done, and an update that an
  administrator got committed is answered as not applied.\<close>

theorem foreign_target_is_misreported:
  assumes "trustedCaller ctx = Some caller" and "targets_job args i" and "jget args ''expected_revision'' \<noteq> JUndef"
    and "valid_disk disk" and "\<And>j. j \<in> set (s_jobs (disk_doc disk)) \<Longrightarrow> j_id j = i \<Longrightarrow> j_agentId j \<noteq> caller"
  shows "(\<forall>V code es before. ss_remove V args ctx before = (disk, Err code, es) \<longrightarrow> before = disk \<and>
      lost_answer X codes ''remove'' args ctx disk
        = Inr (Relay_Result (JObj [(''removed'', JBool True), (''jobId'', JStr i), (''auditStatus'', JStr ''reconciled'')])))
    \<and> (\<forall>V c es before. ss_update V args ctx before = (disk, Ok c, es) \<longrightarrow>
      lost_answer X codes ''update'' args ctx disk = Inr (Relay_Failure ''mutation_not_applied''))"
proof -
  have none: "filter (\<lambda>j. j_id j = i \<and> j_agentId j = caller) (s_jobs (disk_doc disk)) = []"
    using assms(5) by (auto simp: filter_empty_conv)
  have i: "jget args ''job_id'' = JStr i"
    using assms(2) by (simp add: targets_job_def)
  have "lost_answer X codes ''remove'' args ctx disk
      = Inr (Relay_Result (JObj [(''removed'', JBool True), (''jobId'', JStr i), (''auditStatus'', JStr ''reconciled'')]))"
    using relay_on_list[OF assms(1,4,2), of X "''remove''"] none i
    by (simp add: lost_answer_is relay_reply_of_def decide_remove_def Let_def)
  moreover have "lost_answer X codes ''update'' args ctx disk = Inr (Relay_Failure ''mutation_not_applied'')"
    using relay_on_list[OF assms(1,4,2), of X "''update''"] none assms(3)
    by (simp add: lost_answer_is relay_reply_of_def decide_change_def Let_def)
  ultimately show ?thesis
    using remove_outcome[OF _ assms(2,1)] by fastforce
qed

theorem foreign_target_is_misreported_witness:
  "\<exists>es. ss_remove relay_service (relay_args 5) (context_of ''a2'') (Some relay_doc) = (Some relay_doc, Err ''access_denied'', es)
    \<and> lost_answer iso_ext [] ''remove'' (relay_args 5) (context_of ''a2'') (Some relay_doc)
      = Inr (Relay_Result (JObj [(''removed'', JBool True), (''jobId'', JStr ''j1''), (''auditStatus'', JStr ''reconciled'')]))"
proof -
  have "loadScopedJob relay_service ''a2'' (JStr ''j1'') = Inl ''access_denied''"
  proof -
    have "loadDoc (Some relay_doc) = Inr relay_doc"
      using stored_document_loads[of relay_doc] relay_valid(1) by (simp add: valid_disk_def)
    then show ?thesis
      by (simp add: loadScopedJob_def relay_service_def demo_service_def)
  qed
  then have "ss_remove relay_service (relay_args 5) (context_of ''a2'') (Some relay_doc) = (Some relay_doc, Err ''access_denied'', [])"
    by (simp add: ss_remove_def)
  with foreign_target_is_misreported[where ctx = "context_of ''a2''" and X = iso_ext and codes = "[]", OF _ relay_args_facts(1,4) relay_valid(1)]
  show ?thesis
    by fastforce
qed

text \<open>C31. An undecided outcome is answered as unknown, and it does not get lost once its line is in the
  evidence file: within a day the line becomes a finding of the first watchdog that names the operation
  and the reason, as long as every line of that day carries an instant a date can hold. A single line that
  does not, from whomever, silences all of them: the run then reports what it would report without any
  evidence.\<close>

theorem undecided_outcome_is_reported:
  assumes "reconcileAfterLostResponse X operation args answer = Inr (Still_Unknown reason)"
    and "set (evidence_of t operation args (Still_Unknown reason)) \<subseteq> set (wi_evidence i)" and "now - t \<le> EVIDENCE_WINDOW_MS"
  shows "relay_mutation X codes operation args None answer = Inr (Relay_Failure ''mutation_outcome_unknown'')
    \<and> (if list_all (\<lambda>e. to_iso X (evidence_entry.ev_ts e) \<noteq> None)
            (filter (\<lambda>e. now - evidence_entry.ev_ts e \<le> EVIDENCE_WINDOW_MS) (wi_evidence i))
       then \<exists>f \<in> set (w1_findings X now i). ft_class f = ''MUTATION_STILL_UNKNOWN'' \<and> ft_operation f = Some operation \<and> ft_reason f = Some reason
       else w1_findings X now i = w1_findings X now (i\<lparr>wi_evidence := []\<rparr>))"
proof -
  let ?lines = "filter (\<lambda>e. now - evidence_entry.ev_ts e \<le> EVIDENCE_WINDOW_MS) (wi_evidence i)"
  let ?fact = "\<lambda>e. rbind (isoTime X (evidence_entry.ev_ts e)) (\<lambda>t. Inr ((bare_fact ''MUTATION_STILL_UNKNOWN'')\<lparr>ft_operation := Some (evidence_entry.ev_operation e),
      ft_logicalKey := evidence_entry.ev_logicalKey e, ft_jobId := evidence_entry.ev_jobId e, ft_reason := Some (evidence_entry.ev_reason e), ft_evidenceAt := Some t\<rparr>))"
  have run: "evaluateReconciliationEvidence X now (wi_evidence i) = rmap ?fact ?lines"
    by (simp add: evaluateReconciliationEvidence_def)
  obtain e where e: "e \<in> set ?lines" "evidence_entry.ev_operation e = operation" "evidence_entry.ev_reason e = reason"
  proof
    let ?e = "\<lparr>evidence_entry.ev_ts = t, ev_operation = operation,
       ev_logicalKey = (if relay_key args \<noteq> JUndef then Some (str_val (relay_key args)) else None),
       ev_jobId = (if relay_key args = JUndef \<and> jget args ''job_id'' \<noteq> JUndef then Some (str_val (jget args ''job_id'')) else None),
       ev_reason = reason\<rparr>"
    show "?e \<in> set ?lines"
      using assms(2,3) by (simp add: evidence_of_def)
  qed simp_all
  have dated: "(\<exists>ys. rmap ?fact es = Inr ys) \<longleftrightarrow> list_all (\<lambda>e. to_iso X (evidence_entry.ev_ts e) \<noteq> None) es" for es
    by (induction es) (auto simp: isoTime_def rbind_def split: option.splits sum.splits)
  have "if list_all (\<lambda>e. to_iso X (evidence_entry.ev_ts e) \<noteq> None) ?lines
       then \<exists>f \<in> set (w1_findings X now i). ft_class f = ''MUTATION_STILL_UNKNOWN'' \<and> ft_operation f = Some operation \<and> ft_reason f = Some reason
       else w1_findings X now i = w1_findings X now (i\<lparr>wi_evidence := []\<rparr>)"
  proof (cases "rmap ?fact ?lines")
    case (Inl err)
    have jobs: "input_jobs (i\<lparr>wi_evidence := []\<rparr>) = input_jobs i"
      by (simp add: input_jobs_def)
    have "store_facts (i\<lparr>wi_evidence := []\<rparr>) = store_facts i" "desired_outcome X (i\<lparr>wi_evidence := []\<rparr>) = desired_outcome X i"
        "health_facts (i\<lparr>wi_evidence := []\<rparr>) x = health_facts i x" for x
      unfolding store_facts_def desired_outcome_def health_facts_def jobs by simp_all
    then show ?thesis
      using Inl dated[of ?lines] run by (simp add: w1_findings_def evaluateReconciliationEvidence_def)
  next
    case (Inr fs)
    obtain f where "f \<in> set fs" "ft_class f = ''MUTATION_STILL_UNKNOWN''" "ft_operation f = Some operation" "ft_reason f = Some reason"
      using rmap_image[OF Inr] e by (fastforce simp: rbind_eq_Inr bare_fact_def)
    then show ?thesis
      using Inr dated[of ?lines] run by (auto simp: w1_findings_def)
  qed
  then show ?thesis
    using assms(1) by (simp add: relay_mutation_def needs_reconcile_def relay_reply_of_def)
qed

theorem undecided_outcome_is_reported_witness:
  "\<exists>f \<in> set (w1_findings iso_ext 300000 \<lparr>wi_doc = Inr relay_doc, wi_desired = Inl ''x'', wi_health = Inl (Plain_Error ''x''),
      wi_evidence = evidence_of 200000 ''create'' (JObj [(''logical_key'', JStr ''k9'')]) (Still_Unknown ''read-back transport failed''),
      wi_credentialBytes = None, wi_credentialFile = [], wi_w2Age = None, wi_grace = 0\<rparr>).
    ft_class f = ''MUTATION_STILL_UNKNOWN'' \<and> ft_reason f = Some ''read-back transport failed''"
proof -
  let ?args = "JObj [(''logical_key'', JStr ''k9'')]"
  let ?i = "\<lparr>wi_doc = Inr relay_doc, wi_desired = Inl ''x'', wi_health = Inl (Plain_Error ''x''),
      wi_evidence = evidence_of 200000 ''create'' ?args (Still_Unknown ''read-back transport failed''),
      wi_credentialBytes = None, wi_credentialFile = [], wi_w2Age = None, wi_grace = 0\<rparr>"
  have "reconcileAfterLostResponse iso_ext ''create'' ?args None = Inr (Still_Unknown ''read-back transport failed'')"
    by (simp add: reconcileAfterLostResponse_def read_back_def)
  from undecided_outcome_is_reported[where i = ?i, OF this, of 200000 300000 "[]"]
  show ?thesis
    by (auto simp: EVIDENCE_WINDOW_MS_def evidence_of_def iso_in_range relay_key_def)
qed

text \<open>C32. What a mutation committed, or wrote without learning of it, is the result of its function on the
  document before, and the next reader gets it: the strict reader accepts the file and returns that very
  document, the tolerant one too, but for the mark of an unverifiable history of its records, which it
  clears.\<close>

theorem committed_document_loads:
  assumes "mutateDoc w disk f = (disk', m)" and "\<And>e. m \<noteq> Not_Committed e"
  shows "\<exists>d v. f (disk_doc disk) = Inr (d, v) \<and> (m = Committed d v \<or> (\<exists>e. m = Ack_Lost d v e))
    \<and> disk' = Some d \<and> loadDocForMutation disk' = Inr d
    \<and> loadDoc disk' = Inr (d\<lparr>s_occurrences := map unmarked (s_occurrences d)\<rparr>)"
proof -
  obtain d v where d: "f (disk_doc disk) = Inr (d, v)" "disk' = Some d" "valid_doc d" "m = Committed d v \<or> (\<exists>e. m = Ack_Lost d v e)"
    using mutateDoc_cases[OF assms(1)] assms(2) by auto
  then have "loadDocForMutation disk' = Inr d \<and> loadDoc disk' = Inr (d\<lparr>s_occurrences := map unmarked (s_occurrences d)\<rparr>)"
    using stored_document_loads by (simp add: loadDocForMutation_iff disk_doc_def valid_disk_def)
  then show ?thesis
    using d by blast
qed

theorem committed_document_loads_witness:
  "loadDoc (fst (mutateDoc (Lost_After ''disk'') None (\<lambda>d. Inr (relay_doc, ())))) = Inr relay_doc"
proof -
  have "validateDocument relay_doc = Inr relay_doc"
    using relay_valid(1) by (simp add: validateDocument_iff valid_disk_def)
  then have run: "mutateDoc (Lost_After ''disk'') None (\<lambda>d. Inr (relay_doc, ())) = (Some relay_doc, Ack_Lost relay_doc () (Plain_Error ''disk''))"
    by (simp add: mutateDoc_def loadDocForMutation_def)
  show ?thesis
    using committed_document_loads[OF run] by (simp add: run)
qed

end
