(* ===== verification/Spec2Isabelle.thy ===== *)
theory Spec2Isabelle
  imports Guarantees Contracts Decisions Wording Silences Quiet Keys HealthGuarantees Oversight Relayed
begin

text \<open>
  The scheduler of \<^verbatim>\<open>dsh-agent-core\<close>: a model of \<^verbatim>\<open>packages/scheduler/src\<close>, and of the relay through which
  agents change it, and what makes them correct.

  \<^bold>\<open>The program.\<close> The scheduler keeps one JSON document: the job definitions, a ledger of occurrences
  (one record per logical run of a job) and a map of fences. Every part of the system reads the
  document and changes it only through \<^verbatim>\<open>DocStore.mutateDoc\<close>, under a lock. The engine
  (\<^verbatim>\<open>scheduler.js\<close>, \<^verbatim>\<open>occurrence.js\<close>) chooses candidates, reserves an occurrence for each, invokes the
  agent, and writes the outcome back. An invocation whose result cannot be proved has an unknown outcome;
  while it is unresolved the job is fenced. Trusted readbacks of the router, a late result, the
  operator (\<^verbatim>\<open>control.js\<close>) or the automatic policy (\<^verbatim>\<open>auto-reconcile.js\<close>) may settle it, each of
  them with exact evidence and never by running the job again. The control operations
  create, clone, update, enable, disable and delete jobs. Beside the engine a watchdog looks at the
  document from outside (\<^verbatim>\<open>scripts/scheduler-watchdog.mjs\<close>): its findings are compiled into incidents by root
  cause, every incident is a durable record with a lifecycle, every transition of it puts a
  notification into an outbox, and a delivery run sends what a projection of the outbox lets through.
  The process of an agent reaches the self-service over a channel that may lose an answer; the relay of
  the broker (\<^verbatim>\<open>packages/broker/src/relay.js\<close>) then reads the jobs back and decides what to tell the agent,
  and leaves a line for the watchdog when it cannot.

  \<^bold>\<open>The theories\<close>, in the order of their imports:
  \<^item> \<open>Prelude\<close>: errors and results, updates of the first matching row (locale \<open>keyed_rows\<close>), decimals.
  \<^item> \<open>JsVal\<close>: untyped JavaScript values and the host functions (record \<open>ext\<close>).
  \<^item> \<open>Sha256\<close>: the digest behind the identifiers.
  \<^item> \<open>Schedule\<close> (\<^verbatim>\<open>schedule.js\<close>): at, every and cron schedules, next and previous slot, normalisation.
  \<^item> \<open>JobModel\<close> (\<^verbatim>\<open>job-model.js\<close>): the job record and \<open>normalize_job\<close>.
  \<^item> \<open>OccurrenceModel\<close> (\<^verbatim>\<open>occurrence-model.js\<close>): the record, its identity, the state machine, the
    validation, the fences; \<open>OccurrenceValidity\<close> holds its lemmas.
  \<^item> \<open>Eligibility\<close> (\<^verbatim>\<open>eligibility.js\<close>): retry and natural candidates, next run, job summary.
  \<^item> \<open>Store\<close> (\<^verbatim>\<open>store.js\<close>): the document, its validation, \<open>mutateDoc\<close>, the locale \<open>ledger_update\<close>.
  \<^item> \<open>Reservation\<close> (\<^verbatim>\<open>occurrence-reservation.js\<close>), \<open>Outcome\<close> (\<^verbatim>\<open>self-ops/invoker-outcome.js\<close>,
    \<^verbatim>\<open>watchdog/reconciliation.js\<close>), \<open>Engine\<close> (\<^verbatim>\<open>occurrence.js\<close>): the operations of the engine;
    \<open>EngineInvariant\<close>: the invariant they keep, and that they commit.
  \<^item> \<open>Control\<close> (\<^verbatim>\<open>control.js\<close>), \<open>AutoReconcile\<close> (\<^verbatim>\<open>auto-reconcile.js\<close>), \<open>SlotAccounting\<close>
    (\<^verbatim>\<open>watchdog/slot-accounting.js\<close>, \<^verbatim>\<open>watchdog/admission-isolation.js\<close>), \<open>Tick\<close> (\<^verbatim>\<open>scheduler.js\<close>).
  \<^item> \<open>Growth\<close>: the ledger only grows. \<open>System\<close>: the step relation \<open>sys_step\<close> of all components on
    the shared document, its reachable states and their invariant; a run (\<open>runOccurrence\<close>) consults the
    environment about each of its three writes, the write of the outcome, of a trusted termination and of
    the crash guard. \<open>Settlement\<close>: what a run leaves behind for every fate of these writes.
  \<^item> \<open>SelfOps\<close> (\<^verbatim>\<open>self-ops/index.js\<close>): what an agent may settle and see of its own runs; \<open>Diagnosis\<close>
    (\<^verbatim>\<open>self-ops/diagnosis.js\<close>): why a slot of a job did or did not run. \<open>SelfService\<close>
    (\<^verbatim>\<open>self-service/\<close>): the agent-facing creation, change, removal and listing of jobs, with the guards
    of ownership and of critical jobs. \<open>Isolation\<close> (\<^verbatim>\<open>watchdog/admission-isolation.js\<close>): the handler of
    admission failures. Replies keep their codes; the sentences beside them are left out or are
    constructors. \<open>Services\<close>: the properties of these four.
  \<^item> \<open>Contracts\<close>: the properties of schedules, the job model, records, the store and the control
    operations. \<open>Decisions\<close>: those of the automatic policy, the tick and the accounting of slots.
  \<^item> \<open>Incidents\<close> (\<^verbatim>\<open>watchdog/incident-compiler.js\<close>, \<^verbatim>\<open>watchdog/incident-lifecycle.js\<close>): findings, root causes,
    incidents, transitions. \<open>IncidentStore\<close> (\<^verbatim>\<open>watchdog/durable-state.js\<close>, \<^verbatim>\<open>watchdog/delivery.js\<close>): which
    states and which steps of the incident file are accepted, binding and marking a notification.
    \<open>Wording\<close> (\<^verbatim>\<open>watchdog/delivery.js\<close>): the text of a notification. \<open>Projection\<close>
    (\<^verbatim>\<open>watchdog/delivery-projection.js\<close>): which notifications reach the user. \<open>Notify\<close>
    (\<^verbatim>\<open>watchdog/routing.js\<close>, \<^verbatim>\<open>processIncidentNotifications\<close> of \<^verbatim>\<open>scripts/scheduler-watchdog.mjs\<close>): the
    routing manifest, the route of a notification, and the delivery run with the trace of its effects;
    \<open>feishuAlert\<close> makes up to three attempts and \<open>deliverOrPark\<close> leaves one \<open>Sent\<close> in the trace for each POST.
  \<^item> \<open>IncidentValidity\<close>: the invariant of the incident state, and that every transition keeps it;
    \<open>IncidentRuns\<close>: what the compiler returns, and that what a run computes can be committed;
    \<open>NotifyRuns\<close> and \<open>Alerts\<close>: what one notification and a whole run do to the state, the file and the
    outside world. \<open>Watchdog\<close>, \<open>Silences\<close>, \<open>Quiet\<close> and \<open>Keys\<close>: the properties.
  \<^item> \<open>Health\<close> (\<^verbatim>\<open>watchdog/health.js\<close>, \<^verbatim>\<open>production-runtime/src/scheduler/health-runtime.js\<close>): five files
    are read until none changed meanwhile, the document is validated again, every enabled job gets a row
    with its class and its findings, and a caller sees the rows of its own jobs. \<open>Detectors\<close>
    (\<^verbatim>\<open>watchdog/index.js\<close>, \<^verbatim>\<open>runW1\<close> and \<^verbatim>\<open>runW2\<close> of \<^verbatim>\<open>scripts/scheduler-watchdog.mjs\<close>): the comparison with the
    desired jobs, the probes, and the findings of a run. \<open>HealthFacts\<close>, \<open>Closing\<close> and \<open>Vigilance\<close>: what a
    complete reading contains, how an incident about a run closes for good, which finding leads to which
    incident; \<open>Readings\<close>: concrete files; \<open>HealthGuarantees\<close> and \<open>Oversight\<close>: the properties, the
    latter those that join the document, its health, the findings and the incidents.
  \<^item> \<open>Relay\<close> (\<^verbatim>\<open>packages/broker/src/relay.js\<close>, \<^verbatim>\<open>scheduler-mutation-result.js\<close>): which answers to a
    mutation count, and what the relay decides from a list when none arrived. \<open>Loading\<close>: the tolerant
    reader accepts whatever was committed; \<open>RelayFacts\<close>: what the list shows of a document and what a
    mutation leaves in it; \<open>Relayed\<close>: which answers of the relay are true, and which are not. The list can
    be printed only if the instants in it are ones a date can hold (\<open>datable\<close>; \<^verbatim>\<open>toISOString\<close> throws on any
    other), and the witnesses use a printer with that range (\<open>iso_ext\<close>).
  \<^item> \<open>Examples\<close>: the concrete job and documents of the witnesses. \<open>Guarantees\<close> and this theory:
    the properties.

  \<^bold>\<open>State.\<close> \<open>sdoc\<close> is the document. A mutation is a function from the latest document to an exception
  or the next document; \<open>mutateDoc\<close> validates the result and writes it, and the environment decides
  whether the write is lost, done, or done without acknowledgement. The clock is an argument of every
  operation. \<open>ext\<close> holds what is not code of the repository: the cron evaluator \<^verbatim>\<open>croner\<close>, the host's
  time zone, \<^verbatim>\<open>Date\<close> parsing and printing, and the printing of fractions. The invoker, the router and
  the agent definitions are arguments whose every value is allowed. For the watchdog these are the
  protected manifest, the search in the chat history and what becomes of each of the three attempts to
  send (record \<open>answers\<close>), the
  order of \<^verbatim>\<open>localeCompare\<close>, the contents of the files at each attempt (record \<open>files\<close>), and the presence of the migration backups. The coherence check and the run
  take the wording of a notification as an argument; the code's is \<open>stableNotificationText\<close>. That no two
  notifications of one file have the same SHA-256 key is the hypothesis \<open>collision_free\<close>.

  \<^bold>\<open>Loops.\<close> The search for a staggered cron slot is bounded as in the code (four attempts). The backward
  walk over a retry chain is a \<open>partial_function\<close>: it returns whenever the ledger is ordered, which is
  part of the invariant. The other loops are structural.

  \<^bold>\<open>Not modelled.\<close> \<^verbatim>\<open>evaluateRunHealth\<close> and \<^verbatim>\<open>formatFindings\<close> of \<^verbatim>\<open>watchdog/index.js\<close>, which no run calls any
  more; of the health view the provenance that is copied into the answer and the fields no stored job
  has (\<^verbatim>\<open>runPolicy\<close>, \<^verbatim>\<open>lastExpectedAtMs\<close>); the migration of the legacy alert state, owner and mode checks of the watchdog's files, the HTTP calls to
  the message provider, its dry-run switch, the evidence log, and the other watchdog: a delivery run
  commits against the file it left itself, so that the generation mismatch and the lock contention which a
  concurrent writer causes (and which end the run) do not occur in it. Timers, the engine lease and the file lock (a mutation is atomic here, as under the
  lock), the file system below \<^verbatim>\<open>mutateDoc\<close>, the evidence log and logging, text of log messages,
  the modification-time cache in front of the document, job ids that are names of \<^verbatim>\<open>Object.prototype\<close> in
  the fence map (ids are UUIDs), the advance of the clock between the writes of one run (they carry one
  instant), double rounding (numbers are exact, which agrees with the code on integers up to \<open>2 ^ 53\<close>), the
  migrations of older store versions; of the relay the sends between sessions and the detail sentences;
  and the packages around the scheduler, which are adapters over
  processes, HTTP and the file system.
\<close>

section \<open>Whole histories\<close>

text \<open>C1. In every state that any interleaving of the engine, the control operations, the operator, the
  automatic policy and the consultations can reach, whatever happened to the writes, the file on disk
  validates, no job has two occurrences in flight, no instant in the ledger lies after the clock, and
  the fences are up exactly for the jobs with an unresolved unknown outcome.\<close>

theorem reachable_documents_are_sound:
  assumes "reachable S s" and "y_disk s = Some d"
  shows "validateDocument d = Inr d \<and> distinct (map o_jobId (filter (\<lambda>r. o_state r = Admitted \<or> o_state r = Running) (s_occurrences d)))
    \<and> list_all (\<lambda>r. h_at (last (o_history r)) \<le> y_clock s) (s_occurrences d)
    \<and> list_all (\<lambda>j. fenced (s_fences d) (j_id j) = list_ex (\<lambda>r. isUnresolvedUnknown r \<and> o_jobId r = j_id j) (s_occurrences d)) (s_jobs d)"
proof -
  have inv: "engine_inv (y_clock s) d"
    using reachable_inv[OF assms(1)] assms(2) by (simp add: sys_inv_def doc_inv_def)
  have "distinct (map o_jobId (filter in_flight (s_occurrences d)))"
    using inv flight_distinct by (simp add: engine_inv_def ledger_inv_def)
  then show ?thesis
    using inv by (auto simp: engine_inv_def ledger_inv_def validateDocument_iff valid_doc_fenced list_all_iff list_ex_iff
        record_inv_def in_flight_def[abs_def])
qed

theorem reachable_documents_are_sound_witness:
  "\<exists>s d. reachable demo_seams s \<and> y_disk s = Some d \<and> map j_id (s_jobs d) = [''j1''] \<and> validateDocument d = Inr d"
proof -
  obtain d where d: "reachable demo_seams \<lparr>y_clock = 0, y_disk = Some d\<rparr>" "map j_id (s_jobs d) = [''j1'']"
    using demo_reachable by (elim exE conjE)
  have "y_disk \<lparr>y_clock = 0, y_disk = Some d\<rparr> = Some d" by simp
  from reachable_documents_are_sound[OF d(1) this] have "validateDocument d = Inr d" by (rule conjunct1)
  with d show ?thesis
    by (intro exI[of _ "\<lparr>y_clock = 0, y_disk = Some d\<rparr>"] exI[of _ d]) simp
qed

text \<open>C2. Across any number of steps the ledger only grows: every record of the file is still there,
  with the same identity, its history extended, its state moved only along the transitions of the state
  machine; and a record that had succeeded or failed is still exactly the same record.\<close>

theorem history_is_append_only:
  assumes "(sys_step S)\<^sup>*\<^sup>* s s'" and "r \<in> set (s_occurrences (disk_doc (y_disk s)))"
  shows "\<exists>r' \<in> set (s_occurrences (disk_doc (y_disk s'))). same_identity r r' \<and> prefix (o_history r) (o_history r')
    \<and> canTransition\<^sup>*\<^sup>* (o_state r) (o_state r') \<and> (o_state r = Succeeded \<or> o_state r = Failed \<longrightarrow> r' = r)"
proof -
  obtain r' where r': "r' \<in> set (s_occurrences (disk_doc (y_disk s')))" "advances r r'"
    by (rule extends_member[OF steps_extend[OF assms(1)] assms(2)])
  then show ?thesis
    by (auto simp: advances_def isTerminalState_def)
qed

theorem history_is_append_only_witness:
  "\<exists>s'. (sys_step demo_seams)\<^sup>*\<^sup>* \<lparr>y_clock = 130000, y_disk = Some admitted_doc\<rparr> s'
    \<and> (\<exists>r' \<in> set (s_occurrences (disk_doc (y_disk s'))). same_identity demo_record r' \<and> prefix (o_history demo_record) (o_history r'))
    \<and> s_occurrences (disk_doc (y_disk s')) = [unknown_record]"
proof -
  have "sys_step demo_seams \<lparr>y_clock = 130000, y_disk = Some admitted_doc\<rparr> \<lparr>y_clock = 200000, y_disk = Some unknown_doc\<rparr>"
    by (rule demo_crash_step)
  then have "(sys_step demo_seams)\<^sup>*\<^sup>* \<lparr>y_clock = 130000, y_disk = Some admitted_doc\<rparr> \<lparr>y_clock = 200000, y_disk = Some unknown_doc\<rparr>"
    by blast
  from history_is_append_only[OF this, of demo_record] this unknown_facts(2) show ?thesis
    by (intro exI[of _ "\<lparr>y_clock = 200000, y_disk = Some unknown_doc\<rparr>"]) (auto simp: disk_doc_def admitted_doc_def)
qed

end
